(* ===== verification/Prelude.thy ===== *)
theory Prelude
  imports Complex_Main "HOL-Library.AList" "HOL-Library.Char_ord" "HOL-Library.List_Lexorder"
    "HOL-Library.Product_Lexorder"
begin

text \<open>
  What the components share: Python's exceptions as values, the error monad in which every
  function that can raise is written, Python's string, sequence and dictionary operations as
  far as the sources use them, and the lemma collections of the development.

  A Python \<^verbatim>\<open>str\<close> is a \<^typ>\<open>string\<close>, that is a list of code points below 256 (Isabelle's
  \<^typ>\<open>char\<close>); a Python \<^verbatim>\<open>bytes\<close> is the same type read as bytes. A \<^verbatim>\<open>dict\<close> is an association list
  in insertion order: \<^const>\<open>AList.update\<close> overwrites in place and appends a new key at the end,
  as Python does. A \<^verbatim>\<open>UUID\<close> is its canonical text. An instant is the number of microseconds since
  the epoch.
\<close>

named_theorems gate_simps "unfolding rules of the decision functions"
named_theorems valid_simps "unfolding rules of the model validators"
named_theorems valid_intros "introduction rules for well-formedness invariants"

section \<open>Exceptions as values\<close>

datatype py_error =
    ValueError string
  | ValidationError string \<comment> \<open>pydantic: a field constraint or an after-validator rejected the input\<close>
  | RuntimeError string
  | KeyError string
  | TypeError string
  | AttributeError string
  | RedisError string
  | UniqueViolation string \<comment> \<open>psycopg: a unique constraint of the database\<close>
  | AssertionError string
  | OverflowError string
  | ObjectIntegrityError string
  | ObjectAlreadyExistsError string
  | ObjectNotFoundError string
  | TEDEFormsParseError string
  | TEDSourceRetrievalError string
  | SourceRetrievalError string
  | LookupError string
  | OSError string
  | ProcurementLifecycleError string
  | ProcurementAdmissionRehearsalError string
  | DocumentIntegrityError string
  | DocumentSecurityError string
  | ModelProposalError string
  | AdmissionIntegrityError string
  | AdmissionPolicyError string
  | DatabaseError string string \<comment> \<open>psycopg: the class (\<^verbatim>\<open>RaiseException\<close>, \<^verbatim>\<open>CheckViolation\<close>, ...) and the message\<close>
  | HTTPException nat string

type_synonym 'a result = "py_error + 'a"

text \<open>The exception monad: the first exception wins.\<close>

definition bindE :: "'e + 'a \<Rightarrow> ('a \<Rightarrow> 'e + 'b) \<Rightarrow> 'e + 'b" where
  "bindE m k = (case m of Inl e \<Rightarrow> Inl e | Inr x \<Rightarrow> k x)"

lemma bindE_Inl [simp]: "bindE (Inl e) k = Inl e"
  by (simp add: bindE_def)

lemma bindE_Inr [simp]: "bindE (Inr x) k = k x"
  by (simp add: bindE_def)

lemma bindE_eq_Inr: "bindE m k = Inr y \<longleftrightarrow> (\<exists>x. m = Inr x \<and> k x = Inr y)"
  by (cases m) auto

lemma bindE_eq_Inl: "bindE m k = Inl e \<longleftrightarrow> m = Inl e \<or> (\<exists>x. m = Inr x \<and> k x = Inl e)"
  by (cases m) auto

lemma bindE_assoc: "bindE (bindE m f) g = bindE m (\<lambda>x. bindE (f x) g)"
  by (cases m) auto

definition is_ok :: "'e + 'a \<Rightarrow> bool" where
  "is_ok r = (case r of Inl _ \<Rightarrow> False | Inr _ \<Rightarrow> True)"

lemma is_ok_simps [simp]: "is_ok (Inl e) = False" "is_ok (Inr x) = True"
  by (simp_all add: is_ok_def)

lemma is_ok_iff: "is_ok r \<longleftrightarrow> (\<exists>x. r = Inr x)"
  by (cases r) auto

text \<open>\<^verbatim>\<open>tuple(f(x) for x in xs)\<close> and a loop that threads its state through a body that may raise.\<close>

fun mapE :: "('a \<Rightarrow> 'e + 'b) \<Rightarrow> 'a list \<Rightarrow> 'e + 'b list" where
  "mapE f [] = Inr []"
| "mapE f (x # xs) = bindE (f x) (\<lambda>y. bindE (mapE f xs) (\<lambda>ys. Inr (y # ys)))"

fun foldE :: "('s \<Rightarrow> 'a \<Rightarrow> 'e + 's) \<Rightarrow> 's \<Rightarrow> 'a list \<Rightarrow> 'e + 's" where
  "foldE f s [] = Inr s"
| "foldE f s (x # xs) = bindE (f s x) (\<lambda>t. foldE f t xs)"

lemma mapE_Inr_list_all2: "mapE f xs = Inr ys \<Longrightarrow> list_all2 (\<lambda>x y. f x = Inr y) xs ys"
  by (induction xs arbitrary: ys) (auto simp: bindE_eq_Inr)

lemma mapE_length: "mapE f xs = Inr ys \<Longrightarrow> length ys = length xs"
  by (induction xs arbitrary: ys) (auto simp: bindE_eq_Inr)

lemma mapE_elem: "mapE f xs = Inr ys \<Longrightarrow> y \<in> set ys \<Longrightarrow> \<exists>x\<in>set xs. f x = Inr y"
  by (induction xs arbitrary: ys) (auto simp: bindE_eq_Inr)

lemma mapE_map: "(\<And>x. x \<in> set xs \<Longrightarrow> f x = Inr (g x)) \<Longrightarrow> mapE f xs = Inr (map g xs)"
  by (induction xs) auto

lemma foldE_append: "foldE f s (xs @ ys) = bindE (foldE f s xs) (\<lambda>t. foldE f t ys)"
  by (induction xs arbitrary: s) (auto simp: bindE_assoc)

text \<open>A loop keeps what its body keeps: the shape of every invariant proof over a fold.\<close>

lemma foldE_invariant:
  assumes "foldE f s xs = Inr t" and "I s"
    and "\<And>s x t. x \<in> set xs \<Longrightarrow> I s \<Longrightarrow> f s x = Inr t \<Longrightarrow> I t"
  shows "I t"
  using assms
proof (induction xs arbitrary: s)
  case Nil
  then show ?case by simp
next
  case (Cons x xs)
  from Cons.prems(1) obtain u where u: "f s x = Inr u" "foldE f u xs = Inr t"
    by (auto simp: bindE_eq_Inr)
  show ?case
  proof (rule Cons.IH [OF u(2)])
    show "I u" using Cons.prems(2,3) u(1) by auto
  qed (use Cons.prems(3) in auto)
qed

text \<open>Which exceptions a computation can raise.\<close>

definition raises_only :: "('e \<Rightarrow> bool) \<Rightarrow> 'e + 'a \<Rightarrow> bool" where
  "raises_only P m = (case m of Inl e \<Rightarrow> P e | Inr _ \<Rightarrow> True)"

named_theorems raises_intros "introduction rules for raises_only"

lemma raises_only_Inr [raises_intros]: "raises_only P (Inr x)"
  by (simp add: raises_only_def)

lemma raises_only_Inl [raises_intros]: "P e \<Longrightarrow> raises_only P (Inl e)"
  by (simp add: raises_only_def)

lemma raises_only_bindE [raises_intros]:
  "raises_only P m \<Longrightarrow> (\<And>x. m = Inr x \<Longrightarrow> raises_only P (k x)) \<Longrightarrow> raises_only P (bindE m k)"
  by (cases m) (auto simp: raises_only_def)

lemma raises_only_if [raises_intros]:
  "(b \<Longrightarrow> raises_only P m) \<Longrightarrow> (\<not> b \<Longrightarrow> raises_only P m') \<Longrightarrow> raises_only P (if b then m else m')"
  by simp

lemma raises_only_option [raises_intros]:
  "(x = None \<Longrightarrow> raises_only P m) \<Longrightarrow> (\<And>y. x = Some y \<Longrightarrow> raises_only P (k y)) \<Longrightarrow>
    raises_only P (case x of None \<Rightarrow> m | Some y \<Rightarrow> k y)"
  by (cases x) auto

lemma raises_only_prod [raises_intros]:
  "(\<And>a b. p = (a, b) \<Longrightarrow> raises_only P (k a b)) \<Longrightarrow> raises_only P (case p of (a, b) \<Rightarrow> k a b)"
  by (cases p) auto

lemma raises_only_foldE [raises_intros]:
  "(\<And>s x. x \<in> set xs \<Longrightarrow> raises_only P (f s x)) \<Longrightarrow> raises_only P (foldE f s xs)"
proof (induction xs arbitrary: s)
  case (Cons x xs)
  show ?case unfolding foldE.simps
    by (intro raises_only_bindE Cons.IH) (use Cons.prems in auto)
qed (simp add: raises_only_Inr)

lemma raises_only_mapE [raises_intros]:
  "(\<And>x. x \<in> set xs \<Longrightarrow> raises_only P (f x)) \<Longrightarrow> raises_only P (mapE f xs)"
proof (induction xs)
  case (Cons x xs)
  show ?case unfolding mapE.simps
    by (intro raises_only_bindE raises_only_Inr Cons.IH) (use Cons.prems in auto)
qed (simp add: raises_only_Inr)

lemma raises_onlyD: "raises_only P m \<Longrightarrow> m = Inl e \<Longrightarrow> P e"
  by (simp add: raises_only_def)

lemma raises_only_mono: "raises_only P m \<Longrightarrow> (\<And>e. P e \<Longrightarrow> Q e) \<Longrightarrow> raises_only Q m"
  by (cases m) (auto simp: raises_only_def)

section \<open>Sequences and sets\<close>

text \<open>\<^verbatim>\<open>dict.fromkeys(xs)\<close> as a sequence: each element once, in the order of first occurrence.\<close>

fun unique_first :: "'a list \<Rightarrow> 'a list" where
  "unique_first [] = []"
| "unique_first (x # xs) = x # filter (\<lambda>y. y \<noteq> x) (unique_first xs)"

lemma set_unique_first [simp]: "set (unique_first xs) = set xs"
  by (induction xs) auto

lemma distinct_unique_first [simp]: "distinct (unique_first xs)"
  by (induction xs) auto

lemma unique_first_id: "distinct xs \<Longrightarrow> unique_first xs = xs"
  by (induction xs) (auto simp: filter_id_conv)

text \<open>The association-list reading of dictionaries.\<close>

definition dict_get :: "(string \<times> 'v) list \<Rightarrow> string \<Rightarrow> 'v option" where
  "dict_get d k = map_of d k"

definition dict_put :: "(string \<times> 'v) list \<Rightarrow> string \<Rightarrow> 'v \<Rightarrow> (string \<times> 'v) list" where
  "dict_put d k v = AList.update k v d"

lemma dict_get_put: "dict_get (dict_put d k v) k' = (if k' = k then Some v else dict_get d k')"
  by (simp add: dict_get_def dict_put_def update_conv)

lemma dict_get_Nil [simp]: "dict_get [] k = None"
  by (simp add: dict_get_def)

lemma dict_put_keys: "fst ` set (dict_put d k v) = insert k (fst ` set d)"
  by (simp add: dict_put_def dom_update)

lemma dict_put_fresh: "dict_get d k = None \<Longrightarrow> dict_put d k v = d @ [(k, v)]"
  unfolding dict_get_def dict_put_def by (induction d) (auto split: if_splits)

lemma dict_put_distinct: "distinct (map fst d) \<Longrightarrow> distinct (map fst (dict_put d k v))"
  by (simp add: dict_put_def distinct_update)

end
