(* ===== verification/Interfaces.thy ===== *)
theory Interfaces
  imports Prelude
begin

text \<open>
  The interfaces components rely on, as locales: the operations a client calls and the laws the
  provider promises. Each is interpreted on the model's own definitions in the theory of the
  component that provides it.
\<close>

section \<open>A store keyed by an idempotency key\<close>

text \<open>
  A commit under a key already present returns what is stored and changes nothing; a commit that
  raises changes nothing; a commit that succeeds makes its key present; no commit touches another
  key; every commit keeps the store's invariant.
\<close>

locale idempotent_store =
  fixes lookup :: "'s \<Rightarrow> 'k \<Rightarrow> 'r option"
    and commit :: "'s \<Rightarrow> 'k \<Rightarrow> 'c \<Rightarrow> ('e + 'r) \<times> 's"
    and invar :: "'s \<Rightarrow> bool"
  assumes commit_hit: "lookup s k = Some r \<Longrightarrow> commit s k c = (Inr r, s)"
    and commit_failed: "commit s k c = (Inl e, t) \<Longrightarrow> t = s"
    and commit_stored: "commit s k c = (Inr r, t) \<Longrightarrow> lookup t k \<noteq> None"
    and commit_frame: "commit s k c = (x, t) \<Longrightarrow> k' \<noteq> k \<Longrightarrow> lookup t k' = lookup s k'"
    and commit_invar: "invar s \<Longrightarrow> commit s k c = (x, t) \<Longrightarrow> invar t"
begin

definition step :: "'s \<Rightarrow> 'k \<times> 'c \<Rightarrow> 's" where
  "step s kc = snd (commit s (fst kc) (snd kc))"

lemma commit_stable:
  assumes "lookup s k = Some r" and "commit s k' c = (x, t)"
  shows "lookup t k = Some r"
proof (cases "k' = k")
  case True
  with assms commit_hit [OF assms(1)] show ?thesis by simp
next
  case False
  with assms commit_frame [OF assms(2), of k] show ?thesis by simp
qed

lemma step_stable: "lookup s k = Some r \<Longrightarrow> lookup (step s kc) k = Some r"
  unfolding step_def by (rule commit_stable) (auto intro: prod.collapse [symmetric])

lemma run_stable: "lookup s k = Some r \<Longrightarrow> lookup (foldl step s kcs) k = Some r"
  by (induction kcs arbitrary: s) (auto intro: step_stable)

lemma run_invar: "invar s \<Longrightarrow> invar (foldl step s kcs)"
proof (induction kcs arbitrary: s)
  case (Cons kc kcs)
  have "invar (step s kc)"
    unfolding step_def using Cons.prems by (rule commit_invar) (rule prod.collapse [symmetric])
  with Cons.IH show ?case by simp
qed simp

text \<open>Whatever is committed in between, a later commit under the key returns what was stored.\<close>

lemma replay_after_run:
  assumes "lookup t k = Some r"
  shows "commit (foldl step t kcs) k c = (Inr r, foldl step t kcs)"
  by (rule commit_hit) (rule run_stable [OF assms])

end

section \<open>A first-in first-out queue\<close>

text \<open>Jobs leave the queue in the order they were pushed, each once.\<close>

locale fifo_queue =
  fixes push :: "'q \<Rightarrow> 'j \<Rightarrow> 'q"
    and pop :: "'q \<Rightarrow> ('j \<times> 'q) option"
    and items :: "'q \<Rightarrow> 'j list"
  assumes items_push: "items (push q j) = items q @ [j]"
    and pop_empty: "items q = [] \<Longrightarrow> pop q = None"
    and pop_first: "items q = j # js \<Longrightarrow> \<exists>q'. pop q = Some (j, q') \<and> items q' = js"
begin

lemma pop_Some: "pop q = Some (j, q') \<Longrightarrow> items q = j # items q'"
  using pop_empty pop_first by (cases "items q") fastforce+

lemma items_pushes: "items (foldl push q js) = items q @ js"
  by (induction js arbitrary: q) (simp_all add: items_push)

primrec drain :: "nat \<Rightarrow> 'q \<Rightarrow> 'j list" where
  "drain 0 q = []"
| "drain (Suc n) q = (case pop q of None \<Rightarrow> [] | Some (j, q') \<Rightarrow> j # drain n q')"

lemma drain_items: "drain (length (items q)) q = items q"
proof (induction "items q" arbitrary: q)
  case Nil
  then show ?case by (metis drain.simps(1) list.size(3))
next
  case (Cons j js)
  from pop_first [OF Cons.hyps(2) [symmetric]] obtain q' where q': "pop q = Some (j, q')" "items q' = js"
    by blast
  with Cons.hyps(1) [OF q'(2) [symmetric]] Cons.hyps(2) [symmetric] show ?case by simp
qed

end

section \<open>A content-addressed store\<close>

text \<open>
  Objects are written once under a key that names their digest. A write that succeeds makes its
  content readable and can be repeated without effect, a write that fails changes nothing, no write
  changes what another key reads, and what a content-addressed key reads has the digest it names.
\<close>

locale content_store =
  fixes put :: "'w \<Rightarrow> 'c \<Rightarrow> 's \<Rightarrow> ('e + 'm) \<times> 's"
    and get :: "'k \<Rightarrow> 's \<Rightarrow> 'e + 'c"
    and delete :: "'k \<Rightarrow> int \<Rightarrow> 's \<Rightarrow> ('e + bool) \<times> 's"
    and key_of :: "'w \<Rightarrow> 'c \<Rightarrow> 'e + 'k"
    and addressed :: "'k \<Rightarrow> 'c \<Rightarrow> bool"
    and same_object :: "'k \<Rightarrow> 'k \<Rightarrow> bool"
    and invar :: "'s \<Rightarrow> bool"
  assumes put_key: "invar s \<Longrightarrow> put w c s = (Inr m, t) \<Longrightarrow> \<exists>k. key_of w c = Inr k \<and> get k t = Inr c"
    and put_failed: "put w c s = (Inl e, t) \<Longrightarrow> t = s"
    and put_again: "invar s \<Longrightarrow> put w c s = (Inr m, t) \<Longrightarrow> put w c t = (Inr m, t)"
    and put_frame: "put w c s = (x, t) \<Longrightarrow> get k s = Inr d \<Longrightarrow> get k t = Inr d"
    and put_invar: "invar s \<Longrightarrow> put w c s = (x, t) \<Longrightarrow> invar t"
    and get_addressed: "invar s \<Longrightarrow> key_of w c = Inr k \<Longrightarrow> get k s = Inr d \<Longrightarrow> addressed k d"
    and delete_frame: "delete k n s = (y, t) \<Longrightarrow> n \<noteq> 0 \<or> \<not> same_object k k' \<Longrightarrow> get k' t = get k' s"
    and delete_invar: "invar s \<Longrightarrow> delete k n s = (y, t) \<Longrightarrow> invar t"
begin

definition put_all :: "('w \<times> 'c) list \<Rightarrow> 's \<Rightarrow> 's" where
  "put_all wcs s = foldl (\<lambda>s (w, c). snd (put w c s)) s wcs"

lemma put_all_frame: "get k s = Inr d \<Longrightarrow> get k (put_all wcs s) = Inr d"
proof (induction wcs arbitrary: s)
  case (Cons wc wcs)
  obtain w c where wc: "wc = (w, c)" by (cases wc)
  have "get k (snd (put w c s)) = Inr d"
    using Cons.prems by (rule put_frame [OF prod.collapse [symmetric]])
  with Cons.IH show ?case by (simp add: put_all_def wc)
qed (simp add: put_all_def)

lemma put_all_invar: "invar s \<Longrightarrow> invar (put_all wcs s)"
proof (induction wcs arbitrary: s)
  case (Cons wc wcs)
  obtain w c where wc: "wc = (w, c)" by (cases wc)
  have "invar (snd (put w c s))"
    using Cons.prems by (rule put_invar) (rule prod.collapse [symmetric])
  with Cons.IH show ?case by (simp add: put_all_def wc)
qed (simp add: put_all_def)

text \<open>What was stored is read back after any further writes, and it has the digest of its key.\<close>

lemma stored_forever:
  assumes "invar s" "put w c s = (Inr m, t)"
  shows "\<exists>k. key_of w c = Inr k \<and> get k (put_all wcs t) = Inr c \<and> addressed k c"
proof -
  obtain k where k: "key_of w c = Inr k" "get k t = Inr c"
    using put_key [OF assms] by blast
  from this(2) have "get k (put_all wcs t) = Inr c"
    by (rule put_all_frame)
  moreover have "addressed k c"
    using put_invar [OF assms] k by (rule get_addressed)
  ultimately show ?thesis using k(1) by blast
qed

end

section \<open>A table with a unique key\<close>

text \<open>
  An insert that resolves a conflict on the key keeps the rows it finds and returns the identifier of
  the one with the key; otherwise it appends a row with the key under the next identifier.
\<close>

locale keyed_table =
  fixes rows :: "'d \<Rightarrow> 'r list"
    and key :: "'r \<Rightarrow> 'k"
    and ident :: "'r \<Rightarrow> 'i"
    and fresh :: "'d \<Rightarrow> 'i"
    and put :: "'r \<Rightarrow> 'd \<Rightarrow> 'e + ('i \<times> 'd)"
  assumes put_known: "put x d = Inr (i, t) \<Longrightarrow> key x \<in> key ` set (rows d) \<Longrightarrow>
      (\<exists>r\<in>set (rows d). key r = key x \<and> ident r = i) \<and> map (\<lambda>r. (key r, ident r)) (rows t) = map (\<lambda>r. (key r, ident r)) (rows d)"
    and put_new: "put x d = Inr (i, t) \<Longrightarrow> key x \<notin> key ` set (rows d) \<Longrightarrow>
      i = fresh d \<and> (\<exists>r. rows t = rows d @ [r] \<and> key r = key x \<and> ident r = i)"
begin

lemma put_pairs:
  assumes "put x d = Inr (i, t)"
  shows "map (\<lambda>r. (key r, ident r)) (rows t) =
    map (\<lambda>r. (key r, ident r)) (rows d) @ (if key x \<in> key ` set (rows d) then [] else [(key x, fresh d)])"
  using put_known [OF assms] put_new [OF assms] by auto

lemma put_keys:
  assumes "put x d = Inr (i, t)"
  shows "map key (rows t) = map key (rows d) @ (if key x \<in> key ` set (rows d) then [] else [key x])"
  using arg_cong [OF put_pairs [OF assms], of "map fst"] by (simp add: comp_def split: if_splits)

lemma put_idents:
  assumes "put x d = Inr (i, t)"
  shows "map ident (rows t) = map ident (rows d) @ (if key x \<in> key ` set (rows d) then [] else [fresh d])"
  using arg_cong [OF put_pairs [OF assms], of "map snd"] by (simp add: comp_def split: if_splits)

lemma put_distinct: "put x d = Inr (i, t) \<Longrightarrow> distinct (map key (rows d)) \<Longrightarrow> distinct (map key (rows t))"
  by (drule put_keys) auto

lemma put_present: "put x d = Inr (i, t) \<Longrightarrow> \<exists>r\<in>set (rows t). key r = key x \<and> ident r = i"
proof (cases "key x \<in> key ` set (rows d)")
  case True
  assume "put x d = Inr (i, t)"
  from put_known [OF this True] obtain r where r: "r \<in> set (rows d)" "key r = key x" "ident r = i"
    and eq: "map (\<lambda>r. (key r, ident r)) (rows t) = map (\<lambda>r. (key r, ident r)) (rows d)" by blast
  have "(key r, ident r) \<in> set (map (\<lambda>r. (key r, ident r)) (rows t))" using r(1) unfolding eq by auto
  then show ?thesis using r by auto
next
  case False
  assume "put x d = Inr (i, t)"
  from put_new [OF this False] show ?thesis by auto
qed

lemma put_ident_kept: "put x d = Inr (i, t) \<Longrightarrow> ident ` set (rows d) \<subseteq> ident ` set (rows t)"
  by (drule put_idents) (metis list.set_map set_append Un_upper1)

end

end
