(* ===== verification/PyText.thy ===== *)
theory PyText
  imports Prelude
begin

text \<open>
  Python's \<^verbatim>\<open>str\<close> methods as far as the sources use them: white space, case folding,
  splitting and joining, searching, decimal conversion in both directions. Exact on code points
  below 256, except that the one such letter whose folding leaves that range (U+00B5) is left
  alone.
\<close>

section \<open>Character classes\<close>

definition code :: "char \<Rightarrow> nat" where
  "code c = of_char c"

definition is_ws :: "char \<Rightarrow> bool" where
  "is_ws c = (let n = code c in (9 \<le> n \<and> n \<le> 13) \<or> (28 \<le> n \<and> n \<le> 32) \<or> n = 133 \<or> n = 160)"

definition is_digit :: "char \<Rightarrow> bool" where
  "is_digit c = (48 \<le> code c \<and> code c \<le> 57)"

definition digit_value :: "char \<Rightarrow> nat" where
  "digit_value c = code c - 48"

definition is_ascii_upper :: "char \<Rightarrow> bool" where
  "is_ascii_upper c = (65 \<le> code c \<and> code c \<le> 90)"

definition is_ascii_lower :: "char \<Rightarrow> bool" where
  "is_ascii_lower c = (97 \<le> code c \<and> code c \<le> 122)"

definition is_hex :: "char \<Rightarrow> bool" where
  \<comment> \<open>the class \<^verbatim>\<open>[0-9a-f]\<close> under \<^verbatim>\<open>re.IGNORECASE\<close>\<close>
  "is_hex c = (is_digit c \<or> (97 \<le> code c \<and> code c \<le> 102) \<or> (65 \<le> code c \<and> code c \<le> 70))"

section \<open>Case\<close>

definition is_latin_upper :: "char \<Rightarrow> bool" where
  "is_latin_upper c = (192 \<le> code c \<and> code c \<le> 222 \<and> code c \<noteq> 215)"

definition is_latin_lower :: "char \<Rightarrow> bool" where
  "is_latin_lower c = (224 \<le> code c \<and> code c \<le> 254 \<and> code c \<noteq> 247)"

definition lower_char :: "char \<Rightarrow> char" where
  "lower_char c = (if is_ascii_upper c \<or> is_latin_upper c then char_of (code c + 32) else c)"

definition upper_char :: "char \<Rightarrow> char" where
  "upper_char c = (if is_ascii_lower c \<or> is_latin_lower c then char_of (code c - 32) else c)"

definition lower :: "string \<Rightarrow> string" where
  "lower s = map lower_char s"

definition casefold :: "string \<Rightarrow> string" where
  "casefold s = concat (map (\<lambda>c. if code c = 223 then ''ss'' else [lower_char c]) s)"

definition upper :: "string \<Rightarrow> string" where
  "upper s = concat (map (\<lambda>c. if code c = 223 then ''SS'' else [upper_char c]) s)"

text \<open>\<^verbatim>\<open>bytes.lower()\<close> touches the ASCII letters only.\<close>

definition lower_bytes :: "string \<Rightarrow> string" where
  "lower_bytes s = map (\<lambda>c. if is_ascii_upper c then char_of (code c + 32) else c) s"

text \<open>Identifiers are their own case folding, so evaluating a search in one need not fold it.\<close>

definition is_identifier :: "string \<Rightarrow> bool" where
  "is_identifier s = (set s \<subseteq> set ''abcdefghijklmnopqrstuvwxyz_0123456789'')"

lemma identifier_chars:
  "\<forall>c\<in>set ''abcdefghijklmnopqrstuvwxyz_0123456789''. lower_char c = c \<and> code c \<noteq> 223"
  by (simp add: lower_char_def is_ascii_upper_def is_latin_upper_def code_def)

lemma casefold_identifier: "is_identifier s \<Longrightarrow> casefold s = s"
proof (induction s)
  case (Cons c cs)
  then have "c \<in> set ''abcdefghijklmnopqrstuvwxyz_0123456789''" "is_identifier cs"
    by (simp_all only: is_identifier_def list.set insert_subset)
  with Cons.IH bspec [OF identifier_chars, of c] show ?case
    by (simp add: casefold_def del: list.set)
qed (simp add: casefold_def)

section \<open>Splitting, joining, stripping\<close>

fun split_ws_acc :: "string \<Rightarrow> string \<Rightarrow> string list" where
  "split_ws_acc w [] = (if w = [] then [] else [rev w])"
| "split_ws_acc w (c # cs) =
     (if is_ws c then (if w = [] then split_ws_acc [] cs else rev w # split_ws_acc [] cs)
      else split_ws_acc (c # w) cs)"

definition split_ws :: "string \<Rightarrow> string list" where
  \<comment> \<open>\<^verbatim>\<open>s.split()\<close>\<close>
  "split_ws s = split_ws_acc [] s"

fun join :: "string \<Rightarrow> string list \<Rightarrow> string" where
  \<comment> \<open>\<^verbatim>\<open>sep.join(xs)\<close>\<close>
  "join sep [] = []"
| "join sep [x] = x"
| "join sep (x # y # xs) = x @ sep @ join sep (y # xs)"

fun split_on_acc :: "char \<Rightarrow> string \<Rightarrow> string \<Rightarrow> string list" where
  "split_on_acc d w [] = [rev w]"
| "split_on_acc d w (c # cs) = (if c = d then rev w # split_on_acc d [] cs else split_on_acc d (c # w) cs)"

definition split_on :: "char \<Rightarrow> string \<Rightarrow> string list" where
  \<comment> \<open>\<^verbatim>\<open>s.split(d)\<close> for a one-character separator\<close>
  "split_on d s = split_on_acc d [] s"

definition strip :: "string \<Rightarrow> string" where
  "strip s = rev (dropWhile is_ws (rev (dropWhile is_ws s)))"

definition after_last :: "char \<Rightarrow> string \<Rightarrow> string" where
  \<comment> \<open>\<^verbatim>\<open>s.rsplit(d, 1)[-1]\<close>\<close>
  "after_last d s = rev (takeWhile (\<lambda>c. c \<noteq> d) (rev s))"

definition starts_with :: "string \<Rightarrow> string \<Rightarrow> bool" where
  "starts_with p s = (take (length p) s = p)"

fun contains :: "string \<Rightarrow> string \<Rightarrow> bool" where
  \<comment> \<open>\<^verbatim>\<open>sub in s\<close>\<close>
  "contains sub [] = (sub = [])"
| "contains sub (c # cs) = (starts_with sub (c # cs) \<or> contains sub cs)"

definition collapse_ws :: "string \<Rightarrow> string" where
  \<comment> \<open>\<^verbatim>\<open>" ".join(s.split())\<close>\<close>
  "collapse_ws s = join '' '' (split_ws s)"

lemma starts_with_iff: "starts_with p s \<longleftrightarrow> (\<exists>b. s = p @ b)"
proof
  assume "starts_with p s"
  then have "s = p @ drop (length p) s"
    unfolding starts_with_def using append_take_drop_id [of "length p" s] by simp
  then show "\<exists>b. s = p @ b" ..
qed (auto simp: starts_with_def)

lemma contains_iff: "contains sub s \<longleftrightarrow> (\<exists>a b. s = a @ sub @ b)"
proof (induction s)
  case Nil
  then show ?case by simp
next
  case (Cons c cs)
  have "(\<exists>a b. c # cs = a @ sub @ b) \<longleftrightarrow>
      (\<exists>b. c # cs = sub @ b) \<or> (\<exists>a b. cs = a @ sub @ b)" (is "?l \<longleftrightarrow> ?r")
  proof
    assume ?l
    then obtain a b where ab: "c # cs = a @ sub @ b" by blast
    show ?r
    proof (cases a)
      case Nil
      with ab show ?thesis by auto
    next
      case (Cons x a')
      with ab have "cs = a' @ sub @ b" by simp
      then show ?thesis by blast
    qed
  next
    assume ?r
    then show ?l
    proof
      assume "\<exists>b. c # cs = sub @ b"
      then have "\<exists>b. c # cs = [] @ sub @ b" by simp
      then show ?l by blast
    next
      assume "\<exists>a b. cs = a @ sub @ b"
      then obtain a b where "c # cs = (c # a) @ sub @ b" by auto
      then show ?l by blast
    qed
  qed
  with Cons.IH show ?case by (simp add: starts_with_iff)
qed

text \<open>A word is a non-empty run without white space; splitting yields words, and joining words
  with a blank loses nothing.\<close>

definition is_word :: "string \<Rightarrow> bool" where
  "is_word w = (w \<noteq> [] \<and> (\<forall>c\<in>set w. \<not> is_ws c))"

lemma split_ws_acc_words: "(\<forall>c\<in>set w. \<not> is_ws c) \<Longrightarrow> \<forall>x\<in>set (split_ws_acc w s). is_word x"
proof (induction w s rule: split_ws_acc.induct)
  case (1 w)
  then show ?case by (simp add: is_word_def)
next
  case (2 w c cs)
  show ?case
  proof (cases "is_ws c")
    case True
    with 2 have "\<forall>x\<in>set (split_ws_acc [] cs). is_word x" by (cases "w = []") simp_all
    with True 2(4) show ?thesis by (simp add: is_word_def)
  next
    case False
    with 2 show ?thesis by simp
  qed
qed

lemma split_ws_words: "\<forall>x\<in>set (split_ws s). is_word x"
  unfolding split_ws_def by (rule split_ws_acc_words) simp

lemma split_ws_acc_word: "(\<forall>c\<in>set x. \<not> is_ws c) \<Longrightarrow> split_ws_acc w (x @ s) = split_ws_acc (rev x @ w) s"
  by (induction x arbitrary: w) auto

lemma is_ws_blank [simp]: "is_ws (CHR '' '')"
  by (simp add: is_ws_def code_def)

lemma split_ws_acc_join:
  "\<forall>x\<in>set xs. is_word x \<Longrightarrow> split_ws_acc [] (join '' '' xs) = xs"
proof (induction "'' ''" xs rule: join.induct)
  case 1
  then show ?case by simp
next
  case (2 x)
  then have "split_ws_acc [] (x @ []) = split_ws_acc (rev x @ []) []"
    by (intro split_ws_acc_word) (simp add: is_word_def)
  with 2 show ?case by (simp add: is_word_def)
next
  case (3 x y xs)
  then have "split_ws_acc [] (x @ '' '' @ join '' '' (y # xs)) =
      split_ws_acc (rev x @ []) ('' '' @ join '' '' (y # xs))"
    by (intro split_ws_acc_word) (simp add: is_word_def)
  with 3 show ?case by (simp add: is_word_def)
qed

lemma split_ws_collapse: "split_ws (collapse_ws s) = split_ws s"
  unfolding collapse_ws_def split_ws_def
  by (rule split_ws_acc_join) (rule split_ws_words [unfolded split_ws_def])

lemma collapse_ws_idem: "collapse_ws (collapse_ws s) = collapse_ws s"
  by (simp add: collapse_ws_def split_ws_collapse [unfolded collapse_ws_def])

section \<open>Decimal numerals\<close>

fun digits :: "nat \<Rightarrow> string" where
  "digits n = (if n < 10 then [char_of (48 + n)] else digits (n div 10) @ [char_of (48 + n mod 10)])"

declare digits.simps [simp del]

definition str_int :: "int \<Rightarrow> string" where
  \<comment> \<open>\<^verbatim>\<open>str(i)\<close>\<close>
  "str_int i = (if i < 0 then ''-'' @ digits (nat (- i)) else digits (nat i))"

fun int_rest :: "nat \<Rightarrow> string \<Rightarrow> nat option" where
  "int_rest a [] = Some a"
| "int_rest a [c] = (if is_digit c then Some (10 * a + digit_value c) else None)"
| "int_rest a (c # d # cs) =
     (if is_digit c then int_rest (10 * a + digit_value c) (d # cs)
      else if c = CHR ''_'' \<and> is_digit d then int_rest (10 * a + digit_value d) cs
      else None)"

definition int_unsigned :: "string \<Rightarrow> nat option" where
  "int_unsigned s =
     (case s of [] \<Rightarrow> None
      | c # cs \<Rightarrow> if is_digit c \<and> length (filter is_digit s) \<le> 4300
                 then int_rest (digit_value c) cs else None)"

definition is_int_ws :: "char \<Rightarrow> bool" where
  "is_int_ws c = (let n = code c in (9 \<le> n \<and> n \<le> 13) \<or> n = 32 \<or> n = 133 \<or> n = 160)"

definition parse_int :: "string \<Rightarrow> int option" where
  \<comment> \<open>\<^verbatim>\<open>int(s)\<close>: surrounding blanks, a sign, digits with single underscores between them and
    at most 4300 of them; \<^const>\<open>None\<close> is \<^verbatim>\<open>ValueError\<close>\<close>
  "parse_int s =
     (case rev (dropWhile is_int_ws (rev (dropWhile is_int_ws s))) of
        [] \<Rightarrow> None
      | c # cs \<Rightarrow>
          if c = CHR ''-'' then map_option (\<lambda>n. - int n) (int_unsigned cs)
          else if c = CHR ''+'' then map_option int (int_unsigned cs)
          else map_option int (int_unsigned (c # cs)))"

lemma code_char_of: "n < 256 \<Longrightarrow> code (char_of (n :: nat)) = n"
  by (simp add: code_def)

lemma char_of_code: "char_of (code c) = c"
  by (simp add: code_def)

lemma code_less [simp]: "code c < 256"
  by (simp add: code_def)

lemma is_digit_digit: "n < 10 \<Longrightarrow> is_digit (char_of (48 + n :: nat))"
  by (simp add: is_digit_def code_char_of)

lemma digit_value_digit: "n < 10 \<Longrightarrow> digit_value (char_of (48 + n :: nat)) = n"
  by (simp add: digit_value_def code_char_of)

lemma digits_digits: "\<forall>c\<in>set (digits n). is_digit c"
proof (induction n rule: digits.induct)
  case (1 n)
  show ?case
  proof (cases "n < 10")
    case True
    then show ?thesis by (subst digits.simps) (simp add: is_digit_digit)
  next
    case False
    with "1.IH" show ?thesis by (subst digits.simps) (simp add: is_digit_digit)
  qed
qed

lemma digits_nonempty [simp]: "digits n \<noteq> []"
  by (subst digits.simps) simp

lemma int_rest_snoc: "\<forall>c\<in>set s. is_digit c \<Longrightarrow> is_digit d \<Longrightarrow>
    int_rest a (s @ [d]) = map_option (\<lambda>v. 10 * v + digit_value d) (int_rest a s)"
proof (induction a s rule: int_rest.induct)
  case (3 a c e cs)
  then show ?case by (cases cs) auto
qed auto

definition dec :: "string \<Rightarrow> nat option" where
  "dec s = (case s of [] \<Rightarrow> None | c # cs \<Rightarrow> int_rest (digit_value c) cs)"

lemma dec_digits: "dec (digits n) = Some n"
proof (induction n rule: digits.induct)
  case (1 n)
  show ?case
  proof (cases "n < 10")
    case True
    then show ?thesis by (subst digits.simps) (simp add: dec_def digit_value_digit)
  next
    case False
    obtain c cs where d: "digits (n div 10) = c # cs"
      by (cases "digits (n div 10)") auto
    with False "1.IH" have "int_rest (digit_value c) cs = Some (n div 10)"
      by (simp add: dec_def)
    moreover have "\<forall>x\<in>set cs. is_digit x"
      using digits_digits [of "n div 10"] d by simp
    ultimately have "int_rest (digit_value c) (cs @ [char_of (48 + n mod 10)]) = Some n"
      by (simp add: int_rest_snoc is_digit_digit digit_value_digit)
    with False d show ?thesis by (subst digits.simps) (simp add: dec_def)
  qed
qed

end
