(* ===== verification/PyData.thy ===== *)
theory PyData
  imports PyText
begin

text \<open>
  Untyped Python values (\<^verbatim>\<open>Any\<close>: JSON payloads, claim values, audit details) and the two
  serialisations the sources hash: \<^verbatim>\<open>json.dumps(v, sort_keys=True, separators=(",", ":"))\<close> and
  \<^verbatim>\<open>repr(v)\<close>.
\<close>

datatype pyval =
    PNone
  | PBool bool
  | PInt int
  | PFloat string \<comment> \<open>a finite float, by its \<^verbatim>\<open>repr\<close>\<close>
  | PStr string
  | PList "pyval list"
  | PTuple "pyval list"
  | PDict "(string \<times> pyval) list"

abbreviation PStrs :: "string list \<Rightarrow> pyval" where
  "PStrs xs \<equiv> PList (map PStr xs)"

definition opt_str :: "string option \<Rightarrow> pyval" where
  "opt_str x = (case x of None \<Rightarrow> PNone | Some s \<Rightarrow> PStr s)"

lemma size_snd_mem: "(k, v) \<in> set kvs \<Longrightarrow> size v < Suc (size_list (size_prod (\<lambda>_. 0) size) kvs)"
  by (induction kvs) auto

section \<open>JSON text\<close>

definition hex_digit :: "nat \<Rightarrow> char" where
  "hex_digit n = (if n < 10 then char_of (48 + n) else char_of (87 + n))"

definition hex2 :: "nat \<Rightarrow> string" where
  "hex2 n = [hex_digit (n div 16 mod 16), hex_digit (n mod 16)]"

definition json_char :: "bool \<Rightarrow> char \<Rightarrow> string" where
  \<comment> \<open>the flag is \<^verbatim>\<open>ensure_ascii\<close>\<close>
  "json_char ascii c =
     (let n = code c in
      if n = 34 \<or> n = 92 then [CHR 0x5C, c]
      else if n = 10 then [CHR 0x5C, CHR ''n'']
      else if n = 13 then [CHR 0x5C, CHR ''r'']
      else if n = 9 then [CHR 0x5C, CHR ''t'']
      else if n = 12 then [CHR 0x5C, CHR ''f'']
      else if n = 8 then [CHR 0x5C, CHR ''b'']
      else if n < 32 \<or> (ascii \<and> 126 < n) then [CHR 0x5C, CHR ''u'', CHR ''0'', CHR ''0''] @ hex2 n
      else [c])"

definition json_str :: "bool \<Rightarrow> string \<Rightarrow> string" where
  "json_str ascii s = [CHR 0x22] @ concat (map (json_char ascii) s) @ [CHR 0x22]"

fun json_dumps :: "bool \<Rightarrow> pyval \<Rightarrow> string" where
  "json_dumps a PNone = ''null''"
| "json_dumps a (PBool b) = (if b then ''true'' else ''false'')"
| "json_dumps a (PInt i) = str_int i"
| "json_dumps a (PFloat r) = r"
| "json_dumps a (PStr s) = json_str a s"
| "json_dumps a (PList vs) = ''['' @ join '','' (map (json_dumps a) vs) @ '']''"
| "json_dumps a (PTuple vs) = ''['' @ join '','' (map (json_dumps a) vs) @ '']''"
| "json_dumps a (PDict kvs) =
     ''{'' @ join '','' (map (\<lambda>(k, s). json_str a k @ '':'' @ s)
               (sort_key fst (map (\<lambda>(k, v). (k, json_dumps a v)) kvs))) @ ''}''"

text \<open>\<^verbatim>\<open>s.encode("utf-8")\<close> for code points below 256.\<close>

definition utf8 :: "string \<Rightarrow> string" where
  "utf8 s = concat (map (\<lambda>c. let n = code c in
      if n < 128 then [c] else [char_of (192 + n div 64), char_of (128 + n mod 64)]) s)"

section \<open>repr\<close>

definition repr_char :: "char \<Rightarrow> char \<Rightarrow> string" where
  "repr_char q c =
     (let n = code c in
      if c = q \<or> n = 92 then [CHR 0x5C, c]
      else if n = 10 then [CHR 0x5C, CHR ''n'']
      else if n = 13 then [CHR 0x5C, CHR ''r'']
      else if n = 9 then [CHR 0x5C, CHR ''t'']
      else if n < 32 \<or> (127 \<le> n \<and> n \<le> 160) \<or> n = 173 then [CHR 0x5C, CHR ''x''] @ hex2 n
      else [c])"

definition repr_str :: "string \<Rightarrow> string" where
  "repr_str s =
     (let q = (if CHR 0x27 \<in> set s \<and> CHR 0x22 \<notin> set s then CHR 0x22 else CHR 0x27)
      in [q] @ concat (map (repr_char q) s) @ [q])"

fun repr :: "pyval \<Rightarrow> string" where
  "repr PNone = ''None''"
| "repr (PBool b) = (if b then ''True'' else ''False'')"
| "repr (PInt i) = str_int i"
| "repr (PFloat r) = r"
| "repr (PStr s) = repr_str s"
| "repr (PList vs) = ''['' @ join '', '' (map repr vs) @ '']''"
| "repr (PTuple vs) = ''('' @ join '', '' (map repr vs) @ (if length vs = 1 then '','' else []) @ '')''"
| "repr (PDict kvs) =
     ''{'' @ join '', '' (map (\<lambda>(k, v). repr_str k @ '': '' @ repr v) kvs) @ ''}''"

section \<open>Key order does not matter to the sorted serialisation\<close>

lemma sort_key_eq_of_set:
  assumes "set xs = set ys" "distinct (map fst xs)" "distinct (map fst ys)"
  shows "sort_key fst xs = sort_key fst (ys :: ('k :: linorder \<times> 'v) list)"
proof (rule map_sorted_distinct_set_unique [where f = fst])
  show "inj_on fst (set (sort_key fst xs) \<union> set (sort_key fst ys))"
    using assms by (simp add: distinct_map)
  show "distinct (map fst (sort_key fst xs))" "distinct (map fst (sort_key fst ys))"
    using assms(2,3) by (simp_all add: distinct_map distinct_sort)
qed (use assms(1) in simp_all)

lemma json_dumps_key_order:
  assumes "set kvs = set kvs'" "distinct (map fst kvs)" "distinct (map fst kvs')"
  shows "json_dumps a (PDict kvs) = json_dumps a (PDict kvs')"
proof -
  let ?f = "\<lambda>(k, v). (k, json_dumps a v)"
  have fst_f: "map fst (map ?f l) = map fst l" for l :: "(string \<times> pyval) list"
    by (induction l) auto
  have "sort_key fst (map ?f kvs) = sort_key fst (map ?f kvs')"
    by (rule sort_key_eq_of_set) (use assms in \<open>simp_all add: fst_f del: map_map\<close>)
  then show ?thesis by simp
qed

end
