(* ===== verification/PyDate.thy ===== *)
theory PyDate
  imports PyData
begin

text \<open>
  \<^verbatim>\<open>datetime.date\<close> as far as the sources use it: a date is its proleptic Gregorian ordinal
  (1 January of year 1 is 1), and \<^verbatim>\<open>date.fromisoformat\<close> reads the calendar and week forms with
  and without separators. As the library does, it looks at the UTF-8 length of its argument and,
  without separators, ignores what follows the day.
\<close>

definition is_leap :: "int \<Rightarrow> bool" where
  "is_leap y = (y mod 4 = 0 \<and> (y mod 100 \<noteq> 0 \<or> y mod 400 = 0))"

definition days_before_year :: "int \<Rightarrow> int" where
  "days_before_year y = (y - 1) * 365 + (y - 1) div 4 - (y - 1) div 100 + (y - 1) div 400"

definition month_lengths :: "int \<Rightarrow> int list" where
  "month_lengths y = [31, if is_leap y then 29 else 28, 31, 30, 31, 30, 31, 31, 30, 31, 30, 31]"

definition ymd_ordinal :: "int \<Rightarrow> nat \<Rightarrow> int \<Rightarrow> int" where
  "ymd_ordinal y m d = days_before_year y + sum_list (take (m - 1) (month_lengths y)) + d"

definition date_of_ymd :: "int \<Rightarrow> nat \<Rightarrow> int \<Rightarrow> int option" where
  "date_of_ymd y m d =
     (if 1 \<le> y \<and> y \<le> 9999 \<and> 1 \<le> m \<and> m \<le> 12 \<and> 1 \<le> d \<and> d \<le> month_lengths y ! (m - 1)
      then Some (ymd_ordinal y m d) else None)"

definition max_ordinal :: int where
  "max_ordinal = 3652059"

definition date_of_isoweek :: "int \<Rightarrow> int \<Rightarrow> int \<Rightarrow> int option" where
  "date_of_isoweek y w d =
     (let first = ymd_ordinal y 1 1;
          first_weekday = (first + 6) mod 7;
          long = first_weekday = 3 \<or> (first_weekday = 2 \<and> is_leap y);
          week1_monday = first - first_weekday + (if 3 < first_weekday then 7 else 0);
          ord = week1_monday + (w - 1) * 7 + d - 1
      in if 1 \<le> y \<and> 1 \<le> w \<and> (w \<le> 52 \<or> (w = 53 \<and> long)) \<and> 1 \<le> d \<and> d \<le> 7 \<and> 1 \<le> ord \<and> ord \<le> max_ordinal
         then Some ord else None)"

definition take_digits :: "nat \<Rightarrow> string \<Rightarrow> (int \<times> string) option" where
  "take_digits n s =
     (if n \<le> length s \<and> list_all is_digit (take n s)
      then Some (int (foldl (\<lambda>a c. 10 * a + digit_value c) 0 (take n s)), drop n s) else None)"

definition skip_dash :: "bool \<Rightarrow> string \<Rightarrow> string option" where
  "skip_dash sep s = (if \<not> sep then Some s else case s of CHR ''-'' # r \<Rightarrow> Some r | _ \<Rightarrow> None)"

definition date_fromisoformat :: "string \<Rightarrow> int option" where
  "date_fromisoformat s =
     (let bs = utf8 s in
      if length bs \<notin> {7, 8, 10} then None
      else Option.bind (take_digits 4 bs) (\<lambda>(year, r).
        let sep = (take 1 r = ''-''); r = (if sep then drop 1 r else r) in
        if take 1 r = ''W''
        then Option.bind (take_digits 2 (drop 1 r)) (\<lambda>(week, r).
               if r = [] then date_of_isoweek year week 1
               else Option.bind (skip_dash sep r) (\<lambda>r.
                    Option.bind (take_digits 1 r) (\<lambda>(day, _). date_of_isoweek year week day)))
        else Option.bind (take_digits 2 r) (\<lambda>(month, r).
             Option.bind (skip_dash sep r) (\<lambda>r.
             Option.bind (take_digits 2 r) (\<lambda>(day, _). date_of_ymd year (nat month) day)))))"

end
