(* ===== verification/Sha256.thy ===== *)
theory Sha256
  imports PyData "HOL-Library.Word"
begin

text \<open>
  \<^verbatim>\<open>hashlib.sha256\<close> and \<^verbatim>\<open>hmac.new(..., sha256)\<close> of the standard library, as FIPS 180-4 and
  RFC 2104 define them, over \<^typ>\<open>32 word\<close> arithmetic with wrap-around. Input and digest are
  bytes, i.e.\ lists of \<^typ>\<open>char\<close>.
\<close>

unbundle bit_operations_syntax

type_synonym w32 = "32 word"

definition rotr :: "nat \<Rightarrow> w32 \<Rightarrow> w32" where
  "rotr n x = drop_bit n x OR push_bit (32 - n) x"

definition ch :: "w32 \<Rightarrow> w32 \<Rightarrow> w32 \<Rightarrow> w32" where
  "ch x y z = (x AND y) XOR (NOT x AND z)"

definition maj :: "w32 \<Rightarrow> w32 \<Rightarrow> w32 \<Rightarrow> w32" where
  "maj x y z = (x AND y) XOR (x AND z) XOR (y AND z)"

definition bsig0 :: "w32 \<Rightarrow> w32" where
  "bsig0 x = rotr 2 x XOR rotr 13 x XOR rotr 22 x"

definition bsig1 :: "w32 \<Rightarrow> w32" where
  "bsig1 x = rotr 6 x XOR rotr 11 x XOR rotr 25 x"

definition ssig0 :: "w32 \<Rightarrow> w32" where
  "ssig0 x = rotr 7 x XOR rotr 18 x XOR drop_bit 3 x"

definition ssig1 :: "w32 \<Rightarrow> w32" where
  "ssig1 x = rotr 17 x XOR rotr 19 x XOR drop_bit 10 x"

text \<open>The constants, as the hexadecimal digits of their concatenation.\<close>

definition hex_nat :: "string \<Rightarrow> nat" where
  "hex_nat s = foldl (\<lambda>a c. 16 * a + (if code c < 58 then code c - 48 else code c - 87)) 0 s"

fun hex_words :: "string \<Rightarrow> w32 list" where
  "hex_words (a # b # c # d # e # f # g # h # r) =
     word_of_nat (hex_nat [a, b, c, d, e, f, g, h]) # hex_words r"
| "hex_words _ = []"

definition round_constants :: "w32 list" where
  "round_constants = hex_words (
     ''428a2f9871374491b5c0fbcfe9b5dba53956c25b59f111f1923f82a4ab1c5ed5''
     @ ''d807aa9812835b01243185be550c7dc372be5d7480deb1fe9bdc06a7c19bf174''
     @ ''e49b69c1efbe47860fc19dc6240ca1cc2de92c6f4a7484aa5cb0a9dc76f988da''
     @ ''983e5152a831c66db00327c8bf597fc7c6e00bf3d5a7914706ca635114292967''
     @ ''27b70a852e1b21384d2c6dfc53380d13650a7354766a0abb81c2c92e92722c85''
     @ ''a2bfe8a1a81a664bc24b8b70c76c51a3d192e819d6990624f40e3585106aa070''
     @ ''19a4c1161e376c082748774c34b0bcb5391c0cb34ed8aa4a5b9cca4f682e6ff3''
     @ ''748f82ee78a5636f84c878148cc7020890befffaa4506cebbef9a3f7c67178f2'')"

definition initial_hash :: "w32 list" where
  "initial_hash = [0x6a09e667, 0xbb67ae85, 0x3c6ef372, 0xa54ff53a,
                   0x510e527f, 0x9b05688c, 0x1f83d9ab, 0x5be0cd19]"

definition word_of_bytes :: "string \<Rightarrow> w32" where
  "word_of_bytes bs = foldl (\<lambda>a c. push_bit 8 a + word_of_nat (code c)) 0 bs"

definition bytes_of_nat :: "nat \<Rightarrow> nat \<Rightarrow> string" where
  \<comment> \<open>big-endian, a given number of bytes\<close>
  "bytes_of_nat len n = rev (map (\<lambda>i. char_of (n div 256 ^ i mod 256)) [0..<len])"

definition pad_message :: "string \<Rightarrow> string" where
  "pad_message m = m @ [CHR 0x80]
     @ replicate ((119 - length m mod 64) mod 64) (CHR 0x00)
     @ bytes_of_nat 8 (8 * length m)"

fun chunks :: "nat \<Rightarrow> 'a list \<Rightarrow> 'a list list" where
  "chunks n xs = (if n = 0 \<or> xs = [] then [] else take n xs # chunks n (drop n xs))"

declare chunks.simps [simp del]

text \<open>The message schedule, newest word first.\<close>

fun extend_schedule :: "nat \<Rightarrow> w32 list \<Rightarrow> w32 list" where
  "extend_schedule 0 ws = ws"
| "extend_schedule (Suc k) ws =
     extend_schedule k ((ssig1 (ws ! 1) + ws ! 6 + ssig0 (ws ! 14) + ws ! 15) # ws)"

definition schedule :: "string \<Rightarrow> w32 list" where
  "schedule block = rev (extend_schedule 48 (rev (map word_of_bytes (chunks 4 block))))"

definition one_round :: "w32 \<times> w32 \<Rightarrow> w32 list \<Rightarrow> w32 list" where
  "one_round kw st = (case (kw, st) of
     ((k, w), [a, b, c, d, e, f, g, h]) \<Rightarrow>
       (let t1 = h + bsig1 e + ch e f g + k + w; t2 = bsig0 a + maj a b c in [t1 + t2, a, b, c, d + t1, e, f, g])
   | _ \<Rightarrow> st)"

primrec rounds :: "(w32 \<times> w32) list \<Rightarrow> w32 list \<Rightarrow> w32 list" where
  "rounds [] st = st"
| "rounds (kw # kws) st = rounds kws (one_round kw st)"

definition compress :: "w32 list \<Rightarrow> string \<Rightarrow> w32 list" where
  "compress st block = map2 (+) st (rounds (zip round_constants (schedule block)) st)"

definition sha256 :: "string \<Rightarrow> string" where
  "sha256 m = concat (map (\<lambda>w. bytes_of_nat 4 (unat w))
                (foldl compress initial_hash (chunks 64 (pad_message m))))"

definition hexdigest :: "string \<Rightarrow> string" where
  "hexdigest bs = concat (map (\<lambda>c. hex2 (code c)) bs)"

definition sha256_ref :: "string \<Rightarrow> string" where
  \<comment> \<open>the f-string \<^verbatim>\<open>"sha256:{sha256(b).hexdigest()}"\<close> used throughout\<close>
  "sha256_ref bs = ''sha256:'' @ hexdigest (sha256 bs)"

definition hmac_sha256 :: "string \<Rightarrow> string \<Rightarrow> string" where
  "hmac_sha256 key m =
     (let k0 = (if 64 < length key then sha256 key else key);
          k = k0 @ replicate (64 - length k0) (CHR 0x00);
          xor_with = (\<lambda>n. map (\<lambda>c. char_of (code c XOR n)) k)
      in sha256 (xor_with 0x5c @ sha256 (xor_with 0x36 @ m)))"

lemma length_hexdigest [simp]: "length (hexdigest bs) = 2 * length bs"
  by (induction bs) (simp_all add: hexdigest_def hex2_def)

lemma length_one_round: "length st = 8 \<Longrightarrow> length (one_round kw st) = 8"
  by (auto simp: one_round_def Let_def split: prod.split list.split)

lemma length_rounds: "length st = 8 \<Longrightarrow> length (rounds kws st) = 8"
  by (induction kws arbitrary: st) (simp_all add: length_one_round)

lemma length_compress: "length st = 8 \<Longrightarrow> length (compress st block) = 8"
  by (simp add: compress_def length_rounds)

lemma length_digest_words: "length st = 8 \<Longrightarrow> length (foldl compress st bs) = 8"
  by (induction bs arbitrary: st) (simp_all add: length_compress)

lemma length_sha256 [simp]: "length (sha256 m) = 32"
proof -
  have "length (concat (map (\<lambda>w. bytes_of_nat 4 (unat w)) ws)) = 4 * length ws" for ws :: "w32 list"
    by (induction ws) (simp_all add: bytes_of_nat_def)
  then show ?thesis
    by (simp add: sha256_def length_digest_words initial_hash_def)
qed

lemma length_sha256_ref [simp]: "length (sha256_ref m) = 71"
  by (simp add: sha256_ref_def)

lemma hex_digit_hex: "n < 16 \<Longrightarrow> is_hex (hex_digit n)"
  by (auto simp: is_hex_def hex_digit_def is_digit_def code_char_of)

lemma hexdigest_hex: "list_all is_hex (hexdigest bs)"
  by (induction bs) (simp_all add: hexdigest_def hex2_def hex_digit_hex)

end
