(* ===== verification/ProcurementDomain.thy ===== *)
theory ProcurementDomain
  imports PyData
begin

text \<open>
  The procurement domain model, \<^verbatim>\<open>apps/api/src/axignal_api/procurement_domain.py\<close>: its enumerations
  as datatypes, its frozen pydantic models as records, and each model's construction as a
  validator that first checks the field constraints (\<^verbatim>\<open>min_length\<close>, \<^verbatim>\<open>ge\<close>/\<^verbatim>\<open>le\<close>, \<^verbatim>\<open>pattern\<close>) and
  then runs the \<^verbatim>\<open>model_validator(mode="after")\<close> in the order of its statements. A raised
  exception is \<^const>\<open>Inl\<close>. Instants are integers; \<^verbatim>\<open>HttpUrl\<close> fields are the text of a URL pydantic
  has accepted. Nested models are values their own validator has accepted.

  Then, for each model, what an accepted value satisfies, stated independently of the order in
  which the code checks.
\<close>

section \<open>Enumerations\<close>

datatype fact_origin =
    SOURCE_FACT | NORMALIZED_FACT | TRANSLATED_FACT | EXTRACTED_REQUIREMENT
  | AXIGNAL_INFERENCE | AXIGNAL_RECOMMENDATION | SUBSCRIBER_PROVIDED

datatype contact_channel_type =
    PROCUREMENT_PLATFORM | BUYER_PROFILE | OFFICIAL_FORM | FUNCTIONAL_EMAIL
  | NAMED_PROFESSIONAL_EMAIL | OFFICIAL_PHONE | NAMED_PROFESSIONAL_PHONE | SOURCE_LINK_ONLY

datatype contact_data_class =
    INSTITUTIONAL | FUNCTIONAL_NON_PERSONAL | PROFESSIONAL_PERSONAL | AMBIGUOUS_PERSONAL | BLOCKED

datatype contact_policy_decision = CP_ALLOW | CP_CONTEXTUAL | CP_LINK_ONLY | CP_BLOCK

datatype contact_action = CA_OPEN | CA_REVEAL | CA_COPY | CA_COMPOSE_PROCEDURE_QUERY | CA_CALL

datatype contact_status = CS_ACTIVE | CS_SUPERSEDED | CS_DISABLED | CS_ARCHIVED

datatype workspace_state =
    WS_CREATED | WS_QUALIFYING | WS_GO_REVIEW | WS_NO_GO_REVIEW | WS_PREPARING
  | WS_AWAITING_INFORMATION | WS_READY_FOR_INTERNAL_REVIEW | WS_READY_FOR_SUBSCRIBER_APPROVAL
  | WS_SUBSCRIBER_APPROVED | WS_PRESENTED_EXTERNALLY | WS_WITHDRAWN | WS_CLOSED | WS_ARCHIVED

datatype clarification_state =
    CL_DRAFT | CL_INTERNAL_REVIEW | CL_READY_FOR_USER_APPROVAL | CL_USER_APPROVED
  | CL_EXTERNAL_HANDOFF | CL_SENT_CONFIRMED | CL_ANSWER_RECEIVED | CL_ANSWER_APPLIED
  | CL_CLOSED | CL_CANCELLED

datatype policy_decision_kind = PD_ALLOW | PD_CONTEXTUAL | PD_LINK_ONLY | PD_BLOCK

section \<open>Field constraints\<close>

definition min_length_1 :: "string \<Rightarrow> bool" where
  "min_length_1 s = (1 \<le> length s)"

definition truthy :: "string option \<Rightarrow> bool" where
  \<comment> \<open>Python's truth value of \<^verbatim>\<open>str | None\<close>\<close>
  "truthy x = (case x of None \<Rightarrow> False | Some s \<Rightarrow> s \<noteq> [])"

definition field_checks :: "(bool \<times> string) list \<Rightarrow> 'a result \<Rightarrow> 'a result" where
  \<comment> \<open>the first violated field constraint is a \<^verbatim>\<open>ValidationError\<close>; otherwise the validator runs\<close>
  "field_checks cs k =
     (case filter (\<lambda>(ok, _). \<not> ok) cs of [] \<Rightarrow> k | (_, field) # _ \<Rightarrow> Inl (ValidationError field))"

lemma field_checks_Nil [valid_simps]: "field_checks [] k = k"
  by (simp add: field_checks_def)

lemma field_checks_Cons [valid_simps]:
  "field_checks ((ok, f) # cs) k = (if ok then field_checks cs k else Inl (ValidationError f))"
  by (simp add: field_checks_def)

definition is_lower_hex :: "char \<Rightarrow> bool" where
  "is_lower_hex c = (is_digit c \<or> (97 \<le> code c \<and> code c \<le> 102))"

definition is_content_digest :: "string \<Rightarrow> bool" where
  \<comment> \<open>\<^verbatim>\<open>^sha256:[0-9a-f]{64}$\<close>\<close>
  "is_content_digest s =
     (starts_with ''sha256:'' s \<and> length s = 71 \<and> list_all is_lower_hex (drop 7 s))"

section \<open>Provenance, facts, versions\<close>

record source_provenance =
  sp_source_id :: string
  sp_source_notice_id :: string
  sp_source_url :: string
  sp_retrieved_at :: int
  sp_source_version :: string
  sp_transformation_disclosure :: "string option"

definition validate_source_provenance :: "source_provenance \<Rightarrow> source_provenance result" where
  "validate_source_provenance p =
     field_checks [(min_length_1 (sp_source_id p), ''source_id''),
                   (min_length_1 (sp_source_notice_id p), ''source_notice_id''),
                   (min_length_1 (sp_source_version p), ''source_version'')]
       (Inr p)"

record procurement_fact =
  pf_fact_id :: string
  pf_predicate :: string
  pf_value :: pyval
  pf_origin :: fact_origin
  pf_provenance :: "source_provenance option"
  pf_confidence :: "rat option"
  pf_supporting_fact_ids :: "string list"
  pf_missing_information :: "string list"

definition validate_procurement_fact :: "procurement_fact \<Rightarrow> procurement_fact result" where
  "validate_procurement_fact f =
     field_checks [(min_length_1 (pf_fact_id f), ''fact_id''),
                   (min_length_1 (pf_predicate f), ''predicate''),
                   (case pf_confidence f of None \<Rightarrow> True | Some c \<Rightarrow> 0 \<le> c \<and> c \<le> 1, ''confidence'')]
       (if pf_origin f \<in> {SOURCE_FACT, NORMALIZED_FACT, TRANSLATED_FACT, EXTRACTED_REQUIREMENT}
           \<and> pf_provenance f = None
        then Inl (ValueError ''Source-derived facts require provenance'')
        else if pf_origin f \<in> {AXIGNAL_INFERENCE, AXIGNAL_RECOMMENDATION}
           \<and> pf_supporting_fact_ids f = []
        then Inl (ValueError ''AXIGNAL conclusions require supporting facts'')
        else Inr f)"

record opportunity_version =
  ov_opportunity_id :: string
  ov_source_notice_id :: string
  ov_source_version :: string
  ov_observed_at :: int
  ov_source_updated_at :: "int option"
  ov_content_digest :: string

definition validate_opportunity_version :: "opportunity_version \<Rightarrow> opportunity_version result" where
  "validate_opportunity_version v =
     field_checks [(min_length_1 (ov_opportunity_id v), ''opportunity_id''),
                   (min_length_1 (ov_source_notice_id v), ''source_notice_id''),
                   (min_length_1 (ov_source_version v), ''source_version''),
                   (is_content_digest (ov_content_digest v), ''content_digest'')]
       (Inr v)"

section \<open>Contact channels\<close>

definition is_scheme_char :: "char \<Rightarrow> bool" where
  "is_scheme_char c = (is_ascii_upper c \<or> is_ascii_lower c \<or> is_digit c
     \<or> c = CHR ''+'' \<or> c = CHR ''-'' \<or> c = CHR ''.'')"

definition url_scheme :: "string \<Rightarrow> string result" where
  \<comment> \<open>\<^verbatim>\<open>urlparse(s).scheme\<close>: leading controls and blanks dropped, tab, carriage return and line
    feed removed, then the scheme up to the first colon; an unbalanced bracket in the network
    location raises. The address inside balanced brackets is not checked here.\<close>
  "url_scheme s =
     (let u = filter (\<lambda>c. code c \<notin> {9, 10, 13}) (dropWhile (\<lambda>c. code c \<le> 32) s);
          before = takeWhile (\<lambda>c. c \<noteq> CHR '':'') u;
          found = (before \<noteq> [] \<and> length before < length u
                   \<and> (is_ascii_upper (hd before) \<or> is_ascii_lower (hd before))
                   \<and> list_all is_scheme_char before);
          rest = (if found then drop (Suc (length before)) u else u);
          netloc = (if starts_with ''//'' rest
                    then takeWhile (\<lambda>c. c \<notin> {CHR ''/'', CHR ''?'', CHR ''#''}) (drop 2 rest) else [])
      in if (CHR ''['' \<in> set netloc) \<noteq> (CHR '']'' \<in> set netloc)
         then Inl (ValueError ''Invalid IPv6 URL'')
         else Inr (if found then lower before else []))"

fun expected_schemes :: "contact_channel_type \<Rightarrow> string list" where
  "expected_schemes PROCUREMENT_PLATFORM = [''https'']"
| "expected_schemes BUYER_PROFILE = [''https'']"
| "expected_schemes OFFICIAL_FORM = [''https'']"
| "expected_schemes FUNCTIONAL_EMAIL = [''mailto'']"
| "expected_schemes NAMED_PROFESSIONAL_EMAIL = [''mailto'']"
| "expected_schemes OFFICIAL_PHONE = [''tel'']"
| "expected_schemes NAMED_PROFESSIONAL_PHONE = [''tel'']"
| "expected_schemes SOURCE_LINK_ONLY = [''https'']"

record contact_channel =
  cc_channel_id :: string
  cc_opportunity_id :: string
  cc_source_notice_id :: string
  cc_source_url :: string
  cc_channel_type :: contact_channel_type
  cc_organisation_name :: string
  cc_department :: "string option"
  cc_contact_name :: "string option"
  cc_contact_role :: "string option"
  cc_endpoint :: "string option"
  cc_data_class :: contact_data_class
  cc_policy_decision :: contact_policy_decision
  cc_purpose :: string
  cc_searchable_globally :: bool
  cc_exportable :: bool
  cc_marketing_use :: bool
  cc_allowed_actions :: "contact_action set"
  cc_last_verified_at :: int
  cc_status :: contact_status
  cc_superseded_by :: "string option"

definition channel_class_checks :: "contact_channel \<Rightarrow> contact_channel result \<Rightarrow> contact_channel result" where
  \<comment> \<open>the checks on ambiguous and professional personal data, before the continuation\<close>
  "channel_class_checks c k =
     (if cc_data_class c = AMBIGUOUS_PERSONAL \<and> cc_policy_decision c \<notin> {CP_LINK_ONLY, CP_BLOCK}
      then Inl (ValueError ''Ambiguous personal data must be LINK_ONLY or BLOCK'')
      else if cc_data_class c = PROFESSIONAL_PERSONAL \<and> cc_policy_decision c \<noteq> CP_CONTEXTUAL
      then Inl (ValueError ''Named professional contacts require CONTEXTUAL policy'')
      else if cc_data_class c = PROFESSIONAL_PERSONAL
           \<and> cc_channel_type c \<notin> {NAMED_PROFESSIONAL_EMAIL, NAMED_PROFESSIONAL_PHONE}
      then Inl (ValueError ''Professional personal data requires a named contact channel'')
      else if cc_data_class c = PROFESSIONAL_PERSONAL \<and> \<not> truthy (cc_contact_name c)
      then Inl (ValueError ''Named professional channels require contact_name'')
      else k)"

definition channel_endpoint_checks :: "contact_channel \<Rightarrow> contact_channel result" where
  \<comment> \<open>the checks a channel that may expose an endpoint goes through\<close>
  "channel_endpoint_checks c =
     (if \<not> truthy (cc_endpoint c)
      then Inl (ValueError ''Allowed contact channels require an endpoint'')
      else bindE (url_scheme (the (cc_endpoint c))) (\<lambda>scheme.
        if casefold scheme \<notin> set (expected_schemes (cc_channel_type c))
        then Inl (ValueError ''Contact endpoint scheme does not match channel type'')
        else if cc_policy_decision c = CP_LINK_ONLY \<and> cc_allowed_actions c \<noteq> {CA_OPEN}
        then Inl (ValueError ''LINK_ONLY permits only OPEN'')
        else if cc_status c = CS_SUPERSEDED \<and> \<not> truthy (cc_superseded_by c)
        then Inl (ValueError ''Superseded channels require a replacement reference'')
        else Inr c))"

definition validate_channel_policy :: "contact_channel \<Rightarrow> contact_channel result" where
  "validate_channel_policy c =
     (if cc_searchable_globally c \<or> cc_exportable c \<or> cc_marketing_use c
      then Inl (ValueError ''Procurement contact channels cannot become CRM or marketing data'')
      else if cc_data_class c = BLOCKED then
        (if cc_policy_decision c \<noteq> CP_BLOCK
         then Inl (ValueError ''Blocked data must have a BLOCK policy decision'')
         else if cc_endpoint c \<noteq> None \<or> cc_allowed_actions c \<noteq> {}
         then Inl (ValueError ''Blocked data cannot expose endpoints or actions'')
         else Inr c)
      else channel_class_checks c
        (if cc_policy_decision c = CP_BLOCK then
           (if cc_endpoint c \<noteq> None \<or> cc_allowed_actions c \<noteq> {}
            then Inl (ValueError ''BLOCK decisions cannot expose endpoints or actions'')
            else Inr c)
         else channel_endpoint_checks c))"

definition validate_contact_channel :: "contact_channel \<Rightarrow> contact_channel result" where
  "validate_contact_channel c =
     field_checks [(min_length_1 (cc_channel_id c), ''channel_id''),
                   (min_length_1 (cc_opportunity_id c), ''opportunity_id''),
                   (min_length_1 (cc_source_notice_id c), ''source_notice_id''),
                   (min_length_1 (cc_organisation_name c), ''organisation_name'')]
       (validate_channel_policy c)"

section \<open>Opportunities, workspaces, clarifications\<close>

record opportunity =
  op_opportunity_id :: string
  op_current_version :: opportunity_version
  op_title :: string
  op_buyer_organisation :: string
  op_facts :: "procurement_fact list"
  op_contact_channels :: "contact_channel list"

definition validate_opportunity :: "opportunity \<Rightarrow> opportunity result" where
  "validate_opportunity p =
     field_checks [(min_length_1 (op_opportunity_id p), ''opportunity_id''),
                   (min_length_1 (op_title p), ''title''),
                   (min_length_1 (op_buyer_organisation p), ''buyer_organisation'')]
       (if ov_opportunity_id (op_current_version p) \<noteq> op_opportunity_id p
        then Inl (ValueError ''Opportunity version belongs to another opportunity'')
        else if list_ex (\<lambda>c. cc_opportunity_id c \<noteq> op_opportunity_id p) (op_contact_channels p)
        then Inl (ValueError ''Contact channel belongs to another opportunity'')
        else if \<not> distinct (map pf_fact_id (op_facts p))
        then Inl (ValueError ''Opportunity fact identifiers must be unique'')
        else Inr p)"

record tender_workspace =
  tw_workspace_id :: string
  tw_tenant_id :: string
  tw_opportunity_id :: string
  tw_opportunity_version :: opportunity_version
  tw_subscriber_profile_version :: string
  tw_assessment_version :: string
  tw_state :: workspace_state
  tw_contact_channel_ids :: "string list"
  tw_created_by :: string
  tw_created_at :: int
  tw_presented_confirmed_by :: "string option"
  tw_presented_confirmed_at :: "int option"

definition validate_tender_workspace :: "tender_workspace \<Rightarrow> tender_workspace result" where
  "validate_tender_workspace w =
     field_checks [(min_length_1 (tw_opportunity_id w), ''opportunity_id''),
                   (min_length_1 (tw_subscriber_profile_version w), ''subscriber_profile_version''),
                   (min_length_1 (tw_assessment_version w), ''assessment_version''),
                   (min_length_1 (tw_created_by w), ''created_by'')]
       (if ov_opportunity_id (tw_opportunity_version w) \<noteq> tw_opportunity_id w
        then Inl (ValueError ''Workspace snapshot belongs to another opportunity'')
        else if \<not> distinct (tw_contact_channel_ids w)
        then Inl (ValueError ''Workspace contact-channel references must be unique'')
        else if tw_state w = WS_PRESENTED_EXTERNALLY \<and> \<not> truthy (tw_presented_confirmed_by w)
        then Inl (ValueError ''External presentation requires subscriber confirmation'')
        else if tw_state w = WS_PRESENTED_EXTERNALLY \<and> tw_presented_confirmed_at w = None
        then Inl (ValueError ''External presentation requires confirmation timestamp'')
        else Inr w)"

record clarification =
  cl_clarification_id :: string
  cl_tenant_id :: string
  cl_workspace_id :: string
  cl_procedure_reference :: string
  cl_related_requirement_ids :: "string list"
  cl_question :: string
  cl_rationale :: string
  cl_channel_id :: string
  cl_state :: clarification_state
  cl_created_by :: string
  cl_created_at :: int
  cl_approved_by :: "string option"
  cl_approved_at :: "int option"
  cl_external_handoff_at :: "int option"
  cl_sent_confirmed_by :: "string option"
  cl_sent_at :: "int option"

definition validate_clarification :: "clarification \<Rightarrow> clarification result" where
  "validate_clarification c =
     field_checks [(min_length_1 (cl_clarification_id c), ''clarification_id''),
                   (min_length_1 (cl_procedure_reference c), ''procedure_reference''),
                   (min_length_1 (cl_question c), ''question''),
                   (min_length_1 (cl_rationale c), ''rationale''),
                   (min_length_1 (cl_channel_id c), ''channel_id''),
                   (min_length_1 (cl_created_by c), ''created_by'')]
       (if cl_state c \<in> {CL_USER_APPROVED, CL_EXTERNAL_HANDOFF, CL_SENT_CONFIRMED,
              CL_ANSWER_RECEIVED, CL_ANSWER_APPLIED, CL_CLOSED}
           \<and> (\<not> truthy (cl_approved_by c) \<or> cl_approved_at c = None)
        then Inl (ValueError ''External communication requires explicit subscriber approval'')
        else if cl_state c \<in> {CL_EXTERNAL_HANDOFF, CL_SENT_CONFIRMED, CL_ANSWER_RECEIVED,
              CL_ANSWER_APPLIED, CL_CLOSED} \<and> cl_external_handoff_at c = None
        then Inl (ValueError ''External states require a recorded handoff'')
        else if cl_state c \<in> {CL_SENT_CONFIRMED, CL_ANSWER_RECEIVED, CL_ANSWER_APPLIED, CL_CLOSED}
           \<and> (\<not> truthy (cl_sent_confirmed_by c) \<or> cl_sent_at c = None)
        then Inl (ValueError ''Sent state must be confirmed by the subscriber'')
        else Inr c)"

section \<open>Policy decisions and audit events\<close>

record policy_decision_record =
  pd_decision_id :: string
  pd_subject_type :: string
  pd_subject_id :: string
  pd_decision :: policy_decision_kind
  pd_policy_version :: string
  pd_reasons :: "string list"
  pd_decided_at :: int

definition validate_policy_decision_record :: "policy_decision_record \<Rightarrow> policy_decision_record result" where
  "validate_policy_decision_record r =
     field_checks [(min_length_1 (pd_decision_id r), ''decision_id''),
                   (min_length_1 (pd_subject_type r), ''subject_type''),
                   (min_length_1 (pd_subject_id r), ''subject_id''),
                   (min_length_1 (pd_policy_version r), ''policy_version''),
                   (1 \<le> length (pd_reasons r), ''reasons'')]
       (Inr r)"

record audit_event =
  ae_event_id :: string
  ae_tenant_id :: string
  ae_workspace_id :: "string option"
  ae_actor_id :: string
  ae_action :: string
  ae_object_type :: string
  ae_object_id :: string
  ae_occurred_at :: int
  ae_source_version :: "string option"
  ae_policy_version :: "string option"
  ae_details :: "(string \<times> pyval) list"

definition prohibited_audit_keys :: "string list" where
  "prohibited_audit_keys =
     [''contact_name'', ''contact_email'', ''email'', ''phone'', ''telephone'', ''endpoint'',
      ''message_body'']"

fun iter_keys :: "pyval \<Rightarrow> string list" where
  "iter_keys (PDict kvs) =
     map (\<lambda>(k, v). casefold k) kvs @ concat (map (\<lambda>(k, v). iter_keys v) kvs)"
| "iter_keys (PList vs) = concat (map iter_keys vs)"
| "iter_keys _ = []"

definition validate_audit_event :: "audit_event \<Rightarrow> audit_event result" where
  "validate_audit_event e =
     field_checks [(min_length_1 (ae_event_id e), ''event_id''),
                   (min_length_1 (ae_actor_id e), ''actor_id''),
                   (min_length_1 (ae_action e), ''action''),
                   (min_length_1 (ae_object_type e), ''object_type''),
                   (min_length_1 (ae_object_id e), ''object_id'')]
       (if list_ex (\<lambda>k. k \<in> set prohibited_audit_keys) (iter_keys (PDict (ae_details e)))
        then Inl (ValueError ''Audit details must not replicate contact endpoints or message bodies'')
        else Inr e)"

section \<open>What an accepted value satisfies\<close>

fun decision_permitted :: "contact_data_class \<Rightarrow> contact_policy_decision \<Rightarrow> bool" where
  "decision_permitted BLOCKED d = (d = CP_BLOCK)"
| "decision_permitted AMBIGUOUS_PERSONAL d = (d = CP_LINK_ONLY \<or> d = CP_BLOCK)"
| "decision_permitted PROFESSIONAL_PERSONAL d = (d = CP_CONTEXTUAL)"
| "decision_permitted _ d = True"

definition channel_named :: "contact_channel \<Rightarrow> bool" where
  "channel_named c =
     (cc_channel_type c \<in> {NAMED_PROFESSIONAL_EMAIL, NAMED_PROFESSIONAL_PHONE} \<and> truthy (cc_contact_name c))"

definition exposes_nothing :: "contact_channel \<Rightarrow> bool" where
  "exposes_nothing c = (cc_endpoint c = None \<and> cc_allowed_actions c = {})"

definition endpoint_fits :: "contact_channel \<Rightarrow> bool" where
  "endpoint_fits c = (\<exists>u s. cc_endpoint c = Some u \<and> u \<noteq> [] \<and> url_scheme u = Inr s
     \<and> casefold s \<in> set (expected_schemes (cc_channel_type c)))"

definition channel_contract :: "contact_channel \<Rightarrow> bool" where
  \<comment> \<open>the policy as a table: who decides what, and what each decision may expose\<close>
  "channel_contract c =
     (\<not> cc_searchable_globally c \<and> \<not> cc_exportable c \<and> \<not> cc_marketing_use c
      \<and> decision_permitted (cc_data_class c) (cc_policy_decision c)
      \<and> (cc_data_class c = PROFESSIONAL_PERSONAL \<longrightarrow> channel_named c)
      \<and> (if cc_policy_decision c = CP_BLOCK then exposes_nothing c
         else endpoint_fits c
           \<and> (cc_policy_decision c = CP_LINK_ONLY \<longrightarrow> cc_allowed_actions c = {CA_OPEN})
           \<and> (cc_status c = CS_SUPERSEDED \<longrightarrow> truthy (cc_superseded_by c))))"

lemma channel_endpoint_checks_ok [gate_simps]:
  "channel_endpoint_checks c = Inr d \<longleftrightarrow>
     d = c \<and> endpoint_fits c
     \<and> (cc_policy_decision c = CP_LINK_ONLY \<longrightarrow> cc_allowed_actions c = {CA_OPEN})
     \<and> (cc_status c = CS_SUPERSEDED \<longrightarrow> truthy (cc_superseded_by c))"
  by (auto simp: channel_endpoint_checks_def endpoint_fits_def truthy_def bindE_eq_Inr
      split: option.splits if_splits)

lemma channel_class_checks_ok [gate_simps]:
  "channel_class_checks c k = Inr d \<longleftrightarrow>
     k = Inr d \<and> (cc_data_class c \<noteq> BLOCKED \<longrightarrow> decision_permitted (cc_data_class c) (cc_policy_decision c))
     \<and> (cc_data_class c = PROFESSIONAL_PERSONAL \<longrightarrow> channel_named c)"
  by (cases "cc_data_class c") (auto simp: channel_class_checks_def channel_named_def split: if_splits)

lemma validate_channel_policy_ok [gate_simps]:
  "validate_channel_policy c = Inr d \<longleftrightarrow> d = c \<and> channel_contract c"
  by (cases "cc_data_class c = BLOCKED")
    (auto simp: validate_channel_policy_def channel_contract_def exposes_nothing_def gate_simps
      split: if_splits)

fun clarification_stage :: "clarification_state \<Rightarrow> nat" where
  "clarification_stage CL_USER_APPROVED = 1"
| "clarification_stage CL_EXTERNAL_HANDOFF = 2"
| "clarification_stage CL_SENT_CONFIRMED = 3"
| "clarification_stage CL_ANSWER_RECEIVED = 4"
| "clarification_stage CL_ANSWER_APPLIED = 5"
| "clarification_stage CL_CLOSED = 6"
| "clarification_stage _ = 0"

inductive key_occurs :: "pyval \<Rightarrow> string \<Rightarrow> bool" where
  here: "(k, v) \<in> set kvs \<Longrightarrow> key_occurs (PDict kvs) k"
| in_dict: "(k', v) \<in> set kvs \<Longrightarrow> key_occurs v k \<Longrightarrow> key_occurs (PDict kvs) k"
| in_list: "v \<in> set vs \<Longrightarrow> key_occurs v k \<Longrightarrow> key_occurs (PList vs) k"

inductive_simps key_occurs_dict: "key_occurs (PDict kvs) k"
inductive_simps key_occurs_list: "key_occurs (PList vs) k"
inductive_cases key_occurs_leafE: "key_occurs PNone k" "key_occurs (PBool b) k" "key_occurs (PInt i) k" "key_occurs (PFloat r) k"
  "key_occurs (PStr s) k" "key_occurs (PTuple vs) k"

lemma iter_keys_iff: "x \<in> set (iter_keys v) \<longleftrightarrow> (\<exists>k. key_occurs v k \<and> x = casefold k)"
proof (induction v rule: iter_keys.induct)
  case (1 kvs)
  have "x \<in> set (iter_keys (PDict kvs)) \<longleftrightarrow>
      (\<exists>(k, v)\<in>set kvs. x = casefold k) \<or> (\<exists>(k, v)\<in>set kvs. x \<in> set (iter_keys v))"
    by force
  also have "\<dots> \<longleftrightarrow> (\<exists>(k, v)\<in>set kvs. x = casefold k)
      \<or> (\<exists>(k', v)\<in>set kvs. \<exists>k. key_occurs v k \<and> x = casefold k)"
    using 1 by fastforce
  also have "\<dots> \<longleftrightarrow> (\<exists>k. key_occurs (PDict kvs) k \<and> x = casefold k)"
    by (auto simp: key_occurs_dict)
  finally show ?case .
next
  case (2 vs)
  then show ?case by (auto simp: key_occurs_list)
qed (auto elim: key_occurs_leafE)

definition channel_fields_present :: "contact_channel \<Rightarrow> bool" where
  "channel_fields_present c =
     list_all (\<lambda>f. f c \<noteq> []) [cc_channel_id, cc_opportunity_id, cc_source_notice_id, cc_organisation_name]"

definition clarification_contract :: "clarification \<Rightarrow> bool" where
  \<comment> \<open>the evidence a clarification carries grows with the stage it has reached\<close>
  "clarification_contract c =
     (list_all (\<lambda>f. f c \<noteq> []) [cl_clarification_id, cl_procedure_reference, cl_question, cl_rationale,
        cl_channel_id, cl_created_by]
      \<and> (1 \<le> clarification_stage (cl_state c) \<longrightarrow> truthy (cl_approved_by c) \<and> cl_approved_at c \<noteq> None)
      \<and> (2 \<le> clarification_stage (cl_state c) \<longrightarrow> cl_external_handoff_at c \<noteq> None)
      \<and> (3 \<le> clarification_stage (cl_state c) \<longrightarrow> truthy (cl_sent_confirmed_by c) \<and> cl_sent_at c \<noteq> None))"

definition audit_fields_present :: "audit_event \<Rightarrow> bool" where
  "audit_fields_present e =
     list_all (\<lambda>f. f e \<noteq> []) [ae_event_id, ae_actor_id, ae_action, ae_object_type, ae_object_id]"

lemma min_length_1_iff [valid_simps]: "min_length_1 s \<longleftrightarrow> s \<noteq> []"
  by (cases s) (simp_all add: min_length_1_def)

lemma is_ok_if [valid_simps]: "is_ok (if b then r else r') \<longleftrightarrow> (if b then is_ok r else is_ok r')"
  by simp

lemma validate_contact_channel_ok [gate_simps]:
  "validate_contact_channel c = Inr d \<longleftrightarrow> d = c \<and> channel_fields_present c \<and> channel_contract c"
  by (auto simp: validate_contact_channel_def channel_fields_present_def valid_simps gate_simps)

text \<open>A contact channel is accepted exactly when its required fields are non-empty and it
  satisfies the contact policy as a table: never CRM data, a decision its data class permits, a
  named channel for professional personal data, nothing exposed under BLOCK, and otherwise an
  endpoint whose scheme fits the channel, \<^verbatim>\<open>OPEN\<close> alone under LINK_ONLY, a replacement when
  superseded.\<close>

theorem contact_channel_accepted_iff:
  "validate_contact_channel c = Inr d \<longleftrightarrow> d = c \<and> channel_fields_present c \<and> channel_contract c"
  by (rule validate_contact_channel_ok)

text \<open>A clarification is accepted exactly when its text fields are non-empty and it carries the
  evidence of every stage up to its own: subscriber approval, then a recorded handoff, then the
  subscriber's confirmation that it was sent.\<close>

theorem clarification_accepted_iff:
  "validate_clarification c = Inr d \<longleftrightarrow> d = c \<and> clarification_contract c"
  by (cases "cl_state c") (auto simp: validate_clarification_def clarification_contract_def valid_simps)

text \<open>An audit event is rejected exactly when a required field is empty or a prohibited key
  occurs, in any letter case, in the details or in any dictionary reachable from them through
  dictionaries and lists.\<close>

theorem audit_event_accepted_iff:
  "is_ok (validate_audit_event e) \<longleftrightarrow> audit_fields_present e
     \<and> \<not> (\<exists>k. key_occurs (PDict (ae_details e)) k \<and> casefold k \<in> set prohibited_audit_keys)"
proof -
  have "list_ex (\<lambda>k. k \<in> set prohibited_audit_keys) (iter_keys (PDict (ae_details e))) \<longleftrightarrow>
      (\<exists>k. key_occurs (PDict (ae_details e)) k \<and> casefold k \<in> set prohibited_audit_keys)"
    unfolding list_ex_iff Bex_def iter_keys_iff by blast
  then show ?thesis
    by (simp add: validate_audit_event_def audit_fields_present_def valid_simps del: iter_keys.simps)
qed

text \<open>A prohibited key inside a tuple is not seen: the details \<^verbatim>\<open>{"items": ({"email": x},)}\<close> are
  accepted, although the same value in a list is rejected.\<close>

theorem audit_event_tuple_escapes:
  "is_ok (validate_audit_event \<lparr>ae_event_id = ''e'', ae_tenant_id = t, ae_workspace_id = None,
       ae_actor_id = ''a'', ae_action = ''x'', ae_object_type = ''o'', ae_object_id = ''i'',
       ae_occurred_at = n, ae_source_version = None, ae_policy_version = None,
       ae_details = [(''items'', PTuple [PDict [(''email'', v)]])]\<rparr>)
   \<and> \<not> is_ok (validate_audit_event \<lparr>ae_event_id = ''e'', ae_tenant_id = t, ae_workspace_id = None,
       ae_actor_id = ''a'', ae_action = ''x'', ae_object_type = ''o'', ae_object_id = ''i'',
       ae_occurred_at = n, ae_source_version = None, ae_policy_version = None,
       ae_details = [(''items'', PList [PDict [(''email'', v)]])]\<rparr>)"
  by (simp add: validate_audit_event_def valid_simps prohibited_audit_keys_def casefold_def
      lower_char_def is_ascii_upper_def is_latin_upper_def code_def)

end
