(* ===== verification/ContactPolicy.thy ===== *)
theory ContactPolicy
  imports ProcurementDomain
begin

text \<open>
  The O01 contextual contact policy, \<^verbatim>\<open>apps/api/src/axignal_api/o01_contact_policy.py\<close>: the policy
  table \<^verbatim>\<open>_POLICY\<close>, its evaluation for a data class and channel type, and the validation of a
  channel of the domain model against it.
\<close>

record contact_policy_outcome =
  po_data_class :: contact_data_class
  po_decision :: contact_policy_decision
  po_permitted_channel_types :: "contact_channel_type set"
  po_persistence_mode :: string
  po_source_link_required :: bool
  po_conditions :: "string list"

fun o01_policy :: "contact_data_class \<Rightarrow> contact_policy_outcome" where
  "o01_policy INSTITUTIONAL =
     \<lparr>po_data_class = INSTITUTIONAL, po_decision = CP_ALLOW,
      po_permitted_channel_types = {PROCUREMENT_PLATFORM, BUYER_PROFILE, OFFICIAL_FORM},
      po_persistence_mode = ''OPPORTUNITY_SCOPED_REFERENCE_AFTER_TYPED_APPROVAL'',
      po_source_link_required = True,
      po_conditions = [''official procurement purpose only'', ''source provenance required'',
        ''no marketing, export or global person search'']\<rparr>"
| "o01_policy FUNCTIONAL_NON_PERSONAL =
     \<lparr>po_data_class = FUNCTIONAL_NON_PERSONAL, po_decision = CP_ALLOW,
      po_permitted_channel_types = {FUNCTIONAL_EMAIL, OFFICIAL_PHONE},
      po_persistence_mode = ''OPPORTUNITY_SCOPED_REFERENCE_AFTER_TYPED_APPROVAL'',
      po_source_link_required = True,
      po_conditions = [''endpoint must represent an organisation or function'',
        ''source provenance required'', ''no marketing, export or cross-opportunity reuse'']\<rparr>"
| "o01_policy PROFESSIONAL_PERSONAL =
     \<lparr>po_data_class = PROFESSIONAL_PERSONAL, po_decision = CP_CONTEXTUAL,
      po_permitted_channel_types = {NAMED_PROFESSIONAL_EMAIL, NAMED_PROFESSIONAL_PHONE},
      po_persistence_mode = ''OPPORTUNITY_SCOPED_REFERENCE_PENDING_TYPED_PRIVACY_DECISION'',
      po_source_link_required = True,
      po_conditions = [''published in the source for the same procurement procedure'',
        ''strictly necessary for procedure-specific communication'',
        ''tenant and opportunity scope required'',
        ''no marketing, export, global search or cross-opportunity reuse'',
        ''endpoint and message body excluded from audit payloads'',
        ''retention and deletion require typed Privacy/Data Rights approval'']\<rparr>"
| "o01_policy AMBIGUOUS_PERSONAL =
     \<lparr>po_data_class = AMBIGUOUS_PERSONAL, po_decision = CP_LINK_ONLY,
      po_permitted_channel_types = {SOURCE_LINK_ONLY},
      po_persistence_mode = ''SOURCE_LINK_ONLY_NO_ENDPOINT_PERSISTENCE'',
      po_source_link_required = True,
      po_conditions = [''do not persist the ambiguous endpoint'',
        ''open only the source-native notice or buyer profile'',
        ''reclassify or block before any direct communication action'']\<rparr>"
| "o01_policy BLOCKED =
     \<lparr>po_data_class = BLOCKED, po_decision = CP_BLOCK,
      po_permitted_channel_types = {},
      po_persistence_mode = ''DENIED'',
      po_source_link_required = False,
      po_conditions = [''do not persist, index, search, reveal or act on the endpoint'',
        ''record aggregate rejection evidence only'']\<rparr>"

fun str_channel_type :: "contact_channel_type \<Rightarrow> string" where
  "str_channel_type PROCUREMENT_PLATFORM = ''PROCUREMENT_PLATFORM''"
| "str_channel_type BUYER_PROFILE = ''BUYER_PROFILE''"
| "str_channel_type OFFICIAL_FORM = ''OFFICIAL_FORM''"
| "str_channel_type FUNCTIONAL_EMAIL = ''FUNCTIONAL_EMAIL''"
| "str_channel_type NAMED_PROFESSIONAL_EMAIL = ''NAMED_PROFESSIONAL_EMAIL''"
| "str_channel_type OFFICIAL_PHONE = ''OFFICIAL_PHONE''"
| "str_channel_type NAMED_PROFESSIONAL_PHONE = ''NAMED_PROFESSIONAL_PHONE''"
| "str_channel_type SOURCE_LINK_ONLY = ''SOURCE_LINK_ONLY''"

fun str_data_class :: "contact_data_class \<Rightarrow> string" where
  "str_data_class INSTITUTIONAL = ''INSTITUTIONAL''"
| "str_data_class FUNCTIONAL_NON_PERSONAL = ''FUNCTIONAL_NON_PERSONAL''"
| "str_data_class PROFESSIONAL_PERSONAL = ''PROFESSIONAL_PERSONAL''"
| "str_data_class AMBIGUOUS_PERSONAL = ''AMBIGUOUS_PERSONAL''"
| "str_data_class BLOCKED = ''BLOCKED''"

definition evaluate_o01_contact_policy ::
    "contact_data_class \<Rightarrow> contact_channel_type \<Rightarrow> contact_policy_outcome result" where
  "evaluate_o01_contact_policy data_class channel_type =
     (let outcome = o01_policy data_class in
      if channel_type \<notin> po_permitted_channel_types outcome then
        (if data_class = BLOCKED
         then Inl (ValueError ''Blocked contact data has no permitted channel type'')
         else Inl (ValueError (str_channel_type channel_type
                @ '' is not permitted for O01 data class '' @ str_data_class data_class)))
      else Inr outcome)"

definition validate_o01_contact_channel :: "contact_channel \<Rightarrow> contact_policy_outcome result" where
  "validate_o01_contact_channel c =
     bindE (evaluate_o01_contact_policy (cc_data_class c) (cc_channel_type c)) (\<lambda>outcome.
       if cc_policy_decision c \<noteq> po_decision outcome
       then Inl (ValueError ''Contact policy decision does not match the O01 contextual policy'')
       else if cc_purpose c \<noteq> ''PROCUREMENT_PROCEDURE_COMMUNICATION''
       then Inl (ValueError ''O01 contact channels are limited to procurement communication'')
       else if cc_searchable_globally c \<or> cc_exportable c \<or> cc_marketing_use c
       then Inl (ValueError ''O01 contact channels cannot become CRM or marketing data'')
       else Inr outcome)"

definition policy_matrix :: "contact_policy_outcome list" where
  "policy_matrix = map o01_policy
     [INSTITUTIONAL, FUNCTIONAL_NON_PERSONAL, PROFESSIONAL_PERSONAL, AMBIGUOUS_PERSONAL, BLOCKED]"

section \<open>Lemmas\<close>

lemma o01_policy_class [simp]: "po_data_class (o01_policy d) = d"
  by (cases d) simp_all


lemma evaluate_o01_ok [gate_simps]:
  "evaluate_o01_contact_policy d t = Inr po \<longleftrightarrow>
     po = o01_policy d \<and> t \<in> po_permitted_channel_types (o01_policy d)"
  by (auto simp: evaluate_o01_contact_policy_def Let_def split: if_splits)

lemma evaluate_o01_is_ok:
  "is_ok (evaluate_o01_contact_policy d t) \<longleftrightarrow> t \<in> po_permitted_channel_types (o01_policy d)"
  by (simp add: evaluate_o01_contact_policy_def Let_def)


lemma channel_types_disjoint:
  "t \<in> po_permitted_channel_types (o01_policy d) \<Longrightarrow> t \<in> po_permitted_channel_types (o01_policy d')
    \<Longrightarrow> d = d'"
  by (cases d; cases d') auto

lemma validate_o01_ok [gate_simps]:
  "validate_o01_contact_channel c = Inr po \<longleftrightarrow>
     po = o01_policy (cc_data_class c)
     \<and> cc_channel_type c \<in> po_permitted_channel_types po
     \<and> cc_policy_decision c = po_decision po
     \<and> cc_purpose c = ''PROCUREMENT_PROCEDURE_COMMUNICATION''
     \<and> \<not> cc_searchable_globally c \<and> \<not> cc_exportable c \<and> \<not> cc_marketing_use c"
  by (auto simp: validate_o01_contact_channel_def bindE_eq_Inr gate_simps split: if_splits)

fun data_class_of :: "contact_channel_type \<Rightarrow> contact_data_class" where
  "data_class_of FUNCTIONAL_EMAIL = FUNCTIONAL_NON_PERSONAL"
| "data_class_of OFFICIAL_PHONE = FUNCTIONAL_NON_PERSONAL"
| "data_class_of NAMED_PROFESSIONAL_EMAIL = PROFESSIONAL_PERSONAL"
| "data_class_of NAMED_PROFESSIONAL_PHONE = PROFESSIONAL_PERSONAL"
| "data_class_of SOURCE_LINK_ONLY = AMBIGUOUS_PERSONAL"
| "data_class_of _ = INSTITUTIONAL"

lemma data_class_of_permits: "t \<in> po_permitted_channel_types (o01_policy (data_class_of t))"
  by (cases t) simp_all

lemma permitted_class: "t \<in> po_permitted_channel_types (o01_policy d) \<Longrightarrow> d = data_class_of t"
  using channel_types_disjoint [OF _ data_class_of_permits] .

definition o01_accepted :: "contact_channel \<Rightarrow> bool" where
  \<comment> \<open>both validators accept the channel\<close>
  "o01_accepted c \<longleftrightarrow> is_ok (validate_contact_channel c) \<and> is_ok (validate_o01_contact_channel c)"


definition no_crm_data :: "contact_channel \<Rightarrow> bool" where
  "no_crm_data c \<longleftrightarrow> \<not> cc_searchable_globally c \<and> \<not> cc_exportable c \<and> \<not> cc_marketing_use c
     \<and> cc_purpose c = ''PROCUREMENT_PROCEDURE_COMMUNICATION''"


lemma o01_accepted_contracts:
  "o01_accepted c \<longleftrightarrow> channel_fields_present c \<and> channel_contract c
     \<and> cc_channel_type c \<in> po_permitted_channel_types (o01_policy (cc_data_class c))
     \<and> cc_policy_decision c = po_decision (o01_policy (cc_data_class c)) \<and> no_crm_data c"
  unfolding o01_accepted_def is_ok_iff validate_contact_channel_ok validate_o01_ok no_crm_data_def by blast



section \<open>Properties\<close>

text \<open>The O01 policy admits no blocked data whatever the channel, and gives every channel type
  to exactly one data class, so the type of an admitted channel determines its policy.\<close>

theorem o01_policy_partitions_channel_types:
  "(\<forall>t. \<not> is_ok (evaluate_o01_contact_policy BLOCKED t))
   \<and> (\<forall>t. \<exists>!d. is_ok (evaluate_o01_contact_policy d t))"
proof (intro conjI allI)
  fix t
  show "\<not> is_ok (evaluate_o01_contact_policy BLOCKED t)"
    by (simp add: evaluate_o01_is_ok)
  show "\<exists>!d. is_ok (evaluate_o01_contact_policy d t)"
  proof (rule ex1I)
    show "is_ok (evaluate_o01_contact_policy (data_class_of t) t)"
      by (simp only: evaluate_o01_is_ok data_class_of_permits)
  next
    fix d
    assume "is_ok (evaluate_o01_contact_policy d t)"
    then have "t \<in> po_permitted_channel_types (o01_policy d)"
      by (simp only: evaluate_o01_is_ok)
    then show "d = data_class_of t"
      by (rule permitted_class)
  qed
qed


definition sample_channel :: contact_channel where
  "sample_channel =
     \<lparr>cc_channel_id = ''ch-1'', cc_opportunity_id = ''opp-1'', cc_source_notice_id = ''n-1'',
      cc_source_url = ''https://ted.europa.eu/n-1'', cc_channel_type = FUNCTIONAL_EMAIL,
      cc_organisation_name = ''Buyer'', cc_department = None, cc_contact_name = None,
      cc_contact_role = None, cc_endpoint = Some ''mailto:tenders@buyer.eu'',
      cc_data_class = FUNCTIONAL_NON_PERSONAL, cc_policy_decision = CP_ALLOW,
      cc_purpose = ''PROCUREMENT_PROCEDURE_COMMUNICATION'', cc_searchable_globally = False,
      cc_exportable = False, cc_marketing_use = False, cc_allowed_actions = {CA_OPEN},
      cc_last_verified_at = 0, cc_status = CS_ACTIVE, cc_superseded_by = None\<rparr>"

lemma sample_endpoint: "url_scheme ''mailto:tenders@buyer.eu'' = Inr ''mailto''"
  by code_simp

lemma casefold_mailto: "casefold ''mailto'' = ''mailto''"
  by code_simp

lemma sample_channel_accepted: "validate_contact_channel sample_channel = Inr sample_channel"
  unfolding validate_contact_channel_ok
  by (simp add: sample_channel_def channel_fields_present_def channel_contract_def endpoint_fits_def
      sample_endpoint casefold_mailto)

text \<open>A functional mailbox passes both validators; the same mailbox declared as ambiguous personal data does not.\<close>

lemma sample_o01: "o01_accepted sample_channel" "\<not> o01_accepted (sample_channel\<lparr>cc_data_class := AMBIGUOUS_PERSONAL\<rparr>)"
proof -
  have "channel_fields_present sample_channel" "channel_contract sample_channel"
    using sample_channel_accepted by (simp_all add: validate_contact_channel_ok)
  then show "o01_accepted sample_channel" by (simp add: o01_accepted_contracts) (simp add: sample_channel_def no_crm_data_def)
  show "\<not> o01_accepted (sample_channel\<lparr>cc_data_class := AMBIGUOUS_PERSONAL\<rparr>)"
    by (simp add: o01_accepted_contracts) (simp add: sample_channel_def)
qed

end
