(* ===== verification/XmlTree.thy ===== *)
theory XmlTree
  imports PyData
begin

text \<open>
  \<^verbatim>\<open>xml.etree.ElementTree\<close> as far as the notice parsers use it: an element with its tag in Clark
  notation, its attributes, its leading text and its children; \<^verbatim>\<open>find\<close> and \<^verbatim>\<open>findall\<close> along a
  path of child steps, each a prefixed name with at most one \<^verbatim>\<open>[@attribute='value']\<close> test;
  \<^verbatim>\<open>iter\<close> in document order. Fixed-length regular expressions are lists of character classes.
\<close>

datatype xml = Element (xml_tag: string) (xml_attrib: "(string \<times> string) list")
  (xml_text: "string option") (xml_children: "xml list")

datatype step = Step (step_prefix: string) (step_local: string) (step_test: "(string \<times> string) option")

abbreviation el :: "string \<Rightarrow> string \<Rightarrow> step" where
  "el p l \<equiv> Step p l None"

abbreviation el_with :: "string \<Rightarrow> string \<Rightarrow> string \<Rightarrow> string \<Rightarrow> step" where
  "el_with p l a v \<equiv> Step p l (Some (a, v))"

definition step_text :: "step \<Rightarrow> string" where
  \<comment> \<open>the step as the path string spells it\<close>
  "step_text s = step_prefix s @ '':'' @ step_local s @
     (case step_test s of None \<Rightarrow> []
      | Some (a, v) \<Rightarrow> ''[@'' @ a @ ''='' @ [CHR 0x27] @ v @ [CHR 0x27] @ '']'')"

definition path_text :: "step list \<Rightarrow> string" where
  "path_text p = join ''/'' (map step_text p)"

definition clark :: "(string \<times> string) list \<Rightarrow> string \<Rightarrow> string \<Rightarrow> string" where
  "clark ns p l = (case map_of ns p of None \<Rightarrow> l | Some uri \<Rightarrow> ''{'' @ uri @ ''}'' @ l)"

definition xml_get :: "xml \<Rightarrow> string \<Rightarrow> string option" where
  "xml_get e a = map_of (xml_attrib e) a"

definition step_matches :: "(string \<times> string) list \<Rightarrow> step \<Rightarrow> xml \<Rightarrow> bool" where
  "step_matches ns s e =
     (xml_tag e = clark ns (step_prefix s) (step_local s)
      \<and> (case step_test s of None \<Rightarrow> True | Some (a, v) \<Rightarrow> xml_get e a = Some v))"

fun findall :: "(string \<times> string) list \<Rightarrow> step list \<Rightarrow> xml \<Rightarrow> xml list" where
  "findall ns [] e = [e]"
| "findall ns (s # ss) e = concat (map (findall ns ss) (filter (step_matches ns s) (xml_children e)))"

definition find :: "(string \<times> string) list \<Rightarrow> step list \<Rightarrow> xml \<Rightarrow> xml option" where
  "find ns p e = (case findall ns p e of [] \<Rightarrow> None | x # _ \<Rightarrow> Some x)"

fun xml_iter :: "xml \<Rightarrow> xml list" where
  "xml_iter (Element t a x cs) = Element t a x cs # concat (map xml_iter cs)"

definition element_text :: "xml option \<Rightarrow> string" where
  \<comment> \<open>the parsers' \<^verbatim>\<open>_text\<close>: absent element or text is the empty string, blanks are collapsed\<close>
  "element_text e =
     (case e of None \<Rightarrow> [] | Some x \<Rightarrow> (case xml_text x of None \<Rightarrow> [] | Some t \<Rightarrow> collapse_ws t))"

definition local_name :: "string \<Rightarrow> string" where
  \<comment> \<open>\<^verbatim>\<open>tag.rsplit("}", 1)[-1]\<close>\<close>
  "local_name t = after_last (CHR ''}'') t"

definition full_match :: "(char \<Rightarrow> bool) list \<Rightarrow> string \<Rightarrow> bool" where
  "full_match classes s = list_all2 (\<lambda>p c. p c) classes s"

definition is_dash :: "char \<Rightarrow> bool" where
  "is_dash c = (c = CHR ''-'')"

definition uuid4_classes :: "(char \<Rightarrow> bool) list" where
  \<comment> \<open>\<^verbatim>\<open>[0-9a-f]{8}-[0-9a-f]{4}-4[0-9a-f]{3}-[89ab][0-9a-f]{3}-[0-9a-f]{12}\<close>, case ignored\<close>
  "uuid4_classes =
     replicate 8 is_hex @ [is_dash] @ replicate 4 is_hex @ [is_dash]
     @ [\<lambda>c. c = CHR ''4''] @ replicate 3 is_hex @ [is_dash]
     @ [\<lambda>c. c \<in> set ''89abAB''] @ replicate 3 is_hex @ [is_dash] @ replicate 12 is_hex"

section \<open>Lemmas\<close>

lemma element_text_normal: "collapse_ws (element_text e) = element_text e"
proof -
  have "collapse_ws [] = []"
    by (simp add: collapse_ws_def split_ws_def)
  then show ?thesis
    by (simp add: element_text_def collapse_ws_idem split: option.split)
qed

lemma findall_iter: "x \<in> set (findall ns p e) \<Longrightarrow> x \<in> set (xml_iter e)"
proof (induction p arbitrary: e)
  case Nil
  then show ?case by (cases e) simp
next
  case (Cons s ss)
  then obtain c where c: "c \<in> set (xml_children e)" "x \<in> set (findall ns ss c)"
    by auto
  from Cons.IH [OF c(2)] c(1) show ?case by (cases e) auto
qed

declare findall.simps [simp del]

lemma full_match_length: "full_match cs s \<Longrightarrow> length s = length cs"
  by (auto simp: full_match_def dest: list_all2_lengthD)

end
