(* ===== verification/TedEforms.thy ===== *)
theory TedEforms
  imports XmlTree Sha256
begin

text \<open>
  The version-pinned parser for contract notices of subtype 16,
  \<^verbatim>\<open>apps/api/src/axignal_api/connectors/ted_eforms.py\<close>. The XML reader (\<^verbatim>\<open>defusedxml\<close>, not part of
  the repository) is the argument \<^term>\<open>fromstring\<close>, \<^const>\<open>None\<close> where it raises; everything the
  parser does with the tree is here, in its order, every raise a branch.
\<close>

definition max_xml_bytes :: nat where
  "max_xml_bytes = 2097152"

definition NS :: "(string \<times> string) list" where
  "NS =
     [(''cn'', ''urn:oasis:names:specification:ubl:schema:xsd:ContractNotice-2''),
      (''cac'', ''urn:oasis:names:specification:ubl:schema:xsd:CommonAggregateComponents-2''),
      (''cbc'', ''urn:oasis:names:specification:ubl:schema:xsd:CommonBasicComponents-2''),
      (''ext'', ''urn:oasis:names:specification:ubl:schema:xsd:CommonExtensionComponents-2''),
      (''efac'', ''http://data.europa.eu/p27/eforms-ubl-extension-aggregate-components/1''),
      (''efbc'', ''http://data.europa.eu/p27/eforms-ubl-extension-basic-components/1''),
      (''efext'', ''http://data.europa.eu/p27/eforms-ubl-extensions/1'')]"

definition personal_local_names :: "string list" where
  "personal_local_names =
     [''Contact'', ''ElectronicMail'', ''FamilyName'', ''FirstName'', ''Person'', ''Telefax'', ''Telephone'']"

record localised_text =
  lt_value :: string
  lt_language :: "string option"

record procurement_organisation =
  og_organisation_id :: string
  og_names :: "localised_text list"
  og_national_identifier :: "string option"
  og_nuts_codes :: "string list"
  og_country_codes :: "string list"

record procurement_project =
  pj_names :: "localised_text list"
  pj_descriptions :: "localised_text list"
  pj_contract_nature :: "string option"
  pj_cpv_codes :: "string list"
  pj_nuts_codes :: "string list"
  pj_country_codes :: "string list"
  pj_estimated_value :: "string option"
  pj_estimated_value_currency :: "string option"

record procurement_lot =
  lo_lot_id :: string
  lo_project :: "procurement_project option"
  lo_submission_deadline_date :: "string option"
  lo_submission_deadline_time :: "string option"
  lo_eu_funding_indicator :: "string option"

record candidate_claim =
  pc_predicate :: string
  pc_subject_key :: string
  pc_value :: pyval
  pc_source_path :: string
  pc_authority :: string

definition fingerprint :: "candidate_claim \<Rightarrow> string" where
  "fingerprint c =
     sha256_ref (utf8 (join [CHR 0x1F]
       [pc_authority c, pc_predicate c, pc_subject_key c, repr (pc_value c), pc_source_path c]))"

definition mk_claim :: "string \<Rightarrow> string \<Rightarrow> pyval \<Rightarrow> string \<Rightarrow> candidate_claim" where
  \<comment> \<open>the constructor with the default authority\<close>
  "mk_claim p s v path =
     \<lparr>pc_predicate = p, pc_subject_key = s, pc_value = v, pc_source_path = path,
      pc_authority = ''OBSERVED''\<rparr>"

record parsed_notice =
  pn_document_type :: string
  pn_customization_id :: string
  pn_ubl_version :: string
  pn_notice_id :: string
  pn_version_id :: string
  pn_issue_date :: string
  pn_issue_time :: "string option"
  pn_notice_type :: string
  pn_notice_subtype :: string
  pn_notice_languages :: "string list"
  pn_procedure_identifier :: "string option"
  pn_procedure_type :: "string option"
  pn_buyer_organisation_refs :: "string list"
  pn_organisations :: "procurement_organisation list"
  pn_procedure_project :: "procurement_project option"
  pn_lots :: "procurement_lot list"
  pn_personal_field_element_count :: nat
  pn_raw_content_hash :: string

section \<open>Candidate claims\<close>

definition claim_if :: "string option \<Rightarrow> (string \<Rightarrow> candidate_claim) \<Rightarrow> candidate_claim list" where
  \<comment> \<open>\<^verbatim>\<open>if x: claims.append(...)\<close> for an optional string\<close>
  "claim_if x mk = (case x of None \<Rightarrow> [] | Some s \<Rightarrow> if s = [] then [] else [mk s])"

definition project_claims :: "string \<Rightarrow> procurement_project option \<Rightarrow> string \<Rightarrow> candidate_claim list" where
  \<comment> \<open>what \<^verbatim>\<open>_append_project_claims\<close> appends\<close>
  "project_claims subject project path_prefix =
     (case project of None \<Rightarrow> []
      | Some p \<Rightarrow>
          map (\<lambda>cpv. mk_claim ''procurement_cpv_code'' subject (PStr cpv)
                (path_prefix @ ''/cac:MainCommodityClassification/cbc:ItemClassificationCode''))
            (pj_cpv_codes p)
          @ map (\<lambda>nuts. mk_claim ''procurement_place_of_performance_nuts'' subject (PStr nuts)
                (path_prefix @ ''/cac:RealizedLocation/cac:Address/cbc:CountrySubentityCode''))
            (pj_nuts_codes p)
          @ claim_if (pj_contract_nature p) (\<lambda>n. mk_claim ''procurement_contract_nature'' subject (PStr n)
                (path_prefix @ ''/cbc:ProcurementTypeCode''))
          @ (case pj_estimated_value p of None \<Rightarrow> []
             | Some v \<Rightarrow> [mk_claim ''procurement_estimated_value'' subject
                 (PDict [(''amount'', PStr v), (''currency'', opt_str (pj_estimated_value_currency p))])
                 (path_prefix @ ''/cbc:EstimatedOverallContractAmount'')]))"

definition buyer_claims :: "parsed_notice \<Rightarrow> string \<Rightarrow> candidate_claim list" where
  \<comment> \<open>the body of the loop over the buyer references; \<^verbatim>\<open>organisation_map\<close> keeps the last entry of an id\<close>
  "buyer_claims n ref =
     mk_claim ''procurement_buyer_organisation_ref'' (pn_notice_id n) (PStr ref)
       ''/ContractNotice/cac:ContractingParty/cac:Party/cac:PartyIdentification/cbc:ID''
     # (case map_of (rev (map (\<lambda>og. (og_organisation_id og, og)) (pn_organisations n))) ref of
          None \<Rightarrow> []
        | Some buyer \<Rightarrow>
            map (\<lambda>nm. mk_claim ''procurement_buyer_official_name'' ref
                  (PDict [(''text'', PStr (lt_value nm)), (''language'', opt_str (lt_language nm))])
                  ''/ContractNotice/ext:UBLExtensions/.../efac:Organizations/efac:Organization/efac:Company/cac:PartyName/cbc:Name'')
              (og_names buyer)
            @ claim_if (og_national_identifier buyer) (\<lambda>i. mk_claim ''procurement_buyer_identifier'' ref (PStr i)
                  ''/ContractNotice/ext:UBLExtensions/.../efac:Company/cac:PartyLegalEntity/cbc:CompanyID''))"

definition lot_claims :: "parsed_notice \<Rightarrow> procurement_lot \<Rightarrow> candidate_claim list" where
  "lot_claims n lot =
     (let lot_subject = pn_notice_id n @ '':'' @ lo_lot_id lot in
      [mk_claim ''procurement_lot_identifier'' lot_subject (PStr (lo_lot_id lot))
         ''/ContractNotice/cac:ProcurementProjectLot/cbc:ID'']
      @ project_claims lot_subject (lo_project lot)
          ''/ContractNotice/cac:ProcurementProjectLot/cac:ProcurementProject''
      @ claim_if (lo_submission_deadline_date lot) (\<lambda>d. mk_claim ''procurement_submission_deadline'' lot_subject
          (PDict [(''date'', PStr d), (''time'', opt_str (lo_submission_deadline_time lot))])
          ''/ContractNotice/cac:ProcurementProjectLot/cac:TenderingProcess/cac:TenderSubmissionDeadlinePeriod'')
      @ claim_if (lo_eu_funding_indicator lot) (\<lambda>f. mk_claim ''procurement_eu_funding_indicator'' lot_subject
          (PStr f)
          ''/ContractNotice/cac:ProcurementProjectLot/cac:TenderingTerms/cbc:FundingProgramCode''))"

definition candidate_claims :: "parsed_notice \<Rightarrow> candidate_claim list" where
  "candidate_claims n =
     [mk_claim ''procurement_notice_type'' (pn_notice_id n) (PStr (pn_notice_type n))
        ''/ContractNotice/cbc:NoticeTypeCode'',
      mk_claim ''procurement_notice_subtype'' (pn_notice_id n) (PStr (pn_notice_subtype n))
        ''/ContractNotice/ext:UBLExtensions/ext:UBLExtension/ext:ExtensionContent/efext:EformsExtension/efac:NoticeSubType/cbc:SubTypeCode'',
      mk_claim ''procurement_notice_issue_date'' (pn_notice_id n) (PStr (pn_issue_date n))
        ''/ContractNotice/cbc:IssueDate'']
     @ claim_if (pn_procedure_identifier n) (\<lambda>i. mk_claim ''procurement_procedure_identifier'' (pn_notice_id n)
          (PStr i) ''/ContractNotice/cbc:ContractFolderID'')
     @ claim_if (pn_procedure_type n) (\<lambda>t. mk_claim ''procurement_procedure_type'' (pn_notice_id n)
          (PStr t) ''/ContractNotice/cac:TenderingProcess/cbc:ProcedureCode'')
     @ concat (map (buyer_claims n) (pn_buyer_organisation_refs n))
     @ project_claims (pn_notice_id n) (pn_procedure_project n) ''/ContractNotice/cac:ProcurementProject''
     @ concat (map (lot_claims n) (pn_lots n))"

section \<open>Reading the tree\<close>

definition required_element_text :: "xml option \<Rightarrow> string \<Rightarrow> string result" where
  "required_element_text e label =
     (let v = element_text e in
      if v = [] then Inl (TEDEFormsParseError (''Required '' @ label @ '' is missing'')) else Inr v)"

definition required_text :: "xml \<Rightarrow> step list \<Rightarrow> string result" where
  "required_text doc p = required_element_text (find NS p doc) (path_text p)"

definition optional_text :: "xml \<Rightarrow> step list \<Rightarrow> string option" where
  "optional_text doc p = (let v = element_text (find NS p doc) in if v = [] then None else Some v)"

definition texts :: "xml \<Rightarrow> step list \<Rightarrow> string list" where
  "texts doc p = filter (\<lambda>v. v \<noteq> []) (map (\<lambda>e. element_text (Some e)) (findall NS p doc))"

definition localised_texts :: "xml list \<Rightarrow> localised_text list" where
  \<comment> \<open>the generator over elements with a non-empty text\<close>
  "localised_texts es =
     map (\<lambda>e. \<lparr>lt_value = element_text (Some e), lt_language = xml_get e ''languageID''\<rparr>)
       (filter (\<lambda>e. element_text (Some e) \<noteq> []) es)"

definition count_personal_elements :: "xml \<Rightarrow> nat" where
  "count_personal_elements doc =
     length (filter (\<lambda>e. local_name (xml_tag e) \<in> set personal_local_names) (xml_iter doc))"

definition extension_path :: "step list" where
  "extension_path = [el ''ext'' ''UBLExtensions'', el ''ext'' ''UBLExtension'', el ''ext'' ''ExtensionContent'',
     el ''efext'' ''EformsExtension'']"

definition parse_project :: "xml option \<Rightarrow> procurement_project option" where
  "parse_project element =
     (case element of None \<Rightarrow> None
      | Some e \<Rightarrow>
          let amount = find NS [el ''cbc'' ''EstimatedOverallContractAmount''] e in
          Some \<lparr>pj_names = localised_texts (findall NS [el ''cbc'' ''Name''] e),
            pj_descriptions = localised_texts (findall NS [el ''cbc'' ''Description''] e),
            pj_contract_nature = optional_text e [el ''cbc'' ''ProcurementTypeCode''],
            pj_cpv_codes = texts e [el ''cac'' ''MainCommodityClassification'',
              el_with ''cbc'' ''ItemClassificationCode'' ''listName'' ''cpv''],
            pj_nuts_codes = texts e [el ''cac'' ''RealizedLocation'', el ''cac'' ''Address'',
              el_with ''cbc'' ''CountrySubentityCode'' ''listName'' ''nuts''],
            pj_country_codes = texts e [el ''cac'' ''RealizedLocation'', el ''cac'' ''Address'',
              el ''cac'' ''Country'', el_with ''cbc'' ''IdentificationCode'' ''listName'' ''country''],
            pj_estimated_value = map_option (\<lambda>a. element_text (Some a)) amount,
            pj_estimated_value_currency = Option.bind amount (\<lambda>a. xml_get a ''currencyID'')\<rparr>)"

definition parse_lot :: "xml \<Rightarrow> procurement_lot result" where
  "parse_lot e =
     bindE (required_element_text (find NS [el_with ''cbc'' ''ID'' ''schemeName'' ''Lot''] e) ''lot ID'')
       (\<lambda>lot_id. Inr
         \<lparr>lo_lot_id = lot_id,
          lo_project = parse_project (find NS [el ''cac'' ''ProcurementProject''] e),
          lo_submission_deadline_date = optional_text e [el ''cac'' ''TenderingProcess'',
            el ''cac'' ''TenderSubmissionDeadlinePeriod'', el ''cbc'' ''EndDate''],
          lo_submission_deadline_time = optional_text e [el ''cac'' ''TenderingProcess'',
            el ''cac'' ''TenderSubmissionDeadlinePeriod'', el ''cbc'' ''EndTime''],
          lo_eu_funding_indicator = optional_text e [el ''cac'' ''TenderingTerms'',
            el_with ''cbc'' ''FundingProgramCode'' ''listName'' ''eu-funded'']\<rparr>)"

definition parse_organisation ::
    "procurement_organisation list \<Rightarrow> xml \<Rightarrow> procurement_organisation list result" where
  \<comment> \<open>the loop body of \<^verbatim>\<open>_parse_organisations\<close>; \<^verbatim>\<open>seen\<close> is the set of ids already appended\<close>
  "parse_organisation organisations company =
     bindE (required_element_text (find NS [el ''cac'' ''PartyIdentification'',
         el_with ''cbc'' ''ID'' ''schemeName'' ''organization''] company) ''organisation ID'')
       (\<lambda>organisation_id.
         if organisation_id \<in> og_organisation_id ` set organisations
         then Inl (TEDEFormsParseError ''Duplicate organisation ID'')
         else let names = localised_texts (findall NS [el ''cac'' ''PartyName'', el ''cbc'' ''Name''] company) in
           if names = [] then Inl (TEDEFormsParseError ''Organisation has no official name'')
           else Inr (organisations @
             [\<lparr>og_organisation_id = organisation_id, og_names = names,
               og_national_identifier = optional_text company [el ''cac'' ''PartyLegalEntity'', el ''cbc'' ''CompanyID''],
               og_nuts_codes = texts company [el ''cac'' ''PostalAddress'',
                 el_with ''cbc'' ''CountrySubentityCode'' ''listName'' ''nuts''],
               og_country_codes = texts company [el ''cac'' ''PostalAddress'', el ''cac'' ''Country'',
                 el_with ''cbc'' ''IdentificationCode'' ''listName'' ''country'']\<rparr>]))"

definition parse_organisations :: "xml \<Rightarrow> procurement_organisation list result" where
  "parse_organisations doc =
     bindE (foldE parse_organisation [] (findall NS (extension_path @ [el ''efac'' ''Organizations'',
         el ''efac'' ''Organization'', el ''efac'' ''Company'']) doc))
       (\<lambda>organisations.
         if organisations = [] then Inl (TEDEFormsParseError ''Contract notice has no organisations'')
         else Inr organisations)"

definition safe_root :: "(string \<Rightarrow> xml option) \<Rightarrow> string \<Rightarrow> xml result" where
  \<comment> \<open>\<^verbatim>\<open>parse\<close> up to the root element: size budget, no DTD or entity declaration, well-formed\<close>
  "safe_root fromstring xml_bytes =
     (if xml_bytes = [] then Inl (TEDEFormsParseError ''TED eForms XML is empty'')
      else if max_xml_bytes < length xml_bytes
      then Inl (TEDEFormsParseError ''TED eForms XML exceeded the parser size budget'')
      else if contains ''<!doctype'' (lower_bytes xml_bytes) \<or> contains ''<!entity'' (lower_bytes xml_bytes)
      then Inl (TEDEFormsParseError ''DTD and entity declarations are prohibited'')
      else case fromstring xml_bytes of
             None \<Rightarrow> Inl (TEDEFormsParseError ''TED eForms XML is malformed or unsafe'')
           | Some doc \<Rightarrow> Inr doc)"

definition parse_buyer_refs :: "xml \<Rightarrow> procurement_organisation list \<Rightarrow> string list result" where
  "parse_buyer_refs doc organisations =
     (let refs = texts doc [el ''cac'' ''ContractingParty'', el ''cac'' ''Party'',
            el ''cac'' ''PartyIdentification'', el_with ''cbc'' ''ID'' ''schemeName'' ''organization'']
      in if refs = [] then Inl (TEDEFormsParseError ''Contract notice has no buyer organisation reference'')
      else if list_ex (\<lambda>r. r \<notin> og_organisation_id ` set organisations) refs
      then Inl (TEDEFormsParseError ''Buyer organisation reference is unresolved'')
      else Inr refs)"

definition is_version_id :: "string \<Rightarrow> bool" where
  "is_version_id v = (full_match [is_digit, is_digit] v \<and> v \<noteq> ''00'')"

definition parse_header :: "xml \<Rightarrow> (string \<times> string \<times> string \<times> string \<times> string \<times> string) result" where
  \<comment> \<open>customization, UBL version, notice id, version id, type and subtype, each pinned in turn\<close>
  "parse_header doc =
     bindE (required_text doc [el ''cbc'' ''CustomizationID'']) (\<lambda>customization_id.
     if customization_id \<noteq> ''eforms-sdk-1.14''
     then Inl (TEDEFormsParseError (''Unsupported eForms customization '' @ repr_str customization_id
            @ ''; expected '' @ repr_str ''eforms-sdk-1.14''))
     else bindE (required_text doc [el ''cbc'' ''UBLVersionID'']) (\<lambda>ubl_version.
     if ubl_version \<noteq> ''2.3'' then Inl (TEDEFormsParseError ''Unsupported UBL version'')
     else bindE (required_element_text (find NS [el_with ''cbc'' ''ID'' ''schemeName'' ''notice-id''] doc)
                   ''notice ID'') (\<lambda>notice_id.
     if \<not> full_match uuid4_classes notice_id
     then Inl (TEDEFormsParseError ''Notice ID is not a version-4 UUID'')
     else bindE (required_text doc [el ''cbc'' ''VersionID'']) (\<lambda>version_id.
     if \<not> is_version_id version_id then Inl (TEDEFormsParseError ''Notice version ID is invalid'')
     else bindE (required_text doc [el ''cbc'' ''NoticeTypeCode'']) (\<lambda>notice_type.
     if notice_type \<noteq> ''cn-standard'' then Inl (TEDEFormsParseError ''Unsupported TED notice type'')
     else bindE (required_text doc (extension_path @ [el ''efac'' ''NoticeSubType'', el ''cbc'' ''SubTypeCode'']))
       (\<lambda>notice_subtype.
     if notice_subtype \<noteq> ''16'' then Inl (TEDEFormsParseError ''Unsupported TED notice subtype'')
     else Inr (customization_id, ubl_version, notice_id, version_id, notice_type, notice_subtype)))))))"

definition parse_cn16 :: "(string \<Rightarrow> xml option) \<Rightarrow> string \<Rightarrow> parsed_notice result" where
  "parse_cn16 fromstring xml_bytes =
     bindE (safe_root fromstring xml_bytes) (\<lambda>doc.
     if xml_tag doc \<noteq> clark NS ''cn'' ''ContractNotice''
     then Inl (TEDEFormsParseError ''Unsupported TED eForms document type'')
     else bindE (parse_header doc)
       (\<lambda>(customization_id, ubl_version, notice_id, version_id, notice_type, notice_subtype).
     bindE (parse_organisations doc) (\<lambda>organisations.
     bindE (parse_buyer_refs doc organisations) (\<lambda>buyer_refs.
     bindE (required_text doc [el ''cbc'' ''IssueDate'']) (\<lambda>issue_date.
     bindE (mapE parse_lot (findall NS [el ''cac'' ''ProcurementProjectLot''] doc)) (\<lambda>lots.
     Inr \<lparr>pn_document_type = ''ContractNotice'',
          pn_customization_id = customization_id,
          pn_ubl_version = ubl_version,
          pn_notice_id = notice_id,
          pn_version_id = version_id,
          pn_issue_date = issue_date,
          pn_issue_time = optional_text doc [el ''cbc'' ''IssueTime''],
          pn_notice_type = notice_type,
          pn_notice_subtype = notice_subtype,
          pn_notice_languages = texts doc [el ''cbc'' ''NoticeLanguageCode''],
          pn_procedure_identifier = optional_text doc [el ''cbc'' ''ContractFolderID''],
          pn_procedure_type = optional_text doc [el ''cac'' ''TenderingProcess'', el ''cbc'' ''ProcedureCode''],
          pn_buyer_organisation_refs = buyer_refs,
          pn_organisations = organisations,
          pn_procedure_project = parse_project (find NS [el ''cac'' ''ProcurementProject''] doc),
          pn_lots = lots,
          pn_personal_field_element_count = count_personal_elements doc,
          pn_raw_content_hash = sha256_ref xml_bytes\<rparr>))))))"

section \<open>What an accepted notice satisfies\<close>

definition organisations_wf :: "procurement_organisation list \<Rightarrow> bool" where
  "organisations_wf ogs =
     (distinct (map og_organisation_id ogs)
      \<and> (\<forall>g\<in>set ogs. og_organisation_id g \<noteq> [] \<and> og_names g \<noteq> [] \<and> (\<forall>t\<in>set (og_names g). lt_value t \<noteq> [])))"

definition notice_wf :: "parsed_notice \<Rightarrow> bool" where
  "notice_wf n =
     (full_match uuid4_classes (pn_notice_id n) \<and> is_version_id (pn_version_id n)
      \<and> pn_customization_id n = ''eforms-sdk-1.14'' \<and> pn_ubl_version n = ''2.3''
      \<and> pn_notice_type n = ''cn-standard'' \<and> pn_notice_subtype n = ''16''
      \<and> pn_issue_date n \<noteq> []
      \<and> pn_organisations n \<noteq> [] \<and> organisations_wf (pn_organisations n)
      \<and> pn_buyer_organisation_refs n \<noteq> []
      \<and> set (pn_buyer_organisation_refs n) \<subseteq> og_organisation_id ` set (pn_organisations n)
      \<and> (\<forall>l\<in>set (pn_lots n). lo_lot_id l \<noteq> []))"

lemma required_element_text_ok [gate_simps]:
  "required_element_text e label = Inr v \<longleftrightarrow> v = element_text e \<and> v \<noteq> []"
  by (auto simp: required_element_text_def Let_def)

lemma required_text_ok [gate_simps]:
  "required_text doc p = Inr v \<longleftrightarrow> v = element_text (find NS p doc) \<and> v \<noteq> []"
  by (simp add: required_text_def gate_simps)

lemma localised_texts_nonempty [simp]: "\<forall>t\<in>set (localised_texts es). lt_value t \<noteq> []"
  by (simp add: localised_texts_def)

lemma parse_organisation_wf:
  "parse_organisation ogs c = Inr ogs' \<Longrightarrow> organisations_wf ogs \<Longrightarrow> organisations_wf ogs'"
  by (auto simp: parse_organisation_def organisations_wf_def bindE_eq_Inr gate_simps Let_def
      localised_texts_nonempty [rule_format] split: if_splits)

lemma parse_organisations_wf:
  assumes "parse_organisations doc = Inr ogs"
  shows "organisations_wf ogs \<and> ogs \<noteq> []"
proof -
  from assms obtain cs where fold: "foldE parse_organisation [] cs = Inr ogs" and ne: "ogs \<noteq> []"
    by (auto simp: parse_organisations_def bindE_eq_Inr split: if_splits)
  from fold have "organisations_wf ogs"
    by (rule foldE_invariant) (simp add: organisations_wf_def, rule parse_organisation_wf)
  with ne show ?thesis by simp
qed

lemma parse_buyer_refs_ok:
  "parse_buyer_refs doc ogs = Inr refs \<Longrightarrow> refs \<noteq> [] \<and> set refs \<subseteq> og_organisation_id ` set ogs"
  by (auto simp: parse_buyer_refs_def Let_def list_ex_iff split: if_splits)

lemma parse_header_ok:
  "parse_header doc = Inr (cu, ub, ni, vi, nt, ns) \<Longrightarrow>
     cu = ''eforms-sdk-1.14'' \<and> ub = ''2.3'' \<and> full_match uuid4_classes ni \<and> is_version_id vi
     \<and> nt = ''cn-standard'' \<and> ns = ''16''"
  by (auto simp: parse_header_def bindE_eq_Inr split: if_splits)

lemma parse_lot_id: "parse_lot e = Inr l \<Longrightarrow> lo_lot_id l \<noteq> []"
  by (auto simp: parse_lot_def bindE_eq_Inr gate_simps)

lemma safe_root_ok:
  "safe_root fs b = Inr doc \<Longrightarrow> b \<noteq> [] \<and> length b \<le> max_xml_bytes
     \<and> \<not> contains ''<!doctype'' (lower_bytes b) \<and> \<not> contains ''<!entity'' (lower_bytes b) \<and> fs b = Some doc"
  by (auto simp: safe_root_def split: if_splits option.splits)

lemma parse_cn16_wf: "parse_cn16 fs b = Inr n \<Longrightarrow> notice_wf n"
  by (auto simp: parse_cn16_def notice_wf_def bindE_eq_Inr gate_simps split: if_splits
      dest!: parse_header_ok parse_organisations_wf parse_buyer_refs_ok
      dest: parse_lot_id mapE_elem)

section \<open>A notice the parser accepts\<close>

definition leaf :: "string \<Rightarrow> string \<Rightarrow> string \<Rightarrow> xml" where
  "leaf p l t = Element (clark NS p l) [] (Some t) []"

definition leaf_with :: "string \<Rightarrow> string \<Rightarrow> string \<Rightarrow> string \<Rightarrow> string \<Rightarrow> xml" where
  "leaf_with p l a v t = Element (clark NS p l) [(a, v)] (Some t) []"

definition node :: "string \<Rightarrow> string \<Rightarrow> xml list \<Rightarrow> xml" where
  "node p l cs = Element (clark NS p l) [] None cs"

definition sample_doc :: xml where
  "sample_doc = node ''cn'' ''ContractNotice''
     [node ''ext'' ''UBLExtensions'' [node ''ext'' ''UBLExtension'' [node ''ext'' ''ExtensionContent''
        [node ''efext'' ''EformsExtension''
           [node ''efac'' ''NoticeSubType'' [leaf ''cbc'' ''SubTypeCode'' ''16''],
            node ''efac'' ''Organizations'' [node ''efac'' ''Organization'' [node ''efac'' ''Company''
              [node ''cac'' ''PartyIdentification'' [leaf_with ''cbc'' ''ID'' ''schemeName'' ''organization'' ''O1''],
               node ''cac'' ''PartyName'' [leaf ''cbc'' ''Name'' ''City'']]]]]]]],
      leaf ''cbc'' ''UBLVersionID'' ''2.3'',
      leaf ''cbc'' ''CustomizationID'' ''eforms-sdk-1.14'',
      leaf_with ''cbc'' ''ID'' ''schemeName'' ''notice-id'' ''00000000-0000-4000-8000-000000000000'',
      leaf ''cbc'' ''VersionID'' ''01'',
      leaf ''cbc'' ''NoticeTypeCode'' ''cn-standard'',
      leaf ''cbc'' ''IssueDate'' ''2026-01-02'',
      node ''cac'' ''ContractingParty'' [node ''cac'' ''Party'' [node ''cac'' ''PartyIdentification''
        [leaf_with ''cbc'' ''ID'' ''schemeName'' ''organization'' ''O1'']]]]"

definition sample_fromstring :: "string \<Rightarrow> xml option" where
  "sample_fromstring b = (if b = ''<x>'' then Some sample_doc else None)"

lemma sample_header: "parse_header sample_doc = Inr (''eforms-sdk-1.14'', ''2.3'',
    ''00000000-0000-4000-8000-000000000000'', ''01'', ''cn-standard'', ''16'')"
  by code_simp

lemma sample_organisations: "parse_organisations sample_doc = Inr
    [\<lparr>og_organisation_id = ''O1'', og_names = [\<lparr>lt_value = ''City'', lt_language = None\<rparr>],
      og_national_identifier = None, og_nuts_codes = [], og_country_codes = []\<rparr>]"
  by code_simp

lemma sample_buyers: "parse_buyer_refs sample_doc
    [\<lparr>og_organisation_id = ''O1'', og_names = [\<lparr>lt_value = ''City'', lt_language = None\<rparr>],
      og_national_identifier = None, og_nuts_codes = [], og_country_codes = []\<rparr>] = Inr [''O1'']"
  by code_simp

lemma sample_rest:
  "required_text sample_doc [el ''cbc'' ''IssueDate''] = Inr ''2026-01-02''"
  "findall NS [el ''cac'' ''ProcurementProjectLot''] sample_doc = []"
  "xml_tag sample_doc = clark NS ''cn'' ''ContractNotice''"
  by code_simp+

lemma sample_safe_root: "safe_root sample_fromstring ''<x>'' = Inr sample_doc"
  by (simp add: safe_root_def sample_fromstring_def max_xml_bytes_def lower_bytes_def starts_with_def
      is_ascii_upper_def code_def)

lemma sample_parses: "is_ok (parse_cn16 sample_fromstring ''<x>'')"
  by (simp add: parse_cn16_def sample_safe_root sample_header sample_organisations sample_buyers sample_rest)

section \<open>Properties\<close>

text \<open>C22: A notice the parser accepts came from at most 2 MiB without DTD or entity declarations and
  is well formed: the pinned SDK, UBL, type and subtype, a version-4 UUID and a non-zero two-digit
  version, organisations with distinct non-empty ids and non-empty names, at least one buyer, every
  buyer among the organisations, every lot with an id; its content hash is that of the raw bytes.\<close>

theorem cn16_parse_wf:
  assumes "parse_cn16 fromstring b = Inr n"
  shows "notice_wf n \<and> length b \<le> 2097152 \<and> \<not> contains ''<!doctype'' (lower_bytes b)
    \<and> \<not> contains ''<!entity'' (lower_bytes b) \<and> pn_raw_content_hash n = sha256_ref b"
proof -
  from assms have "pn_raw_content_hash n = sha256_ref b" and "is_ok (safe_root fromstring b)"
    by (auto simp: parse_cn16_def bindE_eq_Inr split: if_splits)
  with parse_cn16_wf [OF assms] show ?thesis
    by (auto simp: is_ok_iff max_xml_bytes_def dest!: safe_root_ok)
qed

theorem cn16_parse_wf_witness:
  "\<exists>n. parse_cn16 sample_fromstring ''<x>'' = Inr n \<and> notice_wf n \<and> pn_raw_content_hash n = sha256_ref ''<x>''"
proof -
  obtain n where n: "parse_cn16 sample_fromstring ''<x>'' = Inr n"
    using sample_parses by (auto simp: is_ok_iff)
  show ?thesis using n cn16_parse_wf [OF n] by blast
qed

end
