(* ===== verification/AdmissionRehearsal.thy ===== *)
theory AdmissionRehearsal
  imports TedEforms Interfaces "HOL-Library.Multiset"
begin

text \<open>
  The bounded procurement admission rehearsal,
  \<^verbatim>\<open>apps/api/src/axignal_api/procurement_admission_rehearsal.py\<close>: the admission context and its two
  readiness gates, the transactional in-memory store (results by idempotency key, an append-only
  event log, both restored when a commit raises), and the decision procedure over candidates
  re-derived from the frozen XML. \<^verbatim>\<open>uuid4()\<close> is an argument. An operation that mutates the store
  returns its outcome and the new store.

  The store is stated as an interface (\<^verbatim>\<open>idempotent_store\<close>) whose client lemmas say what replays
  and interleaved commits can observe; the model's store interprets it.
\<close>

section \<open>Context, decisions, results\<close>

definition policy_version :: string where
  "policy_version = ''ted-procurement-observed@0.1.0''"

definition parser_profile :: string where
  "parser_profile = ''ted-eforms-cn16@0.1.0''"

definition auto_admissible_predicates :: "string list" where
  "auto_admissible_predicates =
     [''procurement_notice_type'', ''procurement_procedure_type'', ''procurement_buyer_official_name'',
      ''procurement_buyer_identifier'', ''procurement_contract_nature'', ''procurement_cpv_code'',
      ''procurement_place_of_performance_nuts'', ''procurement_estimated_value'',
      ''procurement_lot_identifier'', ''procurement_submission_deadline'',
      ''procurement_eu_funding_indicator'']"

definition personal_predicate_tokens :: "string list" where
  "personal_predicate_tokens =
     [''contact'', ''email'', ''phone'', ''telephone'', ''person'', ''firstname'', ''familyname'']"

definition prohibited_predicates :: "string list" where
  "prohibited_predicates =
     [''supplier_probability_of_winning'', ''supplier_legal_eligibility'',
      ''supplier_personal_suitability'', ''expected_contract_profitability'',
      ''guaranteed_opportunity'', ''bid_submission_or_representation'',
      ''personalised_investment_recommendation'', ''natural_person_contact_as_opportunity_signal'']"

record admission_context =
  ac_source_state :: string
  ac_policy_state :: string
  ac_rights_valid :: bool
  ac_kill_switch_enabled :: bool
  ac_sandbox_authorised :: bool

definition current_ted_state :: admission_context where
  "current_ted_state =
     \<lparr>ac_source_state = ''TECHNICAL_PROBE'',
      ac_policy_state = ''DISABLED_PENDING_PRODUCT_ADMISSION_AND_XML_PARSER'',
      ac_rights_valid = False, ac_kill_switch_enabled = True, ac_sandbox_authorised = False\<rparr>"

definition sandbox_rehearsal :: admission_context where
  "sandbox_rehearsal =
     \<lparr>ac_source_state = ''SANDBOX'', ac_policy_state = ''SANDBOX_REHEARSAL'',
      ac_rights_valid = True, ac_kill_switch_enabled = False, ac_sandbox_authorised = True\<rparr>"

definition product_admission_ready :: "admission_context \<Rightarrow> bool" where
  "product_admission_ready c =
     (ac_source_state c = ''PRODUCT_ADMITTED'' \<and> ac_policy_state c = ''ENABLED''
      \<and> ac_rights_valid c \<and> \<not> ac_kill_switch_enabled c)"

definition sandbox_ready :: "admission_context \<Rightarrow> bool" where
  "sandbox_ready c =
     (ac_source_state c = ''SANDBOX'' \<and> ac_policy_state c = ''SANDBOX_REHEARSAL''
      \<and> ac_rights_valid c \<and> \<not> ac_kill_switch_enabled c \<and> ac_sandbox_authorised c)"

record candidate_envelope =
  en_candidate :: candidate_claim
  en_producer_type :: string
  en_parser_profile :: string

record admission_decision =
  ad_candidate_fingerprint :: string
  ad_predicate :: string
  ad_outcome :: string
  ad_reasons :: "string list"
  ad_gate_results :: "(string \<times> bool) list"
  ad_rederived_fingerprint :: "string option"

record rehearsal_result =
  rr_batch_id :: "string option"
  rr_decisions :: "admission_decision list"
  rr_idempotent_replay :: bool
  rr_sandbox_admissible_count :: nat
  rr_canonical_claim_writes :: nat
  rr_model_calls :: nat
  rr_reviewer_canonical_writes :: nat

definition mk_result :: "string option \<Rightarrow> admission_decision list \<Rightarrow> bool \<Rightarrow> nat \<Rightarrow> rehearsal_result" where
  \<comment> \<open>the constructor with its three counters at their default\<close>
  "mk_result b ds replay n =
     \<lparr>rr_batch_id = b, rr_decisions = ds, rr_idempotent_replay = replay,
      rr_sandbox_admissible_count = n, rr_canonical_claim_writes = 0, rr_model_calls = 0,
      rr_reviewer_canonical_writes = 0\<rparr>"

definition decision_payload :: "admission_decision \<Rightarrow> pyval" where
  "decision_payload d =
     PDict [(''candidate_fingerprint'', PStr (ad_candidate_fingerprint d)),
            (''predicate'', PStr (ad_predicate d)),
            (''outcome'', PStr (ad_outcome d)),
            (''reasons'', PStrs (ad_reasons d)),
            (''gate_results'', PDict (map (\<lambda>(k, b). (k, PBool b)) (ad_gate_results d))),
            (''rederived_fingerprint'', opt_str (ad_rederived_fingerprint d))]"

definition result_payload :: "rehearsal_result \<Rightarrow> pyval" where
  \<comment> \<open>\<^verbatim>\<open>as_payload\<close>\<close>
  "result_payload r =
     PDict [(''batch_id'', opt_str (rr_batch_id r)),
            (''decisions'', PList (map decision_payload (rr_decisions r))),
            (''idempotent_replay'', PBool (rr_idempotent_replay r)),
            (''sandbox_admissible_count'', PInt (int (rr_sandbox_admissible_count r))),
            (''canonical_claim_writes'', PInt (int (rr_canonical_claim_writes r))),
            (''model_calls'', PInt (int (rr_model_calls r))),
            (''reviewer_canonical_writes'', PInt (int (rr_reviewer_canonical_writes r)))]"

section \<open>The transactional store\<close>

record admission_event =
  ev_sequence :: nat
  ev_event_type :: string
  ev_batch_id :: string
  ev_payload_hash :: string

record admission_store =
  st_results :: "(string \<times> rehearsal_result) list"
  st_events :: "admission_event list"

definition empty_store :: admission_store where
  "empty_store = \<lparr>st_results = [], st_events = []\<rparr>"

definition append_event :: "string \<Rightarrow> string \<Rightarrow> pyval \<Rightarrow> admission_store \<Rightarrow> admission_store" where
  "append_event event_type batch_id payload s =
     s\<lparr>st_events := st_events s @
        [\<lparr>ev_sequence = length (st_events s) + 1, ev_event_type = event_type, ev_batch_id = batch_id,
          ev_payload_hash = sha256_ref (utf8 (json_dumps True payload))\<rparr>]\<rparr>"

definition existing :: "admission_store \<Rightarrow> string \<Rightarrow> rehearsal_result option" where
  "existing s key =
     map_option (\<lambda>r. mk_result (rr_batch_id r) (rr_decisions r) True (rr_sandbox_admissible_count r))
       (dict_get (st_results s) key)"

fun record_decisions ::
    "bool \<Rightarrow> string \<Rightarrow> nat \<Rightarrow> admission_store \<Rightarrow> admission_decision list \<Rightarrow> unit result \<times> admission_store" where
  \<comment> \<open>the loop over the enumerated decisions, with the test failpoint after the first\<close>
  "record_decisions fail batch_id index s [] = (Inr (), s)"
| "record_decisions fail batch_id index s (d # ds) =
     (let s' = append_event ''PROCUREMENT_REHEARSAL_DECISION_RECORDED'' batch_id
                 (PDict [(''candidate_fingerprint'', PStr (ad_candidate_fingerprint d)),
                         (''outcome'', PStr (ad_outcome d))]) s
      in if fail \<and> index = 0
         then (Inl (ProcurementAdmissionRehearsalError ''TEST_FAILPOINT_AFTER_FIRST_PROCUREMENT_DECISION''), s')
         else record_decisions fail batch_id (Suc index) s' ds)"

definition commit ::
    "admission_store \<Rightarrow> string \<Rightarrow> admission_decision list \<Rightarrow> bool \<Rightarrow> string
      \<Rightarrow> rehearsal_result result \<times> admission_store" where
  \<comment> \<open>the last argument is the batch id \<^verbatim>\<open>uuid4()\<close> returns\<close>
  "commit s key decisions fail batch_id =
     (case existing s key of Some r \<Rightarrow> (Inr r, s)
      | None \<Rightarrow>
          let s1 = append_event ''PROCUREMENT_REHEARSAL_BATCH_STARTED'' batch_id
                     (PDict [(''idempotency_key'', PStr key)]) s
          in (case record_decisions fail batch_id 0 s1 decisions of
                (Inl e, _) \<Rightarrow> (Inl e, s)
              | (Inr _, s2) \<Rightarrow>
                  let r = mk_result (Some batch_id) decisions False
                        (length (filter (\<lambda>d. ad_outcome d = ''SANDBOX_ADMISSIBLE_REDERIVED'') decisions));
                      s3 = s2\<lparr>st_results := dict_put (st_results s2) key r\<rparr>
                  in (Inr r, append_event ''PROCUREMENT_REHEARSAL_BATCH_COMMITTED'' batch_id
                               (result_payload r) s3)))"

section \<open>The decision procedure\<close>

definition is_personal_predicate :: "string \<Rightarrow> bool" where
  "is_personal_predicate p = list_ex (\<lambda>token. contains token (casefold p)) personal_predicate_tokens"

definition evaluate_candidate ::
    "candidate_envelope \<Rightarrow> (string \<times> candidate_claim) list \<Rightarrow> admission_context \<Rightarrow> admission_decision" where
  "evaluate_candidate en rederived context =
     (let candidate = en_candidate en;
          predicate = pc_predicate candidate;
          fp = fingerprint candidate;
          personal = is_personal_predicate predicate;
          gates =
            [(''SOURCE_PRODUCT_ADMITTED'', product_admission_ready context),
             (''SANDBOX_REHEARSAL_AUTHORISED'', sandbox_ready context),
             (''PARSER_PROFILE_PINNED'', en_parser_profile en = parser_profile),
             (''PRODUCER_AUTHORITY_SEPARATED'', en_producer_type en = ''DETERMINISTIC_XML_PARSER''),
             (''PERSONAL_DATA_EXCLUDED'', \<not> personal),
             (''PREDICATE_NOT_PROHIBITED'', predicate \<notin> set prohibited_predicates),
             (''PREDICATE_AUTO_ADMISSIBLE'', predicate \<in> set auto_admissible_predicates),
             (''REEDERIVATION_EXACT_MATCH'', fp \<in> fst ` set rederived)];
          decision = (\<lambda>outcome reason again.
            \<lparr>ad_candidate_fingerprint = fp, ad_predicate = predicate, ad_outcome = outcome,
             ad_reasons = [reason], ad_gate_results = gates, ad_rederived_fingerprint = again\<rparr>)
      in if personal \<or> predicate \<in> set prohibited_predicates
         then decision ''REJECTED_PROHIBITED'' ''personal_or_prohibited_procurement_predicate'' None
         else if en_parser_profile en \<noteq> parser_profile
         then decision ''QUARANTINED_UNSUPPORTED_PROFILE'' ''parser_profile_mismatch'' None
         else if en_producer_type en \<noteq> ''DETERMINISTIC_XML_PARSER''
         then decision ''HUMAN_REVIEW_REQUIRED_PROPOSAL_ONLY'' ''producer_has_no_auto_admission_authority'' None
         else if predicate \<notin> set auto_admissible_predicates
         then decision ''HUMAN_REVIEW_REQUIRED_OUTSIDE_PROFILE'' ''predicate_outside_auto_admission_profile'' None
         else if fp \<notin> fst ` set rederived
         then decision ''REJECTED_REDERIVATION_MISMATCH''
                ''candidate_does_not_match_independent_xml_rederivation'' None
         else decision (if product_admission_ready context then ''ADMITTED_REDERIVED''
                        else ''SANDBOX_ADMISSIBLE_REDERIVED'')
                ''all_bounded_deterministic_gates_passed'' (Some fp))"

definition idempotency_key ::
    "string \<Rightarrow> candidate_envelope list \<Rightarrow> admission_context \<Rightarrow> string" where
  "idempotency_key raw_content_hash candidates context =
     sha256_ref (utf8 (json_dumps True (PDict
       [(''policy_version'', PStr policy_version),
        (''parser_profile'', PStr parser_profile),
        (''raw_content_hash'', PStr raw_content_hash),
        (''candidate_fingerprints'', PStrs (sort (map (\<lambda>en. fingerprint (en_candidate en)) candidates))),
        (''source_state'', PStr (ac_source_state context)),
        (''policy_state'', PStr (ac_policy_state context)),
        (''sandbox_authorised'', PBool (ac_sandbox_authorised context))])))"

definition blocked_decision :: "admission_context \<Rightarrow> candidate_envelope \<Rightarrow> admission_decision" where
  "blocked_decision context en =
     \<lparr>ad_candidate_fingerprint = fingerprint (en_candidate en),
      ad_predicate = pc_predicate (en_candidate en),
      ad_outcome = ''BLOCKED_SOURCE_NOT_PRODUCT_ADMITTED'',
      ad_reasons = [''source_or_policy_gate_not_admitted''],
      ad_gate_results =
        [(''SOURCE_PRODUCT_ADMITTED'', ac_source_state context = ''PRODUCT_ADMITTED''),
         (''POLICY_ENABLED'', ac_policy_state context = ''ENABLED''),
         (''RIGHTS_VALID'', ac_rights_valid context),
         (''SOURCE_KILL_SWITCH_OFF'', \<not> ac_kill_switch_enabled context),
         (''SANDBOX_AUTHORISED'', sandbox_ready context)],
      ad_rederived_fingerprint = None\<rparr>"

definition decide ::
    "(string \<Rightarrow> xml option) \<Rightarrow> admission_store \<Rightarrow> string \<Rightarrow> candidate_envelope list \<Rightarrow> admission_context
      \<Rightarrow> bool \<Rightarrow> string \<Rightarrow> rehearsal_result result \<times> admission_store" where
  "decide fromstring s raw_xml candidates context fail batch_id =
     (case parse_cn16 fromstring raw_xml of Inl e \<Rightarrow> (Inl e, s)
      | Inr parsed \<Rightarrow>
          let rederived = map (\<lambda>c. (fingerprint c, c)) (candidate_claims parsed);
              key = idempotency_key (pn_raw_content_hash parsed) candidates context
          in (case existing s key of Some r \<Rightarrow> (Inr r, s)
              | None \<Rightarrow>
                  if \<not> product_admission_ready context \<and> \<not> sandbox_ready context
                  then (Inr (mk_result None (map (blocked_decision context) candidates) False 0), s)
                  else commit s key (map (\<lambda>en. evaluate_candidate en rederived context) candidates)
                         fail batch_id))"

section \<open>The store against its interface\<close>

definition committed_entry :: "string \<Rightarrow> admission_decision list \<Rightarrow> rehearsal_result" where
  "committed_entry b ds = mk_result (Some b) ds False
     (length (filter (\<lambda>d. ad_outcome d = ''SANDBOX_ADMISSIBLE_REDERIVED'') ds))"

lemma append_event_results [simp]: "st_results (append_event t b p s) = st_results s"
  by (simp add: append_event_def)

lemma record_decisions_results: "st_results (snd (record_decisions f b i s ds)) = st_results s"
  by (induction f b i s ds rule: record_decisions.induct) (simp_all add: Let_def)

lemma record_decisions_outcome:
  "fst (record_decisions f b i s ds) =
     (if f \<and> i = 0 \<and> ds \<noteq> []
      then Inl (ProcurementAdmissionRehearsalError ''TEST_FAILPOINT_AFTER_FIRST_PROCUREMENT_DECISION'')
      else Inr ())"
  by (induction f b i s ds rule: record_decisions.induct) (simp_all add: Let_def)

lemma record_decisions_failpoint:
  "f \<Longrightarrow> ds \<noteq> [] \<Longrightarrow> \<exists>x. record_decisions f b 0 s ds =
    (Inl (ProcurementAdmissionRehearsalError ''TEST_FAILPOINT_AFTER_FIRST_PROCUREMENT_DECISION''), x)"
  using record_decisions_outcome [of f b 0 s ds] by (cases "record_decisions f b 0 s ds") simp

text \<open>The three ways a commit ends.\<close>

lemma commit_hit: "existing s k = Some r \<Longrightarrow> commit s k ds f b = (Inr r, s)"
  by (simp add: commit_def)

lemma commit_raises:
  assumes "existing s k = None" "f" "ds \<noteq> []"
  shows "commit s k ds f b =
    (Inl (ProcurementAdmissionRehearsalError ''TEST_FAILPOINT_AFTER_FIRST_PROCUREMENT_DECISION''), s)"
proof -
  let ?s1 = "append_event ''PROCUREMENT_REHEARSAL_BATCH_STARTED'' b (PDict [(''idempotency_key'', PStr k)]) s"
  obtain x where "record_decisions f b 0 ?s1 ds =
      (Inl (ProcurementAdmissionRehearsalError ''TEST_FAILPOINT_AFTER_FIRST_PROCUREMENT_DECISION''), x)"
    using record_decisions_failpoint [OF assms(2,3)] by blast
  then show ?thesis
    using assms(1) by (simp add: commit_def Let_def)
qed

definition commit_log :: "admission_store \<Rightarrow> string \<Rightarrow> string \<Rightarrow> admission_decision list \<Rightarrow> admission_store" where
  "commit_log s k b ds = snd (record_decisions False b 0
     (append_event ''PROCUREMENT_REHEARSAL_BATCH_STARTED'' b (PDict [(''idempotency_key'', PStr k)]) s) ds)"

lemma record_decisions_later: "0 < i \<Longrightarrow> record_decisions True b i s ds = record_decisions False b i s ds"
  by (induction ds arbitrary: i s) (simp_all add: Let_def)

lemma record_decisions_no_fail:
  "\<not> (f \<and> i = 0 \<and> ds \<noteq> []) \<Longrightarrow> record_decisions f b i s ds = record_decisions False b i s ds"
  by (cases f; cases ds) (simp_all add: record_decisions_later)

lemma commit_succeeds:
  assumes "existing s k = None" "\<not> (f \<and> ds \<noteq> [])"
  shows "commit s k ds f b =
    (Inr (committed_entry b ds),
     append_event ''PROCUREMENT_REHEARSAL_BATCH_COMMITTED'' b (result_payload (committed_entry b ds))
       ((commit_log s k b ds)\<lparr>st_results := dict_put (st_results s) k (committed_entry b ds)\<rparr>))"
proof -
  let ?s1 = "append_event ''PROCUREMENT_REHEARSAL_BATCH_STARTED'' b (PDict [(''idempotency_key'', PStr k)]) s"
  have "record_decisions f b 0 ?s1 ds = (Inr (), commit_log s k b ds)"
    using assms(2) record_decisions_no_fail [of f 0 ds b ?s1] record_decisions_outcome [of False b 0 ?s1 ds]
    by (simp add: commit_log_def prod_eq_iff)
  moreover have "st_results (commit_log s k b ds) = st_results s"
    by (simp add: commit_log_def record_decisions_results)
  ultimately show ?thesis
    using assms(1) by (simp add: commit_def committed_entry_def Let_def)
qed

lemma commit_cases:
  obtains (hit) r where "existing s k = Some r" "commit s k ds f b = (Inr r, s)"
  | (raised) e where "existing s k = None" "f" "ds \<noteq> []" "commit s k ds f b = (Inl e, s)"
  | (stored) "existing s k = None" "\<not> (f \<and> ds \<noteq> [])"
      "fst (commit s k ds f b) = Inr (committed_entry b ds)"
      "st_results (snd (commit s k ds f b)) = dict_put (st_results s) k (committed_entry b ds)"
  using commit_hit [of s k _ ds f b] commit_raises [of s k f ds b] commit_succeeds [of s k f ds b]
  by (cases "existing s k"; cases "f \<and> ds \<noteq> []") auto

lemma existing_put:
  "st_results t = dict_put (st_results s) k (committed_entry b ds) \<Longrightarrow>
    existing t k' = (if k' = k then Some (mk_result (Some b) ds True (rr_sandbox_admissible_count (committed_entry b ds)))
                     else existing s k')"
  by (simp add: existing_def dict_get_put committed_entry_def mk_result_def)

definition results_wf :: "admission_store \<Rightarrow> bool" where
  \<comment> \<open>what every stored result satisfies: no authority beyond the rehearsal, and a true count\<close>
  "results_wf s =
     (distinct (map fst (st_results s)) \<and>
      (\<forall>(k, r)\<in>set (st_results s). \<exists>b. r = committed_entry b (rr_decisions r)))"

lemma committed_entry_decisions [simp]: "rr_decisions (committed_entry b ds) = ds"
  by (simp add: committed_entry_def mk_result_def)

lemma dict_put_mem: "(k', v') \<in> set (dict_put d k v) \<Longrightarrow> (k', v') \<in> set d \<or> (k' = k \<and> v' = v)"
  unfolding dict_put_def by (induction d) (auto split: if_splits)

lemma results_wf_put:
  assumes "results_wf s" and put: "st_results t = dict_put (st_results s) k (committed_entry b ds)"
  shows "results_wf t"
  unfolding results_wf_def
proof (intro conjI ballI)
  show "distinct (map fst (st_results t))"
    using assms by (simp add: results_wf_def dict_put_distinct)
next
  fix x assume "x \<in> set (st_results t)"
  then obtain k' r where x: "x = (k', r)" "(k', r) \<in> set (dict_put (st_results s) k (committed_entry b ds))"
    using put by (metis surj_pair)
  from dict_put_mem [OF x(2)] assms(1)
  have "\<exists>b. r = committed_entry b (rr_decisions r)"
    by (auto simp: results_wf_def intro: exI [of _ b])
  with x(1) show "case x of (k, r) \<Rightarrow> \<exists>b. r = committed_entry b (rr_decisions r)" by simp
qed

interpretation rehearsal_store: idempotent_store existing "\<lambda>s k (ds, f, b). commit s k ds f b" results_wf
proof unfold_locales
  fix s t :: admission_store and k k' :: string and c :: "admission_decision list \<times> bool \<times> string"
    and r e x
  obtain ds f b where c: "c = (ds, f, b)" by (cases c)
  show "existing s k = Some r \<Longrightarrow> (case c of (ds, f, b) \<Rightarrow> commit s k ds f b) = (Inr r, s)"
    by (simp add: c commit_hit)
  show "t = s" if "(case c of (ds, f, b) \<Rightarrow> commit s k ds f b) = (Inl e, t)"
    using that by (cases rule: commit_cases [of s k ds f b]) (auto simp: c)
  show "existing t k \<noteq> None" if "(case c of (ds, f, b) \<Rightarrow> commit s k ds f b) = (Inr r, t)"
    using that by (cases rule: commit_cases [of s k ds f b]) (auto simp: c existing_put)
  show "existing t k' = existing s k'" if "(case c of (ds, f, b) \<Rightarrow> commit s k ds f b) = (x, t)" "k' \<noteq> k"
    using that by (cases rule: commit_cases [of s k ds f b]) (auto simp: c existing_put)
  show "results_wf t" if "results_wf s" "(case c of (ds, f, b) \<Rightarrow> commit s k ds f b) = (x, t)"
    using that by (cases rule: commit_cases [of s k ds f b]) (auto simp: c results_wf_put)
qed

section \<open>The event log, abstractly\<close>

text \<open>
  A committed batch stands for the group of events it logs: its start, one entry for each
  decision, its commit. The store is refined by the list of committed batches.
\<close>

type_synonym batch = "string \<times> string \<times> admission_decision list" \<comment> \<open>key, batch id, decisions\<close>
type_synonym log_entry = "string \<times> string \<times> pyval"
type_synonym commit_command = "string \<times> admission_decision list \<times> bool \<times> string"

definition decision_entry :: "string \<Rightarrow> admission_decision \<Rightarrow> log_entry" where
  "decision_entry b d = (''PROCUREMENT_REHEARSAL_DECISION_RECORDED'', b,
     PDict [(''candidate_fingerprint'', PStr (ad_candidate_fingerprint d)), (''outcome'', PStr (ad_outcome d))])"

fun batch_entries :: "batch \<Rightarrow> log_entry list" where
  "batch_entries (k, b, ds) =
     [(''PROCUREMENT_REHEARSAL_BATCH_STARTED'', b, PDict [(''idempotency_key'', PStr k)])]
     @ map (decision_entry b) ds
     @ [(''PROCUREMENT_REHEARSAL_BATCH_COMMITTED'', b, result_payload (committed_entry b ds))]"

definition numbered :: "log_entry list \<Rightarrow> admission_event list" where
  "numbered es = map (\<lambda>(i, t, b, p). \<lparr>ev_sequence = i + 1, ev_event_type = t, ev_batch_id = b,
     ev_payload_hash = sha256_ref (utf8 (json_dumps True p))\<rparr>) (enumerate 0 es)"

definition store_of :: "batch list \<Rightarrow> admission_store" where
  "store_of bs = \<lparr>st_results = map (\<lambda>(k, b, ds). (k, committed_entry b ds)) bs,
                  st_events = numbered (concat (map batch_entries bs))\<rparr>"

definition apply_commit :: "admission_store \<Rightarrow> commit_command \<Rightarrow> admission_store" where
  "apply_commit s c = (case c of (k, ds, f, b) \<Rightarrow> snd (commit s k ds f b))"

definition accept :: "batch list \<Rightarrow> commit_command \<Rightarrow> batch list" where
  \<comment> \<open>a batch is accepted unless its key is taken or it fails on its way\<close>
  "accept bs c = (case c of (k, ds, f, b) \<Rightarrow>
     if k \<in> fst ` set bs \<or> (f \<and> ds \<noteq> []) then bs else bs @ [(k, b, ds)])"

lemma numbered_snoc: "numbered (es @ [(t, b, p)]) = numbered es @
    [\<lparr>ev_sequence = length es + 1, ev_event_type = t, ev_batch_id = b,
      ev_payload_hash = sha256_ref (utf8 (json_dumps True p))\<rparr>]"
  by (simp add: numbered_def enumerate_append_eq)

lemma length_numbered [simp]: "length (numbered es) = length es"
  by (simp add: numbered_def)

lemma append_event_numbered:
  "st_events s = numbered es \<Longrightarrow> append_event t b p s = s\<lparr>st_events := numbered (es @ [(t, b, p)])\<rparr>"
  by (simp add: append_event_def numbered_snoc)

lemma record_decisions_numbered:
  "st_events s = numbered es \<Longrightarrow>
    snd (record_decisions False b i s ds) = s\<lparr>st_events := numbered (es @ map (decision_entry b) ds)\<rparr>"
proof (induction ds arbitrary: i s es)
  case Nil
  then show ?case by simp
next
  case (Cons d ds)
  then show ?case by (simp add: Let_def append_event_numbered decision_entry_def)
qed

lemma commit_log_numbered:
  "st_events s = numbered es \<Longrightarrow> commit_log s k b ds = s\<lparr>st_events := numbered (es @
     [(''PROCUREMENT_REHEARSAL_BATCH_STARTED'', b, PDict [(''idempotency_key'', PStr k)])]
     @ map (decision_entry b) ds)\<rparr>"
  by (simp add: commit_log_def append_event_numbered record_decisions_numbered)

lemma existing_store_of: "existing (store_of bs) k = None \<longleftrightarrow> k \<notin> fst ` set bs"
proof -
  have "fst ` set (st_results (store_of bs)) = fst ` set bs"
    by (force simp: store_of_def)
  then show ?thesis
    by (simp add: existing_def dict_get_def map_of_eq_None_iff)
qed

lemma apply_commit_store_of: "apply_commit (store_of bs) c = store_of (accept bs c)"
proof (cases c)
  case (fields k ds f b)
  show ?thesis
  proof (cases "k \<in> fst ` set bs \<or> (f \<and> ds \<noteq> [])")
    case True
    then show ?thesis
      using commit_hit [of "store_of bs" k _ ds f b] commit_raises [of "store_of bs" k f ds b]
        existing_store_of [of bs k]
      by (cases "existing (store_of bs) k") (auto simp: apply_commit_def accept_def fields)
  next
    case False
    then have free: "existing (store_of bs) k = None"
      by (simp add: existing_store_of)
    then have absent: "dict_get (st_results (store_of bs)) k = None"
      by (simp add: existing_def)
    have ev: "st_events (store_of bs) = numbered (concat (map batch_entries bs))"
      by (simp add: store_of_def)
    let ?new = "(commit_log (store_of bs) k b ds)
      \<lparr>st_results := dict_put (st_results (store_of bs)) k (committed_entry b ds)\<rparr>"
    have "st_events ?new = numbered (concat (map batch_entries bs) @
        [(''PROCUREMENT_REHEARSAL_BATCH_STARTED'', b, PDict [(''idempotency_key'', PStr k)])]
        @ map (decision_entry b) ds)"
      by (simp add: commit_log_numbered [OF ev])
    note log = append_event_numbered [OF this, of "''PROCUREMENT_REHEARSAL_BATCH_COMMITTED''" b
        "result_payload (committed_entry b ds)"]
    have "apply_commit (store_of bs) c =
        append_event ''PROCUREMENT_REHEARSAL_BATCH_COMMITTED'' b (result_payload (committed_entry b ds)) ?new"
      using commit_succeeds [OF free, of f ds b] False by (simp add: apply_commit_def fields)
    also have "\<dots> = store_of (bs @ [(k, b, ds)])"
      unfolding log by (simp add: commit_log_numbered [OF ev] store_of_def dict_put_fresh
          [OF absent [unfolded store_of_def admission_store.select_convs]])
    also have "bs @ [(k, b, ds)] = accept bs c"
      using False by (auto simp: accept_def fields)
    finally show ?thesis .
  qed
qed

section \<open>Predicates the parser emits\<close>

definition cn16_predicates :: "string list" where
  "cn16_predicates = auto_admissible_predicates @
     [''procurement_notice_subtype'', ''procurement_notice_issue_date'',
      ''procurement_procedure_identifier'', ''procurement_buyer_organisation_ref'']"

lemma claim_if_mem: "c \<in> set (claim_if x mk) \<Longrightarrow> \<exists>s. x = Some s \<and> s \<noteq> [] \<and> c = mk s"
  by (auto simp: claim_if_def split: option.splits if_splits)

lemma mk_claim_predicate [simp]: "pc_predicate (mk_claim p s v path) = p"
  by (simp add: mk_claim_def)

lemma project_claims_predicates:
  "c \<in> set (project_claims subj pj pre) \<Longrightarrow> pc_predicate c \<in> set cn16_predicates"
  by (auto simp: project_claims_def cn16_predicates_def auto_admissible_predicates_def
      dest!: claim_if_mem split: option.splits)

lemma buyer_claims_predicates:
  "c \<in> set (buyer_claims n r) \<Longrightarrow> pc_predicate c \<in> set cn16_predicates"
  by (auto simp: buyer_claims_def cn16_predicates_def auto_admissible_predicates_def
      dest!: claim_if_mem split: option.splits)

lemma lot_claims_predicates:
  "c \<in> set (lot_claims n l) \<Longrightarrow> pc_predicate c \<in> set cn16_predicates"
  unfolding lot_claims_def Let_def
  by (auto dest!: claim_if_mem project_claims_predicates)
    (simp_all add: cn16_predicates_def auto_admissible_predicates_def)

lemma candidate_claims_predicates:
  "c \<in> set (candidate_claims n) \<Longrightarrow> pc_predicate c \<in> set cn16_predicates"
  unfolding candidate_claims_def
  by (auto dest!: claim_if_mem project_claims_predicates buyer_claims_predicates lot_claims_predicates)
    (simp_all add: cn16_predicates_def auto_admissible_predicates_def)

lemma cn16_predicates_identifiers: "\<forall>p\<in>set cn16_predicates. is_identifier p"
  by (simp add: cn16_predicates_def auto_admissible_predicates_def is_identifier_def)

lemma cn16_predicates_token_free:
  "list_all (\<lambda>p. list_all (\<lambda>t. \<not> contains t p) personal_predicate_tokens \<and> p \<notin> set prohibited_predicates)
     cn16_predicates"
  by code_simp

lemma cn16_predicates_not_personal:
  "p \<in> set cn16_predicates \<Longrightarrow> \<not> is_personal_predicate p \<and> p \<notin> set prohibited_predicates"
  using cn16_predicates_token_free cn16_predicates_identifiers
  by (auto simp: is_personal_predicate_def list_all_iff list_ex_iff casefold_identifier)

section \<open>The decision procedure as a client of the store\<close>

definition rederive :: "parsed_notice \<Rightarrow> (string \<times> candidate_claim) list" where
  "rederive n = map (\<lambda>c. (fingerprint c, c)) (candidate_claims n)"

definition notice_key :: "parsed_notice \<Rightarrow> candidate_envelope list \<Rightarrow> admission_context \<Rightarrow> string" where
  "notice_key n candidates context = idempotency_key (pn_raw_content_hash n) candidates context"

lemma decide_raises: "parse_cn16 fs raw = Inl e \<Longrightarrow> decide fs s raw cs ctx f b = (Inl e, s)"
  by (simp add: decide_def)

lemma decide_hit:
  "parse_cn16 fs raw = Inr n \<Longrightarrow> existing s (notice_key n cs ctx) = Some r \<Longrightarrow>
    decide fs s raw cs ctx f b = (Inr r, s)"
  by (simp add: decide_def notice_key_def Let_def)

lemma decide_blocked:
  "parse_cn16 fs raw = Inr n \<Longrightarrow> existing s (notice_key n cs ctx) = None \<Longrightarrow>
    \<not> product_admission_ready ctx \<Longrightarrow> \<not> sandbox_ready ctx \<Longrightarrow>
    decide fs s raw cs ctx f b = (Inr (mk_result None (map (blocked_decision ctx) cs) False 0), s)"
  by (simp add: decide_def notice_key_def Let_def)

lemma decide_commits:
  "parse_cn16 fs raw = Inr n \<Longrightarrow> existing s (notice_key n cs ctx) = None \<Longrightarrow>
    product_admission_ready ctx \<or> sandbox_ready ctx \<Longrightarrow>
    decide fs s raw cs ctx f b =
      commit s (notice_key n cs ctx) (map (\<lambda>en. evaluate_candidate en (rederive n) ctx) cs) f b"
  by (auto simp: decide_def notice_key_def rederive_def Let_def)

lemma decide_store:
  "snd (decide fs s raw cs ctx f b) = s
    \<or> (\<exists>k ds. snd (decide fs s raw cs ctx f b) = snd (commit s k ds f b))"
proof (cases "parse_cn16 fs raw")
  case (Inl e)
  then show ?thesis by (simp add: decide_raises)
next
  case (Inr n)
  then show ?thesis
    using decide_hit [OF Inr] decide_blocked [OF Inr] decide_commits [OF Inr]
    by (cases "existing s (notice_key n cs ctx)"; cases "product_admission_ready ctx \<or> sandbox_ready ctx") auto
qed

type_synonym decide_call =
  "string \<times> candidate_envelope list \<times> admission_context \<times> bool \<times> string"

definition decide_step :: "(string \<Rightarrow> xml option) \<Rightarrow> admission_store \<Rightarrow> decide_call \<Rightarrow> admission_store" where
  "decide_step fs s c = (case c of (raw, cs, ctx, f, b) \<Rightarrow> snd (decide fs s raw cs ctx f b))"

lemma decide_step_stable: "existing s k = Some r \<Longrightarrow> existing (decide_step fs s c) k = Some r"
proof -
  assume hit: "existing s k = Some r"
  obtain raw cs ctx f b where c: "c = (raw, cs, ctx, f, b)" by (cases c)
  have "existing (snd (commit s k' ds f b)) k = Some r" for k' ds
    using rehearsal_store.commit_stable [OF hit, of k' "(ds, f, b)"]
    by (simp add: prod_eq_iff)
  then show ?thesis
    using decide_store [of fs s raw cs ctx f b] hit by (auto simp: decide_step_def c)
qed

lemma decide_steps_stable: "existing s k = Some r \<Longrightarrow> existing (foldl (decide_step fs) s calls) k = Some r"
  by (induction calls arbitrary: s) (auto intro: decide_step_stable)

lemma decide_step_results_wf: "results_wf s \<Longrightarrow> results_wf (decide_step fs s c)"
proof -
  assume wf: "results_wf s"
  obtain raw cs ctx f b where c: "c = (raw, cs, ctx, f, b)" by (cases c)
  have "results_wf (snd (commit s k' ds f b))" for k' ds
    using rehearsal_store.commit_invar [OF wf, of k' "(ds, f, b)"] by (simp add: prod_eq_iff)
  then show ?thesis
    using decide_store [of fs s raw cs ctx f b] wf by (auto simp: decide_step_def c)
qed

lemma decide_steps_results_wf: "results_wf s \<Longrightarrow> results_wf (foldl (decide_step fs) s calls)"
  by (induction calls arbitrary: s) (auto intro: decide_step_results_wf)

lemma results_wf_empty: "results_wf empty_store"
  by (simp add: results_wf_def empty_store_def)

lemma existing_replays: "existing s k = Some r \<Longrightarrow> r\<lparr>rr_idempotent_replay := True\<rparr> = r"
  by (auto simp: existing_def mk_result_def)

lemma decide_success_stored:
  assumes "parse_cn16 fs raw = Inr n" and ok: "decide fs s raw cs ctx f b = (Inr r, t)"
    and ready: "product_admission_ready ctx \<or> sandbox_ready ctx"
  shows "existing t (notice_key n cs ctx) = Some (r\<lparr>rr_idempotent_replay := True\<rparr>)"
proof (cases "existing s (notice_key n cs ctx)")
  case (Some r')
  with ok decide_hit [OF assms(1) Some, of f b] existing_replays [OF Some] show ?thesis by simp
next
  case None
  let ?ds = "map (\<lambda>en. evaluate_candidate en (rederive n) ctx) cs"
  from decide_commits [OF assms(1) None ready] ok
  have c: "commit s (notice_key n cs ctx) ?ds f b = (Inr r, t)" by simp
  show ?thesis
  proof (cases rule: commit_cases [of s "notice_key n cs ctx" ?ds f b])
    case stored
    then have "r = committed_entry b ?ds"
      and "st_results t = dict_put (st_results s) (notice_key n cs ctx) (committed_entry b ?ds)"
      using c by simp_all
    then show ?thesis
      using existing_put [of t s "notice_key n cs ctx" b ?ds "notice_key n cs ctx"]
      by (simp add: committed_entry_def mk_result_def)
  qed (use c None in simp_all)
qed

lemma sort_key_mset: "mset xs = mset ys \<Longrightarrow> sort xs = sort (ys :: string list)"
  by (rule properties_for_sort) simp_all

lemma notice_key_cong:
  assumes "mset (map (\<lambda>en. fingerprint (en_candidate en)) cs) = mset (map (\<lambda>en. fingerprint (en_candidate en)) cs')"
    and "ac_source_state ctx' = ac_source_state ctx" "ac_policy_state ctx' = ac_policy_state ctx"
    and "ac_sandbox_authorised ctx' = ac_sandbox_authorised ctx"
  shows "notice_key n cs' ctx' = notice_key n cs ctx"
  using sort_key_mset [OF assms(1)] assms(2-4) by (simp add: notice_key_def idempotency_key_def)

lemma decide_replay:
  assumes "parse_cn16 fs raw = Inr n" and "decide fs s raw cs ctx f b = (Inr r, t)"
    and "product_admission_ready ctx \<or> sandbox_ready ctx"
    and key: "notice_key n cs' ctx' = notice_key n cs ctx"
  shows "decide fs (foldl (decide_step fs) t calls) raw cs' ctx' f' b' =
    (Inr (r\<lparr>rr_idempotent_replay := True\<rparr>), foldl (decide_step fs) t calls)"
  by (rule decide_hit [OF assms(1)], unfold key)
    (rule decide_steps_stable [OF decide_success_stored [OF assms(1-3)]])

lemma evaluate_outcome:
  "ad_outcome (evaluate_candidate en red ctx) =
    (if is_personal_predicate (pc_predicate (en_candidate en))
        \<or> pc_predicate (en_candidate en) \<in> set prohibited_predicates then ''REJECTED_PROHIBITED''
     else if en_parser_profile en \<noteq> parser_profile then ''QUARANTINED_UNSUPPORTED_PROFILE''
     else if en_producer_type en \<noteq> ''DETERMINISTIC_XML_PARSER'' then ''HUMAN_REVIEW_REQUIRED_PROPOSAL_ONLY''
     else if pc_predicate (en_candidate en) \<notin> set auto_admissible_predicates
     then ''HUMAN_REVIEW_REQUIRED_OUTSIDE_PROFILE''
     else if fingerprint (en_candidate en) \<notin> fst ` set red then ''REJECTED_REDERIVATION_MISMATCH''
     else if product_admission_ready ctx then ''ADMITTED_REDERIVED'' else ''SANDBOX_ADMISSIBLE_REDERIVED'')"
  by (simp add: evaluate_candidate_def Let_def)

lemma evaluate_passes:
  "ad_outcome (evaluate_candidate en red ctx) \<in> {''ADMITTED_REDERIVED'', ''SANDBOX_ADMISSIBLE_REDERIVED''}
    \<longleftrightarrow> \<not> is_personal_predicate (pc_predicate (en_candidate en))
      \<and> pc_predicate (en_candidate en) \<notin> set prohibited_predicates
      \<and> en_parser_profile en = parser_profile \<and> en_producer_type en = ''DETERMINISTIC_XML_PARSER''
      \<and> pc_predicate (en_candidate en) \<in> set auto_admissible_predicates
      \<and> fingerprint (en_candidate en) \<in> fst ` set red"
  unfolding evaluate_outcome by (simp split: if_split)

lemma evaluate_admitted:
  "ad_outcome (evaluate_candidate en red ctx) = ''ADMITTED_REDERIVED'' \<Longrightarrow> product_admission_ready ctx"
  unfolding evaluate_outcome by (simp split: if_split_asm)

lemma evaluate_fingerprint [simp]:
  "ad_candidate_fingerprint (evaluate_candidate en red ctx) = fingerprint (en_candidate en)"
  "ad_predicate (evaluate_candidate en red ctx) = pc_predicate (en_candidate en)"
  by (simp_all add: evaluate_candidate_def Let_def)

lemma evaluate_rederived:
  "ad_rederived_fingerprint (evaluate_candidate en red ctx) \<noteq> None \<longleftrightarrow>
    ad_outcome (evaluate_candidate en red ctx) \<in> {''ADMITTED_REDERIVED'', ''SANDBOX_ADMISSIBLE_REDERIVED''}"
  by (simp add: evaluate_candidate_def Let_def)

lemma auto_admissible_not_personal:
  "p \<in> set auto_admissible_predicates \<Longrightarrow> \<not> is_personal_predicate p \<and> p \<notin> set prohibited_predicates"
  by (rule cn16_predicates_not_personal) (simp add: cn16_predicates_def)

lemma fst_rederive: "fst ` set (rederive n) = fingerprint ` set (candidate_claims n)"
  by (auto simp: rederive_def image_iff)

section \<open>Properties\<close>

text \<open>C9: The transactional store refines the list of accepted batches: after any sequence of
  commits, failing ones included, its results are those of the batches accepted (first commit under
  a key, not interrupted) and its event log is exactly their start, decision and commit events,
  numbered from 1 without a gap.\<close>

theorem rehearsal_store_refines_log:
  "foldl apply_commit empty_store cmds = store_of (foldl accept [] cmds)
    \<and> map ev_sequence (st_events (foldl apply_commit empty_store cmds))
      = [1..<Suc (length (st_events (foldl apply_commit empty_store cmds)))]"
proof -
  have gen: "foldl apply_commit (store_of bs) cmds = store_of (foldl accept bs cmds)" for bs
    by (induction cmds arbitrary: bs) (simp_all add: apply_commit_store_of)
  have seq: "map ev_sequence (numbered es) = [1..<Suc (length es)]" for es
    by (rule nth_equalityI) (simp_all add: numbered_def nth_enumerate_eq split: prod.splits del: upt_Suc)
  have "store_of [] = empty_store"
    by (simp add: store_of_def empty_store_def numbered_def)
  with gen [of "[]"] have *: "foldl apply_commit empty_store cmds = store_of (foldl accept [] cmds)"
    by simp
  have "st_events (store_of bs) = numbered (concat (map batch_entries bs))" for bs
    by (simp add: store_of_def)
  then show ?thesis
    using * by (simp add: seq del: upt_Suc)
qed

text \<open>C14: A candidate passes exactly when every deterministic gate holds: the pinned parser profile,
  the XML parser as its producer, a predicate of the auto-admissible profile, and a fingerprint among
  the claims re-derived from the raw XML; the outcome is a canonical admission only if the source is
  product admitted with the policy enabled, rights valid and the kill switch off; and a re-derived
  fingerprint is reported exactly for the candidates that pass.\<close>

theorem candidate_admitted_iff:
  "(ad_outcome (evaluate_candidate en (rederive n) ctx) \<in> {''ADMITTED_REDERIVED'', ''SANDBOX_ADMISSIBLE_REDERIVED''})
     = (en_parser_profile en = ''ted-eforms-cn16@0.1.0''
        \<and> en_producer_type en = ''DETERMINISTIC_XML_PARSER''
        \<and> pc_predicate (en_candidate en) \<in> set auto_admissible_predicates
        \<and> fingerprint (en_candidate en) \<in> fingerprint ` set (candidate_claims n))
   \<and> (ad_rederived_fingerprint (evaluate_candidate en (rederive n) ctx) \<noteq> None)
     = (ad_outcome (evaluate_candidate en (rederive n) ctx)
         \<in> {''ADMITTED_REDERIVED'', ''SANDBOX_ADMISSIBLE_REDERIVED''})
   \<and> (if ad_outcome (evaluate_candidate en (rederive n) ctx) = ''ADMITTED_REDERIVED''
      then ac_source_state ctx = ''PRODUCT_ADMITTED'' \<and> ac_policy_state ctx = ''ENABLED''
         \<and> ac_rights_valid ctx \<and> \<not> ac_kill_switch_enabled ctx
      else True)"
  unfolding evaluate_rederived evaluate_passes fst_rederive parser_profile_def [symmetric]
  using auto_admissible_not_personal [of "pc_predicate (en_candidate en)"]
    evaluate_admitted [of en "rederive n" ctx, unfolded product_admission_ready_def]
  by (simp split: if_split) blast

text \<open>The parser never proposes a claim under a personal or prohibited predicate, so none of the
  claims it re-derives is rejected as such, whatever the notice says.\<close>

theorem rederived_claims_never_personal:
  "list_all (\<lambda>c. \<not> is_personal_predicate (pc_predicate c) \<and> pc_predicate c \<notin> set prohibited_predicates)
     (candidate_claims n)"
  using candidate_claims_predicates cn16_predicates_not_personal by (auto simp: list_all_iff)

text \<open>A decided batch is replayed: once a batch has been decided in a ready context, the same
  candidates in any order give the stored decisions, marked as a replay, and change nothing,
  whatever other notices and batches were decided in between.\<close>

theorem decided_batch_replays:
  assumes "parse_cn16 fs raw = Inr n"
    and "product_admission_ready ctx \<or> sandbox_ready ctx"
    and "decide fs s raw cs ctx f b = (Inr r, t)"
    and "mset cs' = mset cs"
  shows "decide fs (foldl (decide_step fs) t calls) raw cs' ctx f' b' =
    (Inr (r\<lparr>rr_idempotent_replay := True\<rparr>), foldl (decide_step fs) t calls)"
proof (rule decide_replay [OF assms(1,3,2)])
  show "notice_key n cs' ctx = notice_key n cs ctx"
    by (rule notice_key_cong) (simp_all add: assms(4))
qed

lemma sample_decides:
  assumes "parse_cn16 sample_fromstring ''<x>'' = Inr n" "product_admission_ready ctx \<or> sandbox_ready ctx"
  shows "decide sample_fromstring empty_store ''<x>'' cs ctx False b =
    (Inr (committed_entry b (map (\<lambda>en. evaluate_candidate en (rederive n) ctx) cs)),
     snd (decide sample_fromstring empty_store ''<x>'' cs ctx False b))"
proof -
  have "existing empty_store (notice_key n cs ctx) = None"
    by (simp add: existing_def empty_store_def)
  from decide_commits [OF assms(1) this assms(2)] commit_succeeds [OF this, of False] show ?thesis
    by simp
qed

theorem decided_batch_replays_witness:
  "\<exists>r t. decide sample_fromstring empty_store ''<x>'' [] sandbox_rehearsal False ''b1'' = (Inr r, t)
     \<and> decide sample_fromstring t ''<x>'' [] sandbox_rehearsal True ''b2'' = (Inr (r\<lparr>rr_idempotent_replay := True\<rparr>), t)"
proof -
  obtain n where n: "parse_cn16 sample_fromstring ''<x>'' = Inr n"
    using sample_parses by (auto simp: is_ok_iff)
  have ready: "product_admission_ready sandbox_rehearsal \<or> sandbox_ready sandbox_rehearsal"
    by (simp add: sandbox_ready_def sandbox_rehearsal_def)
  note d = sample_decides [OF n ready, of "[]" "''b1''"]
  from decided_batch_replays [OF n ready d refl, of "[]" True "''b2''", unfolded foldl_Nil] d show ?thesis
    by blast
qed

text \<open>C24: What a batch decided afresh may say: no canonical claim, model call or reviewer write is
  ever counted; without a ready context nothing is stored and every candidate is blocked; otherwise
  each decision is for a candidate of the call, and one that is admitted re-derives from the notice.\<close>

theorem fresh_decision_bounded:
  assumes "parse_cn16 fs raw = Inr n"
    and "decide fs s raw cs ctx f b = (Inr r, t)"
    and "\<not> rr_idempotent_replay r"
  shows "rr_canonical_claim_writes r = 0 \<and> rr_model_calls r = 0 \<and> rr_reviewer_canonical_writes r = 0
    \<and> map ad_candidate_fingerprint (rr_decisions r) = map (\<lambda>en. fingerprint (en_candidate en)) cs
    \<and> (if product_admission_ready ctx \<or> sandbox_ready ctx
       then rr_batch_id r = Some b
         \<and> (\<forall>d\<in>set (rr_decisions r). ad_outcome d = ''ADMITTED_REDERIVED'' \<longrightarrow>
              product_admission_ready ctx
              \<and> ad_candidate_fingerprint d \<in> fingerprint ` set (candidate_claims n))
       else t = s \<and> rr_batch_id r = None
         \<and> (\<forall>d\<in>set (rr_decisions r). ad_outcome d = ''BLOCKED_SOURCE_NOT_PRODUCT_ADMITTED''))"
proof (cases "existing s (notice_key n cs ctx)")
  case (Some r')
  with assms decide_hit [OF assms(1) Some, of f b] have "existing s (notice_key n cs ctx) = Some r"
    by simp
  then have False
    using assms(3) by (auto simp: existing_def mk_result_def)
  then show ?thesis ..
next
  case None
  show ?thesis
  proof (cases "product_admission_ready ctx \<or> sandbox_ready ctx")
    case False
    with decide_blocked [OF assms(1) None] assms(2) show ?thesis
      by (auto simp: mk_result_def blocked_decision_def)
  next
    case True
    let ?ds = "map (\<lambda>en. evaluate_candidate en (rederive n) ctx) cs"
    from decide_commits [OF assms(1) None True] assms(2)
    have "commit s (notice_key n cs ctx) ?ds f b = (Inr r, t)" by simp
    then have "r = committed_entry b ?ds"
      using None by (cases rule: commit_cases [of s "notice_key n cs ctx" ?ds f b]) auto
    then have r: "r = mk_result (Some b) ?ds False (rr_sandbox_admissible_count r)"
      by (simp add: committed_entry_def mk_result_def)
    have "product_admission_ready ctx \<and> ad_candidate_fingerprint d \<in> fingerprint ` set (candidate_claims n)"
      if "d \<in> set ?ds" "ad_outcome d = ''ADMITTED_REDERIVED''" for d
      using that evaluate_admitted evaluate_passes unfolding fst_rederive [symmetric] by fastforce
    then show ?thesis
      using True by (subst (1 2 3 4 5 6) r) (simp add: mk_result_def)
  qed
qed

theorem fresh_decision_bounded_witness:
  "\<exists>r t. decide sample_fromstring empty_store ''<x>'' [] sandbox_rehearsal False ''b1'' = (Inr r, t)
     \<and> rr_canonical_claim_writes r = 0 \<and> rr_batch_id r = Some ''b1''"
proof -
  obtain n where n: "parse_cn16 sample_fromstring ''<x>'' = Inr n"
    using sample_parses by (auto simp: is_ok_iff)
  have ready: "product_admission_ready sandbox_rehearsal \<or> sandbox_ready sandbox_rehearsal"
    by (simp add: sandbox_ready_def sandbox_rehearsal_def)
  note d = sample_decides [OF n ready, of "[]" "''b1''"]
  have "\<not> rr_idempotent_replay (committed_entry ''b1'' (map (\<lambda>en. evaluate_candidate en (rederive n) sandbox_rehearsal) []))"
    by (simp add: committed_entry_def mk_result_def)
  from fresh_decision_bounded [OF n d this] ready d show ?thesis by (simp only: if_True) blast
qed

text \<open>The kill switch and the validity of rights are not part of the idempotency key, and the
  stored result is looked up before the readiness gate: a batch once admitted keeps being returned
  with its admissions after the source's rights lapse and its kill switch is thrown.\<close>

theorem replay_ignores_kill_switch:
  assumes "parse_cn16 fs raw = Inr n"
    and "product_admission_ready ctx"
    and "decide fs s raw cs ctx f b = (Inr r, t)"
  shows "decide fs t raw cs (ctx\<lparr>ac_rights_valid := False, ac_kill_switch_enabled := True\<rparr>) f' b' =
      (Inr (r\<lparr>rr_idempotent_replay := True\<rparr>), t)
    \<and> \<not> product_admission_ready (ctx\<lparr>ac_rights_valid := False, ac_kill_switch_enabled := True\<rparr>)
    \<and> \<not> sandbox_ready (ctx\<lparr>ac_rights_valid := False, ac_kill_switch_enabled := True\<rparr>)"
proof -
  let ?ctx' = "ctx\<lparr>ac_rights_valid := False, ac_kill_switch_enabled := True\<rparr>"
  have "notice_key n cs ?ctx' = notice_key n cs ctx"
    by (rule notice_key_cong) simp_all
  from decide_replay [OF assms(1,3) disjI1 [OF assms(2)] this, of "[]"] show ?thesis
    by (simp add: product_admission_ready_def sandbox_ready_def)
qed

definition admitted_context :: admission_context where
  "admitted_context =
     \<lparr>ac_source_state = ''PRODUCT_ADMITTED'', ac_policy_state = ''ENABLED'',
      ac_rights_valid = True, ac_kill_switch_enabled = False, ac_sandbox_authorised = False\<rparr>"

theorem replay_ignores_kill_switch_witness:
  "\<exists>r t. decide sample_fromstring empty_store ''<x>'' [] admitted_context False ''b1'' = (Inr r, t)
     \<and> decide sample_fromstring t ''<x>'' []
          (admitted_context\<lparr>ac_rights_valid := False, ac_kill_switch_enabled := True\<rparr>) False ''b2''
        = (Inr (r\<lparr>rr_idempotent_replay := True\<rparr>), t)"
proof -
  obtain n where n: "parse_cn16 sample_fromstring ''<x>'' = Inr n"
    using sample_parses by (auto simp: is_ok_iff)
  have ready: "product_admission_ready admitted_context"
    by (simp add: product_admission_ready_def admitted_context_def)
  note d = sample_decides [OF n disjI1 [OF ready], of "[]" "''b1''"]
  from replay_ignores_kill_switch [OF n ready d] d show ?thesis by blast
qed

end
