(* ===== verification/LifecycleNotices.thy ===== *)
theory LifecycleNotices
  imports AdmissionRehearsal
begin

text \<open>
  The lifecycle notice parser, class \<^verbatim>\<open>TEDEFormsLifecycleParser\<close> of
  \<^verbatim>\<open>apps/api/src/axignal_api/procurement_lifecycle_rehearsal.py\<close>: contract notices with an
  optional change block, and contract award notices (subtype 29) with their tendering parties,
  tenders, lot results and settled contracts. The XML reader is the argument \<^term>\<open>fromstring\<close>.
\<close>

section \<open>Constants and records\<close>

definition lifecycle_profile :: string where
  "lifecycle_profile = ''ted-eforms-procurement-lifecycle@0.1.0''"

definition change_reason_codes :: "string list" where
  "change_reason_codes =
     [''cancel'', ''cancel-intent'', ''cor-buy'', ''cor-esen'', ''cor-pub'', ''info-release'',
      ''susp-review'', ''update-add'']"

definition winner_selection_codes :: "string list" where
  "winner_selection_codes = [''clos-nw'', ''open-nw'', ''selec-w'']"

definition lifecycle_auto_admissible_predicates :: "string list" where
  "lifecycle_auto_admissible_predicates = auto_admissible_predicates @
     [''procurement_notice_lifecycle_kind'', ''procurement_changed_notice_reference'',
      ''procurement_change_reason_code'', ''procurement_result_lot_identifier'',
      ''procurement_winner_selection_status'', ''procurement_tenders_received_count'',
      ''procurement_winner_organisation_ref'', ''procurement_winner_official_name'',
      ''procurement_awarded_value'', ''procurement_contract_identifier'', ''procurement_award_date'']"

definition notice_ref_classes :: "(char \<Rightarrow> bool) list" where
  \<comment> \<open>\<^verbatim>\<open>NOTICE_REF_PATTERN\<close>: a version-4 UUID, a dash, two digits\<close>
  "notice_ref_classes = uuid4_classes @ [is_dash, is_digit, is_digit]"

definition lifecycle_NS :: "(string \<times> string) list" where
  "lifecycle_NS = NS @ [(''can'', ''urn:oasis:names:specification:ubl:schema:xsd:ContractAwardNotice-2'')]"

record notice_identity =
  ni_notice_id :: string
  ni_version_id :: string
  ni_issue_date :: string
  ni_procedure_identifier :: string
  ni_document_type :: string
  ni_notice_type :: string
  ni_notice_subtype :: string
  ni_lifecycle_kind :: string
  ni_changed_notice_reference :: "string option"
  ni_change_reason_code :: "string option"
  ni_lot_ids :: "string list"
  ni_raw_content_hash :: string

definition notice_reference :: "notice_identity \<Rightarrow> string" where
  "notice_reference i = ni_notice_id i @ ''-'' @ ni_version_id i"

record lifecycle_notice =
  ln_identity :: notice_identity
  ln_claims :: "candidate_claim list"
  ln_winner_selection_statuses :: "string list"
  ln_winner_organisation_refs :: "string list"
  ln_awarded_values :: "(string \<times> string) list"
  ln_tenders_received_counts :: "int list"
  ln_contract_identifiers :: "string list"
  ln_award_dates :: "string list"
  ln_personal_field_element_count :: nat

section \<open>Reading text\<close>

abbreviation raise :: "string \<Rightarrow> 'a result" where
  "raise msg \<equiv> Inl (ProcurementLifecycleError msg)"

definition lc_required_text :: "xml \<Rightarrow> step list \<Rightarrow> string \<Rightarrow> string result" where
  "lc_required_text doc p label =
     (let v = element_text (find lifecycle_NS p doc) in
      if v = [] then raise (''Required '' @ label @ '' is missing'') else Inr v)"

definition lc_optional_text :: "xml \<Rightarrow> step list \<Rightarrow> string option" where
  "lc_optional_text doc p =
     (let v = element_text (find lifecycle_NS p doc) in if v = [] then None else Some v)"

definition lc_texts :: "xml \<Rightarrow> step list \<Rightarrow> string list" where
  "lc_texts doc p =
     filter (\<lambda>v. v \<noteq> []) (map (\<lambda>e. element_text (Some e)) (findall lifecycle_NS p doc))"

definition validate_notice_reference :: "string \<Rightarrow> unit result" where
  "validate_notice_reference v =
     (if full_match notice_ref_classes v then Inr () else raise ''Notice reference is not UUID-version'')"

section \<open>Contract notices\<close>

definition parse_changes :: "xml option \<Rightarrow> (string option \<times> string option \<times> string) result" where
  \<comment> \<open>changed reference, change reason and lifecycle kind, from the optional change block\<close>
  "parse_changes changes =
     (case changes of None \<Rightarrow> Inr (None, None, ''COMPETITION_INITIAL'')
      | Some c \<Rightarrow>
          bindE (lc_required_text c [el ''efbc'' ''ChangedNoticeIdentifier''] ''changed notice identifier'')
            (\<lambda>changed_reference.
          bindE (validate_notice_reference changed_reference) (\<lambda>_.
          bindE (lc_required_text c [el ''efac'' ''ChangeReason'', el ''cbc'' ''ReasonCode'']
                   ''change reason code'') (\<lambda>change_reason.
          if change_reason \<notin> set change_reason_codes then raise ''Unsupported change reason code''
          else let change_nodes = findall lifecycle_NS [el ''efac'' ''Change''] c in
            if change_reason = ''cancel''
            then if change_nodes \<noteq> [] then raise ''Notice cancellation must not carry efac:Change nodes''
                 else Inr (Some changed_reference, Some change_reason, ''NOTICE_CANCELLATION'')
            else if change_nodes = []
                 then raise ''Non-cancellation change notice requires at least one change''
                 else Inr (Some changed_reference, Some change_reason, ''COMPETITION_CORRECTION'')))))"

definition parse_contract_notice ::
    "(string \<Rightarrow> xml option) \<Rightarrow> string \<Rightarrow> xml \<Rightarrow> lifecycle_notice result" where
  "parse_contract_notice fromstring xml_bytes doc =
     (case parse_cn16 fromstring xml_bytes of
        Inl (TEDEFormsParseError msg) \<Rightarrow> raise msg
      | Inl e \<Rightarrow> Inl e
      | Inr parsed \<Rightarrow>
          bindE (parse_changes (find lifecycle_NS (extension_path @ [el ''efac'' ''Changes'']) doc))
            (\<lambda>(changed_reference, change_reason, lifecycle_kind).
          let identity =
            \<lparr>ni_notice_id = pn_notice_id parsed, ni_version_id = pn_version_id parsed,
             ni_issue_date = pn_issue_date parsed,
             ni_procedure_identifier = (case pn_procedure_identifier parsed of None \<Rightarrow> [] | Some p \<Rightarrow> p),
             ni_document_type = pn_document_type parsed, ni_notice_type = pn_notice_type parsed,
             ni_notice_subtype = pn_notice_subtype parsed, ni_lifecycle_kind = lifecycle_kind,
             ni_changed_notice_reference = changed_reference, ni_change_reason_code = change_reason,
             ni_lot_ids = sort (map lo_lot_id (pn_lots parsed)),
             ni_raw_content_hash = pn_raw_content_hash parsed\<rparr>
          in if ni_procedure_identifier identity = []
             then raise ''Lifecycle notice has no procedure identifier''
             else Inr
               \<lparr>ln_identity = identity,
                ln_claims = candidate_claims parsed
                  @ [mk_claim ''procurement_notice_lifecycle_kind'' (notice_reference identity)
                       (PStr lifecycle_kind) ''/ContractNotice/ext:UBLExtensions/.../efac:Changes'']
                  @ claim_if changed_reference (\<lambda>r.
                      mk_claim ''procurement_changed_notice_reference'' (notice_reference identity) (PStr r)
                        ''/ContractNotice/ext:UBLExtensions/.../efac:Changes/efbc:ChangedNoticeIdentifier'')
                  @ claim_if change_reason (\<lambda>r.
                      mk_claim ''procurement_change_reason_code'' (notice_reference identity) (PStr r)
                        ''/ContractNotice/ext:UBLExtensions/.../efac:Changes/efac:ChangeReason/cbc:ReasonCode''),
                ln_winner_selection_statuses = [], ln_winner_organisation_refs = [],
                ln_awarded_values = [], ln_tenders_received_counts = [],
                ln_contract_identifiers = [], ln_award_dates = [],
                ln_personal_field_element_count = pn_personal_field_element_count parsed\<rparr>))"

section \<open>Result notices\<close>

definition add_organisation_name ::
    "(string \<times> string list) list \<Rightarrow> xml \<Rightarrow> (string \<times> string list) list result" where
  "add_organisation_name names_by_id company =
     bindE (lc_required_text company [el ''cac'' ''PartyIdentification'',
         el_with ''cbc'' ''ID'' ''schemeName'' ''organization''] ''organisation ID'') (\<lambda>identifier.
       if dict_get names_by_id identifier \<noteq> None then raise ''Duplicate organisation ID''
       else let names = lc_texts company [el ''cac'' ''PartyName'', el ''cbc'' ''Name''] in
         if names = [] then raise ''Organisation has no official name''
         else Inr (dict_put names_by_id identifier names))"

definition organisation_names :: "xml \<Rightarrow> (string \<times> string list) list result" where
  "organisation_names doc =
     foldE add_organisation_name [] (findall lifecycle_NS (extension_path @ [el ''efac'' ''Organizations'',
       el ''efac'' ''Organization'', el ''efac'' ''Company'']) doc)"

definition add_tendering_party ::
    "(string \<times> string list) list \<Rightarrow> xml \<Rightarrow> (string \<times> string list) list result" where
  "add_tendering_party parties party =
     bindE (lc_required_text party [el_with ''cbc'' ''ID'' ''schemeName'' ''tendering-party'']
              ''tendering party ID'') (\<lambda>party_id.
       Inr (dict_put parties party_id
         (lc_texts party [el ''efac'' ''Tenderer'', el_with ''cbc'' ''ID'' ''schemeName'' ''organization''])))"

record tender =
  td_party_id :: "string option"
  td_lot_id :: string
  td_amount :: "string option"
  td_currency :: "string option"

definition add_tender :: "(string \<times> tender) list \<Rightarrow> xml \<Rightarrow> (string \<times> tender) list result" where
  "add_tender tenders e =
     bindE (lc_required_text e [el_with ''cbc'' ''ID'' ''schemeName'' ''tender''] ''tender ID'') (\<lambda>tender_id.
     let party_id = lc_optional_text e [el ''efac'' ''TenderingParty'',
           el_with ''cbc'' ''ID'' ''schemeName'' ''tendering-party''] in
     bindE (lc_required_text e [el ''efac'' ''TenderLot'', el_with ''cbc'' ''ID'' ''schemeName'' ''Lot'']
              ''tender lot ID'') (\<lambda>lot_id.
     let amount_element = find lifecycle_NS [el ''cac'' ''LegalMonetaryTotal'', el ''cbc'' ''PayableAmount''] e;
         amount = element_text amount_element in
     Inr (dict_put tenders tender_id
       \<lparr>td_party_id = party_id, td_lot_id = lot_id,
        td_amount = (if amount = [] then None else Some amount),
        td_currency = Option.bind amount_element (\<lambda>a. xml_get a ''currencyID'')\<rparr>)))"

record result_acc =
  ra_claims :: "candidate_claim list"
  ra_lot_ids :: "string list"
  ra_statuses :: "string list"
  ra_counts :: "int list"
  ra_winner_refs :: "string list"
  ra_awarded_values :: "(string \<times> string) list"
  ra_contracts :: "string list"
  ra_award_dates :: "string list"

definition add_statistic :: "string \<Rightarrow> result_acc \<Rightarrow> xml \<Rightarrow> result_acc result" where
  "add_statistic lot_id a statistic =
     (case (lc_optional_text statistic [el ''efbc'' ''StatisticsCode''],
            lc_optional_text statistic [el ''efbc'' ''StatisticsNumeric'']) of
        (Some statistic_code, Some v) \<Rightarrow>
          if statistic_code = ''tenders''
          then (case parse_int v of None \<Rightarrow> raise ''Tender count is not an integer''
                | Some received \<Rightarrow>
                    if received < 0 then raise ''Tender count is negative''
                    else Inr (a\<lparr>ra_counts := ra_counts a @ [received],
                      ra_claims := ra_claims a @
                        [mk_claim ''procurement_tenders_received_count'' lot_id (PInt received)
                           ''/ContractAwardNotice/.../efac:LotResult/efac:ReceivedSubmissionsStatistics'']\<rparr>))
          else Inr a
      | _ \<Rightarrow> Inr a)"

definition add_winner ::
    "(string \<times> string list) list \<Rightarrow> string \<Rightarrow> result_acc \<Rightarrow> string \<Rightarrow> result_acc result" where
  "add_winner names lot_id a winner_ref =
     (case dict_get names winner_ref of
        None \<Rightarrow> raise ''Winner organisation reference is unresolved''
      | Some official \<Rightarrow>
          Inr (a\<lparr>ra_winner_refs := ra_winner_refs a @ [winner_ref],
            ra_claims := ra_claims a
              @ [mk_claim ''procurement_winner_organisation_ref'' lot_id (PStr winner_ref)
                   ''/ContractAwardNotice/.../efac:TenderingParty/efac:Tenderer/cbc:ID'']
              @ map (\<lambda>winner_name. mk_claim ''procurement_winner_official_name'' winner_ref (PStr winner_name)
                   ''/ContractAwardNotice/.../efac:Organizations/efac:Organization/efac:Company/cac:PartyName/cbc:Name'')
                  official\<rparr>))"

definition add_awarded_value :: "string \<Rightarrow> tender \<Rightarrow> result_acc \<Rightarrow> result_acc result" where
  "add_awarded_value lot_id t a =
     (case td_amount t of None \<Rightarrow> Inr a
      | Some amount \<Rightarrow>
          (case td_currency t of None \<Rightarrow> raise ''Awarded value has no currency''
           | Some currency \<Rightarrow>
               if currency = [] then raise ''Awarded value has no currency''
               else Inr (a\<lparr>ra_awarded_values := ra_awarded_values a @ [(amount, currency)],
                 ra_claims := ra_claims a @
                   [mk_claim ''procurement_awarded_value'' lot_id
                      (PDict [(''amount'', PStr amount), (''currency'', PStr currency)])
                      ''/ContractAwardNotice/.../efac:LotTender/cac:LegalMonetaryTotal/cbc:PayableAmount'']\<rparr>)))"

definition party_winners :: "(string \<times> string list) list \<Rightarrow> tender \<Rightarrow> string list" where
  \<comment> \<open>\<^verbatim>\<open>tendering_parties.get(party_id or "", ())\<close>\<close>
  "party_winners parties t =
     (case dict_get parties (case td_party_id t of None \<Rightarrow> [] | Some p \<Rightarrow> p) of None \<Rightarrow> [] | Some ws \<Rightarrow> ws)"

definition add_tender_ref ::
    "(string \<times> string list) list \<Rightarrow> (string \<times> string list) list \<Rightarrow> (string \<times> tender) list
      \<Rightarrow> string \<Rightarrow> string \<Rightarrow> result_acc \<Rightarrow> string \<Rightarrow> result_acc result" where
  "add_tender_ref names parties tenders lot_id status a tender_ref =
     (case dict_get tenders tender_ref of
        None \<Rightarrow> raise ''Lot result tender reference is unresolved or cross-lot''
      | Some t \<Rightarrow>
          if td_lot_id t \<noteq> lot_id then raise ''Lot result tender reference is unresolved or cross-lot''
          else if status = ''selec-w'' \<and> party_winners parties t = []
          then raise ''Winning tender has no resolved tendering party''
          else bindE (foldE (add_winner names lot_id) a (party_winners parties t)) (add_awarded_value lot_id t))"

definition add_lot_result ::
    "(string \<times> string list) list \<Rightarrow> (string \<times> string list) list \<Rightarrow> (string \<times> tender) list
      \<Rightarrow> result_acc \<Rightarrow> xml \<Rightarrow> result_acc result" where
  "add_lot_result names parties tenders a e =
     bindE (lc_required_text e [el_with ''cbc'' ''ID'' ''schemeName'' ''result''] ''lot result ID'') (\<lambda>result_id.
     bindE (lc_required_text e [el ''cbc'' ''TenderResultCode''] ''winner selection status'') (\<lambda>status.
     if status \<notin> set winner_selection_codes then raise ''Unsupported winner selection status''
     else
     bindE (lc_required_text e [el ''efac'' ''TenderLot'', el_with ''cbc'' ''ID'' ''schemeName'' ''Lot'']
              ''result lot ID'') (\<lambda>lot_id.
     let a = a\<lparr>ra_lot_ids := ra_lot_ids a @ [lot_id], ra_statuses := ra_statuses a @ [status],
               ra_claims := ra_claims a @
                 [mk_claim ''procurement_result_lot_identifier'' result_id (PStr lot_id)
                    ''/ContractAwardNotice/.../efac:LotResult/efac:TenderLot/cbc:ID'',
                  mk_claim ''procurement_winner_selection_status'' lot_id (PStr status)
                    ''/ContractAwardNotice/.../efac:LotResult/cbc:TenderResultCode'']\<rparr> in
     bindE (foldE (add_statistic lot_id) a
              (findall lifecycle_NS [el ''efac'' ''ReceivedSubmissionsStatistics''] e)) (\<lambda>a.
     let tender_refs = lc_texts e [el ''efac'' ''LotTender'', el_with ''cbc'' ''ID'' ''schemeName'' ''tender''] in
     if status = ''selec-w'' \<and> tender_refs = [] then raise ''Winning lot result has no tender reference''
     else foldE (add_tender_ref names parties tenders lot_id status) a tender_refs))))"

definition add_contract :: "string \<Rightarrow> result_acc \<Rightarrow> xml \<Rightarrow> result_acc result" where
  "add_contract procedure_identifier a e =
     bindE (lc_required_text e [el_with ''cbc'' ''ID'' ''schemeName'' ''contract''] ''contract ID'') (\<lambda>contract_id.
     let award_date = lc_optional_text e [el ''cbc'' ''AwardDate''] in
     Inr (a\<lparr>ra_contracts := ra_contracts a @ [contract_id],
        ra_award_dates := ra_award_dates a @ (case award_date of None \<Rightarrow> [] | Some d \<Rightarrow> [d]),
        ra_claims := ra_claims a
          @ [mk_claim ''procurement_contract_identifier'' procedure_identifier (PStr contract_id)
               ''/ContractAwardNotice/.../efac:SettledContract/cbc:ID'']
          @ claim_if award_date (\<lambda>d. mk_claim ''procurement_award_date'' contract_id (PStr d)
               ''/ContractAwardNotice/.../efac:SettledContract/cbc:AwardDate'')\<rparr>))"

definition parse_result_header ::
    "xml \<Rightarrow> (string \<times> string \<times> string \<times> string \<times> string \<times> string) result" where
  \<comment> \<open>notice id, version id, type, subtype, procedure identifier and issue date\<close>
  "parse_result_header doc =
     bindE (lc_required_text doc [el ''cbc'' ''CustomizationID''] ''customization ID'') (\<lambda>customization_id.
     if customization_id \<noteq> ''eforms-sdk-1.14'' then raise ''Unsupported eForms customization''
     else bindE (lc_required_text doc [el ''cbc'' ''UBLVersionID''] ''UBL version'') (\<lambda>ubl_version.
     if ubl_version \<noteq> ''2.3'' then raise ''Unsupported UBL version''
     else bindE (lc_required_text doc [el_with ''cbc'' ''ID'' ''schemeName'' ''notice-id''] ''notice ID'')
       (\<lambda>notice_id.
     bindE (lc_required_text doc [el ''cbc'' ''VersionID''] ''notice version'') (\<lambda>version_id.
     bindE (validate_notice_reference (notice_id @ ''-'' @ version_id)) (\<lambda>_.
     bindE (lc_required_text doc [el ''cbc'' ''NoticeTypeCode''] ''notice type'') (\<lambda>notice_type.
     bindE (lc_required_text doc (extension_path @ [el ''efac'' ''NoticeSubType'', el ''cbc'' ''SubTypeCode''])
              ''notice subtype'') (\<lambda>notice_subtype.
     if notice_type \<noteq> ''can-standard'' \<or> notice_subtype \<noteq> ''29''
     then raise ''Unsupported result notice profile''
     else bindE (lc_required_text doc [el ''cbc'' ''ContractFolderID''] ''procedure identifier'')
       (\<lambda>procedure_identifier.
     bindE (lc_required_text doc [el ''cbc'' ''IssueDate''] ''issue date'') (\<lambda>issue_date.
     Inr (notice_id, version_id, notice_type, notice_subtype, procedure_identifier, issue_date))))))))))"

definition parse_result_notice :: "string \<Rightarrow> xml \<Rightarrow> lifecycle_notice result" where
  "parse_result_notice xml_bytes doc =
     (if xml_tag doc \<noteq> clark lifecycle_NS ''can'' ''ContractAwardNotice''
      then raise ''Unsupported result notice namespace''
      else bindE (parse_result_header doc)
        (\<lambda>(notice_id, version_id, notice_type, notice_subtype, procedure_identifier, issue_date).
      case find lifecycle_NS (extension_path @ [el ''efac'' ''NoticeResult'']) doc of
        None \<Rightarrow> raise ''Result notice has no NoticeResult''
      | Some notice_result \<Rightarrow>
      bindE (organisation_names doc) (\<lambda>names.
      bindE (foldE add_tendering_party [] (findall lifecycle_NS [el ''efac'' ''TenderingParty''] notice_result))
        (\<lambda>parties.
      bindE (foldE add_tender [] (findall lifecycle_NS [el ''efac'' ''LotTender''] notice_result)) (\<lambda>tenders.
      bindE (foldE (add_lot_result names parties tenders)
          \<lparr>ra_claims = [mk_claim ''procurement_notice_lifecycle_kind'' (notice_id @ ''-'' @ version_id)
              (PStr ''PROCEDURE_RESULT'') ''/ContractAwardNotice/ext:UBLExtensions/.../efac:NoticeResult''],
           ra_lot_ids = [], ra_statuses = [], ra_counts = [], ra_winner_refs = [], ra_awarded_values = [],
           ra_contracts = [], ra_award_dates = []\<rparr>
          (findall lifecycle_NS [el ''efac'' ''LotResult''] notice_result)) (\<lambda>a.
      if ra_lot_ids a = [] then raise ''Result notice has no lot result''
      else if \<not> distinct (ra_lot_ids a) then raise ''Result notice repeats a lot result''
      else bindE (foldE (add_contract procedure_identifier) a
                    (findall lifecycle_NS [el ''efac'' ''SettledContract''] notice_result)) (\<lambda>a.
      Inr \<lparr>ln_identity =
             \<lparr>ni_notice_id = notice_id, ni_version_id = version_id, ni_issue_date = issue_date,
              ni_procedure_identifier = procedure_identifier, ni_document_type = ''ContractAwardNotice'',
              ni_notice_type = notice_type, ni_notice_subtype = notice_subtype,
              ni_lifecycle_kind = ''PROCEDURE_RESULT'', ni_changed_notice_reference = None,
              ni_change_reason_code = None, ni_lot_ids = sort (ra_lot_ids a),
              ni_raw_content_hash = sha256_ref xml_bytes\<rparr>,
           ln_claims = ra_claims a,
           ln_winner_selection_statuses = ra_statuses a,
           ln_winner_organisation_refs = unique_first (ra_winner_refs a),
           ln_awarded_values = ra_awarded_values a,
           ln_tenders_received_counts = ra_counts a,
           ln_contract_identifiers = ra_contracts a,
           ln_award_dates = ra_award_dates a,
           ln_personal_field_element_count = count_personal_elements doc\<rparr>)))))))"

section \<open>The parser\<close>

definition lifecycle_parse :: "(string \<Rightarrow> xml option) \<Rightarrow> string \<Rightarrow> lifecycle_notice result" where
  "lifecycle_parse fromstring xml_bytes =
     (if xml_bytes = [] then raise ''Procurement lifecycle XML is empty''
      else if 2097152 < length xml_bytes then raise ''Procurement lifecycle XML exceeded size budget''
      else if contains ''<!doctype'' (lower_bytes xml_bytes) \<or> contains ''<!entity'' (lower_bytes xml_bytes)
      then raise ''DTD and entity declarations are prohibited''
      else case fromstring xml_bytes of None \<Rightarrow> raise ''Lifecycle XML is malformed or unsafe''
        | Some doc \<Rightarrow>
            if local_name (xml_tag doc) = ''ContractNotice''
            then parse_contract_notice fromstring xml_bytes doc
            else if local_name (xml_tag doc) = ''ContractAwardNotice''
            then parse_result_notice xml_bytes doc
            else raise ''Unsupported procurement lifecycle document type'')"

section \<open>What an accepted notice satisfies\<close>

definition known_predicates :: "string list" where
  "known_predicates = cn16_predicates @ lifecycle_auto_admissible_predicates"

lemma known_predicates_token_free:
  "list_all (\<lambda>p. is_identifier p \<and> list_all (\<lambda>t. \<not> contains t p) personal_predicate_tokens)
     lifecycle_auto_admissible_predicates"
  by code_simp

lemma known_predicates_not_personal:
  "p \<in> set known_predicates \<Longrightarrow> \<not> is_personal_predicate p"
proof -
  assume "p \<in> set known_predicates"
  then consider "p \<in> set cn16_predicates" | "p \<in> set lifecycle_auto_admissible_predicates"
    unfolding known_predicates_def set_append by blast
  then show ?thesis
  proof cases
    case 1
    then show ?thesis by (simp add: cn16_predicates_not_personal)
  next
    case 2
    with known_predicates_token_free have "is_identifier p" "list_all (\<lambda>t. \<not> contains t p) personal_predicate_tokens"
      unfolding list_all_iff by blast+
    then show ?thesis
      unfolding is_personal_predicate_def casefold_identifier [OF \<open>is_identifier p\<close>]
      by (simp only: list_all_iff list_ex_iff) blast
  qed
qed

definition acc_wf :: "(string \<times> string list) list \<Rightarrow> result_acc \<Rightarrow> bool" where
  \<comment> \<open>what the loops over the notice result maintain\<close>
  "acc_wf names a =
     (length (ra_statuses a) = length (ra_lot_ids a)
      \<and> set (ra_statuses a) \<subseteq> set winner_selection_codes
      \<and> (\<forall>n\<in>set (ra_counts a). 0 \<le> n)
      \<and> (\<forall>w\<in>set (ra_winner_refs a). dict_get names w \<noteq> None)
      \<and> (\<forall>(x, c)\<in>set (ra_awarded_values a). c \<noteq> [])
      \<and> (\<forall>c\<in>set (ra_claims a). pc_predicate c \<in> set lifecycle_auto_admissible_predicates))"

lemma lifecycle_predicates [simp]:
  "''procurement_notice_lifecycle_kind'' \<in> set lifecycle_auto_admissible_predicates"
  "''procurement_changed_notice_reference'' \<in> set lifecycle_auto_admissible_predicates"
  "''procurement_change_reason_code'' \<in> set lifecycle_auto_admissible_predicates"
  "''procurement_result_lot_identifier'' \<in> set lifecycle_auto_admissible_predicates"
  "''procurement_winner_selection_status'' \<in> set lifecycle_auto_admissible_predicates"
  "''procurement_tenders_received_count'' \<in> set lifecycle_auto_admissible_predicates"
  "''procurement_winner_organisation_ref'' \<in> set lifecycle_auto_admissible_predicates"
  "''procurement_winner_official_name'' \<in> set lifecycle_auto_admissible_predicates"
  "''procurement_awarded_value'' \<in> set lifecycle_auto_admissible_predicates"
  "''procurement_contract_identifier'' \<in> set lifecycle_auto_admissible_predicates"
  "''procurement_award_date'' \<in> set lifecycle_auto_admissible_predicates"
  by (simp_all add: lifecycle_auto_admissible_predicates_def)

lemma add_statistic_wf: "add_statistic lot a e = Inr b \<Longrightarrow> acc_wf names a \<Longrightarrow> acc_wf names b"
  by (auto simp: add_statistic_def acc_wf_def split: option.splits if_splits)

lemma add_winner_wf: "add_winner names lot a w = Inr b \<Longrightarrow> acc_wf names a \<Longrightarrow> acc_wf names b"
  by (auto simp: add_winner_def acc_wf_def split: option.splits)

lemma add_awarded_value_wf: "add_awarded_value lot t a = Inr b \<Longrightarrow> acc_wf names a \<Longrightarrow> acc_wf names b"
  by (auto simp: add_awarded_value_def acc_wf_def split: option.splits if_splits)

lemma add_tender_ref_elim:
  assumes "add_tender_ref names parties tenders lot status a r = Inr b"
  obtains t c where "dict_get tenders r = Some t" "td_lot_id t = lot"
    "status = ''selec-w'' \<Longrightarrow> party_winners parties t \<noteq> []"
    "foldE (add_winner names lot) a (party_winners parties t) = Inr c" "add_awarded_value lot t c = Inr b"
  using assms by (auto simp: add_tender_ref_def bindE_eq_Inr split: option.splits if_splits)

lemma add_tender_ref_wf:
  assumes "add_tender_ref names parties tenders lot status a r = Inr b" "acc_wf names a"
  shows "acc_wf names b"
  using assms(1)
proof (rule add_tender_ref_elim)
  fix t c
  assume "foldE (add_winner names lot) a (party_winners parties t) = Inr c" "add_awarded_value lot t c = Inr b"
  then show ?thesis
    using assms(2) by (blast intro: add_awarded_value_wf foldE_invariant [where I = "acc_wf names"] add_winner_wf)
qed

text \<open>Winners only accumulate, and a winning lot adds one.\<close>

lemma add_statistic_frame:
  "add_statistic lot a e = Inr b \<Longrightarrow> ra_winner_refs b = ra_winner_refs a
    \<and> ra_lot_ids b = ra_lot_ids a \<and> ra_statuses b = ra_statuses a"
  by (auto simp: add_statistic_def split: option.splits if_splits)

lemma add_awarded_value_frame:
  "add_awarded_value lot t a = Inr b \<Longrightarrow> ra_winner_refs b = ra_winner_refs a
    \<and> ra_lot_ids b = ra_lot_ids a \<and> ra_statuses b = ra_statuses a"
  by (auto simp: add_awarded_value_def split: option.splits if_splits)

lemma add_winners_frame:
  "foldE (add_winner names lot) a ws = Inr b \<Longrightarrow> ra_winner_refs b = ra_winner_refs a @ ws
    \<and> ra_lot_ids b = ra_lot_ids a \<and> ra_statuses b = ra_statuses a"
  by (induction ws arbitrary: a) (auto simp: add_winner_def bindE_eq_Inr split: option.splits)

lemma add_tender_ref_frame:
  assumes "add_tender_ref names parties tenders lot status a r = Inr b"
  shows "\<exists>ws. ra_winner_refs b = ra_winner_refs a @ ws \<and> (status = ''selec-w'' \<longrightarrow> ws \<noteq> [])
    \<and> ra_lot_ids b = ra_lot_ids a \<and> ra_statuses b = ra_statuses a"
  using assms by (rule add_tender_ref_elim) (auto dest!: add_winners_frame add_awarded_value_frame)

lemma add_tender_refs_frame:
  "foldE (add_tender_ref names parties tenders lot status) a rs = Inr b \<Longrightarrow>
    \<exists>ws. ra_winner_refs b = ra_winner_refs a @ ws \<and> (status = ''selec-w'' \<and> rs \<noteq> [] \<longrightarrow> ws \<noteq> [])
      \<and> ra_lot_ids b = ra_lot_ids a \<and> ra_statuses b = ra_statuses a"
proof (induction rs arbitrary: a)
  case (Cons r rs)
  then obtain c where c: "add_tender_ref names parties tenders lot status a r = Inr c"
    "foldE (add_tender_ref names parties tenders lot status) c rs = Inr b"
    by (auto simp: bindE_eq_Inr)
  obtain us where us: "ra_winner_refs c = ra_winner_refs a @ us" "status = ''selec-w'' \<Longrightarrow> us \<noteq> []"
    "ra_lot_ids c = ra_lot_ids a" "ra_statuses c = ra_statuses a"
    using add_tender_ref_frame [OF c(1)] by blast
  obtain vs where vs: "ra_winner_refs b = ra_winner_refs c @ vs"
    "ra_lot_ids b = ra_lot_ids c" "ra_statuses b = ra_statuses c"
    using Cons.IH [OF c(2)] by blast
  show ?case
    by (rule exI [of _ "us @ vs"]) (use us vs in simp)
qed auto

lemma add_statistics_frame:
  "foldE (add_statistic lot) a es = Inr b \<Longrightarrow> ra_winner_refs b = ra_winner_refs a
    \<and> ra_lot_ids b = ra_lot_ids a \<and> ra_statuses b = ra_statuses a"
  by (induction es arbitrary: a) (auto simp: bindE_eq_Inr dest!: add_statistic_frame)

text \<open>One pass of the loop over the lot results, in its successful shape.\<close>

definition opened_lot :: "string \<Rightarrow> string \<Rightarrow> string \<Rightarrow> result_acc \<Rightarrow> result_acc" where
  "opened_lot result_id lot_id status a = a\<lparr>ra_lot_ids := ra_lot_ids a @ [lot_id],
     ra_statuses := ra_statuses a @ [status],
     ra_claims := ra_claims a @
       [mk_claim ''procurement_result_lot_identifier'' result_id (PStr lot_id)
          ''/ContractAwardNotice/.../efac:LotResult/efac:TenderLot/cbc:ID'',
        mk_claim ''procurement_winner_selection_status'' lot_id (PStr status)
          ''/ContractAwardNotice/.../efac:LotResult/cbc:TenderResultCode'']\<rparr>"

lemma add_lot_result_elim:
  assumes "add_lot_result names parties tenders a e = Inr b"
  obtains rid lot status c rs where "status \<in> set winner_selection_codes"
    "foldE (add_statistic lot) (opened_lot rid lot status a)
       (findall lifecycle_NS [el ''efac'' ''ReceivedSubmissionsStatistics''] e) = Inr c"
    "status = ''selec-w'' \<Longrightarrow> rs \<noteq> []"
    "foldE (add_tender_ref names parties tenders lot status) c rs = Inr b"
  using assms by (auto simp: add_lot_result_def bindE_eq_Inr Let_def opened_lot_def split: if_splits)

lemma opened_lot_wf: "status \<in> set winner_selection_codes \<Longrightarrow> acc_wf names a \<Longrightarrow>
    acc_wf names (opened_lot rid lot status a)"
  by (auto simp: acc_wf_def opened_lot_def)

lemma add_lot_result_wf:
  assumes "add_lot_result names parties tenders a e = Inr b" "acc_wf names a"
  shows "acc_wf names b"
  using assms(1)
proof (rule add_lot_result_elim)
  fix rid lot status c rs
  assume s: "status \<in> set winner_selection_codes"
    and c: "foldE (add_statistic lot) (opened_lot rid lot status a)
       (findall lifecycle_NS [el ''efac'' ''ReceivedSubmissionsStatistics''] e) = Inr c"
    and b: "foldE (add_tender_ref names parties tenders lot status) c rs = Inr b"
  have "acc_wf names c"
    using c opened_lot_wf [OF s assms(2)] by (rule foldE_invariant) (rule add_statistic_wf)
  with b show ?thesis by (rule foldE_invariant) (rule add_tender_ref_wf)
qed

definition winners_named :: "result_acc \<Rightarrow> bool" where
  "winners_named a = (''selec-w'' \<in> set (ra_statuses a) \<longrightarrow> ra_winner_refs a \<noteq> [])"

lemma add_lot_result_winners:
  assumes "add_lot_result names parties tenders a e = Inr b" "winners_named a"
  shows "winners_named b"
  using assms(1)
proof (rule add_lot_result_elim)
  fix rid lot status c rs
  assume c: "foldE (add_statistic lot) (opened_lot rid lot status a)
       (findall lifecycle_NS [el ''efac'' ''ReceivedSubmissionsStatistics''] e) = Inr c"
    and rs: "status = ''selec-w'' \<Longrightarrow> rs \<noteq> []"
    and b: "foldE (add_tender_ref names parties tenders lot status) c rs = Inr b"
  from add_tender_refs_frame [OF b] add_statistics_frame [OF c] rs assms(2) show ?thesis
    by (auto simp: winners_named_def opened_lot_def)
qed

definition identity_wf :: "notice_identity \<Rightarrow> bool" where
  "identity_wf i =
     (full_match notice_ref_classes (notice_reference i)
      \<and> ni_procedure_identifier i \<noteq> [] \<and> sorted (ni_lot_ids i)
      \<and> ni_lifecycle_kind i \<in> {''COMPETITION_INITIAL'', ''COMPETITION_CORRECTION'', ''NOTICE_CANCELLATION'',
           ''PROCEDURE_RESULT''}
      \<and> (ni_changed_notice_reference i \<noteq> None)
          = (ni_lifecycle_kind i \<in> {''COMPETITION_CORRECTION'', ''NOTICE_CANCELLATION''})
      \<and> (ni_change_reason_code i = Some ''cancel'') = (ni_lifecycle_kind i = ''NOTICE_CANCELLATION'')
      \<and> (\<forall>r\<in>set_option (ni_changed_notice_reference i). full_match notice_ref_classes r))"

definition result_wf :: "lifecycle_notice \<Rightarrow> bool" where
  "result_wf n =
     (distinct (ni_lot_ids (ln_identity n)) \<and> ni_lot_ids (ln_identity n) \<noteq> []
      \<and> length (ln_winner_selection_statuses n) = length (ni_lot_ids (ln_identity n))
      \<and> set (ln_winner_selection_statuses n) \<subseteq> {''clos-nw'', ''open-nw'', ''selec-w''}
      \<and> (''selec-w'' \<in> set (ln_winner_selection_statuses n) \<longrightarrow> ln_winner_organisation_refs n \<noteq> [])
      \<and> distinct (ln_winner_organisation_refs n)
      \<and> (\<forall>k\<in>set (ln_tenders_received_counts n). 0 \<le> k)
      \<and> (\<forall>(a, c)\<in>set (ln_awarded_values n). c \<noteq> []))"

definition lifecycle_notice_wf :: "lifecycle_notice \<Rightarrow> bool" where
  "lifecycle_notice_wf n =
     (identity_wf (ln_identity n)
      \<and> (\<forall>c\<in>set (ln_claims n). pc_predicate c \<in> set known_predicates)
      \<and> (if ni_lifecycle_kind (ln_identity n) = ''PROCEDURE_RESULT'' then result_wf n
         else ln_winner_selection_statuses n = [] \<and> ln_winner_organisation_refs n = []))"

lemma lc_required_text_ok: "lc_required_text doc p l = Inr v \<Longrightarrow> v \<noteq> []"
  by (auto simp: lc_required_text_def Let_def split: if_splits)

lemma parse_changes_cases:
  assumes "parse_changes c = Inr (r, x, k)"
  obtains "r = None" "x = None" "k = ''COMPETITION_INITIAL''"
  | v where "r = Some v" "full_match notice_ref_classes v" "x = Some ''cancel''" "k = ''NOTICE_CANCELLATION''"
  | v w where "r = Some v" "full_match notice_ref_classes v" "x = Some w" "w \<noteq> ''cancel''"
      "k = ''COMPETITION_CORRECTION''"
  using assms
  by (auto simp: parse_changes_def bindE_eq_Inr validate_notice_reference_def Let_def
      split: option.splits if_splits)

lemma notice_ref_match:
  "full_match uuid4_classes i \<Longrightarrow> is_version_id v \<Longrightarrow> full_match notice_ref_classes (i @ ''-'' @ v)"
  unfolding notice_ref_classes_def full_match_def is_version_id_def
  by (rule list_all2_appendI) (simp_all add: is_dash_def)

lemma known_predicates_cn16: "p \<in> set cn16_predicates \<Longrightarrow> p \<in> set known_predicates"
  by (simp add: known_predicates_def)

lemma known_predicates_lifecycle: "p \<in> set lifecycle_auto_admissible_predicates \<Longrightarrow> p \<in> set known_predicates"
  by (simp add: known_predicates_def)

definition competition_notice ::
    "parsed_notice \<Rightarrow> string option \<Rightarrow> string option \<Rightarrow> string \<Rightarrow> notice_identity" where
  "competition_notice parsed r x k =
     \<lparr>ni_notice_id = pn_notice_id parsed, ni_version_id = pn_version_id parsed,
      ni_issue_date = pn_issue_date parsed,
      ni_procedure_identifier = (case pn_procedure_identifier parsed of None \<Rightarrow> [] | Some p \<Rightarrow> p),
      ni_document_type = pn_document_type parsed, ni_notice_type = pn_notice_type parsed,
      ni_notice_subtype = pn_notice_subtype parsed, ni_lifecycle_kind = k,
      ni_changed_notice_reference = r, ni_change_reason_code = x,
      ni_lot_ids = sort (map lo_lot_id (pn_lots parsed)),
      ni_raw_content_hash = pn_raw_content_hash parsed\<rparr>"

lemma parse_contract_notice_elim:
  assumes "parse_contract_notice fs b doc = Inr n"
  obtains parsed c r x k where "parse_cn16 fs b = Inr parsed" "parse_changes c = Inr (r, x, k)"
    "ln_identity n = competition_notice parsed r x k"
    "ni_procedure_identifier (ln_identity n) \<noteq> []"
    "\<forall>c\<in>set (ln_claims n). c \<in> set (candidate_claims parsed)
       \<or> pc_predicate c \<in> set lifecycle_auto_admissible_predicates"
    "ln_winner_selection_statuses n = []" "ln_winner_organisation_refs n = []"
proof -
  from assms obtain parsed where parsed: "parse_cn16 fs b = Inr parsed"
    by (auto simp: parse_contract_notice_def split: sum.splits py_error.splits)
  with assms obtain r x k where c: "parse_changes (find lifecycle_NS (extension_path @ [el ''efac'' ''Changes'']) doc)
      = Inr (r, x, k)"
    by (auto simp: parse_contract_notice_def bindE_eq_Inr)
  from assms show ?thesis
    by (intro that [OF parsed c])
      (auto simp: parse_contract_notice_def parsed c Let_def competition_notice_def
        split: if_splits dest!: claim_if_mem)
qed

lemma competition_identity_wf:
  assumes "notice_wf parsed" "parse_changes c = Inr (r, x, k)"
    "ni_procedure_identifier (competition_notice parsed r x k) \<noteq> []"
  shows "identity_wf (competition_notice parsed r x k)"
    "k \<in> {''COMPETITION_INITIAL'', ''COMPETITION_CORRECTION'', ''NOTICE_CANCELLATION''}"
proof -
  have "full_match notice_ref_classes (notice_reference (competition_notice parsed r x k))"
    using assms(1) notice_ref_match [of "pn_notice_id parsed" "pn_version_id parsed"]
    by (simp add: notice_wf_def notice_reference_def competition_notice_def)
  moreover have "ni_lot_ids (competition_notice parsed r x k) = sort (map lo_lot_id (pn_lots parsed))"
    "ni_lifecycle_kind (competition_notice parsed r x k) = k"
    "ni_changed_notice_reference (competition_notice parsed r x k) = r"
    "ni_change_reason_code (competition_notice parsed r x k) = x"
    by (simp_all add: competition_notice_def)
  ultimately show "identity_wf (competition_notice parsed r x k)"
    "k \<in> {''COMPETITION_INITIAL'', ''COMPETITION_CORRECTION'', ''NOTICE_CANCELLATION''}"
    unfolding identity_wf_def using assms(3) by (cases rule: parse_changes_cases [OF assms(2)]; simp)+
qed

lemma parse_contract_notice_wf:
  assumes "parse_contract_notice fs b doc = Inr n"
  shows "lifecycle_notice_wf n"
  using assms
proof (rule parse_contract_notice_elim)
  fix parsed c r x k
  assume parsed: "parse_cn16 fs b = Inr parsed" and c: "parse_changes c = Inr (r, x, k)"
    and i: "ln_identity n = competition_notice parsed r x k" "ni_procedure_identifier (ln_identity n) \<noteq> []"
    and claims: "\<forall>c\<in>set (ln_claims n). c \<in> set (candidate_claims parsed)
       \<or> pc_predicate c \<in> set lifecycle_auto_admissible_predicates"
    and none: "ln_winner_selection_statuses n = []" "ln_winner_organisation_refs n = []"
  note wf = competition_identity_wf [OF parse_cn16_wf [OF parsed] c i(2) [unfolded i(1)]]
  have "\<forall>c\<in>set (ln_claims n). pc_predicate c \<in> set known_predicates"
    using claims candidate_claims_predicates known_predicates_cn16 known_predicates_lifecycle by blast
  moreover have "ni_lifecycle_kind (ln_identity n) \<noteq> ''PROCEDURE_RESULT''"
    using wf(2) by (auto simp: i(1) competition_notice_def)
  ultimately show ?thesis
    using wf(1) none by (simp add: lifecycle_notice_wf_def i(1))
qed

lemma add_contract_wf: "add_contract pid a e = Inr b \<Longrightarrow> acc_wf names a \<Longrightarrow> acc_wf names b"
  by (auto simp: add_contract_def acc_wf_def bindE_eq_Inr Let_def dest!: claim_if_mem)

lemma add_contract_frame:
  "add_contract pid a e = Inr b \<Longrightarrow> ra_lot_ids b = ra_lot_ids a \<and> ra_statuses b = ra_statuses a
    \<and> ra_winner_refs b = ra_winner_refs a"
  by (auto simp: add_contract_def bindE_eq_Inr Let_def)

lemma add_contracts_frame:
  "foldE (add_contract pid) a es = Inr b \<Longrightarrow> ra_lot_ids b = ra_lot_ids a \<and> ra_statuses b = ra_statuses a
    \<and> ra_winner_refs b = ra_winner_refs a"
  by (induction es arbitrary: a) (auto simp: bindE_eq_Inr dest!: add_contract_frame)

definition opening_acc :: "string \<Rightarrow> result_acc" where
  "opening_acc r = \<lparr>ra_claims = [mk_claim ''procurement_notice_lifecycle_kind'' r
              (PStr ''PROCEDURE_RESULT'') ''/ContractAwardNotice/ext:UBLExtensions/.../efac:NoticeResult''],
           ra_lot_ids = [], ra_statuses = [], ra_counts = [], ra_winner_refs = [], ra_awarded_values = [],
           ra_contracts = [], ra_award_dates = []\<rparr>"

definition result_notice ::
    "string \<Rightarrow> xml \<Rightarrow> string \<times> string \<times> string \<times> string \<times> string \<times> string \<Rightarrow> result_acc \<Rightarrow> lifecycle_notice" where
  "result_notice xml_bytes doc header a =
     (case header of (notice_id, version_id, notice_type, notice_subtype, procedure_identifier, issue_date) \<Rightarrow>
      \<lparr>ln_identity =
             \<lparr>ni_notice_id = notice_id, ni_version_id = version_id, ni_issue_date = issue_date,
              ni_procedure_identifier = procedure_identifier, ni_document_type = ''ContractAwardNotice'',
              ni_notice_type = notice_type, ni_notice_subtype = notice_subtype,
              ni_lifecycle_kind = ''PROCEDURE_RESULT'', ni_changed_notice_reference = None,
              ni_change_reason_code = None, ni_lot_ids = sort (ra_lot_ids a),
              ni_raw_content_hash = sha256_ref xml_bytes\<rparr>,
           ln_claims = ra_claims a,
           ln_winner_selection_statuses = ra_statuses a,
           ln_winner_organisation_refs = unique_first (ra_winner_refs a),
           ln_awarded_values = ra_awarded_values a,
           ln_tenders_received_counts = ra_counts a,
           ln_contract_identifiers = ra_contracts a,
           ln_award_dates = ra_award_dates a,
           ln_personal_field_element_count = count_personal_elements doc\<rparr>)"

lemma parse_result_notice_elim:
  assumes "parse_result_notice b doc = Inr n"
  obtains i v nt ns p d names parties tenders es a cs a'
    where "parse_result_header doc = Inr (i, v, nt, ns, p, d)"
      "foldE (add_lot_result names parties tenders) (opening_acc (i @ ''-'' @ v)) es = Inr a"
      "ra_lot_ids a \<noteq> []" "distinct (ra_lot_ids a)"
      "foldE (add_contract p) a cs = Inr a'" "n = result_notice b doc (i, v, nt, ns, p, d) a'"
proof -
  from assms obtain i v nt ns p d where header: "parse_result_header doc = Inr (i, v, nt, ns, p, d)"
    by (auto simp: parse_result_notice_def bindE_eq_Inr split: if_splits)
  from assms obtain nr where nr: "find lifecycle_NS (extension_path @ [el ''efac'' ''NoticeResult'']) doc = Some nr"
    by (cases "find lifecycle_NS (extension_path @ [el ''efac'' ''NoticeResult'']) doc")
      (auto simp: parse_result_notice_def header split: if_splits)
  from assms show ?thesis
    unfolding parse_result_notice_def
    by (auto simp: header nr bindE_eq_Inr opening_acc_def result_notice_def
        intro!: that [OF header] split: if_splits)
qed

lemma result_header_ok:
  "parse_result_header doc = Inr (i, v, nt, ns, p, d) \<Longrightarrow>
    full_match notice_ref_classes (i @ ''-'' @ v) \<and> p \<noteq> []"
  by (auto simp: parse_result_header_def bindE_eq_Inr validate_notice_reference_def
      dest: lc_required_text_ok split: if_splits)

lemma parse_result_notice_wf:
  assumes "parse_result_notice b doc = Inr n"
  shows "lifecycle_notice_wf n"
  using assms
proof (rule parse_result_notice_elim)
  fix i v nt ns p d names parties tenders es a cs a'
  assume header: "parse_result_header doc = Inr (i, v, nt, ns, p, d)"
    and lots: "foldE (add_lot_result names parties tenders) (opening_acc (i @ ''-'' @ v)) es = Inr a"
    and ne: "ra_lot_ids a \<noteq> []" "distinct (ra_lot_ids a)"
    and contracts: "foldE (add_contract p) a cs = Inr a'"
    and n: "n = result_notice b doc (i, v, nt, ns, p, d) a'"
  have "acc_wf names (opening_acc (i @ ''-'' @ v))" "winners_named (opening_acc (i @ ''-'' @ v))"
    by (simp_all add: acc_wf_def opening_acc_def winners_named_def)
  then have "acc_wf names a" "winners_named a"
    using foldE_invariant [OF lots, of "acc_wf names"] foldE_invariant [OF lots, of winners_named]
    by (auto intro: add_lot_result_wf add_lot_result_winners)
  moreover have frame: "ra_lot_ids a' = ra_lot_ids a \<and> ra_statuses a' = ra_statuses a
      \<and> ra_winner_refs a' = ra_winner_refs a"
    by (rule add_contracts_frame [OF contracts])
  ultimately have wf: "acc_wf names a'" "winners_named a'"
    using foldE_invariant [OF contracts, of "acc_wf names"]
    by (auto simp: winners_named_def intro: add_contract_wf)
  have "result_wf n"
    using wf ne frame
    by (auto simp: n result_wf_def result_notice_def acc_wf_def winners_named_def winner_selection_codes_def
        simp flip: set_empty)
  moreover have "identity_wf (ln_identity n)"
    using result_header_ok [OF header]
    by (simp add: identity_wf_def n result_notice_def notice_reference_def)
  moreover have "\<forall>c\<in>set (ln_claims n). pc_predicate c \<in> set known_predicates"
    using wf(1) by (auto simp: n result_notice_def acc_wf_def intro: known_predicates_lifecycle)
  moreover have "ni_lifecycle_kind (ln_identity n) = ''PROCEDURE_RESULT''"
    by (simp add: n result_notice_def)
  ultimately show ?thesis
    by (simp add: lifecycle_notice_wf_def)
qed

lemma lifecycle_parse_wf: "lifecycle_parse fs b = Inr n \<Longrightarrow> lifecycle_notice_wf n"
  by (auto simp: lifecycle_parse_def split: if_splits option.splits
      intro: parse_contract_notice_wf parse_result_notice_wf)

end
