(* ===== verification/LifecycleSamples.thy ===== *)
theory LifecycleSamples
  imports LifecycleNotices
begin

text \<open>
  Notices on which the lifecycle theorems are applied: a competition with two lots, a result that
  awards the first lot, and a result that awards both lots to the same organisation.
\<close>

definition sample_organisation :: "string \<Rightarrow> string \<Rightarrow> xml" where
  "sample_organisation i nm = node ''efac'' ''Organization'' [node ''efac'' ''Company''
     [node ''cac'' ''PartyIdentification'' [leaf_with ''cbc'' ''ID'' ''schemeName'' ''organization'' i],
      node ''cac'' ''PartyName'' [leaf ''cbc'' ''Name'' nm]]]"

definition sample_extension :: "xml list \<Rightarrow> xml" where
  "sample_extension es = node ''ext'' ''UBLExtensions'' [node ''ext'' ''UBLExtension''
     [node ''ext'' ''ExtensionContent'' [node ''efext'' ''EformsExtension'' es]]]"

definition sample_lot :: "string \<Rightarrow> xml" where
  "sample_lot i = node ''cac'' ''ProcurementProjectLot'' [leaf_with ''cbc'' ''ID'' ''schemeName'' ''Lot'' i]"

definition competition_doc :: xml where
  "competition_doc = node ''cn'' ''ContractNotice''
     [sample_extension [node ''efac'' ''NoticeSubType'' [leaf ''cbc'' ''SubTypeCode'' ''16''],
        node ''efac'' ''Organizations'' [sample_organisation ''O1'' ''City'']],
      leaf ''cbc'' ''UBLVersionID'' ''2.3'',
      leaf ''cbc'' ''CustomizationID'' ''eforms-sdk-1.14'',
      leaf_with ''cbc'' ''ID'' ''schemeName'' ''notice-id'' ''00000000-0000-4000-8000-000000000000'',
      leaf ''cbc'' ''VersionID'' ''01'',
      leaf ''cbc'' ''NoticeTypeCode'' ''cn-standard'',
      leaf ''cbc'' ''ContractFolderID'' ''P1'',
      leaf ''cbc'' ''IssueDate'' ''2026-01-02'',
      node ''cac'' ''ContractingParty'' [node ''cac'' ''Party'' [node ''cac'' ''PartyIdentification''
        [leaf_with ''cbc'' ''ID'' ''schemeName'' ''organization'' ''O1'']]],
      sample_lot ''L1'', sample_lot ''L2'']"

definition sample_tender :: "string \<Rightarrow> string \<Rightarrow> xml" where
  "sample_tender i l = node ''efac'' ''LotTender''
     [leaf_with ''cbc'' ''ID'' ''schemeName'' ''tender'' i,
      node ''efac'' ''TenderingParty'' [leaf_with ''cbc'' ''ID'' ''schemeName'' ''tendering-party'' ''TP1''],
      node ''efac'' ''TenderLot'' [leaf_with ''cbc'' ''ID'' ''schemeName'' ''Lot'' l]]"

definition sample_award :: "string \<Rightarrow> string \<Rightarrow> string \<Rightarrow> xml" where
  "sample_award i l t = node ''efac'' ''LotResult''
     [leaf_with ''cbc'' ''ID'' ''schemeName'' ''result'' i,
      leaf ''cbc'' ''TenderResultCode'' ''selec-w'',
      node ''efac'' ''TenderLot'' [leaf_with ''cbc'' ''ID'' ''schemeName'' ''Lot'' l],
      node ''efac'' ''LotTender'' [leaf_with ''cbc'' ''ID'' ''schemeName'' ''tender'' t]]"

definition award_doc :: "xml list \<Rightarrow> xml" where
  "award_doc awards = Element (clark lifecycle_NS ''can'' ''ContractAwardNotice'') [] None
     [sample_extension [node ''efac'' ''NoticeSubType'' [leaf ''cbc'' ''SubTypeCode'' ''29''],
        node ''efac'' ''Organizations'' [sample_organisation ''O2'' ''Works Ltd''],
        node ''efac'' ''NoticeResult''
          ([node ''efac'' ''TenderingParty'' [leaf_with ''cbc'' ''ID'' ''schemeName'' ''tendering-party'' ''TP1'',
              node ''efac'' ''Tenderer'' [leaf_with ''cbc'' ''ID'' ''schemeName'' ''organization'' ''O2'']],
            sample_tender ''T1'' ''L1'', sample_tender ''T2'' ''L2''] @ awards)],
      leaf ''cbc'' ''UBLVersionID'' ''2.3'',
      leaf ''cbc'' ''CustomizationID'' ''eforms-sdk-1.14'',
      leaf_with ''cbc'' ''ID'' ''schemeName'' ''notice-id'' ''00000000-0000-4000-8000-000000000001'',
      leaf ''cbc'' ''VersionID'' ''01'',
      leaf ''cbc'' ''NoticeTypeCode'' ''can-standard'',
      leaf ''cbc'' ''ContractFolderID'' ''P1'',
      leaf ''cbc'' ''IssueDate'' ''2026-03-02'']"

definition double_award_doc :: xml where
  "double_award_doc = award_doc [sample_award ''R1'' ''L1'' ''T1'', sample_award ''R2'' ''L2'' ''T2'']"

definition lifecycle_fromstring :: "string \<Rightarrow> xml option" where
  "lifecycle_fromstring b =
     (if b = ''<c>'' then Some competition_doc else if b = ''<r>'' then Some double_award_doc else None)"

section \<open>The competition notice\<close>

definition sample_city :: procurement_organisation where
  "sample_city = \<lparr>og_organisation_id = ''O1'', og_names = [\<lparr>lt_value = ''City'', lt_language = None\<rparr>],
     og_national_identifier = None, og_nuts_codes = [], og_country_codes = []\<rparr>"

definition sample_bare_lot :: "string \<Rightarrow> procurement_lot" where
  "sample_bare_lot i = \<lparr>lo_lot_id = i, lo_project = None, lo_submission_deadline_date = None,
     lo_submission_deadline_time = None, lo_eu_funding_indicator = None\<rparr>"

lemma competition_header: "parse_header competition_doc = Inr (''eforms-sdk-1.14'', ''2.3'',
    ''00000000-0000-4000-8000-000000000000'', ''01'', ''cn-standard'', ''16'')"
  by code_simp

lemma competition_organisations: "parse_organisations competition_doc = Inr [sample_city]"
  by code_simp

lemma competition_buyers: "parse_buyer_refs competition_doc [sample_city] = Inr [''O1'']"
  by code_simp

lemma competition_lots: "mapE parse_lot (findall NS [el ''cac'' ''ProcurementProjectLot''] competition_doc)
    = Inr [sample_bare_lot ''L1'', sample_bare_lot ''L2'']"
  by code_simp

lemma competition_rest:
  "required_text competition_doc [el ''cbc'' ''IssueDate''] = Inr ''2026-01-02''"
  "optional_text competition_doc [el ''cbc'' ''ContractFolderID''] = Some ''P1''"
  "xml_tag competition_doc = clark NS ''cn'' ''ContractNotice''"
  "local_name (clark NS ''cn'' ''ContractNotice'') = ''ContractNotice''"
  "find lifecycle_NS (extension_path @ [el ''efac'' ''Changes'']) competition_doc = None"
  by code_simp+

lemma competition_safe_root: "safe_root lifecycle_fromstring ''<c>'' = Inr competition_doc"
  by (simp add: safe_root_def lifecycle_fromstring_def max_xml_bytes_def lower_bytes_def starts_with_def
      is_ascii_upper_def code_def)

lemma competition_cn16:
  obtains n where "parse_cn16 lifecycle_fromstring ''<c>'' = Inr n"
    "pn_notice_id n = ''00000000-0000-4000-8000-000000000000''" "pn_version_id n = ''01''"
    "pn_issue_date n = ''2026-01-02''" "pn_procedure_identifier n = Some ''P1''"
    "map lo_lot_id (pn_lots n) = [''L1'', ''L2'']"
  by (simp add: parse_cn16_def competition_safe_root competition_header competition_organisations
      competition_buyers competition_lots competition_rest sample_bare_lot_def)

lemma competition_parses:
  obtains n where "lifecycle_parse lifecycle_fromstring ''<c>'' = Inr n"
    "ni_issue_date (ln_identity n) = ''2026-01-02''" "ni_lot_ids (ln_identity n) = [''L1'', ''L2'']"
    "notice_reference (ln_identity n) = ''00000000-0000-4000-8000-000000000000-01''"
    "ni_procedure_identifier (ln_identity n) = ''P1''" "ni_lifecycle_kind (ln_identity n) = ''COMPETITION_INITIAL''"
proof -
  obtain n where n: "parse_cn16 lifecycle_fromstring ''<c>'' = Inr n"
    "pn_notice_id n = ''00000000-0000-4000-8000-000000000000''" "pn_version_id n = ''01''"
    "pn_issue_date n = ''2026-01-02''" "pn_procedure_identifier n = Some ''P1''"
    "map lo_lot_id (pn_lots n) = [''L1'', ''L2'']"
    by (rule competition_cn16)
  have "lifecycle_parse lifecycle_fromstring ''<c>'' = parse_contract_notice lifecycle_fromstring ''<c>'' competition_doc"
    by (simp add: lifecycle_parse_def lifecycle_fromstring_def competition_rest(3,4) lower_bytes_def
        starts_with_def is_ascii_upper_def code_def)
  then show thesis
    by (intro that) (auto simp: parse_contract_notice_def n competition_rest(5) parse_changes_def
        notice_reference_def)
qed

section \<open>The result notice that awards both lots to one organisation\<close>

lemma double_award_header: "parse_result_header double_award_doc = Inr
    (''00000000-0000-4000-8000-000000000001'', ''01'', ''can-standard'', ''29'', ''P1'', ''2026-03-02'')"
  by code_simp

definition double_award_result :: xml where
  "double_award_result = the (find lifecycle_NS (extension_path @ [el ''efac'' ''NoticeResult'']) double_award_doc)"

lemma double_award_find:
  "find lifecycle_NS (extension_path @ [el ''efac'' ''NoticeResult'']) double_award_doc = Some double_award_result"
  by code_simp

lemma double_award_names: "organisation_names double_award_doc = Inr [(''O2'', [''Works Ltd''])]"
  by code_simp

lemma double_award_parties:
  "foldE add_tendering_party [] (findall lifecycle_NS [el ''efac'' ''TenderingParty''] double_award_result)
    = Inr [(''TP1'', [''O2''])]"
  by code_simp

definition double_tenders :: "(string \<times> tender) list" where
  "double_tenders =
     [(''T1'', \<lparr>td_party_id = Some ''TP1'', td_lot_id = ''L1'', td_amount = None, td_currency = None\<rparr>),
      (''T2'', \<lparr>td_party_id = Some ''TP1'', td_lot_id = ''L2'', td_amount = None, td_currency = None\<rparr>)]"

lemma double_award_tenders:
  "foldE add_tender [] (findall lifecycle_NS [el ''efac'' ''LotTender''] double_award_result) = Inr double_tenders"
  by code_simp

definition double_award_acc :: result_acc where
  "double_award_acc =
     \<lparr>ra_claims =
        [mk_claim ''procurement_notice_lifecycle_kind'' ''00000000-0000-4000-8000-000000000001-01''
           (PStr ''PROCEDURE_RESULT'') ''/ContractAwardNotice/ext:UBLExtensions/.../efac:NoticeResult'',
         mk_claim ''procurement_result_lot_identifier'' ''R1'' (PStr ''L1'')
           ''/ContractAwardNotice/.../efac:LotResult/efac:TenderLot/cbc:ID'',
         mk_claim ''procurement_winner_selection_status'' ''L1'' (PStr ''selec-w'')
           ''/ContractAwardNotice/.../efac:LotResult/cbc:TenderResultCode'',
         mk_claim ''procurement_winner_organisation_ref'' ''L1'' (PStr ''O2'')
           ''/ContractAwardNotice/.../efac:TenderingParty/efac:Tenderer/cbc:ID'',
         mk_claim ''procurement_winner_official_name'' ''O2'' (PStr ''Works Ltd'')
           ''/ContractAwardNotice/.../efac:Organizations/efac:Organization/efac:Company/cac:PartyName/cbc:Name'',
         mk_claim ''procurement_result_lot_identifier'' ''R2'' (PStr ''L2'')
           ''/ContractAwardNotice/.../efac:LotResult/efac:TenderLot/cbc:ID'',
         mk_claim ''procurement_winner_selection_status'' ''L2'' (PStr ''selec-w'')
           ''/ContractAwardNotice/.../efac:LotResult/cbc:TenderResultCode'',
         mk_claim ''procurement_winner_organisation_ref'' ''L2'' (PStr ''O2'')
           ''/ContractAwardNotice/.../efac:TenderingParty/efac:Tenderer/cbc:ID'',
         mk_claim ''procurement_winner_official_name'' ''O2'' (PStr ''Works Ltd'')
           ''/ContractAwardNotice/.../efac:Organizations/efac:Organization/efac:Company/cac:PartyName/cbc:Name''],
      ra_lot_ids = [''L1'', ''L2''], ra_statuses = [''selec-w'', ''selec-w''], ra_counts = [],
      ra_winner_refs = [''O2'', ''O2''], ra_awarded_values = [], ra_contracts = [], ra_award_dates = []\<rparr>"

lemma double_award_lots:
  "foldE (add_lot_result [(''O2'', [''Works Ltd''])] [(''TP1'', [''O2''])] double_tenders)
     (opening_acc ''00000000-0000-4000-8000-000000000001-01'')
     (findall lifecycle_NS [el ''efac'' ''LotResult''] double_award_result) = Inr double_award_acc"
  by code_simp

lemma double_award_rest:
  "findall lifecycle_NS [el ''efac'' ''SettledContract''] double_award_result = []"
  "xml_tag double_award_doc = clark lifecycle_NS ''can'' ''ContractAwardNotice''"
  "local_name (clark lifecycle_NS ''can'' ''ContractAwardNotice'') = ''ContractAwardNotice''"
  by code_simp+

lemma double_award_parses:
  "lifecycle_parse lifecycle_fromstring ''<r>'' = Inr (result_notice ''<r>'' double_award_doc
     (''00000000-0000-4000-8000-000000000001'', ''01'', ''can-standard'', ''29'', ''P1'', ''2026-03-02'')
     double_award_acc)"
proof -
  have acc: "ra_lot_ids double_award_acc = [''L1'', ''L2'']"
    by (simp add: double_award_acc_def)
  have "lifecycle_parse lifecycle_fromstring ''<r>'' = parse_result_notice ''<r>'' double_award_doc"
    by (simp add: lifecycle_parse_def lifecycle_fromstring_def double_award_rest(2,3) lower_bytes_def
        starts_with_def is_ascii_upper_def code_def)
  also have "\<dots> = Inr (result_notice ''<r>'' double_award_doc
     (''00000000-0000-4000-8000-000000000001'', ''01'', ''can-standard'', ''29'', ''P1'', ''2026-03-02'')
     double_award_acc)"
    using double_award_lots
    by (simp add: parse_result_notice_def double_award_rest double_award_header double_award_find
        double_award_names double_award_parties double_award_tenders opening_acc_def acc result_notice_def)
  finally show ?thesis .
qed

lemma double_award_repeats_claim: "\<not> distinct (ra_claims double_award_acc)"
  by (simp add: double_award_acc_def mk_claim_def)

text \<open>C17: A lifecycle notice the parser accepts is well formed: its reference is a version-4 UUID
  with a two-digit version, it has a procedure identifier and sorted lots, it names a changed notice
  exactly when it is a correction or cancellation, and is a cancellation exactly when its reason is
  \<^verbatim>\<open>cancel\<close>; no claim has a personal predicate; and a result has at least one lot, no lot twice, one
  known status for each lot, non-negative tender counts, no awarded value without currency, and at
  least one resolved winner if any lot is awarded.\<close>

theorem lifecycle_notice_parse_wf:
  assumes "lifecycle_parse fs b = Inr n"
  shows "lifecycle_notice_wf n \<and> (\<forall>c\<in>set (ln_claims n). \<not> is_personal_predicate (pc_predicate c))"
  using lifecycle_parse_wf [OF assms] known_predicates_not_personal
  unfolding lifecycle_notice_wf_def by blast

theorem lifecycle_notice_parse_wf_witness:
  "\<exists>n. lifecycle_parse lifecycle_fromstring ''<r>'' = Inr n \<and> lifecycle_notice_wf n"
  using lifecycle_notice_parse_wf [OF double_award_parses] double_award_parses by blast

end
