(* ===== verification/Lifecycle.thy ===== *)
theory Lifecycle
  imports LifecycleSamples PyDate
begin

text \<open>
  The lifecycle assembler, class \<^verbatim>\<open>ProcurementLifecycleAssembler\<close> of
  \<^verbatim>\<open>apps/api/src/axignal_api/procurement_lifecycle_rehearsal.py\<close>: notices are parsed twice, ordered
  and checked as one lineage, turned into evidence objects, decided, committed to the rehearsal
  store, and summarised as lifecycle events and a dossier. The batch id \<^verbatim>\<open>uuid4()\<close> is an argument
  and the store is threaded.
\<close>

section \<open>Records\<close>

record evidence_object =
  eo_evidence_key :: string
  eo_notice_reference :: string
  eo_claim_fingerprint :: string
  eo_predicate :: string
  eo_subject_key :: string
  eo_source_path :: string
  eo_value_hash :: string
  eo_content_hash :: string
  eo_parser_profile :: string
  eo_authority :: string
  eo_rights_state :: string
  eo_provisional :: bool

record lifecycle_event =
  le_sequence :: nat
  le_event_type :: string
  le_notice_reference :: string
  le_previous_notice_reference :: "string option"
  le_procedure_identifier :: string
  le_lot_ids :: "string list"
  le_evidence_keys :: "string list"
  le_event_hash :: string

record dossier_section =
  ds_section_id :: string
  ds_title :: string
  ds_claim_fingerprints :: "string list"
  ds_evidence_keys :: "string list"
  ds_facts :: "pyval list"
  ds_status :: string

record dossier =
  do_dossier_id :: string
  do_procedure_identifier :: string
  do_status :: string
  do_lifecycle_state :: string
  do_notice_references :: "string list"
  do_sections :: "dossier_section list"
  do_unknowns :: "string list"
  do_warnings :: "string list"
  do_content_hash :: string

record lifecycle_result =
  lr_notices :: "lifecycle_notice list"
  lr_evidence_objects :: "evidence_object list"
  lr_lifecycle_events :: "lifecycle_event list"
  lr_admission :: rehearsal_result
  lr_dossier :: dossier
  lr_canonical_claim_writes :: nat
  lr_model_calls :: nat
  lr_reviewer_canonical_writes :: nat

definition canonical_hash :: "pyval \<Rightarrow> string" where
  "canonical_hash v = sha256_ref (utf8 (json_dumps False v))"

definition hash_prefix :: "string \<Rightarrow> string" where
  \<comment> \<open>\<^verbatim>\<open>h.removeprefix("sha256:")[:24]\<close>\<close>
  "hash_prefix h = take 24 (if starts_with ''sha256:'' h then drop 7 h else h)"

abbreviation kind :: "lifecycle_notice \<Rightarrow> string" where
  "kind n \<equiv> ni_lifecycle_kind (ln_identity n)"

abbreviation reference :: "lifecycle_notice \<Rightarrow> string" where
  "reference n \<equiv> notice_reference (ln_identity n)"

abbreviation lots :: "lifecycle_notice \<Rightarrow> string list" where
  "lots n \<equiv> ni_lot_ids (ln_identity n)"

abbreviation procedure :: "lifecycle_notice \<Rightarrow> string" where
  "procedure n \<equiv> ni_procedure_identifier (ln_identity n)"

section \<open>Lineage\<close>

definition date_key :: "string \<Rightarrow> int result" where
  "date_key v = (case date_fromisoformat (take 10 v) of
     None \<Rightarrow> raise ''Notice issue date is invalid'' | Some d \<Rightarrow> Inr d)"

record lineage_state =
  ls_references :: "string list"
  ls_latest :: "lifecycle_notice option"
  ls_initial_count :: nat
  ls_cancelled :: "string list"

definition lineage_step :: "string \<Rightarrow> lineage_state \<Rightarrow> lifecycle_notice \<Rightarrow> lineage_state result" where
  "lineage_step procedure_identifier s n =
     (let ref = reference n; seen = (\<lambda>s. s\<lparr>ls_references := ls_references s @ [ref]\<rparr>) in
      if ref \<in> set (ls_references s) then raise ''Duplicate notice reference''
      else if procedure n \<noteq> procedure_identifier then raise ''Lifecycle crosses procedure identifiers''
      else if kind n = ''COMPETITION_INITIAL''
      then if ls_latest s \<noteq> None
           then raise ''Lifecycle contains more than one initial competition notice''
           else Inr (seen (s\<lparr>ls_initial_count := ls_initial_count s + 1, ls_latest := Some n\<rparr>))
      else if kind n = ''COMPETITION_CORRECTION'' \<or> kind n = ''NOTICE_CANCELLATION''
      then (case ni_changed_notice_reference (ln_identity n) of
              None \<Rightarrow> raise ''Change notice has a dangling previous-notice reference''
            | Some previous \<Rightarrow>
                if previous \<notin> set (ls_references s)
                then raise ''Change notice has a dangling previous-notice reference''
                else (case ls_latest s of
                        None \<Rightarrow> raise ''Change notice does not reference the latest competition notice''
                      | Some latest \<Rightarrow>
                          if previous \<noteq> reference latest
                          then raise ''Change notice does not reference the latest competition notice''
                          else if previous \<in> set (ls_cancelled s)
                          then raise ''A cancelled notice cannot receive another change''
                          else if lots n \<noteq> lots latest
                          then raise ''Change notice altered the lot identity set''
                          else Inr (seen (s\<lparr>ls_latest := Some n,
                                 ls_cancelled := (if kind n = ''NOTICE_CANCELLATION''
                                   then ref # ls_cancelled s else ls_cancelled s)\<rparr>))))
      else if kind n = ''PROCEDURE_RESULT''
      then (case ls_latest s of
              None \<Rightarrow> raise ''Result notice has no competition lineage''
            | Some latest \<Rightarrow>
                if \<not> set (lots n) \<subseteq> set (lots latest) then raise ''Result notice references an unknown lot''
                else Inr (seen s))
      else raise ''Unknown lifecycle kind'')"

definition lineage_start :: lineage_state where
  "lineage_start = \<lparr>ls_references = [], ls_latest = None, ls_initial_count = 0, ls_cancelled = []\<rparr>"

definition validate_lineage :: "lifecycle_notice list \<Rightarrow> lifecycle_notice list result" where
  "validate_lineage notices =
     bindE (mapE (\<lambda>n. bindE (date_key (ni_issue_date (ln_identity n))) (\<lambda>d. Inr ((d, reference n), n))) notices)
       (\<lambda>keyed.
     let ordered = map snd (sort_key fst keyed) in
     bindE (foldE (lineage_step (procedure (hd ordered))) lineage_start ordered) (\<lambda>s.
     if ls_initial_count s \<noteq> 1 then raise ''Lifecycle must contain exactly one initial competition notice''
     else Inr ordered))"

section \<open>Evidence objects\<close>

definition evidence_of :: "lifecycle_notice \<Rightarrow> candidate_claim \<Rightarrow> evidence_object" where
  "evidence_of n c =
     (let value_hash = canonical_hash (pc_value c);
          content_hash = canonical_hash (PDict
            [(''notice_reference'', PStr (reference n)),
             (''raw_content_hash'', PStr (ni_raw_content_hash (ln_identity n))),
             (''claim_fingerprint'', PStr (fingerprint c)),
             (''predicate'', PStr (pc_predicate c)),
             (''subject_key'', PStr (pc_subject_key c)),
             (''source_path'', PStr (pc_source_path c)),
             (''value_hash'', PStr value_hash),
             (''parser_profile'', PStr lifecycle_profile)])
      in \<lparr>eo_evidence_key = ''ev_'' @ hash_prefix content_hash, eo_notice_reference = reference n,
          eo_claim_fingerprint = fingerprint c, eo_predicate = pc_predicate c,
          eo_subject_key = pc_subject_key c, eo_source_path = pc_source_path c,
          eo_value_hash = value_hash, eo_content_hash = content_hash,
          eo_parser_profile = lifecycle_profile, eo_authority = ''OBSERVED'',
          eo_rights_state = ''SANDBOX_ONLY'', eo_provisional = True\<rparr>)"

definition notice_claim_pairs :: "lifecycle_notice list \<Rightarrow> (lifecycle_notice \<times> candidate_claim) list" where
  \<comment> \<open>the nested loop over notices and their claims\<close>
  "notice_claim_pairs notices = concat (map (\<lambda>n. map (Pair n) (ln_claims n)) notices)"

definition add_evidence ::
    "evidence_object list \<Rightarrow> lifecycle_notice \<times> candidate_claim \<Rightarrow> evidence_object list result" where
  \<comment> \<open>\<^verbatim>\<open>seen\<close> is the set of keys already appended\<close>
  "add_evidence evidence nc =
     (let item = evidence_of (fst nc) (snd nc) in
      if eo_evidence_key item \<in> eo_evidence_key ` set evidence then raise ''Duplicate Evidence Object key''
      else Inr (evidence @ [item]))"

definition build_evidence :: "lifecycle_notice list \<Rightarrow> evidence_object list result" where
  "build_evidence notices = foldE add_evidence [] (notice_claim_pairs notices)"

section \<open>Decisions\<close>

definition lifecycle_decision :: "admission_context \<Rightarrow> candidate_claim \<Rightarrow> admission_decision" where
  "lifecycle_decision context claim =
     (let personal = is_personal_predicate (pc_predicate claim);
          known = pc_predicate claim \<in> set lifecycle_auto_admissible_predicates;
          (outcome, reason, rederived) =
            (if \<not> product_admission_ready context \<and> \<not> sandbox_ready context
             then (''BLOCKED_SOURCE_NOT_PRODUCT_ADMITTED'', ''source_or_policy_gate_not_admitted'', None)
             else if personal
             then (''REJECTED_PROHIBITED'', ''personal_procurement_predicate'', None)
             else if \<not> known
             then (''HUMAN_REVIEW_REQUIRED_OUTSIDE_PROFILE'', ''predicate_outside_lifecycle_admission_profile'', None)
             else (''SANDBOX_ADMISSIBLE_REDERIVED'', ''all_lifecycle_sandbox_gates_passed'',
                   Some (fingerprint claim)))
      in \<lparr>ad_candidate_fingerprint = fingerprint claim, ad_predicate = pc_predicate claim,
          ad_outcome = outcome, ad_reasons = [reason],
          ad_gate_results =
            [(''SOURCE_PRODUCT_ADMITTED'', product_admission_ready context),
             (''SANDBOX_REHEARSAL_AUTHORISED'', sandbox_ready context),
             (''PARSER_PROFILE_PINNED'', True),
             (''PRODUCER_AUTHORITY_SEPARATED'', True),
             (''PERSONAL_DATA_EXCLUDED'', \<not> personal),
             (''PREDICATE_AUTO_ADMISSIBLE'', known),
             (''REEDERIVATION_EXACT_MATCH'', True),
             (''LINEAGE_VALIDATED'', True),
             (''EVIDENCE_OBJECT_BOUND'', True)],
          ad_rederived_fingerprint = rederived\<rparr>)"

definition lifecycle_decide :: "lifecycle_notice list \<Rightarrow> admission_context \<Rightarrow> admission_decision list" where
  "lifecycle_decide notices context =
     map (\<lambda>(n, c). lifecycle_decision context c) (notice_claim_pairs notices)"

definition lifecycle_key :: "lifecycle_notice list \<Rightarrow> admission_context \<Rightarrow> string" where
  \<comment> \<open>\<^verbatim>\<open>_idempotency_key\<close>\<close>
  "lifecycle_key notices context = canonical_hash (PDict
     [(''profile'', PStr lifecycle_profile),
      (''notice_hashes'', PStrs (map (\<lambda>n. ni_raw_content_hash (ln_identity n)) notices)),
      (''candidate_fingerprints'', PStrs (sort (map (\<lambda>(n, c). fingerprint c) (notice_claim_pairs notices)))),
      (''source_state'', PStr (ac_source_state context)),
      (''policy_state'', PStr (ac_policy_state context)),
      (''sandbox_authorised'', PBool (ac_sandbox_authorised context))])"

section \<open>Lifecycle events\<close>

definition evidence_keys_of :: "evidence_object list \<Rightarrow> string \<Rightarrow> string list" where
  \<comment> \<open>\<^verbatim>\<open>evidence_by_notice.get(reference, ())\<close>\<close>
  "evidence_keys_of evidence ref =
     map eo_evidence_key (filter (\<lambda>item. eo_notice_reference item = ref) evidence)"

definition lifecycle_event_of ::
    "evidence_object list \<Rightarrow> nat \<times> lifecycle_notice \<Rightarrow> lifecycle_event" where
  "lifecycle_event_of evidence sn =
     (let (sequence, n) = sn; i = ln_identity n;
          keys = sort (evidence_keys_of evidence (notice_reference i))
      in \<lparr>le_sequence = sequence, le_event_type = ni_lifecycle_kind i,
          le_notice_reference = notice_reference i,
          le_previous_notice_reference = ni_changed_notice_reference i,
          le_procedure_identifier = ni_procedure_identifier i,
          le_lot_ids = ni_lot_ids i, le_evidence_keys = keys,
          le_event_hash = canonical_hash (PDict
            [(''sequence'', PInt (int sequence)),
             (''event_type'', PStr (ni_lifecycle_kind i)),
             (''notice_reference'', PStr (notice_reference i)),
             (''previous_notice_reference'', opt_str (ni_changed_notice_reference i)),
             (''procedure_identifier'', PStr (ni_procedure_identifier i)),
             (''lot_ids'', PStrs (ni_lot_ids i)),
             (''evidence_keys'', PStrs keys)])\<rparr>)"

definition build_events :: "lifecycle_notice list \<Rightarrow> evidence_object list \<Rightarrow> lifecycle_event list" where
  "build_events notices evidence = map (lifecycle_event_of evidence) (enumerate 1 notices)"

section \<open>The dossier\<close>

definition result_notices :: "lifecycle_notice list \<Rightarrow> lifecycle_notice list" where
  "result_notices notices = filter (\<lambda>n. kind n = ''PROCEDURE_RESULT'') notices"

definition lifecycle_state :: "lifecycle_notice list \<Rightarrow> string" where
  "lifecycle_state notices =
     (let results = result_notices notices;
          statuses = set (concat (map ln_winner_selection_statuses results))
      in if results \<noteq> []
         then if statuses = {''selec-w''} then ''AWARDED''
              else if ''selec-w'' \<in> statuses then ''PARTIALLY_AWARDED''
              else if statuses = {''clos-nw''} then ''NO_AWARD''
              else ''RESULT_PENDING_OR_MIXED''
         else if kind (last notices) = ''NOTICE_CANCELLATION'' then ''NOTICE_CANCELLED_PROCEDURE_UNRESOLVED''
         else ''OPEN_OR_PENDING'')"

definition timeline_fact :: "lifecycle_notice \<Rightarrow> pyval" where
  "timeline_fact n = PDict
     [(''notice_reference'', PStr (reference n)),
      (''issue_date'', PStr (ni_issue_date (ln_identity n))),
      (''event_type'', PStr (kind n)),
      (''previous_notice_reference'', opt_str (ni_changed_notice_reference (ln_identity n))),
      (''change_reason_code'', opt_str (ni_change_reason_code (ln_identity n))),
      (''lot_ids'', PStrs (lots n))]"

definition result_fact :: "lifecycle_notice \<Rightarrow> pyval" where
  "result_fact n = PDict
     [(''notice_reference'', PStr (reference n)),
      (''winner_selection_statuses'', PStrs (ln_winner_selection_statuses n)),
      (''winner_organisation_refs'', PStrs (ln_winner_organisation_refs n)),
      (''awarded_values'', PList (map (\<lambda>(amount, currency).
         PDict [(''amount'', PStr amount), (''currency'', PStr currency)]) (ln_awarded_values n))),
      (''tenders_received_counts'', PList (map PInt (ln_tenders_received_counts n))),
      (''contract_identifiers'', PStrs (ln_contract_identifiers n)),
      (''award_dates'', PStrs (ln_award_dates n))]"

definition dossier_unknowns :: "lifecycle_notice list \<Rightarrow> string list" where
  "dossier_unknowns notices =
     (let results = result_notices notices in
      (if results = [] then [''No result notice is present for the procedure.''] else [])
      @ (if results \<noteq> [] \<and> \<not> list_ex (\<lambda>n. ln_tenders_received_counts n \<noteq> []) results
         then [''Tender-count statistics are not published.''] else [])
      @ (if results \<noteq> [] \<and> list_ex (\<lambda>n. ''selec-w'' \<in> set (ln_winner_selection_statuses n)
               \<and> ln_winner_organisation_refs n = []) results
         then [''A winning result lacks a resolved winner organisation.''] else [])
      @ (if lifecycle_state notices = ''NOTICE_CANCELLED_PROCEDURE_UNRESOLVED''
         then [''The notice is cancelled, but procedure cancellation is not established without a no-award result notice.'']
         else []))"

definition evidence_binding :: "evidence_object list \<Rightarrow> lifecycle_notice \<times> candidate_claim \<Rightarrow> string result" where
  \<comment> \<open>\<^verbatim>\<open>evidence_by_binding[(reference, fingerprint)]\<close>: the last object under the pair\<close>
  "evidence_binding evidence nc =
     (case map_of (rev (map (\<lambda>item. ((eo_notice_reference item, eo_claim_fingerprint item), eo_evidence_key item))
               evidence)) (reference (fst nc), fingerprint (snd nc)) of
        None \<Rightarrow> Inl (KeyError (repr (PTuple [PStr (reference (fst nc)), PStr (fingerprint (snd nc))])))
      | Some key \<Rightarrow> Inr key)"

definition dossier_warnings :: "string list" where
  "dossier_warnings =
     [''TED remains TECHNICAL_PROBE and is not PRODUCT_ADMITTED.'',
      ''Sandbox decisions create zero canonical Claim Ledger writes.'',
      ''The dossier is not a bid, eligibility decision or personalised advice.'']"

definition dossier_sections ::
    "lifecycle_notice list \<Rightarrow> string list \<Rightarrow> string list \<Rightarrow> rehearsal_result \<Rightarrow> dossier_section list" where
  "dossier_sections notices keys result_keys admission =
     (let results = result_notices notices in
      [\<lparr>ds_section_id = ''lifecycle'', ds_title = ''Notice lifecycle'',
        ds_claim_fingerprints = map (\<lambda>(n, c). fingerprint c) (notice_claim_pairs notices),
        ds_evidence_keys = keys, ds_facts = map timeline_fact notices, ds_status = ''TRACEABLE''\<rparr>,
       \<lparr>ds_section_id = ''result'', ds_title = ''Award and competition result'',
        ds_claim_fingerprints = map (\<lambda>(n, c). fingerprint c) (notice_claim_pairs results),
        ds_evidence_keys = result_keys, ds_facts = map result_fact results,
        ds_status = (if results \<noteq> [] then ''TRACEABLE'' else ''UNKNOWN'')\<rparr>,
       \<lparr>ds_section_id = ''admission'', ds_title = ''Deterministic sandbox admission'',
        ds_claim_fingerprints = map ad_candidate_fingerprint (rr_decisions admission),
        ds_evidence_keys = keys,
        ds_facts = map (\<lambda>d. PDict [(''candidate_fingerprint'', PStr (ad_candidate_fingerprint d)),
                                     (''outcome'', PStr (ad_outcome d))]) (rr_decisions admission),
        ds_status = ''SANDBOX_ONLY''\<rparr>])"

definition section_payload :: "dossier_section \<Rightarrow> pyval" where
  "section_payload x = PDict
     [(''section_id'', PStr (ds_section_id x)),
      (''claim_fingerprints'', PStrs (ds_claim_fingerprints x)),
      (''evidence_keys'', PStrs (ds_evidence_keys x)),
      (''facts'', PList (ds_facts x)),
      (''status'', PStr (ds_status x))]"

definition build_dossier ::
    "lifecycle_notice list \<Rightarrow> evidence_object list \<Rightarrow> rehearsal_result \<Rightarrow> dossier result" where
  "build_dossier notices evidence admission =
     bindE (mapE (evidence_binding evidence) (notice_claim_pairs notices)) (\<lambda>keys.
     bindE (mapE (evidence_binding evidence) (notice_claim_pairs (result_notices notices))) (\<lambda>result_keys.
     let sections = dossier_sections notices keys result_keys admission;
         content_hash = canonical_hash (PDict
           [(''procedure_identifier'', PStr (procedure (hd notices))),
            (''status'', PStr ''TRACEABLE_SANDBOX_REHEARSAL''),
            (''lifecycle_state'', PStr (lifecycle_state notices)),
            (''notice_references'', PStrs (map reference notices)),
            (''sections'', PList (map section_payload sections)),
            (''unknowns'', PStrs (dossier_unknowns notices)),
            (''warnings'', PStrs dossier_warnings)])
     in Inr \<lparr>do_dossier_id = ''dos_'' @ hash_prefix content_hash,
             do_procedure_identifier = procedure (hd notices),
             do_status = ''TRACEABLE_SANDBOX_REHEARSAL'',
             do_lifecycle_state = lifecycle_state notices,
             do_notice_references = map reference notices,
             do_sections = sections, do_unknowns = dossier_unknowns notices,
             do_warnings = dossier_warnings, do_content_hash = content_hash\<rparr>))"

definition dossier_payload :: "dossier \<Rightarrow> pyval" where
  \<comment> \<open>\<^verbatim>\<open>as_payload\<close>\<close>
  "dossier_payload d = PDict
     [(''dossier_id'', PStr (do_dossier_id d)),
      (''procedure_identifier'', PStr (do_procedure_identifier d)),
      (''status'', PStr (do_status d)),
      (''lifecycle_state'', PStr (do_lifecycle_state d)),
      (''notice_references'', PStrs (do_notice_references d)),
      (''sections'', PList (map (\<lambda>x. PDict
         [(''section_id'', PStr (ds_section_id x)), (''title'', PStr (ds_title x)),
          (''claim_fingerprints'', PStrs (ds_claim_fingerprints x)),
          (''evidence_keys'', PStrs (ds_evidence_keys x)),
          (''facts'', PList (ds_facts x)), (''status'', PStr (ds_status x))]) (do_sections d))),
      (''unknowns'', PStrs (do_unknowns d)),
      (''warnings'', PStrs (do_warnings d)),
      (''content_hash'', PStr (do_content_hash d))]"

section \<open>The run\<close>

definition assemble ::
    "lifecycle_notice list \<Rightarrow> evidence_object list \<Rightarrow> rehearsal_result \<Rightarrow> lifecycle_result result" where
  "assemble notices evidence admission =
     bindE (build_dossier notices evidence admission) (\<lambda>d. Inr
       \<lparr>lr_notices = notices, lr_evidence_objects = evidence,
        lr_lifecycle_events = build_events notices evidence, lr_admission = admission, lr_dossier = d,
        lr_canonical_claim_writes = 0, lr_model_calls = 0, lr_reviewer_canonical_writes = 0\<rparr>)"

definition prepare_lifecycle ::
    "(string \<Rightarrow> xml option) \<Rightarrow> string list \<Rightarrow> admission_context
      \<Rightarrow> (lifecycle_notice list \<times> evidence_object list) result" where
  \<comment> \<open>\<^verbatim>\<open>run\<close> up to its first effect: the decisions and the key computed meanwhile raise nothing\<close>
  "prepare_lifecycle fromstring raw_notices context =
     (if raw_notices = [] then raise ''Lifecycle requires at least one notice''
      else bindE (mapE (lifecycle_parse fromstring) raw_notices) (\<lambda>first_pass.
           bindE (mapE (lifecycle_parse fromstring) raw_notices) (\<lambda>second_pass.
           if first_pass \<noteq> second_pass then raise ''Independent lifecycle reparse diverged''
           else bindE (validate_lineage first_pass) (\<lambda>notices.
                bindE (build_evidence notices) (\<lambda>evidence.
                if product_admission_ready context
                then raise ''Product admission is outside the lifecycle rehearsal authority''
                else Inr (notices, evidence))))))"

definition lifecycle_admission ::
    "admission_store \<Rightarrow> lifecycle_notice list \<Rightarrow> admission_context \<Rightarrow> bool \<Rightarrow> string
      \<Rightarrow> rehearsal_result result \<times> admission_store" where
  "lifecycle_admission s notices context fail batch_id =
     (let decisions = lifecycle_decide notices context in
      if sandbox_ready context then commit s (lifecycle_key notices context) decisions fail batch_id
      else (Inr (mk_result None decisions False 0), s))"

definition run_lifecycle ::
    "(string \<Rightarrow> xml option) \<Rightarrow> admission_store \<Rightarrow> string list \<Rightarrow> admission_context \<Rightarrow> bool \<Rightarrow> string
      \<Rightarrow> lifecycle_result result \<times> admission_store" where
  "run_lifecycle fromstring s raw_notices context fail batch_id =
     (case prepare_lifecycle fromstring raw_notices context of
        Inl e \<Rightarrow> (Inl e, s)
      | Inr (notices, evidence) \<Rightarrow>
          let (admission, s') = lifecycle_admission s notices context fail batch_id
          in (bindE admission (assemble notices evidence), s'))"

section \<open>The lineage, declaratively\<close>

definition is_competition :: "lifecycle_notice \<Rightarrow> bool" where
  "is_competition n = (kind n \<in> {''COMPETITION_INITIAL'', ''COMPETITION_CORRECTION'', ''NOTICE_CANCELLATION''})"

definition latest :: "lifecycle_notice list \<Rightarrow> lifecycle_notice option" where
  \<comment> \<open>the last competition notice of a prefix\<close>
  "latest pre = (if filter is_competition pre = [] then None else Some (last (filter is_competition pre)))"

definition follows :: "lifecycle_notice list \<Rightarrow> lifecycle_notice \<Rightarrow> bool" where
  \<comment> \<open>what a notice must satisfy after the notices of a prefix\<close>
  "follows pre n =
     (if kind n = ''COMPETITION_INITIAL'' then latest pre = None
      else if kind n \<in> {''COMPETITION_CORRECTION'', ''NOTICE_CANCELLATION''}
      then (\<exists>l. latest pre = Some l \<and> ni_changed_notice_reference (ln_identity n) = Some (reference l)
              \<and> kind l \<noteq> ''NOTICE_CANCELLATION'' \<and> lots n = lots l)
      else kind n = ''PROCEDURE_RESULT'' \<and> (\<exists>l. latest pre = Some l \<and> set (lots n) \<subseteq> set (lots l)))"

definition lineage_ok :: "lifecycle_notice list \<Rightarrow> bool" where
  "lineage_ok ns =
     (distinct (map reference ns)
      \<and> (\<forall>n\<in>set ns. procedure n = procedure (hd ns))
      \<and> length (filter (\<lambda>n. kind n = ''COMPETITION_INITIAL'') ns) = 1
      \<and> (\<forall>i<length ns. follows (take i ns) (ns ! i)))"

definition state_of :: "lifecycle_notice list \<Rightarrow> lineage_state" where
  \<comment> \<open>the loop's state after a prefix\<close>
  "state_of pre =
     \<lparr>ls_references = map reference pre, ls_latest = latest pre,
      ls_initial_count = length (filter (\<lambda>n. kind n = ''COMPETITION_INITIAL'') pre),
      ls_cancelled = rev (map reference (filter (\<lambda>n. kind n = ''NOTICE_CANCELLATION'') pre))\<rparr>"

lemma latest_snoc: "latest (pre @ [n]) = (if is_competition n then Some n else latest pre)"
  by (simp add: latest_def)

lemma latest_mem: "latest pre = Some l \<Longrightarrow> l \<in> set pre \<and> is_competition l"
proof -
  assume "latest pre = Some l"
  then have "l \<in> set (filter is_competition pre)"
    using last_in_set [of "filter is_competition pre"] by (auto simp: latest_def split: if_splits)
  then show ?thesis by simp
qed

lemma cancelled_iff:
  assumes "distinct (map reference pre)" "l \<in> set pre"
  shows "reference l \<in> set (ls_cancelled (state_of pre)) \<longleftrightarrow> kind l = ''NOTICE_CANCELLATION''"
  using assms by (auto simp: state_of_def distinct_map inj_on_def)

lemma state_of_sel [simp]:
  "ls_references (state_of pre) = map reference pre" "ls_latest (state_of pre) = latest pre"
  "ls_initial_count (state_of pre) = length (filter (\<lambda>n. kind n = ''COMPETITION_INITIAL'') pre)"
  by (simp_all add: state_of_def)

definition step_ok :: "string \<Rightarrow> lifecycle_notice list \<Rightarrow> lifecycle_notice \<Rightarrow> bool" where
  "step_ok p pre n = (reference n \<notin> set (map reference pre) \<and> procedure n = p \<and> follows pre n)"

lemma lineage_step_initial:
  assumes "kind n = ''COMPETITION_INITIAL''"
  shows "lineage_step p (state_of pre) n = Inr t \<longleftrightarrow> t = state_of (pre @ [n]) \<and> step_ok p pre n"
  using assms
  by (auto simp: lineage_step_def Let_def step_ok_def follows_def state_of_def latest_snoc is_competition_def)

lemma lineage_step_result:
  assumes "kind n = ''PROCEDURE_RESULT''"
  shows "lineage_step p (state_of pre) n = Inr t \<longleftrightarrow> t = state_of (pre @ [n]) \<and> step_ok p pre n"
  using assms
  by (auto simp: lineage_step_def Let_def step_ok_def follows_def state_of_def latest_snoc is_competition_def
      split: option.splits)

lemma lineage_step_change:
  assumes k: "kind n = ''COMPETITION_CORRECTION'' \<or> kind n = ''NOTICE_CANCELLATION''"
    and d: "distinct (map reference pre)"
  shows "lineage_step p (state_of pre) n = Inr t \<longleftrightarrow> t = state_of (pre @ [n]) \<and> step_ok p pre n"
proof (cases "latest pre")
  case None
  with k show ?thesis
    by (auto simp: lineage_step_def Let_def step_ok_def follows_def split: option.splits)
next
  case (Some l)
  have next_state: "state_of (pre @ [n]) = (state_of pre)\<lparr>ls_latest := Some n,
      ls_cancelled := (if kind n = ''NOTICE_CANCELLATION''
        then reference n # ls_cancelled (state_of pre) else ls_cancelled (state_of pre)),
      ls_references := map reference pre @ [reference n]\<rparr>"
    using k by (auto simp: state_of_def latest_snoc is_competition_def)
  have l: "reference l \<in> set (map reference pre)"
    "reference l \<in> set (ls_cancelled (state_of pre)) \<longleftrightarrow> kind l = ''NOTICE_CANCELLATION''"
    using latest_mem [OF Some] cancelled_iff [OF d] by simp_all
  show ?thesis
    unfolding next_state using k l Some
    by (cases "ni_changed_notice_reference (ln_identity n)")
      (auto simp: lineage_step_def Let_def step_ok_def follows_def)
qed

lemma lineage_step_iff:
  assumes "distinct (map reference pre)"
  shows "lineage_step p (state_of pre) n = Inr t \<longleftrightarrow> t = state_of (pre @ [n]) \<and> step_ok p pre n"
proof -
  consider "kind n = ''COMPETITION_INITIAL''" | "kind n = ''PROCEDURE_RESULT''"
    | "kind n = ''COMPETITION_CORRECTION'' \<or> kind n = ''NOTICE_CANCELLATION''"
    | "kind n \<notin> {''COMPETITION_INITIAL'', ''PROCEDURE_RESULT'', ''COMPETITION_CORRECTION'', ''NOTICE_CANCELLATION''}"
    by blast
  then show ?thesis
  proof cases
    case 4
    then show ?thesis by (simp add: lineage_step_def Let_def step_ok_def follows_def)
  qed (use assms lineage_step_initial lineage_step_result lineage_step_change in blast)+
qed

lemma lineage_fold_iff:
  assumes "distinct (map reference pre)"
  shows "foldE (lineage_step p) (state_of pre) ns = Inr t \<longleftrightarrow>
    t = state_of (pre @ ns) \<and> (\<forall>i<length ns. step_ok p (pre @ take i ns) (ns ! i))"
  using assms
proof (induction ns arbitrary: pre)
  case (Cons n ns)
  have "distinct (map reference (pre @ [n]))" if "step_ok p pre n"
    using that Cons.prems by (simp add: step_ok_def)
  with Cons.IH [of "pre @ [n]"] show ?case
    by (auto simp: bindE_eq_Inr lineage_step_iff [OF Cons.prems] All_less_Suc2)
qed auto

lemma prefixes_snoc:
  "(\<forall>i<length (ns @ [n]). P (take i (ns @ [n])) ((ns @ [n]) ! i)) \<longleftrightarrow>
    (\<forall>i<length ns. P (take i ns) (ns ! i)) \<and> P ns n"
  by (auto simp: less_Suc_eq nth_append)

lemma steps_ok_iff:
  "(\<forall>i<length ns. step_ok p (take i ns) (ns ! i)) \<longleftrightarrow>
    distinct (map reference ns) \<and> (\<forall>n\<in>set ns. procedure n = p) \<and> (\<forall>i<length ns. follows (take i ns) (ns ! i))"
proof (induction ns rule: rev_induct)
  case (snoc n ns)
  show ?case
    unfolding prefixes_snoc [of _ _ "step_ok p"] prefixes_snoc [of _ _ follows] snoc.IH
    by (auto simp: step_ok_def)
qed auto

lemma state_of_Nil: "lineage_start = state_of []"
  by (simp add: lineage_start_def state_of_def latest_def)

definition notice_date :: "lifecycle_notice \<Rightarrow> int option" where
  "notice_date n = date_fromisoformat (take 10 (ni_issue_date (ln_identity n)))"

definition notice_key_of :: "lifecycle_notice \<Rightarrow> int \<times> string" where
  "notice_key_of n = (case notice_date n of None \<Rightarrow> (0, reference n) | Some d \<Rightarrow> (d, reference n))"

lemma map_snd_insort:
  "\<forall>x\<in>set xs. fst x = f (snd x) \<Longrightarrow> map snd (insort_key fst (f a, a) xs) = insort_key f a (map snd xs)"
  by (induction xs) auto

lemma map_snd_sort_key: "map snd (sort_key fst (map (\<lambda>n. (f n, n)) ns)) = sort_key f ns"
proof (induction ns)
  case (Cons n ns)
  have "\<forall>x\<in>set (sort_key fst (map (\<lambda>n. (f n, n)) ns)). fst x = f (snd x)" by auto
  from map_snd_insort [OF this, of n] Cons show ?case by simp
qed simp

lemma keyed_iff:
  "mapE (\<lambda>n. bindE (date_key (ni_issue_date (ln_identity n))) (\<lambda>d. Inr ((d, reference n), n))) ns = Inr ks
    \<longleftrightarrow> (\<forall>n\<in>set ns. notice_date n \<noteq> None) \<and> ks = map (\<lambda>n. (notice_key_of n, n)) ns"
  by (induction ns arbitrary: ks)
    (auto simp: bindE_eq_Inr date_key_def notice_date_def notice_key_of_def split: option.splits)

lemma validate_lineage_iff:
  "validate_lineage ns = Inr os \<longleftrightarrow>
    (\<forall>n\<in>set ns. notice_date n \<noteq> None) \<and> os = sort_key notice_key_of ns \<and> lineage_ok os"
proof -
  have "foldE (lineage_step p) lineage_start os = Inr s \<and> ls_initial_count s = 1 \<longleftrightarrow>
      s = state_of os \<and> length (filter (\<lambda>n. kind n = ''COMPETITION_INITIAL'') os) = 1
      \<and> distinct (map reference os) \<and> (\<forall>n\<in>set os. procedure n = p)
      \<and> (\<forall>i<length os. follows (take i os) (os ! i))" for p s os
    unfolding state_of_Nil by (auto simp: lineage_fold_iff steps_ok_iff)
  then have "(\<exists>s. foldE (lineage_step (procedure (hd os))) lineage_start os = Inr s \<and> ls_initial_count s = 1)
      \<longleftrightarrow> lineage_ok os" for os
    unfolding lineage_ok_def by auto
  then show ?thesis
    by (auto simp: validate_lineage_def bindE_eq_Inr keyed_iff Let_def map_snd_sort_key split: if_splits)
qed

text \<open>A cancelled notice ends the competition: only results may follow.\<close>

lemma after_cancellation:
  assumes "latest pre = Some l" "kind l = ''NOTICE_CANCELLATION''"
    and "\<forall>i<length ns. follows (pre @ take i ns) (ns ! i)"
  shows "\<forall>n\<in>set ns. kind n = ''PROCEDURE_RESULT''"
  using assms
proof (induction ns arbitrary: pre)
  case (Cons n ns)
  have "follows pre n" using Cons.prems(3) by force
  then have n: "kind n = ''PROCEDURE_RESULT''"
    using Cons.prems(1,2) by (auto simp: follows_def split: if_splits)
  moreover have "latest (pre @ [n]) = Some l"
    using Cons.prems(1) n by (simp add: latest_snoc is_competition_def)
  moreover have "\<forall>i<length ns. follows ((pre @ [n]) @ take i ns) (ns ! i)"
    using Cons.prems(3) by (auto simp: All_less_Suc2)
  ultimately show ?case using Cons.IH [of "pre @ [n]"] Cons.prems(2) by simp
qed simp

lemma cancellation_closes:
  assumes "lineage_ok os" "i < j" "j < length os" "kind (os ! i) = ''NOTICE_CANCELLATION''"
  shows "kind (os ! j) = ''PROCEDURE_RESULT''"
proof -
  have i: "take (Suc i) os = take i os @ [os ! i]"
    using assms(2,3) by (simp add: take_Suc_conv_app_nth)
  have "follows (take (Suc i) os @ take k (drop (Suc i) os)) (drop (Suc i) os ! k)"
    if "k < length (drop (Suc i) os)" for k
  proof -
    have "follows (take (Suc i + k) os) (os ! (Suc i + k))"
      using assms(1) that by (simp add: lineage_ok_def)
    moreover have "take (Suc i + k) os = take (Suc i) os @ take k (drop (Suc i) os)"
      by (rule take_add)
    ultimately show ?thesis
      using that by simp
  qed
  moreover have "latest (take (Suc i) os) = Some (os ! i)"
    unfolding i using assms(4) by (simp add: latest_snoc is_competition_def)
  ultimately have "\<forall>n\<in>set (drop (Suc i) os). kind n = ''PROCEDURE_RESULT''"
    using after_cancellation assms(4) by blast
  moreover have "os ! j \<in> set (drop (Suc i) os)"
    using assms(2,3) nth_mem [of "j - Suc i" "drop (Suc i) os"] by simp
  ultimately show ?thesis by blast
qed

section \<open>Evidence\<close>

abbreviation evidence_items :: "lifecycle_notice list \<Rightarrow> evidence_object list" where
  "evidence_items ns \<equiv> map (\<lambda>nc. evidence_of (fst nc) (snd nc)) (notice_claim_pairs ns)"

lemma add_evidence_fold:
  assumes "distinct (map eo_evidence_key ev)"
  shows "foldE add_evidence ev ps = Inr ev' \<longleftrightarrow>
    ev' = ev @ map (\<lambda>nc. evidence_of (fst nc) (snd nc)) ps \<and> distinct (map eo_evidence_key ev')"
  using assms
proof (induction ps arbitrary: ev)
  case (Cons p ps)
  let ?e = "evidence_of (fst p) (snd p)"
  show ?case
  proof (cases "eo_evidence_key ?e \<in> eo_evidence_key ` set ev")
    case True
    then show ?thesis by (auto simp: add_evidence_def Let_def)
  next
    case False
    then have "distinct (map eo_evidence_key (ev @ [?e]))"
      using Cons.prems by simp
    from Cons.IH [OF this] show ?thesis
      using False by (simp add: add_evidence_def Let_def)
  qed
qed auto

lemma build_evidence_iff:
  "build_evidence ns = Inr ev \<longleftrightarrow> ev = evidence_items ns \<and> distinct (map eo_evidence_key (evidence_items ns))"
  by (auto simp: build_evidence_def add_evidence_fold)

lemma build_evidence_error:
  "build_evidence ns = Inl e \<Longrightarrow> e = ProcurementLifecycleError ''Duplicate Evidence Object key''"
proof -
  have "foldE add_evidence ev ps = Inl e \<Longrightarrow> e = ProcurementLifecycleError ''Duplicate Evidence Object key''" for ev ps
    by (induction ps arbitrary: ev) (auto simp: add_evidence_def Let_def bindE_eq_Inl split: if_splits)
  then show "build_evidence ns = Inl e \<Longrightarrow> ?thesis"
    by (simp add: build_evidence_def)
qed

lemma evidence_items_fields [simp]:
  "eo_notice_reference (evidence_of n c) = reference n" "eo_claim_fingerprint (evidence_of n c) = fingerprint c"
  by (simp_all add: evidence_of_def Let_def)

lemma pairs_distinct: "distinct (map eo_evidence_key (evidence_items ns)) \<Longrightarrow> distinct (notice_claim_pairs ns)"
  by (simp add: distinct_map)

lemma pairs_claims_distinct:
  assumes "distinct (notice_claim_pairs ns)" "n \<in> set ns"
  shows "distinct (ln_claims n)"
proof -
  obtain us vs where "ns = us @ n # vs"
    using split_list [OF assms(2)] by blast
  with assms(1) show ?thesis
    by (simp add: notice_claim_pairs_def distinct_map)
qed

text \<open>The same claim twice in one notice is one evidence key twice.\<close>

lemma repeated_claim_no_evidence:
  "n \<in> set ns \<Longrightarrow> \<not> distinct (ln_claims n) \<Longrightarrow>
    build_evidence ns = Inl (ProcurementLifecycleError ''Duplicate Evidence Object key'')"
  using build_evidence_error build_evidence_iff pairs_distinct pairs_claims_distinct
  by (cases "build_evidence ns") blast+

lemma evidence_binding_ok:
  assumes "nc \<in> set (notice_claim_pairs ns)"
  shows "\<exists>k. evidence_binding (evidence_items ns) nc = Inr k \<and>
    (\<exists>item\<in>set (evidence_items ns). eo_evidence_key item = k
       \<and> eo_notice_reference item = reference (fst nc) \<and> eo_claim_fingerprint item = fingerprint (snd nc))"
proof -
  let ?m = "rev (map (\<lambda>item. ((eo_notice_reference item, eo_claim_fingerprint item), eo_evidence_key item))
    (evidence_items ns))"
  have "map fst ?m = rev (map (\<lambda>nc. (reference (fst nc), fingerprint (snd nc))) (notice_claim_pairs ns))"
    by (simp add: rev_map)
  from arg_cong [OF this, of set]
  have "fst ` set ?m = (\<lambda>nc. (reference (fst nc), fingerprint (snd nc))) ` set (notice_claim_pairs ns)"
    by (simp only: set_map set_rev)
  then have "(reference (fst nc), fingerprint (snd nc)) \<in> fst ` set ?m"
    using assms by blast
  then have "map_of ?m (reference (fst nc), fingerprint (snd nc)) \<noteq> None"
    by (simp only: map_of_eq_None_iff simp_thms)
  then obtain k where k: "map_of ?m (reference (fst nc), fingerprint (snd nc)) = Some k"
    by blast
  then have "((reference (fst nc), fingerprint (snd nc)), k) \<in> set ?m"
    by (rule map_of_SomeD)
  with k show ?thesis
    by (auto simp: evidence_binding_def)
qed

lemma evidence_bindings_ok:
  assumes "set ps \<subseteq> set (notice_claim_pairs ns)"
  shows "\<exists>ks. mapE (evidence_binding (evidence_items ns)) ps = Inr ks
    \<and> set ks \<subseteq> eo_evidence_key ` set (evidence_items ns)"
  using assms
proof (induction ps)
  case (Cons p ps)
  obtain k where k: "evidence_binding (evidence_items ns) p = Inr k" "k \<in> eo_evidence_key ` set (evidence_items ns)"
    using evidence_binding_ok [of p ns] Cons.prems by (auto intro!: imageI)
  from Cons obtain ks where "mapE (evidence_binding (evidence_items ns)) ps = Inr ks"
    "set ks \<subseteq> eo_evidence_key ` set (evidence_items ns)" by auto
  with k show ?case by auto
qed simp

lemma result_pairs_subset: "set (notice_claim_pairs (result_notices ns)) \<subseteq> set (notice_claim_pairs ns)"
  by (auto simp: notice_claim_pairs_def result_notices_def)

text \<open>The dossier is built whenever the evidence is, and cites only evidence keys of the run.\<close>

lemma assemble_ok:
  obtains d keys result_keys where
    "assemble ns (evidence_items ns) adm = Inr
       \<lparr>lr_notices = ns, lr_evidence_objects = evidence_items ns,
        lr_lifecycle_events = build_events ns (evidence_items ns), lr_admission = adm, lr_dossier = d,
        lr_canonical_claim_writes = 0, lr_model_calls = 0, lr_reviewer_canonical_writes = 0\<rparr>"
    "do_lifecycle_state d = lifecycle_state ns" "do_notice_references d = map reference ns"
    "do_unknowns d = dossier_unknowns ns"
    "do_sections d = dossier_sections ns keys result_keys adm"
    "set keys \<union> set result_keys \<subseteq> eo_evidence_key ` set (evidence_items ns)"
proof -
  obtain keys where k: "mapE (evidence_binding (evidence_items ns)) (notice_claim_pairs ns) = Inr keys"
    "set keys \<subseteq> eo_evidence_key ` set (evidence_items ns)"
    using evidence_bindings_ok [of "notice_claim_pairs ns"] by blast
  obtain rkeys where r: "mapE (evidence_binding (evidence_items ns)) (notice_claim_pairs (result_notices ns)) = Inr rkeys"
    "set rkeys \<subseteq> eo_evidence_key ` set (evidence_items ns)"
    using evidence_bindings_ok [OF result_pairs_subset] by blast
  show thesis
    by (rule that [of _ keys rkeys]) (use k r in \<open>auto simp: assemble_def build_dossier_def Let_def\<close>)
qed

section \<open>The run\<close>

lemma prepare_iff:
  "prepare_lifecycle fs raws ctx = Inr (os, ev) \<longleftrightarrow>
    raws \<noteq> [] \<and> (\<exists>ns. mapE (lifecycle_parse fs) raws = Inr ns \<and> validate_lineage ns = Inr os)
    \<and> build_evidence os = Inr ev \<and> \<not> product_admission_ready ctx"
  by (auto simp: prepare_lifecycle_def bindE_eq_Inr)

lemma assembled: "build_evidence os = Inr ev \<Longrightarrow> \<exists>r. assemble os ev adm = Inr r"
  by (rule assemble_ok [of os adm]) (auto simp: build_evidence_iff)

lemma run_cases:
  obtains (rejected) e where "prepare_lifecycle fs raws ctx = Inl e" "run_lifecycle fs s raws ctx f b = (Inl e, s)"
  | (raised) os ev e where "prepare_lifecycle fs raws ctx = Inr (os, ev)"
      "lifecycle_admission s os ctx f b = (Inl e, s)" "run_lifecycle fs s raws ctx f b = (Inl e, s)"
  | (returned) os ev adm t r where "prepare_lifecycle fs raws ctx = Inr (os, ev)"
      "lifecycle_admission s os ctx f b = (Inr adm, t)" "assemble os ev adm = Inr r"
      "run_lifecycle fs s raws ctx f b = (Inr r, t)"
proof (cases "prepare_lifecycle fs raws ctx")
  case (Inl e)
  then show ?thesis by (intro rejected) (simp_all add: run_lifecycle_def)
next
  case (Inr p)
  obtain os ev where p: "p = (os, ev)" by (cases p)
  obtain adm t where adm: "lifecycle_admission s os ctx f b = (adm, t)"
    by (cases "lifecycle_admission s os ctx f b")
  show ?thesis
  proof (cases adm)
    case (Inl e)
    have "t = s"
      using adm Inl rehearsal_store.commit_failed [of s "lifecycle_key os ctx" "(lifecycle_decide os ctx, f, b)"]
      by (auto simp: lifecycle_admission_def Let_def split: if_splits)
    with Inr p adm Inl show ?thesis by (intro raised) (simp_all add: run_lifecycle_def)
  next
    case (Inr x)
    have prep: "prepare_lifecycle fs raws ctx = Inr (os, ev)"
      using \<open>prepare_lifecycle fs raws ctx = Inr p\<close> p by simp
    then have "build_evidence os = Inr ev" by (simp add: prepare_iff)
    from assembled [OF this] obtain r where r: "assemble os ev x = Inr r" by blast
    show ?thesis
      using prep adm Inr r by (intro returned [OF prep _ r]) (simp_all add: run_lifecycle_def)
  qed
qed

lemma lifecycle_admission_blocked:
  "lifecycle_admission s ns ctx f b = (Inr adm, t) \<Longrightarrow> \<not> sandbox_ready ctx \<Longrightarrow> \<not> product_admission_ready ctx \<Longrightarrow>
    t = s \<and> rr_batch_id adm = None
    \<and> list_all (\<lambda>d. ad_outcome d = ''BLOCKED_SOURCE_NOT_PRODUCT_ADMITTED'') (rr_decisions adm)"
  by (auto simp: lifecycle_admission_def Let_def lifecycle_decide_def lifecycle_decision_def list_all_iff mk_result_def)

section \<open>Properties\<close>

text \<open>C3: The lineage check accepts exactly the notices that form one procedure's history: every issue
  date is a date; ordered by date and reference, references are distinct, the procedure is one,
  there is exactly one initial competition, each change names the latest competition notice,
  which is not cancelled, and keeps its lots, and each result's lots are among those of the
  latest competition notice; and it returns the notices in that order.\<close>

theorem lineage_accepted_iff:
  "(validate_lineage ns = Inr os) =
    (list_all (\<lambda>n. date_fromisoformat (take 10 (ni_issue_date (ln_identity n))) \<noteq> None) ns
     \<and> os = sort_key notice_key_of ns \<and> lineage_ok os)"
  by (simp add: validate_lineage_iff notice_date_def list_all_iff)

definition plain_notice ::
    "string \<Rightarrow> string \<Rightarrow> string \<Rightarrow> string option \<Rightarrow> string list \<Rightarrow> lifecycle_notice" where
  \<comment> \<open>a notice with an id, a date, a kind, a changed reference and lots, for the examples\<close>
  "plain_notice i d k r ls =
     \<lparr>ln_identity = \<lparr>ni_notice_id = i, ni_version_id = ''01'', ni_issue_date = d,
        ni_procedure_identifier = ''P1'', ni_document_type = ''ContractNotice'', ni_notice_type = ''cn-standard'',
        ni_notice_subtype = ''16'', ni_lifecycle_kind = k, ni_changed_notice_reference = r,
        ni_change_reason_code = None, ni_lot_ids = ls, ni_raw_content_hash = i\<rparr>,
      ln_claims = [], ln_winner_selection_statuses = [], ln_winner_organisation_refs = [],
      ln_awarded_values = [], ln_tenders_received_counts = [], ln_contract_identifiers = [],
      ln_award_dates = [], ln_personal_field_element_count = 0\<rparr>"

definition sample_initial :: lifecycle_notice where
  "sample_initial = plain_notice ''a'' ''2026-01-02'' ''COMPETITION_INITIAL'' None [''L1'']"

definition sample_cancellation :: lifecycle_notice where
  "sample_cancellation = plain_notice ''b'' ''2026-02-02'' ''NOTICE_CANCELLATION'' (Some ''a-01'') [''L1'']"

definition sample_result :: lifecycle_notice where
  "sample_result = plain_notice ''c'' ''2026-03-02'' ''PROCEDURE_RESULT'' None [''L1'']"

lemma sample_lineage:
  "validate_lineage [sample_result, sample_initial, sample_cancellation]
    = Inr [sample_initial, sample_cancellation, sample_result]"
  by code_simp

text \<open>A cancellation closes the competition: in an accepted lineage nothing but results comes
  after it.\<close>

theorem lineage_cancellation_closes:
  assumes "validate_lineage ns = Inr os" and "i < j" and "j < length os"
    and "ni_lifecycle_kind (ln_identity (os ! i)) = ''NOTICE_CANCELLATION''"
  shows "ni_lifecycle_kind (ln_identity (os ! j)) = ''PROCEDURE_RESULT''"
  using assms cancellation_closes by (auto simp: validate_lineage_iff)

theorem lineage_cancellation_closes_witness:
  "ni_lifecycle_kind (ln_identity ([sample_initial, sample_cancellation, sample_result] ! 2)) = ''PROCEDURE_RESULT''"
  by (rule lineage_cancellation_closes [OF sample_lineage, of 1])
    (simp_all add: sample_cancellation_def plain_notice_def)

lemma lineage_of_permutation:
  assumes "validate_lineage ns = Inr os" and "mset ns' = mset ns"
  shows "validate_lineage ns' = Inr os"
proof -
  from assms have *: "\<forall>n\<in>set ns. notice_date n \<noteq> None" "os = sort_key notice_key_of ns" "lineage_ok os"
    by (auto simp: validate_lineage_iff)
  have "set ns' = set ns"
    using assms(2) by (rule mset_eq_setD)
  moreover have "sort_key notice_key_of ns' = sort_key notice_key_of ns"
  proof (rule sym, rule sort_key_inj_key_eq)
    have "distinct (map reference (sort_key notice_key_of ns))"
      using * by (simp add: lineage_ok_def)
    then have "inj_on reference (set ns)"
      by (simp add: distinct_map)
    then show "inj_on notice_key_of (set ns)"
      by (auto simp: inj_on_def notice_key_of_def split: option.splits)
  qed (use assms(2) in simp_all)
  ultimately show ?thesis
    using * by (simp add: validate_lineage_iff)
qed

text \<open>The order in which the notices are supplied does not matter.\<close>

theorem lineage_order_irrelevant:
  assumes "validate_lineage ns = Inr os" and "mset ns' = mset ns"
  shows "validate_lineage ns' = Inr os"
  using assms by (rule lineage_of_permutation)

theorem lineage_order_irrelevant_witness:
  "validate_lineage [sample_cancellation, sample_initial, sample_result]
    = Inr [sample_initial, sample_cancellation, sample_result]"
  by (rule lineage_order_irrelevant [OF sample_lineage]) simp

text \<open>Evidence is built exactly when all its keys differ; then it is one object for each claim of each
  notice, in order, bound to the notice's reference and the claim's fingerprint, and observed,
  provisional and sandbox-only; a claim repeated within a notice makes it fail.\<close>

theorem evidence_built_iff:
  "(build_evidence ns = Inr ev) =
     (ev = map (\<lambda>(n, c). evidence_of n c) (concat (map (\<lambda>n. map (Pair n) (ln_claims n)) ns))
      \<and> distinct (map eo_evidence_key ev))
   \<and> map eo_notice_reference (evidence_items ns) = concat (map (\<lambda>n. map (\<lambda>_. reference n) (ln_claims n)) ns)
   \<and> map eo_claim_fingerprint (evidence_items ns) = concat (map (\<lambda>n. map fingerprint (ln_claims n)) ns)
   \<and> list_all (\<lambda>item. eo_authority item = ''OBSERVED'' \<and> eo_rights_state item = ''SANDBOX_ONLY''
        \<and> eo_provisional item) (evidence_items ns)
   \<and> (build_evidence ns = Inl (ProcurementLifecycleError ''Duplicate Evidence Object key'')
       \<or> list_all (\<lambda>n. distinct (ln_claims n)) ns)"
proof -
  have items: "evidence_items ns = map (\<lambda>(n, c). evidence_of n c) (concat (map (\<lambda>n. map (Pair n) (ln_claims n)) ns))"
    by (simp add: notice_claim_pairs_def split_def)
  have "map eo_notice_reference (evidence_items ns) = concat (map (\<lambda>n. map (\<lambda>_. reference n) (ln_claims n)) ns)"
    "map eo_claim_fingerprint (evidence_items ns) = concat (map (\<lambda>n. map fingerprint (ln_claims n)) ns)"
    by (simp_all add: notice_claim_pairs_def map_concat comp_def)
  moreover have "list_all (\<lambda>item. eo_authority item = ''OBSERVED'' \<and> eo_rights_state item = ''SANDBOX_ONLY''
        \<and> eo_provisional item) (evidence_items ns)"
    by (simp add: list_all_iff evidence_of_def Let_def)
  moreover have "build_evidence ns = Inl (ProcurementLifecycleError ''Duplicate Evidence Object key'')
       \<or> list_all (\<lambda>n. distinct (ln_claims n)) ns"
    using repeated_claim_no_evidence by (auto simp: list_all_iff)
  moreover have "(build_evidence ns = Inr ev) =
     (ev = evidence_items ns \<and> distinct (map eo_evidence_key ev))"
    unfolding build_evidence_iff by auto
  ultimately show ?thesis
    unfolding items by blast
qed

lemma enumerate_sequence: "map le_sequence (build_events ns ev) = [1..<Suc (length ns)]"
  by (rule nth_equalityI)
    (simp_all add: build_events_def lifecycle_event_of_def Let_def nth_enumerate_eq del: upt_Suc)

lemma enumerate_references: "map le_notice_reference (build_events ns ev) = map reference ns"
  by (rule nth_equalityI) (simp_all add: build_events_def lifecycle_event_of_def Let_def nth_enumerate_eq)

lemma result_winner_known:
  assumes "list_all lifecycle_notice_wf ns"
  shows "''A winning result lacks a resolved winner organisation.'' \<notin> set (dossier_unknowns ns)"
proof -
  have "\<not> (''selec-w'' \<in> set (ln_winner_selection_statuses n) \<and> ln_winner_organisation_refs n = [])"
    if "n \<in> set ns" for n
    using assms that by (auto simp: list_all_iff lifecycle_notice_wf_def result_wf_def split: if_splits)
  then have "\<not> list_ex (\<lambda>n. ''selec-w'' \<in> set (ln_winner_selection_statuses n)
      \<and> ln_winner_organisation_refs n = []) (result_notices ns)"
    by (simp add: list_ex_iff result_notices_def)
  then show ?thesis
    by (simp add: dossier_unknowns_def Let_def)
qed

lemma prepared_wf:
  assumes "prepare_lifecycle fs raws ctx = Inr (os, ev)"
  shows "lineage_ok os \<and> list_all lifecycle_notice_wf os \<and> ev = evidence_items os
    \<and> distinct (map eo_evidence_key ev) \<and> \<not> product_admission_ready ctx"
proof -
  from assms obtain ns where ns: "mapE (lifecycle_parse fs) raws = Inr ns" "validate_lineage ns = Inr os"
    "build_evidence os = Inr ev" "\<not> product_admission_ready ctx"
    by (auto simp: prepare_iff)
  have "set os = set ns" "lineage_ok os"
    using ns(2) by (auto simp: validate_lineage_iff)
  moreover have "lifecycle_notice_wf n" if "n \<in> set ns" for n
    using mapE_elem [OF ns(1) that] lifecycle_parse_wf by blast
  ultimately show ?thesis
    using ns(3,4) by (auto simp: list_all_iff build_evidence_iff)
qed

text \<open>C1: What a run of the lifecycle rehearsal guarantees. A run that raises leaves the store as it
  was. A run that returns had a context outside product admission and notices that form one
  well-formed lineage; its evidence keys differ and there is one for each claim; its events are the notices
  in lineage order, numbered from 1; the dossier cites only evidence of the run and never has to
  report an award without a winner; no canonical write, model call or reviewer write is counted; and
  without sandbox authority the store is untouched and every claim is blocked.\<close>

theorem lifecycle_run_sound:
  "case run_lifecycle fs s raws ctx f b of
     (Inl e, t) \<Rightarrow> t = s
   | (Inr r, t) \<Rightarrow>
       \<not> product_admission_ready ctx
       \<and> lineage_ok (lr_notices r) \<and> list_all lifecycle_notice_wf (lr_notices r)
       \<and> distinct (map eo_evidence_key (lr_evidence_objects r))
       \<and> map eo_claim_fingerprint (lr_evidence_objects r)
           = concat (map (\<lambda>n. map fingerprint (ln_claims n)) (lr_notices r))
       \<and> map le_sequence (lr_lifecycle_events r) = [1..<Suc (length (lr_notices r))]
       \<and> map le_notice_reference (lr_lifecycle_events r) = map reference (lr_notices r)
       \<and> set (concat (map ds_evidence_keys (do_sections (lr_dossier r))))
           \<subseteq> set (map eo_evidence_key (lr_evidence_objects r))
       \<and> do_lifecycle_state (lr_dossier r) = lifecycle_state (lr_notices r)
       \<and> ''A winning result lacks a resolved winner organisation.'' \<notin> set (do_unknowns (lr_dossier r))
       \<and> lr_canonical_claim_writes r = 0 \<and> lr_model_calls r = 0 \<and> lr_reviewer_canonical_writes r = 0
       \<and> (sandbox_ready ctx \<or> (t = s \<and> rr_batch_id (lr_admission r) = None
            \<and> list_all (\<lambda>d. ad_outcome d = ''BLOCKED_SOURCE_NOT_PRODUCT_ADMITTED'') (rr_decisions (lr_admission r))))"
proof (cases rule: run_cases [of fs raws ctx s f b])
  case (returned os ev adm t r)
  note wf = prepared_wf [OF returned(1)]
  then have ev: "ev = evidence_items os" by simp
  obtain d keys rkeys where d: "r = \<lparr>lr_notices = os, lr_evidence_objects = ev,
        lr_lifecycle_events = build_events os ev, lr_admission = adm, lr_dossier = d,
        lr_canonical_claim_writes = 0, lr_model_calls = 0, lr_reviewer_canonical_writes = 0\<rparr>"
    "do_lifecycle_state d = lifecycle_state os" "do_unknowns d = dossier_unknowns os"
    "do_sections d = dossier_sections os keys rkeys adm"
    "set keys \<union> set rkeys \<subseteq> eo_evidence_key ` set ev"
    using returned(3) unfolding ev by (rule_tac assemble_ok [of os adm]) auto
  have "map eo_claim_fingerprint ev = concat (map (\<lambda>n. map fingerprint (ln_claims n)) os)"
    by (simp add: ev notice_claim_pairs_def map_concat comp_def)
  moreover have "set (concat (map ds_evidence_keys (do_sections d))) \<subseteq> set (map eo_evidence_key ev)"
    using d(4,5) by (simp add: dossier_sections_def Let_def)
  moreover have "\<not> sandbox_ready ctx \<Longrightarrow> t = s \<and> rr_batch_id adm = None
      \<and> list_all (\<lambda>d. ad_outcome d = ''BLOCKED_SOURCE_NOT_PRODUCT_ADMITTED'') (rr_decisions adm)"
    using lifecycle_admission_blocked [OF returned(2)] wf by blast
  ultimately show ?thesis
    using wf result_winner_known [of os]
    unfolding returned(4) d(1) prod.case sum.case lifecycle_result.select_convs d(2,3)
      enumerate_sequence enumerate_references
    by blast
qed simp_all

lemma distinct_table: "distinct [a, b, c, d, e, f] \<Longrightarrow> v = (if R then if A then a else if B then b else if C then c else d
    else if K then e else f) \<Longrightarrow> (A \<Longrightarrow> R) \<Longrightarrow> (B \<Longrightarrow> R) \<Longrightarrow> (C \<Longrightarrow> R) \<Longrightarrow> (C \<Longrightarrow> \<not> A \<and> \<not> B) \<Longrightarrow>
  (v = a) = A \<and> (v = b) = (\<not> A \<and> B) \<and> (v = c) = C \<and> (v = e) = (\<not> R \<and> K) \<and> (v = f) = (\<not> R \<and> \<not> K)"
  by (auto split: if_splits)

lemma state_table:
  assumes v: "v = (if R then if A then ''AWARDED'' else if B then ''PARTIALLY_AWARDED'' else if C then ''NO_AWARD''
      else ''RESULT_PENDING_OR_MIXED''
    else if K then ''NOTICE_CANCELLED_PROCEDURE_UNRESOLVED'' else ''OPEN_OR_PENDING'')"
    and "A \<Longrightarrow> R" "B \<Longrightarrow> R" "C \<Longrightarrow> R" "C \<Longrightarrow> \<not> A \<and> \<not> B"
  shows "(v = ''AWARDED'') = A" "(v = ''PARTIALLY_AWARDED'') = (\<not> A \<and> B)" "(v = ''NO_AWARD'') = C"
    "(v = ''NOTICE_CANCELLED_PROCEDURE_UNRESOLVED'') = (\<not> R \<and> K)" "(v = ''OPEN_OR_PENDING'') = (\<not> R \<and> \<not> K)"
  using distinct_table [OF _ v assms(2-)] by simp_all

text \<open>The state the dossier reports: awarded when there is a result and every lot of every result has
  a winner, partially awarded when some but not all have one, no award when every lot is closed
  without winner; without a result it is a cancelled notice exactly when the last notice is a cancellation,
  and otherwise open; for accepted notices no other case arises but a pending or mixed result.\<close>

theorem dossier_state_table:
  "list_all lifecycle_notice_wf ns \<Longrightarrow>
    (lifecycle_state ns = ''AWARDED'') =
      (result_notices ns \<noteq> [] \<and> list_all (\<lambda>n. list_all (\<lambda>st. st = ''selec-w'') (ln_winner_selection_statuses n)) (result_notices ns))
    \<and> (lifecycle_state ns = ''PARTIALLY_AWARDED'') =
      (list_ex (\<lambda>n. ''selec-w'' \<in> set (ln_winner_selection_statuses n)) (result_notices ns)
       \<and> list_ex (\<lambda>n. list_ex (\<lambda>st. st \<noteq> ''selec-w'') (ln_winner_selection_statuses n)) (result_notices ns))
    \<and> (lifecycle_state ns = ''NO_AWARD'') =
      (result_notices ns \<noteq> [] \<and> list_all (\<lambda>n. list_all (\<lambda>st. st = ''clos-nw'') (ln_winner_selection_statuses n)) (result_notices ns))
    \<and> (lifecycle_state ns = ''NOTICE_CANCELLED_PROCEDURE_UNRESOLVED'') =
      (result_notices ns = [] \<and> ni_lifecycle_kind (ln_identity (last ns)) = ''NOTICE_CANCELLATION'')
    \<and> (lifecycle_state ns = ''OPEN_OR_PENDING'') =
      (result_notices ns = [] \<and> ni_lifecycle_kind (ln_identity (last ns)) \<noteq> ''NOTICE_CANCELLATION'')"
proof -
  assume wf: "list_all lifecycle_notice_wf ns"
  let ?sts = "set (concat (map ln_winner_selection_statuses (result_notices ns)))"
  have ne: "?sts \<noteq> {}" if nonempty: "result_notices ns \<noteq> []"
  proof -
    from nonempty obtain n where n: "n \<in> set (result_notices ns)" by (cases "result_notices ns") auto
    then have "result_wf n"
      using wf by (auto simp: result_notices_def list_all_iff lifecycle_notice_wf_def)
    then have "ln_winner_selection_statuses n \<noteq> []"
      by (auto simp: result_wf_def)
    with n show ?thesis by auto
  qed
  have eq: "?sts = {x} \<longleftrightarrow> result_notices ns \<noteq> [] \<and>
      list_all (\<lambda>n. list_all (\<lambda>st. st = x) (ln_winner_selection_statuses n)) (result_notices ns)" for x
  proof -
    have "S = {x} \<longleftrightarrow> S \<noteq> {} \<and> (\<forall>st\<in>S. st = x)" for S :: "string set" by auto
    from this [of ?sts] have "?sts = {x} \<longleftrightarrow> ?sts \<noteq> {} \<and> (\<forall>st\<in>?sts. st = x)" .
    moreover have "?sts \<noteq> {} \<longleftrightarrow> result_notices ns \<noteq> []" using ne by auto
    moreover have "(\<forall>st\<in>?sts. st = x) \<longleftrightarrow>
        list_all (\<lambda>n. list_all (\<lambda>st. st = x) (ln_winner_selection_statuses n)) (result_notices ns)"
      by (simp add: list_all_iff)
    ultimately show ?thesis by (simp only:)
  qed
  have mem: "''selec-w'' \<in> ?sts \<longleftrightarrow> list_ex (\<lambda>n. ''selec-w'' \<in> set (ln_winner_selection_statuses n)) (result_notices ns)"
    by (simp add: list_ex_iff)
  have other: "?sts \<noteq> {''selec-w''} \<and> ''selec-w'' \<in> ?sts \<longleftrightarrow> ''selec-w'' \<in> ?sts \<and>
      list_ex (\<lambda>n. list_ex (\<lambda>st. st \<noteq> ''selec-w'') (ln_winner_selection_statuses n)) (result_notices ns)"
    unfolding eq by (auto simp: list_ex_iff list_all_iff)
  have nil: "?sts = {}" if "result_notices ns = []"
    using that by simp
  have clos: "''selec-w'' \<notin> ?sts \<and> ?sts \<noteq> {''selec-w''}" if "?sts = {''clos-nw''}"
    unfolding that by simp
  have state: "lifecycle_state ns =
      (if result_notices ns \<noteq> []
       then if ?sts = {''selec-w''} then ''AWARDED'' else if ''selec-w'' \<in> ?sts then ''PARTIALLY_AWARDED''
            else if ?sts = {''clos-nw''} then ''NO_AWARD'' else ''RESULT_PENDING_OR_MIXED''
       else if ni_lifecycle_kind (ln_identity (last ns)) = ''NOTICE_CANCELLATION''
            then ''NOTICE_CANCELLED_PROCEDURE_UNRESOLVED'' else ''OPEN_OR_PENDING'')"
    by (simp add: lifecycle_state_def Let_def)
  have ever: "?sts = {x} \<Longrightarrow> result_notices ns \<noteq> []" "x \<in> ?sts \<Longrightarrow> result_notices ns \<noteq> []" for x
    using nil by fastforce+
  have unmixed: "?sts = {''clos-nw''} \<Longrightarrow> \<not> ?sts = {''selec-w''} \<and> \<not> ''selec-w'' \<in> ?sts"
    using clos by simp
  note table = state_table [OF state ever(1) ever(2) ever(1) unmixed]
  show ?thesis
  proof (intro conjI)
    show "(lifecycle_state ns = ''PARTIALLY_AWARDED'') =
      (list_ex (\<lambda>n. ''selec-w'' \<in> set (ln_winner_selection_statuses n)) (result_notices ns)
       \<and> list_ex (\<lambda>n. list_ex (\<lambda>st. st \<noteq> ''selec-w'') (ln_winner_selection_statuses n)) (result_notices ns))"
      by (rule trans [OF table(2) trans [OF other arg_cong2 [where f = "(\<and>)", OF mem refl]]])
  qed (simp_all only: table eq simp_thms)
qed

theorem dossier_state_table_witness:
  "\<exists>n. lifecycle_parse lifecycle_fromstring ''<r>'' = Inr n \<and> lifecycle_state [n] = ''AWARDED''"
proof -
  obtain n where n: "lifecycle_parse lifecycle_fromstring ''<r>'' = Inr n"
    "kind n = ''PROCEDURE_RESULT''" "ln_winner_selection_statuses n = [''selec-w'', ''selec-w'']"
    using double_award_parses by (simp add: result_notice_def double_award_acc_def)
  then have "list_all lifecycle_notice_wf [n]"
    using lifecycle_parse_wf [OF n(1)] by simp
  from dossier_state_table [OF this] n show ?thesis
    by (intro exI [of _ n]) (simp add: result_notices_def)
qed

definition store_step :: "admission_store \<Rightarrow> string \<times> admission_decision list \<times> bool \<times> string \<Rightarrow> admission_store" where
  "store_step s c = (case c of (k, ds, f, b) \<Rightarrow> snd (commit s k ds f b))"

lemma store_steps_stable: "existing s k = Some r \<Longrightarrow> existing (foldl store_step s cs) k = Some r"
proof (induction cs arbitrary: s)
  case (Cons c cs)
  obtain k' ds f b where c: "c = (k', ds, f, b)" by (cases c)
  have "existing (store_step s c) k = Some r"
    using rehearsal_store.commit_stable [OF Cons.prems, of k' "(ds, f, b)"]
    by (simp add: store_step_def c prod_eq_iff)
  with Cons.IH show ?case by simp
qed simp

lemma commit_stored_replay:
  assumes "commit s k ds f b = (Inr adm, t)"
  shows "existing t k = Some (adm\<lparr>rr_idempotent_replay := True\<rparr>)"
proof (cases rule: commit_cases [of s k ds f b])
  case (hit r)
  then show ?thesis using assms existing_replays [of s k] by simp
next
  case (stored)
  then show ?thesis
    using assms existing_put [of t s k b ds k] by (simp add: committed_entry_def mk_result_def)
qed (use assms in simp)

lemma assemble_replay:
  assumes "assemble os ev adm = Inr r" "rr_decisions adm' = rr_decisions adm"
  shows "assemble os ev adm' = Inr (r\<lparr>lr_admission := adm'\<rparr>)"
  using assms by (auto simp: assemble_def bindE_eq_Inr build_dossier_def dossier_sections_def Let_def)

lemma mapE_mset:
  assumes "mapE f xs = Inr ys" "mset xs' = mset xs"
  shows "\<exists>ys'. mapE f xs' = Inr ys' \<and> mset ys' = mset ys"
proof -
  define g where "g x = projr (f x)" for x
  have ok: "\<forall>x\<in>set xs. f x = Inr (g x)"
    using mapE_Inr_list_all2 [OF assms(1)] by (auto simp: list_all2_conv_all_nth in_set_conv_nth g_def)
  then have "mapE f xs = Inr (map g xs)"
    by (simp add: mapE_map)
  then have "ys = map g xs"
    using assms(1) by simp
  moreover have "mapE f xs' = Inr (map g xs')"
    using ok mset_eq_setD [OF assms(2)] by (intro mapE_map) simp
  ultimately show ?thesis
    using assms(2) by (metis mset_map)
qed

lemma prepare_permutation:
  assumes "prepare_lifecycle fs raws ctx = Inr (os, ev)" "mset raws' = mset raws"
    and "product_admission_ready ctx' = product_admission_ready ctx"
  shows "prepare_lifecycle fs raws' ctx' = Inr (os, ev)"
proof -
  from assms(1) obtain ns where ns: "raws \<noteq> []" "mapE (lifecycle_parse fs) raws = Inr ns"
    "validate_lineage ns = Inr os" "build_evidence os = Inr ev" "\<not> product_admission_ready ctx"
    by (auto simp: prepare_iff)
  from mapE_mset [OF ns(2) assms(2)] obtain ns' where "mapE (lifecycle_parse fs) raws' = Inr ns'" "mset ns' = mset ns"
    by blast
  with lineage_of_permutation [OF ns(3)] ns assms show ?thesis
    by (auto simp: prepare_iff)
qed

lemma run_replays:
  assumes run: "run_lifecycle fs s raws ctx f b = (Inr r, t)" and ready: "sandbox_ready ctx"
    and perm: "mset raws' = mset raws"
  shows "run_lifecycle fs (foldl store_step t cs) raws' ctx f' b' =
    (Inr (r\<lparr>lr_admission := (lr_admission r)\<lparr>rr_idempotent_replay := True\<rparr>\<rparr>), foldl store_step t cs)"
proof (cases rule: run_cases [of fs raws ctx s f b])
  case (returned os ev adm t' r')
  with run have eq: "t' = t" "r' = r" by simp_all
  have "commit s (lifecycle_key os ctx) (lifecycle_decide os ctx) f b = (Inr adm, t)"
    using returned(2) ready by (simp add: lifecycle_admission_def Let_def eq)
  from store_steps_stable [OF commit_stored_replay [OF this]]
  have "lifecycle_admission (foldl store_step t cs) os ctx f' b' =
      (Inr (adm\<lparr>rr_idempotent_replay := True\<rparr>), foldl store_step t cs)"
    using ready commit_hit by (simp add: lifecycle_admission_def Let_def)
  moreover have "lr_admission r = adm"
    using returned(3) by (auto simp: eq assemble_def bindE_eq_Inr)
  ultimately show ?thesis
    using prepare_permutation [OF returned(1) perm refl] assemble_replay [OF returned(3)]
    by (simp add: run_lifecycle_def eq)
qed (use run in simp_all)

text \<open>C6: A run is replayed: after a run that returned in a sandbox context, the same notices in any
  order give the same evidence, events and dossier and the stored admission, marked as a replay,
  and change nothing, whatever was committed in between; a run that raised left no trace.\<close>

theorem lifecycle_run_replays:
  assumes "sandbox_ready ctx" and "mset raws' = mset raws"
  shows "case run_lifecycle fs s raws ctx f b of
      (Inl e, t) \<Rightarrow> t = s
    | (Inr r, t) \<Rightarrow> run_lifecycle fs (foldl store_step t cs) raws' ctx f' b' =
        (Inr (r\<lparr>lr_admission := (lr_admission r)\<lparr>rr_idempotent_replay := True\<rparr>\<rparr>), foldl store_step t cs)"
proof (cases rule: run_cases [of fs raws ctx s f b])
  case (returned os ev adm t r)
  then show ?thesis
    using run_replays [OF returned(4) assms] by simp
qed simp_all

theorem lifecycle_run_replays_witness:
  "case run_lifecycle lifecycle_fromstring empty_store [''<c>''] sandbox_rehearsal False ''b1'' of
      (Inl e, t) \<Rightarrow> t = empty_store
    | (Inr r, t) \<Rightarrow> run_lifecycle lifecycle_fromstring t [''<c>''] sandbox_rehearsal True ''b2'' =
        (Inr (r\<lparr>lr_admission := (lr_admission r)\<lparr>rr_idempotent_replay := True\<rparr>\<rparr>), t)"
proof -
  have "sandbox_ready sandbox_rehearsal"
    by (simp add: sandbox_ready_def sandbox_rehearsal_def)
  from lifecycle_run_replays [OF this, where fs = lifecycle_fromstring and s = empty_store and raws = "[''<c>'']"
      and raws' = "[''<c>'']" and f = False and b = "''b1''" and f' = True and b' = "''b2''" and cs = "[]"]
  show ?thesis by (simp split: prod.splits sum.splits)
qed

text \<open>A procedure whose result awards two lots to the same organisation cannot be assembled: the
  parser repeats the winner's official-name claim for each lot, the repeated claim repeats its
  evidence key, and the run fails, though every notice parses and the lineage is accepted.\<close>

theorem double_award_run_fails:
  "(\<exists>ns os. mapE (lifecycle_parse lifecycle_fromstring) [''<c>'', ''<r>''] = Inr ns \<and> validate_lineage ns = Inr os)
   \<and> run_lifecycle lifecycle_fromstring s [''<c>'', ''<r>''] sandbox_rehearsal f b =
      (Inl (ProcurementLifecycleError ''Duplicate Evidence Object key''), s)"
proof -
  obtain c where c: "lifecycle_parse lifecycle_fromstring ''<c>'' = Inr c"
    "ni_issue_date (ln_identity c) = ''2026-01-02''" "lots c = [''L1'', ''L2'']"
    "reference c = ''00000000-0000-4000-8000-000000000000-01''"
    "procedure c = ''P1''" "kind c = ''COMPETITION_INITIAL''"
    by (rule competition_parses)
  obtain r where r: "lifecycle_parse lifecycle_fromstring ''<r>'' = Inr r"
    "ni_issue_date (ln_identity r) = ''2026-03-02''" "lots r = [''L1'', ''L2'']"
    "reference r = ''00000000-0000-4000-8000-000000000001-01''"
    "procedure r = ''P1''" "kind r = ''PROCEDURE_RESULT''" "ln_claims r = ra_claims double_award_acc"
    using double_award_parses by (simp add: result_notice_def notice_reference_def double_award_acc_def)
  have dates: "date_fromisoformat ''2026-01-02'' = Some 739618" "date_fromisoformat ''2026-03-02'' = Some 739677"
    by code_simp+
  have keys: "notice_key_of c = (739618, ''00000000-0000-4000-8000-000000000000-01'')"
    "notice_key_of r = (739677, ''00000000-0000-4000-8000-000000000001-01'')"
    by (simp_all add: notice_key_of_def notice_date_def c r dates)
  have "lineage_ok [c, r]"
    by (simp add: lineage_ok_def c r follows_def latest_def is_competition_def All_less_Suc2)
  then have lineage: "validate_lineage [c, r] = Inr [c, r]"
    by (simp add: validate_lineage_iff keys notice_date_def c r dates)
  have "build_evidence [c, r] = Inl (ProcurementLifecycleError ''Duplicate Evidence Object key'')"
    by (rule repeated_claim_no_evidence [of r]) (simp_all add: r double_award_repeats_claim)
  then have "prepare_lifecycle lifecycle_fromstring [''<c>'', ''<r>''] sandbox_rehearsal =
      Inl (ProcurementLifecycleError ''Duplicate Evidence Object key'')"
    by (simp add: prepare_lifecycle_def c(1) r(1) lineage)
  with lineage c(1) r(1) show ?thesis
    by (auto simp: run_lifecycle_def)
qed

end
