(* ===== verification/PyRegex.thy ===== *)
theory PyRegex
  imports PyText
begin

text \<open>
  The regular expressions the sources search with under \<^verbatim>\<open>re.IGNORECASE\<close>: literals, alternatives,
  sequences, options, bounded wildcards \<^verbatim>\<open>.{0,n}\<close>, runs of white space and the word boundary after
  a word character. A match is given by what is left of the text; \<^verbatim>\<open>search\<close> tries every position.
  The matcher is executable, and equal to the declarative meaning of expressions given by \<^verbatim>\<open>fits\<close>.
\<close>

datatype rx =
    Lit string \<comment> \<open>in lower case\<close>
  | Alt rx rx
  | Cat rx rx
  | Opt rx
  | Dots nat
  | Spaces
  | WordEnd

definition is_word_char :: "char \<Rightarrow> bool" where
  "is_word_char c =
     (is_digit c \<or> is_ascii_upper c \<or> is_ascii_lower c \<or> is_latin_upper c \<or> is_latin_lower c
      \<or> c = CHR ''_'' \<or> code c \<in> {170, 178, 179, 181, 185, 186, 188, 189, 190, 223, 255})"

fun rests :: "rx \<Rightarrow> string \<Rightarrow> string list" where
  "rests (Lit l) s = (if lower (take (length l) s) = l then [drop (length l) s] else [])"
| "rests (Alt a b) s = rests a s @ rests b s"
| "rests (Cat a b) s = concat (map (rests b) (rests a s))"
| "rests (Opt a) s = rests a s @ [s]"
| "rests (Dots n) s = map (\<lambda>k. drop k s)
     (filter (\<lambda>k. k \<le> length s \<and> list_all (\<lambda>c. c \<noteq> CHR 0x0A) (take k s)) [0..<Suc n])"
| "rests Spaces s = map (\<lambda>k. drop k s)
     (filter (\<lambda>k. list_all is_ws (take k s)) [1..<Suc (length s)])"
| "rests WordEnd s = (case s of [] \<Rightarrow> [[]] | c # _ \<Rightarrow> if is_word_char c then [] else [s])"

definition search :: "rx \<Rightarrow> string \<Rightarrow> bool" where
  "search r s = list_ex (\<lambda>k. rests r (drop k s) \<noteq> []) [0..<Suc (length s)]"

section \<open>Meaning\<close>

inductive fits :: "rx \<Rightarrow> string \<Rightarrow> string \<Rightarrow> bool" where
  \<comment> \<open>the expression fits the text read, in front of what follows it\<close>
  "lower u = l \<Longrightarrow> fits (Lit l) u t"
| "fits a u t \<Longrightarrow> fits (Alt a b) u t"
| "fits b u t \<Longrightarrow> fits (Alt a b) u t"
| "fits a u (v @ t) \<Longrightarrow> fits b v t \<Longrightarrow> fits (Cat a b) (u @ v) t"
| "fits a u t \<Longrightarrow> fits (Opt a) u t"
| "fits (Opt a) [] t"
| "length u \<le> n \<Longrightarrow> CHR 0x0A \<notin> set u \<Longrightarrow> fits (Dots n) u t"
| "u \<noteq> [] \<Longrightarrow> \<forall>c\<in>set u. is_ws c \<Longrightarrow> fits Spaces u t"
| "(\<And>c r. t = c # r \<Longrightarrow> \<not> is_word_char c) \<Longrightarrow> fits WordEnd [] t"

inductive_cases fits_LitE: "fits (Lit l) u t"
inductive_cases fits_AltE: "fits (Alt a b) u t"
inductive_cases fits_CatE: "fits (Cat a b) u t"
inductive_cases fits_OptE: "fits (Opt a) u t"
inductive_cases fits_DotsE: "fits (Dots n) u t"
inductive_cases fits_SpacesE: "fits Spaces u t"
inductive_cases fits_WordEndE: "fits WordEnd u t"

lemma length_lower [simp]: "length (lower s) = length s"
  by (simp add: lower_def)

lemma rests_sound: "t \<in> set (rests r s) \<Longrightarrow> \<exists>u. s = u @ t \<and> fits r u t"
proof (induction r arbitrary: s t)
  case (Lit l)
  then show ?case
    by (intro exI [of _ "take (length l) s"]) (auto intro: fits.intros split: if_splits)
next
  case (Alt a b)
  then show ?case by (auto dest!: Alt.IH intro: fits.intros)
next
  case (Cat a b)
  then obtain m where m: "m \<in> set (rests a s)" "t \<in> set (rests b m)" by auto
  from Cat.IH(1) [OF m(1)] Cat.IH(2) [OF m(2)] obtain u v
    where "s = u @ m" "fits a u m" "m = v @ t" "fits b v t" by blast
  then show ?case by (intro exI [of _ "u @ v"]) (auto intro: fits.intros)
next
  case (Opt a)
  then show ?case by (auto dest!: Opt.IH intro: fits.intros)
next
  case (Dots n)
  then obtain k where "k < Suc n" "k \<le> length s" "list_all (\<lambda>c. c \<noteq> CHR 0x0A) (take k s)" "t = drop k s"
    by (auto simp del: upt_Suc)
  then have "s = take k s @ t" "fits (Dots n) (take k s) t"
    using fits.intros(7) [of "take k s" n t] by (simp_all add: list_all_iff) blast
  then show ?case by blast
next
  case Spaces
  then obtain k where "1 \<le> k" "k \<le> length s" "list_all is_ws (take k s)" "t = drop k s"
    by (auto simp del: upt_Suc)
  then have "s = take k s @ t" "fits Spaces (take k s) t"
    using fits.intros(8) [of "take k s" t] by (cases s; simp add: list_all_iff)+
  then show ?case by blast
next
  case WordEnd
  then show ?case by (auto intro: fits.intros split: list.splits if_splits)
qed

lemma rests_complete: "fits r u t \<Longrightarrow> t \<in> set (rests r (u @ t))"
proof (induction r u t rule: fits.induct)
  case (7 u n t)
  then show ?case
    by (auto simp: list_all_iff simp del: upt_Suc intro!: image_eqI [of _ _ "length u"])
next
  case (8 u t)
  then show ?case
    by (cases u) (auto simp: list_all_iff simp del: upt_Suc intro!: image_eqI [of _ _ "length u"])
next
  case (9 t)
  then show ?case by (cases t) auto
qed auto

lemma rests_iff: "t \<in> set (rests r s) \<longleftrightarrow> (\<exists>u. s = u @ t \<and> fits r u t)"
  using rests_sound rests_complete by blast

lemma search_iff: "search r s \<longleftrightarrow> (\<exists>a u t. s = a @ u @ t \<and> fits r u t)"
proof
  assume "search r s"
  then obtain k where k: "rests r (drop k s) \<noteq> []" by (auto simp: search_def list_ex_iff simp del: upt_Suc)
  then obtain t where "t \<in> set (rests r (drop k s))" by (cases "rests r (drop k s)") auto
  then obtain u where u: "drop k s = u @ t" "fits r u t" using rests_iff by blast
  have "s = take k s @ u @ t" using u(1) by (metis append_take_drop_id)
  with u(2) show "\<exists>a u t. s = a @ u @ t \<and> fits r u t" by blast
next
  assume "\<exists>a u t. s = a @ u @ t \<and> fits r u t"
  then obtain a u t where s: "s = a @ u @ t" "fits r u t" by blast
  then have "rests r (drop (length a) s) \<noteq> []"
    using rests_complete [of r u t] by auto
  then show "search r s"
    unfolding search_def list_ex_iff using s(1) by (intro bexI [of _ "length a"]) auto
qed

section \<open>Expressions without wildcards\<close>

fun literal :: "rx \<Rightarrow> bool" where
  "literal (Lit l) = True"
| "literal (Alt a b) = (literal a \<and> literal b)"
| "literal (Cat a b) = (literal a \<and> literal b)"
| "literal (Opt a) = literal a"
| "literal _ = False"

fun phrases :: "rx \<Rightarrow> string list" where
  "phrases (Lit l) = [l]"
| "phrases (Alt a b) = phrases a @ phrases b"
| "phrases (Cat a b) = concat (map (\<lambda>u. map (\<lambda>v. u @ v) (phrases b)) (phrases a))"
| "phrases (Opt a) = phrases a @ [[]]"
| "phrases _ = []"

lemma lower_append [simp]: "lower (u @ v) = lower u @ lower v"
  by (simp add: lower_def)

lemma lower_eq_append: "lower u = a @ b \<Longrightarrow> \<exists>v w. u = v @ w \<and> lower v = a \<and> lower w = b"
  unfolding lower_def by (metis map_eq_append_conv)

lemma literal_fits: "literal r \<Longrightarrow> fits r u t \<longleftrightarrow> lower u \<in> set (phrases r)"
proof (induction r arbitrary: u t)
  case (Cat a b)
  then have ih: "fits a v s \<longleftrightarrow> lower v \<in> set (phrases a)" "fits b v s \<longleftrightarrow> lower v \<in> set (phrases b)" for v s
    by simp_all
  have "fits (Cat a b) u t \<longleftrightarrow> (\<exists>v w. u = v @ w \<and> lower v \<in> set (phrases a) \<and> lower w \<in> set (phrases b))"
    using ih by (metis fits.intros(4) fits_CatE)
  also have "\<dots> \<longleftrightarrow> (\<exists>v\<in>set (phrases a). \<exists>w\<in>set (phrases b). lower u = v @ w)"
    by (metis lower_append lower_eq_append)
  also have "\<dots> \<longleftrightarrow> lower u \<in> set (phrases (Cat a b))"
    by auto
  finally show ?case .
next
  case (Lit l)
  then show ?case by (auto elim: fits_LitE intro: fits.intros)
next
  case (Alt a b)
  then show ?case by (auto elim!: fits_AltE intro: fits.intros)
next
  case (Opt a)
  then show ?case by (auto elim!: fits_OptE intro: fits.intros simp: lower_def)
qed simp_all

lemma literal_search:
  assumes "literal r"
  shows "search r s = list_ex (\<lambda>p. contains p (lower s)) (phrases r)"
proof -
  have "search r s \<longleftrightarrow> (\<exists>a u t. s = a @ u @ t \<and> lower u \<in> set (phrases r))"
    using assms by (simp add: search_iff literal_fits)
  also have "\<dots> \<longleftrightarrow> (\<exists>p\<in>set (phrases r). \<exists>a b. lower s = a @ p @ b)"
  proof
    assume "\<exists>p\<in>set (phrases r). \<exists>a b. lower s = a @ p @ b"
    then obtain p a b where p: "p \<in> set (phrases r)" "lower s = a @ p @ b" by blast
    from lower_eq_append [OF p(2)] obtain v w where v: "s = v @ w" "lower w = p @ b" by blast
    from lower_eq_append [OF v(2)] obtain u t where "w = u @ t" "lower u = p" by blast
    with v(1) p(1) show "\<exists>a u t. s = a @ u @ t \<and> lower u \<in> set (phrases r)" by blast
  next
    assume "\<exists>a u t. s = a @ u @ t \<and> lower u \<in> set (phrases r)"
    then obtain a u t where "lower s = lower a @ lower u @ lower t" "lower u \<in> set (phrases r)" by auto
    then show "\<exists>p\<in>set (phrases r). \<exists>a b. lower s = a @ p @ b" by blast
  qed
  finally show ?thesis by (simp add: list_ex_iff contains_iff)
qed

end
