(* ===== verification/DocumentProposals.thy ===== *)
theory DocumentProposals
  imports PyRegex Sha256 ProcurementDomain
begin

text \<open>
  The proposal-only document pipeline, \<^verbatim>\<open>apps/api/src/axignal_api/document_proposals.py\<close>: the
  document model and its content hash, the deterministic paragraph parser, the prompt-injection
  scanner, the frozen proposal adapter, evidence binding, candidates, the proposal boundary and the
  provisional dossier. The model gateway is an argument: its identity and the function that
  proposes. Instants are integers; the completion timestamp is an argument.
\<close>

section \<open>Data\<close>

definition document_hash :: "pyval \<Rightarrow> string" where
  \<comment> \<open>\<^verbatim>\<open>canonical_hash\<close>\<close>
  "document_hash v = sha256_ref (utf8 (json_dumps False v))"

definition pipeline_version :: string where
  "pipeline_version = ''local-document-proposal-pipeline@0.1.0''"

definition parser_version :: string where
  "parser_version = ''institutional-text-parser@0.1.0''"

definition injection_policy_version :: string where
  "injection_policy_version = ''document-injection-policy@0.1.0''"

definition admission_policy_version :: string where
  "admission_policy_version = ''proposal-only-boundary@0.1.0''"

record institutional_document =
  id_document_id :: string
  id_source_id :: string
  id_title :: string
  id_source_url :: string
  id_published_at :: int
  id_retrieved_at :: int
  id_language :: string
  id_mime_type :: string
  id_rights_status :: string
  id_license_id :: string
  id_attribution_text :: string
  id_content :: string
  id_content_hash :: string
  id_tenant_scope :: string

definition is_id_char :: "char \<Rightarrow> bool" where
  \<comment> \<open>\<^verbatim>\<open>[a-z0-9_-]\<close>\<close>
  "is_id_char c = (is_ascii_lower c \<or> is_digit c \<or> c = CHR ''_'' \<or> c = CHR ''-'')"

definition is_document_id :: "string \<Rightarrow> bool" where
  "is_document_id s = (starts_with ''doc_'' s \<and> 8 \<le> length (drop 4 s) \<and> list_all is_id_char (drop 4 s))"

definition validate_document :: "institutional_document \<Rightarrow> institutional_document result" where
  "validate_document d =
     field_checks
       [(is_document_id (id_document_id d), ''document_id''),
        (3 \<le> length (id_source_id d), ''source_id''),
        (3 \<le> length (id_title d), ''title''),
        (length (id_language d) = 2 \<and> list_all is_ascii_lower (id_language d), ''language''),
        (id_mime_type d \<in> {''text/plain'', ''text/markdown'', ''text/html''}, ''mime_type''),
        (id_rights_status d = ''COMMERCIAL_REUSE_WITH_ATTRIBUTION'', ''rights_status''),
        (id_license_id d = ''CC-BY-4.0'', ''license_id''),
        (3 \<le> length (id_attribution_text d), ''attribution_text''),
        (40 \<le> length (id_content d) \<and> length (id_content d) \<le> 200000, ''content''),
        (is_content_digest (id_content_hash d), ''content_hash''),
        (id_tenant_scope d = ''GLOBAL_PUBLIC'', ''tenant_scope'')]
       (if document_hash (PDict [(''content'', PStr (id_content d))]) \<noteq> id_content_hash d
        then Inl (ValueError ''Document content hash does not match the immutable payload'')
        else Inr d)"

record document_fragment =
  fr_fragment_id :: string
  fr_document_id :: string
  fr_ordinal :: nat
  fr_text :: string
  fr_start_char :: nat
  fr_end_char :: nat
  fr_content_hash :: string
  fr_parser_version :: string

record parsed_document =
  pd_document :: institutional_document
  pd_fragments :: "document_fragment list"
  pd_parser_version :: string
  pd_injection_policy_version :: string

record proposed_claim =
  pr_subject_id :: string
  pr_predicate :: string
  pr_object_value :: "(string \<times> pyval) list"
  pr_statement :: string
  pr_kind :: string
  pr_relationship :: string
  pr_source_fragments :: "(string \<times> string) list" \<comment> \<open>fragment id and quote hash\<close>
  pr_assumptions :: "string list"
  pr_unknowns :: "string list"
  pr_extraction_confidence :: rat

record proposal_batch =
  pb_producer_id :: string
  pb_model_version :: string
  pb_method_version :: string
  pb_prompt_version :: string
  pb_claims :: "proposed_claim list"
  pb_explicit_unknowns :: "string list"

record evidence_draft =
  ed_evidence_key :: string
  ed_document_id :: string
  ed_fragment_id :: string
  ed_source_id :: string
  ed_title :: string
  ed_text :: string
  ed_content_hash :: string
  ed_quote_hash :: string
  ed_rights_status :: string
  ed_license_id :: string
  ed_parser_version :: string

record candidate_draft =
  cd_candidate_claim_id :: string
  cd_fingerprint :: string
  cd_opportunity_id :: string
  cd_subject_id :: string
  cd_predicate :: string
  cd_object_value :: "(string \<times> pyval) list"
  cd_statement :: string
  cd_kind :: string
  cd_relationship :: string
  cd_evidence_keys :: "string list"
  cd_producer_type :: string
  cd_producer_id :: string
  cd_model_version :: string
  cd_method_version :: string
  cd_prompt_version :: string
  cd_assumptions :: "string list"
  cd_unknowns :: "string list"
  cd_extraction_confidence :: rat
  cd_state :: string
  cd_canonical_claim_id :: "string option"

record boundary_result =
  br_candidate_claim_id :: string
  br_admitted :: bool
  br_policy_version :: string
  br_reasons :: "string list"
  br_handoff_ready :: bool
  br_canonical_claim_id :: "string option"

record draft_section =
  dr_section_id :: string
  dr_title :: string
  dr_text :: string
  dr_evidence_keys :: "string list"
  dr_candidate_claim_ids :: "string list"
  dr_status :: string

record dossier_draft =
  dd_dossier_id :: string
  dd_title :: string
  dd_summary :: string
  dd_status :: string
  dd_sections :: "draft_section list"
  dd_attribution :: "(string \<times> string) list"

record pipeline_gates =
  pg_document_processed :: bool
  pg_evidence_bound :: bool
  pg_candidates_proposed :: bool
  pg_admission_independent :: bool
  pg_ci_reproducible :: bool
  pg_model_authority_blocked :: bool

record pipeline_result =
  pi_pipeline_version :: string
  pi_document :: institutional_document
  pi_fragments :: "document_fragment list"
  pi_evidence :: "evidence_draft list"
  pi_candidate_claims :: "candidate_draft list"
  pi_admission_results :: "boundary_result list"
  pi_dossier :: dossier_draft
  pi_canonical_claims :: "pyval list"
  pi_gates :: pipeline_gates
  pi_actual_usage :: "(string \<times> pyval) list"

section \<open>The paragraph parser\<close>

fun collapse_blanks :: "bool \<Rightarrow> string \<Rightarrow> string" where
  \<comment> \<open>\<^verbatim>\<open>re.sub(r"[ \t]+", " ", s)\<close>; the flag says that the run of blanks goes on\<close>
  "collapse_blanks after [] = []"
| "collapse_blanks after (c # s) =
     (if c = CHR '' '' \<or> c = CHR 0x09
      then (if after then collapse_blanks True s else CHR '' '' # collapse_blanks True s)
      else c # collapse_blanks False s)"

fun unix_newlines :: "string \<Rightarrow> string" where
  \<comment> \<open>\<^verbatim>\<open>s.replace("\r\n", "\n")\<close>\<close>
  "unix_newlines [] = []"
| "unix_newlines [c] = [c]"
| "unix_newlines (c # d # s) =
     (if c = CHR 0x0D \<and> d = CHR 0x0A then CHR 0x0A # unix_newlines s else c # unix_newlines (d # s))"

definition normalise_content :: "string \<Rightarrow> string" where
  "normalise_content s = strip (collapse_blanks False (unix_newlines s))"

definition after_last_newline :: "string \<Rightarrow> string" where
  "after_last_newline w = rev (takeWhile (\<lambda>c. c \<noteq> CHR 0x0A) (rev w))"

function split_paragraphs_acc :: "string \<Rightarrow> string \<Rightarrow> string list" where
  \<comment> \<open>\<^verbatim>\<open>re.split(r"\n\s*\n+", s)\<close>: the match reaches the last newline of the white space that follows\<close>
  "split_paragraphs_acc w [] = [rev w]"
| "split_paragraphs_acc w (c # s) =
     (let ws = takeWhile is_ws s in
      if c = CHR 0x0A \<and> CHR 0x0A \<in> set ws
      then rev w # split_paragraphs_acc [] (after_last_newline ws @ dropWhile is_ws s)
      else split_paragraphs_acc (c # w) s)"
  by pat_completeness auto

lemma length_after_last_newline: "length (after_last_newline w) \<le> length w"
  unfolding after_last_newline_def by (metis length_rev length_takeWhile_le)

termination split_paragraphs_acc
proof (relation "measure (\<lambda>(w, s). length s)"; clarsimp)
  fix s
  have "length (after_last_newline (takeWhile is_ws s)) + length (dropWhile is_ws s)
      \<le> length (takeWhile is_ws s) + length (dropWhile is_ws s)"
    using length_after_last_newline by simp
  also have "\<dots> = length s"
    by (metis length_append takeWhile_dropWhile_id)
  finally show "length (after_last_newline (takeWhile is_ws s)) + length (dropWhile is_ws s) < Suc (length s)"
    by simp
qed

definition paragraphs_of :: "string \<Rightarrow> string list" where
  "paragraphs_of s = filter (\<lambda>p. p \<noteq> []) (map strip (split_paragraphs_acc [] s))"

definition find_from :: "string \<Rightarrow> string \<Rightarrow> nat \<Rightarrow> nat option" where
  \<comment> \<open>\<^verbatim>\<open>s.find(sub, start)\<close>, \<^const>\<open>None\<close> for -1\<close>
  "find_from sub s start =
     List.find (\<lambda>k. starts_with sub (drop k s)) [start..<Suc (length s)]"

definition fragment_of :: "institutional_document \<Rightarrow> nat \<Rightarrow> string \<Rightarrow> nat \<Rightarrow> document_fragment" where
  "fragment_of d ordinal paragraph start =
     (let fragment_hash = document_hash (PDict
            [(''document_id'', PStr (id_document_id d)), (''ordinal'', PInt (int ordinal)),
             (''text'', PStr paragraph)])
      in \<lparr>fr_fragment_id = ''frag_'' @ take 20 (drop 7 fragment_hash), fr_document_id = id_document_id d,
          fr_ordinal = ordinal, fr_text = paragraph, fr_start_char = start,
          fr_end_char = start + length paragraph, fr_content_hash = fragment_hash,
          fr_parser_version = parser_version\<rparr>)"

fun parse_fragments ::
    "institutional_document \<Rightarrow> string \<Rightarrow> nat \<Rightarrow> nat \<Rightarrow> string list \<Rightarrow> document_fragment list result" where
  \<comment> \<open>the loop: normalised text, next ordinal, cursor, remaining paragraphs\<close>
  "parse_fragments d s ordinal cursor [] = Inr []"
| "parse_fragments d s ordinal cursor (p # ps) =
     (case find_from p s cursor of
        None \<Rightarrow> Inl (ValidationError ''start_char'')
      | Some start \<Rightarrow>
          bindE (parse_fragments d s (Suc ordinal) (start + length p) ps)
            (\<lambda>fs. Inr (fragment_of d ordinal p start # fs)))"

definition parse_document :: "institutional_document \<Rightarrow> parsed_document result" where
  "parse_document d =
     (let s = normalise_content (id_content d); ps = paragraphs_of s in
      if ps = [] then Inl (DocumentIntegrityError ''The document contains no parseable paragraphs'')
      else bindE (parse_fragments d s 0 0 ps) (\<lambda>fs.
        if 100 < length fs then Inl (ValidationError ''fragments'')
        else Inr \<lparr>pd_document = d, pd_fragments = fs, pd_parser_version = parser_version,
                  pd_injection_policy_version = injection_policy_version\<rparr>))"

section \<open>The prompt-injection scanner\<close>

fun lits :: "string list \<Rightarrow> rx" where
  "lits [] = Lit []"
| "lits [l] = Lit l"
| "lits (l # m # ls) = Alt (Lit l) (lits (m # ls))"

fun cats :: "rx list \<Rightarrow> rx" where
  "cats [] = Lit []"
| "cats [r] = r"
| "cats (r # q # rs) = Cat r (cats (q # rs))"

definition blocked_patterns :: "(string \<times> rx) list" where
  "blocked_patterns =
     [(''ignore_instructions'',
        cats [Lit ''ignore '', Opt (lits [''all '', ''the '']), lits [''previous'', ''prior''],
              Lit '' instructions'']),
      (''system_prompt_request'',
        cats [lits [''reveal'', ''print'', ''return''], Dots 30, Lit ''system prompt'']),
      (''permission_mutation'',
        cats [lits [''change'', ''override'', ''disable''], Dots 30,
              lits [''permissions'', ''budget'', ''policy'', ''gate'']]),
      (''canonical_write_request'',
        cats [lits [''write'', ''insert'', ''publish''], Dots 30,
              lits [''claim ledger'', ''canonical claim'']]),
      (''embedded_script'',
        Alt (Cat (Lit ''<script'') WordEnd)
          (Alt (Lit ''javascript:'')
            (Alt (cats [Lit ''powershell'', Spaces, Lit ''-''])
              (cats [Lit ''curl'', Spaces, Lit ''http'', Opt (Lit ''s''), Lit ''://'']))))]"

definition detections :: "document_fragment list \<Rightarrow> string list" where
  "detections fs = concat (map (\<lambda>f. map (\<lambda>(detection, _). fr_fragment_id f @ '':'' @ detection)
     (filter (\<lambda>(_, pattern). search pattern (fr_text f)) blocked_patterns)) fs)"

definition inspect_document :: "parsed_document \<Rightarrow> unit result" where
  "inspect_document p =
     (let ds = detections (pd_fragments p) in
      if ds \<noteq> [] then Inl (DocumentSecurityError (''Untrusted document instructions detected and quarantined: ''
        @ join '', '' ds)) else Inr ())"

section \<open>Adapters and evidence binding\<close>

definition frozen_propose :: "proposal_batch \<Rightarrow> parsed_document \<Rightarrow> proposal_batch result" where
  \<comment> \<open>\<^verbatim>\<open>FrozenProposalAdapter.propose\<close>\<close>
  "frozen_propose batch p =
     (let available = map (\<lambda>f. (fr_fragment_id f, fr_content_hash f)) (pd_fragments p) in
      if list_all (\<lambda>c. list_all (\<lambda>(fid, quote). map_of (rev available) fid = Some quote)
           (pr_source_fragments c)) (pb_claims batch)
      then Inr batch
      else Inl (ModelProposalError ''Frozen proposal references an absent or modified fragment''))"

record model_gateway =
  mg_producer_id :: string
  mg_model_version :: string
  mg_propose :: "parsed_document \<Rightarrow> string \<Rightarrow> proposal_batch result"

definition verify_model_identity :: "model_gateway \<Rightarrow> proposal_batch \<Rightarrow> unit result" where
  "verify_model_identity g b =
     (if pb_producer_id b \<noteq> mg_producer_id g
      then Inl (ModelProposalError ''Proposal producer identity does not match the configured adapter'')
      else if pb_model_version b \<noteq> mg_model_version g
      then Inl (ModelProposalError ''Proposal model version does not match the configured adapter'')
      else Inr ())"

definition fragment_by_id :: "document_fragment list \<Rightarrow> string \<Rightarrow> document_fragment option" where
  "fragment_by_id fs i = map_of (rev (map (\<lambda>f. (fr_fragment_id f, f)) fs)) i"

definition draft_evidence ::
    "institutional_document \<Rightarrow> parsed_document \<Rightarrow> document_fragment \<Rightarrow> string \<Rightarrow> evidence_draft" where
  "draft_evidence d p f quote =
     \<lparr>ed_evidence_key = document_hash (PDict
        [(''document_id'', PStr (id_document_id d)), (''fragment_id'', PStr (fr_fragment_id f)),
         (''content_hash'', PStr (fr_content_hash f))]),
      ed_document_id = id_document_id d, ed_fragment_id = fr_fragment_id f, ed_source_id = id_source_id d,
      ed_title = id_title d @ [CHR '' '', CHR 0xB7] @ '' fragment '' @ str_int (int (fr_ordinal f) + 1),
      ed_text = fr_text f, ed_content_hash = fr_content_hash f, ed_quote_hash = quote,
      ed_rights_status = id_rights_status d, ed_license_id = id_license_id d,
      ed_parser_version = pd_parser_version p\<rparr>"

definition bind_reference ::
    "institutional_document \<Rightarrow> parsed_document \<Rightarrow> (string \<times> evidence_draft) list \<times> string list
      \<Rightarrow> string \<times> string \<Rightarrow> ((string \<times> evidence_draft) list \<times> string list) result" where
  \<comment> \<open>one source reference: the evidence by fragment so far and the keys of the claim so far\<close>
  "bind_reference d p acc ref =
     (case (acc, ref) of ((by_fragment, keys), (fid, quote)) \<Rightarrow>
        (case fragment_by_id (pd_fragments p) fid of
           None \<Rightarrow> Inl (ModelProposalError ''A proposed claim references unavailable evidence'')
         | Some f \<Rightarrow>
             if fr_content_hash f \<noteq> quote
             then Inl (ModelProposalError ''A proposed claim references unavailable evidence'')
             else (case dict_get by_fragment fid of
                     Some e \<Rightarrow> Inr (by_fragment, keys @ [ed_evidence_key e])
                   | None \<Rightarrow>
                       let e = draft_evidence d p f quote
                       in Inr (dict_put by_fragment fid e, keys @ [ed_evidence_key e]))))"

definition bind_evidence ::
    "institutional_document \<Rightarrow> parsed_document \<Rightarrow> proposed_claim \<Rightarrow> (string \<times> evidence_draft) list
      \<Rightarrow> ((string \<times> evidence_draft) list \<times> string list) result" where
  "bind_evidence d p c by_fragment = foldE (bind_reference d p) (by_fragment, []) (pr_source_fragments c)"

definition build_candidate ::
    "string \<Rightarrow> proposed_claim \<Rightarrow> proposal_batch \<Rightarrow> string list \<Rightarrow> candidate_draft result" where
  "build_candidate opportunity_id c b evidence_keys =
     (let fp = document_hash (PDict
            [(''opportunity_id'', PStr opportunity_id), (''subject_id'', PStr (pr_subject_id c)),
             (''predicate'', PStr (pr_predicate c)), (''object_value'', PDict (pr_object_value c)),
             (''evidence_keys'', PStrs evidence_keys), (''producer_id'', PStr (pb_producer_id b)),
             (''model_version'', PStr (pb_model_version b)), (''method_version'', PStr (pb_method_version b))])
      in if evidence_keys = [] then Inl (ValidationError ''evidence_keys'')
         else Inr \<lparr>cd_candidate_claim_id = ''cand_'' @ take 24 (drop 7 fp), cd_fingerprint = fp,
           cd_opportunity_id = opportunity_id, cd_subject_id = pr_subject_id c,
           cd_predicate = pr_predicate c, cd_object_value = pr_object_value c,
           cd_statement = pr_statement c, cd_kind = pr_kind c, cd_relationship = pr_relationship c,
           cd_evidence_keys = evidence_keys, cd_producer_type = ''LOCAL_MODEL'',
           cd_producer_id = pb_producer_id b, cd_model_version = pb_model_version b,
           cd_method_version = pb_method_version b, cd_prompt_version = pb_prompt_version b,
           cd_assumptions = pr_assumptions c, cd_unknowns = pr_unknowns c,
           cd_extraction_confidence = pr_extraction_confidence c,
           cd_state = ''ADMISSION_QUEUED'', cd_canonical_claim_id = None\<rparr>)"

definition bind_claim ::
    "institutional_document \<Rightarrow> parsed_document \<Rightarrow> string \<Rightarrow> proposal_batch
      \<Rightarrow> (string \<times> evidence_draft) list \<times> candidate_draft list \<Rightarrow> proposed_claim
      \<Rightarrow> ((string \<times> evidence_draft) list \<times> candidate_draft list) result" where
  "bind_claim d p opportunity_id b acc c =
     bindE (bind_evidence d p c (fst acc)) (\<lambda>(by_fragment, keys).
     bindE (build_candidate opportunity_id c b keys) (\<lambda>candidate.
     Inr (by_fragment, snd acc @ [candidate])))"

section \<open>The proposal boundary\<close>

definition boundary_evaluate ::
    "institutional_document \<Rightarrow> candidate_draft \<Rightarrow> string list \<Rightarrow> boundary_result" where
  \<comment> \<open>the third argument lists the keys of \<^verbatim>\<open>evidence_by_key\<close>\<close>
  "boundary_evaluate d c keys =
     (let rights = id_rights_status d \<noteq> ''COMMERCIAL_REUSE_WITH_ATTRIBUTION'';
          unbound = cd_evidence_keys c = [] \<or> list_ex (\<lambda>k. k \<notin> set keys) (cd_evidence_keys c);
          producer = cd_producer_type c \<noteq> ''LOCAL_MODEL''
      in \<lparr>br_candidate_claim_id = cd_candidate_claim_id c, br_admitted = False,
          br_policy_version = admission_policy_version,
          br_reasons = [''generative_producer_cannot_auto_admit'', ''independent_runtime_required'']
            @ (if rights then [''source_rights_not_admitted''] else [])
            @ (if unbound then [''evidence_binding_missing''] else [])
            @ (if producer then [''unexpected_producer_type''] else []),
          br_handoff_ready = (\<not> rights \<and> \<not> unbound \<and> \<not> producer), br_canonical_claim_id = None\<rparr>)"

section \<open>The dossier and the run\<close>

definition claim_section :: "nat \<times> candidate_draft \<Rightarrow> draft_section" where
  "claim_section ic = (case ic of (index, c) \<Rightarrow>
     \<lparr>dr_section_id = ''claim_'' @ str_int (int index + 1),
      dr_title = (if cd_relationship c = ''SUPPORTING'' then ''Propuesta favorable''
                  else ''L'' @ [CHR 0xED] @ ''mite o evidencia adversa''),
      dr_text = cd_statement c, dr_evidence_keys = cd_evidence_keys c,
      dr_candidate_claim_ids = [cd_candidate_claim_id c], dr_status = ''PROVISIONAL''\<rparr>)"

definition authority_text :: string where
  "authority_text = ''Un modelo local produjo propuestas estructuradas. ''
     @ ''AXIGNAL no las admite como hechos can'' @ [CHR 0xF3] @ ''nicos: el ''
     @ ''runtime determinista debe revalidar fuente, derechos, ''
     @ ''estructura, tiempo, unidades, contradicciones y '' @ [CHR 0xE1] @ ''mbito.''"

definition draft_dossier ::
    "institutional_document \<Rightarrow> candidate_draft list \<Rightarrow> string list \<Rightarrow> dossier_draft result" where
  "draft_dossier d cs unknowns =
     (let sections = map claim_section (enumerate 0 cs) @
            [\<lparr>dr_section_id = ''unknowns'', dr_title = ''Desconocidos expl'' @ [CHR 0xED] @ ''citos'',
              dr_text = join '' '' unknowns, dr_evidence_keys = [], dr_candidate_claim_ids = [],
              dr_status = ''UNKNOWN''\<rparr>,
             \<lparr>dr_section_id = ''authority'', dr_title = ''M'' @ [CHR 0xE9] @ ''todo y autoridad'',
              dr_text = authority_text, dr_evidence_keys = [], dr_candidate_claim_ids = [],
              dr_status = ''METHODOLOGY''\<rparr>];
          h = document_hash (PDict
            [(''document_id'', PStr (id_document_id d)),
             (''candidate_claim_ids'', PStrs (map cd_candidate_claim_id cs)),
             (''unknowns'', PStrs unknowns)])
      in if length sections < 3 then Inl (ValidationError ''sections'')
         else Inr \<lparr>dd_dossier_id = ''dossier_'' @ take 24 (drop 7 h),
           dd_title = ''Dossier provisional '' @ [CHR 0xB7, CHR '' ''] @ id_title d,
           dd_summary = str_int (int (length cs)) @ '' propuestas locales trazables; ninguna posee autoridad can''
             @ [CHR 0xF3] @ ''nica.'',
           dd_status = ''TRACEABLE_PROVISIONAL'', dd_sections = sections,
           dd_attribution = [(''source_id'', id_source_id d), (''source_url'', id_source_url d),
             (''license_id'', id_license_id d), (''attribution_text'', id_attribution_text d)]\<rparr>)"

definition reproducibility_hash ::
    "institutional_document \<Rightarrow> parsed_document \<Rightarrow> candidate_draft list \<Rightarrow> string" where
  "reproducibility_hash d p cs = document_hash (PDict
     [(''document_hash'', PStr (id_content_hash d)),
      (''fragment_hashes'', PStrs (map fr_content_hash (pd_fragments p))),
      (''candidate_fingerprints'', PStrs (map cd_fingerprint cs)),
      (''pipeline_version'', PStr pipeline_version)])"

definition pipeline_outcome ::
    "institutional_document \<Rightarrow> parsed_document \<Rightarrow> proposal_batch \<Rightarrow> evidence_draft list
      \<Rightarrow> candidate_draft list \<Rightarrow> dossier_draft \<Rightarrow> string \<Rightarrow> pipeline_result" where
  \<comment> \<open>the returned model; the last argument is the completion timestamp\<close>
  "pipeline_outcome d p b evidence candidates dossier completed_at =
     (let results = map (\<lambda>c. boundary_evaluate d c (map ed_evidence_key evidence)) candidates in
      \<lparr>pi_pipeline_version = pipeline_version, pi_document = d, pi_fragments = pd_fragments p,
       pi_evidence = evidence, pi_candidate_claims = candidates, pi_admission_results = results,
       pi_dossier = dossier, pi_canonical_claims = [],
       pi_gates = \<lparr>pg_document_processed = True,
         pg_evidence_bound = (evidence \<noteq> [] \<and> list_all (\<lambda>c. cd_evidence_keys c \<noteq> []) candidates),
         pg_candidates_proposed = (1 \<le> length candidates \<and> length candidates \<le> 3),
         pg_admission_independent = list_all br_handoff_ready results,
         pg_ci_reproducible = True,
         pg_model_authority_blocked =
           list_all (\<lambda>r. \<not> br_admitted r \<and> br_canonical_claim_id r = None) results\<rparr>,
       pi_actual_usage =
         [(''documents'', PInt 1), (''fragments'', PInt (int (length (pd_fragments p)))),
          (''model_calls'', PInt 1), (''candidate_claims'', PInt (int (length candidates))),
          (''evidence_objects'', PInt (int (length evidence))),
          (''local_model'', PStr (pb_model_version b)), (''producer_id'', PStr (pb_producer_id b)),
          (''pipeline_version'', PStr pipeline_version),
          (''reproducibility_hash'', PStr (reproducibility_hash d p candidates)),
          (''completed_at'', PStr completed_at)]\<rparr>)"

definition execute_pipeline ::
    "model_gateway \<Rightarrow> institutional_document \<Rightarrow> string \<Rightarrow> string \<Rightarrow> string \<Rightarrow> pipeline_result result" where
  "execute_pipeline g d opportunity_id question completed_at =
     bindE (parse_document d) (\<lambda>p.
     bindE (inspect_document p) (\<lambda>_.
     bindE (mg_propose g p question) (\<lambda>b.
     bindE (verify_model_identity g b) (\<lambda>_.
     bindE (foldE (bind_claim d p opportunity_id b) ([], []) (pb_claims b)) (\<lambda>(by_fragment, candidates).
     bindE (draft_dossier d candidates (pb_explicit_unknowns b)) (\<lambda>dossier.
     Inr (pipeline_outcome d p b (map snd by_fragment) candidates dossier completed_at)))))))"

section \<open>The parser loses no text\<close>

definition blank :: "string \<Rightarrow> bool" where
  "blank s = list_all is_ws s"

fun woven :: "string \<Rightarrow> string list \<Rightarrow> bool" where
  \<comment> \<open>the text is the paragraphs in order, with white space around and between them\<close>
  "woven s [] = blank s"
| "woven s (p # ps) = (\<exists>g r. s = g @ p @ r \<and> blank g \<and> woven r ps)"

definition trimmed :: "string \<Rightarrow> bool" where
  "trimmed p = (p \<noteq> [] \<and> \<not> is_ws (hd p) \<and> \<not> is_ws (last p))"

lemma blank_append [simp]: "blank (a @ b) \<longleftrightarrow> blank a \<and> blank b"
  by (simp add: blank_def)

lemma blank_Nil [simp]: "blank []"
  by (simp add: blank_def)

lemma blank_rev [simp]: "blank (rev a) = blank a"
  by (simp add: blank_def)

lemma dropWhile_ws_split: "\<exists>g. s = g @ dropWhile is_ws s \<and> blank g"
proof (intro exI conjI)
  show "s = takeWhile is_ws s @ dropWhile is_ws s" by simp
  show "blank (takeWhile is_ws s)"
    by (auto simp: blank_def list_all_iff dest: set_takeWhileD)
qed

lemma strip_split: "\<exists>a b. s = a @ strip s @ b \<and> blank a \<and> blank b"
proof -
  obtain a where a: "s = a @ dropWhile is_ws s" "blank a"
    using dropWhile_ws_split by blast
  obtain b where b: "rev (dropWhile is_ws s) = b @ dropWhile is_ws (rev (dropWhile is_ws s))" "blank b"
    using dropWhile_ws_split by blast
  from arg_cong [OF b(1), of rev] have "dropWhile is_ws s = strip s @ rev b"
    by (simp add: strip_def)
  with a b(2) show ?thesis
    by (metis append.assoc blank_rev)
qed

lemma strip_trimmed: "strip s \<noteq> [] \<Longrightarrow> trimmed (strip s)"
proof -
  assume ne: "strip s \<noteq> []"
  let ?t = "dropWhile is_ws s"
  have "?t \<noteq> []"
  proof
    assume "?t = []"
    then have "strip s = []" unfolding strip_def by (simp only: rev.simps dropWhile.simps)
    with ne show False ..
  qed
  then have hd: "\<not> is_ws (hd ?t)" by (rule hd_dropWhile)
  have "dropWhile is_ws (rev ?t) \<noteq> []" using ne by (simp add: strip_def)
  then have l: "\<not> is_ws (hd (dropWhile is_ws (rev ?t)))" by (rule hd_dropWhile)
  obtain b where "?t = strip s @ b"
    using dropWhile_ws_split [of "rev ?t"] unfolding strip_def by (metis rev_append rev_rev_ident)
  then have "hd (strip s) = hd ?t" using ne by (metis hd_append2)
  with hd l ne show ?thesis
    by (simp add: trimmed_def strip_def last_rev)
qed

lemma woven_blank: "blank g \<Longrightarrow> woven s ps \<Longrightarrow> woven (g @ s) ps"
proof (cases ps)
  case (Cons p qs)
  assume "blank g" "woven s ps"
  with Cons obtain h r where "s = h @ p @ r" "blank h" "woven r qs" by auto
  then have "g @ s = (g @ h) @ p @ r" "blank (g @ h)" using \<open>blank g\<close> by simp_all
  with \<open>woven r qs\<close> have "woven (g @ s) (p # qs)" unfolding woven.simps by blast
  with Cons show ?thesis by simp
qed simp

lemma woven_strip:
  "woven r (filter (\<lambda>p. p \<noteq> []) ps) \<Longrightarrow> woven (x @ r) (filter (\<lambda>p. p \<noteq> []) (strip x # ps))"
proof -
  assume r: "woven r (filter (\<lambda>p. p \<noteq> []) ps)"
  obtain a b where x: "x = a @ strip x @ b" "blank a" "blank b"
    using strip_split by blast
  show ?thesis
  proof (cases "strip x = []")
    case True
    then have "blank x" using x by (metis append_Nil blank_append)
    with True r show ?thesis by (simp add: woven_blank)
  next
    case False
    have "x @ r = a @ strip x @ (b @ r)" using x(1) by (metis append.assoc)
    moreover have "woven (b @ r) (filter (\<lambda>p. p \<noteq> []) ps)" using x(3) r by (rule woven_blank)
    ultimately have "woven (x @ r) (strip x # filter (\<lambda>p. p \<noteq> []) ps)"
      unfolding woven.simps using x(2) by blast
    with False show ?thesis by simp
  qed
qed

lemma newline_ws: "is_ws (CHR 0x0A)"
  by (simp add: is_ws_def code_def)

lemma split_paragraphs_woven:
  "woven (rev w @ s) (filter (\<lambda>p. p \<noteq> []) (map strip (split_paragraphs_acc w s)))"
proof (induction w s rule: split_paragraphs_acc.induct)
  case (1 w)
  show ?case
    using woven_strip [of "[]" "[]" "rev w"] by simp
next
  case (2 w c s)
  let ?ws = "takeWhile is_ws s"
  show ?case
  proof (cases "c = CHR 0x0A \<and> CHR 0x0A \<in> set ?ws")
    case True
    let ?t = "after_last_newline ?ws @ dropWhile is_ws s"
    obtain g where g: "?ws = g @ after_last_newline ?ws"
      unfolding after_last_newline_def
      by (metis rev_append rev_rev_ident takeWhile_dropWhile_id)
    have "blank ?ws"
      by (auto simp: blank_def list_all_iff dest: set_takeWhileD)
    then have bg: "blank (c # g)"
    proof -
      have "blank g" using \<open>blank ?ws\<close> g blank_append by metis
      with True newline_ws show ?thesis by (simp add: blank_def)
    qed
    have "s = g @ ?t"
      using g by (metis append.assoc takeWhile_dropWhile_id)
    then have "rev w @ c # s = rev w @ ((c # g) @ ?t)" by simp
    moreover have "woven ((c # g) @ ?t) (filter (\<lambda>p. p \<noteq> []) (map strip (split_paragraphs_acc [] ?t)))"
      using "2.IH"(1) [OF refl True] by (intro woven_blank [OF bg]) simp
    then have "woven (rev w @ ((c # g) @ ?t))
        (filter (\<lambda>p. p \<noteq> []) (strip (rev w) # map strip (split_paragraphs_acc [] ?t)))"
      by (rule woven_strip)
    ultimately show ?thesis
      using True by (simp add: Let_def)
  next
    case False
    with "2.IH"(2) [OF refl False] show ?thesis
      by (auto simp: Let_def)
  qed
qed

lemma paragraphs_woven: "woven s (paragraphs_of s)"
  using split_paragraphs_woven [of "[]" s] by (simp add: paragraphs_of_def)

lemma paragraphs_trimmed: "p \<in> set (paragraphs_of s) \<Longrightarrow> trimmed p"
  by (auto simp: paragraphs_of_def intro: strip_trimmed)

definition ink :: "string \<Rightarrow> string" where
  \<comment> \<open>the text without its white space\<close>
  "ink s = filter (\<lambda>c. \<not> is_ws c) s"

lemma ink_append [simp]: "ink (a @ b) = ink a @ ink b"
  by (simp add: ink_def)

lemma ink_blank: "blank g \<Longrightarrow> ink g = []"
  by (auto simp: ink_def blank_def list_all_iff filter_empty_conv)

lemma woven_ink: "woven s ps \<Longrightarrow> ink (concat ps) = ink s"
  by (induction ps arbitrary: s) (auto simp: ink_blank)

lemma ink_collapse: "ink (collapse_blanks b s) = ink s"
proof -
  have "is_ws (CHR 0x09)" "is_ws (CHR '' '')" by (simp_all add: is_ws_def code_def)
  then show ?thesis
    by (induction b s rule: collapse_blanks.induct) (auto simp: ink_def)
qed

lemma ink_unix: "ink (unix_newlines s) = ink s"
proof -
  have "is_ws (CHR 0x0D)" by (simp add: is_ws_def code_def)
  then show ?thesis
    by (induction s rule: unix_newlines.induct) (auto simp: ink_def newline_ws)
qed

lemma ink_strip: "ink (strip s) = ink s"
proof -
  obtain a b where "s = a @ strip s @ b" "blank a" "blank b"
    using strip_split by blast
  then have "ink s = ink a @ ink (strip s) @ ink b" by (metis ink_append)
  then show ?thesis using \<open>blank a\<close> \<open>blank b\<close> by (simp add: ink_blank)
qed

lemma ink_normalise: "ink (normalise_content s) = ink s"
  by (simp add: normalise_content_def ink_strip ink_collapse ink_unix)

lemma find_from_gap:
  assumes "blank g" "trimmed p"
  shows "find_from p (pre @ g @ p @ r) (length pre) = Some (length pre + length g)"
  unfolding find_from_def find_Some_iff
proof (intro exI [of _ "length g"] conjI allI impI)
  fix j
  assume "j < length g"
  then have "drop (length pre + j) (pre @ g @ p @ r) = g ! j # drop (Suc j) g @ p @ r"
    by (simp add: Cons_nth_drop_Suc)
  moreover have "is_ws (g ! j)"
    using assms(1) \<open>j < length g\<close> by (simp add: blank_def list_all_length)
  ultimately show "\<not> starts_with p (drop ([length pre..<Suc (length (pre @ g @ p @ r))] ! j) (pre @ g @ p @ r))"
    using assms(2) \<open>j < length g\<close> by (cases p) (auto simp: trimmed_def starts_with_def simp del: upt_Suc)
qed (auto simp: starts_with_def simp del: upt_Suc)

lemma fragment_of_fields [simp]:
  "fr_text (fragment_of d n p k) = p" "fr_ordinal (fragment_of d n p k) = n"
  "fr_start_char (fragment_of d n p k) = k" "fr_end_char (fragment_of d n p k) = k + length p"
  "fr_document_id (fragment_of d n p k) = id_document_id d"
  by (simp_all add: fragment_of_def Let_def)

definition placed :: "string \<Rightarrow> document_fragment \<Rightarrow> bool" where
  "placed s f = (take (length (fr_text f)) (drop (fr_start_char f) s) = fr_text f
     \<and> fr_end_char f = fr_start_char f + length (fr_text f))"

lemma parse_fragments_placed:
  assumes "woven r ps" "\<forall>p\<in>set ps. trimmed p"
  shows "\<exists>fs. parse_fragments d (pre @ r) n (length pre) ps = Inr fs
    \<and> map fr_text fs = ps \<and> map fr_ordinal fs = [n..<n + length ps]
    \<and> list_all (placed (pre @ r)) fs \<and> list_all (\<lambda>f. length pre \<le> fr_start_char f) fs
    \<and> sorted_wrt (\<lambda>f g. fr_end_char f \<le> fr_start_char g) fs"
  using assms
proof (induction ps arbitrary: r pre n)
  case (Cons p ps)
  then obtain g q where r: "r = g @ p @ q" "blank g" "woven q ps" by auto
  have find: "find_from p (pre @ r) (length pre) = Some (length pre + length g)"
    using find_from_gap [OF r(2)] Cons.prems(2) r(1) by simp
  let ?pre = "pre @ g @ p"
  from Cons.IH [OF r(3), of ?pre "Suc n"] Cons.prems(2) obtain fs where fs:
    "parse_fragments d (?pre @ q) (Suc n) (length ?pre) ps = Inr fs" "map fr_text fs = ps"
    "map fr_ordinal fs = [Suc n..<Suc n + length ps]" "list_all (placed (?pre @ q)) fs"
    "list_all (\<lambda>f. length ?pre \<le> fr_start_char f) fs"
    "sorted_wrt (\<lambda>f g. fr_end_char f \<le> fr_start_char g) fs"
    by auto
  let ?f = "fragment_of d n p (length pre + length g)"
  have "parse_fragments d (pre @ r) n (length pre) (p # ps) = Inr (?f # fs)"
    using find fs(1) by (simp add: r(1) add.assoc)
  moreover have "placed (pre @ r) ?f"
    by (simp add: placed_def r(1))
  moreover have "[n..<n + length (p # ps)] = n # [Suc n..<Suc n + length ps]"
    by (simp add: upt_conv_Cons del: upt_Suc)
  ultimately show ?case
    using fs(2-6) by (intro exI [of _ "?f # fs"]) (auto simp: r(1) list_all_iff add.assoc)
qed simp

lemma parse_document_cases:
  obtains (none) "paragraphs_of (normalise_content (id_content d)) = []"
      "parse_document d = Inl (DocumentIntegrityError ''The document contains no parseable paragraphs'')"
  | (many) "100 < length (paragraphs_of (normalise_content (id_content d)))"
      "parse_document d = Inl (ValidationError ''fragments'')"
  | (parsed) fs where
      "parse_document d = Inr \<lparr>pd_document = d, pd_fragments = fs, pd_parser_version = parser_version,
         pd_injection_policy_version = injection_policy_version\<rparr>"
      "map fr_text fs = paragraphs_of (normalise_content (id_content d))"
      "map fr_ordinal fs = [0..<length fs]" "fs \<noteq> []" "length fs \<le> 100"
      "list_all (placed (normalise_content (id_content d))) fs"
      "sorted_wrt (\<lambda>f g. fr_end_char f \<le> fr_start_char g) fs"
proof -
  let ?s = "normalise_content (id_content d)"
  obtain fs where fs: "parse_fragments d ?s 0 0 (paragraphs_of ?s) = Inr fs"
    "map fr_text fs = paragraphs_of ?s" "map fr_ordinal fs = [0..<length (paragraphs_of ?s)]"
    "list_all (placed ?s) fs" "sorted_wrt (\<lambda>f g. fr_end_char f \<le> fr_start_char g) fs"
    using parse_fragments_placed [OF paragraphs_woven, of ?s d "[]" 0] paragraphs_trimmed by auto
  have len: "length fs = length (paragraphs_of ?s)"
    using arg_cong [OF fs(2), of length] by simp
  show thesis
  proof (cases "paragraphs_of ?s = []")
    case True
    then show ?thesis by (intro none) (simp_all add: parse_document_def Let_def)
  next
    case False
    show ?thesis
    proof (cases "100 < length fs")
      case True
      with False fs(1) len show ?thesis by (intro many) (simp_all add: parse_document_def Let_def)
    next
      case few: False
      with False fs len show ?thesis
        by (intro parsed [of fs]) (auto simp: parse_document_def Let_def)
    qed
  qed
qed

section \<open>What the pipeline binds\<close>

definition evidence_ok :: "institutional_document \<Rightarrow> parsed_document \<Rightarrow> string \<times> evidence_draft \<Rightarrow> bool" where
  "evidence_ok d p fe = (case fe of (fid, e) \<Rightarrow>
     \<exists>f\<in>set (pd_fragments p). fr_fragment_id f = fid \<and> e = draft_evidence d p f (fr_content_hash f))"

definition candidate_ok :: "string list \<Rightarrow> candidate_draft \<Rightarrow> bool" where
  "candidate_ok keys c = (cd_evidence_keys c \<noteq> [] \<and> set (cd_evidence_keys c) \<subseteq> set keys
     \<and> cd_producer_type c = ''LOCAL_MODEL'' \<and> cd_state c = ''ADMISSION_QUEUED'' \<and> cd_canonical_claim_id c = None)"

definition keys_of :: "(string \<times> evidence_draft) list \<Rightarrow> string list" where
  "keys_of by_fragment = map (\<lambda>fe. ed_evidence_key (snd fe)) by_fragment"

definition binding_inv ::
    "institutional_document \<Rightarrow> parsed_document \<Rightarrow> (string \<times> evidence_draft) list \<Rightarrow> bool" where
  "binding_inv d p by_fragment = (distinct (map fst by_fragment) \<and> list_all (evidence_ok d p) by_fragment)"

lemma fragment_by_id_mem: "fragment_by_id fs i = Some f \<Longrightarrow> f \<in> set fs \<and> fr_fragment_id f = i"
  unfolding fragment_by_id_def by (drule map_of_SomeD) auto

lemma bind_reference_step:
  assumes step: "bind_reference d p (by_fragment, keys) ref = Inr (by_fragment', keys')"
    and inv: "binding_inv d p by_fragment" and keys: "set keys \<subseteq> set (keys_of by_fragment)"
  shows "binding_inv d p by_fragment' \<and> set keys' \<subseteq> set (keys_of by_fragment')
    \<and> set (keys_of by_fragment) \<subseteq> set (keys_of by_fragment') \<and> length keys' = Suc (length keys)"
proof -
  obtain fid quote where ref: "ref = (fid, quote)" by (cases ref)
  from step obtain f where f: "fragment_by_id (pd_fragments p) fid = Some f" "fr_content_hash f = quote"
    by (auto simp: bind_reference_def ref split: option.splits if_splits)
  show ?thesis
  proof (cases "dict_get by_fragment fid")
    case (Some e)
    then have "ed_evidence_key e \<in> set (keys_of by_fragment)"
      unfolding dict_get_def keys_of_def by (force dest: map_of_SomeD)
    with step inv keys f Some show ?thesis
      by (auto simp: bind_reference_def ref)
  next
    case None
    let ?e = "draft_evidence d p f quote"
    have new: "by_fragment' = by_fragment @ [(fid, ?e)]" "keys' = keys @ [ed_evidence_key ?e]"
      using step f None by (auto simp: bind_reference_def ref Let_def dict_put_fresh)
    have "fid \<notin> set (map fst by_fragment)"
      using None by (simp add: dict_get_def map_of_eq_None_iff)
    moreover have "evidence_ok d p (fid, ?e)"
      using fragment_by_id_mem [OF f(1)] f(2) by (auto simp: evidence_ok_def)
    ultimately show ?thesis
      using inv keys by (auto simp: new binding_inv_def keys_of_def)
  qed
qed

lemma bind_references_step:
  assumes "foldE (bind_reference d p) (by_fragment, keys) refs = Inr (by_fragment', keys')"
    and "binding_inv d p by_fragment" and "set keys \<subseteq> set (keys_of by_fragment)"
  shows "binding_inv d p by_fragment' \<and> set keys' \<subseteq> set (keys_of by_fragment')
    \<and> set (keys_of by_fragment) \<subseteq> set (keys_of by_fragment')"
  using assms
proof (induction refs arbitrary: by_fragment keys)
  case (Cons ref refs)
  then obtain bf ks where one: "bind_reference d p (by_fragment, keys) ref = Inr (bf, ks)"
    "foldE (bind_reference d p) (bf, ks) refs = Inr (by_fragment', keys')"
    by (auto simp: bindE_eq_Inr)
  note step = bind_reference_step [OF one(1) Cons.prems(2,3)]
  from Cons.IH [OF one(2)] step show ?case by blast
qed simp

lemma build_candidate_ok:
  "build_candidate op c b keys = Inr x \<Longrightarrow> set keys \<subseteq> set ks \<Longrightarrow> candidate_ok ks x"
  by (auto simp: build_candidate_def Let_def candidate_ok_def split: if_splits)

lemma candidate_ok_mono: "candidate_ok ks c \<Longrightarrow> set ks \<subseteq> set ks' \<Longrightarrow> candidate_ok ks' c"
  by (auto simp: candidate_ok_def)

definition claims_inv ::
    "institutional_document \<Rightarrow> parsed_document \<Rightarrow> (string \<times> evidence_draft) list \<times> candidate_draft list \<Rightarrow> bool" where
  "claims_inv d p acc = (binding_inv d p (fst acc) \<and> list_all (candidate_ok (keys_of (fst acc))) (snd acc))"

lemma bind_claim_inv:
  assumes step: "bind_claim d p op b acc c = Inr acc'" and inv: "claims_inv d p acc"
  shows "claims_inv d p acc' \<and> length (snd acc') = Suc (length (snd acc))"
proof -
  from step obtain bf keys x where bound: "bind_evidence d p c (fst acc) = Inr (bf, keys)"
    "build_candidate op c b keys = Inr x" "acc' = (bf, snd acc @ [x])"
    by (auto simp: bind_claim_def bindE_eq_Inr)
  have "binding_inv d p bf \<and> set keys \<subseteq> set (keys_of bf) \<and> set (keys_of (fst acc)) \<subseteq> set (keys_of bf)"
    using bound(1) inv unfolding bind_evidence_def by (intro bind_references_step) (auto simp: claims_inv_def)
  then show ?thesis
    using inv build_candidate_ok [OF bound(2)]
    by (auto simp: claims_inv_def bound(3) list_all_iff intro: candidate_ok_mono)
qed

lemma bind_claims_inv:
  "foldE (bind_claim d p op b) acc cs = Inr acc' \<Longrightarrow> claims_inv d p acc \<Longrightarrow>
    claims_inv d p acc' \<and> length (snd acc') = length (snd acc) + length cs"
proof (induction cs arbitrary: acc)
  case (Cons c cs)
  then obtain a where a: "bind_claim d p op b acc c = Inr a" "foldE (bind_claim d p op b) a cs = Inr acc'"
    by (auto simp: bindE_eq_Inr)
  note step = bind_claim_inv [OF a(1) Cons.prems(2)]
  from Cons.IH [OF a(2)] step show ?case by simp
qed simp

lemma draft_evidence_fields [simp]:
  "ed_fragment_id (draft_evidence d p f q) = fr_fragment_id f" "ed_text (draft_evidence d p f q) = fr_text f"
  "ed_content_hash (draft_evidence d p f q) = fr_content_hash f" "ed_quote_hash (draft_evidence d p f q) = q"
  by (simp_all add: draft_evidence_def)

definition quotes :: "document_fragment list \<Rightarrow> evidence_draft \<Rightarrow> bool" where
  "quotes fs e = list_ex (\<lambda>f. fr_fragment_id f = ed_fragment_id e \<and> fr_text f = ed_text e
     \<and> fr_content_hash f = ed_content_hash e \<and> fr_content_hash f = ed_quote_hash e) fs"

lemma evidence_ok_quotes:
  "evidence_ok d p fe \<Longrightarrow> ed_fragment_id (snd fe) = fst fe \<and> quotes (pd_fragments p) (snd fe)"
  unfolding evidence_ok_def quotes_def list_ex_iff by (cases fe) auto

lemma boundary_never_admits [simp]:
  "br_admitted (boundary_evaluate d c keys) = False" "br_canonical_claim_id (boundary_evaluate d c keys) = None"
  "br_candidate_claim_id (boundary_evaluate d c keys) = cd_candidate_claim_id c"
  by (simp_all add: boundary_evaluate_def Let_def)

lemma boundary_ready:
  "candidate_ok keys c \<Longrightarrow>
    br_handoff_ready (boundary_evaluate d c keys) = (id_rights_status d = ''COMMERCIAL_REUSE_WITH_ATTRIBUTION'')"
  by (auto simp: boundary_evaluate_def Let_def candidate_ok_def list_ex_iff)

lemma inspect_ok: "inspect_document p = Inr u \<Longrightarrow>
    list_all (\<lambda>f. list_all (\<lambda>(_, pattern). \<not> search pattern (fr_text f)) blocked_patterns) (pd_fragments p)"
  by (auto simp: inspect_document_def detections_def Let_def list_all_iff filter_empty_conv split: if_splits)

lemma execute_elim:
  assumes "execute_pipeline g d op q t = Inr r"
  obtains p b bf cs dossier where "parse_document d = Inr p" "inspect_document p = Inr ()"
    "mg_propose g p q = Inr b" "verify_model_identity g b = Inr ()" "claims_inv d p (bf, cs)"
    "length cs = length (pb_claims b)" "draft_dossier d cs (pb_explicit_unknowns b) = Inr dossier"
    "r = pipeline_outcome d p b (map snd bf) cs dossier t"
proof -
  from assms obtain p b bf cs dossier where parts: "parse_document d = Inr p" "inspect_document p = Inr ()"
    "mg_propose g p q = Inr b" "verify_model_identity g b = Inr ()"
    "foldE (bind_claim d p op b) ([], []) (pb_claims b) = Inr (bf, cs)"
    "draft_dossier d cs (pb_explicit_unknowns b) = Inr dossier"
    "r = pipeline_outcome d p b (map snd bf) cs dossier t"
    by (auto simp: execute_pipeline_def bindE_eq_Inr)
  have "claims_inv d p ([], [])"
    by (simp add: claims_inv_def binding_inv_def)
  from bind_claims_inv [OF parts(5) this] have "claims_inv d p (bf, cs)" "length cs = length (pb_claims b)"
    by simp_all
  with parts show thesis by (intro that)
qed

section \<open>Properties\<close>

text \<open>C36: The deterministic parser keeps the whole text: it fails only when there is no paragraph or there are
  more than a hundred; otherwise its fragments are numbered from 0, each is the slice of the
  normalised text its offsets say, they follow one another without overlap, and together they
  hold every character of the document that is not white space, in order.\<close>

theorem parser_keeps_text:
  "case parse_document d of
     Inl e \<Rightarrow> paragraphs_of (normalise_content (id_content d)) = []
       \<or> 100 < length (paragraphs_of (normalise_content (id_content d)))
   | Inr p \<Rightarrow> map fr_ordinal (pd_fragments p) = [0..<length (pd_fragments p)]
       \<and> list_all (\<lambda>f. take (fr_end_char f - fr_start_char f) (drop (fr_start_char f)
            (normalise_content (id_content d))) = fr_text f) (pd_fragments p)
       \<and> sorted_wrt (\<lambda>f g. fr_end_char f \<le> fr_start_char g) (pd_fragments p)
       \<and> filter (\<lambda>c. \<not> is_ws c) (concat (map fr_text (pd_fragments p)))
           = filter (\<lambda>c. \<not> is_ws c) (id_content d)"
proof (cases rule: parse_document_cases [of d])
  case (parsed fs)
  have "ink (concat (map fr_text fs)) = ink (id_content d)"
    unfolding parsed(2) using woven_ink [OF paragraphs_woven] ink_normalise by simp
  then show ?thesis
    using parsed by (auto simp: placed_def ink_def list_all_iff)
qed simp_all

text \<open>C35: Whatever the model gateway proposes, the pipeline has proposal authority only: it writes no
  canonical claim, every candidate is queued and unadmitted, and is bound to at least one
  evidence object of the run, each made from a fragment of the parsed document with its exact text
  and hash; and no fragment of an accepted document matches a blocked pattern.\<close>

theorem pipeline_proposes_only:
  "case execute_pipeline g d opportunity_id question completed_at of
     Inl e \<Rightarrow> True
   | Inr r \<Rightarrow> pi_canonical_claims r = []
       \<and> pg_model_authority_blocked (pi_gates r)
       \<and> pg_admission_independent (pi_gates r)
           = (pi_candidate_claims r = [] \<or> id_rights_status d = ''COMMERCIAL_REUSE_WITH_ATTRIBUTION'')
       \<and> map br_candidate_claim_id (pi_admission_results r) = map cd_candidate_claim_id (pi_candidate_claims r)
       \<and> list_all (\<lambda>b. \<not> br_admitted b \<and> br_canonical_claim_id b = None) (pi_admission_results r)
       \<and> list_all (candidate_ok (map ed_evidence_key (pi_evidence r))) (pi_candidate_claims r)
       \<and> distinct (map ed_fragment_id (pi_evidence r))
       \<and> list_all (quotes (pi_fragments r)) (pi_evidence r)
       \<and> list_all (\<lambda>f. list_all (\<lambda>(_, pattern). \<not> search pattern (fr_text f)) blocked_patterns) (pi_fragments r)"
proof (cases "execute_pipeline g d opportunity_id question completed_at")
  case (Inr r)
  then obtain p b bf cs dossier where parts: "inspect_document p = Inr ()" "claims_inv d p (bf, cs)"
    "r = pipeline_outcome d p b (map snd bf) cs dossier completed_at"
    by (rule execute_elim)
  have inv: "distinct (map fst bf)" "list_all (evidence_ok d p) bf" "list_all (candidate_ok (keys_of bf)) cs"
    using parts(2) by (simp_all add: claims_inv_def binding_inv_def)
  have keys: "keys_of bf = map ed_evidence_key (map snd bf)"
    by (simp add: keys_of_def)
  have ids: "map ed_fragment_id (map snd bf) = map fst bf"
    using inv(2) evidence_ok_quotes by (auto simp: list_all_iff)
  have bound: "list_all (quotes (pd_fragments p)) (map snd bf)"
    using inv(2) evidence_ok_quotes by (auto simp: list_all_iff)
  have ready: "list_all br_handoff_ready (map (\<lambda>c. boundary_evaluate d c (keys_of bf)) cs)
      = (cs = [] \<or> id_rights_status d = ''COMMERCIAL_REUSE_WITH_ATTRIBUTION'')"
  proof -
    have "list_all br_handoff_ready (map (\<lambda>c. boundary_evaluate d c (keys_of bf)) cs)
        = list_all (\<lambda>c. id_rights_status d = ''COMMERCIAL_REUSE_WITH_ATTRIBUTION'') cs"
      using inv(3) boundary_ready unfolding list_all_iff set_map by blast
    also have "\<dots> = (cs = [] \<or> id_rights_status d = ''COMMERCIAL_REUSE_WITH_ATTRIBUTION'')"
      by (cases cs) (auto simp: list_all_iff)
    finally show ?thesis .
  qed
  have blocked: "list_all (\<lambda>r. \<not> br_admitted r \<and> br_canonical_claim_id r = None)
      (map (\<lambda>c. boundary_evaluate d c (keys_of bf)) cs)"
    by (simp add: list_all_iff)
  show ?thesis
    unfolding Inr sum.case parts(3) pipeline_outcome_def Let_def pipeline_result.select_convs
      pipeline_gates.select_convs keys [symmetric] ready ids
    using inv(1,3) bound blocked inspect_ok [OF parts(1)] by (simp add: comp_def)
qed simp

text \<open>The rule against ignored instructions detects a fragment exactly when its lower case contains
  one of six phrases with single blanks between the words. The parser keeps the line breaks of a
  paragraph, so the same words wrapped over two lines are not detected.\<close>

theorem ignore_rule_iff:
  "search (snd (hd blocked_patterns)) text =
     list_ex (\<lambda>phrase. contains phrase (lower text))
       [''ignore all previous instructions'', ''ignore all prior instructions'',
        ''ignore the previous instructions'', ''ignore the prior instructions'',
        ''ignore previous instructions'', ''ignore prior instructions'']"
  by (simp add: literal_search blocked_patterns_def)

lemma wrapped_instruction_missed:
  "CHR '' '' \<notin> set (lower text) \<Longrightarrow> \<not> search (snd (hd blocked_patterns)) text"
  by (auto simp: literal_search blocked_patterns_def contains_iff)

end
