(* ===== verification/PyJson.thy ===== *)
theory PyJson
  imports PyData
begin

text \<open>
  Reading parsed JSON the way untyped Python code does: subscripts, \<^verbatim>\<open>.get\<close>, iteration, membership,
  truth and equality of values whose shape is not known, with the exceptions a wrong shape raises;
  \<^verbatim>\<open>UUID(text)\<close> and the decimal numbers.
\<close>

section \<open>Subscripts and iteration\<close>

definition py_item :: "pyval \<Rightarrow> string \<Rightarrow> pyval result" where
  \<comment> \<open>\<^verbatim>\<open>v[k]\<close>\<close>
  "py_item v k = (case v of
     PDict d \<Rightarrow> (case map_of d k of Some x \<Rightarrow> Inr x | None \<Rightarrow> Inl (KeyError (repr_str k)))
   | _ \<Rightarrow> Inl (TypeError ''not subscriptable with a string''))"

definition py_get :: "pyval \<Rightarrow> string \<Rightarrow> pyval result" where
  \<comment> \<open>\<^verbatim>\<open>v.get(k)\<close>\<close>
  "py_get v k = (case v of
     PDict d \<Rightarrow> Inr (case map_of d k of Some x \<Rightarrow> x | None \<Rightarrow> PNone)
   | _ \<Rightarrow> Inl (AttributeError ''get''))"

definition py_str :: "pyval \<Rightarrow> string" where
  \<comment> \<open>\<^verbatim>\<open>str(v)\<close>\<close>
  "py_str v = (case v of PStr s \<Rightarrow> s | _ \<Rightarrow> repr v)"

definition py_iter :: "pyval \<Rightarrow> pyval list result" where
  "py_iter v = (case v of
     PList xs \<Rightarrow> Inr xs
   | PTuple xs \<Rightarrow> Inr xs
   | PDict d \<Rightarrow> Inr (map (\<lambda>kv. PStr (fst kv)) d)
   | PStr s \<Rightarrow> Inr (map (\<lambda>c. PStr [c]) s)
   | _ \<Rightarrow> Inl (TypeError ''not iterable''))"

definition py_len :: "pyval \<Rightarrow> nat result" where
  "py_len v = bindE (py_iter v) (\<lambda>xs. Inr (length xs))"

text \<open>\<^verbatim>\<open>any(p(x) for x in xs)\<close> with a test that may raise.\<close>

fun anyE :: "('a \<Rightarrow> bool result) \<Rightarrow> 'a list \<Rightarrow> bool result" where
  "anyE p [] = Inr False"
| "anyE p (x # xs) = bindE (p x) (\<lambda>b. if b then Inr True else anyE p xs)"

section \<open>Numbers\<close>

definition digits_value :: "string \<Rightarrow> int" where
  "digits_value s = foldl (\<lambda>n c. 10 * n + int (digit_value c)) 0 s"

definition exponent_value :: "string \<Rightarrow> int option" where
  \<comment> \<open>the text after an \<^verbatim>\<open>e\<close>\<close>
  "exponent_value s =
     (let (neg, ds) = (case s of c # r \<Rightarrow> if c = CHR ''-'' then (True, r) else if c = CHR ''+'' then (False, r) else (False, s)
                      | [] \<Rightarrow> (False, []))
      in if ds \<noteq> [] \<and> list_all is_digit ds then Some (if neg then - digits_value ds else digits_value ds) else None)"

definition scale10 :: "int \<Rightarrow> int \<Rightarrow> rat" where
  "scale10 n e = (if 0 \<le> e then of_int (n * 10 ^ nat e) else Fract n (10 ^ nat (- e)))"

definition unsigned_decimal :: "string \<Rightarrow> rat option" where
  \<comment> \<open>\<^verbatim>\<open>digits[.digits][e[sign]digits]\<close>\<close>
  "unsigned_decimal s =
     (let ip = takeWhile is_digit s; r = dropWhile is_digit s;
          (fp, t) = (case r of c # q \<Rightarrow> if c = CHR ''.'' then (takeWhile is_digit q, dropWhile is_digit q) else ([], r)
                     | [] \<Rightarrow> ([], []));
          n = digits_value (ip @ fp); k = int (length fp)
      in if ip @ fp = [] then None
         else case t of [] \<Rightarrow> Some (scale10 n (- k))
            | c # q \<Rightarrow> if c = CHR ''e'' \<or> c = CHR ''E''
                       then map_option (\<lambda>e. scale10 n (e - k)) (exponent_value q) else None)"

definition decimal_value :: "string \<Rightarrow> rat option" where
  "decimal_value s = (case s of
     c # r \<Rightarrow> if c = CHR ''-'' then map_option uminus (unsigned_decimal r)
             else if c = CHR ''+'' then unsigned_decimal r else unsigned_decimal s
   | [] \<Rightarrow> None)"

definition py_float :: "pyval \<Rightarrow> rat result" where
  \<comment> \<open>\<^verbatim>\<open>float(v)\<close> by the value of its decimal text\<close>
  "py_float v = (case v of
     PBool b \<Rightarrow> Inr (if b then 1 else 0)
   | PInt i \<Rightarrow> Inr (of_int i)
   | PFloat r \<Rightarrow> (case decimal_value r of Some x \<Rightarrow> Inr x | None \<Rightarrow> Inl (ValueError ''float''))
   | PStr s \<Rightarrow> (case decimal_value (strip s) of Some x \<Rightarrow> Inr x | None \<Rightarrow> Inl (ValueError ''float''))
   | _ \<Rightarrow> Inl (TypeError ''float''))"

definition number_of :: "pyval \<Rightarrow> rat option" where
  "number_of v = (case v of
     PBool b \<Rightarrow> Some (if b then 1 else 0) | PInt i \<Rightarrow> Some (of_int i) | PFloat r \<Rightarrow> decimal_value r | _ \<Rightarrow> None)"

definition py_truthy :: "pyval \<Rightarrow> bool" where
  "py_truthy v = (case v of
     PNone \<Rightarrow> False | PBool b \<Rightarrow> b | PInt i \<Rightarrow> i \<noteq> 0 | PFloat r \<Rightarrow> decimal_value r \<noteq> Some 0
   | PStr s \<Rightarrow> s \<noteq> [] | PList xs \<Rightarrow> xs \<noteq> [] | PTuple xs \<Rightarrow> xs \<noteq> [] | PDict d \<Rightarrow> d \<noteq> [])"

section \<open>Equality\<close>

text \<open>\<^verbatim>\<open>a == b\<close>: numbers by value, so \<^verbatim>\<open>True == 1 == 1.0\<close>, and dictionaries whatever the order of keys.\<close>

fun py_eq :: "pyval \<Rightarrow> pyval \<Rightarrow> bool" where
  "py_eq PNone w = (w = PNone)"
| "py_eq (PStr s) w = (w = PStr s)"
| "py_eq (PList xs) w = (case w of PList ys \<Rightarrow> list_all2 (\<lambda>e y. e y) (map py_eq xs) ys | _ \<Rightarrow> False)"
| "py_eq (PTuple xs) w = (case w of PTuple ys \<Rightarrow> list_all2 (\<lambda>e y. e y) (map py_eq xs) ys | _ \<Rightarrow> False)"
| "py_eq (PDict d) w = (case w of
     PDict d' \<Rightarrow> list_all (\<lambda>(k, e). case map_of d' k of Some y \<Rightarrow> e y | None \<Rightarrow> False) (map (\<lambda>(k, v). (k, py_eq v)) d)
       \<and> list_all (\<lambda>k. k \<in> fst ` set d) (map fst d')
   | _ \<Rightarrow> False)"
| "py_eq v w = (case number_of w of Some y \<Rightarrow> number_of v = Some y | None \<Rightarrow> v = w)"

text \<open>A value whose dictionaries have distinct keys, as every parsed JSON value has.\<close>

fun keyed :: "pyval \<Rightarrow> bool" where
  "keyed (PList xs) = list_all keyed xs"
| "keyed (PTuple xs) = list_all keyed xs"
| "keyed (PDict d) = (distinct (map fst d) \<and> list_all (\<lambda>(k, b). b) (map (\<lambda>(k, v). (k, keyed v)) d))"
| "keyed v = True"

lemma py_eq_refl: "keyed v \<Longrightarrow> py_eq v v"
proof (induction v rule: keyed.induct)
  case (1 xs)
  then show ?case by (auto simp: list_all2_conv_all_nth list_all_length)
next
  case (2 xs)
  then show ?case by (auto simp: list_all2_conv_all_nth list_all_length)
next
  case (3 d)
  have "py_eq v v" if "(k, v) \<in> set d" for k v
    using 3 that by (force simp: list_all_iff)
  moreover have "map_of d k = Some v" if "(k, v) \<in> set d" for k v
    using 3(2) that by simp
  ultimately show ?case by (force simp: list_all_iff)
qed (simp_all add: number_of_def split: option.splits)

definition py_in :: "pyval \<Rightarrow> pyval \<Rightarrow> bool result" where
  \<comment> \<open>\<^verbatim>\<open>x in c\<close>\<close>
  "py_in x c = (case c of
     PList ys \<Rightarrow> Inr (list_ex (py_eq x) ys)
   | PTuple ys \<Rightarrow> Inr (list_ex (py_eq x) ys)
   | PDict d \<Rightarrow> (case x of PStr s \<Rightarrow> Inr (s \<in> fst ` set d)
                | PList _ \<Rightarrow> Inl (TypeError ''unhashable'') | PDict _ \<Rightarrow> Inl (TypeError ''unhashable'') | _ \<Rightarrow> Inr False)
   | PStr t \<Rightarrow> (case x of PStr s \<Rightarrow> Inr (contains s t) | _ \<Rightarrow> Inl (TypeError ''in <string> requires string''))
   | _ \<Rightarrow> Inl (TypeError ''not iterable''))"

section \<open>UUID texts\<close>

text \<open>
  \<^verbatim>\<open>UUID(hex)\<close> drops \<^verbatim>\<open>urn:\<close>, \<^verbatim>\<open>uuid:\<close>, braces around the text and hyphens, and reads 32 characters with
  \<^verbatim>\<open>int(hex, 16)\<close>, which also takes underscores between digits, surrounding white space, a plus sign
  and a \<^verbatim>\<open>0x\<close> prefix. The value is its canonical text.
\<close>

fun replace_all :: "string \<Rightarrow> nat \<Rightarrow> string \<Rightarrow> string" where
  \<comment> \<open>\<^verbatim>\<open>s.replace(sub, "")\<close> for a nonempty \<^verbatim>\<open>sub\<close>; the number counts characters still to drop\<close>
  "replace_all sub n [] = []"
| "replace_all sub (Suc n) (c # s) = replace_all sub n s"
| "replace_all sub 0 (c # s) =
     (if starts_with sub (c # s) then replace_all sub (length sub - 1) s else c # replace_all sub 0 s)"

definition hex_value :: "char \<Rightarrow> nat option" where
  "hex_value c =
     (if is_digit c then Some (code c - 48)
      else if 97 \<le> code c \<and> code c \<le> 102 then Some (code c - 87)
      else if 65 \<le> code c \<and> code c \<le> 70 then Some (code c - 55) else None)"

fun hex_rest :: "nat \<Rightarrow> string \<Rightarrow> nat option" where
  \<comment> \<open>after a digit: more digits, each possibly after one underscore\<close>
  "hex_rest n [] = Some n"
| "hex_rest n (c # s) =
     (case hex_value c of
        Some v \<Rightarrow> hex_rest (16 * n + v) s
      | None \<Rightarrow> if c = CHR ''_''
                then (case s of d # t \<Rightarrow> (case hex_value d of Some v \<Rightarrow> hex_rest (16 * n + v) t | None \<Rightarrow> None)
                      | [] \<Rightarrow> None)
                else None)"

definition hex_prefix :: "string \<Rightarrow> string" where
  \<comment> \<open>drops \<^verbatim>\<open>0x\<close> and an underscore after it\<close>
  "hex_prefix s = (case s of
     a # b # r \<Rightarrow> if a = CHR ''0'' \<and> (b = CHR ''x'' \<or> b = CHR ''X'')
                  then (case r of c # t \<Rightarrow> if c = CHR ''_'' then t else r | [] \<Rightarrow> [])
                  else s
   | _ \<Rightarrow> s)"

definition int_base16 :: "string \<Rightarrow> int option" where
  "int_base16 s =
     (let t = strip s;
          (neg, u) = (case t of c # r \<Rightarrow> if c = CHR ''-'' then (True, r) else if c = CHR ''+'' then (False, r) else (False, t)
                      | [] \<Rightarrow> (False, []))
      in case hex_prefix u of
           [] \<Rightarrow> None
         | c # r \<Rightarrow> (case hex_value c of
                        Some v \<Rightarrow> map_option (\<lambda>n. if neg then - int n else int n) (hex_rest v r)
                      | None \<Rightarrow> None))"

definition hex_text :: "nat \<Rightarrow> nat \<Rightarrow> string" where
  \<comment> \<open>\<^verbatim>\<open>"%0{k}x" % n\<close> for a number below 16 to the k\<close>
  "hex_text k n = rev (map (\<lambda>i. hex_digit (n div 16 ^ i mod 16)) [0..<k])"

definition uuid_text :: "nat \<Rightarrow> string" where
  "uuid_text n = (let h = hex_text 32 n in
     take 8 h @ ''-'' @ take 4 (drop 8 h) @ ''-'' @ take 4 (drop 12 h) @ ''-'' @ take 4 (drop 16 h) @ ''-'' @ drop 20 h)"

definition is_brace :: "char \<Rightarrow> bool" where
  "is_brace c = (c = CHR ''{'' \<or> c = CHR ''}'')"

definition uuid_of_text :: "string \<Rightarrow> string result" where
  "uuid_of_text s =
     (let t = replace_all ''uuid:'' 0 (replace_all ''urn:'' 0 s);
          u = rev (dropWhile is_brace (rev (dropWhile is_brace t)));
          h = filter (\<lambda>c. c \<noteq> CHR ''-'') u
      in if length h \<noteq> 32 then Inl (ValueError ''badly formed hexadecimal UUID string'')
         else case int_base16 h of
                None \<Rightarrow> Inl (ValueError ''invalid literal for int() with base 16'')
              | Some n \<Rightarrow> if n < 0 then Inl (ValueError ''int is out of range (need a 128-bit value)'')
                          else Inr (uuid_text (nat n)))"

definition uuid_of :: "pyval \<Rightarrow> string result" where
  "uuid_of v = (case v of
     PStr s \<Rightarrow> uuid_of_text s
   | PNone \<Rightarrow> Inl (TypeError ''one of the hex, bytes, bytes_le, fields, or int arguments must be given'')
   | _ \<Rightarrow> Inl (AttributeError ''replace''))"

section \<open>Reading a canonical UUID back\<close>

definition hexes :: "string \<Rightarrow> bool" where
  "hexes s = list_all (\<lambda>c. hex_value c \<noteq> None) s"

lemma hex_value_digit: "n < 16 \<Longrightarrow> hex_value (hex_digit n) = Some n"
  by (auto simp: hex_value_def hex_digit_def code_char_of is_digit_def)

lemma hexes_text: "hexes (hex_text k n)"
  by (simp add: hexes_def hex_text_def list_all_iff hex_value_digit)

lemma hex_rest_append: "hexes s \<Longrightarrow> hex_rest n (s @ t) = hex_rest (foldl (\<lambda>a c. 16 * a + the (hex_value c)) n s) t"
  by (induction s arbitrary: n) (auto simp: hexes_def)

lemma hex_text_Suc: "hex_text (Suc k) n = hex_text k (n div 16) @ [hex_digit (n mod 16)]"
proof -
  have "[0..<Suc k] = 0 # map Suc [0..<k]"
    by (simp add: upt_conv_Cons map_Suc_upt del: upt_Suc)
  then show ?thesis
    by (simp add: hex_text_def comp_def div_mult2_eq del: upt_Suc)
qed

lemma hex_text_value: "n < 16 ^ k \<Longrightarrow> foldl (\<lambda>a c. 16 * a + the (hex_value c)) m (hex_text k n) = m * 16 ^ k + n"
proof (induction k arbitrary: n)
  case 0
  then show ?case by (simp add: hex_text_def)
next
  case (Suc k)
  then have "n div 16 < 16 ^ k" by (simp add: less_mult_imp_div_less mult.commute)
  from Suc.IH [OF this] show ?case
    by (simp add: hex_text_Suc hex_value_digit algebra_simps)
qed

lemma hex_rest_bound: "hex_rest n s = Some m \<Longrightarrow> m < (n + 1) * 16 ^ length s"
proof (induction n s rule: hex_rest.induct)
  case (2 n c s)
  have digit: "v < 16" if "hex_value d = Some v" for d v
    using that by (auto simp: hex_value_def is_digit_def split: if_splits)
  have grow: "(16 * n + v + 1) * 16 ^ l \<le> (n + 1) * 16 ^ Suc l" if "v < 16" for v l
  proof -
    have "16 * n + v + 1 \<le> (n + 1) * 16" using that by simp
    then have "(16 * n + v + 1) * 16 ^ l \<le> (n + 1) * 16 * 16 ^ l" by (rule mult_le_mono1)
    then show ?thesis by (simp only: mult.assoc power_Suc)
  qed
  show ?case
  proof (cases "hex_value c")
    case (Some v)
    with 2 digit [OF Some] grow [of v "length s"] show ?thesis by fastforce
  next
    case None
    with "2.prems" obtain d t v where d: "s = d # t" "hex_value d = Some v" "c = CHR ''_''"
      "hex_rest (16 * n + v) t = Some m"
      by (auto split: if_splits list.splits option.splits)
    from "2.IH"(1) [OF None d(3,1,2,4)] digit [OF d(2)] grow [of v "length t"]
    have "m < (n + 1) * 16 ^ Suc (length t)" by fastforce
    also have "\<dots> \<le> (n + 1) * 16 ^ length (c # s)" by (simp add: d(1))
    finally show ?thesis .
  qed
qed simp

lemma hexes_chars:
  assumes "hexes s" and "c \<in> set s"
  shows "\<not> is_ws c" "c \<noteq> CHR ''-''" "c \<noteq> CHR ''+''" "c \<noteq> CHR ''x''" "c \<noteq> CHR ''X''"
    "c \<noteq> CHR ''u''" "\<not> is_brace c"
  using assms unfolding hexes_def list_all_iff
  by (auto simp: hex_value_def is_digit_def is_ws_def is_brace_def code_def Let_def split: if_splits)

lemma dropWhile_none: "\<forall>c\<in>set s. \<not> P c \<Longrightarrow> dropWhile P s = s"
  by (cases s) auto

lemma strip_hexes: "hexes s \<Longrightarrow> strip s = s"
  unfolding strip_def using hexes_chars(1) by (simp add: dropWhile_none)

lemma int_base16_text:
  assumes "hexes (c # s)"
  shows "int_base16 (c # s) = map_option int (hex_rest (the (hex_value c)) s)"
proof -
  have "c \<noteq> CHR ''-''" "c \<noteq> CHR ''+''"
    using hexes_chars [OF assms] by auto
  moreover have "hex_prefix (c # s) = c # s"
    using hexes_chars [OF assms] by (cases s) (auto simp: hex_prefix_def)
  ultimately show ?thesis
    using assms by (auto simp: int_base16_def strip_hexes Let_def hexes_def split: option.splits)
qed

lemma replace_all_absent: "CHR ''u'' \<notin> set s \<Longrightarrow> replace_all (CHR ''u'' # sub) 0 s = s"
  by (induction s) (auto simp: starts_with_def)

lemma length_hex_text [simp]: "length (hex_text k n) = k"
  by (simp add: hex_text_def)

text \<open>The canonical text is read back as it is, and reading always returns a canonical text.\<close>

lemma uuid_of_text_canonical:
  assumes "n < 16 ^ 32"
  shows "uuid_of_text (uuid_text n) = Inr (uuid_text n)"
proof -
  let ?h = "hex_text 32 n" and ?u = "uuid_text n"
  have hex: "hexes ?h" by (rule hexes_text)
  have chars: "set ?u \<subseteq> set ?h \<union> {CHR ''-''}"
    by (auto simp: uuid_text_def Let_def dest: in_set_takeD in_set_dropD)
  have "CHR ''u'' \<notin> set ?h \<union> {CHR ''-''}" "\<forall>c\<in>set ?h \<union> {CHR ''-''}. \<not> is_brace c"
    using hexes_chars(6,7) [OF hex] by (auto simp: is_brace_def)
  with chars have plain: "CHR ''u'' \<notin> set ?u" "\<forall>c\<in>set ?u. \<not> is_brace c"
    by blast+
  have trims: "rev (dropWhile is_brace (rev (dropWhile is_brace ?u))) = ?u"
    using plain(2) by (simp add: dropWhile_none)
  have dashes: "filter (\<lambda>c. c \<noteq> CHR ''-'') (take k (drop l ?h)) = take k (drop l ?h)" for k l
    using hexes_chars(2) [OF hex] by (auto simp: filter_id_conv dest: in_set_takeD in_set_dropD)
  have rejoin: "take 8 ?h @ take 4 (drop 8 ?h) @ take 4 (drop 12 ?h) @ take 4 (drop 16 ?h) @ drop 20 ?h = ?h"
  proof -
    have "take 4 (drop 16 ?h) @ drop 20 ?h = drop 16 ?h"
      using append_take_drop_id [of 4 "drop 16 ?h"] by simp
    moreover have "take 4 (drop 12 ?h) @ drop 16 ?h = drop 12 ?h"
      using append_take_drop_id [of 4 "drop 12 ?h"] by simp
    moreover have "take 4 (drop 8 ?h) @ drop 12 ?h = drop 8 ?h"
      using append_take_drop_id [of 4 "drop 8 ?h"] by simp
    ultimately show ?thesis by simp
  qed
  have hexpart: "filter (\<lambda>c. c \<noteq> CHR ''-'') ?u = ?h"
    using dashes [of _ 0] dashes [of "length ?h"] rejoin by (simp add: uuid_text_def Let_def dashes)
  obtain c s where cs: "?h = c # s"
    by (cases ?h) (use length_hex_text [of 32 n] in auto)
  have "hex_rest (the (hex_value c)) s = Some n"
    using hex_text_value [OF assms, of 0] hex_rest_append [of s "the (hex_value c)" "[]"] hex
    by (simp add: cs hexes_def)
  then have "int_base16 ?h = Some (int n)"
    using int_base16_text hex by (simp add: cs)
  then show ?thesis
    using hexpart trims plain(1) by (simp add: uuid_of_text_def replace_all_absent Let_def)
qed

lemma sign_length:
  "(case y of c # r \<Rightarrow> if c = CHR ''-'' then (True, r) else if c = CHR ''+'' then (False, r) else (False, y)
    | [] \<Rightarrow> (False, [])) = (neg, t) \<Longrightarrow> length t \<le> length y"
  by (cases y) (auto split: if_splits)

lemma uuid_of_text_range:
  assumes "uuid_of_text s = Inr u"
  shows "\<exists>n < 16 ^ 32. u = uuid_text n"
proof -
  obtain h i where h: "length h = 32" "int_base16 h = Some i" "0 \<le> i" "u = uuid_text (nat i)"
    using assms by (auto simp: uuid_of_text_def Let_def split: if_splits option.splits)
  have "nat i < 16 ^ 32"
  proof -
    have "length (strip h) \<le> 32"
      unfolding strip_def h(1) [symmetric] by (metis length_dropWhile_le length_rev order_trans)
    obtain neg t where t: "(case strip h of c # r \<Rightarrow> if c = CHR ''-'' then (True, r)
        else if c = CHR ''+'' then (False, r) else (False, strip h) | [] \<Rightarrow> (False, [])) = (neg, t)"
      by fastforce
    then have "length t \<le> length (strip h)"
      by (rule sign_length)
    moreover from h(2) obtain c r where c: "hex_prefix t = c # r"
      unfolding int_base16_def Let_def t by (auto split: list.splits)
    moreover from h(2) obtain v where v: "hex_value c = Some v"
      unfolding int_base16_def Let_def t by (auto simp: c split: option.splits)
    moreover from h(2) obtain n where n: "hex_rest v r = Some n" "i = (if neg then - int n else int n)"
      unfolding int_base16_def Let_def t by (auto simp: c v split: if_splits)
    ultimately have parts: "length t \<le> length (strip h)" "hex_prefix t = c # r" "hex_value c = Some v"
      "hex_rest v r = Some n" "nat i \<le> n"
      by (auto split: if_splits)
    have "length (hex_prefix t) \<le> length t"
      by (auto simp: hex_prefix_def split: list.splits)
    then have "length r \<le> 31" using parts(1,2) \<open>length (strip h) \<le> 32\<close> by simp
    moreover have "v + 1 \<le> 16"
      using parts(3) by (auto simp: hex_value_def is_digit_def split: if_splits)
    ultimately have "(v + 1) * 16 ^ length r \<le> (16 :: nat) * 16 ^ 31"
      by (intro mult_mono power_increasing) auto
    with hex_rest_bound [OF parts(4)] parts(5) show ?thesis by simp
  qed
  with h(4) show ?thesis by blast
qed

lemma uuid_of_text_idem: "uuid_of_text s = Inr u \<Longrightarrow> uuid_of_text u = Inr u"
  using uuid_of_text_range uuid_of_text_canonical by blast

end
