(* ===== verification/AdmissionQueue.thy ===== *)
theory AdmissionQueue
  imports PyJson Sha256 ProcurementDomain Interfaces
begin

text \<open>
  The way of a handoff to the admission runtime: the review job and its payload
  (\<^verbatim>\<open>admission_queue.py\<close>), the transactional outbox (\<^verbatim>\<open>admission_outbox_store.py\<close>) and the publisher
  that moves its events to the queue. The queue carries the JSON values whose text the sources
  push; pushing may fail, so it is an argument of the publisher. An outbox row is a record, the
  table a list in the order of \<^verbatim>\<open>created_at\<close>; times are integers in seconds.
\<close>

section \<open>The review job\<close>

definition admission_policy :: string where
  "admission_policy = ''document-observed-fact@0.1.0''"

record review_job =
  jb_handoff_id :: string
  jb_run_id :: string
  jb_tenant_id :: string
  jb_package_hash :: string
  jb_policy_version :: string

definition get_default :: "pyval \<Rightarrow> string \<Rightarrow> pyval \<Rightarrow> pyval result" where
  \<comment> \<open>\<^verbatim>\<open>v.get(k, default)\<close>\<close>
  "get_default v k default_value = (case v of
     PDict d \<Rightarrow> Inr (case map_of d k of Some x \<Rightarrow> x | None \<Rightarrow> default_value)
   | _ \<Rightarrow> Inl (AttributeError ''get''))"

definition job_from_payload :: "pyval \<Rightarrow> review_job result" where
  "job_from_payload v =
     bindE (py_get v ''schema_version'') (\<lambda>sv.
     if \<not> py_eq sv (PInt 1) then Inl (ValueError ''Unsupported admission job schema version'') else
     bindE (py_get v ''job_kind'') (\<lambda>jk.
     if \<not> py_eq jk (PStr ''ADMISSION_REVIEW'') then Inl (ValueError ''Unexpected admission job kind'') else
     bindE (py_item v ''expected_package_hash'') (\<lambda>ph.
     let package_hash = py_str ph in
     if \<not> starts_with ''sha256:'' package_hash \<or> length package_hash \<noteq> 71
     then Inl (ValueError ''Admission job package hash is invalid'') else
     bindE (get_default v ''policy_version'' (PStr [])) (\<lambda>pv.
     let policy = py_str pv in
     if policy \<noteq> admission_policy then Inl (ValueError ''Admission policy version is not supported'') else
     bindE (py_item v ''admission_handoff_id'') (\<lambda>h.
     bindE (uuid_of_text (py_str h)) (\<lambda>handoff.
     bindE (py_item v ''research_run_id'') (\<lambda>r.
     bindE (uuid_of_text (py_str r)) (\<lambda>run.
     bindE (py_item v ''tenant_id'') (\<lambda>t.
     bindE (uuid_of_text (py_str t)) (\<lambda>tenant.
     Inr \<lparr>jb_handoff_id = handoff, jb_run_id = run, jb_tenant_id = tenant,
          jb_package_hash = package_hash, jb_policy_version = policy\<rparr>))))))))))"

definition job_as_payload :: "review_job \<Rightarrow> pyval" where
  "job_as_payload j = PDict
     [(''schema_version'', PInt 1), (''job_kind'', PStr ''ADMISSION_REVIEW''),
      (''admission_handoff_id'', PStr (jb_handoff_id j)), (''research_run_id'', PStr (jb_run_id j)),
      (''tenant_id'', PStr (jb_tenant_id j)), (''expected_package_hash'', PStr (jb_package_hash j)),
      (''policy_version'', PStr (jb_policy_version j))]"

section \<open>The queue\<close>

definition enqueue_job :: "pyval list \<Rightarrow> review_job \<Rightarrow> pyval list" where
  \<comment> \<open>\<^verbatim>\<open>rpush\<close>\<close>
  "enqueue_job q j = q @ [job_as_payload j]"

definition pop_payload :: "pyval list \<Rightarrow> (pyval \<times> pyval list) option" where
  \<comment> \<open>\<^verbatim>\<open>blpop\<close>\<close>
  "pop_payload q = (case q of [] \<Rightarrow> None | v # vs \<Rightarrow> Some (v, vs))"

definition dequeue_job :: "pyval list \<Rightarrow> review_job option result \<times> pyval list" where
  \<comment> \<open>the element is gone from the queue even when its payload is refused\<close>
  "dequeue_job q = (case pop_payload q of
     None \<Rightarrow> (Inr None, q)
   | Some (v, vs) \<Rightarrow>
       (case v of
          PDict _ \<Rightarrow> (bindE (job_from_payload v) (\<lambda>j. Inr (Some j)), vs)
        | _ \<Rightarrow> (Inl (ValueError ''Admission queue payload must be an object''), vs)))"

section \<open>The transactional outbox\<close>

datatype outbox_status = OutboxPending | OutboxPublished | OutboxFailed

record outbox_event =
  ob_event_id :: string
  ob_aggregate_id :: string
  ob_event_type :: string
  ob_payload :: pyval
  ob_status :: outbox_status
  ob_attempts :: nat
  ob_available_at :: int
  ob_published_at :: "int option"
  ob_last_error :: "string option"

definition handoff_enqueued :: "string \<Rightarrow> int \<Rightarrow> review_job \<Rightarrow> outbox_event" where
  \<comment> \<open>the row the database trigger inserts for a new handoff\<close>
  "handoff_enqueued event_id now j =
     \<lparr>ob_event_id = event_id, ob_aggregate_id = jb_handoff_id j,
      ob_event_type = ''admission.handoff.requested'', ob_payload = job_as_payload j,
      ob_status = OutboxPending, ob_attempts = 0, ob_available_at = now,
      ob_published_at = None, ob_last_error = None\<rparr>"

definition pending_admission_outbox :: "nat \<Rightarrow> int \<Rightarrow> outbox_event list \<Rightarrow> outbox_event list" where
  "pending_admission_outbox limit now rows =
     take limit (filter (\<lambda>e. ob_status e = OutboxPending \<and> ob_available_at e \<le> now) rows)"

definition update_pending ::
    "string \<Rightarrow> (outbox_event \<Rightarrow> outbox_event) \<Rightarrow> outbox_event list \<Rightarrow> outbox_event list" where
  \<comment> \<open>\<^verbatim>\<open>UPDATE ... WHERE admission_outbox_event_id = id AND status = 'PENDING'\<close>\<close>
  "update_pending event_id f rows =
     map (\<lambda>e. if ob_event_id e = event_id \<and> ob_status e = OutboxPending then f e else e) rows"

definition published_row :: "int \<Rightarrow> outbox_event \<Rightarrow> outbox_event" where
  "published_row now e = e\<lparr>ob_status := OutboxPublished, ob_published_at := Some now,
     ob_attempts := ob_attempts e + 1\<rparr>"

definition failed_row :: "int \<Rightarrow> string \<Rightarrow> outbox_event \<Rightarrow> outbox_event" where
  "failed_row now error e = e\<lparr>ob_attempts := ob_attempts e + 1, ob_last_error := Some (take 500 error),
     ob_status := (if 4 \<le> ob_attempts e then OutboxFailed else OutboxPending),
     ob_available_at := now + 30\<rparr>"

definition mark_outbox_published :: "int \<Rightarrow> string \<Rightarrow> outbox_event list \<Rightarrow> outbox_event list" where
  "mark_outbox_published now event_id rows = update_pending event_id (published_row now) rows"

definition mark_outbox_failed :: "int \<Rightarrow> string \<Rightarrow> string \<Rightarrow> outbox_event list \<Rightarrow> outbox_event list" where
  "mark_outbox_failed now event_id error rows = update_pending event_id (failed_row now error) rows"

definition error_class :: "py_error \<Rightarrow> string" where
  \<comment> \<open>\<^verbatim>\<open>exc.__class__.__name__\<close>\<close>
  "error_class e = (case e of
     ValueError _ \<Rightarrow> ''ValueError'' | ValidationError _ \<Rightarrow> ''ValidationError''
   | RuntimeError _ \<Rightarrow> ''RuntimeError'' | KeyError _ \<Rightarrow> ''KeyError'' | TypeError _ \<Rightarrow> ''TypeError''
   | AttributeError _ \<Rightarrow> ''AttributeError'' | RedisError _ \<Rightarrow> ''RedisError''
   | UniqueViolation _ \<Rightarrow> ''UniqueViolation'' | AssertionError _ \<Rightarrow> ''AssertionError''
   | OverflowError _ \<Rightarrow> ''OverflowError'' | ObjectIntegrityError _ \<Rightarrow> ''ObjectIntegrityError''
   | ObjectAlreadyExistsError _ \<Rightarrow> ''ObjectAlreadyExistsError'' | ObjectNotFoundError _ \<Rightarrow> ''ObjectNotFoundError''
   | TEDEFormsParseError _ \<Rightarrow> ''TEDEFormsParseError''
   | TEDSourceRetrievalError _ \<Rightarrow> ''TEDSourceRetrievalError''
   | SourceRetrievalError _ \<Rightarrow> ''SourceRetrievalError'' | LookupError _ \<Rightarrow> ''LookupError'' | OSError c \<Rightarrow> c
   | ProcurementLifecycleError _ \<Rightarrow> ''ProcurementLifecycleError''
   | ProcurementAdmissionRehearsalError _ \<Rightarrow> ''ProcurementAdmissionRehearsalError''
   | DocumentIntegrityError _ \<Rightarrow> ''DocumentIntegrityError''
   | DocumentSecurityError _ \<Rightarrow> ''DocumentSecurityError''
   | ModelProposalError _ \<Rightarrow> ''ModelProposalError''
   | AdmissionIntegrityError _ \<Rightarrow> ''AdmissionIntegrityError''
   | AdmissionPolicyError _ \<Rightarrow> ''AdmissionPolicyError''
   | DatabaseError c _ \<Rightarrow> c | HTTPException _ _ \<Rightarrow> ''HTTPException'')"

definition error_text :: "py_error \<Rightarrow> string" where
  \<comment> \<open>\<^verbatim>\<open>str(exc)\<close>\<close>
  "error_text e = (case e of
     ValueError m \<Rightarrow> m | ValidationError m \<Rightarrow> m | RuntimeError m \<Rightarrow> m | KeyError m \<Rightarrow> m | TypeError m \<Rightarrow> m
   | AttributeError m \<Rightarrow> m | RedisError m \<Rightarrow> m | UniqueViolation m \<Rightarrow> m | AssertionError m \<Rightarrow> m
   | OverflowError m \<Rightarrow> m | ObjectIntegrityError m \<Rightarrow> m | ObjectAlreadyExistsError m \<Rightarrow> m | ObjectNotFoundError m \<Rightarrow> m
   | TEDEFormsParseError m \<Rightarrow> m | TEDSourceRetrievalError m \<Rightarrow> m | SourceRetrievalError m \<Rightarrow> m | LookupError m \<Rightarrow> m | OSError m \<Rightarrow> m | ProcurementLifecycleError m \<Rightarrow> m
   | ProcurementAdmissionRehearsalError m \<Rightarrow> m | DocumentIntegrityError m \<Rightarrow> m
   | DocumentSecurityError m \<Rightarrow> m | ModelProposalError m \<Rightarrow> m | AdmissionIntegrityError m \<Rightarrow> m
   | AdmissionPolicyError m \<Rightarrow> m | DatabaseError _ m \<Rightarrow> m | HTTPException _ m \<Rightarrow> m)"

definition publish_handles :: "py_error \<Rightarrow> bool" where
  \<comment> \<open>\<^verbatim>\<open>except (RedisError, ValueError, KeyError, TypeError)\<close>\<close>
  "publish_handles e = (case e of
     RedisError _ \<Rightarrow> True | ValueError _ \<Rightarrow> True | ValidationError _ \<Rightarrow> True
   | KeyError _ \<Rightarrow> True | TypeError _ \<Rightarrow> True | _ \<Rightarrow> False)"

record 'q publisher_state =
  ps_rows :: "outbox_event list"
  ps_queue :: 'q
  ps_published :: nat

definition event_job :: "outbox_event \<Rightarrow> review_job result" where
  "event_job e =
     (if ob_event_type e \<noteq> ''admission.handoff.requested''
      then Inl (ValueError (''Unsupported admission outbox event '' @ ob_event_type e))
      else job_from_payload (ob_payload e))"

definition publish_event ::
    "('q \<Rightarrow> review_job \<Rightarrow> 'q result) \<Rightarrow> int \<Rightarrow> 'q publisher_state \<Rightarrow> outbox_event \<Rightarrow> 'q publisher_state result" where
  \<comment> \<open>one turn of the loop\<close>
  "publish_event enqueue now s e =
     (case bindE (event_job e) (enqueue (ps_queue s)) of
        Inr q \<Rightarrow> Inr (s\<lparr>ps_queue := q, ps_rows := mark_outbox_published now (ob_event_id e) (ps_rows s),
                        ps_published := ps_published s + 1\<rparr>)
      | Inl err \<Rightarrow>
          if publish_handles err
          then Inr (s\<lparr>ps_rows := mark_outbox_failed now (ob_event_id e)
                       (error_class err @ '': '' @ error_text err) (ps_rows s)\<rparr>)
          else Inl err)"

definition publish_pending ::
    "('q \<Rightarrow> review_job \<Rightarrow> 'q result) \<Rightarrow> nat \<Rightarrow> int \<Rightarrow> outbox_event list \<Rightarrow> 'q \<Rightarrow> 'q publisher_state result" where
  "publish_pending enqueue limit now rows q =
     foldE (publish_event enqueue now) \<lparr>ps_rows = rows, ps_queue = q, ps_published = 0\<rparr>
       (pending_admission_outbox limit now rows)"

section \<open>The queue is first in, first out\<close>

definition push_payload :: "pyval list \<Rightarrow> pyval \<Rightarrow> pyval list" where
  "push_payload q v = q @ [v]"

interpretation valkey: fifo_queue push_payload pop_payload "\<lambda>q. q"
  by unfold_locales (simp_all add: push_payload_def pop_payload_def)

lemma enqueue_job_push: "enqueue_job q j = push_payload q (job_as_payload j)"
  by (simp add: enqueue_job_def push_payload_def)

section \<open>Jobs and their payloads\<close>

definition valid_job :: "review_job \<Rightarrow> bool" where
  "valid_job j = (starts_with ''sha256:'' (jb_package_hash j) \<and> length (jb_package_hash j) = 71
     \<and> jb_policy_version j = admission_policy
     \<and> list_all (\<lambda>u. uuid_of_text u = Inr u) [jb_handoff_id j, jb_run_id j, jb_tenant_id j])"

lemma job_as_payload_fields [simp]:
  "py_get (job_as_payload j) ''schema_version'' = Inr (PInt 1)"
  "py_get (job_as_payload j) ''job_kind'' = Inr (PStr ''ADMISSION_REVIEW'')"
  "py_item (job_as_payload j) ''expected_package_hash'' = Inr (PStr (jb_package_hash j))"
  "get_default (job_as_payload j) ''policy_version'' d = Inr (PStr (jb_policy_version j))"
  "py_item (job_as_payload j) ''admission_handoff_id'' = Inr (PStr (jb_handoff_id j))"
  "py_item (job_as_payload j) ''research_run_id'' = Inr (PStr (jb_run_id j))"
  "py_item (job_as_payload j) ''tenant_id'' = Inr (PStr (jb_tenant_id j))"
  by (simp_all add: job_as_payload_def py_get_def py_item_def get_default_def)

lemma job_from_payload_valid: "job_from_payload v = Inr j \<Longrightarrow> valid_job j"
  by (auto simp: job_from_payload_def bindE_eq_Inr Let_def valid_job_def uuid_of_text_idem split: if_splits)

lemma job_roundtrip_iff: "job_from_payload (job_as_payload j) = Inr j \<longleftrightarrow> valid_job j"
proof
  assume "valid_job j"
  then show "job_from_payload (job_as_payload j) = Inr j"
    by (simp add: job_from_payload_def valid_job_def py_str_def number_of_def Let_def)
qed (rule job_from_payload_valid)

section \<open>One pass of the publisher\<close>

definition settled :: "int \<Rightarrow> outbox_event \<Rightarrow> outbox_event \<Rightarrow> bool" where
  "settled now e e' = (e' = published_row now e \<or> (\<exists>error. e' = failed_row now error e))"

lemma update_pending_id [simp]: "map ob_event_id (update_pending i f rows) = map ob_event_id rows"
  if "\<And>e. ob_event_id (f e) = ob_event_id e"
  using that by (simp add: update_pending_def comp_def if_distrib cong: if_cong)

lemma settled_row_ids [simp]:
  "ob_event_id (published_row now e) = ob_event_id e" "ob_event_id (failed_row now error e) = ob_event_id e"
  by (simp_all add: published_row_def failed_row_def)

lemma publish_event_rows:
  assumes "publish_event enqueue now s e = Inr t"
  obtains f where "ps_rows t = update_pending (ob_event_id e) f (ps_rows s)"
    "\<And>x. settled now x (f x)" "\<And>x. ob_event_id (f x) = ob_event_id x"
proof (cases "bindE (event_job e) (enqueue (ps_queue s))")
  case (Inr q)
  with assms show ?thesis
    by (intro that [of "published_row now"])
      (auto simp: publish_event_def mark_outbox_published_def settled_def)
next
  case (Inl err)
  with assms show ?thesis
    by (intro that [of "failed_row now (error_class err @ '': '' @ error_text err)"])
      (auto simp: publish_event_def mark_outbox_failed_def settled_def split: if_splits)
qed

definition pass_row :: "int \<Rightarrow> string set \<Rightarrow> outbox_event \<Rightarrow> outbox_event \<Rightarrow> bool" where
  "pass_row now ids e e' =
     (if ob_event_id e \<in> ids \<and> ob_status e = OutboxPending then settled now e e' else e' = e)"

lemma publish_fold_rows:
  "foldE (publish_event enqueue now) s es = Inr t \<Longrightarrow> distinct (map ob_event_id es) \<Longrightarrow>
    list_all2 (pass_row now (ob_event_id ` set es)) (ps_rows s) (ps_rows t)"
proof (induction es arbitrary: s)
  case Nil
  then show ?case by (simp add: list_all2_same pass_row_def)
next
  case (Cons e es)
  then obtain u where u: "publish_event enqueue now s e = Inr u" "foldE (publish_event enqueue now) u es = Inr t"
    by (auto simp: bindE_eq_Inr)
  obtain f where f: "ps_rows u = update_pending (ob_event_id e) f (ps_rows s)"
    "\<And>x. settled now x (f x)" "\<And>x. ob_event_id (f x) = ob_event_id x"
    using publish_event_rows [OF u(1)] by blast
  have "list_all2 (pass_row now (ob_event_id ` set es)) (ps_rows u) (ps_rows t)"
    using Cons.IH [OF u(2)] Cons.prems(2) by simp
  moreover have "list_all2 (pass_row now {ob_event_id e}) (ps_rows s) (ps_rows u)"
    by (auto simp: f(1) update_pending_def list_all2_conv_all_nth pass_row_def f(2))
  moreover have "pass_row now {ob_event_id e} x y \<Longrightarrow> pass_row now (ob_event_id ` set es) y z \<Longrightarrow>
      pass_row now (ob_event_id ` set (e # es)) x z" for x y z
    using Cons.prems(2) by (auto simp: pass_row_def settled_def split: if_splits)
  ultimately show ?case
    by (blast intro: list_all2_trans)
qed

definition is_object :: "pyval \<Rightarrow> bool" where
  "is_object v = (case v of PDict _ \<Rightarrow> True | _ \<Rightarrow> False)"

lemma publish_handles_simps [simp]:
  "publish_handles (ValueError m)" "publish_handles (KeyError m)" "publish_handles (RedisError m)"
  "publish_handles (TypeError m)"
  by (simp_all add: publish_handles_def)

lemma uuid_of_text_raises: "raises_only publish_handles (uuid_of_text s)"
  unfolding uuid_of_text_def Let_def by (intro raises_intros publish_handles_simps)

lemma object_raises:
  assumes "is_object v"
  shows "raises_only publish_handles (py_item v k)" "raises_only publish_handles (py_get v k)"
    "raises_only publish_handles (get_default v k d)"
  using assms
  by (cases v; auto simp: is_object_def py_item_def py_get_def get_default_def raises_only_def split: option.splits)+

lemma job_from_payload_raises: "is_object v \<Longrightarrow> raises_only publish_handles (job_from_payload v)"
  unfolding job_from_payload_def Let_def
  by (intro raises_intros object_raises uuid_of_text_raises publish_handles_simps) assumption+

lemma job_from_payload_error: "is_object v \<Longrightarrow> job_from_payload v = Inl e \<Longrightarrow> publish_handles e"
  by (rule raises_onlyD [OF job_from_payload_raises])

lemma event_job_error: "is_object (ob_payload e) \<Longrightarrow> event_job e = Inl err \<Longrightarrow> publish_handles err"
  by (auto simp: event_job_def publish_handles_def dest: job_from_payload_error split: if_splits)

definition queue_errors_handled :: "('q \<Rightarrow> review_job \<Rightarrow> 'q result) \<Rightarrow> bool" where
  "queue_errors_handled enqueue = (\<forall>q j e. enqueue q j = Inl e \<longrightarrow> publish_handles e)"

lemma publish_fold_total:
  assumes "queue_errors_handled enqueue"
  shows "list_all (\<lambda>e. is_object (ob_payload e)) es \<Longrightarrow> \<exists>t. foldE (publish_event enqueue now) s es = Inr t"
proof (induction es arbitrary: s)
  case (Cons e es)
  have "\<exists>u. publish_event enqueue now s e = Inr u"
  proof (cases "bindE (event_job e) (enqueue (ps_queue s))")
    case (Inl err)
    then have "publish_handles err"
      using Cons.prems assms by (auto simp: bindE_eq_Inl queue_errors_handled_def dest: event_job_error)
    with Inl show ?thesis by (simp add: publish_event_def)
  qed (simp add: publish_event_def)
  then obtain u where "publish_event enqueue now s e = Inr u" ..
  with Cons show ?case by simp
qed simp

lemma pending_picked:
  "length rows \<le> limit \<Longrightarrow> distinct (map ob_event_id rows) \<Longrightarrow> e \<in> set rows \<Longrightarrow> ob_status e = OutboxPending \<Longrightarrow>
    ob_event_id e \<in> ob_event_id ` set (pending_admission_outbox limit now rows) \<longleftrightarrow> ob_available_at e \<le> now"
proof -
  assume rows: "length rows \<le> limit" "distinct (map ob_event_id rows)" "e \<in> set rows" "ob_status e = OutboxPending"
  have "length (filter (\<lambda>e. ob_status e = OutboxPending \<and> ob_available_at e \<le> now) rows) \<le> limit"
    using rows(1) length_filter_le order_trans by blast
  then have "set (pending_admission_outbox limit now rows)
      = {x \<in> set rows. ob_status x = OutboxPending \<and> ob_available_at x \<le> now}"
    by (auto simp: pending_admission_outbox_def)
  with rows show ?thesis
    by (auto simp: distinct_map inj_on_def)
qed

lemma distinct_picked:
  "distinct (map ob_event_id rows) \<Longrightarrow> distinct (map ob_event_id (pending_admission_outbox limit now rows))"
  unfolding pending_admission_outbox_def take_map [symmetric]
  by (rule distinct_take) (rule distinct_map_filter)

lemma picked_subset: "set (pending_admission_outbox limit now rows) \<subseteq> set rows"
  unfolding pending_admission_outbox_def by (auto dest: in_set_takeD)

section \<open>Repeated passes\<close>

fun run_passes ::
    "('q \<Rightarrow> review_job \<Rightarrow> 'q result) \<Rightarrow> nat \<Rightarrow> int list \<Rightarrow> outbox_event list \<Rightarrow> 'q \<Rightarrow> (outbox_event list \<times> 'q) result" where
  "run_passes enqueue limit [] rows q = Inr (rows, q)"
| "run_passes enqueue limit (now # nows) rows q =
     bindE (publish_pending enqueue limit now rows q)
       (\<lambda>s. run_passes enqueue limit nows (ps_rows s) (ps_queue s))"

fun spaced :: "int \<Rightarrow> int list \<Rightarrow> bool" where
  \<comment> \<open>the passes start late enough and are at least the retry delay apart\<close>
  "spaced t [] = True"
| "spaced t (now # nows) = (t \<le> now \<and> spaced (now + 30) nows)"

definition outbox_row_ok :: "outbox_event \<Rightarrow> bool" where
  "outbox_row_ok e = (case ob_status e of
     OutboxPending \<Rightarrow> ob_attempts e < 5 \<and> ob_published_at e = None
   | OutboxPublished \<Rightarrow> 1 \<le> ob_attempts e \<and> ob_attempts e \<le> 5 \<and> ob_published_at e \<noteq> None
   | OutboxFailed \<Rightarrow> ob_attempts e = 5 \<and> ob_last_error e \<noteq> None \<and> ob_published_at e = None)"

lemma pass_row_ok: "pass_row now ids e e' \<Longrightarrow> outbox_row_ok e \<Longrightarrow> outbox_row_ok e'"
  by (auto simp: pass_row_def settled_def outbox_row_ok_def published_row_def failed_row_def
      split: if_splits outbox_status.splits)

lemma pass_row_same:
  "pass_row now ids e e' \<Longrightarrow> ob_event_id e' = ob_event_id e \<and> ob_payload e' = ob_payload e
    \<and> (ob_status e \<noteq> OutboxPending \<longrightarrow> e' = e)"
  by (auto simp: pass_row_def settled_def published_row_def failed_row_def split: if_splits)

lemma publish_pending_rows:
  assumes "publish_pending enqueue limit now rows q = Inr t" "distinct (map ob_event_id rows)"
  shows "list_all2 (pass_row now (ob_event_id ` set (pending_admission_outbox limit now rows))) rows (ps_rows t)"
  using publish_fold_rows [OF assms(1) [unfolded publish_pending_def] distinct_picked [OF assms(2)]] by simp

lemma pass_rows_ids: "list_all2 (pass_row now ids) rows rows' \<Longrightarrow> map ob_event_id rows' = map ob_event_id rows"
  by (induction rule: list_all2_induct) (auto dest: pass_row_same)

definition waiting :: "nat \<Rightarrow> int \<Rightarrow> outbox_event list \<Rightarrow> bool" where
  "waiting k t rows = list_all (\<lambda>e. is_object (ob_payload e) \<and> outbox_row_ok e
     \<and> (ob_status e = OutboxPending \<longrightarrow> k \<le> ob_attempts e \<and> ob_available_at e \<le> t)) rows"

lemma waiting_pass:
  assumes "waiting k t rows" "t \<le> now" "length rows \<le> limit" "distinct (map ob_event_id rows)"
    and pass: "list_all2 (pass_row now (ob_event_id ` set (pending_admission_outbox limit now rows))) rows rows'"
  shows "waiting (Suc k) (now + 30) rows'"
  unfolding waiting_def list_all_iff
proof
  fix e' assume "e' \<in> set rows'"
  then obtain e where e: "e \<in> set rows"
    "pass_row now (ob_event_id ` set (pending_admission_outbox limit now rows)) e e'"
    using pass by (metis in_set_conv_nth list_all2_conv_all_nth)
  have w: "is_object (ob_payload e)" "outbox_row_ok e"
    "ob_status e = OutboxPending \<Longrightarrow> k \<le> ob_attempts e \<and> ob_available_at e \<le> now"
    using assms(1,2) e(1) by (auto simp: waiting_def list_all_iff)
  have "ob_status e' = OutboxPending \<Longrightarrow> Suc k \<le> ob_attempts e' \<and> ob_available_at e' \<le> now + 30"
    using e(2) w(3) pending_picked [OF assms(3,4) e(1)]
    by (auto simp: pass_row_def settled_def published_row_def failed_row_def split: if_splits)
  then show "is_object (ob_payload e') \<and> outbox_row_ok e'
      \<and> (ob_status e' = OutboxPending \<longrightarrow> Suc k \<le> ob_attempts e' \<and> ob_available_at e' \<le> now + 30)"
    using pass_row_ok [OF e(2) w(2)] pass_row_same [OF e(2)] w(1) by simp
qed

lemma run_passes_waiting:
  assumes "queue_errors_handled enqueue"
  shows "waiting k t rows \<Longrightarrow> spaced t nows \<Longrightarrow> length rows \<le> limit \<Longrightarrow> distinct (map ob_event_id rows) \<Longrightarrow>
    \<exists>rows' q' t'. run_passes enqueue limit nows rows q = Inr (rows', q') \<and> waiting (k + length nows) t' rows'
      \<and> map ob_event_id rows' = map ob_event_id rows"
proof (induction nows arbitrary: k t rows q)
  case (Cons now nows)
  have "list_all (\<lambda>e. is_object (ob_payload e)) (pending_admission_outbox limit now rows)"
    using Cons.prems(1) picked_subset [of limit now rows] by (auto simp: waiting_def list_all_iff)
  with publish_fold_total [OF assms] obtain s where s: "publish_pending enqueue limit now rows q = Inr s"
    unfolding publish_pending_def by blast
  note pass = publish_pending_rows [OF s Cons.prems(4)]
  have "t \<le> now" "spaced (now + 30) nows" using Cons.prems(2) by simp_all
  with waiting_pass [OF Cons.prems(1) _ Cons.prems(3,4) pass]
  have next_wait: "waiting (Suc k) (now + 30) (ps_rows s)" by simp
  note ids = pass_rows_ids [OF pass]
  have "length (ps_rows s) \<le> limit" "distinct (map ob_event_id (ps_rows s))"
    using list_all2_lengthD [OF pass] ids Cons.prems(3,4) by simp_all
  from Cons.IH [OF next_wait \<open>spaced (now + 30) nows\<close> this, of "ps_queue s"] s ids show ?case
    by auto
qed auto

lemma run_passes_rows:
  "run_passes enqueue limit nows rows q = Inr (rows', q') \<Longrightarrow> distinct (map ob_event_id rows) \<Longrightarrow>
    list_all2 (\<lambda>e e'. ob_event_id e' = ob_event_id e \<and> ob_payload e' = ob_payload e
      \<and> (ob_status e \<noteq> OutboxPending \<longrightarrow> e' = e) \<and> (outbox_row_ok e \<longrightarrow> outbox_row_ok e')) rows rows'"
proof (induction nows arbitrary: rows q)
  case Nil
  then show ?case by (simp add: list_all2_same)
next
  case (Cons now nows)
  then obtain s where s: "publish_pending enqueue limit now rows q = Inr s"
    "run_passes enqueue limit nows (ps_rows s) (ps_queue s) = Inr (rows', q')"
    by (auto simp: bindE_eq_Inr)
  note pass = publish_pending_rows [OF s(1) Cons.prems(2)]
  have rest: "list_all2 (\<lambda>e e'. ob_event_id e' = ob_event_id e \<and> ob_payload e' = ob_payload e
      \<and> (ob_status e \<noteq> OutboxPending \<longrightarrow> e' = e) \<and> (outbox_row_ok e \<longrightarrow> outbox_row_ok e')) (ps_rows s) rows'"
    using Cons.IH [OF s(2)] pass_rows_ids [OF pass] Cons.prems(2) by simp
  have "list_all2 (\<lambda>e e'. ob_event_id e' = ob_event_id e \<and> ob_payload e' = ob_payload e
      \<and> (ob_status e \<noteq> OutboxPending \<longrightarrow> e' = e) \<and> (outbox_row_ok e \<longrightarrow> outbox_row_ok e')) rows (ps_rows s)"
    using pass by (rule list_all2_mono) (use pass_row_same pass_row_ok in blast)
  from list_all2_trans [OF _ this rest] show ?case by simp
qed

section \<open>A pass over a queue that accepts every job\<close>

definition outcome_row :: "int \<Rightarrow> review_job result \<Rightarrow> outbox_event \<Rightarrow> outbox_event" where
  "outcome_row now r e = (case r of
     Inr _ \<Rightarrow> published_row now e
   | Inl err \<Rightarrow> failed_row now (error_class err @ '': '' @ error_text err) e)"

definition good_jobs :: "outbox_event list \<Rightarrow> review_job list" where
  "good_jobs es = concat (map (\<lambda>e. case event_job e of Inr j \<Rightarrow> [j] | Inl _ \<Rightarrow> []) es)"

lemma publish_fold_exact:
  "list_all (\<lambda>e. is_object (ob_payload e)) es \<Longrightarrow>
    foldE (publish_event (\<lambda>q j. Inr (enqueue_job q j)) now) s es =
      Inr \<lparr>ps_rows = foldl (\<lambda>rs e. update_pending (ob_event_id e) (outcome_row now (event_job e)) rs) (ps_rows s) es,
           ps_queue = ps_queue s @ map job_as_payload (good_jobs es),
           ps_published = ps_published s + length (good_jobs es)\<rparr>"
proof (induction es arbitrary: s)
  case Nil
  then show ?case by (simp add: good_jobs_def)
next
  case (Cons e es)
  show ?case
  proof (cases "event_job e")
    case (Inl err)
    then have "publish_handles err"
      using Cons.prems by (auto dest: event_job_error)
    with Inl Cons show ?thesis
      by (simp add: publish_event_def mark_outbox_failed_def outcome_row_def [abs_def] good_jobs_def)
  next
    case (Inr j)
    with Cons show ?thesis
      by (simp add: publish_event_def mark_outbox_published_def outcome_row_def [abs_def] good_jobs_def enqueue_job_def)
  qed
qed

lemma update_fold_map:
  assumes "distinct (map ob_event_id es)" "\<And>e. e \<in> set es \<Longrightarrow> ob_status e = OutboxPending"
    "\<And>e x. e \<in> set es \<Longrightarrow> x \<in> set rows \<Longrightarrow> ob_event_id x = ob_event_id e \<Longrightarrow> x = e"
  shows "foldl (\<lambda>rs e. update_pending (ob_event_id e) (outcome_row now (event_job e)) rs) rows es
    = map (\<lambda>x. if x \<in> set es then outcome_row now (event_job x) x else x) rows"
  using assms
proof (induction es arbitrary: rows rule: rev_induct)
  case (snoc e es)
  have id: "ob_event_id (outcome_row now r x) = ob_event_id x" for r x
    by (simp add: outcome_row_def split: sum.splits)
  let ?g = "\<lambda>x. if x \<in> set es then outcome_row now (event_job x) x else x"
  have one: "(if ob_event_id (?g x) = ob_event_id e \<and> ob_status (?g x) = OutboxPending
      then outcome_row now (event_job e) (?g x) else ?g x)
    = (if x \<in> set (es @ [e]) then outcome_row now (event_job x) x else x)" if "x \<in> set rows" for x
  proof (cases "x \<in> set es")
    case True
    then have "ob_event_id x \<noteq> ob_event_id e" using snoc.prems(1) by (auto simp: image_iff)
    with True show ?thesis by (simp add: id)
  next
    case False
    have "ob_event_id x = ob_event_id e \<longleftrightarrow> x = e" "ob_status e = OutboxPending"
      using snoc.prems(2,3) that by auto
    with False show ?thesis by auto
  qed
  have "foldl (\<lambda>rs e. update_pending (ob_event_id e) (outcome_row now (event_job e)) rs) rows es = map ?g rows"
    using snoc.prems by (intro snoc.IH) auto
  then show ?case
    using one by (simp add: update_pending_def)
qed simp

section \<open>Properties\<close>

definition sample_job :: review_job where
  "sample_job = \<lparr>jb_handoff_id = uuid_text 1, jb_run_id = uuid_text 2, jb_tenant_id = uuid_text 3,
     jb_package_hash = sha256_ref [], jb_policy_version = admission_policy\<rparr>"

lemma sample_job_valid: "valid_job sample_job"
  by (simp add: valid_job_def sample_job_def uuid_of_text_canonical) (simp add: sha256_ref_def starts_with_def)

text \<open>A job is read back from its payload exactly when it is valid: a 71-character SHA-256
  reference, the supported policy version and canonical identifiers; every job the queue delivers is
  valid, and so passes through the queue again unchanged.\<close>

theorem job_payload_roundtrip:
  "(job_from_payload (job_as_payload j) = Inr j) = valid_job j
   \<and> (case dequeue_job q of
        (Inr (Some k), rest) \<Rightarrow> valid_job k \<and> length q = Suc (length rest)
          \<and> dequeue_job (enqueue_job [] k) = (Inr (Some k), [])
      | (_, rest) \<Rightarrow> rest = tl q)"
proof -
  have again: "valid_job k \<Longrightarrow> dequeue_job (enqueue_job [] k) = (Inr (Some k), [])" for k
    using job_roundtrip_iff [of k]
    by (simp add: dequeue_job_def enqueue_job_def pop_payload_def job_as_payload_def)
  have valid: "bindE (job_from_payload v) (\<lambda>j. Inr (Some j)) = Inr x \<Longrightarrow> \<exists>k. x = Some k \<and> valid_job k" for v x
    by (auto simp: bindE_eq_Inr dest: job_from_payload_valid)
  show ?thesis
  proof (cases "dequeue_job q")
    case (Pair r rest)
    have "rest = tl q"
      using Pair by (cases q) (auto simp: dequeue_job_def pop_payload_def split: pyval.splits)
    moreover have "valid_job k \<and> length q = Suc (length rest)" if "r = Inr (Some k)" for k
      using Pair that valid by (cases q) (auto simp: dequeue_job_def pop_payload_def split: pyval.splits)
    ultimately show ?thesis
      using Pair again job_roundtrip_iff [of j] by (simp split: sum.splits option.splits)
  qed
qed

text \<open>Whatever the queue does, a sequence of publisher passes never touches a row that is published
  or failed, never changes an identity or payload, and keeps the row invariant: a pending event has
  fewer than five attempts, a failed one exactly five and its last error, a published one its time.\<close>

theorem outbox_rows_lifecycle:
  assumes "distinct (map ob_event_id rows)"
  shows "case run_passes enqueue limit nows rows q of
      Inl e \<Rightarrow> True
    | Inr (rows', q') \<Rightarrow>
        list_all2 (\<lambda>e e'. ob_event_id e' = ob_event_id e \<and> ob_payload e' = ob_payload e
          \<and> (ob_status e \<noteq> OutboxPending \<longrightarrow> e' = e) \<and> (outbox_row_ok e \<longrightarrow> outbox_row_ok e')) rows rows'"
proof (cases "run_passes enqueue limit nows rows q")
  case (Inr r)
  then show ?thesis
    using run_passes_rows [OF _ assms, of enqueue limit nows q] by (cases r) simp
qed simp

definition refusing_queue :: "unit \<Rightarrow> review_job \<Rightarrow> unit result" where
  "refusing_queue q j = Inl (RedisError ''Connection refused'')"

lemma outbox_rows_lifecycle_witness:
  "distinct (map ob_event_id [handoff_enqueued ''e1'' 0 sample_job])
   \<and> (case run_passes refusing_queue 10 [0] [handoff_enqueued ''e1'' 0 sample_job] () of
        Inl e \<Rightarrow> True
      | Inr (rows', q') \<Rightarrow>
          list_all2 (\<lambda>e e'. ob_event_id e' = ob_event_id e \<and> ob_payload e' = ob_payload e
            \<and> (ob_status e \<noteq> OutboxPending \<longrightarrow> e' = e) \<and> (outbox_row_ok e \<longrightarrow> outbox_row_ok e'))
            [handoff_enqueued ''e1'' 0 sample_job] rows')"
  using outbox_rows_lifecycle [where rows = "[handoff_enqueued ''e1'' 0 sample_job]" and enqueue = refusing_queue
      and limit = 10 and nows = "[0]" and q = "()"] by simp

text \<open>C30: Five passes settle a whole outbox of at most \<^verbatim>\<open>limit\<close> rows (the default batch is 10), even when the queue
  refuses every job, provided that the queue raises only the exceptions the publisher handles, the rows have distinct event
  identifiers, object payloads and attempts consistent with their status, the pending ones are due at the first pass, and the
  passes are at least the retry delay of 30 seconds apart: no pass raises, and afterwards each row is published or has failed
  for good.\<close>

theorem five_passes_settle:
  assumes "queue_errors_handled enqueue" and "waiting 0 t rows" and "length rows \<le> limit"
    and "distinct (map ob_event_id rows)" and "spaced t nows" and "length nows = 5"
  shows "\<exists>rows' q'. run_passes enqueue limit nows rows q = Inr (rows', q')
    \<and> map ob_event_id rows' = map ob_event_id rows
    \<and> list_all (\<lambda>e. ob_status e \<noteq> OutboxPending \<and> ob_attempts e \<le> 5) rows'"
proof -
  from run_passes_waiting [OF assms(1,2,5,3,4), of q] assms(6) obtain rows' q' t' where
    run: "run_passes enqueue limit nows rows q = Inr (rows', q')"
    "waiting 5 t' rows'" "map ob_event_id rows' = map ob_event_id rows" by auto
  have "list_all (\<lambda>e. ob_status e \<noteq> OutboxPending \<and> ob_attempts e \<le> 5) rows'"
    using run(2) unfolding waiting_def outbox_row_ok_def
    by (rule list.pred_mono_strong) (auto split: outbox_status.splits)
  with run show ?thesis by blast
qed

lemma five_passes_settle_witness:
  "\<exists>rows' q'. run_passes refusing_queue 10 [0, 30, 60, 90, 120] [handoff_enqueued ''e1'' 0 sample_job] () = Inr (rows', q')
    \<and> map ob_event_id rows' = map ob_event_id [handoff_enqueued ''e1'' 0 sample_job]
    \<and> list_all (\<lambda>e. ob_status e \<noteq> OutboxPending \<and> ob_attempts e \<le> 5) rows'"
  by (rule five_passes_settle [where t = 0])
    (simp_all add: queue_errors_handled_def refusing_queue_def publish_handles_def waiting_def handoff_enqueued_def
      job_as_payload_def is_object_def outbox_row_ok_def)

text \<open>A pass over a queue that accepts jobs publishes exactly the picked events whose payload is a
  review job, in order, appends exactly their payloads to the queue and counts them; every other
  picked event gets one more attempt and its error, every other row stays as it is.\<close>

theorem publisher_pass_exact:
  assumes "distinct (map ob_event_id rows)" and "list_all (\<lambda>e. is_object (ob_payload e)) rows"
  shows "publish_pending (\<lambda>q j. Inr (enqueue_job q j)) limit now rows q =
    (let picked = pending_admission_outbox limit now rows in
     Inr \<lparr>ps_rows = map (\<lambda>e. if e \<in> set picked then outcome_row now (event_job e) e else e) rows,
          ps_queue = q @ map job_as_payload (good_jobs picked),
          ps_published = length (good_jobs picked)\<rparr>)"
proof -
  let ?picked = "pending_admission_outbox limit now rows"
  have objects: "list_all (\<lambda>e. is_object (ob_payload e)) ?picked"
    using assms(2) picked_subset [of limit now rows] by (auto simp: list_all_iff)
  have "foldl (\<lambda>rs e. update_pending (ob_event_id e) (outcome_row now (event_job e)) rs) rows ?picked
      = map (\<lambda>x. if x \<in> set ?picked then outcome_row now (event_job x) x else x) rows"
  proof (rule update_fold_map)
    show "e \<in> set ?picked \<Longrightarrow> ob_status e = OutboxPending" for e
      by (auto simp: pending_admission_outbox_def dest: in_set_takeD)
    show "e \<in> set ?picked \<Longrightarrow> x \<in> set rows \<Longrightarrow> ob_event_id x = ob_event_id e \<Longrightarrow> x = e" for e x
      using assms(1) picked_subset [of limit now rows] by (auto simp: distinct_map inj_on_def)
  qed (rule distinct_picked [OF assms(1)])
  then show ?thesis
    by (simp add: publish_pending_def publish_fold_exact [OF objects] Let_def)
qed

lemma publisher_pass_exact_witness:
  "publish_pending (\<lambda>q j. Inr (enqueue_job q j)) 10 5 [handoff_enqueued ''e1'' 0 sample_job] [] =
    Inr \<lparr>ps_rows = [published_row 5 (handoff_enqueued ''e1'' 0 sample_job)],
         ps_queue = [job_as_payload sample_job], ps_published = 1\<rparr>"
proof -
  have job: "event_job (handoff_enqueued ''e1'' 0 sample_job) = Inr sample_job"
    using sample_job_valid by (simp add: event_job_def handoff_enqueued_def job_roundtrip_iff)
  have picked: "pending_admission_outbox 10 5 [handoff_enqueued ''e1'' 0 sample_job] = [handoff_enqueued ''e1'' 0 sample_job]"
    by (simp add: pending_admission_outbox_def handoff_enqueued_def)
  have "list_all (\<lambda>e. is_object (ob_payload e)) [handoff_enqueued ''e1'' 0 sample_job]"
    by (simp add: handoff_enqueued_def job_as_payload_def is_object_def)
  from publisher_pass_exact [OF _ this, of 10 5 "[]"] show ?thesis
    by (simp add: picked Let_def good_jobs_def job outcome_row_def)
qed

end
