(* ===== verification/AdmissionPolicy.thy ===== *)
theory AdmissionPolicy
  imports AdmissionQueue DocumentProposals
begin

text \<open>
  The gates of the deterministic admission runtime: the handoff package
  (\<^verbatim>\<open>admission_handoff_policy.py\<close>), the source registry and the independent reparse
  (\<^verbatim>\<open>admission_source_policy.py\<close>), the candidate and evidence bindings
  (\<^verbatim>\<open>admission_evidence_policy.py\<close>) and the fact policy that rederives the proposed value from the
  quoted text (\<^verbatim>\<open>admission_fact_policy.py\<close>, \<^verbatim>\<open>admission_types.py\<close>). The package is untyped JSON; a
  database row is a record; the rows of a query are a list. The conversion of a datetime field by
  the model validation is an argument (pydantic), as is the current year.
\<close>

section \<open>Database rows\<close>

datatype handoff_state = HandoffPending | HandoffConsumed | HandoffRejected | HandoffQuarantined

record handoff_row =
  ho_id :: string
  ho_tenant_id :: string
  ho_run_id :: string
  ho_state :: handoff_state
  ho_candidate_ids :: "string list"
  ho_package :: pyval
  ho_package_hash :: string
  ho_consumed_at :: "int option"

record run_row =
  rn_id :: string
  rn_tenant_id :: string
  rn_job_kind :: string
  rn_handoff_id :: "string option"
  rn_state :: string
  rn_canonical_claim_ids :: "string list"
  rn_batch_id :: "string option"
  rn_actual_usage :: "(string \<times> pyval) list" \<comment> \<open>empty for null\<close>
  rn_dossier_id :: "string option"
  rn_error_code :: "string option"
  rn_error_detail :: "string option"

record source_row =
  sr_source_id :: string
  sr_admission_state :: string
  sr_rights_status :: string
  sr_license_id :: string
  sr_kill_switch :: bool
  sr_commercial_use :: bool
  sr_redistribution :: bool

record source_object_row =
  sb_id :: string
  sb_source_id :: string
  sb_content_hash :: string
  sb_raw_payload :: pyval
  sb_rights_snapshot :: pyval

record fragment_row =
  fg_fragment_id :: string
  fg_source_object_id :: string
  fg_document_id :: string
  fg_ordinal :: int
  fg_start_char :: int
  fg_end_char :: int
  fg_text_content :: string
  fg_content_hash :: string
  fg_parser_version :: string
  fg_security_scan_state :: string

record evidence_row =
  er_id :: string
  er_evidence_key :: string
  er_source_id :: string
  er_content_hash :: string
  er_rights_status :: string
  er_payload :: pyval

record candidate_row =
  cr_id :: string
  cr_fingerprint :: string
  cr_opportunity_id :: string
  cr_subject_id :: string
  cr_predicate :: string
  cr_object_value :: pyval
  cr_statement :: string
  cr_kind :: string
  cr_relationship :: string
  cr_producer_type :: string
  cr_producer_id :: string
  cr_model_version :: string
  cr_method_version :: string
  cr_prompt_version :: string
  cr_assumptions :: pyval
  cr_unknowns :: pyval
  cr_extraction_confidence :: rat
  cr_evidence_ids :: "string list"
  cr_state :: string
  cr_canonical_claim_id :: "string option"
  cr_rejection_reasons :: "string list"

section \<open>The handoff package\<close>

definition package_keys :: "string list" where
  "package_keys =
     [''schema_version'', ''tenant_id'', ''research_run_id'', ''pipeline_version'', ''document'', ''source'',
      ''fragments'', ''evidence'', ''candidate_claims'', ''admission_boundary_results'', ''dossier'',
      ''actual_usage'', ''human_review_state'', ''canonical_claim_ids'']"

definition dict_keys :: "pyval \<Rightarrow> string list" where
  "dict_keys v = (case v of PDict d \<Rightarrow> map fst d | _ \<Rightarrow> [])"

definition integrity :: "string \<Rightarrow> 'a result" where
  "integrity m = Inl (AdmissionIntegrityError m)"

definition policy_failure :: "string \<Rightarrow> 'a result" where
  "policy_failure m = Inl (AdmissionPolicyError m)"

definition require :: "bool result \<Rightarrow> string \<Rightarrow> unit result" where
  \<comment> \<open>\<^verbatim>\<open>if not c: raise AdmissionIntegrityError(m)\<close>\<close>
  "require c m = bindE c (\<lambda>b. if b then Inr () else integrity m)"

definition item_is :: "pyval \<Rightarrow> string \<Rightarrow> pyval \<Rightarrow> bool result" where
  \<comment> \<open>\<^verbatim>\<open>v[k] == w\<close>\<close>
  "item_is v k w = bindE (py_item v k) (\<lambda>x. Inr (py_eq x w))"

definition get_is :: "pyval \<Rightarrow> string \<Rightarrow> pyval \<Rightarrow> bool result" where
  \<comment> \<open>\<^verbatim>\<open>v.get(k) == w\<close>\<close>
  "get_is v k w = bindE (py_get v k) (\<lambda>x. Inr (py_eq x w))"

definition notE :: "bool result \<Rightarrow> bool result" where
  "notE m = bindE m (\<lambda>b. Inr (\<not> b))"

text \<open>\<^verbatim>\<open>a or b or ...\<close> and \<^verbatim>\<open>a and b and ...\<close>, left to right, stopping at the first that decides.\<close>

definition orE :: "bool result list \<Rightarrow> bool result" where
  "orE ms = anyE (\<lambda>m. m) ms"

definition andE :: "bool result list \<Rightarrow> bool result" where
  "andE ms = notE (anyE notE ms)"

definition boundary_broken :: "pyval \<Rightarrow> bool result" where
  "boundary_broken item = orE
     [bindE (py_get item ''admitted'') (\<lambda>v. Inr (v \<noteq> PBool False)),
      bindE (py_get item ''canonical_claim_id'') (\<lambda>v. Inr (v \<noteq> PNone))]"

definition validate_package :: "handoff_row \<Rightarrow> review_job \<Rightarrow> pyval result" where
  "validate_package h job =
     (let package = ho_package h; actual_hash = document_hash package in
      if \<not> is_object package then integrity ''Admission package is not an object''
      else if actual_hash \<noteq> ho_package_hash h \<or> actual_hash \<noteq> jb_package_hash job
      then integrity ''Admission package hash does not match''
      else if set package_keys \<noteq> set (dict_keys package)
      then integrity ''Admission package schema keys differ''
      else
        bindE (require (item_is package ''schema_version'' (PInt 1)) ''Admission package schema version differs'') (\<lambda>_.
        bindE (require (item_is package ''tenant_id'' (PStr (jb_tenant_id job))) ''Admission package tenant differs'') (\<lambda>_.
        bindE (require (item_is package ''research_run_id'' (PStr (jb_run_id job)))
                 ''Admission package ResearchRun differs'') (\<lambda>_.
        bindE (require (item_is package ''pipeline_version'' (PStr ''local-document-proposal-pipeline@0.1.0''))
                 ''Proposal pipeline version differs'') (\<lambda>_.
        bindE (require (item_is package ''human_review_state'' (PStr ''NOT_REQUESTED''))
                 ''Unexpected pre-admission human review state'') (\<lambda>_.
        bindE (require (item_is package ''canonical_claim_ids'' (PList []))
                 ''Proposal handoff already contains canonical claims'') (\<lambda>_.
        bindE (py_item package ''admission_boundary_results'') (\<lambda>boundaries.
        bindE (if \<not> py_truthy boundaries then Inr True
               else bindE (py_iter boundaries) (anyE boundary_broken)) (\<lambda>broken.
        if broken then integrity ''Proposal authority boundary is not preserved'' else Inr package)))))))))"

definition load_run :: "run_row list \<Rightarrow> review_job \<Rightarrow> run_row result" where
  "load_run runs job =
     (case List.find (\<lambda>r. rn_id r = jb_run_id job \<and> rn_tenant_id r = jb_tenant_id job) runs of
        None \<Rightarrow> integrity ''Tenant-scoped ResearchRun is absent''
      | Some run \<Rightarrow>
          if rn_job_kind run \<noteq> ''DOCUMENT_PROPOSAL'' then integrity ''ResearchRun is not a document proposal''
          else if rn_handoff_id run \<noteq> Some (jb_handoff_id job)
          then integrity ''ResearchRun handoff reference differs''
          else Inr run)"

section \<open>Source registry, reparse and immutable objects\<close>

definition field_str :: "pyval \<Rightarrow> string \<Rightarrow> string result" where
  \<comment> \<open>a required \<^verbatim>\<open>str\<close> field of a validated model\<close>
  "field_str v k = (case v of
     PDict d \<Rightarrow> (case map_of d k of Some (PStr s) \<Rightarrow> Inr s | _ \<Rightarrow> Inl (ValidationError k))
   | _ \<Rightarrow> Inl (ValidationError ''InstitutionalDocument''))"

definition field_time :: "(pyval \<Rightarrow> int option) \<Rightarrow> pyval \<Rightarrow> string \<Rightarrow> int result" where
  "field_time read_time v k = (case v of
     PDict d \<Rightarrow> (case map_of d k of
                   Some x \<Rightarrow> (case read_time x of Some t \<Rightarrow> Inr t | None \<Rightarrow> Inl (ValidationError k))
                 | None \<Rightarrow> Inl (ValidationError k))
   | _ \<Rightarrow> Inl (ValidationError ''InstitutionalDocument''))"

definition field_scope :: "pyval \<Rightarrow> string result" where
  "field_scope v = (case v of
     PDict d \<Rightarrow> (case map_of d ''tenant_scope'' of
                   None \<Rightarrow> Inr ''GLOBAL_PUBLIC'' | Some (PStr s) \<Rightarrow> Inr s | _ \<Rightarrow> Inl (ValidationError ''tenant_scope''))
   | _ \<Rightarrow> Inl (ValidationError ''InstitutionalDocument''))"

definition document_of_json :: "(pyval \<Rightarrow> int option) \<Rightarrow> pyval \<Rightarrow> institutional_document result" where
  \<comment> \<open>\<^verbatim>\<open>InstitutionalDocument.model_validate(document)\<close>\<close>
  "document_of_json read_time v =
     bindE (field_str v ''document_id'') (\<lambda>document_id.
     bindE (field_str v ''source_id'') (\<lambda>source_id.
     bindE (field_str v ''title'') (\<lambda>title.
     bindE (field_str v ''source_url'') (\<lambda>source_url.
     bindE (field_time read_time v ''published_at'') (\<lambda>published_at.
     bindE (field_time read_time v ''retrieved_at'') (\<lambda>retrieved_at.
     bindE (field_str v ''language'') (\<lambda>language.
     bindE (field_str v ''mime_type'') (\<lambda>mime_type.
     bindE (field_str v ''rights_status'') (\<lambda>rights_status.
     bindE (field_str v ''license_id'') (\<lambda>license_id.
     bindE (field_str v ''attribution_text'') (\<lambda>attribution_text.
     bindE (field_str v ''content'') (\<lambda>content.
     bindE (field_str v ''content_hash'') (\<lambda>content_hash.
     bindE (field_scope v) (\<lambda>tenant_scope.
     validate_document
       \<lparr>id_document_id = document_id, id_source_id = source_id, id_title = title, id_source_url = source_url,
        id_published_at = published_at, id_retrieved_at = retrieved_at, id_language = language,
        id_mime_type = mime_type, id_rights_status = rights_status, id_license_id = license_id,
        id_attribution_text = attribution_text, id_content = content, id_content_hash = content_hash,
        id_tenant_scope = tenant_scope\<rparr>))))))))))))))"

definition fragment_json :: "document_fragment \<Rightarrow> pyval" where
  \<comment> \<open>\<^verbatim>\<open>item.model_dump(mode="json")\<close>\<close>
  "fragment_json f = PDict
     [(''fragment_id'', PStr (fr_fragment_id f)), (''document_id'', PStr (fr_document_id f)),
      (''ordinal'', PInt (int (fr_ordinal f))), (''text'', PStr (fr_text f)),
      (''start_char'', PInt (int (fr_start_char f))), (''end_char'', PInt (int (fr_end_char f))),
      (''content_hash'', PStr (fr_content_hash f)), (''parser_version'', PStr (fr_parser_version f))]"

definition reparse_document :: "(pyval \<Rightarrow> int option) \<Rightarrow> pyval \<Rightarrow> (institutional_document \<times> parsed_document) result" where
  \<comment> \<open>the \<^verbatim>\<open>try\<close> block: every exception is an integrity error\<close>
  "reparse_document read_time document =
     (case bindE (document_of_json read_time document) (\<lambda>d.
           bindE (parse_document d) (\<lambda>p.
           bindE (inspect_document p) (\<lambda>_. Inr (d, p)))) of
        Inr dp \<Rightarrow> Inr dp
      | Inl _ \<Rightarrow> integrity ''Document failed independent parse or security validation'')"

definition source_gate :: "source_row \<Rightarrow> pyval \<Rightarrow> unit result" where
  \<comment> \<open>the registry row and the packaged snapshot, state by state, then the kill switch and the permissions\<close>
  "source_gate s packaged =
     bindE (foldE (\<lambda>_ (k, stored, expected).
              if stored \<noteq> expected then policy_failure (''Source gate failed: '' @ k)
              else require (get_is packaged k (PStr expected)) (''Source snapshot mismatch: '' @ k)) ()
            [(''admission_state'', sr_admission_state s, ''ADMITTED''),
             (''rights_status'', sr_rights_status s, ''COMMERCIAL_REUSE_WITH_ATTRIBUTION''),
             (''license_id'', sr_license_id s, ''CC-BY-4.0'')]) (\<lambda>_.
     bindE (if sr_kill_switch s then Inr True
            else bindE (py_get packaged ''kill_switch'') (\<lambda>v. Inr (v \<noteq> PBool False))) (\<lambda>off.
     if off then policy_failure ''Source kill switch is enabled''
     else if \<not> sr_commercial_use s \<or> \<not> sr_redistribution s
     then policy_failure ''Source reuse permissions are incomplete'' else Inr ()))"

definition lookup_row :: "('r \<Rightarrow> string) \<Rightarrow> 'r list \<Rightarrow> pyval \<Rightarrow> 'r option result" where
  \<comment> \<open>\<^verbatim>\<open>{key(r): r for r in rows}.get(v)\<close>\<close>
  "lookup_row key rows v = (case v of
     PStr s \<Rightarrow> Inr (List.find (\<lambda>r. key r = s) (rev rows))
   | PList _ \<Rightarrow> Inl (TypeError ''unhashable type'')
   | PDict _ \<Rightarrow> Inl (TypeError ''unhashable type'')
   | _ \<Rightarrow> Inr None)"

definition check_fragment :: "fragment_row list \<Rightarrow> pyval \<Rightarrow> unit result" where
  "check_fragment rows packaged =
     bindE (py_item packaged ''fragment_id'') (\<lambda>fid.
     bindE (lookup_row fg_fragment_id rows fid) (\<lambda>found.
     bindE (py_item packaged ''document_id'') (\<lambda>document_id.
     bindE (py_item packaged ''ordinal'') (\<lambda>ordinal.
     bindE (py_item packaged ''text'') (\<lambda>text.
     bindE (case found of
              None \<Rightarrow> Inr True
            | Some _ \<Rightarrow> notE (item_is packaged ''content_hash'' (PStr (document_hash (PDict
                [(''document_id'', document_id), (''ordinal'', ordinal), (''text'', text)]))))) (\<lambda>differs.
     case (differs, found) of
       (False, Some row) \<Rightarrow>
         bindE (py_item packaged ''start_char'') (\<lambda>start_char.
         bindE (py_item packaged ''end_char'') (\<lambda>end_char.
         bindE (py_item packaged ''content_hash'') (\<lambda>content_hash.
         bindE (py_item packaged ''parser_version'') (\<lambda>parser_version.
         if list_all (\<lambda>(stored, value). py_eq stored value)
              [(PStr (fg_document_id row), document_id), (PInt (fg_ordinal row), ordinal),
               (PInt (fg_start_char row), start_char), (PInt (fg_end_char row), end_char),
               (PStr (fg_text_content row), text), (PStr (fg_content_hash row), content_hash),
               (PStr (fg_parser_version row), parser_version),
               (PStr (fg_security_scan_state row), PStr ''CLEAR'')]
         then Inr () else integrity ''Persistent fragment differs from handoff''))))
     | _ \<Rightarrow> integrity ''Packaged fragment hash differs''))))))"

definition allowed_source :: string where "allowed_source = ''world-bank-rer41''"
definition allowed_subject :: string where "allowed_subject = ''geo_country_rus''"
definition allowed_predicate :: string where "allowed_predicate = ''real_gdp_growth_annual_pct''"
definition allowed_unit :: string where "allowed_unit = ''percent_annual''"

definition load_authoritative_inputs ::
    "(pyval \<Rightarrow> int option) \<Rightarrow> source_row list \<Rightarrow> source_object_row list \<Rightarrow> fragment_row list \<Rightarrow> pyval
      \<Rightarrow> (source_row \<times> source_object_row \<times> fragment_row list) result" where
  "load_authoritative_inputs read_time sources objects fragment_rows package =
     bindE (py_item package ''source'') (\<lambda>packaged_source.
     bindE (py_get packaged_source ''source_id'') (\<lambda>source_id.
     if \<not> py_eq source_id (PStr allowed_source)
     then policy_failure ''Source is outside the first admission profile''
     else case List.find (\<lambda>s. sr_source_id s = allowed_source) sources of
       None \<Rightarrow> integrity ''Source registry record is absent''
     | Some source \<Rightarrow>
     bindE (source_gate source packaged_source) (\<lambda>_.
     bindE (py_item package ''document'') (\<lambda>document.
     bindE (reparse_document read_time document) (\<lambda>(d, p).
     bindE (py_item package ''fragments'') (\<lambda>fragments.
     if \<not> py_eq (PList (map fragment_json (pd_fragments p))) fragments
     then integrity ''Fragments do not match independent reparse''
     else if id_source_id d \<noteq> allowed_source then integrity ''Document source identity differs''
     else if id_rights_status d \<noteq> sr_rights_status source
     then integrity ''Document rights differ from source registry''
     else if id_license_id d \<noteq> sr_license_id source
     then integrity ''Document license differs from source registry''
     else case List.find (\<lambda>o'. sb_source_id o' = allowed_source \<and> sb_content_hash o' = id_content_hash d) objects of
       None \<Rightarrow> integrity ''Immutable source object is absent''
     | Some source_object \<Rightarrow>
     if \<not> py_eq (sb_raw_payload source_object) document
     then integrity ''Raw source object differs from handoff document''
     else
     bindE (require (get_is (sb_rights_snapshot source_object) ''rights_status'' (PStr (sr_rights_status source)))
              ''Persisted rights snapshot mismatch: rights_status'') (\<lambda>_.
     bindE (require (get_is (sb_rights_snapshot source_object) ''license_id'' (PStr (sr_license_id source)))
              ''Persisted rights snapshot mismatch: license_id'') (\<lambda>_.
     let rows = filter (\<lambda>r. fg_source_object_id r = sb_id source_object \<and> fg_document_id r = id_document_id d)
                  fragment_rows in
     bindE (py_iter fragments) (\<lambda>packaged.
     if length rows \<noteq> length packaged then integrity ''Fragment count differs''
     else bindE (foldE (\<lambda>_. check_fragment rows) () packaged) (\<lambda>_.
       Inr (source, source_object, rows)))))))))))"

end
