(* ===== verification/AdmissionFacts.thy ===== *)
theory AdmissionFacts
  imports AdmissionPolicy
begin

text \<open>
  The candidate and evidence bindings (\<^verbatim>\<open>admission_evidence_policy.py\<close>) and the fact policy
  (\<^verbatim>\<open>admission_fact_policy.py\<close>): a proposed growth figure is admissible only when one quoted text of
  its own evidence states it. The search for the sentence is the regular expression
  \<^verbatim>\<open>NUMBER_PATTERN\<close> of \<^verbatim>\<open>admission_types.py\<close> with its two groups, and the value is printed as
  \<^verbatim>\<open>str(Decimal(...))\<close> does.
\<close>

section \<open>Candidates\<close>

definition load_candidates :: "candidate_row list \<Rightarrow> string list \<Rightarrow> candidate_row list result" where
  "load_candidates rows ids =
     (let found = filter (\<lambda>r. cr_id r \<in> set ids) rows in
      if length found \<noteq> length ids then integrity ''Candidate Claim persistence set is incomplete'' else Inr found)"

definition item_uuid :: "string \<Rightarrow> pyval \<Rightarrow> string result" where
  \<comment> \<open>\<^verbatim>\<open>UUID(item[k])\<close>\<close>
  "item_uuid k item = bindE (py_item item k) uuid_of"

definition validate_candidate_set :: "pyval \<Rightarrow> string list \<Rightarrow> unit result" where
  "validate_candidate_set package ids =
     bindE (bindE (py_item package ''candidate_claims'') py_iter) (\<lambda>claims.
     bindE (mapE (item_uuid ''persistent_candidate_claim_id'') claims) (\<lambda>packaged_ids.
     if packaged_ids \<noteq> ids then integrity ''Candidate Claim handoff order or identity differs'' else
     bindE (bindE (py_item package ''admission_boundary_results'') py_iter) (\<lambda>boundaries.
     if length boundaries \<noteq> length ids then integrity ''Admission boundary result count differs'' else
     bindE (mapE (\<lambda>b. py_get b ''candidate_claim_id'') boundaries) (\<lambda>boundary_ids.
     bindE (mapE (\<lambda>c. py_get c ''candidate_claim_id'') claims) (\<lambda>draft_ids.
     if \<not> py_eq (PList boundary_ids) (PList draft_ids)
     then integrity ''Admission boundary identities differ'' else Inr ())))))"

definition load_evidence :: "evidence_row list \<Rightarrow> candidate_row list \<Rightarrow> evidence_row list result" where
  "load_evidence rows candidates =
     (let ids = remdups (concat (map cr_evidence_ids candidates));
          found = filter (\<lambda>r. er_id r \<in> set ids) rows
      in if length found \<noteq> length ids then integrity ''Evidence persistence set is incomplete'' else Inr found)"

section \<open>Evidence\<close>

definition payload_quotes :: "evidence_row \<Rightarrow> fragment_row \<Rightarrow> bool result list" where
  "payload_quotes persistent fragment =
     [get_is (er_payload persistent) ''fragment_id'' (PStr (fg_fragment_id fragment)),
      get_is (er_payload persistent) ''quote_hash'' (PStr (fg_content_hash fragment)),
      get_is (er_payload persistent) ''text'' (PStr (fg_text_content fragment))]"

definition evidence_checks :: "source_row \<Rightarrow> pyval \<Rightarrow> evidence_row \<Rightarrow> fragment_row \<Rightarrow> bool list result" where
  \<comment> \<open>the tuple \<^verbatim>\<open>checks\<close>: every entry is evaluated\<close>
  "evidence_checks source packaged persistent fragment = mapE (\<lambda>m. m)
     ([item_is packaged ''evidence_key'' (PStr (er_evidence_key persistent)),
       item_is packaged ''source_id'' (PStr (er_source_id persistent)),
       item_is packaged ''content_hash'' (PStr (er_content_hash persistent)),
       Inr (er_rights_status persistent = sr_rights_status source),
       item_is packaged ''rights_status'' (PStr (sr_rights_status source)),
       item_is packaged ''license_id'' (PStr (sr_license_id source)),
       item_is packaged ''quote_hash'' (PStr (fg_content_hash fragment)),
       item_is packaged ''text'' (PStr (fg_text_content fragment))]
      @ payload_quotes persistent fragment)"

definition check_evidence ::
    "fragment_row list \<Rightarrow> evidence_row list \<Rightarrow> source_row \<Rightarrow> pyval \<Rightarrow> string result" where
  \<comment> \<open>one packaged evidence object; returns its identifier\<close>
  "check_evidence fragments evidence source packaged =
     bindE (item_uuid ''persistent_evidence_id'' packaged) (\<lambda>evidence_id.
     case List.find (\<lambda>r. er_id r = evidence_id) evidence of
       None \<Rightarrow> integrity ''Packaged Evidence Object is absent''
     | Some persistent \<Rightarrow>
     bindE (bindE (py_item packaged ''fragment_id'') (lookup_row fg_fragment_id fragments)) (\<lambda>found.
     case found of
       None \<Rightarrow> integrity ''Evidence fragment is absent''
     | Some fragment \<Rightarrow>
     bindE (evidence_checks source packaged persistent fragment) (\<lambda>checks.
     if list_all (\<lambda>b. b) checks then Inr evidence_id
     else integrity ''Evidence Object differs from immutable inputs'')))"

definition expected_evidence :: "pyval list \<Rightarrow> pyval \<Rightarrow> string list result" where
  \<comment> \<open>the evidence of one packaged candidate\<close>
  "expected_evidence packaged_evidence candidate =
     bindE (foldE (\<lambda>acc item.
         bindE (py_item item ''evidence_key'') (\<lambda>key.
         bindE (bindE (py_item candidate ''evidence_keys'') (py_in key)) (\<lambda>uses.
         if uses then bindE (item_uuid ''persistent_evidence_id'' item) (\<lambda>i. Inr (acc @ [i])) else Inr acc)))
       [] packaged_evidence) Inr"

definition validate_all_evidence ::
    "pyval \<Rightarrow> fragment_row list \<Rightarrow> evidence_row list \<Rightarrow> source_row \<Rightarrow> unit result" where
  "validate_all_evidence package fragments evidence source =
     bindE (bindE (py_item package ''evidence'') py_iter) (\<lambda>packaged.
     bindE (mapE (check_evidence fragments evidence source) packaged) (\<lambda>packaged_ids.
     bindE (bindE (py_item package ''candidate_claims'') py_iter) (\<lambda>claims.
     bindE (mapE (expected_evidence packaged) claims) (\<lambda>expected_ids.
     if set packaged_ids \<noteq> set (concat expected_ids) \<or> set packaged_ids \<noteq> set (map er_id evidence)
     then integrity ''Evidence handoff set differs'' else Inr ()))))"

definition candidate_fields :: "candidate_row \<Rightarrow> (string \<times> pyval) list" where
  "candidate_fields c =
     [(''fingerprint'', PStr (cr_fingerprint c)), (''opportunity_id'', PStr (cr_opportunity_id c)),
      (''subject_id'', PStr (cr_subject_id c)), (''predicate'', PStr (cr_predicate c)),
      (''object_value'', cr_object_value c), (''statement'', PStr (cr_statement c)),
      (''kind'', PStr (cr_kind c)), (''relationship'', PStr (cr_relationship c)),
      (''producer_type'', PStr (cr_producer_type c)), (''producer_id'', PStr (cr_producer_id c)),
      (''model_version'', PStr (cr_model_version c)), (''method_version'', PStr (cr_method_version c)),
      (''prompt_version'', PStr (cr_prompt_version c)), (''assumptions'', cr_assumptions c),
      (''unknowns'', cr_unknowns c)]"

definition validate_candidate_record :: "candidate_row \<Rightarrow> pyval \<Rightarrow> unit result" where
  "validate_candidate_record c packaged =
     bindE (anyE (\<lambda>(k, v). bindE (py_item packaged k) (\<lambda>w. Inr (\<not> py_eq v w))) (candidate_fields c)) (\<lambda>differs.
     if differs then integrity ''Candidate Claim differs from handoff package'' else
     bindE (bindE (py_item packaged ''extraction_confidence'') py_float) (\<lambda>confidence.
     if cr_extraction_confidence c \<noteq> confidence then integrity ''Candidate extraction confidence differs'' else
     bindE (require (get_is packaged ''state'' (PStr ''ADMISSION_QUEUED''))
              ''Packaged Candidate Claim state differs'') (\<lambda>_.
     bindE (require (bindE (py_get packaged ''canonical_claim_id'') (\<lambda>v. Inr (v = PNone)))
              ''Packaged Candidate Claim is already canonical'') (\<lambda>_.
     if cr_state c \<noteq> ''ADMISSION_QUEUED'' then integrity ''Persistent Candidate Claim state differs''
     else if cr_producer_type c \<noteq> ''LOCAL_MODEL'' then integrity ''Expected proposal producer type LOCAL_MODEL''
     else if cr_canonical_claim_id c \<noteq> None then integrity ''Candidate already carries a canonical claim''
     else Inr ()))))"

section \<open>Rederiving the number\<close>

definition after_word :: "string \<Rightarrow> string \<Rightarrow> string option" where
  \<comment> \<open>a literal of the pattern in lower case\<close>
  "after_word w s = (if lower (take (length w) s) = w then Some (drop (length w) s) else None)"

definition after_spaces :: "string \<Rightarrow> string option" where
  "after_spaces s = (if s \<noteq> [] \<and> is_ws (hd s) then Some (dropWhile is_ws s) else None)"

definition number_text :: "string \<Rightarrow> ((string \<times> string) \<times> string) option" where
  \<comment> \<open>\<^verbatim>\<open>[0-9]+(?:\.[0-9]+)?\<close>: integer digits, fraction digits, what follows\<close>
  "number_text s =
     (let ip = takeWhile is_digit s; r = dropWhile is_digit s in
      if ip = [] then None
      else if r \<noteq> [] \<and> hd r = CHR ''.'' \<and> takeWhile is_digit (tl r) \<noteq> []
      then Some ((ip, takeWhile is_digit (tl r)), dropWhile is_digit (tl r))
      else Some ((ip, []), r))"

definition number_at :: "string \<Rightarrow> ((string \<times> string) \<times> string) option" where
  \<comment> \<open>the pattern at this position: the number and the period\<close>
  "number_at s =
     Option.bind (after_word ''real gdp growth reached'' s) (\<lambda>s1.
     Option.bind (after_spaces s1) (\<lambda>s2.
     Option.bind (number_text s2) (\<lambda>(number, s3).
     Option.bind (after_spaces s3) (\<lambda>s4.
     Option.bind (after_word ''percent'' s4) (\<lambda>s5.
     Option.bind (after_spaces s5) (\<lambda>s6.
     Option.bind (after_word ''in'' s6) (\<lambda>s7.
     Option.bind (after_spaces s7) (\<lambda>s8.
     if 4 \<le> length s8 \<and> list_all is_digit (take 4 s8) then Some (number, take 4 s8) else None))))))))"

fun search_number :: "string \<Rightarrow> ((string \<times> string) \<times> string) option" where
  \<comment> \<open>\<^verbatim>\<open>NUMBER_PATTERN.search(text)\<close>: the leftmost match\<close>
  "search_number [] = None"
| "search_number (c # s) = (case number_at (c # s) of Some m \<Rightarrow> Some m | None \<Rightarrow> search_number s)"

definition decimal_text :: "string \<Rightarrow> string \<Rightarrow> string" where
  \<comment> \<open>\<^verbatim>\<open>str(Decimal(ip + "." + fp))\<close>\<close>
  "decimal_text ip fp =
     (let coefficient = (case dropWhile (\<lambda>c. c = CHR ''0'') (ip @ fp) of [] \<Rightarrow> ''0'' | ds \<Rightarrow> ds);
          scale = length fp; n = length coefficient
      in if scale < n
         then take (n - scale) coefficient @ (if scale = 0 then [] else ''.'' @ drop (n - scale) coefficient)
         else if scale < n + 6 then ''0.'' @ replicate (scale - n) (CHR ''0'') @ coefficient
         else [hd coefficient] @ (if n = 1 then [] else ''.'' @ tl coefficient)
              @ ''E-'' @ str_int (int scale - int n + 1))"

section \<open>The fact policy\<close>

datatype adm_outcome = AdmittedRederived | Rejected | Contested | HumanReviewRequired | Duplicate

record rederived_fact =
  rf_value :: string
  rf_period :: string
  rf_evidence_ids :: "string list"

definition rederived_value :: "rederived_fact \<Rightarrow> pyval" where
  "rederived_value f = PDict [(''value'', PStr (rf_value f)), (''unit'', PStr allowed_unit),
     (''period'', PStr (rf_period f))]"

definition observed_at :: "rederived_fact \<Rightarrow> string" where
  "observed_at f = rf_period f @ ''-12-31T23:59:59+00:00''"

definition rederived_json :: "rederived_fact \<Rightarrow> pyval" where
  "rederived_json f = PDict
     [(''subject_id'', PStr allowed_subject), (''predicate'', PStr allowed_predicate),
      (''object_value'', rederived_value f), (''observed_at'', PStr (observed_at f)),
      (''evidence_ids'', PStrs (rf_evidence_ids f))]"

definition fact_fingerprint :: "rederived_fact \<Rightarrow> string" where
  "fact_fingerprint f = document_hash (PDict
     [(''subject_id'', PStr allowed_subject), (''predicate'', PStr allowed_predicate),
      (''object_value'', rederived_value f), (''observed_at'', PStr (observed_at f))])"

record fact_decision =
  fd_outcome :: adm_outcome
  fd_reasons :: "string list"
  fd_gates :: "(string \<times> bool) list"
  fd_rederived :: "rederived_fact option"
  fd_fingerprint :: "string option"

definition base_gates ::
    "pyval \<Rightarrow> candidate_row \<Rightarrow> source_row \<Rightarrow> source_object_row \<Rightarrow> (string \<times> bool) list result" where
  "base_gates package candidate source source_object =
     bindE (bindE (py_item package ''document'') (\<lambda>d. item_is d ''content_hash'' (PStr (sb_content_hash source_object))))
       (\<lambda>raw_valid. Inr
       [(''HANDOFF_SCHEMA_VALID'', True), (''PACKAGE_HASH_VALID'', True),
        (''SOURCE_STILL_ADMITTED'', sr_admission_state source = ''ADMITTED''),
        (''SOURCE_KILL_SWITCH_OFF'', \<not> sr_kill_switch source),
        (''RIGHTS_STILL_VALID'', sr_commercial_use source \<and> sr_redistribution source),
        (''RAW_OBJECT_HASH_VALID'', raw_valid),
        (''PRODUCER_AUTHORITY_SEPARATED'', cr_producer_type candidate = ''LOCAL_MODEL''),
        (''POLICY_VERSION_PINNED'', True)])"

fun findE :: "('a \<Rightarrow> bool result) \<Rightarrow> 'a list \<Rightarrow> 'a option result" where
  \<comment> \<open>\<^verbatim>\<open>next((x for x in xs if p(x)), None)\<close>\<close>
  "findE p [] = Inr None"
| "findE p (x # xs) = bindE (p x) (\<lambda>b. if b then Inr (Some x) else findE p xs)"

definition bind_evidence_key ::
    "pyval list \<Rightarrow> candidate_row \<Rightarrow> source_row \<Rightarrow> fragment_row list \<Rightarrow> evidence_row list
      \<Rightarrow> string list \<times> string list \<Rightarrow> pyval \<Rightarrow> (string list \<times> string list) result" where
  \<comment> \<open>one evidence key of the packaged candidate: its text and its identifier are appended\<close>
  "bind_evidence_key packaged_evidence candidate source fragments evidence acc key =
     bindE (lookup_row er_evidence_key evidence key) (\<lambda>found.
     case found of
       None \<Rightarrow> integrity ''Candidate evidence binding differs''
     | Some persistent \<Rightarrow>
     if er_id persistent \<notin> set (cr_evidence_ids candidate) then integrity ''Candidate evidence binding differs'' else
     bindE (findE (\<lambda>item. item_is item ''evidence_key'' key) packaged_evidence) (\<lambda>packaged.
     case packaged of
       None \<Rightarrow> integrity ''Packaged Evidence Object is absent''
     | Some packaged_item \<Rightarrow>
     bindE (bindE (py_item packaged_item ''fragment_id'') (lookup_row fg_fragment_id fragments)) (\<lambda>fragment_found.
     case fragment_found of
       None \<Rightarrow> integrity ''Evidence fragment is absent''
     | Some fragment \<Rightarrow>
     bindE (require (item_is packaged_item ''quote_hash'' (PStr (fg_content_hash fragment)))
              ''Evidence quote hash differs from fragment'') (\<lambda>_.
     bindE (require (andE (payload_quotes persistent fragment
                @ [item_is packaged_item ''content_hash'' (PStr (er_content_hash persistent))]))
              ''Persistent Evidence Object differs'') (\<lambda>_.
     if er_rights_status persistent \<noteq> sr_rights_status source
     then integrity ''Evidence rights differ from current source''
     else Inr (fst acc @ [fg_text_content fragment], snd acc @ [er_id persistent]))))))"

definition exact_match :: "candidate_row \<Rightarrow> rederived_fact \<Rightarrow> bool result" where
  "exact_match candidate f = andE
     [get_is (cr_object_value candidate) ''value'' (PStr (rf_value f)),
      get_is (cr_object_value candidate) ''unit'' (PStr allowed_unit),
      get_is (cr_object_value candidate) ''period'' (PStr (rf_period f))]"

definition adverse_same_semantics :: "pyval list \<Rightarrow> pyval \<Rightarrow> bool result" where
  "adverse_same_semantics claims packaged_candidate =
     anyE (\<lambda>item.
       bindE (py_get item ''persistent_candidate_claim_id'') (\<lambda>i.
       bindE (py_item packaged_candidate ''persistent_candidate_claim_id'') (\<lambda>own.
       if py_eq i own then Inr False
       else andE [get_is item ''relationship'' (PStr ''ADVERSE''),
                  get_is item ''subject_id'' (PStr allowed_subject),
                  get_is item ''predicate'' (PStr allowed_predicate)]))) claims"

definition period_year :: "string \<Rightarrow> int" where
  \<comment> \<open>\<^verbatim>\<open>int(period)\<close> of four digits\<close>
  "period_year p = digits_value p"

definition judge_match ::
    "int \<Rightarrow> (string \<times> bool) list \<Rightarrow> bool \<Rightarrow> bool \<Rightarrow> rederived_fact \<Rightarrow> fact_decision" where
  \<comment> \<open>the gates of a unique match and the three outcomes it can have\<close>
  "judge_match current_year gates exact adverse f =
     (let all_gates = gates @
        [(''EVIDENCE_BINDING_VALID'', True), (''SUBJECT_RESOLVED'', True), (''PREDICATE_ALLOWED'', True),
         (''VALUE_REDERIVED'', True), (''UNIT_REDERIVED'', True), (''PERIOD_REDERIVED'', True),
         (''VALUE_UNIT_PERIOD_EXACT_MATCH'', exact),
         (''TEMPORAL_VALIDITY_PASS'', period_year (rf_period f) \<le> current_year),
         (''SCOPE_VALIDITY_PASS'', True), (''CONTRADICTION_PRESSURE_ACCEPTABLE'', \<not> adverse)] in
      if \<not> exact
      then \<lparr>fd_outcome = Rejected, fd_reasons = [''proposed_value_unit_or_period_mismatch''], fd_gates = all_gates,
            fd_rederived = Some f, fd_fingerprint = Some (document_hash (rederived_json f))\<rparr>
      else if adverse
      then \<lparr>fd_outcome = Contested, fd_reasons = [''adverse_evidence_targets_same_semantics''], fd_gates = all_gates,
            fd_rederived = Some f, fd_fingerprint = Some (document_hash (rederived_json f))\<rparr>
      else \<lparr>fd_outcome = AdmittedRederived, fd_reasons = [''all_deterministic_gates_passed''], fd_gates = all_gates,
            fd_rederived = Some f, fd_fingerprint = Some (fact_fingerprint f)\<rparr>)"

definition unresolved :: "adm_outcome \<Rightarrow> string \<Rightarrow> (string \<times> bool) list \<Rightarrow> fact_decision" where
  "unresolved outcome reason gates =
     \<lparr>fd_outcome = outcome, fd_reasons = [reason], fd_gates = gates, fd_rederived = None, fd_fingerprint = None\<rparr>"

definition evaluate_fact ::
    "int \<Rightarrow> pyval \<Rightarrow> candidate_row \<Rightarrow> pyval \<Rightarrow> source_row \<Rightarrow> source_object_row \<Rightarrow> fragment_row list
      \<Rightarrow> evidence_row list \<Rightarrow> fact_decision result" where
  \<comment> \<open>\<^verbatim>\<open>_evaluate_candidate\<close>\<close>
  "evaluate_fact current_year package candidate packaged_candidate source source_object fragments evidence =
     bindE (base_gates package candidate source source_object) (\<lambda>gates.
     if cr_kind candidate \<noteq> ''FACT''
     then Inr (unresolved HumanReviewRequired ''candidate_class_not_auto_admissible'' (gates @ [(''PREDICATE_ALLOWED'', False)]))
     else if cr_subject_id candidate \<noteq> allowed_subject \<or> cr_predicate candidate \<noteq> allowed_predicate
     then Inr (unresolved HumanReviewRequired ''candidate_outside_first_admission_profile'' (gates @ [(''PREDICATE_ALLOWED'', False)]))
     else
     bindE (bindE (py_item packaged_candidate ''evidence_keys'') py_iter) (\<lambda>keys.
     bindE (if keys = [] then Inr [] else bindE (py_item package ''evidence'') py_iter) (\<lambda>packaged_evidence.
     bindE (foldE (bind_evidence_key packaged_evidence candidate source fragments evidence) ([], []) keys) (\<lambda>(texts, ids).
     case List.map_filter search_number texts of
       [((ip, fp), period)] \<Rightarrow>
         (let f = \<lparr>rf_value = decimal_text ip fp, rf_period = period, rf_evidence_ids = ids\<rparr> in
          bindE (exact_match candidate f) (\<lambda>exact.
          bindE (bindE (py_item package ''candidate_claims'') py_iter) (\<lambda>claims.
          bindE (adverse_same_semantics claims packaged_candidate) (\<lambda>adverse.
          Inr (judge_match current_year gates exact adverse f)))))
     | _ \<Rightarrow> Inr (unresolved Rejected ''deterministic_value_not_uniquely_rederived'' (gates @ [(''VALUE_REDERIVED'', False)]))))))"

end
