(* ===== verification/NumberSentence.thy ===== *)
theory NumberSentence
  imports AdmissionFacts
begin

text \<open>
  The sentence a growth figure is rederived from: the declarative form of \<^verbatim>\<open>NUMBER_PATTERN\<close> with its
  two groups, and the search of the fact policy sound and complete for it.
\<close>

section \<open>The quoted sentence\<close>

definition blanks :: "string \<Rightarrow> bool" where
  "blanks g = (g \<noteq> [] \<and> list_all is_ws g)"

definition number_sentence :: "string \<Rightarrow> string \<Rightarrow> string \<Rightarrow> string \<Rightarrow> bool" where
  \<comment> \<open>the declarative form of \<^verbatim>\<open>NUMBER_PATTERN\<close> with its groups\<close>
  "number_sentence u ip fp period = (\<exists>w1 g1 g2 w2 g3 w3 g4.
     u = w1 @ g1 @ ip @ (if fp = [] then [] else ''.'' @ fp) @ g2 @ w2 @ g3 @ w3 @ g4 @ period
     \<and> lower w1 = ''real gdp growth reached'' \<and> lower w2 = ''percent'' \<and> lower w3 = ''in''
     \<and> blanks g1 \<and> blanks g2 \<and> blanks g3 \<and> blanks g4
     \<and> ip \<noteq> [] \<and> list_all is_digit (ip @ fp @ period) \<and> length period = 4)"

lemma after_word_iff: "after_word w s = Some t \<longleftrightarrow> (\<exists>u. s = u @ t \<and> lower u = w \<and> length u = length w)"
proof
  assume "after_word w s = Some t"
  then have "lower (take (length w) s) = w" "t = drop (length w) s"
    by (auto simp: after_word_def split: if_splits)
  then show "\<exists>u. s = u @ t \<and> lower u = w \<and> length u = length w"
    by (intro exI [of _ "take (length w) s"]) (metis append_take_drop_id length_lower)
qed (auto simp: after_word_def)

lemma after_spaces_iff:
  "after_spaces s = Some t \<longleftrightarrow> (\<exists>g. s = g @ t \<and> blanks g \<and> (t = [] \<or> \<not> is_ws (hd t)))"
proof
  assume "after_spaces s = Some t"
  then have s: "s \<noteq> []" "is_ws (hd s)" "t = dropWhile is_ws s"
    by (auto simp: after_spaces_def split: if_splits)
  have "s = takeWhile is_ws s @ t" "takeWhile is_ws s \<noteq> []" "list_all is_ws (takeWhile is_ws s)"
    using s by (auto simp: list_all_iff dest: set_takeWhileD) (cases s, simp_all)
  then show "\<exists>g. s = g @ t \<and> blanks g \<and> (t = [] \<or> \<not> is_ws (hd t))"
    using s(3) hd_dropWhile [of is_ws s] unfolding blanks_def by blast
next
  assume "\<exists>g. s = g @ t \<and> blanks g \<and> (t = [] \<or> \<not> is_ws (hd t))"
  then obtain g where g: "s = g @ t" "g \<noteq> []" "list_all is_ws g" "t = [] \<or> \<not> is_ws (hd t)"
    by (auto simp: blanks_def)
  then have "dropWhile is_ws s = t"
    by (cases t) (auto simp: list_all_iff dropWhile_append)
  with g show "after_spaces s = Some t"
    by (cases g) (auto simp: after_spaces_def)
qed

lemma digit_not_ws: "is_digit c \<Longrightarrow> \<not> is_ws c"
  by (auto simp: is_digit_def is_ws_def Let_def)

lemma takeWhile_all: "list_all P u \<Longrightarrow> (t = [] \<or> \<not> P (hd t)) \<Longrightarrow> takeWhile P (u @ t) = u \<and> dropWhile P (u @ t) = t"
  by (induction u) (auto, (cases t; simp)+)

lemma number_text_iff:
  assumes "t = [] \<or> \<not> is_digit (hd t)" "fp = [] \<longrightarrow> t = [] \<or> hd t \<noteq> CHR ''.''"
  shows "number_text s = Some ((ip, fp), t) \<longleftrightarrow>
    s = ip @ (if fp = [] then [] else ''.'' @ fp) @ t \<and> ip \<noteq> [] \<and> list_all is_digit (ip @ fp)"
proof
  assume num: "number_text s = Some ((ip, fp), t)"
  define r where "r = dropWhile is_digit s"
  have parts: "s = takeWhile is_digit s @ r" "list_all is_digit (takeWhile is_digit s)"
    by (auto simp: r_def list_all_iff dest: set_takeWhileD)
  show "s = ip @ (if fp = [] then [] else ''.'' @ fp) @ t \<and> ip \<noteq> [] \<and> list_all is_digit (ip @ fp)"
  proof (cases "r \<noteq> [] \<and> hd r = CHR ''.'' \<and> takeWhile is_digit (tl r) \<noteq> []")
    case True
    with num have "ip = takeWhile is_digit s" "fp = takeWhile is_digit (tl r)" "t = dropWhile is_digit (tl r)" "ip \<noteq> []"
      by (auto simp: number_text_def Let_def r_def split: if_splits)
    moreover have "r = CHR ''.'' # tl r" using True by (cases r) auto
    moreover have "list_all is_digit (takeWhile is_digit (tl r))"
      by (auto simp: list_all_iff dest: set_takeWhileD)
    ultimately show ?thesis
      using parts True by simp
  next
    case False
    with num have "ip = takeWhile is_digit s" "fp = []" "t = r" "ip \<noteq> []"
      by (auto simp: number_text_def Let_def r_def split: if_splits)
    with parts show ?thesis by simp
  qed
next
  assume s: "s = ip @ (if fp = [] then [] else ''.'' @ fp) @ t \<and> ip \<noteq> [] \<and> list_all is_digit (ip @ fp)"
  let ?r = "(if fp = [] then [] else ''.'' @ fp) @ t"
  have "?r = [] \<or> \<not> is_digit (hd ?r)"
    using assms(1) by (auto simp: is_digit_def code_def)
  with s have ip: "takeWhile is_digit s = ip" "dropWhile is_digit s = ?r"
    using takeWhile_all [of is_digit ip ?r] by auto
  show "number_text s = Some ((ip, fp), t)"
  proof (cases "fp = []")
    case True
    with assms(2) have "t = [] \<or> hd t \<noteq> CHR ''.''" by simp
    with True ip s show ?thesis by (auto simp: number_text_def)
  next
    case False
    with s assms(1) have "takeWhile is_digit (fp @ t) = fp" "dropWhile is_digit (fp @ t) = t"
      using takeWhile_all [of is_digit fp t] by auto
    with False ip s show ?thesis by (simp add: number_text_def)
  qed
qed

lemma lower_char_ws: "is_ws c \<Longrightarrow> lower_char c = c"
  by (auto simp: is_ws_def lower_char_def is_ascii_upper_def is_latin_upper_def Let_def)

lemma word_head: "lower w = x # xs \<Longrightarrow> \<not> is_ws x \<Longrightarrow> w \<noteq> [] \<and> \<not> is_ws (hd w)"
  by (cases w) (auto simp: lower_def lower_char_ws)

lemma blanks_head: "blanks g \<Longrightarrow> g \<noteq> [] \<and> is_ws (hd g)"
  by (cases g) (auto simp: blanks_def)

lemma pattern_letters: "\<not> is_ws (CHR ''p'')" "\<not> is_ws (CHR ''i'')"
  by (simp_all add: is_ws_def code_def)

lemma number_at_sound:
  assumes "number_at s = Some ((ip, fp), period)"
  shows "\<exists>u t. s = u @ t \<and> number_sentence u ip fp period"
proof -
  from assms obtain s1 s2 s3 s4 s5 s6 s7 s8 where steps:
    "after_word ''real gdp growth reached'' s = Some s1" "after_spaces s1 = Some s2"
    "number_text s2 = Some ((ip, fp), s3)" "after_spaces s3 = Some s4" "after_word ''percent'' s4 = Some s5"
    "after_spaces s5 = Some s6" "after_word ''in'' s6 = Some s7" "after_spaces s7 = Some s8"
    "4 \<le> length s8" "list_all is_digit (take 4 s8)" "period = take 4 s8"
    by (auto simp: number_at_def bind_eq_Some_conv split: if_splits)
  obtain w1 g1 g2 w2 g3 w3 g4 where parts:
    "s = w1 @ s1" "lower w1 = ''real gdp growth reached''" "s1 = g1 @ s2" "blanks g1" "s3 = g2 @ s4" "blanks g2"
    "s4 = w2 @ s5" "lower w2 = ''percent''" "s5 = g3 @ s6" "blanks g3" "s6 = w3 @ s7" "lower w3 = ''in''"
    "s7 = g4 @ s8" "blanks g4"
    using steps by (auto simp: after_word_iff after_spaces_iff)
  have "s3 \<noteq> []" "is_ws (hd s3)"
    using parts(5) blanks_head [OF parts(6)] by auto
  then have "\<not> is_digit (hd s3)" "hd s3 \<noteq> CHR ''.''"
    using digit_not_ws by (auto simp: is_ws_def code_def)
  then have "s2 = ip @ (if fp = [] then [] else ''.'' @ fp) @ s3 \<and> ip \<noteq> [] \<and> list_all is_digit (ip @ fp)"
    using steps(3) number_text_iff [of s3 fp s2 ip] by simp
  with parts steps(9-11) have
    "s = (w1 @ g1 @ ip @ (if fp = [] then [] else ''.'' @ fp) @ g2 @ w2 @ g3 @ w3 @ g4 @ period) @ drop 4 s8"
    "ip \<noteq> [] \<and> list_all is_digit (ip @ fp @ period) \<and> length period = 4"
    by auto
  then show ?thesis
    unfolding number_sentence_def using parts(2,4,6,8,10,12,14) by blast
qed

lemma number_at_complete:
  assumes "number_sentence u ip fp period"
  shows "number_at (u @ t) = Some ((ip, fp), period)"
proof -
  from assms obtain w1 g1 g2 w2 g3 w3 g4 where u:
    "u = w1 @ g1 @ ip @ (if fp = [] then [] else ''.'' @ fp) @ g2 @ w2 @ g3 @ w3 @ g4 @ period"
    "lower w1 = ''real gdp growth reached''" "lower w2 = ''percent''" "lower w3 = ''in''"
    "blanks g1" "blanks g2" "blanks g3" "blanks g4"
    "ip \<noteq> []" "list_all is_digit (ip @ fp @ period)" "length period = 4"
    unfolding number_sentence_def by blast
  let ?s8 = "period @ t"
  let ?s7 = "g4 @ ?s8" let ?s6 = "w3 @ ?s7" let ?s5 = "g3 @ ?s6" let ?s4 = "w2 @ ?s5"
  let ?s3 = "g2 @ ?s4" let ?s2 = "ip @ (if fp = [] then [] else ''.'' @ fp) @ ?s3" let ?s1 = "g1 @ ?s2"
  have word: "after_word (lower w) (w @ r) = Some r" for w r
    by (simp add: after_word_def)
  have gap: "blanks g \<Longrightarrow> r \<noteq> [] \<Longrightarrow> \<not> is_ws (hd r) \<Longrightarrow> after_spaces (g @ r) = Some r" for g r
    using after_spaces_iff by blast
  have digits: "\<not> is_ws (hd ip)" "period \<noteq> []" "\<not> is_ws (hd period)"
    using u(9-11) digit_not_ws by (cases ip; cases period; auto)+
  have heads: "?s2 \<noteq> []" "\<not> is_ws (hd ?s2)" "?s4 \<noteq> []" "\<not> is_ws (hd ?s4)" "?s6 \<noteq> []" "\<not> is_ws (hd ?s6)"
    "?s8 \<noteq> []" "\<not> is_ws (hd ?s8)"
    using digits u(9) word_head [OF u(3)] word_head [OF u(4)] pattern_letters by simp_all
  have "is_ws (hd ?s3)"
    using blanks_head [OF u(6)] by simp
  then have "\<not> is_digit (hd ?s3)" "hd ?s3 \<noteq> CHR ''.''"
    using digit_not_ws by (auto simp: is_ws_def code_def)
  then have number: "number_text ?s2 = Some ((ip, fp), ?s3)"
    using number_text_iff [of ?s3 fp ?s2 ip] u(9,10) by simp
  have "u @ t = w1 @ ?s1"
    by (simp add: u(1))
  then show ?thesis
    using word [of w1 ?s1] word [of w2 ?s5] word [of w3 ?s7] gap [OF u(5) heads(1,2)] gap [OF u(6) heads(3,4)]
      gap [OF u(7) heads(5,6)] gap [OF u(8) heads(7,8)] number u(2-4,10,11)
    by (simp add: number_at_def)
qed

lemma search_number_Some:
  "search_number s = Some ((ip, fp), period) \<Longrightarrow> \<exists>a u t. s = a @ u @ t \<and> number_sentence u ip fp period"
proof (induction s)
  case (Cons c s)
  show ?case
  proof (cases "number_at (c # s)")
    case None
    with Cons obtain a u t where "s = a @ u @ t" "number_sentence u ip fp period" by auto
    then have "c # s = (c # a) @ u @ t" by simp
    with \<open>number_sentence u ip fp period\<close> show ?thesis by blast
  next
    case (Some m)
    with Cons.prems have "number_at (c # s) = Some ((ip, fp), period)" by simp
    from number_at_sound [OF this] obtain u t where "c # s = [] @ u @ t" "number_sentence u ip fp period" by auto
    then show ?thesis by blast
  qed
qed simp

lemma search_number_None:
  "search_number (a @ u @ t) = None \<Longrightarrow> \<not> number_sentence u ip fp period"
proof (induction a)
  case Nil
  show ?case
  proof
    assume u: "number_sentence u ip fp period"
    then have "u \<noteq> []" by (auto simp: number_sentence_def)
    then obtain c v where "u = c # v" by (cases u) auto
    with number_at_complete [OF u, of t] Nil show False by simp
  qed
next
  case (Cons c a)
  then show ?case by (simp split: option.splits)
qed

end
