(* ===== verification/AdmissionLedger.thy ===== *)
theory AdmissionLedger
  imports AdmissionFacts
begin

text \<open>
  The admission transaction: the ledger writes (\<^verbatim>\<open>admission_ledger_store.py\<close>), the decision flow
  (\<^verbatim>\<open>admission_decision_flow.py\<close>), the failure record (\<^verbatim>\<open>admission_failure_store.py\<close>) and the runtime
  that processes one job (\<^verbatim>\<open>admission_runtime.py\<close>). The database is a record of tables, each a list
  of rows; a transaction that raises leaves it as it was. \<^verbatim>\<open>uuid4()\<close> is a supply of identifiers,
  the time of the transaction, the current year and the order the database returns rows of equal
  creation time in are arguments.
\<close>

section \<open>The database\<close>

datatype batch_state = BatchPending | BatchDecided

record batch_row =
  bt_id :: string
  bt_state :: batch_state
  bt_candidate_ids :: "string list"
  bt_summary :: pyval

record canonical_row =
  cc_id :: string
  cc_fingerprint :: string
  cc_subject_id :: string
  cc_predicate :: string
  cc_object_value :: pyval
  cc_statement :: string
  cc_evidence_ids :: "string list"
  cc_year :: int \<comment> \<open>valid from 1 January, valid to and observed at 31 December of this year\<close>
  cc_batch_id :: string

record claim_event_row =
  ce_canonical_id :: string
  ce_to_state :: string
  ce_reason :: string
  ce_batch_id :: string

record decision_row =
  dn_batch_id :: string
  dn_handoff_id :: string
  dn_candidate_id :: string
  dn_outcome :: adm_outcome
  dn_gates :: "(string \<times> bool) list"
  dn_reasons :: "string list"
  dn_canonical_id :: "string option"
  dn_fingerprint :: "string option"
  dn_human_review :: bool
  dn_created_at :: int

record failure_row =
  fl_tenant_id :: string
  fl_run_id :: string
  fl_handoff_id :: string
  fl_payload :: pyval
  fl_error_code :: string
  fl_error_detail :: string
  fl_quarantined :: bool

record admission_db =
  tb_handoffs :: "handoff_row list"
  tb_runs :: "run_row list"
  tb_sources :: "source_row list"
  tb_source_objects :: "source_object_row list"
  tb_fragments :: "fragment_row list"
  tb_evidence :: "evidence_row list"
  tb_candidates :: "candidate_row list"
  tb_batches :: "batch_row list"
  tb_canonical :: "canonical_row list"
  tb_claim_events :: "claim_event_row list"
  tb_decisions :: "decision_row list"
  tb_failures :: "failure_row list"
  tb_dossiers :: "(string \<times> string) list" \<comment> \<open>identifier and status\<close>

text \<open>What a decision run is given besides the database.\<close>

record run_env =
  en_uuid :: "nat \<Rightarrow> string"
  en_now :: int
  en_year :: int
  en_read_time :: "pyval \<Rightarrow> int option"
  en_order :: "decision_row list \<Rightarrow> decision_row list"

section \<open>Ledger writes\<close>

definition outcome_text :: "adm_outcome \<Rightarrow> string" where
  "outcome_text x = (case x of
     AdmittedRederived \<Rightarrow> ''ADMITTED_REDERIVED'' | Rejected \<Rightarrow> ''REJECTED'' | Contested \<Rightarrow> ''CONTESTED''
   | HumanReviewRequired \<Rightarrow> ''HUMAN_REVIEW_REQUIRED'' | Duplicate \<Rightarrow> ''DUPLICATE'')"

definition create_batch :: "string \<Rightarrow> string list \<Rightarrow> admission_db \<Rightarrow> admission_db" where
  "create_batch batch_id ids db = db\<lparr>tb_batches := tb_batches db @
     [\<lparr>bt_id = batch_id, bt_state = BatchPending, bt_candidate_ids = ids, bt_summary = PDict []\<rparr>]\<rparr>"

definition canonical_statement :: "rederived_fact \<Rightarrow> string" where
  "canonical_statement f =
     ''The World Bank report states that real GDP growth in the Russian Federation reached ''
     @ rf_value f @ '' percent in '' @ rf_period f @ ''.''"

definition write_canonical ::
    "string \<Rightarrow> string \<Rightarrow> rederived_fact \<Rightarrow> string \<Rightarrow> admission_db \<Rightarrow> ((string \<times> bool) \<times> admission_db) result" where
  \<comment> \<open>the identifier of the claim with this fingerprint, whether it was there before, the new tables\<close>
  "write_canonical batch_id new_id f fingerprint db =
     (let year = period_year (rf_period f) in
      if year < 1 then Inl (ValueError (''year '' @ str_int year @ '' is out of range''))
      else case List.find (\<lambda>c. cc_fingerprint c = fingerprint) (tb_canonical db) of
        Some c \<Rightarrow> Inr ((cc_id c, True), db)
      | None \<Rightarrow> Inr ((new_id, False), db
          \<lparr>tb_canonical := tb_canonical db @
             [\<lparr>cc_id = new_id, cc_fingerprint = fingerprint, cc_subject_id = allowed_subject,
               cc_predicate = allowed_predicate, cc_object_value = rederived_value f,
               cc_statement = canonical_statement f, cc_evidence_ids = rf_evidence_ids f,
               cc_year = year, cc_batch_id = batch_id\<rparr>],
           tb_claim_events := tb_claim_events db @
             [\<lparr>ce_canonical_id = new_id, ce_to_state = ''ADMITTED'',
               ce_reason = ''deterministically_rederived_from_immutable_document_evidence'',
               ce_batch_id = batch_id\<rparr>]\<rparr>))"

definition update_candidate :: "string \<Rightarrow> (candidate_row \<Rightarrow> candidate_row) \<Rightarrow> admission_db \<Rightarrow> admission_db" where
  "update_candidate i f db = db\<lparr>tb_candidates := map (\<lambda>c. if cr_id c = i then f c else c) (tb_candidates db)\<rparr>"

definition record_decision ::
    "int \<Rightarrow> string \<Rightarrow> string \<Rightarrow> string \<Rightarrow> string option \<Rightarrow> fact_decision \<Rightarrow> admission_db \<Rightarrow> admission_db result" where
  "record_decision now batch_id handoff_id candidate_id canonical_id d db =
     (if list_ex (\<lambda>r. dn_handoff_id r = handoff_id \<and> dn_candidate_id r = candidate_id) (tb_decisions db)
      then Inl (UniqueViolation ''admission_decisions'')
      else Inr (db\<lparr>tb_decisions := tb_decisions db @
        [\<lparr>dn_batch_id = batch_id, dn_handoff_id = handoff_id, dn_candidate_id = candidate_id,
          dn_outcome = fd_outcome d, dn_gates = fd_gates d, dn_reasons = fd_reasons d,
          dn_canonical_id = canonical_id, dn_fingerprint = fd_fingerprint d,
          dn_human_review = (fd_outcome d = HumanReviewRequired), dn_created_at = now\<rparr>]\<rparr>))"

definition decision_summary :: "adm_outcome list \<Rightarrow> string list \<Rightarrow> pyval" where
  "decision_summary outcomes canonical_ids = PDict
     [(''policy_version'', PStr admission_policy),
      (''decision_counts'', PDict (map (\<lambda>x. (outcome_text x, PInt (int (count_list outcomes x)))) (unique_first outcomes))),
      (''canonical_claim_ids'', PStrs (unique_first canonical_ids)), (''model_calls'', PInt 0)]"

record admission_run =
  ar_batch_id :: string
  ar_canonical_ids :: "string list"
  ar_outcomes :: "adm_outcome list"
  ar_replay :: bool
  ar_model_calls :: nat

definition run_as_payload :: "admission_run \<Rightarrow> pyval" where
  "run_as_payload r = PDict
     [(''admission_batch_id'', PStr (ar_batch_id r)), (''canonical_claim_ids'', PStrs (ar_canonical_ids r)),
      (''outcomes'', PStrs (map outcome_text (ar_outcomes r))), (''idempotent_replay'', PBool (ar_replay r)),
      (''model_calls'', PInt (int (ar_model_calls r)))]"

definition existing_result ::
    "(decision_row list \<Rightarrow> decision_row list) \<Rightarrow> admission_db \<Rightarrow> string \<Rightarrow> admission_run result" where
  "existing_result order db handoff_id =
     (case order (filter (\<lambda>r. dn_handoff_id r = handoff_id) (tb_decisions db)) of
        [] \<Rightarrow> integrity ''Non-pending handoff has no durable decisions''
      | r # rs \<Rightarrow> Inr \<lparr>ar_batch_id = dn_batch_id r,
          ar_canonical_ids = unique_first (List.map_filter dn_canonical_id (r # rs)),
          ar_outcomes = map dn_outcome (r # rs), ar_replay = True, ar_model_calls = 0\<rparr>)"

section \<open>The decision flow\<close>

definition candidate_state :: "adm_outcome \<Rightarrow> string" where
  "candidate_state x = (case x of HumanReviewRequired \<Rightarrow> ''HUMAN_REVIEW_REQUIRED'' | Contested \<Rightarrow> ''CONTESTED''
     | _ \<Rightarrow> ''REJECTED'')"

text \<open>The inputs that pass the gates before the first write.\<close>

record admission_inputs =
  ai_handoff :: handoff_row
  ai_package :: pyval
  ai_run :: run_row
  ai_source :: source_row
  ai_source_object :: source_object_row
  ai_fragments :: "fragment_row list"
  ai_candidates :: "candidate_row list"
  ai_evidence :: "evidence_row list"
  ai_claims :: "pyval list"

definition load_inputs :: "run_env \<Rightarrow> admission_db \<Rightarrow> review_job \<Rightarrow> handoff_row \<Rightarrow> admission_inputs result" where
  "load_inputs env db job h =
     bindE (validate_package h job) (\<lambda>package.
     bindE (load_run (tb_runs db) job) (\<lambda>run.
     bindE (load_authoritative_inputs (en_read_time env) (tb_sources db) (tb_source_objects db) (tb_fragments db) package)
       (\<lambda>(source, source_object, fragments).
     bindE (load_candidates (tb_candidates db) (ho_candidate_ids h)) (\<lambda>candidates.
     bindE (validate_candidate_set package (ho_candidate_ids h)) (\<lambda>_.
     bindE (load_evidence (tb_evidence db) candidates) (\<lambda>evidence.
     bindE (validate_all_evidence package fragments evidence source) (\<lambda>_.
     bindE (bindE (py_item package ''candidate_claims'') py_iter) (\<lambda>claims.
     Inr \<lparr>ai_handoff = h, ai_package = package, ai_run = run, ai_source = source,
          ai_source_object = source_object, ai_fragments = fragments, ai_candidates = candidates,
          ai_evidence = evidence, ai_claims = claims\<rparr>))))))))"

record decision_acc =
  da_db :: admission_db
  da_outcomes :: "adm_outcome list"
  da_canonical_ids :: "string list"

definition settle_candidate ::
    "run_env \<Rightarrow> string \<Rightarrow> nat \<Rightarrow> string \<Rightarrow> fact_decision \<Rightarrow> admission_db
      \<Rightarrow> ((adm_outcome \<times> string option) \<times> admission_db) result" where
  \<comment> \<open>the write a decision makes: the outcome it ends with and the canonical claim\<close>
  "settle_candidate env batch_id k candidate_id d db =
     (case (fd_outcome d, fd_rederived d, fd_fingerprint d) of
        (AdmittedRederived, Some f, Some fingerprint) \<Rightarrow>
          bindE (write_canonical batch_id (en_uuid env (Suc k)) f fingerprint db) (\<lambda>((canonical_id, duplicate), db1).
            Inr ((if duplicate then Duplicate else AdmittedRederived, Some canonical_id),
                 update_candidate candidate_id (\<lambda>c. c\<lparr>cr_state := ''ADMITTED'',
                   cr_canonical_claim_id := Some canonical_id, cr_rejection_reasons := []\<rparr>) db1))
      | _ \<Rightarrow> Inr ((fd_outcome d, None),
                 update_candidate candidate_id (\<lambda>c. c\<lparr>cr_state := candidate_state (fd_outcome d),
                   cr_rejection_reasons := fd_reasons d\<rparr>) db))"

definition decide_candidate ::
    "run_env \<Rightarrow> admission_inputs \<Rightarrow> string \<Rightarrow> decision_acc \<Rightarrow> nat \<times> pyval \<Rightarrow> decision_acc result" where
  \<comment> \<open>one turn of the loop over the packaged candidates\<close>
  "decide_candidate env i batch_id acc kp = (case kp of (k, packaged) \<Rightarrow>
     bindE (item_uuid ''persistent_candidate_claim_id'' packaged) (\<lambda>candidate_id.
     case List.find (\<lambda>c. cr_id c = candidate_id) (ai_candidates i) of
       None \<Rightarrow> integrity ''Candidate Claim is absent from persistence''
     | Some candidate \<Rightarrow>
     bindE (validate_candidate_record candidate packaged) (\<lambda>_.
     bindE (evaluate_fact (en_year env) (ai_package i) candidate packaged (ai_source i) (ai_source_object i)
              (ai_fragments i) (ai_evidence i)) (\<lambda>d.
     bindE (settle_candidate env batch_id k candidate_id d (da_db acc)) (\<lambda>((outcome, canonical_id), db1).
     bindE (record_decision (en_now env) batch_id (ho_id (ai_handoff i)) candidate_id canonical_id
              (d\<lparr>fd_outcome := outcome\<rparr>) db1) (\<lambda>db2.
     Inr \<lparr>da_db = db2, da_outcomes = da_outcomes acc @ [outcome],
          da_canonical_ids = da_canonical_ids acc @ (case canonical_id of None \<Rightarrow> [] | Some c \<Rightarrow> [c])\<rparr>))))))"

definition merge_usage :: "(string \<times> pyval) list \<Rightarrow> (string \<times> pyval) list \<Rightarrow> (string \<times> pyval) list" where
  \<comment> \<open>\<^verbatim>\<open>a | b\<close>\<close>
  "merge_usage a b = foldl (\<lambda>d (k, v). dict_put d k v) a b"

definition conclude ::
    "run_env \<Rightarrow> review_job \<Rightarrow> admission_inputs \<Rightarrow> string \<Rightarrow> decision_acc \<Rightarrow> admission_run \<times> admission_db" where
  \<comment> \<open>the updates after the loop\<close>
  "conclude env job i batch_id acc =
     (let db = da_db acc; canonical_ids = unique_first (da_canonical_ids acc); run = ai_run i in
      (\<lparr>ar_batch_id = batch_id, ar_canonical_ids = canonical_ids, ar_outcomes = da_outcomes acc,
        ar_replay = False, ar_model_calls = 0\<rparr>,
       db\<lparr>tb_batches := map (\<lambda>b. if bt_id b = batch_id
              then b\<lparr>bt_state := BatchDecided, bt_summary := decision_summary (da_outcomes acc) (da_canonical_ids acc)\<rparr>
              else b) (tb_batches db),
          tb_handoffs := map (\<lambda>h. if ho_id h = jb_handoff_id job \<and> ho_state h = HandoffPending
              then h\<lparr>ho_state := HandoffConsumed, ho_consumed_at := Some (en_now env)\<rparr> else h) (tb_handoffs db),
          tb_runs := map (\<lambda>r. if rn_id r = jb_run_id job \<and> rn_tenant_id r = jb_tenant_id job
              then r\<lparr>rn_state := (if canonical_ids = [] then ''HUMAN_REVIEW_REQUIRED'' else ''COMPLETED''),
                     rn_canonical_claim_ids := canonical_ids, rn_batch_id := Some batch_id,
                     rn_actual_usage := merge_usage (rn_actual_usage run)
                       [(''admission_runtime_calls'', PInt 1), (''admission_model_calls'', PInt 0),
                        (''admission_decisions'', PInt (int (length (da_outcomes acc)))),
                        (''canonical_claims'', PInt (int (length canonical_ids)))],
                     rn_error_code := None, rn_error_detail := None\<rparr>
              else r) (tb_runs db),
          tb_dossiers := (case rn_dossier_id run of
              Some dossier \<Rightarrow> if canonical_ids = [] then tb_dossiers db
                else map (\<lambda>(d, s). (d, if d = dossier then ''TRACEABLE_WITH_ADMITTED_FACTS'' else s)) (tb_dossiers db)
            | None \<Rightarrow> tb_dossiers db)\<rparr>))"

definition decide_pending ::
    "run_env \<Rightarrow> admission_db \<Rightarrow> review_job \<Rightarrow> handoff_row \<Rightarrow> (admission_run \<times> admission_db) result" where
  "decide_pending env db job h =
     bindE (load_inputs env db job h) (\<lambda>i.
     let batch_id = en_uuid env 0 in
     bindE (foldE (decide_candidate env i batch_id)
              \<lparr>da_db = create_batch batch_id (ho_candidate_ids h) db, da_outcomes = [], da_canonical_ids = []\<rparr>
              (enumerate 0 (ai_claims i))) (\<lambda>acc.
     Inr (conclude env job i batch_id acc)))"

definition find_handoff :: "admission_db \<Rightarrow> review_job \<Rightarrow> handoff_row option" where
  "find_handoff db job = List.find (\<lambda>h. ho_id h = jb_handoff_id job \<and> ho_tenant_id h = jb_tenant_id job
     \<and> ho_run_id h = jb_run_id job) (tb_handoffs db)"

definition decide_body :: "run_env \<Rightarrow> admission_db \<Rightarrow> review_job \<Rightarrow> (admission_run \<times> admission_db) result" where
  "decide_body env db job =
     (if jb_policy_version job \<noteq> admission_policy then policy_failure ''Admission policy version mismatch''
      else case find_handoff db job of
        None \<Rightarrow> integrity ''Admission handoff is absent or tenant-mismatched''
      | Some h \<Rightarrow>
          if ho_state h \<noteq> HandoffPending
          then bindE (existing_result (en_order env) db (jb_handoff_id job)) (\<lambda>r. Inr (r, db))
          else decide_pending env db job h)"

definition transaction :: "'d \<Rightarrow> ('a \<times> 'd) result \<Rightarrow> 'a result \<times> 'd" where
  \<comment> \<open>commit on return, roll back on an exception\<close>
  "transaction db m = (case m of Inl e \<Rightarrow> (Inl e, db) | Inr (x, db') \<Rightarrow> (Inr x, db'))"

definition decide_handoff :: "run_env \<Rightarrow> admission_db \<Rightarrow> review_job \<Rightarrow> admission_run result \<times> admission_db" where
  "decide_handoff env db job = transaction db (decide_body env db job)"

section \<open>Failures and the runtime\<close>

definition record_failure :: "review_job \<Rightarrow> string \<Rightarrow> string \<Rightarrow> bool \<Rightarrow> admission_db \<Rightarrow> admission_db" where
  "record_failure job err_code detail quarantined db = db
     \<lparr>tb_failures := tb_failures db @
        [\<lparr>fl_tenant_id = jb_tenant_id job, fl_run_id = jb_run_id job, fl_handoff_id = jb_handoff_id job,
          fl_payload = job_as_payload job, fl_error_code = err_code, fl_error_detail = take 2000 detail,
          fl_quarantined = quarantined\<rparr>],
      tb_handoffs := map (\<lambda>h. if ho_id h = jb_handoff_id job \<and> ho_state h = HandoffPending
         then h\<lparr>ho_state := (if quarantined then HandoffQuarantined else HandoffRejected)\<rparr> else h) (tb_handoffs db),
      tb_runs := map (\<lambda>r. if rn_id r = jb_run_id job \<and> rn_tenant_id r = jb_tenant_id job
         then r\<lparr>rn_state := (if quarantined then ''QUARANTINED'' else ''FAILED''),
                rn_error_code := Some err_code, rn_error_detail := Some (take 2000 detail)\<rparr>
         else r) (tb_runs db)\<rparr>"

datatype failure_class = Quarantine | FailClosed | Escapes

definition classify_error :: "py_error \<Rightarrow> failure_class" where
  \<comment> \<open>the \<^verbatim>\<open>except\<close> clauses of \<^verbatim>\<open>process\<close>: \<^verbatim>\<open>KeyError\<close> is a \<^verbatim>\<open>LookupError\<close>, a pydantic error is a
     \<^verbatim>\<open>ValueError\<close>; \<^verbatim>\<open>AdmissionRuntimeError\<close> itself is never raised\<close>
  "classify_error e = (case e of
     AdmissionIntegrityError _ \<Rightarrow> Quarantine
   | AdmissionPolicyError _ \<Rightarrow> FailClosed | LookupError _ \<Rightarrow> FailClosed | KeyError _ \<Rightarrow> FailClosed
   | ValueError _ \<Rightarrow> FailClosed | ValidationError _ \<Rightarrow> FailClosed
   | _ \<Rightarrow> Escapes)"

definition process_job :: "run_env \<Rightarrow> admission_db \<Rightarrow> review_job \<Rightarrow> unit result \<times> admission_db" where
  "process_job env db job =
     (case decide_handoff env db job of
        (Inr _, db') \<Rightarrow> (Inr (), db')
      | (Inl e, db') \<Rightarrow>
          (case classify_error e of
             Quarantine \<Rightarrow> (Inr (), record_failure job ''ADMISSION_INTEGRITY_QUARANTINE'' (error_text e) True db')
           | FailClosed \<Rightarrow> (Inr (), record_failure job (upper (error_class e)) (error_text e) False db')
           | Escapes \<Rightarrow> (Inl e, db')))"

definition run_once :: "run_env \<Rightarrow> admission_db \<Rightarrow> pyval list \<Rightarrow> bool result \<times> admission_db \<times> pyval list" where
  "run_once env db q =
     (case dequeue_job q of
        (Inl e, q') \<Rightarrow> (Inl e, db, q')
      | (Inr None, q') \<Rightarrow> (Inr False, db, q')
      | (Inr (Some job), q') \<Rightarrow>
          (case process_job env db job of
             (Inl e, db') \<Rightarrow> (Inl e, db', q')
           | (Inr _, db') \<Rightarrow> (Inr True, db', q')))"

end
