(* ===== verification/AdmissionRuntime.thy ===== *)
theory AdmissionRuntime
  imports AdmissionLedger NumberSentence "HOL-Library.Multiset"
begin

text \<open>
  What the admission runtime guarantees: what an admitted claim rests on, the append-only ledger,
  atomicity, replay, the states of a handoff over any sequence of jobs, and which exceptions the
  runtime does not handle.
\<close>

section \<open>What the gates leave\<close>

lemma require_Inr [simp]: "require c m = Inr u \<longleftrightarrow> c = Inr True"
  by (auto simp: require_def bindE_eq_Inr integrity_def split: if_splits)

lemma integrity_not_Inr [simp]: "integrity m \<noteq> Inr x" "policy_failure m \<noteq> Inr x"
  by (simp_all add: integrity_def policy_failure_def)

lemma option_integrity_Inr [simp]:
  "(case x of None \<Rightarrow> integrity m | Some y \<Rightarrow> k y) = Inr z \<longleftrightarrow> (\<exists>y. x = Some y \<and> k y = Inr z)"
  by (cases x) auto

lemma notE_Inr [simp]: "notE m = Inr b \<longleftrightarrow> m = Inr (\<not> b)"
  by (auto simp: notE_def bindE_eq_Inr)

lemma anyE_False: "anyE p xs = Inr False \<Longrightarrow> x \<in> set xs \<Longrightarrow> p x = Inr False"
  by (induction xs) (auto simp: bindE_eq_Inr split: if_splits)

lemma andE_True [simp]:
  "andE [] = Inr True" "andE (m # ms) = Inr True \<longleftrightarrow> m = Inr True \<and> andE ms = Inr True"
  by (auto simp: andE_def bindE_eq_Inr split: if_splits)

lemma py_eq_PStr: "py_eq v (PStr s) \<longleftrightarrow> v = PStr s"
  by (cases v) (auto simp: number_of_def split: option.splits)

lemma get_is_PStr: "get_is v k (PStr s) = Inr True \<longleftrightarrow> py_get v k = Inr (PStr s)"
  by (auto simp: get_is_def bindE_eq_Inr py_eq_PStr)

lemma item_is_PStr: "item_is v k (PStr s) = Inr True \<longleftrightarrow> py_item v k = Inr (PStr s)"
  by (auto simp: item_is_def bindE_eq_Inr py_eq_PStr)

definition source_open :: "source_row \<Rightarrow> bool" where
  \<comment> \<open>the registry row lets its source be used\<close>
  "source_open s = (sr_source_id s = allowed_source \<and> sr_admission_state s = ''ADMITTED''
     \<and> sr_rights_status s = ''COMMERCIAL_REUSE_WITH_ATTRIBUTION'' \<and> sr_license_id s = ''CC-BY-4.0''
     \<and> \<not> sr_kill_switch s \<and> sr_commercial_use s \<and> sr_redistribution s)"

lemma source_gate_open: "source_gate s packaged = Inr u \<Longrightarrow> sr_source_id s = allowed_source \<Longrightarrow> source_open s"
  by (auto simp: source_gate_def source_open_def bindE_eq_Inr split: if_splits)

lemma find_Some_mem: "List.find P xs = Some x \<Longrightarrow> x \<in> set xs \<and> P x"
  by (auto simp: find_Some_iff)

lemma lookup_row_mem: "lookup_row key rows v = Inr (Some r) \<Longrightarrow> r \<in> set rows \<and> v = PStr (key r)"
  by (auto simp: lookup_row_def split: pyval.splits dest: find_Some_mem)

lemma load_authoritative_elim:
  assumes "load_authoritative_inputs rt sources objects rows package = Inr (source, object, fragments)"
  obtains d p document where "source \<in> set sources" "source_open source" "object \<in> set objects"
    "py_item package ''document'' = Inr document" "reparse_document rt document = Inr (d, p)"
    "sb_content_hash object = id_content_hash d" "fragments = filter (\<lambda>r. fg_source_object_id r = sb_id object
      \<and> fg_document_id r = id_document_id d) rows"
proof -
  from assms obtain packaged_source document d p where step:
    "List.find (\<lambda>s. sr_source_id s = allowed_source) sources = Some source"
    "source_gate source packaged_source = Inr ()"
    "py_item package ''document'' = Inr document" "reparse_document rt document = Inr (d, p)"
    "List.find (\<lambda>o'. sb_source_id o' = allowed_source \<and> sb_content_hash o' = id_content_hash d) objects = Some object"
    "fragments = filter (\<lambda>r. fg_source_object_id r = sb_id object \<and> fg_document_id r = id_document_id d) rows"
    unfolding load_authoritative_inputs_def
    by (auto simp: bindE_eq_Inr Let_def split: if_splits)
  from find_Some_mem [OF step(1)] find_Some_mem [OF step(5)] source_gate_open [OF step(2)] step(3-6)
  show thesis by (intro that) auto
qed

lemma load_inputs_facts:
  assumes "load_inputs env db job h = Inr i"
  shows "ai_handoff i = h" "ai_source i \<in> set (tb_sources db)" "source_open (ai_source i)"
    "set (ai_fragments i) \<subseteq> set (tb_fragments db)" "set (ai_candidates i) \<subseteq> set (tb_candidates db)"
    "\<forall>c\<in>set (ai_candidates i). cr_id c \<in> set (ho_candidate_ids h)"
    "set (ai_evidence i) \<subseteq> set (tb_evidence db)" "load_run (tb_runs db) job = Inr (ai_run i)"
    "document_hash (ho_package h) = ho_package_hash h" "jb_package_hash job = ho_package_hash h"
    "mapE (item_uuid ''persistent_candidate_claim_id'') (ai_claims i) = Inr (ho_candidate_ids h)"
    "length (ai_candidates i) = length (ho_candidate_ids h)" "ho_candidate_ids h \<noteq> []"
proof -
  from assms obtain package run source object fragments candidates evidence claims where step:
    "validate_package h job = Inr package" "load_run (tb_runs db) job = Inr run"
    "load_authoritative_inputs (en_read_time env) (tb_sources db) (tb_source_objects db) (tb_fragments db) package
      = Inr (source, object, fragments)"
    "load_candidates (tb_candidates db) (ho_candidate_ids h) = Inr candidates"
    "validate_candidate_set package (ho_candidate_ids h) = Inr ()"
    "load_evidence (tb_evidence db) candidates = Inr evidence"
    "bindE (py_item package ''candidate_claims'') py_iter = Inr claims"
    "i = \<lparr>ai_handoff = h, ai_package = package, ai_run = run, ai_source = source, ai_source_object = object,
          ai_fragments = fragments, ai_candidates = candidates, ai_evidence = evidence, ai_claims = claims\<rparr>"
    unfolding load_inputs_def by (auto simp: bindE_eq_Inr)
  obtain d p document where auth: "source \<in> set (tb_sources db)" "source_open source" "object \<in> set (tb_source_objects db)"
    "py_item package ''document'' = Inr document" "reparse_document (en_read_time env) document = Inr (d, p)"
    "sb_content_hash object = id_content_hash d" "fragments = filter (\<lambda>r. fg_source_object_id r = sb_id object
      \<and> fg_document_id r = id_document_id d) (tb_fragments db)"
    using step(3) by (rule load_authoritative_elim)
  obtain boundaries where boundaries: "py_item package ''admission_boundary_results'' = Inr boundaries" "py_truthy boundaries"
    using step(1) by (auto simp: validate_package_def Let_def bindE_eq_Inr split: if_splits)
  have hash: "document_hash (ho_package h) = ho_package_hash h" "jb_package_hash job = ho_package_hash h"
    using step(1) by (auto simp: validate_package_def Let_def split: if_splits)
  have "candidates = filter (\<lambda>r. cr_id r \<in> set (ho_candidate_ids h)) (tb_candidates db)"
    "length candidates = length (ho_candidate_ids h)"
    using step(4) by (auto simp: load_candidates_def Let_def split: if_splits)
  moreover have "set evidence \<subseteq> set (tb_evidence db)"
    using step(6) by (auto simp: load_evidence_def Let_def split: if_splits)
  moreover have "mapE (item_uuid ''persistent_candidate_claim_id'') claims = Inr (ho_candidate_ids h)"
    using step(5,7) by (auto simp: validate_candidate_set_def bindE_eq_Inr split: if_splits)
  moreover obtain bs where "py_iter boundaries = Inr bs" "length bs = length (ho_candidate_ids h)"
    using step(5) boundaries(1) by (auto simp: validate_candidate_set_def bindE_eq_Inr split: if_splits)
  then have "ho_candidate_ids h \<noteq> []"
    using boundaries(2) by (auto simp: py_iter_def py_truthy_def split: pyval.splits)
  ultimately show "ai_handoff i = h" "ai_source i \<in> set (tb_sources db)" "source_open (ai_source i)"
    "set (ai_fragments i) \<subseteq> set (tb_fragments db)" "set (ai_candidates i) \<subseteq> set (tb_candidates db)"
    "\<forall>c\<in>set (ai_candidates i). cr_id c \<in> set (ho_candidate_ids h)"
    "set (ai_evidence i) \<subseteq> set (tb_evidence db)" "load_run (tb_runs db) job = Inr (ai_run i)"
    "document_hash (ho_package h) = ho_package_hash h" "jb_package_hash job = ho_package_hash h"
    "mapE (item_uuid ''persistent_candidate_claim_id'') (ai_claims i) = Inr (ho_candidate_ids h)"
    "length (ai_candidates i) = length (ho_candidate_ids h)" "ho_candidate_ids h \<noteq> []"
    using auth hash step(2,8) by simp_all
qed

section \<open>What an admitted decision rests on\<close>

definition bound_texts ::
    "candidate_row \<Rightarrow> fragment_row list \<Rightarrow> evidence_row list \<Rightarrow> source_row \<Rightarrow> string list \<times> string list \<Rightarrow> bool" where
  \<comment> \<open>text by text: a fragment with this text, quoted by an evidence row of the candidate\<close>
  "bound_texts candidate fragments evidence source ti = list_all2 (\<lambda>text evidence_id.
     \<exists>f\<in>set fragments. \<exists>e\<in>set evidence. fg_text_content f = text \<and> er_id e = evidence_id
       \<and> evidence_id \<in> set (cr_evidence_ids candidate) \<and> er_rights_status e = sr_rights_status source
       \<and> py_get (er_payload e) ''text'' = Inr (PStr text)
       \<and> py_get (er_payload e) ''quote_hash'' = Inr (PStr (fg_content_hash f))) (fst ti) (snd ti)"

lemma bind_evidence_key_bound:
  assumes "bind_evidence_key pe candidate source fragments evidence acc key = Inr acc'"
    and "bound_texts candidate fragments evidence source acc"
  shows "bound_texts candidate fragments evidence source acc'"
proof -
  from assms(1) obtain persistent packaged fragment where step:
    "lookup_row er_evidence_key evidence key = Inr (Some persistent)"
    "er_id persistent \<in> set (cr_evidence_ids candidate)"
    "bindE (py_item packaged ''fragment_id'') (lookup_row fg_fragment_id fragments) = Inr (Some fragment)"
    "andE (payload_quotes persistent fragment
       @ [item_is packaged ''content_hash'' (PStr (er_content_hash persistent))]) = Inr True"
    "er_rights_status persistent = sr_rights_status source"
    "acc' = (fst acc @ [fg_text_content fragment], snd acc @ [er_id persistent])"
    unfolding bind_evidence_key_def
    by (auto simp: bindE_eq_Inr split: if_splits)
  have "persistent \<in> set evidence" using lookup_row_mem [OF step(1)] by simp
  moreover have "fragment \<in> set fragments"
    using step(3) by (auto simp: bindE_eq_Inr dest: lookup_row_mem)
  moreover have "py_get (er_payload persistent) ''text'' = Inr (PStr (fg_text_content fragment))"
    "py_get (er_payload persistent) ''quote_hash'' = Inr (PStr (fg_content_hash fragment))"
    using step(4) by (simp_all add: payload_quotes_def get_is_PStr)
  ultimately show ?thesis
    using assms(2) step(2,5) unfolding bound_texts_def step(6) by (auto intro: list_all2_appendI)
qed

definition fact_quoted ::
    "candidate_row \<Rightarrow> fragment_row list \<Rightarrow> evidence_row list \<Rightarrow> source_row \<Rightarrow> rederived_fact \<Rightarrow> bool" where
  \<comment> \<open>exactly one text bound to the candidate states a number, the fact is that number, and the proposal equals it\<close>
  "fact_quoted candidate fragments evidence source f = (\<exists>texts ip fp.
     bound_texts candidate fragments evidence source (texts, rf_evidence_ids f)
     \<and> List.map_filter search_number texts = [((ip, fp), rf_period f)]
     \<and> rf_value f = decimal_text ip fp
     \<and> py_get (cr_object_value candidate) ''value'' = Inr (PStr (rf_value f))
     \<and> py_get (cr_object_value candidate) ''unit'' = Inr (PStr allowed_unit)
     \<and> py_get (cr_object_value candidate) ''period'' = Inr (PStr (rf_period f)))"

lemma fact_quoted_mono:
  assumes "fact_quoted c fs es s f" "set fs \<subseteq> set fs'" "set es \<subseteq> set es'"
  shows "fact_quoted c fs' es' s f"
proof -
  have "bound_texts c fs' es' s ti" if "bound_texts c fs es s ti" for ti
    using that assms(2,3) unfolding bound_texts_def by (elim list_all2_mono) blast
  with assms(1) show ?thesis unfolding fact_quoted_def by blast
qed

lemma judge_match_admits:
  "fd_outcome (judge_match y gates exact adverse f) = AdmittedRederived \<longleftrightarrow> exact \<and> \<not> adverse"
  "fd_rederived (judge_match y gates exact adverse f) = Some f"
  "exact \<Longrightarrow> \<not> adverse \<Longrightarrow> fd_fingerprint (judge_match y gates exact adverse f) = Some (fact_fingerprint f)"
  by (simp_all add: judge_match_def Let_def)

lemma unresolved_outcome [simp]:
  "fd_outcome (unresolved x r g) = x" "fd_rederived (unresolved x r g) = None"
  by (simp_all add: unresolved_def)

lemma evaluate_fact_admitted:
  assumes "evaluate_fact y (ai_package i) candidate packaged (ai_source i) (ai_source_object i) (ai_fragments i)
      (ai_evidence i) = Inr d" and "fd_outcome d = AdmittedRederived"
  obtains f where "fd_rederived d = Some f" "fd_fingerprint d = Some (fact_fingerprint f)"
    "cr_kind candidate = ''FACT''" "cr_subject_id candidate = allowed_subject"
    "cr_predicate candidate = allowed_predicate" "fact_quoted candidate (ai_fragments i) (ai_evidence i) (ai_source i) f"
proof -
  from assms obtain gates keys pe texts ids where step:
    "cr_kind candidate = ''FACT''" "cr_subject_id candidate = allowed_subject" "cr_predicate candidate = allowed_predicate"
    "foldE (bind_evidence_key pe candidate (ai_source i) (ai_fragments i) (ai_evidence i)) ([], []) keys = Inr (texts, ids)"
    "(case List.map_filter search_number texts of
       [((ip, fp), period)] \<Rightarrow>
         (let f = \<lparr>rf_value = decimal_text ip fp, rf_period = period, rf_evidence_ids = ids\<rparr> in
          bindE (exact_match candidate f) (\<lambda>exact.
          bindE (bindE (py_item (ai_package i) ''candidate_claims'') py_iter) (\<lambda>claims.
          bindE (adverse_same_semantics claims packaged) (\<lambda>adverse.
          Inr (judge_match y gates exact adverse f)))))
     | _ \<Rightarrow> Inr (unresolved Rejected ''deterministic_value_not_uniquely_rederived'' (gates @ [(''VALUE_REDERIVED'', False)]))) = Inr d"
    unfolding evaluate_fact_def by (auto simp: bindE_eq_Inr split: if_splits)
  have bound: "bound_texts candidate (ai_fragments i) (ai_evidence i) (ai_source i) (texts, ids)"
    using step(4) by (rule foldE_invariant) (simp add: bound_texts_def, rule bind_evidence_key_bound)
  from step(5) assms(2) obtain ip fp period where match: "List.map_filter search_number texts = [((ip, fp), period)]"
    by (auto split: list.splits prod.splits)
  let ?f = "\<lparr>rf_value = decimal_text ip fp, rf_period = period, rf_evidence_ids = ids\<rparr>"
  from step(5) obtain exact adverse where d: "exact_match candidate ?f = Inr exact" "d = judge_match y gates exact adverse ?f"
    unfolding match by (auto simp: Let_def bindE_eq_Inr)
  with assms(2) have "exact" "\<not> adverse"
    by (auto simp: judge_match_admits)
  have "fact_quoted candidate (ai_fragments i) (ai_evidence i) (ai_source i) ?f"
    unfolding fact_quoted_def
    using bound match d(1) \<open>exact\<close>
    by (intro exI [of _ texts] exI [of _ ip] exI [of _ fp]) (simp add: get_is_PStr exact_match_def)
  with d(2) \<open>exact\<close> \<open>\<not> adverse\<close> step(1-3) show thesis
    by (intro that [of ?f]) (simp_all add: judge_match_admits)
qed

lemma single_match_cases:
  "(case xs of [((a, b), c)] \<Rightarrow> k a b c | _ \<Rightarrow> m) = r \<Longrightarrow>
    (\<exists>a b c. xs = [((a, b), c)] \<and> k a b c = r) \<or> m = r"
  by (cases xs rule: list.exhaust) (auto split: list.splits)

lemma judge_match_not_duplicate: "fd_outcome (judge_match y gates exact adverse f) \<noteq> Duplicate"
  by (simp add: judge_match_def Let_def)

lemma evaluate_fact_not_duplicate:
  assumes "evaluate_fact y package candidate packaged source object fragments evidence = Inr d"
  shows "fd_outcome d \<noteq> Duplicate"
proof -
  from assms show ?thesis
    unfolding evaluate_fact_def bindE_eq_Inr
    by (auto simp: bindE_eq_Inr Let_def judge_match_not_duplicate split: if_splits dest!: single_match_cases)
qed

section \<open>The loop over the candidates\<close>

definition claim_admitted :: "canonical_row \<Rightarrow> claim_event_row" where
  "claim_admitted c = \<lparr>ce_canonical_id = cc_id c, ce_to_state = ''ADMITTED'',
     ce_reason = ''deterministically_rederived_from_immutable_document_evidence'', ce_batch_id = cc_batch_id c\<rparr>"

definition grown :: "admission_db \<Rightarrow> admission_db \<Rightarrow> canonical_row list \<Rightarrow> decision_row list \<Rightarrow> bool" where
  \<comment> \<open>only appended claims with their events, appended decisions, and updated candidates\<close>
  "grown db db' new decs = (tb_canonical db' = tb_canonical db @ new
     \<and> tb_claim_events db' = tb_claim_events db @ map claim_admitted new
     \<and> tb_decisions db' = tb_decisions db @ decs
     \<and> map cr_id (tb_candidates db') = map cr_id (tb_candidates db)
     \<and> tb_handoffs db' = tb_handoffs db \<and> tb_runs db' = tb_runs db \<and> tb_sources db' = tb_sources db
     \<and> tb_source_objects db' = tb_source_objects db \<and> tb_fragments db' = tb_fragments db
     \<and> tb_evidence db' = tb_evidence db \<and> tb_batches db' = tb_batches db
     \<and> tb_failures db' = tb_failures db \<and> tb_dossiers db' = tb_dossiers db)"

lemma grown_refl: "grown db db [] []"
  by (simp add: grown_def)

lemma grown_trans: "grown db db1 new decs \<Longrightarrow> grown db1 db2 new' decs' \<Longrightarrow> grown db db2 (new @ new') (decs @ decs')"
  by (simp add: grown_def)

lemma grown_update_candidate: "(\<And>c. cr_id (g c) = cr_id c) \<Longrightarrow> grown db (update_candidate i g db) [] []"
  by (simp add: grown_def update_candidate_def comp_def if_distrib cong: if_cong)

definition admits :: "admission_inputs \<Rightarrow> string \<Rightarrow> candidate_row \<Rightarrow> rederived_fact \<Rightarrow> canonical_row \<Rightarrow> bool" where
  "admits i batch_id candidate f c = (candidate \<in> set (ai_candidates i) \<and> cr_kind candidate = ''FACT''
     \<and> cr_producer_type candidate = ''LOCAL_MODEL'' \<and> cr_subject_id candidate = allowed_subject
     \<and> cr_predicate candidate = allowed_predicate
     \<and> fact_quoted candidate (ai_fragments i) (ai_evidence i) (ai_source i) f
     \<and> cc_object_value c = rederived_value f \<and> cc_fingerprint c = fact_fingerprint f
     \<and> cc_evidence_ids c = rf_evidence_ids f \<and> cc_subject_id c = allowed_subject
     \<and> cc_predicate c = allowed_predicate \<and> cc_year c = period_year (rf_period f) \<and> 1 \<le> cc_year c
     \<and> cc_batch_id c = batch_id)"

lemma write_canonical_grown:
  assumes "write_canonical batch_id new_id f (fact_fingerprint f) db = Inr ((cid, duplicate), db')"
  obtains new where "grown db db' new []" "cid \<in> cc_id ` set (tb_canonical db')" "duplicate = (new = [])"
    "new = [] \<or> (\<exists>c. new = [c] \<and> cc_id c = cid \<and> cid = new_id
       \<and> fact_fingerprint f \<notin> cc_fingerprint ` set (tb_canonical db)
       \<and> cc_object_value c = rederived_value f \<and> cc_fingerprint c = fact_fingerprint f
       \<and> cc_evidence_ids c = rf_evidence_ids f \<and> cc_subject_id c = allowed_subject
       \<and> cc_predicate c = allowed_predicate \<and> cc_year c = period_year (rf_period f) \<and> 1 \<le> cc_year c
       \<and> cc_batch_id c = batch_id)"
proof (cases "List.find (\<lambda>c. cc_fingerprint c = fact_fingerprint f) (tb_canonical db)")
  case (Some c)
  with assms have "db' = db" "duplicate" "cid = cc_id c"
    by (auto simp: write_canonical_def Let_def split: if_splits)
  moreover have "c \<in> set (tb_canonical db)" using find_Some_mem [OF Some] by simp
  ultimately show ?thesis by (intro that [of "[]"]) (auto simp: grown_refl)
next
  case None
  let ?c = "\<lparr>cc_id = new_id, cc_fingerprint = fact_fingerprint f, cc_subject_id = allowed_subject,
               cc_predicate = allowed_predicate, cc_object_value = rederived_value f,
               cc_statement = canonical_statement f, cc_evidence_ids = rf_evidence_ids f,
               cc_year = period_year (rf_period f), cc_batch_id = batch_id\<rparr>"
  have w: "1 \<le> period_year (rf_period f)" "cid = new_id" "\<not> duplicate"
    "tb_canonical db' = tb_canonical db @ [?c]" "grown db db' [?c] []"
    using assms None by (auto simp: write_canonical_def Let_def grown_def claim_admitted_def split: if_splits)
  moreover have "fact_fingerprint f \<notin> cc_fingerprint ` set (tb_canonical db)"
    using None by (auto simp: find_None_iff)
  ultimately show ?thesis by (intro that [of "[?c]"]) auto
qed

definition decision_fits :: "string \<Rightarrow> string \<Rightarrow> string list \<Rightarrow> decision_row \<Rightarrow> bool" where
  "decision_fits batch_id handoff_id claims r = (dn_batch_id r = batch_id \<and> dn_handoff_id r = handoff_id
     \<and> (dn_canonical_id r \<noteq> None \<longleftrightarrow> dn_outcome r \<in> {AdmittedRederived, Duplicate})
     \<and> set_option (dn_canonical_id r) \<subseteq> set claims)"

lemma decide_candidate_step:
  assumes step: "decide_candidate env i batch_id acc kp = Inr acc'"
  obtains new r where "grown (da_db acc) (da_db acc') new [r]"
    "length new = (if dn_outcome r = AdmittedRederived then 1 else 0)"
    "\<forall>c\<in>set new. (\<exists>candidate f. admits i batch_id candidate f c)
      \<and> cc_fingerprint c \<notin> cc_fingerprint ` set (tb_canonical (da_db acc))
      \<and> cc_id c = en_uuid env (Suc (fst kp)) \<and> dn_canonical_id r = Some (cc_id c)"
    "decision_fits batch_id (ho_id (ai_handoff i)) (map cc_id (tb_canonical (da_db acc'))) r"
    "da_outcomes acc' = da_outcomes acc @ [dn_outcome r]"
    "da_canonical_ids acc' = da_canonical_ids acc @ (case dn_canonical_id r of None \<Rightarrow> [] | Some c \<Rightarrow> [c])"
    "dn_created_at r = en_now env" "item_uuid ''persistent_candidate_claim_id'' (snd kp) = Inr (dn_candidate_id r)"
proof -
  obtain k packaged where kp: "kp = (k, packaged)" by (cases kp)
  from step obtain candidate_id candidate d outcome canonical_id db1 db2 where parts:
    "item_uuid ''persistent_candidate_claim_id'' packaged = Inr candidate_id"
    "List.find (\<lambda>c. cr_id c = candidate_id) (ai_candidates i) = Some candidate"
    "validate_candidate_record candidate packaged = Inr ()"
    "evaluate_fact (en_year env) (ai_package i) candidate packaged (ai_source i) (ai_source_object i)
              (ai_fragments i) (ai_evidence i) = Inr d"
    "settle_candidate env batch_id k candidate_id d (da_db acc) = Inr ((outcome, canonical_id), db1)"
    "record_decision (en_now env) batch_id (ho_id (ai_handoff i)) candidate_id canonical_id
              (d\<lparr>fd_outcome := outcome\<rparr>) db1 = Inr db2"
    "acc' = \<lparr>da_db = db2, da_outcomes = da_outcomes acc @ [outcome],
          da_canonical_ids = da_canonical_ids acc @ (case canonical_id of None \<Rightarrow> [] | Some c \<Rightarrow> [c])\<rparr>"
    unfolding decide_candidate_def kp by (auto simp: bindE_eq_Inr)
  define r where "r = \<lparr>dn_batch_id = batch_id, dn_handoff_id = ho_id (ai_handoff i), dn_candidate_id = candidate_id,
          dn_outcome = outcome, dn_gates = fd_gates d, dn_reasons = fd_reasons d,
          dn_canonical_id = canonical_id, dn_fingerprint = fd_fingerprint d,
          dn_human_review = (outcome = HumanReviewRequired), dn_created_at = en_now env\<rparr>"
  have db2: "grown db1 db2 [] [r]" "tb_canonical db2 = tb_canonical db1"
    using parts(6) by (auto simp: record_decision_def r_def grown_def split: if_splits)
  have producer: "cr_producer_type candidate = ''LOCAL_MODEL''"
    using parts(3) by (auto simp: validate_candidate_record_def bindE_eq_Inr split: if_splits)
  show thesis
  proof (cases "fd_outcome d = AdmittedRederived")
    case True
    obtain f where f: "fd_rederived d = Some f" "fd_fingerprint d = Some (fact_fingerprint f)"
      "cr_kind candidate = ''FACT''" "cr_subject_id candidate = allowed_subject"
      "cr_predicate candidate = allowed_predicate"
      "fact_quoted candidate (ai_fragments i) (ai_evidence i) (ai_source i) f"
      using parts(4) True by (rule evaluate_fact_admitted)
    from parts(5) True f(1,2) obtain cid duplicate db0 where wrote:
      "write_canonical batch_id (en_uuid env (Suc k)) f (fact_fingerprint f) (da_db acc) = Inr ((cid, duplicate), db0)"
      "outcome = (if duplicate then Duplicate else AdmittedRederived)" "canonical_id = Some cid"
      "db1 = update_candidate candidate_id (\<lambda>c. c\<lparr>cr_state := ''ADMITTED'',
                   cr_canonical_claim_id := Some cid, cr_rejection_reasons := []\<rparr>) db0"
      by (auto simp: settle_candidate_def bindE_eq_Inr)
    obtain new where new: "grown (da_db acc) db0 new []" "cid \<in> cc_id ` set (tb_canonical db0)" "duplicate = (new = [])"
      "new = [] \<or> (\<exists>c. new = [c] \<and> cc_id c = cid \<and> cid = en_uuid env (Suc k)
       \<and> fact_fingerprint f \<notin> cc_fingerprint ` set (tb_canonical (da_db acc))
       \<and> cc_object_value c = rederived_value f \<and> cc_fingerprint c = fact_fingerprint f
       \<and> cc_evidence_ids c = rf_evidence_ids f \<and> cc_subject_id c = allowed_subject
       \<and> cc_predicate c = allowed_predicate \<and> cc_year c = period_year (rf_period f) \<and> 1 \<le> cc_year c
       \<and> cc_batch_id c = batch_id)"
      using wrote(1) by (rule write_canonical_grown)
    have db1: "grown db0 db1 [] []" "tb_canonical db1 = tb_canonical db0"
      unfolding wrote(4) by (rule grown_update_candidate) (simp_all add: update_candidate_def)
    have all: "grown (da_db acc) db2 new [r]"
      using grown_trans [OF grown_trans [OF new(1) db1(1)] db2(1)] by simp
    have candidate: "candidate \<in> set (ai_candidates i)"
      using find_Some_mem [OF parts(2)] by simp
    have fields: "da_db acc' = db2" "da_outcomes acc' = da_outcomes acc @ [dn_outcome r]"
      "da_canonical_ids acc' = da_canonical_ids acc @ (case dn_canonical_id r of None \<Rightarrow> [] | Some c \<Rightarrow> [c])"
      "dn_outcome r = (if new = [] then Duplicate else AdmittedRederived)" "dn_canonical_id r = Some cid"
      "dn_created_at r = en_now env" "dn_candidate_id r = candidate_id"
      by (simp_all add: parts(7) r_def wrote(2,3) new(3))
    have fits: "decision_fits batch_id (ho_id (ai_handoff i)) (map cc_id (tb_canonical (da_db acc'))) r"
      using new(2) db1(2) db2(2) by (simp add: decision_fits_def fields) (simp add: r_def)
    show thesis
    proof (rule that [OF _ _ _ fits])
      show "grown (da_db acc) (da_db acc') new [r]" using all fields(1) by simp
      show "length new = (if dn_outcome r = AdmittedRederived then 1 else 0)" using new(4) fields(4) by auto
      show "\<forall>c\<in>set new. (\<exists>candidate f. admits i batch_id candidate f c)
          \<and> cc_fingerprint c \<notin> cc_fingerprint ` set (tb_canonical (da_db acc))
          \<and> cc_id c = en_uuid env (Suc (fst kp)) \<and> dn_canonical_id r = Some (cc_id c)"
      proof
        fix c assume "c \<in> set new"
        with new(4) have c: "cc_fingerprint c \<notin> cc_fingerprint ` set (tb_canonical (da_db acc))"
          "cc_id c = en_uuid env (Suc k)" "cc_id c = cid" "admits i batch_id candidate f c"
          using candidate producer f(3-6) by (auto simp: admits_def)
        then show "(\<exists>candidate f. admits i batch_id candidate f c)
          \<and> cc_fingerprint c \<notin> cc_fingerprint ` set (tb_canonical (da_db acc))
          \<and> cc_id c = en_uuid env (Suc (fst kp)) \<and> dn_canonical_id r = Some (cc_id c)"
          using fields(5) kp by auto
      qed
    qed (use fields parts(1) kp in simp_all)
  next
    case False
    then have settle: "outcome = fd_outcome d" "canonical_id = None"
      "db1 = update_candidate candidate_id (\<lambda>c. c\<lparr>cr_state := candidate_state (fd_outcome d),
                   cr_rejection_reasons := fd_reasons d\<rparr>) (da_db acc)"
      using parts(5) by (auto simp: settle_candidate_def split: adm_outcome.splits)
    have "grown (da_db acc) db1 [] []"
      unfolding settle(3) by (rule grown_update_candidate) simp
    then have all: "grown (da_db acc) db2 [] [r]"
      using grown_trans [OF _ db2(1)] by fastforce
    have fields: "da_db acc' = db2" "da_outcomes acc' = da_outcomes acc @ [dn_outcome r]"
      "da_canonical_ids acc' = da_canonical_ids acc @ (case dn_canonical_id r of None \<Rightarrow> [] | Some c \<Rightarrow> [c])"
      "dn_outcome r = fd_outcome d" "dn_canonical_id r = None" "dn_created_at r = en_now env" "dn_candidate_id r = candidate_id"
      by (simp_all add: parts(7) r_def settle(1,2))
    have "fd_outcome d \<noteq> Duplicate"
      using parts(4) by (rule evaluate_fact_not_duplicate)
    then have fits: "decision_fits batch_id (ho_id (ai_handoff i)) (map cc_id (tb_canonical (da_db acc'))) r"
      using False by (simp add: decision_fits_def fields) (simp add: r_def)
    show thesis
      by (rule that [OF _ _ _ fits, of "[]"]) (use all fields False parts(1) kp in simp_all)
  qed
qed

definition loop_post ::
    "run_env \<Rightarrow> admission_inputs \<Rightarrow> string \<Rightarrow> decision_acc \<Rightarrow> decision_acc \<Rightarrow> pyval list \<Rightarrow> canonical_row list
      \<Rightarrow> decision_row list \<Rightarrow> bool" where
  "loop_post env i batch_id acc acc' packaged new decs = (grown (da_db acc) (da_db acc') new decs
     \<and> da_outcomes acc' = da_outcomes acc @ map dn_outcome decs
     \<and> da_canonical_ids acc' = da_canonical_ids acc @ List.map_filter dn_canonical_id decs
     \<and> list_all (\<lambda>c. \<exists>candidate f. admits i batch_id candidate f c) new
     \<and> length new = count_list (map dn_outcome decs) AdmittedRederived
     \<and> list_all (decision_fits batch_id (ho_id (ai_handoff i)) (map cc_id (tb_canonical (da_db acc')))) decs
     \<and> list_all (\<lambda>r. dn_created_at r = en_now env) decs
     \<and> mapE (item_uuid ''persistent_candidate_claim_id'') packaged = Inr (map dn_candidate_id decs)
     \<and> (distinct (map cc_fingerprint (tb_canonical (da_db acc))) \<longrightarrow>
          distinct (map cc_fingerprint (tb_canonical (da_db acc')))))"

lemma decision_fits_mono: "decision_fits b h claims r \<Longrightarrow> set claims \<subseteq> set claims' \<Longrightarrow> decision_fits b h claims' r"
  by (auto simp: decision_fits_def)

lemma decide_loop:
  "foldE (decide_candidate env i batch_id) acc kps = Inr acc' \<Longrightarrow>
    \<exists>new decs. loop_post env i batch_id acc acc' (map snd kps) new decs"
proof (induction kps arbitrary: acc)
  case Nil
  then show ?case
    by (intro exI [of _ "[]"]) (simp add: loop_post_def grown_refl List.map_filter_simps)
next
  case (Cons kp kps)
  then obtain mid where mid: "decide_candidate env i batch_id acc kp = Inr mid"
    "foldE (decide_candidate env i batch_id) mid kps = Inr acc'"
    by (auto simp: bindE_eq_Inr)
  obtain new r where one: "grown (da_db acc) (da_db mid) new [r]"
    "length new = (if dn_outcome r = AdmittedRederived then 1 else 0)"
    "\<forall>c\<in>set new. (\<exists>candidate f. admits i batch_id candidate f c)
      \<and> cc_fingerprint c \<notin> cc_fingerprint ` set (tb_canonical (da_db acc))
      \<and> cc_id c = en_uuid env (Suc (fst kp)) \<and> dn_canonical_id r = Some (cc_id c)"
    "decision_fits batch_id (ho_id (ai_handoff i)) (map cc_id (tb_canonical (da_db mid))) r"
    "da_outcomes mid = da_outcomes acc @ [dn_outcome r]"
    "da_canonical_ids mid = da_canonical_ids acc @ (case dn_canonical_id r of None \<Rightarrow> [] | Some c \<Rightarrow> [c])"
    "dn_created_at r = en_now env" "item_uuid ''persistent_candidate_claim_id'' (snd kp) = Inr (dn_candidate_id r)"
    using mid(1) by (rule decide_candidate_step)
  from Cons.IH [OF mid(2)] obtain new' decs where rest: "loop_post env i batch_id mid acc' (map snd kps) new' decs"
    by blast
  have all: "grown (da_db acc) (da_db acc') (new @ new') (r # decs)"
    using grown_trans [OF one(1)] rest by (fastforce simp: loop_post_def)
  have canonical: "tb_canonical (da_db mid) = tb_canonical (da_db acc) @ new"
    "tb_canonical (da_db acc') = tb_canonical (da_db mid) @ new'"
    using one(1) rest by (simp_all add: grown_def loop_post_def)
  have fits: "decision_fits batch_id (ho_id (ai_handoff i)) (map cc_id (tb_canonical (da_db acc'))) r"
    using one(4) by (rule decision_fits_mono) (auto simp: canonical(2))
  have "distinct (map cc_fingerprint (tb_canonical (da_db mid)))"
    if "distinct (map cc_fingerprint (tb_canonical (da_db acc)))"
    using that one(2,3) unfolding canonical(1) by (cases new) (auto split: if_splits)
  moreover have "List.map_filter dn_canonical_id (r # decs)
      = (case dn_canonical_id r of None \<Rightarrow> [] | Some c \<Rightarrow> [c]) @ List.map_filter dn_canonical_id decs"
    by (simp add: List.map_filter_simps split: option.splits)
  ultimately have "loop_post env i batch_id acc acc' (map snd (kp # kps)) (new @ new') (r # decs)"
    using all fits one(2,3,5-8) rest unfolding loop_post_def by (auto simp: list_all_iff)
  then show ?case by blast
qed

definition justified_claim :: "admission_db \<Rightarrow> handoff_row \<Rightarrow> string \<Rightarrow> canonical_row \<Rightarrow> bool" where
  \<comment> \<open>an open source, a FACT candidate of the handoff, and one quoted sentence that states exactly the claim\<close>
  "justified_claim db h batch_id c = (\<exists>source\<in>set (tb_sources db). source_open source
     \<and> (\<exists>candidate\<in>set (tb_candidates db). \<exists>f. cr_id candidate \<in> set (ho_candidate_ids h)
       \<and> cr_kind candidate = ''FACT'' \<and> cr_producer_type candidate = ''LOCAL_MODEL''
       \<and> cr_subject_id candidate = allowed_subject \<and> cr_predicate candidate = allowed_predicate
       \<and> fact_quoted candidate (tb_fragments db) (tb_evidence db) source f
       \<and> cc_object_value c = rederived_value f \<and> cc_fingerprint c = fact_fingerprint f
       \<and> cc_evidence_ids c = rf_evidence_ids f \<and> cc_subject_id c = allowed_subject
       \<and> cc_predicate c = allowed_predicate \<and> cc_year c = period_year (rf_period f) \<and> 1 \<le> cc_year c
       \<and> cc_batch_id c = batch_id))"

lemma admits_justified:
  assumes "load_inputs env db job h = Inr i" "admits i batch_id candidate f c"
  shows "justified_claim db h batch_id c"
proof -
  have inputs: "ai_source i \<in> set (tb_sources db)" "source_open (ai_source i)"
    "set (ai_fragments i) \<subseteq> set (tb_fragments db)" "set (ai_candidates i) \<subseteq> set (tb_candidates db)"
    "cr_id candidate \<in> set (ho_candidate_ids h)" "set (ai_evidence i) \<subseteq> set (tb_evidence db)"
    using load_inputs_facts [OF assms(1)] assms(2) by (simp_all add: admits_def)
  have "fact_quoted candidate (tb_fragments db) (tb_evidence db) (ai_source i) f"
    using assms(2) inputs(3,6) by (auto simp: admits_def intro: fact_quoted_mono)
  with assms(2) inputs show ?thesis
    unfolding justified_claim_def admits_def by blast
qed

lemma fresh_decision:
  assumes "decide_handoff env db job = (Inr r, db')" "\<not> ar_replay r"
  obtains h i acc new decs where "jb_policy_version job = admission_policy" "find_handoff db job = Some h"
    "ho_state h = HandoffPending" "load_inputs env db job h = Inr i"
    "loop_post env i (en_uuid env 0) \<lparr>da_db = create_batch (en_uuid env 0) (ho_candidate_ids h) db, da_outcomes = [],
       da_canonical_ids = []\<rparr> acc (ai_claims i) new decs"
    "conclude env job i (en_uuid env 0) acc = (r, db')"
proof -
  have replayed: "ar_replay r'" if "existing_result order db0 hid = Inr r'" for order db0 hid r'
    using that by (auto simp: existing_result_def split: list.splits)
  from assms(1) have body: "decide_body env db job = Inr (r, db')"
    by (auto simp: decide_handoff_def transaction_def split: sum.splits)
  then obtain h where h: "jb_policy_version job = admission_policy" "find_handoff db job = Some h"
    "ho_state h = HandoffPending" "decide_pending env db job h = Inr (r, db')"
    using assms(2) replayed by (auto simp: decide_body_def bindE_eq_Inr split: if_splits)
  from h(4) obtain i acc where i: "load_inputs env db job h = Inr i"
    "foldE (decide_candidate env i (en_uuid env 0)) \<lparr>da_db = create_batch (en_uuid env 0) (ho_candidate_ids h) db,
       da_outcomes = [], da_canonical_ids = []\<rparr> (enumerate 0 (ai_claims i)) = Inr acc"
    "conclude env job i (en_uuid env 0) acc = (r, db')"
    by (auto simp: decide_pending_def bindE_eq_Inr Let_def)
  from decide_loop [OF i(2)] obtain new decs where "loop_post env i (en_uuid env 0)
      \<lparr>da_db = create_batch (en_uuid env 0) (ho_candidate_ids h) db, da_outcomes = [], da_canonical_ids = []\<rparr>
      acc (map snd (enumerate 0 (ai_claims i))) new decs" by blast
  with h i show thesis by (intro that) simp_all
qed

lemma create_batch_tables [simp]:
  "tb_canonical (create_batch b ids db) = tb_canonical db" "tb_claim_events (create_batch b ids db) = tb_claim_events db"
  "tb_decisions (create_batch b ids db) = tb_decisions db" "tb_handoffs (create_batch b ids db) = tb_handoffs db"
  "tb_runs (create_batch b ids db) = tb_runs db" "tb_sources (create_batch b ids db) = tb_sources db"
  "tb_candidates (create_batch b ids db) = tb_candidates db" "tb_failures (create_batch b ids db) = tb_failures db"
  by (simp_all add: create_batch_def)

lemma conclude_tables [simp]:
  "tb_canonical (snd (conclude env job i b acc)) = tb_canonical (da_db acc)"
  "tb_claim_events (snd (conclude env job i b acc)) = tb_claim_events (da_db acc)"
  "tb_decisions (snd (conclude env job i b acc)) = tb_decisions (da_db acc)"
  "tb_failures (snd (conclude env job i b acc)) = tb_failures (da_db acc)"
  "ar_batch_id (fst (conclude env job i b acc)) = b" "ar_outcomes (fst (conclude env job i b acc)) = da_outcomes acc"
  "ar_canonical_ids (fst (conclude env job i b acc)) = unique_first (da_canonical_ids acc)"
  "ar_replay (fst (conclude env job i b acc)) = False" "ar_model_calls (fst (conclude env job i b acc)) = 0"
  "tb_handoffs (snd (conclude env job i b acc)) = map (\<lambda>h. if ho_id h = jb_handoff_id job \<and> ho_state h = HandoffPending
     then h\<lparr>ho_state := HandoffConsumed, ho_consumed_at := Some (en_now env)\<rparr> else h) (tb_handoffs (da_db acc))"
  by (simp_all add: conclude_def Let_def)

lemma decide_failed: "decide_handoff env db job = (Inl e, db') \<Longrightarrow> db' = db"
  by (auto simp: decide_handoff_def transaction_def split: sum.splits)

lemma decide_pending_fresh: "decide_pending env db job h = Inr (r, db') \<Longrightarrow> \<not> ar_replay r"
  unfolding decide_pending_def Let_def bindE_eq_Inr by (metis Inr_inject conclude_tables(8) fst_conv)

lemma decide_replayed: "decide_handoff env db job = (Inr r, db') \<Longrightarrow> ar_replay r \<Longrightarrow> db' = db"
  using decide_pending_fresh
  by (auto simp: decide_handoff_def transaction_def decide_body_def bindE_eq_Inr split: sum.splits if_splits)

section \<open>Any sequence of jobs\<close>

lemma process_job_cases:
  assumes "process_job env db job = (x, db')"
  obtains (fresh) r where "decide_handoff env db job = (Inr r, db')" "\<not> ar_replay r"
  | (same) "db' = db"
  | (failed) err_code detail quarantined where "db' = record_failure job err_code detail quarantined db"
proof (cases "decide_handoff env db job")
  case (Pair res db1)
  show ?thesis
  proof (cases res)
    case (Inl e)
    with Pair have "db1 = db" by (auto dest: decide_failed)
    with assms Pair Inl show ?thesis
      by (cases "classify_error e") (auto simp: process_job_def intro: same failed)
  next
    case (Inr r)
    with assms Pair have "decide_handoff env db job = (Inr r, db')"
      by (auto simp: process_job_def)
    then show ?thesis
      by (cases "ar_replay r") (auto dest: decide_replayed intro: fresh same)
  qed
qed

inductive admission_runs :: "admission_db \<Rightarrow> admission_db \<Rightarrow> bool" where
  start: "admission_runs db db"
| job: "admission_runs db db1 \<Longrightarrow> process_job env db1 j = (x, db2) \<Longrightarrow> admission_runs db db2"

definition handoff_moves :: "handoff_row \<Rightarrow> handoff_row \<Rightarrow> bool" where
  \<comment> \<open>a pending handoff may reach one of the three final states, a final state is never left\<close>
  "handoff_moves h h' = (h' = h \<or> (ho_state h = HandoffPending \<and> ho_state h' \<noteq> HandoffPending
     \<and> ho_id h' = ho_id h \<and> ho_tenant_id h' = ho_tenant_id h \<and> ho_package h' = ho_package h))"

definition ledger_ok :: "admission_db \<Rightarrow> bool" where
  "ledger_ok db = (distinct (map cc_fingerprint (tb_canonical db))
     \<and> tb_claim_events db = map claim_admitted (tb_canonical db)
     \<and> list_all (\<lambda>r. decision_fits (dn_batch_id r) (dn_handoff_id r) (map cc_id (tb_canonical db)) r) (tb_decisions db)
     \<and> list_all (\<lambda>h. case ho_state h of
           HandoffPending \<Rightarrow> ho_id h \<notin> dn_handoff_id ` set (tb_decisions db)
         | HandoffConsumed \<Rightarrow> ho_id h \<in> dn_handoff_id ` set (tb_decisions db)
         | _ \<Rightarrow> True) (tb_handoffs db))"

lemma handoff_moves_simps: "handoff_moves h h"
  by (simp add: handoff_moves_def)

lemma handoff_moves_trans: "handoff_moves a b \<Longrightarrow> handoff_moves b c \<Longrightarrow> handoff_moves a c"
  by (auto simp: handoff_moves_def)

lemma loop_post_facts:
  assumes "loop_post env i b \<lparr>da_db = create_batch b ids db, da_outcomes = [], da_canonical_ids = []\<rparr> acc packaged new decs"
  shows "tb_canonical (da_db acc) = tb_canonical db @ new"
    "tb_claim_events (da_db acc) = tb_claim_events db @ map claim_admitted new"
    "tb_decisions (da_db acc) = tb_decisions db @ decs" "tb_handoffs (da_db acc) = tb_handoffs db"
    "da_outcomes acc = map dn_outcome decs" "da_canonical_ids acc = List.map_filter dn_canonical_id decs"
    "length new = count_list (map dn_outcome decs) AdmittedRederived"
    "list_all (decision_fits b (ho_id (ai_handoff i)) (map cc_id (tb_canonical (da_db acc)))) decs"
    "distinct (map cc_fingerprint (tb_canonical db)) \<Longrightarrow> distinct (map cc_fingerprint (tb_canonical (da_db acc)))"
    "list_all (\<lambda>c. \<exists>candidate f. admits i b candidate f c) new"
    "mapE (item_uuid ''persistent_candidate_claim_id'') packaged = Inr (map dn_candidate_id decs)"
    "tb_failures (da_db acc) = tb_failures db"
  using assms unfolding loop_post_def grown_def decision_acc.select_convs create_batch_tables append_Nil by blast+

lemma find_handoff_id: "find_handoff db job = Some h \<Longrightarrow> h \<in> set (tb_handoffs db) \<and> ho_id h = jb_handoff_id job"
  unfolding find_handoff_def by (auto dest: find_Some_mem)

definition fresh_post ::
    "run_env \<Rightarrow> admission_db \<Rightarrow> review_job \<Rightarrow> admission_run \<Rightarrow> admission_db \<Rightarrow> handoff_row \<Rightarrow> canonical_row list
      \<Rightarrow> decision_row list \<Rightarrow> bool" where
  "fresh_post env db job r db' h new decs = (find_handoff db job = Some h \<and> ho_state h = HandoffPending
     \<and> document_hash (ho_package h) = jb_package_hash job \<and> jb_policy_version job = admission_policy
     \<and> tb_canonical db' = tb_canonical db @ new
     \<and> tb_claim_events db' = tb_claim_events db @ map claim_admitted new
     \<and> tb_decisions db' = tb_decisions db @ decs
     \<and> tb_handoffs db' = map (\<lambda>h. if ho_id h = jb_handoff_id job \<and> ho_state h = HandoffPending
         then h\<lparr>ho_state := HandoffConsumed, ho_consumed_at := Some (en_now env)\<rparr> else h) (tb_handoffs db)
     \<and> list_all (justified_claim db h (ar_batch_id r)) new \<and> decs \<noteq> []
     \<and> map dn_candidate_id decs = ho_candidate_ids h
     \<and> list_all (decision_fits (ar_batch_id r) (jb_handoff_id job) (map cc_id (tb_canonical db'))) decs
     \<and> ar_outcomes r = map dn_outcome decs
     \<and> ar_canonical_ids r = unique_first (List.map_filter dn_canonical_id decs)
     \<and> length new = count_list (ar_outcomes r) AdmittedRederived \<and> ar_model_calls r = 0 \<and> tb_failures db' = tb_failures db
     \<and> (distinct (map cc_fingerprint (tb_canonical db)) \<longrightarrow> distinct (map cc_fingerprint (tb_canonical db'))))"

lemma fresh_step:
  assumes "decide_handoff env db job = (Inr r, db')" "\<not> ar_replay r"
  obtains h new decs where "fresh_post env db job r db' h new decs"
proof -
  obtain h i acc new decs where fresh: "jb_policy_version job = admission_policy" "find_handoff db job = Some h"
    "ho_state h = HandoffPending" "load_inputs env db job h = Inr i"
    "loop_post env i (en_uuid env 0) \<lparr>da_db = create_batch (en_uuid env 0) (ho_candidate_ids h) db, da_outcomes = [],
       da_canonical_ids = []\<rparr> acc (ai_claims i) new decs"
    "conclude env job i (en_uuid env 0) acc = (r, db')"
    using assms by (rule fresh_decision)
  note post = loop_post_facts [OF fresh(5)]
  note inputs = load_inputs_facts [OF fresh(4)]
  have run: "ar_batch_id r = en_uuid env 0" "ar_outcomes r = da_outcomes acc" "ar_model_calls r = 0"
    "ar_canonical_ids r = unique_first (da_canonical_ids acc)" "tb_canonical db' = tb_canonical (da_db acc)"
    "tb_claim_events db' = tb_claim_events (da_db acc)" "tb_decisions db' = tb_decisions (da_db acc)"
    "tb_failures db' = tb_failures (da_db acc)"
    "tb_handoffs db' = map (\<lambda>h. if ho_id h = jb_handoff_id job \<and> ho_state h = HandoffPending
     then h\<lparr>ho_state := HandoffConsumed, ho_consumed_at := Some (en_now env)\<rparr> else h) (tb_handoffs (da_db acc))"
    using conclude_tables [of env job i "en_uuid env 0" acc] unfolding fresh(6) by simp_all
  have ids: "map dn_candidate_id decs = ho_candidate_ids h"
    using post(11) inputs(11) by simp
  then have "decs \<noteq> []" using inputs(13) by auto
  moreover have "list_all (justified_claim db h (en_uuid env 0)) new"
    using post(10) admits_justified [OF fresh(4)] by (auto simp: list_all_iff)
  moreover have "ho_id (ai_handoff i) = jb_handoff_id job"
    using inputs(1) find_handoff_id [OF fresh(2)] by simp
  ultimately have "fresh_post env db job r db' h new decs"
    unfolding fresh_post_def run using fresh(1-3) post(1-9,12) inputs(9,10) ids by (intro conjI impI) simp_all
  then show thesis by (rule that)
qed

lemma process_job_ok:
  assumes "process_job env db job = (x, db')" "ledger_ok db"
  shows "ledger_ok db' \<and> (\<exists>new. tb_canonical db' = tb_canonical db @ new)
    \<and> (\<exists>decs. tb_decisions db' = tb_decisions db @ decs) \<and> list_all2 handoff_moves (tb_handoffs db) (tb_handoffs db')"
  using assms(1)
proof (cases rule: process_job_cases)
  case (fresh r)
  obtain h new decs where "fresh_post env db job r db' h new decs"
    using fresh by (rule fresh_step)
  then have step: "tb_canonical db' = tb_canonical db @ new"
    "tb_claim_events db' = tb_claim_events db @ map claim_admitted new" "tb_decisions db' = tb_decisions db @ decs"
    "tb_handoffs db' = map (\<lambda>h. if ho_id h = jb_handoff_id job \<and> ho_state h = HandoffPending
       then h\<lparr>ho_state := HandoffConsumed, ho_consumed_at := Some (en_now env)\<rparr> else h) (tb_handoffs db)"
    "decs \<noteq> []" "list_all (decision_fits (ar_batch_id r) (jb_handoff_id job) (map cc_id (tb_canonical db'))) decs"
    "distinct (map cc_fingerprint (tb_canonical db'))"
    using assms(2) unfolding fresh_post_def ledger_ok_def by blast+
  have ids: "dn_handoff_id ` set decs = {jb_handoff_id job}"
    using step(5,6) by (cases decs) (auto simp: list_all_iff decision_fits_def)
  have old: "list_all (\<lambda>r. decision_fits (dn_batch_id r) (dn_handoff_id r) (map cc_id (tb_canonical db)) r) (tb_decisions db)"
    using assms(2) by (simp add: ledger_ok_def)
  have "list_all (\<lambda>r. decision_fits (dn_batch_id r) (dn_handoff_id r) (map cc_id (tb_canonical db')) r) (tb_decisions db')"
    unfolding step(3) list_all_append
  proof
    show "list_all (\<lambda>r. decision_fits (dn_batch_id r) (dn_handoff_id r) (map cc_id (tb_canonical db')) r) (tb_decisions db)"
      using old by (rule list.pred_mono_strong) (erule decision_fits_mono, simp add: step(1))
    show "list_all (\<lambda>r. decision_fits (dn_batch_id r) (dn_handoff_id r) (map cc_id (tb_canonical db')) r) decs"
      using step(6) by (rule list.pred_mono_strong) (simp add: decision_fits_def)
  qed
  moreover have "list_all (\<lambda>h. case ho_state h of
           HandoffPending \<Rightarrow> ho_id h \<notin> dn_handoff_id ` set (tb_decisions db')
         | HandoffConsumed \<Rightarrow> ho_id h \<in> dn_handoff_id ` set (tb_decisions db')
         | _ \<Rightarrow> True) (tb_handoffs db')"
    using assms(2) unfolding ledger_ok_def step(3,4) list_all_iff set_append image_Un ids
    by (auto split: handoff_state.splits if_splits)
  moreover have "list_all2 handoff_moves (tb_handoffs db) (tb_handoffs db')"
    unfolding step(4) by (auto simp: list_all2_conv_all_nth handoff_moves_def)
  ultimately show ?thesis
    using assms(2) step(1-3,7) unfolding ledger_ok_def by simp
next
  case same
  then show ?thesis
    using assms(2) by (simp add: list_all2_same handoff_moves_simps)
next
  case (failed err_code detail quarantined)
  have "list_all2 handoff_moves (tb_handoffs db) (tb_handoffs db')"
    unfolding failed by (auto simp: record_failure_def list_all2_conv_all_nth handoff_moves_def)
  moreover have "ledger_ok db'"
    using assms(2) unfolding ledger_ok_def failed
    by (auto simp: record_failure_def list_all_iff split: handoff_state.splits)
  ultimately show ?thesis
    by (simp add: failed record_failure_def)
qed

lemma admission_runs_ok:
  "admission_runs db db' \<Longrightarrow> ledger_ok db \<Longrightarrow> ledger_ok db' \<and> (\<exists>new. tb_canonical db' = tb_canonical db @ new)
    \<and> (\<exists>decs. tb_decisions db' = tb_decisions db @ decs) \<and> list_all2 handoff_moves (tb_handoffs db) (tb_handoffs db')"
proof (induction rule: admission_runs.induct)
  case (start db)
  then show ?case by (simp add: list_all2_same handoff_moves_simps)
next
  case (job db db1 env j x db2)
  from job.IH [OF job.prems] obtain new decs where one: "ledger_ok db1" "tb_canonical db1 = tb_canonical db @ new"
    "tb_decisions db1 = tb_decisions db @ decs" "list_all2 handoff_moves (tb_handoffs db) (tb_handoffs db1)" by blast
  from process_job_ok [OF job.hyps(2) one(1)] obtain new' decs' where two: "ledger_ok db2"
    "tb_canonical db2 = tb_canonical db1 @ new'" "tb_decisions db2 = tb_decisions db1 @ decs'"
    "list_all2 handoff_moves (tb_handoffs db1) (tb_handoffs db2)" by blast
  have "list_all2 handoff_moves (tb_handoffs db) (tb_handoffs db2)"
    using handoff_moves_trans one(4) two(4) by (rule list_all2_trans)
  with one two show ?case by simp
qed

section \<open>Replay\<close>

lemma find_handoff_consumed:
  assumes "find_handoff db job = Some h" "ho_state h = HandoffPending"
    and "tb_handoffs db' = map (\<lambda>h. if ho_id h = jb_handoff_id job \<and> ho_state h = HandoffPending
       then h\<lparr>ho_state := HandoffConsumed, ho_consumed_at := Some t\<rparr> else h) (tb_handoffs db)"
  shows "\<exists>h'. find_handoff db' job = Some h' \<and> ho_state h' = HandoffConsumed"
proof -
  define f where "f h = (if ho_id h = jb_handoff_id job \<and> ho_state h = HandoffPending
       then h\<lparr>ho_state := HandoffConsumed, ho_consumed_at := Some t\<rparr> else h)" for h :: handoff_row
  define P where "P h = (ho_id h = jb_handoff_id job \<and> ho_tenant_id h = jb_tenant_id job \<and> ho_run_id h = jb_run_id job)" for h :: handoff_row
  have "P (f h) = P h" for h by (simp add: P_def f_def)
  then have "List.find P (map f hs) = map_option f (List.find P hs)" for hs
    by (induction hs) auto
  moreover have "List.find P (tb_handoffs db) = Some h" "tb_handoffs db' = map f (tb_handoffs db)"
    using assms(1,3) by (simp_all add: find_handoff_def P_def [abs_def] f_def [abs_def])
  ultimately have "List.find P (tb_handoffs db') = Some (f h)" by simp
  moreover have "ho_state (f h) = HandoffConsumed"
    using find_handoff_id [OF assms(1)] assms(2) by (simp add: f_def)
  ultimately show ?thesis by (simp add: find_handoff_def P_def [abs_def])
qed

lemma replay_after_fresh:
  assumes fresh: "decide_handoff env db job = (Inr r, db')" "\<not> ar_replay r" and ok: "ledger_ok db"
    and order: "\<And>rows. mset (en_order env' rows) = mset rows"
  shows "\<exists>r'. decide_handoff env' db' job = (Inr r', db') \<and> ar_replay r' \<and> ar_batch_id r' = ar_batch_id r
    \<and> mset (ar_outcomes r') = mset (ar_outcomes r) \<and> set (ar_canonical_ids r') = set (ar_canonical_ids r)"
proof -
  obtain h new decs where "fresh_post env db job r db' h new decs"
    using fresh by (rule fresh_step)
  then have step: "find_handoff db job = Some h" "ho_state h = HandoffPending" "jb_policy_version job = admission_policy"
    "tb_decisions db' = tb_decisions db @ decs"
    "tb_handoffs db' = map (\<lambda>h. if ho_id h = jb_handoff_id job \<and> ho_state h = HandoffPending
       then h\<lparr>ho_state := HandoffConsumed, ho_consumed_at := Some (en_now env)\<rparr> else h) (tb_handoffs db)"
    "decs \<noteq> []" "list_all (decision_fits (ar_batch_id r) (jb_handoff_id job) (map cc_id (tb_canonical db'))) decs"
    "ar_outcomes r = map dn_outcome decs" "ar_canonical_ids r = unique_first (List.map_filter dn_canonical_id decs)"
    unfolding fresh_post_def by blast+
  obtain h' where h': "find_handoff db' job = Some h'" "ho_state h' = HandoffConsumed"
    using find_handoff_consumed [OF step(1,2,5)] by blast
  have "jb_handoff_id job \<notin> dn_handoff_id ` set (tb_decisions db)"
    using ok find_handoff_id [OF step(1)] step(2) unfolding ledger_ok_def list_all_iff by fastforce
  then have none: "filter (\<lambda>r. dn_handoff_id r = jb_handoff_id job) (tb_decisions db) = []"
    by (auto simp: filter_empty_conv image_iff)
  have own: "dn_handoff_id d = jb_handoff_id job \<and> dn_batch_id d = ar_batch_id r" if "d \<in> set decs" for d
    using step(7) that by (simp add: list_all_iff decision_fits_def)
  then have rows: "filter (\<lambda>r. dn_handoff_id r = jb_handoff_id job) (tb_decisions db') = decs"
    using none by (simp add: step(4))
  define ds where "ds = en_order env' decs"
  have ds: "mset ds = mset decs" by (simp add: ds_def order)
  then obtain d ds' where split: "ds = d # ds'" using step(6) by (cases ds) auto
  have sets: "set ds = set decs" using ds by (rule mset_eq_setD)
  let ?r = "\<lparr>ar_batch_id = dn_batch_id d, ar_canonical_ids = unique_first (List.map_filter dn_canonical_id ds),
      ar_outcomes = map dn_outcome ds, ar_replay = True, ar_model_calls = 0\<rparr>"
  have "existing_result (en_order env') db' (jb_handoff_id job) = Inr ?r"
    unfolding existing_result_def rows ds_def [symmetric] by (simp add: split)
  then have replay: "decide_handoff env' db' job = (Inr ?r, db')"
    using h' step(3) by (simp add: decide_handoff_def decide_body_def transaction_def)
  have "set (List.map_filter dn_canonical_id ds) = set (List.map_filter dn_canonical_id decs)"
    by (auto simp: List.map_filter_def sets)
  moreover have "dn_batch_id d = ar_batch_id r"
    using own sets split by auto
  ultimately show ?thesis
    using ds step(8,9) replay by (intro exI [of _ ?r]) (simp add: mset_map)
qed

section \<open>What a handled job leaves\<close>

lemma record_failure_settles:
  "list_all (\<lambda>h. ho_id h \<noteq> jb_handoff_id job \<or> ho_state h \<noteq> HandoffPending)
     (tb_handoffs (record_failure job err_code detail quarantined db))"
  by (auto simp: record_failure_def list_all_iff)

lemma replayed_handoff:
  assumes "decide_handoff env db job = (Inr r, db')" "ar_replay r"
  shows "\<exists>h. find_handoff db job = Some h \<and> ho_state h \<noteq> HandoffPending"
  using assms decide_pending_fresh
  by (auto simp: decide_handoff_def transaction_def decide_body_def bindE_eq_Inr split: sum.splits if_splits)

lemma decide_settles:
  assumes "decide_handoff env db job = (Inr r, db')" "distinct (map ho_id (tb_handoffs db))"
  shows "list_all (\<lambda>h. ho_id h \<noteq> jb_handoff_id job \<or> ho_state h \<noteq> HandoffPending) (tb_handoffs db')"
proof (cases "ar_replay r")
  case True
  then obtain h where h: "find_handoff db job = Some h" "ho_state h \<noteq> HandoffPending"
    using assms(1) replayed_handoff by blast
  have "h' = h" if "h' \<in> set (tb_handoffs db)" "ho_id h' = jb_handoff_id job" for h'
    using that find_handoff_id [OF h(1)] assms(2) by (simp add: distinct_map inj_on_def)
  with h(2) show ?thesis
    using decide_replayed [OF assms(1) True] by (auto simp: list_all_iff)
next
  case False
  then obtain h new decs where "fresh_post env db job r db' h new decs"
    using assms(1) by (elim fresh_step)
  then show ?thesis by (auto simp: fresh_post_def list_all_iff)
qed

lemma process_job_settles:
  assumes "process_job env db job = (Inr (), db')" "distinct (map ho_id (tb_handoffs db))"
  shows "list_all (\<lambda>h. ho_id h \<noteq> jb_handoff_id job \<or> ho_state h \<noteq> HandoffPending) (tb_handoffs db')"
proof (cases "decide_handoff env db job")
  case (Pair x db1)
  show ?thesis
  proof (cases x)
    case (Inr r)
    with Pair assms decide_settles [of env db job r db1] show ?thesis by (simp add: process_job_def)
  next
    case (Inl e)
    with Pair assms(1) record_failure_settles [of job] show ?thesis
      by (cases "classify_error e") (auto simp: process_job_def)
  qed
qed

section \<open>What is left of a job whose exception escapes\<close>

inductive runtime_passes :: "admission_db \<Rightarrow> pyval list \<Rightarrow> admission_db \<Rightarrow> pyval list \<Rightarrow> bool" where
  \<comment> \<open>calls of \<^verbatim>\<open>run_once\<close>, by this process or by one started again after an exception\<close>
  idle: "runtime_passes db q db q"
| pass: "runtime_passes db q db1 q1 \<Longrightarrow> run_once env db1 q1 = (x, db2, q2) \<Longrightarrow> runtime_passes db q db2 q2"

definition handoff_trace :: "string \<Rightarrow> admission_db \<Rightarrow> handoff_row list \<times> decision_row list \<times> failure_row list" where
  \<comment> \<open>the rows of a handoff, its decisions and its recorded failures\<close>
  "handoff_trace i db = (filter (\<lambda>h. ho_id h = i) (tb_handoffs db), filter (\<lambda>d. dn_handoff_id d = i) (tb_decisions db),
     filter (\<lambda>f. fl_handoff_id f = i) (tb_failures db))"

definition names_handoff :: "string \<Rightarrow> pyval \<Rightarrow> bool" where
  "names_handoff i v \<longleftrightarrow> (case job_from_payload v of Inr k \<Rightarrow> jb_handoff_id k = i | Inl _ \<Rightarrow> False)"

lemma filter_map_other: "(\<And>h. ho_id (f h) = ho_id h) \<Longrightarrow> (\<And>h. ho_id h = i \<Longrightarrow> f h = h)
    \<Longrightarrow> filter (\<lambda>h. ho_id h = i) (map f hs) = filter (\<lambda>h. ho_id h = i) hs"
  by (induction hs) auto

lemma process_job_trace:
  assumes "process_job env db job = (x, db')" "jb_handoff_id job \<noteq> i"
  shows "handoff_trace i db' = handoff_trace i db"
  using assms(1)
proof (cases rule: process_job_cases)
  case (fresh r)
  then obtain h new decs where "fresh_post env db job r db' h new decs" by (rule fresh_step)
  then have step: "tb_decisions db' = tb_decisions db @ decs" "tb_failures db' = tb_failures db"
    "tb_handoffs db' = map (\<lambda>h. if ho_id h = jb_handoff_id job \<and> ho_state h = HandoffPending
       then h\<lparr>ho_state := HandoffConsumed, ho_consumed_at := Some (en_now env)\<rparr> else h) (tb_handoffs db)"
    "list_all (decision_fits (ar_batch_id r) (jb_handoff_id job) (map cc_id (tb_canonical db'))) decs"
    unfolding fresh_post_def by blast+
  have "filter (\<lambda>d. dn_handoff_id d = i) decs = []"
    using step(4) assms(2) by (auto simp: filter_empty_conv list_all_iff decision_fits_def)
  then show ?thesis
    using assms(2) unfolding handoff_trace_def step(1-3) by (subst filter_map_other) auto
next
  case (failed err_code detail quarantined)
  have "filter (\<lambda>h. ho_id h = i) (tb_handoffs (record_failure job err_code detail quarantined db))
      = filter (\<lambda>h. ho_id h = i) (tb_handoffs db)"
    unfolding record_failure_def using assms(2) by (simp add: filter_map_other)
  then show ?thesis using assms(2) by (simp add: failed handoff_trace_def) (simp add: record_failure_def)
qed simp

lemma dequeued: "dequeue_job q = (Inr (Some job), rest) \<Longrightarrow> \<exists>v. q = v # rest \<and> job_from_payload v = Inr job"
  by (auto simp: dequeue_job_def pop_payload_def bindE_eq_Inr split: list.splits pyval.splits)

lemma dequeue_rest: "dequeue_job q = (x, rest) \<Longrightarrow> set rest \<subseteq> set q"
  by (auto simp: dequeue_job_def pop_payload_def split: list.splits pyval.splits)

lemma run_once_trace:
  assumes "run_once env db q = (x, db', q')" "list_all (\<lambda>v. \<not> names_handoff i v) q"
  shows "handoff_trace i db' = handoff_trace i db \<and> list_all (\<lambda>v. \<not> names_handoff i v) q'"
proof -
  obtain y rest where d: "dequeue_job q = (y, rest)" by fastforce
  have rest: "list_all (\<lambda>v. \<not> names_handoff i v) rest" using dequeue_rest [OF d] assms(2) by (auto simp: list_all_iff)
  show ?thesis
  proof (cases "\<exists>job. y = Inr (Some job)")
    case True
    then obtain job where y: "y = Inr (Some job)" by blast
    then have "jb_handoff_id job \<noteq> i" using dequeued d assms(2) by (fastforce simp: names_handoff_def)
    moreover obtain z db1 where p: "process_job env db job = (z, db1)" by fastforce
    ultimately have "handoff_trace i db1 = handoff_trace i db" by (intro process_job_trace)
    moreover have "db' = db1 \<and> q' = rest" using assms(1) d y p by (auto simp: run_once_def split: sum.splits)
    ultimately show ?thesis using rest by simp
  next
    case False
    then have "db' = db \<and> q' = rest" using assms(1) d by (auto simp: run_once_def split: sum.splits option.splits)
    then show ?thesis using rest by simp
  qed
qed

lemma passes_trace:
  "runtime_passes db q db' q' \<Longrightarrow> list_all (\<lambda>v. \<not> names_handoff i v) q \<Longrightarrow>
    handoff_trace i db' = handoff_trace i db \<and> list_all (\<lambda>v. \<not> names_handoff i v) q'"
  by (induction rule: runtime_passes.induct) (auto dest: run_once_trace)

lemma find_filtered: "List.find (\<lambda>h. ho_id h = i \<and> P h) hs = List.find P (filter (\<lambda>h. ho_id h = i) hs)"
  by (induction hs) auto

lemma trace_find:
  assumes "handoff_trace (jb_handoff_id job) db' = handoff_trace (jb_handoff_id job) db"
  shows "find_handoff db' job = find_handoff db job"
proof -
  have "find_handoff d job = List.find (\<lambda>h. ho_tenant_id h = jb_tenant_id job \<and> ho_run_id h = jb_run_id job)
      (fst (handoff_trace (jb_handoff_id job) d))" for d
    unfolding find_handoff_def handoff_trace_def fst_conv by (rule find_filtered)
  then show ?thesis using assms by simp
qed

lemma escape_was_pending:
  assumes "decide_handoff env db job = (Inl e, db1)" "classify_error e = Escapes"
  shows "\<exists>h. find_handoff db job = Some h \<and> ho_state h = HandoffPending"
proof -
  have "decide_body env db job = Inl e" using assms(1) by (auto simp: decide_handoff_def transaction_def split: sum.splits)
  then show ?thesis using assms(2)
    by (auto simp: decide_body_def policy_failure_def integrity_def existing_result_def bindE_eq_Inl classify_error_def
        split: option.splits if_splits list.splits)
qed

end
