(* ===== verification/AdmissionSamples.thy ===== *)
theory AdmissionSamples
  imports AdmissionRuntime
begin

text \<open>
  One admission from end to end: a document with one sentence, its fragment, evidence and candidate,
  the handoff package and the database before it. Hash values stay symbolic: the model computes
  them, and the runtime only compares them.
\<close>

section \<open>The handoff\<close>

definition sample_content :: string where
  "sample_content = ''Real GDP growth reached 3.6 percent in 2024.''"

definition sample_document :: institutional_document where
  "sample_document = \<lparr>id_document_id = ''doc_rer41_2025'', id_source_id = ''world-bank-rer41'', id_title = ''Report'',
     id_source_url = ''https://example.org'', id_published_at = 0, id_retrieved_at = 0, id_language = ''en'',
     id_mime_type = ''text/plain'', id_rights_status = ''COMMERCIAL_REUSE_WITH_ATTRIBUTION'',
     id_license_id = ''CC-BY-4.0'', id_attribution_text = ''World Bank'', id_content = sample_content,
     id_content_hash = document_hash (PDict [(''content'', PStr sample_content)]), id_tenant_scope = ''GLOBAL_PUBLIC''\<rparr>"

definition sample_document_json :: pyval where
  "sample_document_json = PDict
     [(''document_id'', PStr ''doc_rer41_2025''), (''source_id'', PStr ''world-bank-rer41''), (''title'', PStr ''Report''),
      (''source_url'', PStr ''https://example.org''), (''published_at'', PStr ''2025-05-01''),
      (''retrieved_at'', PStr ''2025-05-02''), (''language'', PStr ''en''), (''mime_type'', PStr ''text/plain''),
      (''rights_status'', PStr ''COMMERCIAL_REUSE_WITH_ATTRIBUTION''), (''license_id'', PStr ''CC-BY-4.0''),
      (''attribution_text'', PStr ''World Bank''), (''content'', PStr sample_content),
      (''content_hash'', PStr (document_hash (PDict [(''content'', PStr sample_content)])))]"

definition sample_fragment :: document_fragment where
  "sample_fragment = fragment_of sample_document 0 sample_content 0"

definition sample_source_json :: pyval where
  "sample_source_json = PDict [(''source_id'', PStr ''world-bank-rer41''), (''admission_state'', PStr ''ADMITTED''),
     (''rights_status'', PStr ''COMMERCIAL_REUSE_WITH_ATTRIBUTION''), (''license_id'', PStr ''CC-BY-4.0''),
     (''kill_switch'', PBool False)]"

definition sample_evidence_json :: pyval where
  "sample_evidence_json = PDict
     [(''persistent_evidence_id'', PStr (uuid_text 5)), (''evidence_key'', PStr ''ek''),
      (''source_id'', PStr ''world-bank-rer41''), (''content_hash'', PStr (fr_content_hash sample_fragment)),
      (''rights_status'', PStr ''COMMERCIAL_REUSE_WITH_ATTRIBUTION''), (''license_id'', PStr ''CC-BY-4.0''),
      (''quote_hash'', PStr (fr_content_hash sample_fragment)), (''text'', PStr sample_content),
      (''fragment_id'', PStr (fr_fragment_id sample_fragment))]"

definition sample_value :: pyval where
  "sample_value = PDict [(''value'', PStr ''3.6''), (''unit'', PStr ''percent_annual''), (''period'', PStr ''2024'')]"

definition sample_candidate_json :: pyval where
  "sample_candidate_json = PDict
     [(''persistent_candidate_claim_id'', PStr (uuid_text 4)), (''candidate_claim_id'', PStr ''cand''),
      (''fingerprint'', PStr ''fp''), (''opportunity_id'', PStr ''opp''), (''subject_id'', PStr ''geo_country_rus''),
      (''predicate'', PStr ''real_gdp_growth_annual_pct''), (''object_value'', sample_value),
      (''statement'', PStr ''Growth was 3.6 percent.''), (''kind'', PStr ''FACT''), (''relationship'', PStr ''SUPPORTING''),
      (''producer_type'', PStr ''LOCAL_MODEL''), (''producer_id'', PStr ''model''), (''model_version'', PStr ''1''),
      (''method_version'', PStr ''m''), (''prompt_version'', PStr ''p''), (''assumptions'', PList []),
      (''unknowns'', PList []), (''extraction_confidence'', PInt 1), (''evidence_keys'', PStrs [''ek'']),
      (''state'', PStr ''ADMISSION_QUEUED''), (''canonical_claim_id'', PNone)]"

definition sample_package :: pyval where
  "sample_package = PDict
     [(''schema_version'', PInt 1), (''tenant_id'', PStr (uuid_text 3)), (''research_run_id'', PStr (uuid_text 2)),
      (''pipeline_version'', PStr ''local-document-proposal-pipeline@0.1.0''), (''document'', sample_document_json),
      (''source'', sample_source_json), (''fragments'', PList [fragment_json sample_fragment]),
      (''evidence'', PList [sample_evidence_json]), (''candidate_claims'', PList [sample_candidate_json]),
      (''admission_boundary_results'', PList [PDict [(''candidate_claim_id'', PStr ''cand''), (''admitted'', PBool False)]]),
      (''dossier'', PDict []), (''actual_usage'', PDict []), (''human_review_state'', PStr ''NOT_REQUESTED''),
      (''canonical_claim_ids'', PList [])]"

definition sample_review_job :: review_job where
  "sample_review_job = \<lparr>jb_handoff_id = uuid_text 1, jb_run_id = uuid_text 2, jb_tenant_id = uuid_text 3,
     jb_package_hash = document_hash sample_package, jb_policy_version = admission_policy\<rparr>"

definition sample_handoff :: handoff_row where
  "sample_handoff = \<lparr>ho_id = uuid_text 1, ho_tenant_id = uuid_text 3, ho_run_id = uuid_text 2,
     ho_state = HandoffPending, ho_candidate_ids = [uuid_text 4], ho_package = sample_package,
     ho_package_hash = document_hash sample_package, ho_consumed_at = None\<rparr>"

section \<open>The database\<close>

definition sample_run :: run_row where
  "sample_run = \<lparr>rn_id = uuid_text 2, rn_tenant_id = uuid_text 3, rn_job_kind = ''DOCUMENT_PROPOSAL'',
     rn_handoff_id = Some (uuid_text 1), rn_state = ''ADMISSION_PENDING'', rn_canonical_claim_ids = [],
     rn_batch_id = None, rn_actual_usage = [], rn_dossier_id = None, rn_error_code = None, rn_error_detail = None\<rparr>"

definition sample_source :: source_row where
  "sample_source = \<lparr>sr_source_id = ''world-bank-rer41'', sr_admission_state = ''ADMITTED'',
     sr_rights_status = ''COMMERCIAL_REUSE_WITH_ATTRIBUTION'', sr_license_id = ''CC-BY-4.0'',
     sr_kill_switch = False, sr_commercial_use = True, sr_redistribution = True\<rparr>"

definition sample_object :: source_object_row where
  "sample_object = \<lparr>sb_id = uuid_text 6, sb_source_id = ''world-bank-rer41'',
     sb_content_hash = document_hash (PDict [(''content'', PStr sample_content)]),
     sb_raw_payload = sample_document_json, sb_rights_snapshot = sample_source_json\<rparr>"

definition sample_fragment_row :: fragment_row where
  "sample_fragment_row = \<lparr>fg_fragment_id = fr_fragment_id sample_fragment, fg_source_object_id = uuid_text 6,
     fg_document_id = ''doc_rer41_2025'', fg_ordinal = 0, fg_start_char = 0, fg_end_char = 44,
     fg_text_content = sample_content, fg_content_hash = fr_content_hash sample_fragment,
     fg_parser_version = parser_version, fg_security_scan_state = ''CLEAR''\<rparr>"

definition sample_evidence :: evidence_row where
  "sample_evidence = \<lparr>er_id = uuid_text 5, er_evidence_key = ''ek'', er_source_id = ''world-bank-rer41'',
     er_content_hash = fr_content_hash sample_fragment, er_rights_status = ''COMMERCIAL_REUSE_WITH_ATTRIBUTION'',
     er_payload = PDict [(''fragment_id'', PStr (fr_fragment_id sample_fragment)),
       (''quote_hash'', PStr (fr_content_hash sample_fragment)), (''text'', PStr sample_content)]\<rparr>"

definition sample_candidate :: candidate_row where
  "sample_candidate = \<lparr>cr_id = uuid_text 4, cr_fingerprint = ''fp'', cr_opportunity_id = ''opp'',
     cr_subject_id = ''geo_country_rus'', cr_predicate = ''real_gdp_growth_annual_pct'', cr_object_value = sample_value,
     cr_statement = ''Growth was 3.6 percent.'', cr_kind = ''FACT'', cr_relationship = ''SUPPORTING'',
     cr_producer_type = ''LOCAL_MODEL'', cr_producer_id = ''model'', cr_model_version = ''1'', cr_method_version = ''m'',
     cr_prompt_version = ''p'', cr_assumptions = PList [], cr_unknowns = PList [], cr_extraction_confidence = 1,
     cr_evidence_ids = [uuid_text 5], cr_state = ''ADMISSION_QUEUED'', cr_canonical_claim_id = None,
     cr_rejection_reasons = []\<rparr>"

definition sample_db :: admission_db where
  "sample_db = \<lparr>tb_handoffs = [sample_handoff], tb_runs = [sample_run], tb_sources = [sample_source],
     tb_source_objects = [sample_object], tb_fragments = [sample_fragment_row], tb_evidence = [sample_evidence],
     tb_candidates = [sample_candidate], tb_batches = [], tb_canonical = [], tb_claim_events = [],
     tb_decisions = [], tb_failures = [], tb_dossiers = []\<rparr>"

definition sample_env :: "int \<Rightarrow> run_env" where
  \<comment> \<open>the argument is the current year\<close>
  "sample_env year = \<lparr>en_uuid = (\<lambda>n. uuid_text (100 + n)), en_now = 0, en_year = year,
     en_read_time = (\<lambda>_. Some 0), en_order = (\<lambda>rows. rows)\<rparr>"

section \<open>The gates pass\<close>

lemma is_lower_hex_digit: "n < 16 \<Longrightarrow> is_lower_hex (hex_digit n)"
  by (auto simp: is_lower_hex_def hex_digit_def is_digit_def code_char_of)

lemma hexdigest_lower: "list_all is_lower_hex (hexdigest bs)"
  by (induction bs) (simp_all add: hexdigest_def hex2_def is_lower_hex_digit)

lemma document_hash_digest [simp]: "is_content_digest (document_hash v)"
  by (simp add: is_content_digest_def document_hash_def hexdigest_lower)
    (simp add: sha256_ref_def starts_with_def hexdigest_lower)

lemma sample_document_read: "document_of_json (\<lambda>_. Some 0) sample_document_json = Inr sample_document"
proof -
  have "validate_document sample_document = Inr sample_document"
    by (simp add: validate_document_def sample_document_def field_checks_def is_document_id_def starts_with_def
        is_id_char_def is_ascii_lower_def is_digit_def code_def sample_content_def)
  then show ?thesis
    by (simp add: document_of_json_def field_str_def field_time_def field_scope_def sample_document_json_def
        sample_document_def)
qed

lemma searchI: "fits r u t \<Longrightarrow> search r (a @ u @ t)"
  unfolding search_iff by blast

lemma search_Cat_first:
  assumes "\<not> search a s"
  shows "\<not> search (Cat a b) s"
proof
  assume "search (Cat a b) s"
  then obtain u v w where s: "s = u @ v @ w" and "fits (Cat a b) v w"
    unfolding search_iff by blast
  from this(2) obtain x y where "v = x @ y" "fits a x (y @ w)" by (rule fits_CatE)
  then show False using assms searchI [of a x "y @ w" u] unfolding s by simp
qed

lemma search_Alt: "search (Alt a b) s \<longleftrightarrow> search a s \<or> search b s"
proof
  assume "search (Alt a b) s"
  then obtain u v w where "s = u @ v @ w" "fits (Alt a b) v w"
    unfolding search_iff by blast
  from this(2) show "search a s \<or> search b s"
    unfolding \<open>s = u @ v @ w\<close> by (rule fits_AltE) (rule disjI1 disjI2, erule searchI)+
next
  assume "search a s \<or> search b s"
  then obtain u v w where s: "s = u @ v @ w" and "fits a v w \<or> fits b v w"
    unfolding search_iff by blast
  from this(2) have "fits (Alt a b) v w" by (blast intro: fits.intros(2,3))
  then show "search (Alt a b) s" unfolding s by (rule searchI)
qed

lemma sample_clean: "filter (\<lambda>(_, pattern). search pattern sample_content) blocked_patterns = []"
proof -
  have low: "lower sample_content = ''real gdp growth reached 3.6 percent in 2024.''"
    by code_simp
  show ?thesis
    by (simp add: blocked_patterns_def literal_search search_Cat_first search_Alt low starts_with_def)
qed

lemma sample_paragraphs: "normalise_content sample_content = sample_content" "paragraphs_of sample_content = [sample_content]"
  by code_simp+

lemma sample_parsed: "parse_document sample_document = Inr \<lparr>pd_document = sample_document,
    pd_fragments = [sample_fragment], pd_parser_version = parser_version,
    pd_injection_policy_version = injection_policy_version\<rparr>"
proof -
  have "find_from sample_content sample_content 0 = Some 0"
    by (simp add: find_from_def upt_conv_Cons starts_with_def del: upt_Suc)
  moreover have "id_content sample_document = sample_content"
    by (simp add: sample_document_def)
  ultimately show ?thesis
    by (simp add: parse_document_def sample_paragraphs sample_fragment_def)
qed

lemma sample_fragment_fields [simp]:
  "fr_text sample_fragment = sample_content" "fr_ordinal sample_fragment = 0" "fr_start_char sample_fragment = 0"
  "fr_end_char sample_fragment = 44" "fr_document_id sample_fragment = ''doc_rer41_2025''"
  "fr_parser_version sample_fragment = parser_version"
  "fr_content_hash sample_fragment = document_hash (PDict
     [(''document_id'', PStr ''doc_rer41_2025''), (''ordinal'', PInt 0), (''text'', PStr sample_content)])"
  by (simp_all add: sample_fragment_def sample_document_def fragment_of_def Let_def) (simp add: sample_content_def)

lemma sample_reparse: "reparse_document (\<lambda>_. Some 0) sample_document_json = Inr (sample_document,
    \<lparr>pd_document = sample_document, pd_fragments = [sample_fragment], pd_parser_version = parser_version,
     pd_injection_policy_version = injection_policy_version\<rparr>)"
  using sample_clean
  by (simp add: reparse_document_def sample_document_read sample_parsed inspect_document_def detections_def)

lemma sample_source_passes: "source_gate sample_source sample_source_json = Inr ()"
  by (simp add: source_gate_def sample_source_def sample_source_json_def get_is_def py_get_def require_def)

lemma sample_validated: "validate_package sample_handoff sample_review_job = Inr sample_package"
  by (simp add: validate_package_def Let_def sample_handoff_def sample_review_job_def)
    (simp add: sample_package_def package_keys_def dict_keys_def is_object_def item_is_def py_item_def require_def
      number_of_def py_truthy_def py_iter_def boundary_broken_def orE_def py_get_def)

lemma sample_loaded: "load_authoritative_inputs (\<lambda>_. Some 0) [sample_source] [sample_object] [sample_fragment_row] sample_package
    = Inr (sample_source, sample_object, [sample_fragment_row])"
proof -
  have items: "py_item sample_package ''source'' = Inr sample_source_json"
    "py_item sample_package ''document'' = Inr sample_document_json"
    "py_item sample_package ''fragments'' = Inr (PList [fragment_json sample_fragment])"
    by (simp_all add: sample_package_def py_item_def)
  have source: "py_get sample_source_json ''source_id'' = Inr (PStr allowed_source)"
    "get_is sample_source_json ''rights_status'' (PStr (sr_rights_status sample_source)) = Inr True"
    "get_is sample_source_json ''license_id'' (PStr (sr_license_id sample_source)) = Inr True"
    by (simp_all add: sample_source_json_def py_get_def allowed_source_def get_is_def sample_source_def)
  have "keyed (fragment_json sample_fragment)" "keyed sample_document_json"
    by (simp_all add: fragment_json_def sample_document_json_def)
  then have equal: "py_eq (fragment_json sample_fragment) (fragment_json sample_fragment)"
    "py_eq sample_document_json sample_document_json"
    by (simp_all add: py_eq_refl)
  have fragment: "check_fragment [sample_fragment_row] (fragment_json sample_fragment) = Inr ()"
    by (simp add: check_fragment_def fragment_json_def py_item_def lookup_row_def sample_fragment_row_def notE_def
        item_is_def number_of_def)
  have fields: "sr_source_id sample_source = allowed_source" "sb_source_id sample_object = allowed_source"
    "sb_content_hash sample_object = id_content_hash sample_document" "sb_raw_payload sample_object = sample_document_json"
    "sb_rights_snapshot sample_object = sample_source_json" "id_source_id sample_document = allowed_source"
    "id_rights_status sample_document = sr_rights_status sample_source"
    "id_license_id sample_document = sr_license_id sample_source"
    "fg_source_object_id sample_fragment_row = sb_id sample_object"
    "fg_document_id sample_fragment_row = id_document_id sample_document"
    by (simp_all add: sample_source_def sample_object_def sample_document_def sample_fragment_row_def allowed_source_def)
  show ?thesis
    unfolding load_authoritative_inputs_def items sample_reparse bindE_Inr source prod.case
    by (simp add: sample_source_passes equal fragment source py_iter_def fields require_def Let_def)
qed

lemma sample_uuid [simp]: "n < 16 ^ 32 \<Longrightarrow> uuid_of (PStr (uuid_text n)) = Inr (uuid_text n)"
  by (simp add: uuid_of_def uuid_of_text_canonical)

lemma sample_items:
  "py_item sample_package ''candidate_claims'' = Inr (PList [sample_candidate_json])"
  "py_item sample_package ''evidence'' = Inr (PList [sample_evidence_json])"
  "py_item sample_package ''document'' = Inr sample_document_json"
  "py_item sample_package ''admission_boundary_results''
     = Inr (PList [PDict [(''candidate_claim_id'', PStr ''cand''), (''admitted'', PBool False)]])"
  "py_item sample_candidate_json ''persistent_candidate_claim_id'' = Inr (PStr (uuid_text 4))"
  "py_get sample_candidate_json ''persistent_candidate_claim_id'' = Inr (PStr (uuid_text 4))"
  "py_get sample_candidate_json ''candidate_claim_id'' = Inr (PStr ''cand'')"
  "py_item sample_candidate_json ''evidence_keys'' = Inr (PList [PStr ''ek''])"
  "py_item sample_evidence_json ''persistent_evidence_id'' = Inr (PStr (uuid_text 5))"
  "py_item sample_evidence_json ''evidence_key'' = Inr (PStr ''ek'')"
  "py_item sample_evidence_json ''fragment_id'' = Inr (PStr (fr_fragment_id sample_fragment))"
  by (simp_all add: sample_package_def sample_candidate_json_def sample_evidence_json_def py_item_def py_get_def)

lemma item_uuids [simp]:
  "item_uuid ''persistent_candidate_claim_id'' sample_candidate_json = Inr (uuid_text 4)"
  "item_uuid ''persistent_evidence_id'' sample_evidence_json = Inr (uuid_text 5)"
  by (simp_all add: item_uuid_def sample_items)

lemma boundary_item: "py_get (PDict [(''candidate_claim_id'', PStr x), (k, v)]) ''candidate_claim_id'' = Inr (PStr x)"
  by (simp add: py_get_def)

lemma sample_candidates: "load_candidates [sample_candidate] [uuid_text 4] = Inr [sample_candidate]"
  "validate_candidate_set sample_package [uuid_text 4] = Inr ()"
  by (simp_all add: load_candidates_def sample_candidate_def validate_candidate_set_def sample_items py_iter_def boundary_item)

lemma sample_evidence_loaded: "load_evidence [sample_evidence] [sample_candidate] = Inr [sample_evidence]"
  by (simp add: load_evidence_def sample_evidence_def sample_candidate_def)

lemma sample_row_fields:
  "fg_fragment_id sample_fragment_row = fr_fragment_id sample_fragment"
  "fg_content_hash sample_fragment_row = fr_content_hash sample_fragment"
  "fg_text_content sample_fragment_row = sample_content"
  "er_id sample_evidence = uuid_text 5" "er_evidence_key sample_evidence = ''ek''"
  "er_content_hash sample_evidence = fr_content_hash sample_fragment"
  "er_rights_status sample_evidence = sr_rights_status sample_source"
  by (simp_all add: sample_fragment_row_def sample_evidence_def sample_source_def)

lemma sample_quotes: "payload_quotes sample_evidence sample_fragment_row = [Inr True, Inr True, Inr True]"
  by (simp add: payload_quotes_def get_is_def py_get_def sample_evidence_def sample_fragment_row_def)

lemma sample_found: "lookup_row fg_fragment_id [sample_fragment_row] (PStr (fr_fragment_id sample_fragment)) = Inr (Some sample_fragment_row)"
  "lookup_row er_evidence_key [sample_evidence] (PStr ''ek'') = Inr (Some sample_evidence)"
  by (simp_all add: lookup_row_def sample_row_fields)

lemma sample_checks: "evidence_checks sample_source sample_evidence_json sample_evidence sample_fragment_row = Inr (replicate 11 True)"
  unfolding evidence_checks_def sample_quotes
  by (simp add: item_is_def sample_evidence_json_def py_item_def sample_evidence_def sample_source_def sample_fragment_row_def
      numeral_eq_Suc)

lemma sample_evidence_valid: "validate_all_evidence sample_package [sample_fragment_row] [sample_evidence] sample_source = Inr ()"
  by (simp add: validate_all_evidence_def sample_items py_iter_def check_evidence_def sample_row_fields(4) sample_found
      sample_checks expected_evidence_def py_in_def list_all_iff)

lemma sample_inputs: "load_inputs (sample_env year) sample_db sample_review_job sample_handoff = Inr
    \<lparr>ai_handoff = sample_handoff, ai_package = sample_package, ai_run = sample_run, ai_source = sample_source,
     ai_source_object = sample_object, ai_fragments = [sample_fragment_row], ai_candidates = [sample_candidate],
     ai_evidence = [sample_evidence], ai_claims = [sample_candidate_json]\<rparr>"
proof -
  have run: "load_run [sample_run] sample_review_job = Inr sample_run"
    by (simp add: load_run_def sample_run_def sample_review_job_def)
  have "ho_candidate_ids sample_handoff = [uuid_text 4]" "en_read_time (sample_env year) = (\<lambda>_. Some 0)"
    by (simp_all add: sample_handoff_def sample_env_def)
  then show ?thesis
    by (simp add: load_inputs_def sample_db_def sample_validated run sample_loaded sample_candidates
        sample_evidence_loaded sample_evidence_valid sample_items py_iter_def)
qed

section \<open>The decision\<close>

lemma sample_number: "search_number sample_content = Some ((''3'', ''6''), ''2024'')"
  by code_simp

lemma sample_decimal: "decimal_text ''3'' ''6'' = ''3.6''"
  by code_simp

definition sample_fact :: rederived_fact where
  "sample_fact = \<lparr>rf_value = ''3.6'', rf_period = ''2024'', rf_evidence_ids = [uuid_text 5]\<rparr>"

lemma sample_year: "period_year ''2024'' = 2024"
  by code_simp

definition sample_gates :: "(string \<times> bool) list" where
  "sample_gates =
       [(''HANDOFF_SCHEMA_VALID'', True), (''PACKAGE_HASH_VALID'', True), (''SOURCE_STILL_ADMITTED'', True),
        (''SOURCE_KILL_SWITCH_OFF'', True), (''RIGHTS_STILL_VALID'', True), (''RAW_OBJECT_HASH_VALID'', True),
        (''PRODUCER_AUTHORITY_SEPARATED'', True), (''POLICY_VERSION_PINNED'', True)]"

lemma sample_base_gates: "base_gates sample_package sample_candidate sample_source sample_object = Inr sample_gates"
proof -
  have "item_is sample_document_json ''content_hash'' (PStr (sb_content_hash sample_object)) = Inr True"
    by (simp add: item_is_def sample_document_json_def py_item_def sample_object_def)
  then show ?thesis
    by (simp add: base_gates_def sample_items sample_gates_def sample_source_def sample_candidate_def)
qed

lemma four_checks: "andE [Inr True, Inr True, Inr True, Inr True] = Inr True"
  by simp

lemma sample_bound: "bind_evidence_key [sample_evidence_json] sample_candidate sample_source [sample_fragment_row]
    [sample_evidence] ([], []) (PStr ''ek'') = Inr ([sample_content], [uuid_text 5])"
proof -
  have "item_is sample_evidence_json ''evidence_key'' (PStr ''ek'') = Inr True"
    "item_is sample_evidence_json ''quote_hash'' (PStr (fg_content_hash sample_fragment_row)) = Inr True"
    "item_is sample_evidence_json ''content_hash'' (PStr (er_content_hash sample_evidence)) = Inr True"
    by (simp_all add: item_is_def sample_evidence_json_def py_item_def sample_row_fields)
  moreover have "cr_evidence_ids sample_candidate = [uuid_text 5]"
    by (simp add: sample_candidate_def)
  ultimately show ?thesis
    by (simp add: bind_evidence_key_def sample_found sample_items sample_quotes four_checks require_def sample_row_fields)
qed

lemma sample_exact: "exact_match sample_candidate sample_fact = Inr True"
  by (simp add: exact_match_def sample_candidate_def sample_value_def sample_fact_def get_is_def py_get_def allowed_unit_def)

lemma sample_adverse: "adverse_same_semantics [sample_candidate_json] sample_candidate_json = Inr False"
  by (simp add: adverse_same_semantics_def sample_items)

lemma sample_evaluated: "evaluate_fact year sample_package sample_candidate sample_candidate_json sample_source sample_object
    [sample_fragment_row] [sample_evidence] = Inr (judge_match year sample_gates True False sample_fact)"
proof -
  have "cr_kind sample_candidate = ''FACT''" "cr_subject_id sample_candidate = allowed_subject"
    "cr_predicate sample_candidate = allowed_predicate"
    by (simp_all add: sample_candidate_def allowed_subject_def allowed_predicate_def)
  moreover have "List.map_filter search_number [sample_content] = [((''3'', ''6''), ''2024'')]"
    by (simp add: List.map_filter_simps sample_number)
  ultimately show ?thesis
    by (simp add: evaluate_fact_def sample_base_gates sample_items py_iter_def sample_bound sample_decimal
        sample_fact_def [symmetric] sample_exact sample_adverse)
qed


definition sample_claim :: canonical_row where
  "sample_claim = \<lparr>cc_id = uuid_text 101, cc_fingerprint = fact_fingerprint sample_fact,
     cc_subject_id = allowed_subject, cc_predicate = allowed_predicate, cc_object_value = rederived_value sample_fact,
     cc_statement = canonical_statement sample_fact, cc_evidence_ids = [uuid_text 5], cc_year = 2024,
     cc_batch_id = uuid_text 100\<rparr>"

lemma sample_settled:
  "settle_candidate (sample_env year) (uuid_text 100) 0 (uuid_text 4) (judge_match year gates True False sample_fact)
     (create_batch (uuid_text 100) ids sample_db)
   = Inr ((AdmittedRederived, Some (uuid_text 101)),
       update_candidate (uuid_text 4) (\<lambda>c. c\<lparr>cr_state := ''ADMITTED'', cr_canonical_claim_id := Some (uuid_text 101),
          cr_rejection_reasons := []\<rparr>)
         ((create_batch (uuid_text 100) ids sample_db)\<lparr>tb_canonical := [sample_claim],
            tb_claim_events := [claim_admitted sample_claim]\<rparr>))"
  by (simp add: settle_candidate_def judge_match_def write_canonical_def create_batch_def sample_db_def sample_fact_def
      sample_year sample_env_def sample_claim_def claim_admitted_def)

definition sample_decision :: "int \<Rightarrow> decision_row" where
  "sample_decision year = \<lparr>dn_batch_id = uuid_text 100, dn_handoff_id = uuid_text 1, dn_candidate_id = uuid_text 4,
     dn_outcome = AdmittedRederived, dn_gates = fd_gates (judge_match year sample_gates True False sample_fact),
     dn_reasons = [''all_deterministic_gates_passed''], dn_canonical_id = Some (uuid_text 101),
     dn_fingerprint = Some (fact_fingerprint sample_fact), dn_human_review = False, dn_created_at = 0\<rparr>"

lemma sample_record_valid: "validate_candidate_record sample_candidate sample_candidate_json = Inr ()"
  by (simp add: validate_candidate_record_def py_float_def candidate_fields_def sample_candidate_json_def py_item_def py_get_def
      sample_candidate_def sample_value_def get_is_def require_def py_eq_refl)


definition sample_result :: admission_run where
  "sample_result = \<lparr>ar_batch_id = uuid_text 100, ar_canonical_ids = [uuid_text 101],
     ar_outcomes = [AdmittedRederived], ar_replay = False, ar_model_calls = 0\<rparr>"

lemma judged:
  "fd_outcome (judge_match year gates True False f) = AdmittedRederived"
  "fd_reasons (judge_match year gates True False f) = [''all_deterministic_gates_passed'']"
  "fd_fingerprint (judge_match year gates True False f) = Some (fact_fingerprint f)"
  by (simp_all add: judge_match_def)

lemma sample_decided:
  assumes "i = \<lparr>ai_handoff = sample_handoff, ai_package = sample_package, ai_run = sample_run, ai_source = sample_source,
     ai_source_object = sample_object, ai_fragments = [sample_fragment_row], ai_candidates = [sample_candidate],
     ai_evidence = [sample_evidence], ai_claims = [sample_candidate_json]\<rparr>"
  obtains db where "decide_candidate (sample_env year) i (uuid_text 100)
      \<lparr>da_db = create_batch (uuid_text 100) ids sample_db, da_outcomes = [], da_canonical_ids = []\<rparr> (0, sample_candidate_json)
    = Inr \<lparr>da_db = db, da_outcomes = [AdmittedRederived], da_canonical_ids = [uuid_text 101]\<rparr>"
    "tb_decisions db = [sample_decision year]" "tb_canonical db = [sample_claim]"
proof -
  have "cr_id sample_candidate = uuid_text 4" "en_year (sample_env year) = year" "en_now (sample_env year) = 0"
    "ho_id sample_handoff = uuid_text 1"
    by (simp_all add: sample_candidate_def sample_env_def sample_handoff_def)
  moreover have "tb_decisions (create_batch b ids sample_db) = []" for b
    by (simp add: create_batch_def sample_db_def)
  ultimately show thesis
    by (intro that) (simp_all add: assms decide_candidate_def sample_record_valid sample_evaluated sample_settled
        record_decision_def update_candidate_def sample_decision_def judged, simp_all add: create_batch_def sample_db_def)
qed

lemma sample_run_decided:
  obtains db where "decide_handoff (sample_env year) sample_db sample_review_job = (Inr sample_result, db)"
    "tb_decisions db = [sample_decision year]" "tb_canonical db = [sample_claim]"
proof -
  have found: "find_handoff sample_db sample_review_job = Some sample_handoff" "ho_state sample_handoff = HandoffPending"
    "jb_policy_version sample_review_job = admission_policy" "en_uuid (sample_env year) 0 = uuid_text 100"
    by (simp_all add: find_handoff_def sample_db_def sample_handoff_def sample_review_job_def sample_env_def)
  obtain db where decided: "decide_candidate (sample_env year)
     \<lparr>ai_handoff = sample_handoff, ai_package = sample_package, ai_run = sample_run, ai_source = sample_source,
     ai_source_object = sample_object, ai_fragments = [sample_fragment_row], ai_candidates = [sample_candidate],
     ai_evidence = [sample_evidence], ai_claims = [sample_candidate_json]\<rparr> (uuid_text 100)
      \<lparr>da_db = create_batch (uuid_text 100) (ho_candidate_ids sample_handoff) sample_db, da_outcomes = [], da_canonical_ids = []\<rparr> (0, sample_candidate_json)
    = Inr \<lparr>da_db = db, da_outcomes = [AdmittedRederived], da_canonical_ids = [uuid_text 101]\<rparr>"
    "tb_decisions db = [sample_decision year]" "tb_canonical db = [sample_claim]"
    using sample_decided [OF refl] by blast
  show thesis
    by (rule that) (simp_all add: decide_handoff_def transaction_def decide_body_def found decide_pending_def sample_inputs
        decided conclude_def Let_def sample_result_def, simp_all add: decided)
qed

lemma sample_ledger_ok: "ledger_ok sample_db"
  by (simp add: ledger_ok_def sample_db_def sample_handoff_def)

lemma uuid_text_last: "last (uuid_text n) = hex_digit (n mod 16)"
proof -
  have "length (hex_text 32 n) = 32" "last (hex_text 32 n) = hex_digit (n mod 16)"
    using hex_text_Suc [of 31 n] by simp_all
  moreover from this(1) have "drop 20 (hex_text 32 n) \<noteq> []" by simp
  ultimately show ?thesis by (simp add: uuid_text_def Let_def)
qed

lemma uuid_3_9: "uuid_text 3 \<noteq> uuid_text 9"
proof
  assume "uuid_text 3 = uuid_text 9"
  then have "last (uuid_text 3) = last (uuid_text 9)" by simp
  then show False by (simp add: uuid_text_last hex_digit_def)
qed

section \<open>A package whose boundary results are not objects\<close>

definition broken_package :: pyval where
  "broken_package = PDict
     [(''schema_version'', PInt 1), (''tenant_id'', PStr (uuid_text 3)), (''research_run_id'', PStr (uuid_text 2)),
      (''pipeline_version'', PStr ''local-document-proposal-pipeline@0.1.0''), (''document'', PDict []),
      (''source'', PDict []), (''fragments'', PList []), (''evidence'', PList []), (''candidate_claims'', PList []),
      (''admission_boundary_results'', PList [PStr ''no object'']), (''dossier'', PDict []), (''actual_usage'', PDict []),
      (''human_review_state'', PStr ''NOT_REQUESTED''), (''canonical_claim_ids'', PList [])]"

definition broken_job :: review_job where
  "broken_job = sample_review_job\<lparr>jb_package_hash := document_hash broken_package\<rparr>"

definition broken_handoff :: handoff_row where
  "broken_handoff = sample_handoff\<lparr>ho_package := broken_package, ho_package_hash := document_hash broken_package\<rparr>"

definition broken_db :: admission_db where
  "broken_db = sample_db\<lparr>tb_handoffs := [broken_handoff]\<rparr>"

lemma broken_validation: "validate_package broken_handoff broken_job = Inl (AttributeError ''get'')"
  by (simp add: validate_package_def Let_def broken_handoff_def broken_job_def)
    (simp add: broken_package_def sample_review_job_def package_keys_def dict_keys_def is_object_def item_is_def py_item_def
      require_def number_of_def py_truthy_def py_iter_def boundary_broken_def orE_def py_get_def)

lemma broken_escapes:
  obtains e where "decide_handoff (sample_env year) broken_db broken_job = (Inl e, broken_db)" "classify_error e = Escapes"
proof -
  have "find_handoff broken_db broken_job = Some broken_handoff" "ho_state broken_handoff = HandoffPending"
    "jb_policy_version broken_job = admission_policy"
    by (simp_all add: find_handoff_def broken_db_def broken_handoff_def broken_job_def sample_handoff_def sample_review_job_def)
  then show thesis
    by (intro that [of "AttributeError ''get''"])
      (simp_all add: decide_handoff_def transaction_def decide_body_def decide_pending_def load_inputs_def broken_validation
        classify_error_def)
qed

lemma broken_dequeued: "dequeue_job (enqueue_job [] broken_job) = (Inr (Some broken_job), [])"
proof -
  have "valid_job broken_job"
    by (simp add: valid_job_def broken_job_def sample_review_job_def uuid_of_text_canonical)
      (simp add: document_hash_def sha256_ref_def starts_with_def)
  then have "job_from_payload (job_as_payload broken_job) = Inr broken_job"
    by (simp add: job_roundtrip_iff)
  then show ?thesis
    by (simp add: dequeue_job_def enqueue_job_def pop_payload_def job_as_payload_def)
qed

end
