(* ===== verification/AdmissionGuarantees.thy ===== *)
theory AdmissionGuarantees
  imports AdmissionSamples
begin

text \<open>
  The properties of the admission runtime: what an admitted claim rests on, what any sequence of jobs
  keeps, replay, what a job leaves behind, and four behaviours of the code that its comments and
  gates do not announce.
\<close>

section \<open>Admission\<close>

text \<open>C15: A decision is all or nothing, and what it admits is justified. A decision that raises or that
  replays an earlier one leaves every table as it was. A fresh decision of a pending handoff appends one
  decision per candidate of that handoff, calls no model, and appends exactly one canonical claim per
  outcome ADMITTED_REDERIVED; each of these claims rests on a source that is admitted, licensed for
  commercial reuse and not killed, on a FACT candidate of the handoff produced by the local model, and on
  one fragment text quoted by persistent evidence that contains the sentence stating exactly the
  claimed value and period.\<close>
theorem admitted_claims_justified:
  "case decide_handoff env db job of
     (Inl e, db') \<Rightarrow> db' = db
   | (Inr r, db') \<Rightarrow>
       if ar_replay r then db' = db
       else \<exists>h new decs. find_handoff db job = Some h \<and> ho_state h = HandoffPending
         \<and> tb_canonical db' = tb_canonical db @ new \<and> list_all (justified_claim db h (ar_batch_id r)) new
         \<and> tb_decisions db' = tb_decisions db @ decs \<and> map dn_candidate_id decs = ho_candidate_ids h
         \<and> ar_outcomes r = map dn_outcome decs
         \<and> length new = count_list (ar_outcomes r) AdmittedRederived \<and> ar_model_calls r = 0"
proof (cases "decide_handoff env db job")
  case (Pair x db')
  show ?thesis
  proof (cases x)
    case (Inl e)
    with Pair show ?thesis by (simp add: decide_failed)
  next
    case (Inr r)
    show ?thesis
    proof (cases "ar_replay r")
      case True
      with Pair Inr show ?thesis using decide_replayed [of env db job r db'] by simp
    next
      case False
      obtain h new decs where "fresh_post env db job r db' h new decs"
        using fresh_step [OF _ False] Pair Inr by blast
      then show ?thesis
        using Pair Inr False by (auto simp: fresh_post_def)
    qed
  qed
qed

text \<open>C27: The number search of the fact policy is exactly the search for a growth sentence: it finds a
  sentence of the text with the digits and the period it reports, and when it finds none the text
  contains no such sentence at all.\<close>
theorem number_search_exact:
  "case search_number s of
     Some ((ip, fp), period) \<Rightarrow> \<exists>a u t. s = a @ u @ t \<and> number_sentence u ip fp period
   | None \<Rightarrow> (\<nexists>a u t ip fp period. s = a @ u @ t \<and> number_sentence u ip fp period)"
  using search_number_Some [of s] search_number_None by (auto split: option.split)

text \<open>C18: Whatever jobs the runtime processes, and however they end, the ledger stays consistent
  (fingerprints are unique, every canonical claim has its one admission event, every decision of a
  duplicate or admission names an existing claim, consumed handoffs have decisions and pending ones have
  none), canonical claims and decisions are only appended, and a handoff changes its state at most once,
  from pending to a final state.\<close>
theorem ledger_kept_by_any_jobs:
  assumes "admission_runs db db'" "ledger_ok db"
  shows "ledger_ok db' \<and> (\<exists>new. tb_canonical db' = tb_canonical db @ new)
    \<and> (\<exists>decs. tb_decisions db' = tb_decisions db @ decs) \<and> list_all2 handoff_moves (tb_handoffs db) (tb_handoffs db')"
  using assms by (rule admission_runs_ok)

theorem ledger_kept_by_any_jobs_witness:
  "\<exists>db'. ledger_ok db' \<and> tb_canonical db' = [sample_claim]
    \<and> list_all2 handoff_moves (tb_handoffs sample_db) (tb_handoffs db')"
proof -
  obtain db' where run: "decide_handoff (sample_env 2025) sample_db sample_review_job = (Inr sample_result, db')"
    "tb_canonical db' = [sample_claim]"
    using sample_run_decided [of 2025] by blast
  then have "process_job (sample_env 2025) sample_db sample_review_job = (Inr (), db')"
    by (simp add: process_job_def)
  then have "admission_runs sample_db db'"
    by (rule admission_runs.job [OF admission_runs.start])
  from ledger_kept_by_any_jobs [OF this sample_ledger_ok] run(2) show ?thesis by blast
qed

section \<open>Replay and redelivery\<close>

text \<open>C23: A job that is delivered again after its decision committed changes nothing and gives the
  decision again: the same batch, the same canonical claims and the same outcomes, the outcomes up to
  the order in which the database returns the decisions of one transaction.\<close>
theorem redelivered_job_replays:
  assumes "decide_handoff env db job = (Inr r, db')" "\<not> ar_replay r" "ledger_ok db"
    and "\<And>rows. mset (en_order env' rows) = mset rows"
  shows "\<exists>r'. decide_handoff env' db' job = (Inr r', db') \<and> ar_replay r' \<and> ar_batch_id r' = ar_batch_id r
    \<and> mset (ar_outcomes r') = mset (ar_outcomes r) \<and> set (ar_canonical_ids r') = set (ar_canonical_ids r)"
  using assms by (rule replay_after_fresh)

theorem redelivered_job_replays_witness:
  "\<exists>db' r'. decide_handoff (sample_env 2026) db' sample_review_job = (Inr r', db') \<and> ar_replay r'
    \<and> mset (ar_outcomes r') = {#AdmittedRederived#} \<and> set (ar_canonical_ids r') = {uuid_text 101}"
proof -
  obtain db' where run: "decide_handoff (sample_env 2025) sample_db sample_review_job = (Inr sample_result, db')"
    using sample_run_decided [of 2025] by blast
  have "\<not> ar_replay sample_result" "ar_outcomes sample_result = [AdmittedRederived]"
    "ar_canonical_ids sample_result = [uuid_text 101]" and order: "en_order (sample_env 2026) rows = rows" for rows
    by (simp_all add: sample_result_def sample_env_def)
  then show ?thesis
    using redelivered_job_replays [OF run _ sample_ledger_ok, of "sample_env 2026"] by auto
qed

text \<open>C25: A job that the runtime handles, decided or failed, leaves no handoff of its identifier
  pending, provided handoff identifiers are unique: nothing is left to wait for a job that has left
  the queue.\<close>
theorem handled_job_settles_handoff:
  assumes "process_job env db job = (Inr (), db')" "distinct (map ho_id (tb_handoffs db))"
  shows "list_all (\<lambda>h. ho_id h \<noteq> jb_handoff_id job \<or> ho_state h \<noteq> HandoffPending) (tb_handoffs db')"
  using assms by (rule process_job_settles)

theorem handled_job_settles_handoff_witness:
  "\<exists>db'. process_job (sample_env 2025) sample_db sample_review_job = (Inr (), db')
    \<and> list_all (\<lambda>h. ho_id h \<noteq> uuid_text 1 \<or> ho_state h \<noteq> HandoffPending) (tb_handoffs db')"
proof -
  obtain db' where "decide_handoff (sample_env 2025) sample_db sample_review_job = (Inr sample_result, db')"
    using sample_run_decided [of 2025] by blast
  then have job: "process_job (sample_env 2025) sample_db sample_review_job = (Inr (), db')"
    by (simp add: process_job_def)
  have "distinct (map ho_id (tb_handoffs sample_db))" "jb_handoff_id sample_review_job = uuid_text 1"
    by (simp_all add: sample_db_def sample_review_job_def)
  with handled_job_settles_handoff [OF job] job show ?thesis by auto
qed

section \<open>Behaviours the gates do not announce\<close>

text \<open>A figure for a period that has not begun is admitted: in the year 2023 a sentence about 2024
  becomes a canonical claim, and its recorded decision carries TEMPORAL_VALIDITY_PASS = false next to the
  reason all_deterministic_gates_passed.\<close>
theorem future_period_admitted:
  "\<exists>db. decide_handoff (sample_env 2023) sample_db sample_review_job = (Inr sample_result, db)
    \<and> ar_outcomes sample_result = [AdmittedRederived] \<and> map cc_year (tb_canonical db) = [2024]
    \<and> map dn_reasons (tb_decisions db) = [[''all_deterministic_gates_passed'']]
    \<and> list_all (\<lambda>d. (''TEMPORAL_VALIDITY_PASS'', False) \<in> set (dn_gates d)) (tb_decisions db)"
proof -
  obtain db where run: "decide_handoff (sample_env 2023) sample_db sample_review_job = (Inr sample_result, db)"
    "tb_decisions db = [sample_decision 2023]" "tb_canonical db = [sample_claim]"
    using sample_run_decided [of 2023] by blast
  have "(''TEMPORAL_VALIDITY_PASS'', False) \<in> set (dn_gates (sample_decision 2023))"
    by (simp add: sample_decision_def judge_match_def sample_fact_def sample_year)
  with run show ?thesis
    by (auto simp: sample_result_def sample_decision_def sample_claim_def)
qed

text \<open>A job that names a handoff of another tenant is refused, and refusing it quarantines that
  handoff: the failure record updates the pending handoff by its identifier alone.\<close>
theorem foreign_job_quarantines:
  assumes "jb_policy_version job = admission_policy" "find_handoff db job = None"
    and "h \<in> set (tb_handoffs db)" "ho_id h = jb_handoff_id job" "ho_state h = HandoffPending"
  shows "\<exists>db'. process_job env db job = (Inr (), db') \<and> h\<lparr>ho_state := HandoffQuarantined\<rparr> \<in> set (tb_handoffs db')"
proof -
  have "decide_handoff env db job = (Inl (AdmissionIntegrityError ''Admission handoff is absent or tenant-mismatched''), db)"
    using assms(1,2) by (simp add: decide_handoff_def decide_body_def transaction_def integrity_def)
  moreover have "h\<lparr>ho_state := HandoffQuarantined\<rparr> \<in> set (tb_handoffs (record_failure job c d True db))" for c d
    using assms(3-5) by (auto simp: record_failure_def image_iff intro!: bexI [of _ h])
  ultimately show ?thesis
    by (simp add: process_job_def classify_error_def)
qed

theorem foreign_job_quarantines_witness:
  "\<exists>db'. process_job (sample_env 2025) sample_db (sample_review_job\<lparr>jb_tenant_id := uuid_text 9\<rparr>) = (Inr (), db')
    \<and> sample_handoff\<lparr>ho_state := HandoffQuarantined\<rparr> \<in> set (tb_handoffs db')"
proof -
  have "find_handoff sample_db (sample_review_job\<lparr>jb_tenant_id := uuid_text 9\<rparr>) = None"
    by (simp add: find_handoff_def sample_db_def sample_handoff_def sample_review_job_def uuid_3_9)
  then show ?thesis
    using foreign_job_quarantines [of "sample_review_job\<lparr>jb_tenant_id := uuid_text 9\<rparr>" sample_db sample_handoff]
    by (simp add: sample_db_def sample_handoff_def sample_review_job_def)
qed

text \<open>C40: A job whose processing raises is lost. When \<^verbatim>\<open>run_once\<close> takes a job off the queue and raises, the exception is none of the
  admission errors, LookupError (with KeyError) or ValueError (with pydantic's), the job has left the queue, the tables are as before, and the
  handoff of the job is pending. As long as no other element of the queue names that handoff, no number of later passes of the runtime over
  the queue, whatever their jobs do, changes this: the handoff is still pending and has got no decision and no failure row.\<close>
theorem escaping_exception_loses_job:
  assumes "dequeue_job q = (Inr (Some job), rest)" "fst (run_once env db q) = Inl e"
    and "list_all (\<lambda>v. \<not> names_handoff (jb_handoff_id job) v) rest" "runtime_passes db rest db' q'"
  shows "e \<notin> range AdmissionIntegrityError \<union> range AdmissionPolicyError \<union> range LookupError \<union> range KeyError
      \<union> range ValueError \<union> range ValidationError
    \<and> snd (run_once env db q) = (db, rest)
    \<and> (\<exists>h. find_handoff db' job = Some h \<and> ho_state h = HandoffPending)
    \<and> handoff_trace (jb_handoff_id job) db' = handoff_trace (jb_handoff_id job) db"
proof -
  obtain db1 where d: "decide_handoff env db job = (Inl e, db1)" "classify_error e = Escapes"
    using assms(1,2) by (auto simp: run_once_def process_job_def split: sum.splits prod.splits failure_class.splits)
  have trace: "handoff_trace (jb_handoff_id job) db' = handoff_trace (jb_handoff_id job) db"
    using passes_trace [OF assms(4,3)] by simp
  have "snd (run_once env db q) = (db, rest)"
    using assms(1) d decide_failed [OF d(1)] by (simp add: run_once_def process_job_def)
  moreover have "e \<notin> range AdmissionIntegrityError \<union> range AdmissionPolicyError \<union> range LookupError \<union> range KeyError
      \<union> range ValueError \<union> range ValidationError"
    using d(2) by (auto simp: classify_error_def)
  ultimately show ?thesis using escape_was_pending [OF d] trace trace_find [OF trace] by simp
qed

theorem escaping_exception_loses_job_witness:
  "\<exists>e. fst (run_once (sample_env 2025) broken_db (enqueue_job [] broken_job)) = Inl e
    \<and> (\<exists>h. find_handoff broken_db broken_job = Some h \<and> ho_state h = HandoffPending)"
proof -
  obtain e where "decide_handoff (sample_env 2025) broken_db broken_job = (Inl e, broken_db)" "classify_error e = Escapes"
    by (rule broken_escapes)
  then have "fst (run_once (sample_env 2025) broken_db (enqueue_job [] broken_job)) = Inl e"
    by (simp add: run_once_def process_job_def broken_dequeued)
  from escaping_exception_loses_job [OF broken_dequeued this _ runtime_passes.idle] this show ?thesis by auto
qed

end
