(* ===== verification/ApprovalRenewal.thy ===== *)
theory ApprovalRenewal
  imports PyJson ProcurementDomain
begin

text \<open>
  The renewal of a campaign approval, \<^verbatim>\<open>apps/api/src/axignal_api/o01_approval_renewal.py\<close>: the typed
  decisions of the two authorities and their envelope as validated models, the evaluation of an
  envelope at an instant, and the classification of what changed since the last renewal package.
  A \<^verbatim>\<open>datetime\<close> is its instant in microseconds and whether it carries a time zone.
\<close>

section \<open>Decisions and envelopes\<close>

datatype authority_decision_value = DecisionApprove | DecisionReject

datatype authority_status =
    StatusMissing | StatusIncomplete | StatusActive | StatusExpiring | StatusUrgent
  | StatusExpired | StatusRejected | StatusInvalidBinding

datatype renewal_phase = NoCurrentApproval | NotDue | RenewalWindowOpen | UrgentRenewal | PhaseExpired

datatype change_class =
    NoMaterialChange | BaselineRequired | MaterialTechnicalChange | MaterialTermsChange
  | AuthoritySurfaceChange | EvidenceUnavailable

record py_datetime =
  dt_instant :: int
  dt_aware :: bool

definition required_authorities :: "string list" where
  "required_authorities = [''LEGAL'', ''PRIVACY_DATA_RIGHTS'']"

record authority_decision =
  td_authority :: string
  td_decision :: authority_decision_value
  td_scope :: string
  td_manifest_digest :: string
  td_head_sha :: string
  td_timestamp :: py_datetime
  td_expiry :: py_datetime
  td_conditions :: "string list"
  td_signature :: string

definition is_head_sha :: "string \<Rightarrow> bool" where
  \<comment> \<open>\<^verbatim>\<open>^[0-9a-f]{40}$\<close>\<close>
  "is_head_sha s = (length s = 40 \<and> list_all is_lower_hex s)"

definition validate_authority_decision :: "authority_decision \<Rightarrow> authority_decision result" where
  "validate_authority_decision d =
     field_checks [(min_length_1 (td_authority d), ''authority''), (min_length_1 (td_scope d), ''scope''),
                   (is_content_digest (td_manifest_digest d), ''manifest_digest''),
                   (is_head_sha (td_head_sha d), ''head_sha''), (td_conditions d \<noteq> [], ''conditions''),
                   (min_length_1 (td_signature d), ''signature'')]
       (if td_authority d \<notin> set required_authorities then Inl (ValueError ''Unsupported approval authority'')
        else if \<not> dt_aware (td_timestamp d) \<or> \<not> dt_aware (td_expiry d)
        then Inl (ValueError ''Approval timestamps require timezones'')
        else if dt_instant (td_expiry d) \<le> dt_instant (td_timestamp d)
        then Inl (ValueError ''Approval expiry must be after its timestamp'')
        else Inr d)"

record authority_envelope =
  ae_head_sha :: string
  ae_manifest_digest :: string
  ae_decisions :: "authority_decision list"

definition validate_envelope :: "authority_envelope \<Rightarrow> authority_envelope result" where
  \<comment> \<open>the decisions are validated models themselves\<close>
  "validate_envelope e =
     bindE (mapE validate_authority_decision (ae_decisions e)) (\<lambda>_.
     field_checks [(is_head_sha (ae_head_sha e), ''head_sha''),
                   (is_content_digest (ae_manifest_digest e), ''manifest_digest'')]
       (let authorities = map td_authority (ae_decisions e) in
        if length authorities \<noteq> length (remdups authorities)
        then Inl (ValueError ''Duplicate authority decisions are forbidden'') else Inr e))"

section \<open>Evaluation\<close>

record authority_evaluation =
  ev_status :: authority_status
  ev_phase :: renewal_phase
  ev_execution_authorised :: bool
  ev_effective_expiry :: "int option"
  ev_reasons :: "string list"

definition no_approval :: "authority_status \<Rightarrow> int option \<Rightarrow> string \<Rightarrow> authority_evaluation" where
  "no_approval status expiry reason =
     \<lparr>ev_status = status, ev_phase = NoCurrentApproval, ev_execution_authorised = False,
      ev_effective_expiry = expiry, ev_reasons = [reason]\<rparr>"

definition by_authority :: "authority_decision list \<Rightarrow> (string \<times> authority_decision) list" where
  "by_authority ds = foldl (\<lambda>m d. dict_put m (td_authority d) d) [] ds"

definition timedelta_days :: "int \<Rightarrow> int result" where
  \<comment> \<open>\<^verbatim>\<open>timedelta(days=n)\<close> in microseconds\<close>
  "timedelta_days n = (if \<bar>n\<bar> \<le> 999999999 then Inr (n * 86400000000) else Inl (OverflowError ''days''))"

fun first_refusal ::
    "authority_envelope \<Rightarrow> int \<Rightarrow> (string \<times> authority_decision) list \<Rightarrow> authority_evaluation option" where
  \<comment> \<open>the loop over the decisions; the second argument is the earliest expiry\<close>
  "first_refusal e expiry [] = None"
| "first_refusal e expiry ((authority, d) # ds) =
     (if td_head_sha d \<noteq> ae_head_sha e \<or> td_manifest_digest d \<noteq> ae_manifest_digest e
      then Some (no_approval StatusInvalidBinding None (authority @ '' decision binding differs from the envelope''))
      else if td_decision d = DecisionReject
      then Some (no_approval StatusRejected (Some expiry) (authority @ '' rejected the requested scope''))
      else first_refusal e expiry ds)"

definition windows :: "int \<Rightarrow> int \<Rightarrow> int \<Rightarrow> int \<Rightarrow> authority_evaluation result" where
  \<comment> \<open>the phases of an approval that binds and is not refused\<close>
  "windows current expiry renewal_days urgent_days =
     (if expiry \<le> current
      then Inr \<lparr>ev_status = StatusExpired, ev_phase = PhaseExpired, ev_execution_authorised = False,
                ev_effective_expiry = Some expiry, ev_reasons = [''Typed authority has expired'']\<rparr>
      else
        bindE (timedelta_days urgent_days) (\<lambda>urgent.
        if expiry - current \<le> urgent
        then Inr \<lparr>ev_status = StatusUrgent, ev_phase = UrgentRenewal, ev_execution_authorised = True,
                  ev_effective_expiry = Some expiry,
                  ev_reasons = [''Typed authority is valid but inside the urgent renewal window'']\<rparr>
        else
          bindE (timedelta_days renewal_days) (\<lambda>renewal.
          if expiry - current \<le> renewal
          then Inr \<lparr>ev_status = StatusExpiring, ev_phase = RenewalWindowOpen, ev_execution_authorised = True,
                    ev_effective_expiry = Some expiry,
                    ev_reasons = [''Typed authority is valid and the renewal window is open'']\<rparr>
          else Inr \<lparr>ev_status = StatusActive, ev_phase = NotDue, ev_execution_authorised = True,
                    ev_effective_expiry = Some expiry, ev_reasons = [''Typed authority is current'']\<rparr>)))"

definition evaluate_authority ::
    "authority_envelope option \<Rightarrow> string \<Rightarrow> string \<Rightarrow> py_datetime \<Rightarrow> int \<Rightarrow> int \<Rightarrow> authority_evaluation result" where
  "evaluate_authority envelope head digest now renewal_days urgent_days =
     (if \<not> dt_aware now then Inl (ValueError ''Current time must include a timezone'')
      else case envelope of
        None \<Rightarrow> Inr (no_approval StatusMissing None ''No typed authority envelope is available'')
      | Some e \<Rightarrow>
          if ae_head_sha e \<noteq> head \<or> ae_manifest_digest e \<noteq> digest
          then Inr (no_approval StatusInvalidBinding None
                 ''Approval does not bind to the current exact head and manifest'')
          else
            let decisions = by_authority (ae_decisions e);
                missing = filter (\<lambda>a. a \<notin> fst ` set decisions) required_authorities
            in if missing \<noteq> []
               then Inr (no_approval StatusIncomplete None (''Missing authority decisions: '' @ join '', '' (sort missing)))
               else
                 let expiry = Min ((\<lambda>(_, d). dt_instant (td_expiry d)) ` set decisions)
                 in case first_refusal e expiry decisions of
                      Some r \<Rightarrow> Inr r
                    | None \<Rightarrow> windows (dt_instant now) expiry renewal_days urgent_days)"

section \<open>What changed\<close>

record delta_evaluation =
  de_change_class :: change_class
  de_changed_relevant_paths :: "string list"
  de_changed_technical_paths :: "string list"
  de_reasons :: "string list"

type_synonym observation = "(string \<times> pyval) list"

definition get_or_none :: "observation \<Rightarrow> string \<Rightarrow> pyval" where
  "get_or_none d k = (case dict_get d k of None \<Rightarrow> PNone | Some v \<Rightarrow> v)"

definition unavailable_terms :: "(string \<times> observation) list \<Rightarrow> string list" where
  "unavailable_terms current = sort (map fst (filter (\<lambda>(_, seen). \<not> py_eq (get_or_none seen ''status'') (PStr ''PASS'')) current))"

definition changed_terms :: "(string \<times> observation) list \<Rightarrow> (string \<times> observation) list \<Rightarrow> string list" where
  "changed_terms current previous = sort (map fst (filter (\<lambda>(i, seen).
     \<not> py_eq (get_or_none (case dict_get previous i of None \<Rightarrow> [] | Some p \<Rightarrow> p) ''content_sha256'')
             (get_or_none seen ''content_sha256'')) current))"

definition changed_paths :: "(string \<times> string) list \<Rightarrow> (string \<times> string) list \<Rightarrow> string list" where
  "changed_paths current previous = sort (filter (\<lambda>p. dict_get current p \<noteq> dict_get previous p)
     (remdups (map fst current @ map fst previous)))"

definition classify_delta ::
    "(string \<times> string) list \<Rightarrow> (string \<times> string) list option \<Rightarrow> (string \<times> observation) list
      \<Rightarrow> (string \<times> observation) list option \<Rightarrow> string list \<Rightarrow> delta_evaluation" where
  "classify_delta current_files previous_files current_terms previous_terms technical =
     (let verdict = (\<lambda>c relevant reason. \<lparr>de_change_class = c, de_changed_relevant_paths = relevant,
            de_changed_technical_paths = sort technical, de_reasons = [reason]\<rparr>);
          unavailable = unavailable_terms current_terms
      in if unavailable \<noteq> []
         then verdict EvidenceUnavailable [] (''Official evidence unavailable or invalid: '' @ join '', '' unavailable)
         else case (previous_files, previous_terms) of
           (Some files, Some terms) \<Rightarrow>
             (if changed_terms current_terms terms \<noteq> []
              then verdict MaterialTermsChange []
                     (''Official terms content changed: '' @ join '', '' (changed_terms current_terms terms))
              else if changed_paths current_files files \<noteq> []
              then verdict AuthoritySurfaceChange (changed_paths current_files files)
                     ''One or more authority-bound files changed''
              else if technical \<noteq> []
              then verdict MaterialTechnicalChange []
                     ''Relevant runtime implementation changed outside the approval manifest''
              else verdict NoMaterialChange []
                     ''No material terms, authority-surface or runtime change detected'')
         | _ \<Rightarrow> verdict BaselineRequired [] ''No prior renewal package is available for delta comparison'')"

section \<open>When execution is authorised\<close>

lemma by_authority_distinct:
  "distinct (map td_authority ds) \<Longrightarrow> by_authority ds = map (\<lambda>d. (td_authority d, d)) ds"
proof (induction ds rule: rev_induct)
  case (snoc d ds)
  then have "by_authority ds = map (\<lambda>d. (td_authority d, d)) ds" "dict_get (by_authority ds) (td_authority d) = None"
    by (auto simp: dict_get_def map_of_eq_None_iff image_iff)
  then show ?case
    by (simp add: by_authority_def dict_put_fresh)
qed (simp add: by_authority_def)

lemma first_refusal_None:
  "first_refusal e x ds = None \<longleftrightarrow> list_all (\<lambda>(_, d). td_head_sha d = ae_head_sha e
     \<and> td_manifest_digest d = ae_manifest_digest e \<and> td_decision d = DecisionApprove) ds"
  by (induction e x ds rule: first_refusal.induct) (auto, (metis authority_decision_value.exhaust)+)

lemma first_refusal_unauthorised: "first_refusal e x ds = Some r \<Longrightarrow> \<not> ev_execution_authorised r"
  by (induction e x ds rule: first_refusal.induct) (auto simp: no_approval_def split: if_splits)

lemma windows_authorised:
  "windows now expiry rw uw = Inr r \<Longrightarrow> ev_execution_authorised r \<longleftrightarrow> now < expiry"
  by (auto simp: windows_def bindE_eq_Inr split: if_splits)

lemma validated_distinct:
  assumes "validate_envelope e = Inr e'"
  shows "distinct (map td_authority (ae_decisions e))"
proof -
  have "length (map td_authority (ae_decisions e)) = length (remdups (map td_authority (ae_decisions e)))"
    using assms by (auto simp: validate_envelope_def bindE_eq_Inr field_checks_def Let_def split: if_splits list.splits)
  then show ?thesis
    by (metis length_remdups_card_conv card_distinct)
qed

definition approved_until :: "authority_envelope \<Rightarrow> int \<Rightarrow> bool" where
  \<comment> \<open>both authorities approve exactly this head and manifest, and neither approval has run out\<close>
  "approved_until e t = (set required_authorities \<subseteq> td_authority ` set (ae_decisions e)
     \<and> list_all (\<lambda>d. td_decision d = DecisionApprove \<and> td_head_sha d = ae_head_sha e
         \<and> td_manifest_digest d = ae_manifest_digest e \<and> t < dt_instant (td_expiry d)) (ae_decisions e))"

lemma evaluated_cases:
  assumes "distinct (map td_authority (ae_decisions e))" "dt_aware now"
    and "ae_head_sha e = head" "ae_manifest_digest e = digest"
    and "set required_authorities \<subseteq> td_authority ` set (ae_decisions e)"
  shows "evaluate_authority (Some e) head digest now rw uw =
    (let expiry = Min ((\<lambda>d. dt_instant (td_expiry d)) ` set (ae_decisions e)) in
     case first_refusal e expiry (map (\<lambda>d. (td_authority d, d)) (ae_decisions e)) of
       Some r \<Rightarrow> Inr r | None \<Rightarrow> windows (dt_instant now) expiry rw uw)"
proof -
  have "filter (\<lambda>a. a \<notin> fst ` set (map (\<lambda>d. (td_authority d, d)) (ae_decisions e))) required_authorities = []"
    using assms(5) by (auto simp: filter_empty_conv image_iff)
  moreover have "(\<lambda>(_, d). dt_instant (td_expiry d)) ` set (map (\<lambda>d. (td_authority d, d)) (ae_decisions e))
    = (\<lambda>d. dt_instant (td_expiry d)) ` set (ae_decisions e)"
    by (simp add: image_image)
  ultimately show ?thesis
    using assms(2-4) by (simp add: evaluate_authority_def by_authority_distinct [OF assms(1)] Let_def)
qed


lemma Min_later:
  assumes "finite A" "A \<noteq> {}"
  shows "t < Min (f ` A) \<longleftrightarrow> (\<forall>a\<in>A. t < (f a :: int))"
  using assms by (simp add: Min_gr_iff)

lemma windows_defined:
  assumes "\<bar>rw\<bar> \<le> 999999999" "\<bar>uw\<bar> \<le> 999999999"
  shows "\<exists>r. windows now expiry rw uw = Inr r"
  using assms by (simp add: windows_def timedelta_days_def)

text \<open>C33: A validated envelope authorises execution exactly when the instant carries a time zone, the
  envelope binds to the expected head and manifest, both required authorities have decided, and every
  decision in it approves, binds to the same head and manifest and has not reached its expiry. Renewal
  windows within the range of a timedelta never change this.\<close>
theorem authority_authorised_iff:
  assumes "validate_envelope e = Inr e" "\<bar>rw\<bar> \<le> 999999999" "\<bar>uw\<bar> \<le> 999999999"
  shows "(\<exists>r. evaluate_authority (Some e) head digest now rw uw = Inr r \<and> ev_execution_authorised r)
    \<longleftrightarrow> dt_aware now \<and> ae_head_sha e = head \<and> ae_manifest_digest e = digest \<and> approved_until e (dt_instant now)"
proof (cases "dt_aware now \<and> ae_head_sha e = head \<and> ae_manifest_digest e = digest
    \<and> set required_authorities \<subseteq> td_authority ` set (ae_decisions e)")
  case False
  have dom: "fst ` set (by_authority (ae_decisions e)) = td_authority ` set (ae_decisions e)"
    by (simp add: by_authority_distinct [OF validated_distinct [OF assms(1)]] image_image)
  have "\<not> set required_authorities \<subseteq> td_authority ` set (ae_decisions e)
    \<Longrightarrow> filter (\<lambda>a. a \<notin> td_authority ` set (ae_decisions e)) required_authorities \<noteq> []"
    by (auto simp: filter_empty_conv)
  with False show ?thesis
    by (auto simp: evaluate_authority_def approved_until_def no_approval_def Let_def dom)
next
  case True
  let ?ds = "map (\<lambda>d. (td_authority d, d)) (ae_decisions e)"
  let ?expiry = "Min ((\<lambda>d. dt_instant (td_expiry d)) ` set (ae_decisions e))"
  have some: "ae_decisions e \<noteq> []"
    using True by (auto simp: required_authorities_def)
  obtain w where w: "windows (dt_instant now) ?expiry rw uw = Inr w"
    using windows_defined [OF assms(2,3)] by blast
  have refused: "first_refusal e ?expiry ?ds = None \<longleftrightarrow> list_all (\<lambda>d. td_head_sha d = ae_head_sha e
     \<and> td_manifest_digest d = ae_manifest_digest e \<and> td_decision d = DecisionApprove) (ae_decisions e)"
    by (simp add: first_refusal_None list_all_iff)
  have eval: "evaluate_authority (Some e) head digest now rw uw
      = (case first_refusal e ?expiry ?ds of Some r \<Rightarrow> Inr r | None \<Rightarrow> Inr w)"
    using evaluated_cases [OF validated_distinct [OF assms(1)], of now head digest rw uw] True w
    by (simp add: Let_def split: option.split)
  show ?thesis
  proof (cases "first_refusal e ?expiry ?ds")
    case None
    then show ?thesis
      using eval refused windows_authorised [OF w] True some
      by (auto simp: approved_until_def list_all_iff Min_later)
  next
    case (Some r)
    then show ?thesis
      using eval refused first_refusal_unauthorised [OF Some] True by (auto simp: approved_until_def list_all_iff)
  qed
qed

section \<open>Authority only runs down\<close>

fun status_age :: "authority_status \<Rightarrow> nat" where
  "status_age StatusExpiring = 1"
| "status_age StatusUrgent = 2"
| "status_age StatusExpired = 3"
| "status_age _ = 0"

lemma windows_age:
  assumes "windows now expiry rw uw = Inr r" "windows now' expiry rw uw = Inr r'" "now \<le> now'"
  shows "status_age (ev_status r) \<le> status_age (ev_status r')
    \<and> (ev_execution_authorised r' \<longrightarrow> ev_execution_authorised r)"
  using assms by (auto simp: windows_def bindE_eq_Inr split: if_splits)

lemma evaluate_shape:
  obtains r where "\<forall>now. dt_aware now \<longrightarrow> evaluate_authority env head digest now rw uw = Inr r"
  | x where "\<forall>now. dt_aware now \<longrightarrow> evaluate_authority env head digest now rw uw = windows (dt_instant now) x rw uw"
proof (cases env)
  case None
  then show thesis
    by (intro that(1) [of "no_approval StatusMissing None ''No typed authority envelope is available''"])
      (simp add: evaluate_authority_def)
next
  case (Some e)
  let ?missing = "filter (\<lambda>a. a \<notin> fst ` set (by_authority (ae_decisions e))) required_authorities"
  let ?ds = "by_authority (ae_decisions e)"
  let ?x = "Min ((\<lambda>(_, d). dt_instant (td_expiry d)) ` set ?ds)"
  show thesis
  proof (cases "ae_head_sha e = head \<and> ae_manifest_digest e = digest \<and> first_refusal e ?x ?ds = None
      \<and> filter (\<lambda>a. a \<notin> fst ` set ?ds) required_authorities = []")
    case True
    with Some show thesis by (intro that(2) [of ?x]) (simp add: evaluate_authority_def)
  next
    case False
    let ?r = "if ae_head_sha e \<noteq> head \<or> ae_manifest_digest e \<noteq> digest
      then no_approval StatusInvalidBinding None ''Approval does not bind to the current exact head and manifest''
      else if ?missing \<noteq> [] then no_approval StatusIncomplete None (''Missing authority decisions: '' @ join '', '' (sort ?missing))
      else the (first_refusal e ?x ?ds)"
    from False Some show thesis
      by (intro that(1) [of ?r]) (auto simp: evaluate_authority_def Let_def)
  qed
qed

text \<open>As time passes over an unchanged envelope its status only moves from current through expiring
  and urgent to expired, and what is not authorised now is not authorised later, whatever renewal
  windows are configured.\<close>
theorem authority_only_runs_down:
  assumes "evaluate_authority env head digest now rw uw = Inr r" "evaluate_authority env head digest now' rw uw = Inr r'"
    and "dt_instant now \<le> dt_instant now'"
  shows "status_age (ev_status r) \<le> status_age (ev_status r')
    \<and> (ev_execution_authorised r' \<longrightarrow> ev_execution_authorised r)"
proof -
  have aware: "dt_aware now" "dt_aware now'"
    using assms(1,2) by (auto simp: evaluate_authority_def split: if_splits)
  show ?thesis
  proof (cases rule: evaluate_shape [of env head digest rw uw])
    case (1 r0)
    then show ?thesis using assms(1,2) aware by simp
  next
    case (2 x)
    then show ?thesis using assms aware windows_age by simp
  qed
qed

section \<open>Nothing changed\<close>

lemma sort_Nil_iff: "sort xs = [] \<longleftrightarrow> xs = []"
  by (metis length_0_conv length_sort)

lemma changed_paths_Nil: "changed_paths current previous = [] \<longleftrightarrow> dict_get current = dict_get previous"
proof -
  have "dict_get current p = dict_get previous p" if "p \<notin> set (map fst current @ map fst previous)" for p
  proof -
    from that have "map_of current p = None" "map_of previous p = None"
      by (simp_all add: map_of_eq_None_iff)
    then show ?thesis by (simp add: dict_get_def)
  qed
  then have "(\<forall>p\<in>set (map fst current @ map fst previous). dict_get current p = dict_get previous p)
    \<longleftrightarrow> dict_get current = dict_get previous"
    unfolding fun_eq_iff by blast
  then show ?thesis by (simp add: changed_paths_def sort_Nil_iff filter_empty_conv)
qed

definition same_terms :: "(string \<times> observation) list \<Rightarrow> (string \<times> observation) list \<Rightarrow> bool" where
  \<comment> \<open>every document observed now was available and has the content hash it had\<close>
  "same_terms current previous = list_all (\<lambda>(i, seen). get_or_none seen ''status'' = PStr ''PASS''
     \<and> py_eq (get_or_none (case dict_get previous i of None \<Rightarrow> [] | Some p \<Rightarrow> p) ''content_sha256'')
             (get_or_none seen ''content_sha256'')) current"

text \<open>The delta is NO_MATERIAL_CHANGE exactly when a previous package exists, every document
  observed now was available and has its previous content hash, the authority-bound files agree as a
  mapping from paths to digests, and no technical path changed. Documents that only the previous
  package observed play no part in it.\<close>
theorem no_material_change_iff:
  "de_change_class (classify_delta files old_files terms old_terms technical) = NoMaterialChange
    \<longleftrightarrow> (\<exists>f t. old_files = Some f \<and> old_terms = Some t \<and> same_terms terms t
      \<and> dict_get files = dict_get f \<and> technical = [])"
proof -
  have eq: "py_eq v (PStr s) \<longleftrightarrow> v = PStr s" for v s
    by (cases v) (auto simp: number_of_def split: option.splits)
  have "same_terms terms t \<longleftrightarrow> unavailable_terms terms = [] \<and> changed_terms terms t = []" for t
    by (auto simp: same_terms_def unavailable_terms_def changed_terms_def sort_Nil_iff filter_empty_conv list_all_iff eq)
  then show ?thesis
    by (auto simp: classify_delta_def Let_def changed_paths_Nil split: option.split)
qed

section \<open>Samples\<close>

definition sample_approval :: "string \<Rightarrow> authority_decision" where
  "sample_approval authority = \<lparr>td_authority = authority, td_decision = DecisionApprove, td_scope = ''campaign'',
     td_manifest_digest = ''sha256:'' @ replicate 64 (CHR ''a''), td_head_sha = replicate 40 (CHR ''b''),
     td_timestamp = \<lparr>dt_instant = 0, dt_aware = True\<rparr>, td_expiry = \<lparr>dt_instant = 86400000000 * 60, dt_aware = True\<rparr>,
     td_conditions = [''none''], td_signature = ''sig''\<rparr>"

definition sample_envelope :: authority_envelope where
  "sample_envelope = \<lparr>ae_head_sha = replicate 40 (CHR ''b''), ae_manifest_digest = ''sha256:'' @ replicate 64 (CHR ''a''),
     ae_decisions = map sample_approval required_authorities\<rparr>"

definition sample_day :: "int \<Rightarrow> py_datetime" where
  "sample_day n = \<lparr>dt_instant = 86400000000 * n, dt_aware = True\<rparr>"

lemma sample_envelope_valid: "validate_envelope sample_envelope = Inr sample_envelope"
  by code_simp

theorem authority_authorised_iff_witness:
  "\<exists>r. evaluate_authority (Some sample_envelope) (ae_head_sha sample_envelope) (ae_manifest_digest sample_envelope)
     (sample_day 59) 30 7 = Inr r \<and> ev_execution_authorised r"
proof -
  have "approved_until sample_envelope (dt_instant (sample_day 59))" "dt_aware (sample_day 59)"
    by code_simp+
  then show ?thesis
    using authority_authorised_iff [OF sample_envelope_valid, of 30 7] by simp
qed

theorem authority_only_runs_down_witness:
  "\<exists>r r'. evaluate_authority (Some sample_envelope) (ae_head_sha sample_envelope) (ae_manifest_digest sample_envelope)
       (sample_day 10) 30 7 = Inr r
    \<and> evaluate_authority (Some sample_envelope) (ae_head_sha sample_envelope) (ae_manifest_digest sample_envelope)
       (sample_day 40) 30 7 = Inr r'
    \<and> ev_status r = StatusActive \<and> status_age (ev_status r) \<le> status_age (ev_status r')"
proof -
  let ?eval = "\<lambda>n. evaluate_authority (Some sample_envelope) (ae_head_sha sample_envelope)
      (ae_manifest_digest sample_envelope) (sample_day n) 30 7"
  have "case ?eval 10 of Inl _ \<Rightarrow> False | Inr r \<Rightarrow> ev_status r = StatusActive" "case ?eval 40 of Inl _ \<Rightarrow> False | Inr _ \<Rightarrow> True"
    by code_simp+
  then obtain r r' where r: "?eval 10 = Inr r" "ev_status r = StatusActive" "?eval 40 = Inr r'"
    by (auto split: sum.splits)
  have "dt_instant (sample_day 10) \<le> dt_instant (sample_day 40)"
    by (simp add: sample_day_def)
  from authority_only_runs_down [OF r(1,3) this] r show ?thesis by blast
qed

end
