(* ===== verification/ObjectStore.thy ===== *)
theory ObjectStore
  imports PyJson Sha256 Interfaces
begin

text \<open>
  The content-addressed object stores of \<^verbatim>\<open>apps/api/src/axignal_api/object_store.py\<close>: in memory, on a
  file system and over an S3 client. The two dictionaries of the first are association lists. The
  second keeps a \<^verbatim>\<open>.blob\<close> and a \<^verbatim>\<open>.json\<close> file per key; a file is found by its location, that is whether
  the key is absolute, its directories without empty and \<^verbatim>\<open>.\<close> parts, and its name, and the content of a
  metadata file is the JSON value its text encodes. Metadata fields are untyped values, as the
  dataclass that is filled from JSON has them. The S3 client is a parameter.
\<close>

section \<open>Keys\<close>

definition sha256_hex :: "string \<Rightarrow> string" where
  "sha256_hex content = hexdigest (sha256 content)"

definition strip_slashes :: "string \<Rightarrow> string" where
  \<comment> \<open>\<^verbatim>\<open>s.strip("/")\<close>\<close>
  "strip_slashes s = rev (dropWhile (\<lambda>c. c = CHR ''/'') (rev (dropWhile (\<lambda>c. c = CHR ''/'') s)))"

definition is_sha256_text :: "string \<Rightarrow> bool" where
  \<comment> \<open>\<^verbatim>\<open>re_fullmatch_hex\<close>\<close>
  "is_sha256_text v = (length v = 64 \<and> list_all (\<lambda>c. c \<in> set ''0123456789abcdef'') v)"

definition content_addressed_key :: "string \<Rightarrow> string \<Rightarrow> string result" where
  "content_addressed_key namespace digest =
     (let safe = strip_slashes (map (\<lambda>c. if c = CHR 0x5C then CHR ''/'' else c) (strip namespace)) in
      if safe = [] \<or> ''..'' \<in> set (split_on (CHR ''/'') safe) then Inl (ValueError ''Object namespace is invalid'')
      else if \<not> is_sha256_text digest then Inl (ValueError ''Object digest must be a lowercase SHA-256 hex value'')
      else Inr (safe @ ''/sha256/'' @ digest))"

record object_metadata =
  om_key :: pyval
  om_sha256 :: pyval
  om_size_bytes :: pyval
  om_content_type :: pyval
  om_created_at :: pyval

record put_request =
  pr_namespace :: string
  pr_content_type :: string
  pr_expected_sha256 :: "string option"
  pr_now :: string \<comment> \<open>\<^verbatim>\<open>datetime.now(UTC).isoformat()\<close>\<close>

definition new_metadata :: "put_request \<Rightarrow> string \<Rightarrow> string \<Rightarrow> object_metadata" where
  "new_metadata w key content = \<lparr>om_key = PStr key, om_sha256 = PStr (sha256_hex content),
     om_size_bytes = PInt (int (length content)), om_content_type = PStr (pr_content_type w),
     om_created_at = PStr (pr_now w)\<rparr>"

definition put_object_key :: "put_request \<Rightarrow> string \<Rightarrow> string result" where
  \<comment> \<open>what every store checks before it writes\<close>
  "put_object_key w content =
     (case pr_expected_sha256 w of
        Some d \<Rightarrow> if sha256_hex content \<noteq> d
                  then Inl (ObjectIntegrityError ''Object content does not match expected SHA-256'')
                  else content_addressed_key (pr_namespace w) (sha256_hex content)
      | None \<Rightarrow> content_addressed_key (pr_namespace w) (sha256_hex content))"

definition hash_differs :: "object_metadata \<Rightarrow> string \<Rightarrow> bool" where
  "hash_differs m content = (\<not> py_eq (PStr (sha256_hex content)) (om_sha256 m))"

section \<open>In memory\<close>

record memory_store =
  ms_objects :: "(string \<times> string) list"
  ms_metadata :: "(string \<times> object_metadata) list"

definition memory_put :: "put_request \<Rightarrow> string \<Rightarrow> memory_store \<Rightarrow> object_metadata result \<times> memory_store" where
  "memory_put w content s =
     (case put_object_key w content of
        Inl e \<Rightarrow> (Inl e, s)
      | Inr key \<Rightarrow>
          if (case dict_get (ms_objects s) key of None \<Rightarrow> False | Some c \<Rightarrow> c \<noteq> content)
          then (Inl (ObjectAlreadyExistsError ''Content-addressed object cannot be overwritten''), s)
          else case dict_get (ms_metadata s) key of
            Some m \<Rightarrow> (Inr m, s)
          | None \<Rightarrow>
              let m = new_metadata w key content
              in (Inr m, s\<lparr>ms_objects := dict_put (ms_objects s) key content,
                           ms_metadata := dict_put (ms_metadata s) key m\<rparr>))"

definition memory_get :: "string \<Rightarrow> memory_store \<Rightarrow> string result" where
  "memory_get key s =
     (case dict_get (ms_objects s) key of
        None \<Rightarrow> Inl (ObjectNotFoundError key)
      | Some content \<Rightarrow>
          case dict_get (ms_metadata s) key of
            None \<Rightarrow> Inl (KeyError (repr_str key))
          | Some m \<Rightarrow> if hash_differs m content
                      then Inl (ObjectIntegrityError ''Stored object hash differs from metadata'') else Inr content)"

definition memory_head :: "string \<Rightarrow> memory_store \<Rightarrow> object_metadata result" where
  "memory_head key s = (case dict_get (ms_metadata s) key of None \<Rightarrow> Inl (ObjectNotFoundError key) | Some m \<Rightarrow> Inr m)"

definition memory_verify_hash :: "string \<Rightarrow> memory_store \<Rightarrow> object_metadata result" where
  "memory_verify_hash key s = bindE (memory_head key s) (\<lambda>m. bindE (memory_get key s) (\<lambda>_. Inr m))"

definition dict_pop :: "(string \<times> 'v) list \<Rightarrow> string \<Rightarrow> (string \<times> 'v) list" where
  \<comment> \<open>\<^verbatim>\<open>d.pop(k, None)\<close>\<close>
  "dict_pop d k = AList.delete k d"

definition memory_delete :: "string \<Rightarrow> int \<Rightarrow> memory_store \<Rightarrow> bool result \<times> memory_store" where
  "memory_delete key reference_count s =
     (if reference_count < 0 then (Inl (ValueError ''reference_count cannot be negative''), s)
      else if reference_count \<noteq> 0 then (Inr False, s)
      else (Inr (dict_get (ms_metadata s) key \<noteq> None),
            s\<lparr>ms_objects := dict_pop (ms_objects s) key, ms_metadata := dict_pop (ms_metadata s) key\<rparr>))"

section \<open>On a file system\<close>

type_synonym location = "bool \<times> string list \<times> string"

definition location_of :: "string \<Rightarrow> location" where
  "location_of key = (let parts = split_on (CHR ''/'') key in
     (starts_with ''/'' key, filter (\<lambda>p. p \<noteq> [] \<and> p \<noteq> ''.'') (butlast parts), last parts))"

record file_store =
  fs_blobs :: "(location \<times> string) list"
  fs_metadata :: "(location \<times> pyval) list"

definition data_path :: "string \<Rightarrow> location result" where
  "data_path key = (if starts_with ''/'' key \<or> ''..'' \<in> set (split_on (CHR ''/'') key)
     then Inl (ValueError ''Object key is invalid'') else Inr (location_of key))"

definition metadata_path :: "string \<Rightarrow> location" where
  "metadata_path key = location_of key"

definition metadata_json :: "object_metadata \<Rightarrow> pyval" where
  \<comment> \<open>\<^verbatim>\<open>asdict(metadata)\<close>\<close>
  "metadata_json m = PDict [(''key'', om_key m), (''sha256'', om_sha256 m), (''size_bytes'', om_size_bytes m),
     (''content_type'', om_content_type m), (''created_at'', om_created_at m)]"

definition metadata_of_json :: "pyval \<Rightarrow> object_metadata result" where
  \<comment> \<open>\<^verbatim>\<open>ObjectMetadata(**payload)\<close>\<close>
  "metadata_of_json v = (case v of
     PDict d \<Rightarrow>
       (if set (map fst d) \<noteq> {''key'', ''sha256'', ''size_bytes'', ''content_type'', ''created_at''}
        then Inl (TypeError ''ObjectMetadata'')
        else let field = (\<lambda>k. the (map_of d k)) in
          Inr \<lparr>om_key = field ''key'', om_sha256 = field ''sha256'', om_size_bytes = field ''size_bytes'',
               om_content_type = field ''content_type'', om_created_at = field ''created_at''\<rparr>)
   | _ \<Rightarrow> Inl (TypeError ''ObjectMetadata''))"

definition file_head :: "string \<Rightarrow> file_store \<Rightarrow> object_metadata result" where
  "file_head key s = (case map_of (fs_metadata s) (metadata_path key) of
     None \<Rightarrow> Inl (ObjectNotFoundError key) | Some payload \<Rightarrow> metadata_of_json payload)"

definition file_get :: "string \<Rightarrow> file_store \<Rightarrow> string result" where
  "file_get key s =
     bindE (data_path key) (\<lambda>path.
     case map_of (fs_blobs s) path of
       None \<Rightarrow> Inl (ObjectNotFoundError key)
     | Some content \<Rightarrow>
         bindE (file_head key s) (\<lambda>m.
         if hash_differs m content then Inl (ObjectIntegrityError ''Stored object hash differs from metadata'')
         else Inr content))"

definition file_verify_hash :: "string \<Rightarrow> file_store \<Rightarrow> object_metadata result" where
  "file_verify_hash key s =
     bindE (file_head key s) (\<lambda>m.
     bindE (file_get key s) (\<lambda>content.
     if \<not> py_eq (PInt (int (length content))) (om_size_bytes m)
     then Inl (ObjectIntegrityError ''Stored object size differs from metadata'') else Inr m))"

text \<open>A write replaces the blob first and then writes the metadata file; the two effects apart:\<close>

definition write_blob :: "location \<Rightarrow> string \<Rightarrow> file_store \<Rightarrow> file_store" where
  "write_blob path content s = s\<lparr>fs_blobs := AList.update path content (fs_blobs s)\<rparr>"

definition write_metadata :: "location \<Rightarrow> object_metadata \<Rightarrow> file_store \<Rightarrow> file_store" where
  "write_metadata path m s = s\<lparr>fs_metadata := AList.update path (metadata_json m) (fs_metadata s)\<rparr>"

definition file_put :: "put_request \<Rightarrow> string \<Rightarrow> file_store \<Rightarrow> object_metadata result \<times> file_store" where
  "file_put w content s =
     (case bindE (put_object_key w content) (\<lambda>key. bindE (data_path key) (\<lambda>path. Inr (key, path))) of
        Inl e \<Rightarrow> (Inl e, s)
      | Inr (key, path) \<Rightarrow>
          case map_of (fs_blobs s) path of
            Some c \<Rightarrow> if c \<noteq> content
                      then (Inl (ObjectAlreadyExistsError ''Content-addressed object cannot be overwritten''), s)
                      else (file_verify_hash key s, s)
          | None \<Rightarrow>
              let m = new_metadata w key content
              in (Inr m, write_metadata (metadata_path key) m (write_blob path content s)))"

definition file_delete :: "string \<Rightarrow> int \<Rightarrow> file_store \<Rightarrow> bool result \<times> file_store" where
  "file_delete key reference_count s =
     (if reference_count < 0 then (Inl (ValueError ''reference_count cannot be negative''), s)
      else if reference_count \<noteq> 0 then (Inr False, s)
      else case data_path key of
        Inl e \<Rightarrow> (Inl e, s)
      | Inr path \<Rightarrow>
          (Inr (map_of (fs_blobs s) path \<noteq> None \<or> map_of (fs_metadata s) (metadata_path key) \<noteq> None),
           s\<lparr>fs_blobs := AList.delete path (fs_blobs s),
             fs_metadata := AList.delete (metadata_path key) (fs_metadata s)\<rparr>))"

section \<open>Laws of both stores\<close>

definition addressed :: "string \<Rightarrow> string \<Rightarrow> bool" where
  \<comment> \<open>the key ends in the digest of the content\<close>
  "addressed key content = (\<exists>n. key = n @ ''/sha256/'' @ sha256_hex content)"

lemma put_object_key_addressed:
  assumes "put_object_key w content = Inr key"
  shows "addressed key content" "is_sha256_text (sha256_hex content)"
  using assms
  by (auto simp: put_object_key_def content_addressed_key_def addressed_def Let_def split: option.splits if_splits)

lemma hash_differs_iff: "hash_differs m content \<longleftrightarrow> om_sha256 m \<noteq> PStr (sha256_hex content)"
  by (simp add: hash_differs_def)

lemma hash_new [simp]: "\<not> hash_differs (new_metadata w key content) content"
  by (simp add: hash_differs_iff new_metadata_def)

lemma dict_get_pop: "dict_get (dict_pop d k) k' = (if k' = k then None else dict_get d k')"
  by (simp add: dict_get_def dict_pop_def delete_conv)

definition memory_ok :: "memory_store \<Rightarrow> bool" where
  "memory_ok s = (\<forall>k. case (dict_get (ms_objects s) k, dict_get (ms_metadata s) k) of
      (None, None) \<Rightarrow> True
    | (Some c, Some m) \<Rightarrow> \<not> hash_differs m c \<and> addressed k c
    | _ \<Rightarrow> False)"

lemma memory_ok_cases:
  assumes "memory_ok s"
  obtains "dict_get (ms_objects s) k = None" "dict_get (ms_metadata s) k = None"
  | c m where "dict_get (ms_objects s) k = Some c" "dict_get (ms_metadata s) k = Some m"
      "\<not> hash_differs m c" "addressed k c"
proof -
  have "case (dict_get (ms_objects s) k, dict_get (ms_metadata s) k) of
      (None, None) \<Rightarrow> True
    | (Some c, Some m) \<Rightarrow> \<not> hash_differs m c \<and> addressed k c
    | _ \<Rightarrow> False"
    using assms unfolding memory_ok_def by (rule spec)
  with that show thesis by (auto split: option.splits)
qed

lemma memory_put_cases:
  assumes "memory_put w c s = (x, t)"
  obtains (failed) e where "x = Inl e" "t = s"
  | (present) k m where "put_object_key w c = Inr k" "x = Inr m" "t = s" "dict_get (ms_metadata s) k = Some m"
      "\<forall>d. dict_get (ms_objects s) k = Some d \<longrightarrow> d = c"
  | (fresh) k where "put_object_key w c = Inr k" "x = Inr (new_metadata w k c)" "dict_get (ms_metadata s) k = None"
      "\<forall>d. dict_get (ms_objects s) k = Some d \<longrightarrow> d = c"
      "t = s\<lparr>ms_objects := dict_put (ms_objects s) k c, ms_metadata := dict_put (ms_metadata s) k (new_metadata w k c)\<rparr>"
  using assms by (auto simp: memory_put_def Let_def split: sum.splits option.splits if_splits)

lemma memory_put_ok: "memory_ok s \<Longrightarrow> memory_put w c s = (x, t) \<Longrightarrow> memory_ok t"
proof (erule memory_put_cases)
  fix k
  assume ok: "memory_ok s" and k: "put_object_key w c = Inr k"
    and t: "t = s\<lparr>ms_objects := dict_put (ms_objects s) k c, ms_metadata := dict_put (ms_metadata s) k (new_metadata w k c)\<rparr>"
  show "memory_ok t"
    using ok put_object_key_addressed [OF k] by (simp add: memory_ok_def t dict_get_put)
qed simp_all

lemma memory_put_key:
  assumes "memory_ok s" "memory_put w c s = (Inr m, t)"
  shows "\<exists>k. put_object_key w c = Inr k \<and> memory_get k t = Inr c"
  using assms(2)
proof (cases rule: memory_put_cases)
  case (present k m')
  then have "memory_get k t = Inr c"
    by (cases rule: memory_ok_cases [OF assms(1), of k]) (auto simp: memory_get_def)
  with present(1) show ?thesis by blast
next
  case (fresh k)
  then show ?thesis by (auto simp: memory_get_def dict_get_put)
qed simp

lemma memory_put_again: "memory_ok s \<Longrightarrow> memory_put w c s = (Inr m, t) \<Longrightarrow> memory_put w c t = (Inr m, t)"
  by (erule memory_put_cases [of w c s "Inr m" t]) (auto simp: memory_put_def dict_get_put split: option.splits)

lemma memory_get_cong:
  "dict_get (ms_objects t) k = dict_get (ms_objects s) k \<Longrightarrow> dict_get (ms_metadata t) k = dict_get (ms_metadata s) k \<Longrightarrow>
    memory_get k t = memory_get k s"
  by (simp add: memory_get_def split: option.split)

lemma memory_put_frame:
  assumes "memory_put w c s = (x, t)" "memory_get k s = Inr d"
  shows "memory_get k t = Inr d"
  using assms(1)
proof (cases rule: memory_put_cases)
  case (fresh k')
  have "dict_get (ms_metadata s) k \<noteq> None"
    using assms(2) by (auto simp: memory_get_def split: option.splits)
  with fresh have "k \<noteq> k'" by auto
  with fresh have "dict_get (ms_objects t) k = dict_get (ms_objects s) k" "dict_get (ms_metadata t) k = dict_get (ms_metadata s) k"
    by (simp_all add: dict_get_put)
  with assms(2) show ?thesis by (simp add: memory_get_cong [of t k s])
qed (use assms(2) in simp_all)

lemma memory_get_addressed: "memory_ok s \<Longrightarrow> put_object_key w c = Inr k \<Longrightarrow> memory_get k s = Inr d \<Longrightarrow> addressed k d"
  by (cases rule: memory_ok_cases [of s k]) (auto simp: memory_get_def split: if_splits)

lemma memory_delete_tables:
  assumes "memory_delete k n s = (x, t)"
  shows "dict_get (ms_objects t) k' = (if n = 0 \<and> k' = k then None else dict_get (ms_objects s) k')"
    "dict_get (ms_metadata t) k' = (if n = 0 \<and> k' = k then None else dict_get (ms_metadata s) k')"
  using assms by (auto simp: memory_delete_def dict_get_pop split: if_splits)

lemma memory_delete_ok: "memory_ok s \<Longrightarrow> memory_delete k n s = (x, t) \<Longrightarrow> memory_ok t"
  by (simp add: memory_ok_def memory_delete_tables)

interpretation memory: content_store memory_put memory_get memory_delete put_object_key addressed "(=)" memory_ok
proof
  show "memory_ok s \<Longrightarrow> memory_put w c s = (Inr m, t) \<Longrightarrow> \<exists>k. put_object_key w c = Inr k \<and> memory_get k t = Inr c" for w c s m t
    by (rule memory_put_key)
  show "memory_put w c s = (Inl e, t) \<Longrightarrow> t = s" for w c s e t
    by (erule memory_put_cases) simp_all
  show "memory_ok s \<Longrightarrow> memory_put w c s = (Inr m, t) \<Longrightarrow> memory_put w c t = (Inr m, t)" for w c s m t
    by (rule memory_put_again)
  show "memory_put w c s = (x, t) \<Longrightarrow> memory_get k s = Inr d \<Longrightarrow> memory_get k t = Inr d" for w c s x t k d
    by (rule memory_put_frame)
  show "memory_ok s \<Longrightarrow> memory_put w c s = (x, t) \<Longrightarrow> memory_ok t" for w c s x t
    by (rule memory_put_ok)
  show "memory_ok s \<Longrightarrow> put_object_key w c = Inr k \<Longrightarrow> memory_get k s = Inr d \<Longrightarrow> addressed k d" for w c s k d
    by (rule memory_get_addressed)
  show "memory_ok s \<Longrightarrow> memory_delete k n s = (y, t) \<Longrightarrow> memory_ok t" for k n s y t
    by (rule memory_delete_ok)
  show "memory_delete k n s = (y, t) \<Longrightarrow> n \<noteq> 0 \<or> k \<noteq> k' \<Longrightarrow> memory_get k' t = memory_get k' s" for k n s y t k'
    by (rule memory_get_cong) (auto simp: memory_delete_tables)
qed

lemma split_on_acc_last: "d \<notin> set b \<Longrightarrow> last (split_on_acc d w (a @ d # b)) = b"
proof (induction d w "a @ d # b" arbitrary: a rule: split_on_acc.induct)
  case (2 d w c cs)
  have nonempty: "split_on_acc d w' s \<noteq> []" for w' s by (induction s arbitrary: w') auto
  have none: "d \<notin> set s \<Longrightarrow> split_on_acc d w' s = [rev w' @ s]" for w' s
    by (induction s arbitrary: w') auto
  show ?case
  proof (cases a)
    case Nil
    with 2 none [of b "[]"] show ?thesis by simp
  next
    case (Cons x a')
    with 2 nonempty show ?thesis by auto
  qed
qed simp

lemma addressed_name: "addressed k c \<Longrightarrow> is_sha256_text (sha256_hex c) \<Longrightarrow> snd (snd (location_of k)) = sha256_hex c"
proof -
  assume "addressed k c" "is_sha256_text (sha256_hex c)"
  then obtain n where k: "k = (n @ ''/sha256'') @ CHR ''/'' # sha256_hex c" "CHR ''/'' \<notin> set (sha256_hex c)"
    by (auto simp: addressed_def is_sha256_text_def list_all_iff)
  then show ?thesis
    using split_on_acc_last [OF k(2), of "[]" "n @ ''/sha256''"] by (simp add: location_of_def split_on_def Let_def)
qed

lemma metadata_roundtrip [simp]: "metadata_of_json (metadata_json m) = Inr m"
  by (simp add: metadata_of_json_def metadata_json_def)

definition file_ok :: "file_store \<Rightarrow> bool" where
  \<comment> \<open>a metadata file names the digest that names its file\<close>
  "file_ok s = (\<forall>path v m. map_of (fs_metadata s) path = Some v \<longrightarrow> metadata_of_json v = Inr m
     \<longrightarrow> om_sha256 m = PStr (snd (snd path)))"

lemma file_okD:
  "file_ok s \<Longrightarrow> map_of (fs_metadata s) p = Some v \<Longrightarrow> metadata_of_json v = Inr m \<Longrightarrow> om_sha256 m = PStr (snd (snd p))"
  unfolding file_ok_def by blast

lemma file_put_cases:
  assumes "file_put w c s = (x, t)"
  obtains (failed) e where "x = Inl e" "t = s"
  | (present) k m where "put_object_key w c = Inr k" "x = Inr m" "t = s" "data_path k = Inr (location_of k)"
      "map_of (fs_blobs s) (location_of k) = Some c" "file_verify_hash k s = Inr m"
  | (fresh) k where "put_object_key w c = Inr k" "x = Inr (new_metadata w k c)" "data_path k = Inr (location_of k)"
      "map_of (fs_blobs s) (location_of k) = None"
      "t = write_metadata (location_of k) (new_metadata w k c) (write_blob (location_of k) c s)"
proof (cases "bindE (put_object_key w c) (\<lambda>key. bindE (data_path key) (\<lambda>path. Inr (key, path)))")
  case (Inl e)
  with assms show thesis by (intro failed [of e]) (auto simp: file_put_def)
next
  case (Inr kp)
  then obtain k p where "put_object_key w c = Inr k" "data_path k = Inr p" "kp = (k, p)"
    by (auto simp: bindE_eq_Inr simp del: split_paired_Ex)
  then have k: "put_object_key w c = Inr k" "data_path k = Inr (location_of k)" "kp = (k, location_of k)"
    by (simp_all add: data_path_def split: if_splits)
  show thesis
  proof (cases "map_of (fs_blobs s) (location_of k)")
    case None
    with assms k show thesis by (intro fresh [of k]) (simp_all add: file_put_def Let_def metadata_path_def)
  next
    case (Some d)
    show thesis
    proof (cases "d = c \<and> is_ok (file_verify_hash k s)")
      case True
      with assms k Some show thesis
        by (auto simp: file_put_def is_ok_iff intro: present)
    next
      case False
      show thesis
      proof (cases "d = c")
        case True
        then obtain a where "file_verify_hash k s = Inl a"
          using False by (cases "file_verify_hash k s") auto
        with assms k Some True show thesis by (intro failed [of a]) (auto simp: file_put_def)
      next
        case False
        with assms k Some show thesis
          by (intro failed [of "ObjectAlreadyExistsError ''Content-addressed object cannot be overwritten''"])
            (auto simp: file_put_def)
      qed
    qed
  qed
qed

lemma written_tables:
  "map_of (fs_blobs (write_metadata p m (write_blob p c s))) q = (if q = p then Some c else map_of (fs_blobs s) q)"
  "map_of (fs_metadata (write_metadata p m (write_blob p c s))) q
     = (if q = p then Some (metadata_json m) else map_of (fs_metadata s) q)"
  by (simp_all add: write_metadata_def write_blob_def update_conv)

lemma file_get_written:
  assumes "data_path k = Inr (location_of k)"
  shows "file_get k (write_metadata (location_of k) (new_metadata w k' c) (write_blob (location_of k) c s)) = Inr c"
    "file_verify_hash k (write_metadata (location_of k) (new_metadata w k' c) (write_blob (location_of k) c s))
       = Inr (new_metadata w k' c)"
proof -
  let ?t = "write_metadata (location_of k) (new_metadata w k' c) (write_blob (location_of k) c s)"
  have head: "file_head k ?t = Inr (new_metadata w k' c)"
    by (simp add: file_head_def metadata_path_def written_tables)
  then show get: "file_get k ?t = Inr c"
    by (simp add: file_get_def assms written_tables)
  show "file_verify_hash k ?t = Inr (new_metadata w k' c)"
    by (simp add: file_verify_hash_def head get) (simp add: new_metadata_def number_of_def)
qed

lemma file_get_cong:
  "map_of (fs_blobs t) (location_of k) = map_of (fs_blobs s) (location_of k) \<Longrightarrow>
   map_of (fs_metadata t) (location_of k) = map_of (fs_metadata s) (location_of k) \<Longrightarrow> file_get k t = file_get k s"
  by (auto simp: file_get_def file_head_def metadata_path_def data_path_def split: option.split)

lemma file_put_ok: "file_ok s \<Longrightarrow> file_put w c s = (x, t) \<Longrightarrow> file_ok t"
proof (erule file_put_cases)
  fix k
  assume ok: "file_ok s" and k: "put_object_key w c = Inr k"
    and t: "t = write_metadata (location_of k) (new_metadata w k c) (write_blob (location_of k) c s)"
  have "snd (snd (location_of k)) = sha256_hex c"
    using put_object_key_addressed [OF k] by (rule addressed_name)
  then have new: "om_sha256 (new_metadata w k c) = PStr (snd (snd (location_of k)))"
    by (simp add: new_metadata_def)
  show "file_ok t"
    unfolding file_ok_def
  proof (intro allI impI)
    fix p v m
    assume "map_of (fs_metadata t) p = Some v" "metadata_of_json v = Inr m"
    then show "om_sha256 m = PStr (snd (snd p))"
      using file_okD [OF ok] new by (cases "p = location_of k") (auto simp: t written_tables)
  qed
qed simp_all

lemma file_put_key:
  assumes "file_ok s" "file_put w c s = (Inr m, t)"
  shows "\<exists>k. put_object_key w c = Inr k \<and> file_get k t = Inr c"
  using assms(2)
proof (cases rule: file_put_cases)
  case (present k m')
  then have "file_get k s = Inr c"
    by (auto simp: file_verify_hash_def file_get_def bindE_eq_Inr split: if_splits simp del: split_paired_Ex)
  with present show ?thesis by blast
next
  case (fresh k)
  then show ?thesis using file_get_written(1) by blast
qed simp

lemma file_put_again:
  assumes "file_ok s" "file_put w c s = (Inr m, t)"
  shows "file_put w c t = (Inr m, t)"
  using assms(2)
proof (cases rule: file_put_cases)
  case (present k m')
  then show ?thesis using assms(2) by simp
next
  case (fresh k)
  then show ?thesis
    using file_get_written(2) [OF fresh(3), of w k c s] by (simp add: file_put_def written_tables)
qed simp

lemma file_put_frame:
  assumes "file_put w c s = (x, t)" "file_get k s = Inr d"
  shows "file_get k t = Inr d"
  using assms(1)
proof (cases rule: file_put_cases)
  case (fresh k')
  have "map_of (fs_blobs s) (location_of k) \<noteq> None"
    using assms(2) by (auto simp: file_get_def bindE_eq_Inr data_path_def split: option.splits if_splits)
  with fresh(4) have "location_of k \<noteq> location_of k'" by auto
  then have "file_get k t = file_get k s"
    by (intro file_get_cong) (simp_all add: fresh(5) written_tables)
  with assms(2) show ?thesis by simp
qed (use assms(2) in simp_all)

lemma file_get_addressed:
  assumes "file_ok s" "put_object_key w c = Inr k" "file_get k s = Inr d"
  shows "addressed k d"
proof -
  have name: "addressed k c" "snd (snd (location_of k)) = sha256_hex c"
    using put_object_key_addressed [OF assms(2)] addressed_name by blast+
  from assms(3) obtain m where "file_head k s = Inr m" "om_sha256 m = PStr (sha256_hex d)"
    by (auto simp: file_get_def bindE_eq_Inr hash_differs_iff split: option.splits if_splits)
  with file_okD [OF assms(1)] have "sha256_hex d = snd (snd (location_of k))"
    by (auto simp: file_head_def metadata_path_def split: option.splits)
  with name show ?thesis by (simp add: addressed_def)
qed

lemma file_delete_tables:
  assumes "file_delete k n s = (x, t)"
  shows "map_of (fs_blobs t) q = map_of (fs_blobs s) q \<or> (n = 0 \<and> q = location_of k \<and> map_of (fs_blobs t) q = None)"
    "map_of (fs_metadata t) q = map_of (fs_metadata s) q \<or> (n = 0 \<and> q = location_of k \<and> map_of (fs_metadata t) q = None)"
  using assms by (auto simp: file_delete_def data_path_def metadata_path_def delete_conv split: if_splits)

lemma file_delete_ok: "file_ok s \<Longrightarrow> file_delete k n s = (x, t) \<Longrightarrow> file_ok t"
  using file_delete_tables(2) [of k n s x t] unfolding file_ok_def by (metis option.distinct(1))

interpretation files: content_store file_put file_get file_delete put_object_key addressed
  "\<lambda>k k'. location_of k = location_of k'" file_ok
proof
  show "file_ok s \<Longrightarrow> file_put w c s = (Inr m, t) \<Longrightarrow> \<exists>k. put_object_key w c = Inr k \<and> file_get k t = Inr c" for w c s m t
    by (rule file_put_key)
  show "file_put w c s = (Inl e, t) \<Longrightarrow> t = s" for w c s e t
    by (erule file_put_cases) simp_all
  show "file_ok s \<Longrightarrow> file_put w c s = (Inr m, t) \<Longrightarrow> file_put w c t = (Inr m, t)" for w c s m t
    by (rule file_put_again)
  show "file_put w c s = (x, t) \<Longrightarrow> file_get k s = Inr d \<Longrightarrow> file_get k t = Inr d" for w c s x t k d
    by (rule file_put_frame)
  show "file_ok s \<Longrightarrow> file_put w c s = (x, t) \<Longrightarrow> file_ok t" for w c s x t
    by (rule file_put_ok)
  show "file_ok s \<Longrightarrow> put_object_key w c = Inr k \<Longrightarrow> file_get k s = Inr d \<Longrightarrow> addressed k d" for w c s k d
    by (rule file_get_addressed)
  show "file_ok s \<Longrightarrow> file_delete k n s = (y, t) \<Longrightarrow> file_ok t" for k n s y t
    by (rule file_delete_ok)
  show "file_delete k n s = (y, t) \<Longrightarrow> n \<noteq> 0 \<or> location_of k \<noteq> location_of k' \<Longrightarrow> file_get k' t = file_get k' s" for k n s y t k'
    by (rule file_get_cong) (metis file_delete_tables)+
qed

section \<open>Over an S3 client\<close>

record head_response =
  hr_metadata :: "(string \<times> string) list" \<comment> \<open>\<^verbatim>\<open>response.get("Metadata", {})\<close>\<close>
  hr_content_length :: int
  hr_content_type :: "string option"

text \<open>The injected client: its operations on its own state \<^verbatim>\<open>'c\<close>, each may raise.\<close>

record 'c s3_client =
  s3_put_object :: "string \<Rightarrow> string \<Rightarrow> string \<Rightarrow> string \<Rightarrow> (string \<times> string) list \<Rightarrow> 'c \<Rightarrow> unit result \<times> 'c"
    \<comment> \<open>bucket, key, body, content type, metadata; \<^verbatim>\<open>IfNoneMatch="*"\<close>\<close>
  s3_get_object :: "string \<Rightarrow> string \<Rightarrow> 'c \<Rightarrow> string result"
  s3_head_object :: "string \<Rightarrow> string \<Rightarrow> 'c \<Rightarrow> head_response result"
  s3_delete_object :: "string \<Rightarrow> string \<Rightarrow> 'c \<Rightarrow> unit result \<times> 'c"

record s3_place =
  sp_bucket :: string
  sp_prefix :: string

definition remote_key :: "s3_place \<Rightarrow> string \<Rightarrow> string" where
  "remote_key p key = (let prefix = strip_slashes (sp_prefix p) in if prefix = [] then key else prefix @ ''/'' @ key)"

definition s3_head :: "'c s3_client \<Rightarrow> s3_place \<Rightarrow> string \<Rightarrow> 'c \<Rightarrow> object_metadata result" where
  "s3_head client p key c =
     (case s3_head_object client (sp_bucket p) (remote_key p key) c of
        Inl _ \<Rightarrow> Inl (ObjectNotFoundError key)
      | Inr response \<Rightarrow>
          (case dict_get (hr_metadata response) ''sha256'' of
             None \<Rightarrow> Inl (ObjectIntegrityError ''Remote object lacks valid SHA-256 metadata'')
           | Some digest \<Rightarrow>
               if \<not> is_sha256_text digest then Inl (ObjectIntegrityError ''Remote object lacks valid SHA-256 metadata'')
               else Inr \<lparr>om_key = PStr key, om_sha256 = PStr digest, om_size_bytes = PInt (hr_content_length response),
                 om_content_type = PStr (case hr_content_type response of None \<Rightarrow> ''application/octet-stream'' | Some t \<Rightarrow> t),
                 om_created_at = PStr (case dict_get (hr_metadata response) ''created-at'' of None \<Rightarrow> [] | Some t \<Rightarrow> t)\<rparr>))"

definition s3_get :: "'c s3_client \<Rightarrow> s3_place \<Rightarrow> string \<Rightarrow> 'c \<Rightarrow> string result" where
  "s3_get client p key c =
     (case s3_get_object client (sp_bucket p) (remote_key p key) c of
        Inl _ \<Rightarrow> Inl (ObjectNotFoundError key)
      | Inr content \<Rightarrow>
          bindE (s3_head client p key c) (\<lambda>m.
          if hash_differs m content then Inl (ObjectIntegrityError ''Remote object hash differs from metadata'')
          else Inr content))"

definition s3_put :: "'c s3_client \<Rightarrow> s3_place \<Rightarrow> put_request \<Rightarrow> string \<Rightarrow> 'c \<Rightarrow> object_metadata result \<times> 'c" where
  "s3_put client p w content c =
     (case put_object_key w content of
        Inl e \<Rightarrow> (Inl e, c)
      | Inr key \<Rightarrow>
          (case s3_head client p key c of
             Inl (ObjectNotFoundError _) \<Rightarrow>
               (case s3_put_object client (sp_bucket p) (remote_key p key) content (pr_content_type w)
                       [(''sha256'', sha256_hex content), (''created-at'', pr_now w)] c of
                  (Inl e, c') \<Rightarrow> (Inl e, c')
                | (Inr _, c') \<Rightarrow> (Inr (new_metadata w key content), c'))
           | Inl e \<Rightarrow> (Inl e, c)
           | Inr existing \<Rightarrow>
               if hash_differs existing content \<or> \<not> py_eq (om_size_bytes existing) (PInt (int (length content)))
               then (Inl (ObjectAlreadyExistsError ''Remote content-addressed object differs''), c)
               else (Inr existing, c)))"

definition s3_verify_hash :: "'c s3_client \<Rightarrow> s3_place \<Rightarrow> string \<Rightarrow> 'c \<Rightarrow> object_metadata result" where
  "s3_verify_hash client p key c = bindE (s3_head client p key c) (\<lambda>m. bindE (s3_get client p key c) (\<lambda>_. Inr m))"

definition s3_delete :: "'c s3_client \<Rightarrow> s3_place \<Rightarrow> string \<Rightarrow> int \<Rightarrow> 'c \<Rightarrow> bool result \<times> 'c" where
  "s3_delete client p key reference_count c =
     (if reference_count < 0 then (Inl (ValueError ''reference_count cannot be negative''), c)
      else if reference_count \<noteq> 0 then (Inr False, c)
      else case s3_head client p key c of
        Inl (ObjectNotFoundError _) \<Rightarrow> (Inr False, c)
      | Inl e \<Rightarrow> (Inl e, c)
      | Inr _ \<Rightarrow>
          (case s3_delete_object client (sp_bucket p) (remote_key p key) c of
             (Inl e, c') \<Rightarrow> (Inl e, c') | (Inr _, c') \<Rightarrow> (Inr True, c')))"

lemma sha256_hex_text [simp]: "is_sha256_text (sha256_hex c)"
proof -
  have "list_all (\<lambda>n. hex_digit n \<in> set ''0123456789abcdef'') [0..<16]"
    by code_simp
  then have all: "\<forall>n\<in>{0..<16}. hex_digit n \<in> set ''0123456789abcdef''"
    unfolding list_all_iff set_upt .
  have "hex_digit n \<in> set ''0123456789abcdef''" if "n < 16" for n
    using all by (rule bspec) (use that in \<open>simp only: atLeastLessThan_iff le0 simp_thms\<close>)
  then have "set (hex2 n) \<subseteq> set ''0123456789abcdef''" for n
    unfolding hex2_def list.set insert_subset by (intro conjI empty_subsetI) (simp_all only: mod_less_divisor zero_less_numeral)
  then have "set (hexdigest bs) \<subseteq> set ''0123456789abcdef''" for bs
    unfolding hexdigest_def set_concat set_map by blast
  then have "list_all (\<lambda>c. c \<in> set ''0123456789abcdef'') (sha256_hex c)"
    unfolding list_all_iff sha256_hex_def by blast
  then show ?thesis
    unfolding is_sha256_text_def sha256_hex_def length_hexdigest length_sha256 by simp
qed

definition sample_request :: put_request where
  "sample_request = \<lparr>pr_namespace = ''docs'', pr_content_type = ''text/plain'', pr_expected_sha256 = None, pr_now = ''now''\<rparr>"

lemma sample_key: "\<exists>key path. put_object_key sample_request c = Inr key \<and> data_path key = Inr path"
proof -
  have "strip_slashes (map (\<lambda>c. if c = CHR 0x5C then CHR ''/'' else c) (strip ''docs'')) = ''docs''"
    "split_on (CHR ''/'') ''docs'' = [''docs'']"
    by code_simp+
  then have key: "put_object_key sample_request c = Inr (''docs/sha256/'' @ sha256_hex c)"
    by (simp add: put_object_key_def sample_request_def content_addressed_key_def)
  have "CHR ''.'' \<notin> set ''0123456789abcdef''"
    by simp
  then have "CHR ''.'' \<notin> set (sha256_hex c)"
    using sha256_hex_text [of c] unfolding is_sha256_text_def list_all_iff by blast
  moreover have "set x \<subseteq> set w \<union> set k" if "x \<in> set (split_on_acc d w k)" for x d w k
    using that by (induction d w k rule: split_on_acc.induct) (auto split: if_splits)
  ultimately have "''..'' \<notin> set (split_on (CHR ''/'') (''docs/sha256/'' @ sha256_hex c))"
    by (fastforce simp: split_on_def)
  moreover have "\<not> starts_with ''/'' (''docs/sha256/'' @ sha256_hex c)"
    by (simp add: starts_with_def)
  ultimately have "data_path (''docs/sha256/'' @ sha256_hex c) = Inr (location_of (''docs/sha256/'' @ sha256_hex c))"
    unfolding data_path_def by (simp only: if_False simp_thms)
  with key show ?thesis by blast
qed

section \<open>Properties\<close>

text \<open>C32: In both local stores, starting from any consistent state: once a put has succeeded, its content
  is read back under its key after any further puts, whatever they hold and however they end, and that
  key ends in the digest of the content.\<close>
theorem stored_content_stays:
  assumes "memory_ok ms" "file_ok fs"
  shows "(\<forall>m t. memory_put w c ms = (Inr m, t) \<longrightarrow>
      (\<exists>k. put_object_key w c = Inr k \<and> memory_get k (memory.put_all ws t) = Inr c \<and> addressed k c))
    \<and> (\<forall>m t. file_put w c fs = (Inr m, t) \<longrightarrow>
      (\<exists>k. put_object_key w c = Inr k \<and> file_get k (files.put_all ws t) = Inr c \<and> addressed k c))"
  using memory.stored_forever [OF assms(1)] files.stored_forever [OF assms(2)] by blast

theorem stored_content_stays_witness:
  "\<exists>m t k. file_put sample_request ''abc'' \<lparr>fs_blobs = [], fs_metadata = []\<rparr> = (Inr m, t)
     \<and> file_get k (files.put_all [(sample_request, ''xyz'')] t) = Inr ''abc'' \<and> addressed k ''abc''"
proof -
  have ok: "memory_ok \<lparr>ms_objects = [], ms_metadata = []\<rparr>" "file_ok \<lparr>fs_blobs = [], fs_metadata = []\<rparr>"
    by (simp_all add: memory_ok_def file_ok_def)
  obtain key path where "put_object_key sample_request ''abc'' = Inr key" "data_path key = Inr path"
    using sample_key by blast
  then obtain m t where "file_put sample_request ''abc'' \<lparr>fs_blobs = [], fs_metadata = []\<rparr> = (Inr m, t)"
    by (simp add: file_put_def Let_def)
  with stored_content_stays [OF ok, of sample_request "''abc''" "[(sample_request, ''xyz'')]"] show ?thesis by blast
qed

text \<open>A file put that is interrupted between replacing the blob and writing the metadata file leaves
  an object that no later put of the same content under that key repairs: each fails with
  ObjectNotFoundError and so does every read, whatever the expected digest and content type.\<close>
theorem interrupted_put_never_repaired:
  assumes "put_object_key w content = Inr key" "data_path key = Inr path" "map_of (fs_metadata s) path = None"
  shows "file_put w content (write_blob path content s) = (Inl (ObjectNotFoundError key), write_blob path content s)
    \<and> file_get key (write_blob path content s) = Inl (ObjectNotFoundError key)"
proof -
  have path: "path = location_of key" using assms(2) by (simp add: data_path_def split: if_splits)
  have blob: "map_of (fs_blobs (write_blob path content s)) path = Some content"
    by (simp add: write_blob_def update_conv)
  have "file_head key (write_blob path content s) = Inl (ObjectNotFoundError key)"
    using assms(3) by (simp add: file_head_def metadata_path_def write_blob_def path)
  then show ?thesis
    using assms(1,2) blob by (simp add: file_put_def file_verify_hash_def file_get_def)
qed

theorem interrupted_put_never_repaired_witness:
  "\<exists>key path. put_object_key sample_request ''abc'' = Inr key \<and> data_path key = Inr path
     \<and> file_get key (write_blob path ''abc'' \<lparr>fs_blobs = [], fs_metadata = []\<rparr>) = Inl (ObjectNotFoundError key)"
proof -
  obtain key path where k: "put_object_key sample_request ''abc'' = Inr key" "data_path key = Inr path"
    using sample_key by blast
  with interrupted_put_never_repaired [OF k, of "\<lparr>fs_blobs = [], fs_metadata = []\<rparr>"]
  have "file_get key (write_blob path ''abc'' \<lparr>fs_blobs = [], fs_metadata = []\<rparr>) = Inl (ObjectNotFoundError key)"
    by simp
  with k show ?thesis by blast
qed

text \<open>Reading metadata does not check the key that reading content refuses.\<close>

lemma head_follows_any_key:
  "file_head ''../secret'' \<lparr>fs_blobs = [], fs_metadata = [((False, [''..''], ''secret''), metadata_json m)]\<rparr> = Inr m"
  "file_get ''../secret'' s = Inl (ValueError ''Object key is invalid'')"
proof -
  have "location_of ''../secret'' = (False, [''..''], ''secret'')" "data_path ''../secret'' = Inl (ValueError ''Object key is invalid'')"
    by code_simp+
  then show "file_head ''../secret'' \<lparr>fs_blobs = [], fs_metadata = [((False, [''..''], ''secret''), metadata_json m)]\<rparr> = Inr m"
    "file_get ''../secret'' s = Inl (ValueError ''Object key is invalid'')"
    by (simp_all add: file_head_def metadata_path_def file_get_def)
qed

end
