(* ===== verification/Base64Text.thy ===== *)
theory Base64Text
  imports PyData
begin

text \<open>
  URL-safe base64 as the signed tokens use it: \<^verbatim>\<open>urlsafe_b64encode\<close> without its padding, and
  \<^verbatim>\<open>urlsafe_b64decode\<close> of a text to which padding is added. Decoding is \<^verbatim>\<open>binascii.a2b_base64\<close> as the
  library runs it, not strict: characters outside the alphabet are skipped and a padding that
  completes a group of four ends the input.
\<close>

section \<open>Encoding and decoding\<close>

definition b64_digits :: string where
  "b64_digits = ''ABCDEFGHIJKLMNOPQRSTUVWXYZabcdefghijklmnopqrstuvwxyz0123456789-_''"

definition b64_char :: "nat \<Rightarrow> char" where
  "b64_char n = b64_digits ! n"

definition b64_value :: "char \<Rightarrow> nat option" where
  \<comment> \<open>after \<^verbatim>\<open>-\<close> and \<^verbatim>\<open>_\<close> have been translated, \<^verbatim>\<open>+\<close> and \<^verbatim>\<open>/\<close> are still read\<close>
  "b64_value c =
     (if is_ascii_upper c then Some (code c - 65)
      else if is_ascii_lower c then Some (code c - 71)
      else if is_digit c then Some (code c + 4)
      else if c = CHR ''+'' \<or> c = CHR ''-'' then Some 62
      else if c = CHR ''/'' \<or> c = CHR ''_'' then Some 63 else None)"

fun b64url_encode :: "string \<Rightarrow> string" where
  "b64url_encode [] = []"
| "b64url_encode [a] = [b64_char (code a div 4), b64_char (code a mod 4 * 16)]"
| "b64url_encode [a, b] =
     [b64_char (code a div 4), b64_char (code a mod 4 * 16 + code b div 16), b64_char (code b mod 16 * 4)]"
| "b64url_encode (a # b # c # r) =
     b64_char (code a div 4) # b64_char (code a mod 4 * 16 + code b div 16)
       # b64_char (code b mod 16 * 4 + code c div 64) # b64_char (code c mod 64) # b64url_encode r"

fun a2b :: "nat \<Rightarrow> nat \<Rightarrow> nat \<Rightarrow> string \<Rightarrow> string result" where
  \<comment> \<open>position in the group, padding seen, bits left over\<close>
  "a2b q p l [] = (if q = 0 then Inr [] else Inl (ValueError ''Incorrect padding''))"
| "a2b q p l (c # s) =
     (if c = CHR ''='' then
        (if 2 \<le> q then if 4 \<le> q + Suc p then Inr [] else a2b q (Suc p) l s else a2b q p l s)
      else case b64_value c of
        None \<Rightarrow> a2b q p l s
      | Some v \<Rightarrow>
          if q = 0 then a2b 1 0 v s
          else if q = 1 then bindE (a2b 2 0 (v mod 16) s) (\<lambda>r. Inr (char_of (l * 4 + v div 16) # r))
          else if q = 2 then bindE (a2b 3 0 (v mod 4) s) (\<lambda>r. Inr (char_of (l * 16 + v div 4) # r))
          else bindE (a2b 0 0 0 s) (\<lambda>r. Inr (char_of (l * 64 + v) # r)))"

definition b64url_decode :: "string \<Rightarrow> string result" where
  "b64url_decode s =
     (if list_ex (\<lambda>c. 128 \<le> code c) s then Inl (ValueError ''ascii codec cannot encode'')
      else a2b 0 0 0 (s @ replicate ((4 - length s mod 4) mod 4) (CHR ''='')))"

section \<open>Decoding reads back what encoding writes\<close>

lemma b64_digit_values: "map b64_value b64_digits = map Some [0..<64]"
  by (simp add: b64_digits_def b64_value_def is_ascii_upper_def is_ascii_lower_def is_digit_def code_def upt_conv_Cons del: upt_Suc)

lemma b64_digit_ascii: "list_all (\<lambda>c. code c < 128 \<and> c \<noteq> CHR ''='' \<and> c \<noteq> CHR ''.'') b64_digits"
  by (simp add: b64_digits_def code_def)

lemma b64_char_value:
  assumes "n < 64"
  shows "b64_value (b64_char n) = Some n" "b64_char n \<noteq> CHR ''=''" "b64_char n \<noteq> CHR ''.''" "code (b64_char n) < 128"
proof -
  have len: "length b64_digits = 64" by (simp add: b64_digits_def)
  have "map b64_value b64_digits ! n = map Some [0..<64] ! n"
    by (simp only: b64_digit_values)
  then show "b64_value (b64_char n) = Some n"
    using assms len by (simp only: nth_map length_upt b64_char_def nth_upt) simp
  have "b64_char n \<in> set b64_digits"
    using assms len unfolding b64_char_def by (intro nth_mem) (simp only:)
  with b64_digit_ascii show "b64_char n \<noteq> CHR ''=''" "b64_char n \<noteq> CHR ''.''" "code (b64_char n) < 128"
    unfolding list_all_iff by blast+
qed

lemma a2b_pad: "a2b q p l (CHR ''='' # s) = (if 2 \<le> q then if 4 \<le> q + Suc p then Inr [] else a2b q (Suc p) l s else a2b q p l s)"
  by simp

lemma a2b_digit:
  assumes "n < 64"
  shows "a2b 0 p l (b64_char n # s) = a2b (Suc 0) 0 n s"
    "a2b (Suc 0) p l (b64_char n # s) = bindE (a2b 2 0 (n mod 16) s) (\<lambda>r. Inr (char_of (l * 4 + n div 16) # r))"
    "a2b 2 p l (b64_char n # s) = bindE (a2b 3 0 (n mod 4) s) (\<lambda>r. Inr (char_of (l * 16 + n div 4) # r))"
    "a2b 3 p l (b64_char n # s) = bindE (a2b 0 0 0 s) (\<lambda>r. Inr (char_of (l * 64 + n) # r))"
  using b64_char_value [OF assms] by simp_all

declare a2b.simps(2) [simp del]

lemma byte_parts:
  assumes "(a :: nat) < 256" "b < 256" "c < 256"
  shows "a div 4 < 64" "a mod 4 * 16 + b div 16 < 64" "b mod 16 * 4 + c div 64 < 64" "c mod 64 < 64"
    "a div 4 * 4 + (a mod 4 * 16 + b div 16) div 16 = a"
    "(a mod 4 * 16 + b div 16) mod 16 * 16 + (b mod 16 * 4 + c div 64) div 4 = b"
    "(b mod 16 * 4 + c div 64) mod 4 * 64 + c mod 64 = c"
proof -
  have small: "b div 16 < 16" "c div 64 < 4" "a mod 4 < 4" "b mod 16 < 16"
    using assms by (simp_all add: less_mult_imp_div_less)
  then show "a mod 4 * 16 + b div 16 < 64" "b mod 16 * 4 + c div 64 < 64"
    by linarith+
  show "a div 4 < 64" "c mod 64 < 64"
    using assms by (simp_all add: less_mult_imp_div_less)
  have parts: "(a mod 4 * 16 + b div 16) div 16 = a mod 4" "(a mod 4 * 16 + b div 16) mod 16 = b div 16"
    "(b mod 16 * 4 + c div 64) div 4 = b mod 16" "(b mod 16 * 4 + c div 64) mod 4 = c div 64"
    using small by simp_all
  show "a div 4 * 4 + (a mod 4 * 16 + b div 16) div 16 = a"
    "(a mod 4 * 16 + b div 16) mod 16 * 16 + (b mod 16 * 4 + c div 64) div 4 = b"
    "(b mod 16 * 4 + c div 64) mod 4 * 64 + c mod 64 = c"
    unfolding parts by (rule div_mult_mod_eq)+
qed

lemma last_parts:
  assumes "(a :: nat) < 256" "b < 256"
  shows "a mod 4 * 16 < 64" "a div 4 * 4 + a mod 4 * 16 div 16 = a" "b mod 16 * 4 < 64"
    "(a mod 4 * 16 + b div 16) mod 16 * 16 + b mod 16 * 4 div 4 = b"
proof -
  have "a mod 4 < 4" "b mod 16 < 16" by simp_all
  then show "a mod 4 * 16 < 64" "b mod 16 * 4 < 64" by linarith+
  show "a div 4 * 4 + a mod 4 * 16 div 16 = a" by simp
  show "(a mod 4 * 16 + b div 16) mod 16 * 16 + b mod 16 * 4 div 4 = b"
    using byte_parts(6) [OF assms, of 0] by simp
qed

lemma a2b_encode: "a2b 0 0 0 (b64url_encode bs @ replicate ((4 - length (b64url_encode bs) mod 4) mod 4) (CHR ''='')) = Inr bs"
proof (induction bs rule: b64url_encode.induct)
  case (2 a)
  have "replicate ((4 - length (b64url_encode [a]) mod 4) mod 4) (CHR ''='') = ''==''"
    by (simp, simp add: numeral_2_eq_2)
  moreover have "code a div 4 < 64"
    using byte_parts(1) [OF code_less [of a] code_less [of a] code_less [of a]] .
  ultimately show ?case
    using last_parts [OF code_less [of a] code_less [of a]] by (simp only: b64url_encode.simps append_Cons append_Nil a2b_digit)
      (simp add: a2b_pad char_of_code)
next
  case (3 a b)
  have "replicate ((4 - length (b64url_encode [a, b]) mod 4) mod 4) (CHR ''='') = ''=''"
    by simp
  then show ?case
    using byte_parts [OF code_less [of a] code_less [of b] code_less [of b]] last_parts [OF code_less [of a] code_less [of b]]
    by (simp only: b64url_encode.simps append_Cons append_Nil a2b_digit) (simp add: a2b_pad char_of_code)
next
  case (4 a b c r)
  have "length (b64url_encode (a # b # c # r)) = length (b64url_encode r) + 4"
    by simp
  then have "length (b64url_encode (a # b # c # r)) mod 4 = length (b64url_encode r) mod 4"
    by (simp only: mod_add_self2)
  then show ?case
    using 4 byte_parts [OF code_less [of a] code_less [of b] code_less [of c]]
    by (simp only: b64url_encode.simps append_Cons a2b_digit) (simp add: char_of_code)
qed simp

lemma encode_ascii: "list_all (\<lambda>c. code c < 128 \<and> c \<noteq> CHR ''.'') (b64url_encode bs)"
proof -
  have "code (b64_char n) < 128 \<and> b64_char n \<noteq> CHR ''.''" if "n < 64" for n
    using b64_char_value [OF that] by blast
  moreover have "code a div 4 < 64" "code a mod 4 * 16 + code b div 16 < 64" "code b mod 16 * 4 + code c div 64 < 64"
    "code a mod 4 * 16 < 64" "code b mod 16 * 4 < 64" "code c mod 64 < 64" for a b c
    using byte_parts(1-4) [OF code_less [of a] code_less [of b] code_less [of c]]
      last_parts(1,3) [OF code_less [of a] code_less [of b]] by simp_all
  ultimately show ?thesis
    by (induction bs rule: b64url_encode.induct) simp_all
qed

lemma b64_roundtrip: "b64url_decode (b64url_encode bs) = Inr bs"
proof -
  have "\<not> list_ex (\<lambda>c. 128 \<le> code c) (b64url_encode bs)"
    using encode_ascii [of bs] unfolding list_ex_iff list_all_iff by (meson not_le)
  then show ?thesis
    by (simp only: b64url_decode_def if_False a2b_encode)
qed

section \<open>Decoding skips what is not in the alphabet\<close>

lemma a2b_skip: "list_all (\<lambda>c. b64_value c = None \<and> c \<noteq> CHR ''='') g \<Longrightarrow> a2b q p l (s @ g @ t) = a2b q p l (s @ t)"
proof (induction q p l s rule: a2b.induct)
  case (1 q p l)
  then show ?case by (induction g) (auto simp: a2b.simps(2))
qed (auto simp: a2b.simps(2) split: option.split)

lemma decode_skips_four:
  "b64_value c = None \<Longrightarrow> c \<noteq> CHR ''='' \<Longrightarrow> code c < 128 \<Longrightarrow> b64url_decode (s @ [c, c, c, c]) = b64url_decode s"
  using a2b_skip [of "[c, c, c, c]" 0 0 0 s] by (simp add: b64url_decode_def)

end
