(* ===== verification/JsonText.thy ===== *)
theory JsonText
  imports PyJson
begin

text \<open>
  \<^verbatim>\<open>json.loads\<close> on the texts the signed tokens carry. The reader follows the library's scanner on ASCII
  text: white space, objects (a repeated key keeps its last value), arrays, strings with their
  escapes, integers and the three constants. What it does not cover is told apart from malformed text
  and left to the argument \<open>other\<close>, the library's own reading: numbers with a fraction or an exponent,
  \<^verbatim>\<open>NaN\<close> and the infinities, escapes above \<^verbatim>\<open>\u00ff\<close>, and bytes outside ASCII.
\<close>

section \<open>The reader\<close>

datatype 'a parsed = Parsed 'a | Malformed | Uncovered

definition bindP :: "'a parsed \<Rightarrow> ('a \<Rightarrow> 'b parsed) \<Rightarrow> 'b parsed" where
  "bindP m k = (case m of Parsed x \<Rightarrow> k x | Malformed \<Rightarrow> Malformed | Uncovered \<Rightarrow> Uncovered)"

lemma bindP_simps [simp]: "bindP (Parsed x) k = k x" "bindP Malformed k = Malformed" "bindP Uncovered k = Uncovered"
  by (simp_all add: bindP_def)

definition is_json_ws :: "char \<Rightarrow> bool" where
  "is_json_ws c = (code c \<in> {32, 9, 10, 13})"

definition skip_ws :: "string \<Rightarrow> string" where
  "skip_ws s = dropWhile is_json_ws s"

definition simple_escape :: "char \<Rightarrow> char option" where
  "simple_escape c =
     (if c = CHR 0x22 \<or> c = CHR 0x5C \<or> c = CHR ''/'' then Some c
      else if c = CHR ''b'' then Some (CHR 0x08) else if c = CHR ''f'' then Some (CHR 0x0C)
      else if c = CHR ''n'' then Some (CHR 0x0A) else if c = CHR ''r'' then Some (CHR 0x0D)
      else if c = CHR ''t'' then Some (CHR 0x09) else None)"

definition hex4 :: "string \<Rightarrow> nat option" where
  "hex4 ds = (if length ds = 4 \<and> list_all (\<lambda>c. hex_value c \<noteq> None) ds
     then Some (foldl (\<lambda>n c. 16 * n + the (hex_value c)) 0 ds) else None)"

fun read_string :: "nat \<Rightarrow> string \<Rightarrow> (string \<times> string) parsed" where
  \<comment> \<open>after the opening quote: the text and what follows the closing quote; the number bounds the steps\<close>
  "read_string 0 s = Uncovered"
| "read_string (Suc k) s =
     (case s of
        [] \<Rightarrow> Malformed
      | c # r \<Rightarrow>
          if c = CHR 0x22 then Parsed ([], r)
          else if c = CHR 0x5C then
            (case r of
               [] \<Rightarrow> Malformed
             | e # t \<Rightarrow>
                 if e = CHR ''u''
                 then (case hex4 (take 4 t) of
                         None \<Rightarrow> Malformed
                       | Some n \<Rightarrow> if 255 < n then Uncovered
                                   else bindP (read_string k (drop 4 t)) (\<lambda>(u, w). Parsed (char_of n # u, w)))
                 else (case simple_escape e of
                         None \<Rightarrow> Malformed
                       | Some d \<Rightarrow> bindP (read_string k t) (\<lambda>(u, w). Parsed (d # u, w))))
          else if code c < 32 then Malformed
          else bindP (read_string k r) (\<lambda>(u, w). Parsed (c # u, w)))"

definition integer_part :: "string \<Rightarrow> string" where
  "integer_part u = (if starts_with ''0'' u then ''0'' else takeWhile is_digit u)"

definition not_an_integer :: "string \<Rightarrow> bool" where
  \<comment> \<open>after the digits a fraction or an exponent follows\<close>
  "not_an_integer r = (case r of
     c # d # _ \<Rightarrow> (c = CHR ''.'' \<and> is_digit d)
       \<or> ((c = CHR ''e'' \<or> c = CHR ''E'') \<and> (is_digit d
            \<or> ((d = CHR ''+'' \<or> d = CHR ''-'') \<and> list_ex is_digit (take 1 (drop 2 r)))))
   | _ \<Rightarrow> False)"

definition read_number :: "string \<Rightarrow> (pyval \<times> string) parsed" where
  "read_number s =
     (let neg = starts_with ''-'' s; u = (if neg then tl s else s);
          ds = integer_part u; r = drop (length ds) u
      in if ds = []
         then if starts_with ''Infinity'' u \<or> starts_with ''NaN'' s then Uncovered else Malformed
         else if not_an_integer r then Uncovered
         else if 4300 < length ds then Malformed
         else Parsed (PInt (if neg then - digits_value ds else digits_value ds), r))"

fun read_value :: "nat \<Rightarrow> string \<Rightarrow> (pyval \<times> string) parsed"
  and read_members :: "nat \<Rightarrow> (string \<times> pyval) list \<Rightarrow> string \<Rightarrow> (pyval \<times> string) parsed"
  and read_items :: "nat \<Rightarrow> pyval list \<Rightarrow> string \<Rightarrow> (pyval \<times> string) parsed" where
  "read_value 0 s = Uncovered"
| "read_value (Suc k) s =
     (case s of
        [] \<Rightarrow> Malformed
      | c # r \<Rightarrow>
          if c = CHR 0x22 then bindP (read_string (Suc (length r)) r) (\<lambda>(t, w). Parsed (PStr t, w))
          else if c = CHR ''{''
          then (if starts_with ''}'' (skip_ws r) then Parsed (PDict [], tl (skip_ws r)) else read_members k [] (skip_ws r))
          else if c = CHR ''[''
          then (if starts_with '']'' (skip_ws r) then Parsed (PList [], tl (skip_ws r)) else read_items k [] (skip_ws r))
          else if starts_with ''null'' s then Parsed (PNone, drop 4 s)
          else if starts_with ''true'' s then Parsed (PBool True, drop 4 s)
          else if starts_with ''false'' s then Parsed (PBool False, drop 5 s)
          else read_number s)"
| "read_members 0 d s = Uncovered"
| "read_members (Suc k) d s =
     (if \<not> starts_with [CHR 0x22] s then Malformed else
      bindP (read_string (Suc (length s)) (tl s)) (\<lambda>(key, r).
      if \<not> starts_with '':'' (skip_ws r) then Malformed else
      bindP (read_value k (skip_ws (tl (skip_ws r)))) (\<lambda>(v, w).
      let d' = dict_put d key v; w' = skip_ws w in
      if starts_with ''}'' w' then Parsed (PDict d', tl w')
      else if starts_with '','' w' then read_members k d' (skip_ws (tl w'))
      else Malformed)))"
| "read_items 0 xs s = Uncovered"
| "read_items (Suc k) xs s =
     bindP (read_value k s) (\<lambda>(v, w).
     let w' = skip_ws w in
     if starts_with '']'' w' then Parsed (PList (xs @ [v]), tl w')
     else if starts_with '','' w' then read_items k (xs @ [v]) (skip_ws (tl w'))
     else Malformed)"

definition json_loads :: "(string \<Rightarrow> pyval result) \<Rightarrow> string \<Rightarrow> pyval result" where
  \<comment> \<open>a \<^verbatim>\<open>JSONDecodeError\<close> is a \<^verbatim>\<open>ValueError\<close>\<close>
  "json_loads other s =
     (if list_ex (\<lambda>c. code c = 0 \<or> 128 \<le> code c) s then other s
      else case bindP (read_value (Suc (length s)) (skip_ws s))
             (\<lambda>(v, r). if skip_ws r = [] then Parsed v else Malformed) of
        Parsed v \<Rightarrow> Inr v | Malformed \<Rightarrow> Inl (ValueError ''JSONDecodeError'') | Uncovered \<Rightarrow> other s)"

section \<open>Reading back what dumps writes\<close>

lemma char_eq_code: "c = d \<longleftrightarrow> code c = code d"
  by (auto simp: code_def dest: arg_cong [of _ _ char_of])

lemma hex4_value: "n < 256 \<Longrightarrow> hex4 ([CHR ''0'', CHR ''0''] @ hex2 n) = Some n"
proof -
  assume n: "n < 256"
  have "hex_value (CHR ''0'') = Some 0" by (simp add: hex_value_def is_digit_def code_def)
  moreover have "n div 16 mod 16 * 16 + n mod 16 = n" using n by (simp add: less_mult_imp_div_less)
  ultimately show ?thesis
    by (simp add: hex4_def hex2_def hex_value_digit mult.commute)
qed

lemma read_string_char:
  "read_string (Suc k) (json_char True c @ r) = bindP (read_string k r) (\<lambda>(u, w). Parsed (c # u, w))"
proof -
  consider "code c = 34 \<or> code c = 92" | "code c \<in> {10, 13, 9, 12, 8}"
    | "code c < 32 \<or> 126 < code c" "code c \<notin> {34, 92, 10, 13, 9, 12, 8}"
    | "32 \<le> code c" "code c \<le> 126" "code c \<noteq> 34" "code c \<noteq> 92" by force
  then show ?thesis
  proof cases
    case 1
    then show ?thesis by (auto simp: json_char_def simple_escape_def char_eq_code code_def)
  next
    case 2
    then have "c \<in> {CHR 0x0A, CHR 0x0D, CHR 0x09, CHR 0x0C, CHR 0x08}"
      by (auto simp: char_eq_code) (simp_all add: code_def)
    then show ?thesis by (auto simp: json_char_def simple_escape_def code_def)
  next
    case 3
    then have char: "json_char True c = CHR 0x5C # CHR ''u'' # [CHR ''0'', CHR ''0''] @ hex2 (code c)"
      by (auto simp: json_char_def Let_def)
    have byte: "\<not> 255 < code c" using code_less [of c] by linarith
    have len: "length (hex2 (code c)) = 2" by (simp add: hex2_def)
    have "take 4 (([CHR ''0'', CHR ''0''] @ hex2 (code c)) @ r) = [CHR ''0'', CHR ''0''] @ hex2 (code c)"
      "drop 4 (([CHR ''0'', CHR ''0''] @ hex2 (code c)) @ r) = r"
      using len by simp_all
    then show ?thesis
      using hex4_value [OF code_less [of c]] byte
      by (simp only: char append_Cons read_string.simps list.case if_True if_False option.case)
        (simp add: char_of_code)
  next
    case 4
    then show ?thesis by (auto simp: json_char_def char_eq_code code_def)
  qed
qed

lemma read_string_text: "length s < k \<Longrightarrow> read_string k (concat (map (json_char True) s) @ CHR 0x22 # t) = Parsed (s, t)"
proof (induction s arbitrary: k)
  case Nil
  then show ?case by (cases k) simp_all
next
  case (Cons c s)
  then obtain m where "k = Suc m" "length s < m" by (cases k) auto
  with Cons.IH [of m] show ?case
    by (simp add: read_string_char del: read_string.simps)
qed

lemma digits_value_snoc: "digits_value (s @ [c]) = 10 * digits_value s + int (digit_value c)"
  by (simp add: digits_value_def)

lemma digits_value_digits: "digits_value (digits n) = int n"
proof (induction n rule: digits.induct)
  case (1 n)
  show ?case
  proof (cases "n < 10")
    case True
    then show ?thesis by (subst digits.simps) (simp add: digits_value_def digit_value_digit)
  next
    case False
    then have "10 * int (n div 10) + int (n mod 10) = int n"
      by presburger
    with False show ?thesis using 1 by (subst digits.simps) (simp add: digits_value_snoc digit_value_digit)
  qed
qed

lemma digits_zero: "digits 0 = ''0''"
  by (subst digits.simps) (simp add: char_eq_code code_char_of, simp add: code_def)

lemma hd_digits: "0 < n \<Longrightarrow> hd (digits n) \<noteq> CHR ''0''"
proof (induction n rule: digits.induct)
  case (1 n)
  show ?case
  proof (cases "n < 10")
    case True
    with 1(2) show ?thesis by (subst digits.simps) (simp add: char_eq_code code_char_of, simp add: code_def)
  next
    case False
    then show ?thesis using 1 by (subst digits.simps) simp
  qed
qed

lemma length_digits: "n < 10 ^ Suc k \<Longrightarrow> length (digits n) \<le> Suc k"
proof (induction k arbitrary: n)
  case 0
  then show ?case by (subst digits.simps) simp
next
  case (Suc k)
  show ?case
  proof (cases "n < 10")
    case True
    then show ?thesis by (subst digits.simps) simp
  next
    case False
    have "n div 10 < 10 ^ Suc k"
      using Suc.prems by (simp add: less_mult_imp_div_less mult.commute)
    from Suc.IH [OF this] False show ?thesis by (subst digits.simps) simp
  qed
qed

definition number_ends :: "string \<Rightarrow> bool" where
  "number_ends t = (t = [] \<or> (\<not> is_digit (hd t) \<and> hd t \<noteq> CHR ''.'' \<and> hd t \<noteq> CHR ''e'' \<and> hd t \<noteq> CHR ''E''))"

lemma read_number_int:
  assumes "\<bar>i\<bar> < 10 ^ Suc k" "k < 4300" "number_ends t"
  shows "read_number (str_int i @ t) = Parsed (PInt i, t)"
proof -
  define n where "n = nat \<bar>i\<bar>"
  have dig: "is_digit c \<Longrightarrow> c \<noteq> CHR ''-''" for c by (auto simp: is_digit_def code_def)
  have ds: "digits n \<noteq> []" "is_digit (hd (digits n))"
    using digits_digits [of n] by (simp_all add: list.set_sel(1))
  have prefix: "takeWhile is_digit (digits n @ t) = digits n"
    using digits_digits [of n] assms(3) by (cases t) (auto simp: takeWhile_append number_ends_def)
  have zero: "starts_with ''0'' (digits n @ t) \<longleftrightarrow> n = 0"
  proof (cases "n = 0")
    case True
    then show ?thesis by (simp add: digits_zero starts_with_def)
  next
    case False
    with hd_digits [of n] ds(1) show ?thesis by (cases "digits n") (auto simp: starts_with_def)
  qed
  have digits: "integer_part (digits n @ t) = digits n"
    using prefix zero by (cases "n = 0") (simp_all add: digits_zero integer_part_def)
  have small: "length (digits n) \<le> 4300"
  proof -
    have "n < 10 ^ Suc k"
      using assms(1) unfolding n_def by (simp del: power_Suc add: nat_less_iff)
    from length_digits [OF this] assms(2) show ?thesis by simp
  qed
  have tail: "\<not> not_an_integer t"
    using assms(3) by (auto simp: number_ends_def not_an_integer_def split: list.splits)
  have unsigned: "read_number (digits n @ t) = Parsed (PInt (int n), t)"
  proof -
    have "\<not> starts_with ''-'' (digits n @ t)"
      using ds dig by (cases "digits n") (auto simp: starts_with_def)
    then show ?thesis
      using small tail ds(1) by (simp add: read_number_def Let_def digits digits_value_digits)
  qed
  show ?thesis
  proof (cases "i < 0")
    case True
    have minus: "starts_with ''-'' (CHR ''-'' # digits n @ t)"
      by (simp add: starts_with_def)
    have "read_number (CHR ''-'' # digits n @ t) = Parsed (PInt (- int n), t)"
      using small tail ds(1) by (simp add: read_number_def Let_def minus digits digits_value_digits)
    with True show ?thesis by (simp add: str_int_def n_def)
  next
    case False
    with unsigned show ?thesis by (simp add: str_int_def n_def)
  qed
qed

declare read_string.simps(2) [simp del]

section \<open>A flat object is read back, its keys sorted\<close>

definition json_scalar :: "pyval \<Rightarrow> bool" where
  "json_scalar v = (case v of PNone \<Rightarrow> True | PBool b \<Rightarrow> True | PStr s \<Rightarrow> True | PInt i \<Rightarrow> \<bar>i\<bar> < 10 ^ 18 | _ \<Rightarrow> False)"

lemma length_json_text: "length s \<le> length (concat (map (json_char True) s))"
proof (induction s)
  case (Cons c s)
  have "1 \<le> length (json_char True c)" by (simp add: json_char_def Let_def del: length_greater_0_conv)
  then have "Suc (length s) \<le> length (json_char True c) + length (concat (map (json_char True) s))"
    using Cons.IH by linarith
  then show ?case by simp
qed simp

lemma digit_not: "is_digit c \<Longrightarrow> c \<notin> {CHR 0x22, CHR ''{'', CHR ''['', CHR ''n'', CHR ''t'', CHR ''f''} \<and> \<not> is_json_ws c"
  by (auto simp: is_digit_def is_json_ws_def code_def)

lemma str_int_head:
  obtains c r where "str_int i = c # r" "c \<notin> {CHR 0x22, CHR ''{'', CHR ''['', CHR ''n'', CHR ''t'', CHR ''f''}" "\<not> is_json_ws c"
proof (cases "i < 0")
  case True
  then show thesis by (intro that [of "CHR ''-''" "digits (nat (- i))"]) (simp_all add: str_int_def is_json_ws_def code_def)
next
  case False
  obtain c r where cr: "digits (nat i) = c # r" by (cases "digits (nat i)") auto
  then have "is_digit c" using digits_digits [of "nat i"] by simp
  with cr False digit_not [of c] show thesis by (intro that [of c r]) (simp_all add: str_int_def)
qed

lemma skip_ws_stop: "\<not> is_json_ws c \<Longrightarrow> skip_ws (c # r) = c # r"
  by (simp add: skip_ws_def)

lemma skip_ws_scalar: "json_scalar v \<Longrightarrow> skip_ws (json_dumps True v @ t) = json_dumps True v @ t"
proof -
  have "skip_ws (str_int i @ t) = str_int i @ t" for i
    by (rule str_int_head [of i]) (simp add: skip_ws_stop)
  then show "json_scalar v \<Longrightarrow> ?thesis"
    by (auto simp: json_scalar_def json_str_def skip_ws_def is_json_ws_def code_def split: pyval.splits)
qed

lemma read_value_scalar:
  assumes "json_scalar v" "number_ends t"
  shows "read_value (Suc k) (json_dumps True v @ t) = Parsed (v, t)"
proof (cases v)
  case (PStr s)
  have "read_string (Suc (length (concat (map (json_char True) s) @ CHR 0x22 # t))) (concat (map (json_char True) s) @ CHR 0x22 # t)
      = Parsed (s, t)"
    by (rule read_string_text) (use length_json_text [of s] in simp)
  with PStr show ?thesis by (simp add: json_str_def)
next
  case (PInt i)
  obtain c r where c: "str_int i = c # r" "c \<notin> {CHR 0x22, CHR ''{'', CHR ''['', CHR ''n'', CHR ''t'', CHR ''f''}"
    by (rule str_int_head [of i])
  then have "\<not> starts_with ''null'' (str_int i @ t)" "\<not> starts_with ''true'' (str_int i @ t)" "\<not> starts_with ''false'' (str_int i @ t)"
    by (auto simp: starts_with_def)
  moreover have "read_number (str_int i @ t) = Parsed (PInt i, t)"
    using assms PInt by (intro read_number_int [of i 17]) (simp_all add: json_scalar_def)
  ultimately show ?thesis using PInt c by simp
qed (use assms in \<open>auto simp: json_scalar_def starts_with_def\<close>)

lemma sort_key_map: "map f (sort_key (\<lambda>x. g (f x)) xs) = sort_key g (map f xs)"
proof -
  have "map f (insort_key (\<lambda>x. g (f x)) x ys) = insort_key g (f x) (map f ys)" for x ys
    by (induction ys) auto
  then show ?thesis by (induction xs) auto
qed

definition json_entry :: "string \<times> pyval \<Rightarrow> string" where
  "json_entry kv = json_str True (fst kv) @ '':'' @ json_dumps True (snd kv)"

lemma json_dumps_entries: "json_dumps True (PDict kvs) = ''{'' @ join '','' (map json_entry (sort_key fst kvs)) @ ''}''"
proof -
  have "sort_key fst (map (\<lambda>(k, v). (k, json_dumps True v)) kvs) = map (\<lambda>(k, v). (k, json_dumps True v)) (sort_key fst kvs)"
    using sort_key_map [of "\<lambda>(k, v). (k, json_dumps True v)" fst kvs] by (simp add: case_prod_beta)
  then show ?thesis
    by (simp add: json_entry_def [abs_def] case_prod_beta comp_def)
qed

lemma read_entry:
  assumes "json_scalar v" "number_ends t" "0 < k"
  shows "read_members (Suc k) d (json_entry (key, v) @ t) =
     (let d' = dict_put d key v; w' = skip_ws t in
      if starts_with ''}'' w' then Parsed (PDict d', tl w')
      else if starts_with '','' w' then read_members k d' (skip_ws (tl w')) else Malformed)"
proof -
  let ?r = "concat (map (json_char True) key) @ CHR 0x22 # CHR '':'' # json_dumps True v @ t"
  have shape: "json_entry (key, v) @ t = CHR 0x22 # ?r"
    by (simp add: json_entry_def json_str_def)
  have "read_string (Suc (length (CHR 0x22 # ?r))) ?r = Parsed (key, CHR '':'' # json_dumps True v @ t)"
    by (rule read_string_text) (use length_json_text [of key] in simp)
  moreover have "skip_ws (CHR '':'' # r) = CHR '':'' # r" for r
    by (simp add: skip_ws_def is_json_ws_def code_def)
  moreover have "read_value k (json_dumps True v @ t) = Parsed (v, t)"
    using read_value_scalar [OF assms(1,2), of "k - 1"] assms(3) by simp
  ultimately show ?thesis
    using skip_ws_scalar [OF assms(1)] by (simp only: shape read_members.simps) (simp add: starts_with_def Let_def)
qed

lemma join_cons: "join sep (x # xs) = x @ (if xs = [] then [] else sep @ join sep xs)"
  by (cases xs) simp_all

lemma read_entries:
  assumes "kvs \<noteq> []" "list_all (\<lambda>kv. json_scalar (snd kv)) kvs" "distinct (map fst (d @ kvs))" "length kvs < k"
  shows "read_members k d (join '','' (map json_entry kvs) @ ''}'' @ t) = Parsed (PDict (d @ kvs), t)"
  using assms
proof (induction kvs arbitrary: k d)
  case (Cons kv kvs)
  obtain key v where kv: "kv = (key, v)" by (cases kv)
  obtain m where m: "k = Suc m" "length kvs < m" "0 < m" using Cons.prems(4) by (cases k) auto
  have put: "dict_put d key v = d @ [(key, v)]"
    using Cons.prems(3) by (simp add: dict_put_def kv update_nonempty AList.update_def) (induction d, auto)
  have ends: "number_ends (CHR ''}'' # r)" "number_ends (CHR '','' # r)" for r
    by (simp_all add: number_ends_def is_digit_def code_def)
  have stop: "skip_ws (CHR ''}'' # r) = CHR ''}'' # r" "skip_ws (CHR '','' # r) = CHR '','' # r"
    "skip_ws (json_entry e @ r) = json_entry e @ r" for r e
    by (simp_all add: skip_ws_def is_json_ws_def code_def json_entry_def json_str_def)
  have scalar: "json_scalar v" using Cons.prems(2) by (simp add: kv)
  show ?case
  proof (cases "kvs = []")
    case True
    then show ?thesis
      using read_entry [OF scalar ends(1) m(3), of d key t] by (simp add: kv m(1) put stop starts_with_def Let_def)
  next
    case False
    then obtain e es where e: "kvs = e # es" by (cases kvs) auto
    have "read_members m (d @ [(key, v)]) (join '','' (map json_entry kvs) @ ''}'' @ t) = Parsed (PDict ((d @ [(key, v)]) @ kvs), t)"
      by (rule Cons.IH) (use False Cons.prems m in \<open>simp_all add: kv\<close>)
    then show ?thesis
      using read_entry [OF scalar ends(2) m(3), of d key "join '','' (map json_entry kvs) @ ''}'' @ t"]
      by (simp add: kv m(1) put stop starts_with_def Let_def e join_cons)
  qed
qed simp

definition plain_ascii :: "string \<Rightarrow> bool" where
  "plain_ascii s = list_all (\<lambda>c. 0 < code c \<and> code c < 128) s"

lemma plain_ascii_simps [simp]:
  "plain_ascii []" "plain_ascii (c # s) \<longleftrightarrow> 0 < code c \<and> code c < 128 \<and> plain_ascii s"
  "plain_ascii (s @ t) \<longleftrightarrow> plain_ascii s \<and> plain_ascii t"
  by (simp_all add: plain_ascii_def)

lemma plain_ascii_join: "list_all plain_ascii xs \<Longrightarrow> plain_ascii sep \<Longrightarrow> plain_ascii (join sep xs)"
  by (induction sep xs rule: join.induct) simp_all

lemma plain_ascii_str_int: "plain_ascii (str_int i)"
proof -
  have "plain_ascii (digits n)" for n
    using digits_digits [of n] by (auto simp: plain_ascii_def list_all_iff is_digit_def)
  then show ?thesis by (simp add: str_int_def code_def)
qed

lemma plain_ascii_json_char: "plain_ascii (json_char True c)"
proof -
  have digit: "0 < code (hex_digit n) \<and> code (hex_digit n) < 128" if "n < 16" for n
    using that by (auto simp: hex_digit_def code_char_of)
  have hex: "plain_ascii (hex2 (code c))"
    using digit [of "code c div 16 mod 16"] digit [of "code c mod 16"] by (simp add: hex2_def plain_ascii_def)
  have lits: "plain_ascii [CHR 0x5C, CHR ''n'']" "plain_ascii [CHR 0x5C, CHR ''r'']" "plain_ascii [CHR 0x5C, CHR ''t'']" "plain_ascii [CHR 0x5C, CHR ''f'']"
    "plain_ascii [CHR 0x5C, CHR ''b'']" "plain_ascii [CHR 0x5C, CHR ''u'', CHR ''0'', CHR ''0'']" "plain_ascii [CHR 0x5C]"
    by (simp_all add: plain_ascii_def code_def)
  have esc: "plain_ascii [CHR 0x5C, c]" if "code c = 34 \<or> code c = 92" using that by (auto simp: plain_ascii_def code_def)
  have u: "plain_ascii ([CHR 0x5C, CHR ''u'', CHR ''0'', CHR ''0''] @ hex2 (code c))"
    by (simp only: plain_ascii_def list_all_append) (simp add: lits(6) [unfolded plain_ascii_def, simplified] hex [unfolded plain_ascii_def])
  show ?thesis
    unfolding json_char_def Let_def
    by (simp only: lits u esc split: if_split) (auto simp: plain_ascii_def code_def)
qed

lemma plain_ascii_json_str: "plain_ascii (json_str True s)"
proof -
  have "plain_ascii (concat (map (json_char True) s))"
    by (induction s) (simp_all add: plain_ascii_json_char)
  then show ?thesis by (simp add: json_str_def code_def)
qed

lemma plain_ascii_scalar: "json_scalar v \<Longrightarrow> plain_ascii (json_dumps True v)"
  by (cases v) (auto simp: json_scalar_def plain_ascii_str_int plain_ascii_json_str, auto simp: code_def)

lemma plain_ascii_entry: "json_scalar v \<Longrightarrow> plain_ascii (json_entry (k, v))"
  by (simp add: json_entry_def plain_ascii_json_str plain_ascii_scalar, simp add: code_def)

lemma plain_ascii_object:
  assumes "list_all (\<lambda>kv. json_scalar (snd kv)) kvs"
  shows "plain_ascii (json_dumps True (PDict kvs))"
proof -
  have "list_all plain_ascii (map json_entry (sort_key fst kvs))"
    using assms plain_ascii_entry by (auto simp: list_all_iff)
  from plain_ascii_join [OF this, of "'',''"] show ?thesis
    by (simp add: json_dumps_entries del: json_dumps.simps, simp add: code_def)
qed

lemma utf8_plain: "plain_ascii s \<Longrightarrow> utf8 s = s"
  by (induction s) (simp_all add: utf8_def Let_def)

lemma length_entries: "length kvs \<le> length (join '','' (map json_entry kvs))"
  by (induction kvs) (auto simp: join_cons json_entry_def json_str_def)

text \<open>What \<^verbatim>\<open>dumps\<close> with sorted keys writes for an object of scalars, \<^verbatim>\<open>loads\<close> reads back with the keys in order.\<close>

lemma json_loads_dumps:
  assumes "list_all (\<lambda>kv. json_scalar (snd kv)) kvs" "distinct (map fst kvs)"
  shows "json_loads other (json_dumps True (PDict kvs)) = Inr (PDict (sort_key fst kvs))"
proof -
  let ?e = "sort_key fst kvs" and ?s = "json_dumps True (PDict kvs)"
  have plain: "\<not> list_ex (\<lambda>c. code c = 0 \<or> 128 \<le> code c) ?s"
    using plain_ascii_object [OF assms(1)] unfolding plain_ascii_def list_ex_iff list_all_iff by (metis not_le less_irrefl)
  have shape: "?s = CHR ''{'' # join '','' (map json_entry ?e) @ ''}''"
    by (simp add: json_dumps_entries del: json_dumps.simps)
  have skip: "skip_ws ?s = ?s"
    unfolding shape by (simp add: skip_ws_def is_json_ws_def code_def)
  have scalars: "list_all (\<lambda>kv. json_scalar (snd kv)) ?e" "distinct (map fst ?e)"
    using assms by (simp_all add: list_all_iff distinct_map distinct_sort)
  have "read_value (Suc (length ?s)) ?s = Parsed (PDict ?e, [])"
  proof (cases "?e = []")
    case True
    then show ?thesis unfolding shape by (simp add: skip_ws_def is_json_ws_def code_def starts_with_def)
  next
    case False
    then obtain kv r where kv: "?e = kv # r" by (cases ?e) auto
    then have first: "skip_ws (join '','' (map json_entry ?e) @ ''}'') = join '','' (map json_entry ?e) @ ''}''"
      "\<not> starts_with ''}'' (join '','' (map json_entry ?e) @ ''}'')"
      by (simp_all add: join_cons json_entry_def json_str_def skip_ws_def is_json_ws_def code_def starts_with_def)
    have "read_members (length ?s) [] (join '','' (map json_entry ?e) @ ''}'' @ []) = Parsed (PDict ([] @ ?e), [])"
      by (rule read_entries) (use False scalars length_entries [of ?e] in \<open>simp_all add: shape del: json_dumps.simps\<close>)
    with first show ?thesis unfolding shape by simp
  qed
  then show ?thesis
    using plain skip by (simp add: json_loads_def skip_ws_def del: json_dumps.simps)
qed

lemma map_of_sorted: "distinct (map fst kvs) \<Longrightarrow> map_of (sort_key fst kvs) k = map_of kvs k"
  by (rule fun_cong [OF map_of_inject_set [THEN iffD2]]) (simp_all add: distinct_map distinct_sort)

end
