(* ===== verification/SignedTokens.thy ===== *)
theory SignedTokens
  imports Base64Text JsonText Sha256
begin

text \<open>
  The signed tokens of the API: capability tokens (\<^verbatim>\<open>capability_tokens.py\<close>) and identity assertions
  (\<^verbatim>\<open>identity.py\<close>). A token is \<^verbatim>\<open>v1.payload.signature\<close>, the payload a JSON object in URL-safe base64 and the
  signature an HMAC-SHA256 of what stands before it. Two things the library does are parameters:
  \<open>other\<close>, what \<^verbatim>\<open>json.loads\<close> does with bytes the reader of \<^verbatim>\<open>JsonText\<close> does not cover, and \<open>far\<close>, the
  exception \<^verbatim>\<open>datetime.fromtimestamp\<close> raises for an instant outside the years 1 to 9999.
\<close>

section \<open>Instants\<close>

definition second :: int where
  "second = 1000000"

definition instant_ok :: "int \<Rightarrow> bool" where
  "instant_ok t = (-62135596800000000 \<le> t \<and> t \<le> 253402300799999999)"

definition dt_shift :: "int \<Rightarrow> int \<Rightarrow> int result" where
  \<comment> \<open>\<^verbatim>\<open>t + timedelta(seconds=s)\<close>\<close>
  "dt_shift t s = (if instant_ok (t + s * second) then Inr (t + s * second) else Inl (OverflowError ''date value out of range''))"

definition from_timestamp :: "(int \<Rightarrow> py_error) \<Rightarrow> int \<Rightarrow> int result" where
  \<comment> \<open>\<^verbatim>\<open>datetime.fromtimestamp(s, tz=UTC)\<close>\<close>
  "from_timestamp far s = (if instant_ok (s * second) then Inr (s * second) else Inl (far s))"

fun power_below :: "nat \<Rightarrow> nat" where
  \<comment> \<open>the greatest power of two that is not above a positive number\<close>
  "power_below n = (if n < 2 then n else 2 * power_below (n div 2))"

declare power_below.simps [simp del]

definition int_timestamp :: "int \<Rightarrow> int" where
  \<comment> \<open>\<^verbatim>\<open>int(t.timestamp())\<close>: the seconds rounded to a double, then cut towards zero\<close>
  "int_timestamp t =
     (let q = nat \<bar>t\<bar> div 1000000; r = nat \<bar>t\<bar> mod 1000000;
          n = (if (1000000 - r) * 2 ^ 53 \<le> 1000000 * power_below q then q + 1 else q)
      in if t < 0 then - int n else int n)"

definition whole_second :: "int \<Rightarrow> int" where
  \<comment> \<open>\<^verbatim>\<open>t.replace(microsecond=0)\<close>\<close>
  "whole_second t = t - t mod second"

lemma power_below_le: "power_below n \<le> n"
proof (induction n rule: power_below.induct)
  case (1 n)
  then show ?case by (subst power_below.simps) auto
qed

lemma int_timestamp_whole:
  assumes "instant_ok (s * second)"
  shows "int_timestamp (s * second) = s"
proof -
  have abs: "nat \<bar>s * second\<bar> = nat \<bar>s\<bar> * 1000000"
    by (simp add: second_def abs_mult nat_mult_distrib)
  have "nat \<bar>s\<bar> < 2 ^ 53"
    using assms unfolding instant_ok_def second_def by (simp add: nat_less_iff) linarith
  with power_below_le [of "nat \<bar>s\<bar>"] have "\<not> 2 ^ 53 \<le> power_below (nat \<bar>s\<bar>)" by linarith
  moreover have "nat \<bar>s * second\<bar> div 1000000 = nat \<bar>s\<bar>" "nat \<bar>s * second\<bar> mod 1000000 = 0"
    unfolding abs by simp_all
  moreover have "s * second < 0 \<longleftrightarrow> s < 0"
    by (simp add: second_def mult_less_0_iff)
  ultimately show ?thesis
    unfolding int_timestamp_def Let_def by (cases "s < 0") simp_all
qed

lemma whole_second_div: "whole_second t = t div second * second"
  by (simp add: whole_second_def minus_mod_eq_div_mult)

section \<open>Signing and opening a token\<close>

definition ascii_encode :: "string \<Rightarrow> string result" where
  "ascii_encode s = (if list_ex (\<lambda>c. 128 \<le> code c) s then Inl (ValueError ''ascii codec cannot encode'') else Inr s)"

definition token_signature :: "string \<Rightarrow> string \<Rightarrow> string" where
  "token_signature secret input = hmac_sha256 (utf8 secret) input"

definition signed_token :: "string \<Rightarrow> pyval \<Rightarrow> string" where
  "signed_token secret payload =
     (let encoded = b64url_encode (utf8 (json_dumps True payload)); input = ''v1.'' @ encoded
      in input @ ''.'' @ b64url_encode (token_signature secret input))"

definition token_parts :: "string \<Rightarrow> (string \<times> string \<times> string) option" where
  \<comment> \<open>\<^verbatim>\<open>a, b, c = token.split(".", 2)\<close>\<close>
  "token_parts t =
     (case dropWhile (\<lambda>c. c \<noteq> CHR ''.'') t of
        [] \<Rightarrow> None
      | _ # r \<Rightarrow>
          (case dropWhile (\<lambda>c. c \<noteq> CHR ''.'') r of
             [] \<Rightarrow> None
           | _ # u \<Rightarrow> Some (takeWhile (\<lambda>c. c \<noteq> CHR ''.'') t, takeWhile (\<lambda>c. c \<noteq> CHR ''.'') r, u)))"

definition open_token :: "string \<Rightarrow> string \<Rightarrow> string \<Rightarrow> string result" where
  \<comment> \<open>the encoded payload of a token whose signature verifies; the first argument names the kind of token\<close>
  "open_token kind secret token =
     (case token_parts token of
        None \<Rightarrow> Inl (ValueError (''Malformed '' @ kind))
      | Some (version, encoded, supplied_signature) \<Rightarrow>
          if version \<noteq> ''v1'' then Inl (ValueError (''Unsupported '' @ kind @ '' version''))
          else bindE (ascii_encode (version @ ''.'' @ encoded)) (\<lambda>input.
            case b64url_decode supplied_signature of
              Inl _ \<Rightarrow> Inl (ValueError (''Malformed '' @ kind @ '' signature''))
            | Inr supplied \<Rightarrow>
                if token_signature secret input \<noteq> supplied
                then Inl (ValueError (''Invalid '' @ kind @ '' signature''))
                else Inr encoded))"

lemma ascii_encode_ok: "list_all (\<lambda>c. code c < 128) s \<Longrightarrow> ascii_encode s = Inr s"
  unfolding ascii_encode_def list_ex_iff list_all_iff by (simp add: not_le)

lemma before_dot: "list_all (\<lambda>c. c \<noteq> CHR ''.'') a \<Longrightarrow>
    takeWhile (\<lambda>c. c \<noteq> CHR ''.'') (a @ CHR ''.'' # b) = a \<and> dropWhile (\<lambda>c. c \<noteq> CHR ''.'') (a @ CHR ''.'' # b) = CHR ''.'' # b"
  by (induction a) auto

lemma token_parts_join:
  assumes "list_all (\<lambda>c. c \<noteq> CHR ''.'') a" "list_all (\<lambda>c. c \<noteq> CHR ''.'') b"
  shows "token_parts (a @ CHR ''.'' # b @ CHR ''.'' # c) = Some (a, b, c)"
  using before_dot [OF assms(1), of "b @ CHR ''.'' # c"] before_dot [OF assms(2), of c]
  by (simp add: token_parts_def)

lemma token_parts_shape:
  assumes "token_parts t = Some (a, b, c)"
  shows "t = a @ CHR ''.'' # b @ CHR ''.'' # c" "CHR ''.'' \<notin> set a" "CHR ''.'' \<notin> set b"
proof -
  have cut: "s = takeWhile (\<lambda>c. c \<noteq> CHR ''.'') s @ CHR ''.'' # r"
    if "dropWhile (\<lambda>c. c \<noteq> CHR ''.'') s = d # r" for s d r
    using takeWhile_dropWhile_id [of "\<lambda>c. c \<noteq> CHR ''.''" s] that hd_dropWhile [of "\<lambda>c. c \<noteq> CHR ''.''" s] by simp
  show "t = a @ CHR ''.'' # b @ CHR ''.'' # c" "CHR ''.'' \<notin> set a" "CHR ''.'' \<notin> set b"
    using assms cut by (auto simp: token_parts_def dest: set_takeWhileD split: list.splits)
qed

text \<open>A token that opens was signed: its signature part decodes to the HMAC of its first two parts.\<close>

lemma open_tokenD:
  assumes "open_token kind secret token = Inr encoded"
  obtains signature where "token = ''v1.'' @ encoded @ ''.'' @ signature"
    "b64url_decode signature = Inr (token_signature secret (''v1.'' @ encoded))"
    "list_all (\<lambda>c. code c < 128 \<and> c \<noteq> CHR ''.'') encoded"
proof -
  obtain v e signature where parts: "token_parts token = Some (v, e, signature)"
    using assms by (cases "token_parts token") (auto simp: open_token_def)
  have v: "v = ''v1''"
    using assms by (simp add: open_token_def parts split: if_split_asm)
  obtain input where ascii: "ascii_encode (v @ ''.'' @ e) = Inr input"
    using assms by (cases "ascii_encode (v @ ''.'' @ e)") (simp_all add: open_token_def parts v)
  then have input: "input = v @ ''.'' @ e"
    by (simp add: ascii_encode_def split: if_split_asm)
  obtain supplied where sig: "b64url_decode signature = Inr supplied"
    using assms ascii by (cases "b64url_decode signature") (simp_all add: open_token_def parts v)
  have e: "supplied = token_signature secret input" "e = encoded"
    using assms ascii by (simp_all add: open_token_def parts v sig split: if_split_asm)
  have "list_all (\<lambda>c. code c < 128 \<and> c \<noteq> CHR ''.'') encoded"
    using ascii token_parts_shape(3) [OF parts]
    by (auto simp: ascii_encode_def list_ex_iff list_all_iff e(2) not_le split: if_split_asm)
  with token_parts_shape(1) [OF parts] sig show thesis
    by (intro that [of signature]) (simp_all add: v e input)
qed

lemma open_signed:
  "open_token kind secret (signed_token secret payload) = Inr (b64url_encode (utf8 (json_dumps True payload)))"
proof -
  let ?e = "b64url_encode (utf8 (json_dumps True payload))"
  have ascii: "list_all (\<lambda>c. code c < 128 \<and> c \<noteq> CHR ''.'') ?e"
    by (rule encode_ascii)
  have parts: "token_parts (signed_token secret payload)
      = Some (''v1'', ?e, b64url_encode (token_signature secret (''v1.'' @ ?e)))"
    using token_parts_join [of "''v1''" ?e] ascii by (simp add: signed_token_def Let_def list_all_iff)
  have "ascii_encode (''v1'' @ ''.'' @ ?e) = Inr (''v1'' @ ''.'' @ ?e)"
  proof (rule ascii_encode_ok)
    have "list_all (\<lambda>c. code c < 128) ''v1.''" by (simp add: code_def)
    then show "list_all (\<lambda>c. code c < 128) (''v1'' @ ''.'' @ ?e)"
      using ascii by (simp add: list_all_iff)
  qed
  then show ?thesis
    by (simp add: open_token_def parts b64_roundtrip)
qed

section \<open>Capability tokens\<close>

record capability_grant =
  cg_tenant_id :: string
  cg_reservation_id :: string
  cg_operation_id :: string
  cg_capability :: string
  cg_issued_at :: int
  cg_expires_at :: int

definition build_capability_token ::
    "string \<Rightarrow> string \<Rightarrow> string \<Rightarrow> string \<Rightarrow> string \<Rightarrow> int \<Rightarrow> int \<Rightarrow> string result" where
  "build_capability_token secret tenant_id reservation_id operation_id capability ttl_seconds now =
     (if length (utf8 secret) < 32 then Inl (ValueError ''Capability token secret must be at least 32 bytes'')
      else if \<not> (1 \<le> ttl_seconds \<and> ttl_seconds \<le> 300)
      then Inl (ValueError ''Capability token TTL is outside the allowed range'')
      else let issued_at = whole_second now in
        bindE (dt_shift issued_at ttl_seconds) (\<lambda>expires_at.
        Inr (signed_token secret (PDict
          [(''aud'', PStr ''axignal-capability''), (''tenant_id'', PStr tenant_id),
           (''reservation_id'', PStr reservation_id), (''operation_id'', PStr operation_id),
           (''capability'', PStr capability), (''iat'', PInt (int_timestamp issued_at)),
           (''exp'', PInt (int_timestamp expires_at))]))))"

definition py_int :: "pyval \<Rightarrow> int result" where
  \<comment> \<open>\<^verbatim>\<open>int(v)\<close>\<close>
  "py_int v = (case v of
     PInt i \<Rightarrow> Inr i
   | PBool b \<Rightarrow> Inr (if b then 1 else 0)
   | PFloat r \<Rightarrow> (case decimal_value r of Some x \<Rightarrow> Inr (if x < 0 then - floor (- x) else floor x)
                 | None \<Rightarrow> Inl (ValueError ''cannot convert float to integer''))
   | PStr s \<Rightarrow> (case parse_int s of Some i \<Rightarrow> Inr i | None \<Rightarrow> Inl (ValueError ''invalid literal for int()''))
   | _ \<Rightarrow> Inl (TypeError ''int() argument''))"

definition read_grant :: "(int \<Rightarrow> py_error) \<Rightarrow> pyval \<Rightarrow> capability_grant result" where
  "read_grant far payload =
     bindE (bindE (py_item payload ''tenant_id'') uuid_of) (\<lambda>tenant_id.
     bindE (bindE (py_item payload ''reservation_id'') uuid_of) (\<lambda>reservation_id.
     bindE (py_item payload ''operation_id'') (\<lambda>operation_id.
     bindE (py_item payload ''capability'') (\<lambda>capability.
     bindE (bindE (bindE (py_item payload ''iat'') py_int) (from_timestamp far)) (\<lambda>issued_at.
     bindE (bindE (bindE (py_item payload ''exp'') py_int) (from_timestamp far)) (\<lambda>expires_at.
     Inr \<lparr>cg_tenant_id = tenant_id, cg_reservation_id = reservation_id, cg_operation_id = py_str operation_id,
          cg_capability = py_str capability, cg_issued_at = issued_at, cg_expires_at = expires_at\<rparr>))))))"

definition malformed_payload :: "'a result \<Rightarrow> 'a result" where
  \<comment> \<open>\<^verbatim>\<open>except (KeyError, TypeError, ValueError, json.JSONDecodeError)\<close>; other exceptions pass\<close>
  "malformed_payload m = (case m of
     Inl (KeyError _) \<Rightarrow> Inl (ValueError ''Malformed capability token payload'')
   | Inl (TypeError _) \<Rightarrow> Inl (ValueError ''Malformed capability token payload'')
   | Inl (ValueError _) \<Rightarrow> Inl (ValueError ''Malformed capability token payload'')
   | _ \<Rightarrow> m)"

definition check_window :: "string \<Rightarrow> int \<Rightarrow> int \<Rightarrow> int \<Rightarrow> int \<Rightarrow> unit result" where
  \<comment> \<open>both verifiers end with it; the clock skew is 15 seconds for capabilities, 30 for identities\<close>
  "check_window kind skew now issued_at expires_at =
     bindE (dt_shift now skew) (\<lambda>latest.
     if latest < issued_at then Inl (ValueError (kind @ '' is not yet valid'')) else
     bindE (dt_shift now (- skew)) (\<lambda>earliest.
     if expires_at \<le> earliest then Inl (ValueError (kind @ '' has expired''))
     else if 300 * second < expires_at - issued_at then Inl (ValueError (kind @ '' lifetime exceeds policy''))
     else Inr ()))"

definition verify_capability_token ::
    "(string \<Rightarrow> pyval result) \<Rightarrow> (int \<Rightarrow> py_error) \<Rightarrow> string \<Rightarrow> int \<Rightarrow> string \<Rightarrow> capability_grant result" where
  "verify_capability_token other far secret now token =
     bindE (open_token ''capability token'' secret token) (\<lambda>encoded.
     bindE (malformed_payload
       (bindE (b64url_decode encoded) (\<lambda>bytes.
        bindE (json_loads other bytes) (\<lambda>payload.
        bindE (read_grant far payload) (\<lambda>grant. Inr (payload, grant)))))) (\<lambda>(payload, grant).
     bindE (py_get payload ''aud'') (\<lambda>aud.
     if \<not> py_eq aud (PStr ''axignal-capability'') then Inl (ValueError ''Invalid capability token audience'') else
     bindE (check_window ''Capability token'' 15 now (cg_issued_at grant) (cg_expires_at grant)) (\<lambda>_.
     Inr grant))))"

section \<open>What a verified window says\<close>

lemma check_window_iff:
  "check_window kind skew now issued expires = Inr () \<longleftrightarrow>
     instant_ok (now + skew * second) \<and> instant_ok (now - skew * second)
     \<and> issued \<le> now + skew * second \<and> now - skew * second < expires \<and> expires - issued \<le> 300 * second"
  by (auto simp: check_window_def dt_shift_def bindE_eq_Inr not_less not_le)

lemma malformed_payload_Inr: "malformed_payload m = Inr x \<longleftrightarrow> m = Inr x"
proof (cases m)
  case (Inl e)
  then show ?thesis by (cases e) (simp_all add: malformed_payload_def)
qed (simp add: malformed_payload_def)

lemma token_json_roundtrip:
  assumes "list_all (\<lambda>kv. json_scalar (snd kv)) kvs" "distinct (map fst kvs)"
  shows "bindE (b64url_decode (b64url_encode (utf8 (json_dumps True (PDict kvs))))) (json_loads other)
    = Inr (PDict (sort_key fst kvs))"
  using json_loads_dumps [OF assms] utf8_plain [OF plain_ascii_object [OF assms(1)]]
  by (simp add: b64_roundtrip del: json_dumps.simps)

section \<open>What capability tokens guarantee\<close>

lemma whole_second_ok:
  assumes "instant_ok t"
  shows "instant_ok (whole_second t)"
proof -
  have "-62135596800 \<le> t div second" "t div second * second \<le> t"
    using assms zdiv_mono1 [of "-62135596800000000" t second] div_mult_mod_eq [of t second] pos_mod_sign [of second t]
    unfolding instant_ok_def second_def by simp linarith
  then show ?thesis
    using assms unfolding whole_second_div instant_ok_def by (simp add: second_def)
qed

lemma grant_payload_sorted:
  "sort_key fst [(''aud'', a), (''tenant_id'', t), (''reservation_id'', r), (''operation_id'', p), (''capability'', c),
      (''iat'', i), (''exp'', (e :: pyval))]
    = [(''aud'', a), (''capability'', c), (''exp'', e), (''iat'', i), (''operation_id'', p), (''reservation_id'', r),
       (''tenant_id'', t)]"
  by (simp add: less_eq_char_def less_char_def)

lemma instant_scalar: "instant_ok (s * second) \<Longrightarrow> json_scalar (PInt s)"
  unfolding instant_ok_def second_def json_scalar_def by (simp add: abs_less_iff)

lemma capability_roundtrip:
  assumes ids: "uuid_of_text tenant = Inr tenant" "uuid_of_text reservation = Inr reservation"
    and secret: "32 \<le> length (utf8 secret)" and ttl: "1 \<le> ttl" "ttl \<le> 300"
    and built: "issued = whole_second now" "instant_ok issued" "instant_ok (issued + ttl * second)"
    and used: "instant_ok (later + 15 * second)" "instant_ok (later - 15 * second)"
      "issued \<le> later + 15 * second" "later - 15 * second < issued + ttl * second"
  shows "\<exists>token. build_capability_token secret tenant reservation operation capability ttl now = Inr token
     \<and> verify_capability_token other far secret later token
       = Inr \<lparr>cg_tenant_id = tenant, cg_reservation_id = reservation, cg_operation_id = operation,
              cg_capability = capability, cg_issued_at = issued, cg_expires_at = issued + ttl * second\<rparr>"
proof -
  define s where "s = now div second"
  have issued: "issued = s * second" "issued + ttl * second = (s + ttl) * second"
    using built(1) by (simp_all add: s_def whole_second_div algebra_simps)
  let ?kvs = "[(''aud'', PStr ''axignal-capability''), (''tenant_id'', PStr tenant),
    (''reservation_id'', PStr reservation), (''operation_id'', PStr operation), (''capability'', PStr capability),
    (''iat'', PInt s), (''exp'', PInt (s + ttl))]"
  have times: "int_timestamp issued = s"
    using int_timestamp_whole [of s] built(2) by (simp only: issued(1))
  have expiry: "int_timestamp (issued + ttl * second) = s + ttl"
    using int_timestamp_whole [of "s + ttl"] built(3) by (simp only: issued(2))
  have build: "build_capability_token secret tenant reservation operation capability ttl now
      = Inr (signed_token secret (PDict ?kvs))"
    using secret ttl built(3) times expiry
    by (simp add: build_capability_token_def dt_shift_def Let_def built(1) [symmetric])
  have scalars: "list_all (\<lambda>kv. json_scalar (snd kv)) ?kvs"
  proof -
    have "json_scalar (PInt s)"
      using instant_scalar [of s] built(2) by (simp only: issued(1))
    moreover have "json_scalar (PInt (s + ttl))"
      using instant_scalar [of "s + ttl"] built(3) by (simp only: issued(2))
    ultimately have "json_scalar (PInt s)" "json_scalar (PInt (s + ttl))" .
    then show ?thesis by (simp add: json_scalar_def)
  qed
  have json: "bindE (b64url_decode (b64url_encode (utf8 (json_dumps True (PDict ?kvs))))) (json_loads other)
      = Inr (PDict (sort_key fst ?kvs))"
    by (rule token_json_roundtrip [OF scalars]) simp
  then obtain bytes where bytes: "b64url_decode (b64url_encode (utf8 (json_dumps True (PDict ?kvs)))) = Inr bytes"
    "json_loads other bytes = Inr (PDict (sort_key fst ?kvs))"
    by (auto simp: bindE_eq_Inr simp del: json_dumps.simps)
  have stamps: "from_timestamp far s = Inr issued" "from_timestamp far (s + ttl) = Inr (issued + ttl * second)"
    using built(2,3) unfolding issued(2) by (simp_all add: from_timestamp_def issued(1))
  have grant: "read_grant far (PDict (sort_key fst ?kvs))
      = Inr \<lparr>cg_tenant_id = tenant, cg_reservation_id = reservation, cg_operation_id = operation,
              cg_capability = capability, cg_issued_at = issued, cg_expires_at = issued + ttl * second\<rparr>"
    unfolding grant_payload_sorted
    by (simp add: read_grant_def py_item_def uuid_of_def ids py_int_def py_str_def stamps)
  have aud: "py_get (PDict (sort_key fst ?kvs)) ''aud'' = Inr (PStr ''axignal-capability'')"
    unfolding grant_payload_sorted by (simp add: py_get_def)
  have "check_window ''Capability token'' 15 later issued (issued + ttl * second) = Inr ()"
    unfolding check_window_iff using used ttl by (simp add: second_def)
  then have "verify_capability_token other far secret later (signed_token secret (PDict ?kvs))
       = Inr \<lparr>cg_tenant_id = tenant, cg_reservation_id = reservation, cg_operation_id = operation,
              cg_capability = capability, cg_issued_at = issued, cg_expires_at = issued + ttl * second\<rparr>"
    by (simp add: verify_capability_token_def open_signed bytes grant aud malformed_payload_def
        del: json_dumps.simps sort_key_simps)
  with build show ?thesis by blast
qed

text \<open>A capability token verifies, with the secret it was built with and until it expires, to a grant with exactly
  the identifiers, operation and capability it was built for; its times are those of the building, cut to the
  second.\<close>

lemma issued_token_verifies:
  assumes built: "build_capability_token secret tenant reservation operation capability ttl now = Inr token"
    and ids: "uuid_of_text tenant = Inr tenant" "uuid_of_text reservation = Inr reservation" and "instant_ok now"
    and used: "instant_ok (later + 15 * second)" "instant_ok (later - 15 * second)"
      "whole_second now \<le> later + 15 * second" "later - 15 * second < whole_second now + ttl * second"
  shows "verify_capability_token other far secret later token
       = Inr \<lparr>cg_tenant_id = tenant, cg_reservation_id = reservation, cg_operation_id = operation,
              cg_capability = capability, cg_issued_at = whole_second now,
              cg_expires_at = whole_second now + ttl * second\<rparr>"
proof -
  have made: "32 \<le> length (utf8 secret)" "1 \<le> ttl" "ttl \<le> 300" "instant_ok (whole_second now + ttl * second)"
    using built by (auto simp: build_capability_token_def dt_shift_def Let_def bindE_eq_Inr split: if_split_asm)
  from capability_roundtrip [OF ids made(1-3) refl whole_second_ok [OF \<open>instant_ok now\<close>] made(4) used]
  show ?thesis using built by (metis Inr_inject)
qed

definition sample_uuid :: "nat \<Rightarrow> string" where
  "sample_uuid n = uuid_text n"

lemma sample_uuid_canonical: "n < 16 ^ 32 \<Longrightarrow> uuid_of_text (sample_uuid n) = Inr (sample_uuid n)"
  unfolding sample_uuid_def by (rule uuid_of_text_canonical)

lemma sample_secret: "32 \<le> length (utf8 ''0123456789abcdef0123456789abcdef'')"
  by (simp add: utf8_def code_def Let_def)

lemma sample_instants:
  "whole_second 1750000000000000 = 1750000000000000" "instant_ok 1750000000000000" "instant_ok 1750000120000000"
  "instant_ok 1750000075000000" "instant_ok 1750000045000000" "instant_ok 1750000090000000" "instant_ok 1750000030000000"
  by (simp_all add: instant_ok_def whole_second_def second_def)

lemma sample_token:
  "\<exists>token. build_capability_token ''0123456789abcdef0123456789abcdef'' (sample_uuid 7) (sample_uuid 9) ''op'' ''search'' 120
       1750000000000000 = Inr token
     \<and> verify_capability_token (\<lambda>_. Inl (ValueError [])) (\<lambda>_. OverflowError [])
              ''0123456789abcdef0123456789abcdef'' 1750000060000000 token
       = Inr \<lparr>cg_tenant_id = sample_uuid 7, cg_reservation_id = sample_uuid 9, cg_operation_id = ''op'',
              cg_capability = ''search'', cg_issued_at = 1750000000000000, cg_expires_at = 1750000000000000 + 120 * second\<rparr>"
  by (rule capability_roundtrip [OF sample_uuid_canonical sample_uuid_canonical sample_secret])
    (use sample_instants in \<open>simp_all add: second_def\<close>)

text \<open>C20: A token that verifies was signed with the secret: what follows its second dot decodes to the HMAC of
  what stands before, which is ASCII; its grant was issued at most 15 seconds ahead of now, had not expired
  15 seconds ago and lasts at most 300 seconds; its tenant and reservation are canonical UUIDs.\<close>
theorem capability_token_accepted:
  assumes "verify_capability_token other far secret now token = Inr grant"
  shows "(\<exists>encoded signature. token = ''v1.'' @ encoded @ ''.'' @ signature
       \<and> b64url_decode signature = Inr (hmac_sha256 (utf8 secret) (''v1.'' @ encoded)))
     \<and> cg_issued_at grant \<le> now + 15 * second \<and> now - 15 * second < cg_expires_at grant
     \<and> cg_expires_at grant - cg_issued_at grant \<le> 300 * second
     \<and> uuid_of_text (cg_tenant_id grant) = Inr (cg_tenant_id grant)
     \<and> uuid_of_text (cg_reservation_id grant) = Inr (cg_reservation_id grant)"
proof -
  obtain encoded payload where opened: "open_token ''capability token'' secret token = Inr encoded"
    and grant: "read_grant far payload = Inr grant"
    and window: "check_window ''Capability token'' 15 now (cg_issued_at grant) (cg_expires_at grant) = Inr ()"
    using assms
    by (auto simp: verify_capability_token_def bindE_eq_Inr malformed_payload_Inr split: if_split_asm)
  obtain v w where ids: "uuid_of v = Inr (cg_tenant_id grant)" "uuid_of w = Inr (cg_reservation_id grant)"
    using grant by (auto simp: read_grant_def bindE_eq_Inr)
  have canonical: "uuid_of_text u = Inr u" if "uuid_of v = Inr u" for v u
    using that uuid_of_text_idem by (auto simp: uuid_of_def split: pyval.splits)
  from opened obtain signature where "token = ''v1.'' @ encoded @ ''.'' @ signature"
    "b64url_decode signature = Inr (hmac_sha256 (utf8 secret) (''v1.'' @ encoded))"
    unfolding token_signature_def [symmetric] by (rule open_tokenD)
  then show ?thesis
    using window canonical [OF ids(1)] canonical [OF ids(2)] unfolding check_window_iff by blast
qed

theorem capability_token_accepted_witness:
  "\<exists>token grant. verify_capability_token (\<lambda>_. Inl (ValueError [])) (\<lambda>_. OverflowError [])
      ''0123456789abcdef0123456789abcdef'' 1750000060000000 token = Inr grant
    \<and> cg_expires_at grant - cg_issued_at grant \<le> 300 * second"
proof -
  obtain token grant where t: "verify_capability_token (\<lambda>_. Inl (ValueError [])) (\<lambda>_. OverflowError [])
      ''0123456789abcdef0123456789abcdef'' 1750000060000000 token = Inr grant"
    using sample_token by blast
  with capability_token_accepted [OF t] show ?thesis by blast
qed

text \<open>The text of a token is not fixed by its content: characters outside the alphabet are skipped in the
  signature.\<close>

lemma signature_padding_ignored: "b64url_decode (s @ ''!!!!'') = b64url_decode s"
  using decode_skips_four [of "CHR ''!''" s] by (simp add: b64_value_def is_ascii_upper_def is_ascii_lower_def is_digit_def code_def)

lemma token_text_malleable:
  assumes "verify_capability_token other far secret now token = Inr grant"
  shows "verify_capability_token other far secret now (token @ ''!!!!'') = Inr grant"
proof -
  obtain encoded where opened: "open_token ''capability token'' secret token = Inr encoded"
    using assms by (auto simp: verify_capability_token_def bindE_eq_Inr)
  obtain a b c where parts: "token_parts token = Some (a, b, c)"
    using opened by (cases "token_parts token") (auto simp: open_token_def)
  have "token_parts (token @ ''!!!!'') = Some (a, b, c @ ''!!!!'')"
  proof -
    have "list_all (\<lambda>c. c \<noteq> CHR ''.'') a" "list_all (\<lambda>c. c \<noteq> CHR ''.'') b"
      using token_parts_shape(2,3) [OF parts] by (auto simp: list_all_iff)
    from token_parts_join [OF this, of "c @ ''!!!!''"] show ?thesis
      using token_parts_shape(1) [OF parts] by simp
  qed
  then have "open_token ''capability token'' secret (token @ ''!!!!'') = open_token ''capability token'' secret token"
    by (simp only: open_token_def parts option.case prod.case signature_padding_ignored)
  with assms show ?thesis by (simp add: verify_capability_token_def)
qed

end
