(* ===== verification/Identity.thy ===== *)
theory Identity
  imports SignedTokens
begin

text \<open>
  \<^verbatim>\<open>identity.py\<close>: identity assertions, their verification, the seat governance that follows it and
  the step-up check. The decision on a seat is taken by the stored function
  \<^verbatim>\<open>tenant_private.seat_access_decision\<close> (\<^verbatim>\<open>infra/postgres/110-seat-governance.sql\<close>), modelled over the
  three tables it reads; environment settings are a record.
\<close>

section \<open>The identity\<close>

record identity =
  id_subject :: string
  id_email :: string
  id_tenant_id :: string
  id_issued_at :: int
  id_expires_at :: int
  id_user_id :: "string option"
  id_session_id :: "string option"
  id_auth_method :: "string option"
  id_assurance_level :: "string option"
  id_authenticated_at :: "int option"
  id_step_up_valid_until :: "int option"
  id_membership_id :: "string option"
  id_role_ids :: "string list"
  id_seat_state :: "string option"
  id_seat_plan_code :: "string option"

record assertion_request =
  ar_subject :: string
  ar_email :: string
  ar_tenant_id :: string
  ar_user_id :: "string option"
  ar_session_id :: "string option"
  ar_auth_method :: "string option"
  ar_assurance_level :: "string option"
  ar_authenticated_at :: "int option"
  ar_step_up_valid_until :: "int option"

definition opt_time :: "int option \<Rightarrow> pyval" where
  "opt_time t = (case t of None \<Rightarrow> PNone | Some i \<Rightarrow> PInt (int_timestamp i))"

definition assertion_optional :: "assertion_request \<Rightarrow> (string \<times> pyval) list" where
  "assertion_optional r =
     [(''user_id'', opt_str (ar_user_id r)), (''session_id'', opt_str (ar_session_id r)),
      (''auth_method'', opt_str (ar_auth_method r)), (''assurance_level'', opt_str (ar_assurance_level r)),
      (''authenticated_at'', opt_time (ar_authenticated_at r)),
      (''step_up_valid_until'', opt_time (ar_step_up_valid_until r))]"

definition build_identity_assertion :: "string \<Rightarrow> assertion_request \<Rightarrow> int \<Rightarrow> int \<Rightarrow> string result" where
  "build_identity_assertion secret r now ttl_seconds =
     (if secret = [] then Inl (ValueError ''Identity assertion secret is required'')
      else if \<not> (1 \<le> ttl_seconds \<and> ttl_seconds \<le> 300)
      then Inl (ValueError ''Identity assertion TTL is outside the allowed range'')
      else let issued_at = whole_second now in
        bindE (dt_shift issued_at ttl_seconds) (\<lambda>expires_at.
        Inr (signed_token secret (PDict (
          [(''aud'', PStr ''axignal-api''), (''sub'', PStr (ar_subject r)), (''email'', PStr (ar_email r)),
           (''tenant_id'', PStr (ar_tenant_id r)), (''iat'', PInt (int_timestamp issued_at)),
           (''exp'', PInt (int_timestamp expires_at))]
          @ filter (\<lambda>kv. snd kv \<noteq> PNone) (assertion_optional r))))))"

section \<open>Reading the payload\<close>

definition as_int :: "pyval \<Rightarrow> int option" where
  \<comment> \<open>\<^verbatim>\<open>isinstance(v, int)\<close>: a \<^verbatim>\<open>bool\<close> is one\<close>
  "as_int v = (case v of PInt i \<Rightarrow> Some i | PBool b \<Rightarrow> Some (if b then 1 else 0) | _ \<Rightarrow> None)"

definition invalid_claim :: "string \<Rightarrow> 'a result" where
  "invalid_claim key = Inl (ValueError (''Identity assertion '' @ key @ '' is invalid''))"

definition optional_uuid :: "pyval \<Rightarrow> string \<Rightarrow> string option result" where
  "optional_uuid payload key =
     bindE (py_get payload key) (\<lambda>v.
     if v = PNone then Inr None
     else case uuid_of_text (py_str v) of Inr u \<Rightarrow> Inr (Some u) | Inl _ \<Rightarrow> invalid_claim key)"

definition optional_time :: "(int \<Rightarrow> py_error) \<Rightarrow> pyval \<Rightarrow> string \<Rightarrow> int option result" where
  "optional_time far payload key =
     bindE (py_get payload key) (\<lambda>v.
     if v = PNone then Inr None
     else case as_int v of None \<Rightarrow> invalid_claim key | Some i \<Rightarrow> map_sum id Some (from_timestamp far i))"

definition optional_text :: "pyval \<Rightarrow> string \<Rightarrow> string option result" where
  "optional_text payload key =
     bindE (py_get payload key) (\<lambda>v. Inr (if py_truthy v then Some (py_str v) else None))"

definition identity_from_payload :: "(int \<Rightarrow> py_error) \<Rightarrow> pyval \<Rightarrow> identity result" where
  "identity_from_payload far payload =
     bindE (py_get payload ''aud'') (\<lambda>aud.
     if \<not> py_eq aud (PStr ''axignal-api'') then Inl (ValueError ''Invalid identity assertion audience'') else
     bindE (py_get payload ''sub'') (\<lambda>subject.
     bindE (py_get payload ''email'') (\<lambda>email.
     bindE (py_get payload ''tenant_id'') (\<lambda>tenant_id.
     bindE (py_get payload ''iat'') (\<lambda>issued_at.
     bindE (py_get payload ''exp'') (\<lambda>expires_at.
     case subject of
       PStr sub \<Rightarrow>
         if strip sub = [] then Inl (ValueError ''Identity assertion subject is required'') else
         (case email of
            PStr mail \<Rightarrow>
              if \<not> contains ''@'' mail then Inl (ValueError ''Identity assertion email is invalid'') else
              (case (as_int issued_at, as_int expires_at) of
                 (Some iat, Some until) \<Rightarrow>
                   (case uuid_of_text (py_str tenant_id) of
                      Inl _ \<Rightarrow> Inl (ValueError ''Identity assertion tenant is invalid'')
                    | Inr tenant \<Rightarrow>
                      bindE (from_timestamp far iat) (\<lambda>issued.
                      bindE (from_timestamp far until) (\<lambda>expires.
                      bindE (optional_uuid payload ''user_id'') (\<lambda>user_id.
                      bindE (optional_uuid payload ''session_id'') (\<lambda>session_id.
                      bindE (optional_text payload ''auth_method'') (\<lambda>auth_method.
                      bindE (optional_text payload ''assurance_level'') (\<lambda>assurance_level.
                      bindE (optional_time far payload ''authenticated_at'') (\<lambda>authenticated_at.
                      bindE (optional_time far payload ''step_up_valid_until'') (\<lambda>step_up_valid_until.
                      Inr \<lparr>id_subject = sub, id_email = mail, id_tenant_id = tenant, id_issued_at = issued,
                           id_expires_at = expires, id_user_id = user_id, id_session_id = session_id,
                           id_auth_method = auth_method, id_assurance_level = assurance_level,
                           id_authenticated_at = authenticated_at, id_step_up_valid_until = step_up_valid_until,
                           id_membership_id = None, id_role_ids = [], id_seat_state = None,
                           id_seat_plan_code = None\<rparr>)))))))))
               | _ \<Rightarrow> Inl (ValueError ''Identity assertion timestamps are invalid''))
          | _ \<Rightarrow> Inl (ValueError ''Identity assertion email is invalid''))
     | _ \<Rightarrow> Inl (ValueError ''Identity assertion subject is required'')))))))"

definition parse_payload :: "(string \<Rightarrow> pyval result) \<Rightarrow> string \<Rightarrow> pyval result" where
  \<comment> \<open>only errors of \<^verbatim>\<open>ValueError\<close> are renamed\<close>
  "parse_payload other encoded =
     (case bindE (b64url_decode encoded) (json_loads other) of
        Inl (ValueError _) \<Rightarrow> Inl (ValueError ''Malformed identity assertion payload'')
      | Inl e \<Rightarrow> Inl e
      | Inr (PDict d) \<Rightarrow> Inr (PDict d)
      | Inr _ \<Rightarrow> Inl (ValueError ''Malformed identity assertion payload''))"

definition verify_identity_assertion ::
    "(string \<Rightarrow> pyval result) \<Rightarrow> (int \<Rightarrow> py_error) \<Rightarrow> string \<Rightarrow> int \<Rightarrow> string \<Rightarrow> identity result" where
  "verify_identity_assertion other far secret now assertion =
     bindE (open_token ''identity assertion'' secret assertion) (\<lambda>encoded.
     bindE (parse_payload other encoded) (\<lambda>payload.
     bindE (identity_from_payload far payload) (\<lambda>i.
     bindE (check_window ''Identity assertion'' 30 now (id_issued_at i) (id_expires_at i)) (\<lambda>_.
     Inr i))))"

section \<open>Seats\<close>

record seat_member =
  sm_tenant :: string
  sm_membership_id :: string
  sm_principal :: string
  sm_status :: string

record seat_entitlement =
  se_tenant :: string
  se_state :: string
  se_plan_code :: string
  se_valid_until :: "int option"

record role_binding =
  rb_tenant :: string
  rb_membership_id :: string
  rb_role_id :: string
  rb_state :: string

record seat_tables =
  st_members :: "seat_member list"
  st_entitlements :: "seat_entitlement list"
  st_bindings :: "role_binding list"

definition deny :: "string \<Rightarrow> pyval" where
  "deny reason = PDict [(''decision'', PStr ''DENY''), (''reason'', PStr reason)]"

definition seat_access_decision :: "seat_tables \<Rightarrow> string \<Rightarrow> string \<Rightarrow> bool \<Rightarrow> int \<Rightarrow> pyval" where
  "seat_access_decision db tenant subject for_write now =
     (case find (\<lambda>m. sm_tenant m = tenant \<and> sm_principal m = subject \<and> sm_status m = ''ACTIVE'') (st_members db) of
        None \<Rightarrow> deny ''seat_membership_required''
      | Some m \<Rightarrow>
          (case find (\<lambda>e. se_tenant e = tenant) (st_entitlements db) of
             None \<Rightarrow> deny ''seat_entitlement_required''
           | Some e \<Rightarrow>
               if (case se_valid_until e of Some t \<Rightarrow> t \<le> now | None \<Rightarrow> False) then deny ''seat_entitlement_expired''
               else if se_state e \<in> {''SUSPENDED'', ''CANCELLED''} then deny ''seat_entitlement_inactive''
               else if for_write \<and> se_state e \<noteq> ''ACTIVE'' then deny ''seat_entitlement_read_only''
               else PDict [(''decision'', PStr ''ALLOW''),
                 (''reason'', PStr (if se_state e = ''READ_ONLY'' then ''read_only_membership'' else ''active_membership'')),
                 (''membership_id'', PStr (sm_membership_id m)), (''seat_state'', PStr (se_state e)),
                 (''plan_code'', PStr (se_plan_code e)),
                 (''roles'', PStrs (sort (map rb_role_id (filter (\<lambda>b. rb_tenant b = tenant
                    \<and> rb_membership_id b = sm_membership_id m \<and> rb_state b = ''ACTIVE'') (st_bindings db)))))]))"

record seat_settings =
  ss_enabled :: bool
  ss_database_url :: "string option"

record http_request =
  rq_path :: string
  rq_method :: string

definition seat_require_runtime :: "seat_settings \<Rightarrow> unit result" where
  "seat_require_runtime s =
     (if \<not> ss_enabled s then Inl (RuntimeError ''Seat governance is disabled'')
      else if ss_database_url s \<in> {None, Some []}
      then Inl (RuntimeError ''AXIGNAL_SEAT_DATABASE_URL or AXIGNAL_DATABASE_URL is required'')
      else Inr ())"

definition seat_governance_is_exempt :: "http_request option \<Rightarrow> bool" where
  "seat_governance_is_exempt request =
     (case request of
        None \<Rightarrow> False
      | Some r \<Rightarrow>
          rq_path r \<in> {''/v1/ai/authorize'', ''/v1/organisation/seats/bootstrap-owner'',
                       ''/v1/organisation/seats/invitations/accept''}
          \<or> list_ex (\<lambda>p. starts_with p (rq_path r)) [''/v1/billing'', ''/v1/entitlements'', ''/v1/trials''])"

definition is_write :: "http_request option \<Rightarrow> bool" where
  "is_write request = (case request of None \<Rightarrow> False | Some r \<Rightarrow> rq_method r \<notin> {''GET'', ''HEAD'', ''OPTIONS''})"

definition or_text :: "pyval \<Rightarrow> string \<Rightarrow> string" where
  \<comment> \<open>\<^verbatim>\<open>str(v or d)\<close>\<close>
  "or_text v d = (if py_truthy v then py_str v else d)"

definition apply_decision :: "identity \<Rightarrow> pyval \<Rightarrow> identity result" where
  \<comment> \<open>the second half of \<^verbatim>\<open>_enforce_seat_governance\<close>\<close>
  "apply_decision i decision =
     bindE (py_get decision ''decision'') (\<lambda>d.
     bindE (py_get decision ''reason'') (\<lambda>reason.
     if \<not> py_eq d (PStr ''ALLOW'') then Inl (HTTPException 403 (or_text reason ''seat_access_denied'')) else
     bindE (py_get decision ''membership_id'') (\<lambda>membership_id.
     bindE (py_get decision ''roles'') (\<lambda>roles.
     bindE (if py_truthy membership_id then map_sum id Some (uuid_of_text (py_str membership_id)) else Inr None)
       (\<lambda>membership.
     bindE (py_get decision ''seat_state'') (\<lambda>seat_state.
     bindE (py_get decision ''plan_code'') (\<lambda>plan_code.
     Inr (i\<lparr>id_membership_id := membership,
            id_role_ids := (case roles of PList rs \<Rightarrow> map py_str rs | _ \<Rightarrow> []),
            id_seat_state := Some (or_text seat_state []),
            id_seat_plan_code := Some (or_text plan_code [])\<rparr>))))))))"

definition enforce_seat_governance ::
    "seat_settings \<Rightarrow> (string \<Rightarrow> string \<Rightarrow> bool \<Rightarrow> pyval result) \<Rightarrow> identity \<Rightarrow> http_request option \<Rightarrow> identity result" where
  "enforce_seat_governance settings access i request =
     (if \<not> ss_enabled settings \<or> seat_governance_is_exempt request then Inr i
      else case bindE (seat_require_runtime settings)
                  (\<lambda>_. access (id_tenant_id i) (id_subject i) (is_write request)) of
        Inl (RuntimeError _) \<Rightarrow> Inl (HTTPException 503 ''Seat-governance authorization is unavailable'')
      | Inl e \<Rightarrow> Inl e
      | Inr decision \<Rightarrow> apply_decision i decision)"

definition access_decision :: "seat_tables \<Rightarrow> int \<Rightarrow> string \<Rightarrow> string \<Rightarrow> bool \<Rightarrow> pyval result" where
  \<comment> \<open>the stored function always returns a JSON object\<close>
  "access_decision db now tenant subject for_write = Inr (seat_access_decision db tenant subject for_write now)"

section \<open>The dependencies of the routes\<close>

definition require_recent_aal2 :: "identity \<Rightarrow> int \<Rightarrow> unit result" where
  "require_recent_aal2 i now =
     (if id_assurance_level i \<noteq> Some ''AAL2''
      then Inl (HTTPException 403 ''A phishing-resistant authentication method is required'')
      else if (case id_step_up_valid_until i of None \<Rightarrow> True | Some t \<Rightarrow> t \<le> now)
      then Inl (HTTPException 403 ''Recent passkey verification is required'')
      else Inr ())"

definition require_identity_assertions :: "string option \<Rightarrow> string result" where
  \<comment> \<open>\<^verbatim>\<open>Settings.require_identity_assertions\<close>; the value is the secret it has checked\<close>
  "require_identity_assertions secret =
     (case secret of
        None \<Rightarrow> Inl (RuntimeError ''AXIGNAL_IDENTITY_ASSERTION_SECRET is required'')
      | Some s \<Rightarrow>
          if s = [] then Inl (RuntimeError ''AXIGNAL_IDENTITY_ASSERTION_SECRET is required'')
          else if length (utf8 s) < 32
          then Inl (RuntimeError ''AXIGNAL_IDENTITY_ASSERTION_SECRET must be at least 32 bytes'')
          else Inr s)"

definition require_identity ::
    "(string \<Rightarrow> pyval result) \<Rightarrow> (int \<Rightarrow> py_error) \<Rightarrow> string option \<Rightarrow> seat_settings
     \<Rightarrow> (string \<Rightarrow> string \<Rightarrow> bool \<Rightarrow> pyval result) \<Rightarrow> int \<Rightarrow> http_request \<Rightarrow> string option \<Rightarrow> identity result" where
  "require_identity other far configured settings access now request assertion =
     (case require_identity_assertions configured of
        Inl (RuntimeError m) \<Rightarrow> Inl (HTTPException 503 m)
      | Inl e \<Rightarrow> Inl e
      | Inr secret \<Rightarrow>
          (case assertion of
             None \<Rightarrow> Inl (HTTPException 401 ''Authenticated identity is required'')
           | Some a \<Rightarrow>
               (case verify_identity_assertion other far secret now a of
                  Inl (ValueError _) \<Rightarrow> Inl (HTTPException 401 ''Invalid or expired identity assertion'')
                | Inl e \<Rightarrow> Inl e
                | Inr i \<Rightarrow> enforce_seat_governance settings access i (Some request))))"

section \<open>An assertion is read back\<close>

lemma py_get_sorted: "distinct (map fst kvs) \<Longrightarrow> py_get (PDict (sort_key fst kvs)) k = py_get (PDict kvs) k"
  by (simp add: py_get_def map_of_sorted del: sort_key_simps)

lemma py_get_present:
  assumes "distinct (map fst kvs)"
  shows "py_get (PDict (ps @ filter (\<lambda>kv. snd kv \<noteq> PNone) kvs)) k = py_get (PDict (ps @ kvs)) k"
proof -
  have "map_of (filter (\<lambda>kv. snd kv \<noteq> PNone) kvs) k = (if map_of kvs k = Some PNone then None else map_of kvs k)"
    using assms
  proof (induction kvs)
    case (Cons kv kvs)
    then have "map_of kvs (fst kv) = None" by (simp add: map_of_eq_None_iff)
    with Cons show ?case by (cases kv) auto
  qed simp
  then show ?thesis by (auto simp: py_get_def map_add_def split: option.splits)
qed

lemma identity_from_payload_cong:
  assumes "\<And>k. py_get p k = py_get q k"
  shows "identity_from_payload far p = identity_from_payload far q"
proof -
  have get: "py_get p = py_get q" by (rule ext) (rule assms)
  have optional: "optional_uuid p = optional_uuid q" "optional_text p = optional_text q" "optional_time far p = optional_time far q"
    by (simp_all add: fun_eq_iff optional_uuid_def optional_text_def optional_time_def get)
  show ?thesis unfolding identity_from_payload_def get optional ..
qed

definition canonical_uuid :: "string option \<Rightarrow> bool" where
  "canonical_uuid u = (case u of None \<Rightarrow> True | Some t \<Rightarrow> uuid_of_text t = Inr t)"

definition timestamp_ok :: "int option \<Rightarrow> bool" where
  "timestamp_ok t = (case t of None \<Rightarrow> True | Some i \<Rightarrow> instant_ok (int_timestamp i * second))"

definition assertable :: "assertion_request \<Rightarrow> bool" where
  "assertable r \<longleftrightarrow> strip (ar_subject r) \<noteq> [] \<and> contains ''@'' (ar_email r)
     \<and> uuid_of_text (ar_tenant_id r) = Inr (ar_tenant_id r) \<and> canonical_uuid (ar_user_id r) \<and> canonical_uuid (ar_session_id r)
     \<and> ar_auth_method r \<noteq> Some [] \<and> ar_assurance_level r \<noteq> Some []
     \<and> timestamp_ok (ar_authenticated_at r) \<and> timestamp_ok (ar_step_up_valid_until r)"

definition asserted_identity :: "assertion_request \<Rightarrow> int \<Rightarrow> int \<Rightarrow> identity" where
  "asserted_identity r issued expires =
     \<lparr>id_subject = ar_subject r, id_email = ar_email r, id_tenant_id = ar_tenant_id r, id_issued_at = issued,
      id_expires_at = expires, id_user_id = ar_user_id r, id_session_id = ar_session_id r,
      id_auth_method = ar_auth_method r, id_assurance_level = ar_assurance_level r,
      id_authenticated_at = map_option (\<lambda>t. int_timestamp t * second) (ar_authenticated_at r),
      id_step_up_valid_until = map_option (\<lambda>t. int_timestamp t * second) (ar_step_up_valid_until r),
      id_membership_id = None, id_role_ids = [], id_seat_state = None, id_seat_plan_code = None\<rparr>"

lemma optional_uuid_read:
  "py_get p k = Inr (opt_str u) \<Longrightarrow> canonical_uuid u \<Longrightarrow> optional_uuid p k = Inr u"
  by (cases u) (simp_all add: optional_uuid_def opt_str_def canonical_uuid_def py_str_def)

lemma optional_text_read: "py_get p k = Inr (opt_str u) \<Longrightarrow> u \<noteq> Some [] \<Longrightarrow> optional_text p k = Inr u"
  by (cases u) (simp_all add: optional_text_def opt_str_def py_truthy_def py_str_def)

lemma optional_time_read:
  "py_get p k = Inr (opt_time t) \<Longrightarrow> timestamp_ok t \<Longrightarrow>
    optional_time far p k = Inr (map_option (\<lambda>t. int_timestamp t * second) t)"
  by (cases t) (simp_all add: optional_time_def opt_time_def timestamp_ok_def as_int_def from_timestamp_def)

lemma identity_payload_read:
  fixes r s e
  defines "base \<equiv> [(''aud'', PStr ''axignal-api''), (''sub'', PStr (ar_subject r)), (''email'', PStr (ar_email r)),
           (''tenant_id'', PStr (ar_tenant_id r)), (''iat'', PInt s), (''exp'', PInt e)]"
  assumes "assertable r" "instant_ok (s * second)" "instant_ok (e * second)"
  shows "identity_from_payload far (PDict (base @ assertion_optional r)) = Inr (asserted_identity r (s * second) (e * second))"
proof -
  let ?p = "PDict (base @ assertion_optional r)"
  have get: "py_get ?p ''aud'' = Inr (PStr ''axignal-api'')" "py_get ?p ''sub'' = Inr (PStr (ar_subject r))"
    "py_get ?p ''email'' = Inr (PStr (ar_email r))" "py_get ?p ''tenant_id'' = Inr (PStr (ar_tenant_id r))"
    "py_get ?p ''iat'' = Inr (PInt s)" "py_get ?p ''exp'' = Inr (PInt e)"
    "py_get ?p ''user_id'' = Inr (opt_str (ar_user_id r))" "py_get ?p ''session_id'' = Inr (opt_str (ar_session_id r))"
    "py_get ?p ''auth_method'' = Inr (opt_str (ar_auth_method r))"
    "py_get ?p ''assurance_level'' = Inr (opt_str (ar_assurance_level r))"
    "py_get ?p ''authenticated_at'' = Inr (opt_time (ar_authenticated_at r))"
    "py_get ?p ''step_up_valid_until'' = Inr (opt_time (ar_step_up_valid_until r))"
    by (simp_all add: base_def assertion_optional_def py_get_def)
  have optional: "optional_uuid ?p ''user_id'' = Inr (ar_user_id r)" "optional_uuid ?p ''session_id'' = Inr (ar_session_id r)"
    "optional_text ?p ''auth_method'' = Inr (ar_auth_method r)" "optional_text ?p ''assurance_level'' = Inr (ar_assurance_level r)"
    "optional_time far ?p ''authenticated_at'' = Inr (map_option (\<lambda>t. int_timestamp t * second) (ar_authenticated_at r))"
    "optional_time far ?p ''step_up_valid_until'' = Inr (map_option (\<lambda>t. int_timestamp t * second) (ar_step_up_valid_until r))"
    using assms(2) get by (simp_all add: optional_uuid_read optional_text_read optional_time_read assertable_def)
  show ?thesis
    unfolding identity_from_payload_def
    using assms(2-4)
    by (simp add: get optional assertable_def as_int_def py_str_def from_timestamp_def asserted_identity_def)
qed

lemma assertion_keys: "map fst (assertion_optional r)
    = [''user_id'', ''session_id'', ''auth_method'', ''assurance_level'', ''authenticated_at'', ''step_up_valid_until'']"
  by (simp add: assertion_optional_def)

lemma assertion_scalars: "assertable r \<Longrightarrow> list_all (\<lambda>kv. json_scalar (snd kv)) (assertion_optional r)"
proof -
  have "json_scalar (opt_str u)" for u
    by (simp add: opt_str_def json_scalar_def split: option.split)
  moreover have "timestamp_ok t \<Longrightarrow> json_scalar (opt_time t)" for t
    using instant_scalar by (auto simp: timestamp_ok_def opt_time_def json_scalar_def split: option.splits)
  ultimately show "assertable r \<Longrightarrow> ?thesis"
    by (simp add: assertion_optional_def assertable_def)
qed

lemma identity_roundtrip:
  assumes built: "build_identity_assertion secret r now ttl = Inr token"
    and "assertable r" "instant_ok now"
    and used: "instant_ok (later + 30 * second)" "instant_ok (later - 30 * second)"
      "whole_second now \<le> later + 30 * second" "later - 30 * second < whole_second now + ttl * second"
  shows "verify_identity_assertion other far secret later token
     = Inr (asserted_identity r (whole_second now) (whole_second now + ttl * second))"
proof -
  define s where "s = now div second"
  have issued: "whole_second now = s * second" "whole_second now + ttl * second = (s + ttl) * second"
    by (simp_all add: s_def whole_second_div algebra_simps)
  have ok: "ttl \<le> 300" "instant_ok (s * second)" "instant_ok ((s + ttl) * second)"
    using built whole_second_ok [OF assms(3)]
    by (auto simp: build_identity_assertion_def dt_shift_def Let_def bindE_eq_Inr issued(1) issued(2) [unfolded issued(1)] split: if_split_asm)
  let ?base = "[(''aud'', PStr ''axignal-api''), (''sub'', PStr (ar_subject r)), (''email'', PStr (ar_email r)),
           (''tenant_id'', PStr (ar_tenant_id r)), (''iat'', PInt s), (''exp'', PInt (s + ttl))]"
  let ?kvs = "?base @ filter (\<lambda>kv. snd kv \<noteq> PNone) (assertion_optional r)"
  have token: "token = signed_token secret (PDict ?kvs)"
    using built int_timestamp_whole [OF ok(2)] int_timestamp_whole [OF ok(3)]
    by (simp add: build_identity_assertion_def dt_shift_def Let_def issued(1) issued(2) [unfolded issued(1)]
        bindE_eq_Inr split: if_split_asm)
  have scalars: "list_all (\<lambda>kv. json_scalar (snd kv)) ?kvs"
    using assertion_scalars [OF assms(2)] instant_scalar [OF ok(2)] instant_scalar [OF ok(3)]
    by (auto simp: list_all_iff json_scalar_def)
  have keys: "distinct (map fst ?kvs)"
  proof -
    have "distinct (map fst (?base @ assertion_optional r))"
      unfolding map_append assertion_keys by simp
    then show ?thesis by (auto simp: distinct_map inj_on_def)
  qed
  have "identity_from_payload far (PDict (sort_key fst ?kvs)) = identity_from_payload far (PDict (?base @ assertion_optional r))"
  proof (rule identity_from_payload_cong)
    have "distinct (map fst (assertion_optional r))" unfolding assertion_keys by simp
    then show "py_get (PDict (sort_key fst ?kvs)) k = py_get (PDict (?base @ assertion_optional r)) k" for k
      unfolding py_get_sorted [OF keys] by (rule py_get_present)
  qed
  also have "\<dots> = Inr (asserted_identity r (whole_second now) (whole_second now + ttl * second))"
    by (rule identity_payload_read [OF assms(2) ok(2,3), folded issued])
  finally have read: "identity_from_payload far (PDict (sort_key fst ?kvs))
      = Inr (asserted_identity r (whole_second now) (whole_second now + ttl * second))" .
  have payload: "parse_payload other (b64url_encode (utf8 (json_dumps True (PDict ?kvs)))) = Inr (PDict (sort_key fst ?kvs))"
    unfolding parse_payload_def token_json_roundtrip [OF scalars keys] by simp
  have "check_window ''Identity assertion'' 30 later (whole_second now) (whole_second now + ttl * second) = Inr ()"
    unfolding check_window_iff using used ok(1) by (simp add: second_def)
  then show ?thesis
    unfolding verify_identity_assertion_def token open_signed bindE_Inr payload read by (simp add: asserted_identity_def)
qed

section \<open>What the routes rely on\<close>

text \<open>C21: An assertion built for an assertable request (\<^verbatim>\<open>assertable\<close>: a request whose fields the verifier accepts)
  with the configured secret, of at least 32 bytes, is accepted by \<^verbatim>\<open>require_identity\<close> within its validity window, with the
  clock skew of 30 seconds, when seat governance is off or the path is exempt from it and the instants are in
  the range of datetime; the caller gets exactly the asserted
  identity, its times cut to the second, and the window of the assertion.\<close>
theorem asserted_identity_accepted:
  assumes "build_identity_assertion secret r now ttl = Inr token" "assertable r" "instant_ok now"
    and "instant_ok (later + 30 * second)" "instant_ok (later - 30 * second)"
      "whole_second now \<le> later + 30 * second" "later - 30 * second < whole_second now + ttl * second"
    and "32 \<le> length (utf8 secret)" "\<not> ss_enabled settings \<or> seat_governance_is_exempt (Some request)"
  shows "require_identity other far (Some secret) settings access later request (Some token)
     = Inr (asserted_identity r (whole_second now) (whole_second now + ttl * second))"
proof -
  have "require_identity_assertions (Some secret) = Inr secret"
    using assms(8) by (auto simp: require_identity_assertions_def utf8_def)
  then show ?thesis
    using identity_roundtrip [OF assms(1-7)] assms(9)
    by (simp add: require_identity_def enforce_seat_governance_def)
qed

definition sample_request :: assertion_request where
  "sample_request = \<lparr>ar_subject = ''user-1'', ar_email = ''a@b.eu'', ar_tenant_id = sample_uuid 7, ar_user_id = Some (sample_uuid 8),
     ar_session_id = None, ar_auth_method = Some ''passkey'', ar_assurance_level = Some ''AAL2'',
     ar_authenticated_at = Some 1749999999500000, ar_step_up_valid_until = None\<rparr>"

definition open_seats :: seat_settings where
  "open_seats = \<lparr>ss_enabled = False, ss_database_url = None\<rparr>"

definition governed_seats :: seat_settings where
  "governed_seats = \<lparr>ss_enabled = True, ss_database_url = Some ''db''\<rparr>"

lemma sample_second: "int_timestamp 1749999999500000 = 1749999999"
proof -
  have "power_below 1749999999 \<le> 1749999999" by (rule power_below_le)
  then show ?thesis by (simp add: int_timestamp_def Let_def)
qed

lemma sample_assertable: "assertable sample_request"
  unfolding assertable_def sample_request_def canonical_uuid_def timestamp_ok_def
  using sample_uuid_canonical [of 7] sample_uuid_canonical [of 8]
  by (simp add: sample_second strip_def is_ws_def code_def starts_with_def instant_ok_def second_def)

lemma sample_assertion:
  obtains token where "build_identity_assertion ''0123456789abcdef0123456789abcdef'' sample_request 1750000000000000 60 = Inr token"
  by (simp add: build_identity_assertion_def dt_shift_def Let_def sample_instants instant_ok_def second_def)

theorem asserted_identity_accepted_witness:
  "\<exists>token. build_identity_assertion ''0123456789abcdef0123456789abcdef'' sample_request 1750000000000000 60 = Inr token
     \<and> is_ok (require_identity (\<lambda>_. Inl (ValueError [])) (\<lambda>_. OverflowError []) (Some ''0123456789abcdef0123456789abcdef'')
         open_seats (\<lambda>_ _ _. Inr PNone) 1750000080000000 \<lparr>rq_path = ''/v1/runs'', rq_method = ''POST''\<rparr> (Some token))"
proof -
  obtain token where token: "build_identity_assertion ''0123456789abcdef0123456789abcdef'' sample_request 1750000000000000 60 = Inr token"
    by (rule sample_assertion)
  have "require_identity (\<lambda>_. Inl (ValueError [])) (\<lambda>_. OverflowError []) (Some ''0123456789abcdef0123456789abcdef'')
         open_seats (\<lambda>_ _ _. Inr PNone) 1750000080000000 \<lparr>rq_path = ''/v1/runs'', rq_method = ''POST''\<rparr> (Some token)
      = Inr (asserted_identity sample_request (whole_second 1750000000000000) (whole_second 1750000000000000 + 60 * second))"
    by (rule asserted_identity_accepted [OF token sample_assertable])
      (simp_all add: instant_ok_def second_def whole_second_def open_seats_def sample_secret)
  with token show ?thesis by (auto simp only: is_ok_simps)
qed

lemma deny_get [simp]: "py_get (deny r) ''decision'' = Inr (PStr ''DENY'')" "py_get (deny r) ''reason'' = Inr (PStr r)"
  by (simp_all add: deny_def py_get_def)

definition seat_grants :: "seat_tables \<Rightarrow> string \<Rightarrow> string \<Rightarrow> bool \<Rightarrow> int \<Rightarrow> bool" where
  \<comment> \<open>what a seat decision has to rest on\<close>
  "seat_grants db tenant subject for_write now \<longleftrightarrow>
     list_ex (\<lambda>m. sm_tenant m = tenant \<and> sm_principal m = subject \<and> sm_status m = ''ACTIVE'') (st_members db)
     \<and> list_ex (\<lambda>e. se_tenant e = tenant \<and> (case se_valid_until e of Some u \<Rightarrow> now < u | None \<Rightarrow> True)
            \<and> (if for_write then se_state e = ''ACTIVE'' else se_state e \<notin> {''SUSPENDED'', ''CANCELLED''}))
         (st_entitlements db)"

lemma find_mem: "find P xs = Some x \<Longrightarrow> x \<in> set xs \<and> P x"
  by (auto simp: find_Some_iff)

lemma access_denied_or_granted:
  "(\<exists>r. seat_access_decision db tenant subject for_write now = deny r) \<or> seat_grants db tenant subject for_write now"
proof (cases "find (\<lambda>m. sm_tenant m = tenant \<and> sm_principal m = subject \<and> sm_status m = ''ACTIVE'') (st_members db)")
  case None
  then show ?thesis unfolding seat_access_decision_def by simp blast
next
  case member: (Some m)
  show ?thesis
  proof (cases "find (\<lambda>e. se_tenant e = tenant) (st_entitlements db)")
    case None
    with member show ?thesis unfolding seat_access_decision_def by simp blast
  next
    case (Some e)
    let ?bad = "(case se_valid_until e of Some t \<Rightarrow> t \<le> now | None \<Rightarrow> False) \<or> se_state e \<in> {''SUSPENDED'', ''CANCELLED''}
        \<or> (for_write \<and> se_state e \<noteq> ''ACTIVE'')"
    let ?good = "(case se_valid_until e of Some u \<Rightarrow> now < u | None \<Rightarrow> True)
          \<and> (if for_write then se_state e = ''ACTIVE'' else se_state e \<notin> {''SUSPENDED'', ''CANCELLED''})"
    have "?bad \<or> ?good"
      by (cases "se_valid_until e"; cases for_write) auto
    then show ?thesis
    proof
      assume ?bad
      then show ?thesis using member Some unfolding seat_access_decision_def by auto
    next
      assume ?good
      with find_mem [OF member] find_mem [OF Some] show ?thesis
        unfolding seat_grants_def list_ex_iff by blast
    qed
  qed
qed

lemma bindE_InrE: "bindE m k = Inr y \<Longrightarrow> (\<And>x. m = Inr x \<Longrightarrow> k x = Inr y \<Longrightarrow> P) \<Longrightarrow> P"
  by (cases m) simp_all

lemma if_Inl_InrE: "(if b then Inl e else m) = Inr y \<Longrightarrow> (\<not> b \<Longrightarrow> m = Inr y \<Longrightarrow> P) \<Longrightarrow> P"
  by (cases b) simp_all

lemma apply_decisionD:
  "apply_decision i d = Inr j \<Longrightarrow> id_tenant_id j = id_tenant_id i \<and> id_subject j = id_subject i"
  unfolding apply_decision_def by (elim bindE_InrE if_Inl_InrE) (drule Inr_inject, erule subst, simp)

lemma apply_deny [simp]: "apply_decision i (deny r) = Inl (HTTPException 403 (or_text (PStr r) ''seat_access_denied''))"
  by (simp add: apply_decision_def)

lemma enforce_seats:
  assumes "enforce_seat_governance settings (access_decision db t) i request = Inr j"
    "ss_enabled settings" "\<not> seat_governance_is_exempt request"
  shows "seat_grants db (id_tenant_id i) (id_subject i) (is_write request) t
     \<and> id_tenant_id j = id_tenant_id i \<and> id_subject j = id_subject i"
proof -
  let ?d = "seat_access_decision db (id_tenant_id i) (id_subject i) (is_write request) t"
  have runtime: "seat_require_runtime settings = Inr ()"
  proof (cases "seat_require_runtime settings")
    case (Inl e)
    with assms have "case e of RuntimeError _ \<Rightarrow> False | _ \<Rightarrow> True"
      by (cases e) (simp_all add: enforce_seat_governance_def)
    with Inl show ?thesis by (simp add: seat_require_runtime_def split: if_split_asm) auto
  qed simp
  have applied: "apply_decision i ?d = Inr j"
    using assms by (simp add: enforce_seat_governance_def runtime access_decision_def)
  then have "\<nexists>r. ?d = deny r" by auto
  with apply_decisionD [OF applied] access_denied_or_granted [of db "id_tenant_id i" "id_subject i" "is_write request" t]
  show ?thesis by blast
qed

text \<open>C12: With seat governance on, a request outside the exempt paths gets an identity only from an assertion
  that verifies with the configured secret and only if its subject is an active member of its tenant whose
  seat entitlement has not expired and is neither suspended nor cancelled, and is active when the request
  is not a GET, HEAD or OPTIONS.\<close>
theorem seat_guarded_access:
  assumes "require_identity other far configured settings (access_decision db t) now request assertion = Inr i"
    and "ss_enabled settings" "\<not> seat_governance_is_exempt (Some request)"
  shows "seat_grants db (id_tenant_id i) (id_subject i) (rq_method request \<notin> {''GET'', ''HEAD'', ''OPTIONS''}) t
     \<and> (\<exists>secret token v. configured = Some secret \<and> assertion = Some token
          \<and> verify_identity_assertion other far secret now token = Inr v
          \<and> id_tenant_id v = id_tenant_id i \<and> id_subject v = id_subject i)"
proof -
  obtain secret where secret: "configured = Some secret" "require_identity_assertions configured = Inr secret"
  proof (cases "require_identity_assertions configured")
    case (Inl e)
    with assms(1) show ?thesis by (cases e) (simp_all add: require_identity_def)
  next
    case (Inr s)
    then show ?thesis by (intro that) (auto simp: require_identity_assertions_def split: option.splits if_split_asm)
  qed
  obtain token where token: "assertion = Some token"
    using assms(1) secret by (cases assertion) (simp_all add: require_identity_def)
  obtain v where v: "verify_identity_assertion other far secret now token = Inr v"
  proof (cases "verify_identity_assertion other far secret now token")
    case (Inl e)
    with assms(1) secret token show ?thesis by (cases e) (simp_all add: require_identity_def)
  qed (rule that)
  have "enforce_seat_governance settings (access_decision db t) v (Some request) = Inr i"
    using assms(1) secret token v by (simp add: require_identity_def)
  from enforce_seats [OF this assms(2,3)] secret(1) token v show ?thesis
    by (simp add: is_write_def)
qed

definition sample_seats :: seat_tables where
  "sample_seats = \<lparr>st_members = [\<lparr>sm_tenant = sample_uuid 7, sm_membership_id = sample_uuid 9, sm_principal = ''user-1'', sm_status = ''ACTIVE''\<rparr>],
     st_entitlements = [\<lparr>se_tenant = sample_uuid 7, se_state = ''ACTIVE'', se_plan_code = ''pilot'', se_valid_until = None\<rparr>],
     st_bindings = []\<rparr>"

theorem seat_guarded_access_witness:
  "\<exists>token i. require_identity (\<lambda>_. Inl (ValueError [])) (\<lambda>_. OverflowError []) (Some ''0123456789abcdef0123456789abcdef'')
         governed_seats (access_decision sample_seats 0) 1750000080000000
         \<lparr>rq_path = ''/v1/runs'', rq_method = ''POST''\<rparr> (Some token) = Inr i
     \<and> seat_grants sample_seats (id_tenant_id i) (id_subject i) True 0"
proof -
  let ?rq = "\<lparr>rq_path = ''/v1/runs'', rq_method = ''POST''\<rparr>"
  let ?v = "asserted_identity sample_request (whole_second 1750000000000000) (whole_second 1750000000000000 + 60 * second)"
  obtain token where token: "build_identity_assertion ''0123456789abcdef0123456789abcdef'' sample_request 1750000000000000 60 = Inr token"
    by (rule sample_assertion)
  have v: "verify_identity_assertion (\<lambda>_. Inl (ValueError [])) (\<lambda>_. OverflowError []) ''0123456789abcdef0123456789abcdef''
      1750000080000000 token = Inr ?v"
    by (rule identity_roundtrip [OF token sample_assertable]) (simp_all add: instant_ok_def second_def whole_second_def)
  have "require_identity_assertions (Some ''0123456789abcdef0123456789abcdef'') = Inr ''0123456789abcdef0123456789abcdef''"
    using sample_secret by (simp add: require_identity_assertions_def)
  moreover have guarded: "\<not> seat_governance_is_exempt (Some ?rq)" "ss_enabled governed_seats"
    by (simp_all add: seat_governance_is_exempt_def starts_with_def governed_seats_def)
  moreover have "is_ok (enforce_seat_governance governed_seats (access_decision sample_seats 0) ?v (Some ?rq))"
    using guarded sample_uuid_canonical [of 9]
    by (simp add: enforce_seat_governance_def seat_require_runtime_def governed_seats_def access_decision_def
        seat_access_decision_def sample_seats_def asserted_identity_def sample_request_def is_write_def
        apply_decision_def py_get_def py_truthy_def py_str_def sample_uuid_def uuid_text_def Let_def)
  ultimately obtain i where i: "require_identity (\<lambda>_. Inl (ValueError [])) (\<lambda>_. OverflowError []) (Some ''0123456789abcdef0123456789abcdef'')
         governed_seats (access_decision sample_seats 0) 1750000080000000 ?rq (Some token) = Inr i"
    using v by (auto simp: require_identity_def is_ok_iff)
  with seat_guarded_access [OF i guarded(2,1)] show ?thesis by auto
qed

end
