(* ===== verification/TokenLedger.thy ===== *)
theory TokenLedger
  imports PyData
begin

text \<open>
  The AI token ledger: the tables and stored functions of \<^verbatim>\<open>infra/postgres/080\<close> to \<^verbatim>\<open>082\<close> and the methods
  of \<^verbatim>\<open>entitlement_repository.py\<close> that call them. A stored function runs in one transaction, so a function
  that raises leaves the ledger as it was; the repository methods that use two transactions return the
  ledger of the first even when the second raises. The row triggers of later migrations write other
  tables and may refuse a row: they are the argument \<open>gates\<close>. A generated key, the server's clock and what
  another transaction commits while this one waits for a lock are arguments too.
\<close>

section \<open>The tables\<close>

datatype entitlement_kind = KindTrial | KindPaidMonthly

datatype entitlement_state = EntActive | EntReadOnly | EntSuspended | EntCancelled

datatype reservation_state = Reserved | Reconciled | Released

record entitlement =
  en_id :: string
  en_tenant :: string
  en_kind :: entitlement_kind
  en_plan_code :: string
  en_state :: entitlement_state
  en_starts_at :: int
  en_expires_at :: "int option"
  en_unlimited :: bool
  en_total :: "int option"
  en_reserved :: int
  en_consumed :: int
  en_activated_by :: string
  en_created_at :: int
  en_updated_at :: int

record reservation =
  rv_id :: string
  rv_tenant :: string
  rv_entitlement :: string
  rv_operation :: string
  rv_capability :: string
  rv_requested :: int
  rv_actual :: "int option"
  rv_state :: reservation_state
  rv_reserved_at :: int
  rv_expires_at :: int
  rv_reconciled_at :: "int option"

record ledger_event =
  le_tenant :: string
  le_entitlement :: string
  le_reservation :: "string option"
  le_type :: string
  le_actor :: string
  le_payload :: pyval
  le_occurred_at :: int

record token_ledger =
  tl_entitlements :: "entitlement list"
  tl_reservations :: "reservation list"
  tl_events :: "ledger_event list"

record trigger_gates =
  tg_activate :: "token_ledger \<Rightarrow> entitlement \<Rightarrow> string option"
  tg_reserve :: "token_ledger \<Rightarrow> reservation \<Rightarrow> string option"
  tg_settle :: "token_ledger \<Rightarrow> reservation \<Rightarrow> string option"

section \<open>Constraints\<close>

definition seconds :: "int \<Rightarrow> int" where
  "seconds n = n * 1000000"

definition bigint :: "int \<Rightarrow> bool" where
  "bigint n \<longleftrightarrow> - (2 ^ 63) \<le> n \<and> n < 2 ^ 63"

definition ledger_capabilities :: "string list" where
  "ledger_capabilities =
     [''NAVIGATE_AXIGNAL'', ''READ_INVESTIGATION_CONTEXT'', ''UPDATE_INVESTIGATION_CONTEXT'',
      ''SEARCH_ADMITTED_AXIGNAL_DATA'', ''COMPARE_ADMITTED_AXIGNAL_DATA'', ''EXPLAIN_CLAIMS_AND_EVIDENCE'',
      ''SHOW_CONTRADICTIONS_AND_UNKNOWNS'', ''REQUEST_BOUNDED_RESEARCH_RUN'', ''READ_RESEARCH_RUN_PROGRESS'',
      ''ASSEMBLE_EVIDENCE_LINKED_DOSSIER'', ''GENERATE_GROUNDED_PDF_REPORT'', ''EXPLAIN_AXIGNAL_PRODUCT_AND_METHOD'']"

definition entitlement_row_ok :: "entitlement \<Rightarrow> bool" where
  "entitlement_row_ok e \<longleftrightarrow> 0 \<le> en_reserved e \<and> 0 \<le> en_consumed e \<and> bigint (en_reserved e) \<and> bigint (en_consumed e)
     \<and> (case en_kind e of
          KindTrial \<Rightarrow> en_plan_code e = ''TRIAL_7D'' \<and> \<not> en_unlimited e \<and> en_total e = Some 1000000
            \<and> en_expires_at e = Some (en_starts_at e + seconds 604800)
        | KindPaidMonthly \<Rightarrow> en_unlimited e \<and> en_total e = None \<and> en_expires_at e = None)
     \<and> (case en_total e of None \<Rightarrow> True | Some t \<Rightarrow> en_reserved e + en_consumed e \<le> t)"

definition reservation_row_ok :: "reservation \<Rightarrow> bool" where
  "reservation_row_ok r \<longleftrightarrow> 8 \<le> length (rv_operation r) \<and> length (rv_operation r) \<le> 200
     \<and> rv_capability r \<in> set ledger_capabilities \<and> 0 < rv_requested r \<and> bigint (rv_requested r)
     \<and> (case rv_actual r of None \<Rightarrow> True | Some a \<Rightarrow> 0 \<le> a \<and> a \<le> rv_requested r)"

definition raise :: "string \<Rightarrow> 'a result" where
  "raise m = Inl (DatabaseError ''RaiseException'' m)"

definition violation :: "string \<Rightarrow> string \<Rightarrow> 'a result" where
  "violation c m = Inl (DatabaseError c m)"

definition passing :: "string option \<Rightarrow> 'a result \<Rightarrow> 'a result" where
  \<comment> \<open>what a trigger lets through\<close>
  "passing refusal k = (case refusal of Some m \<Rightarrow> raise m | None \<Rightarrow> k)"

section \<open>Rows and events\<close>

definition find_operation :: "string \<Rightarrow> string \<Rightarrow> token_ledger \<Rightarrow> reservation option" where
  "find_operation tenant operation l = find (\<lambda>r. rv_tenant r = tenant \<and> rv_operation r = operation) (tl_reservations l)"

definition find_reservation :: "string \<Rightarrow> string \<Rightarrow> token_ledger \<Rightarrow> reservation option" where
  "find_reservation tenant rid l = find (\<lambda>r. rv_tenant r = tenant \<and> rv_id r = rid) (tl_reservations l)"

definition active_entitlement :: "string \<Rightarrow> token_ledger \<Rightarrow> entitlement option" where
  "active_entitlement tenant l = find (\<lambda>e. en_tenant e = tenant \<and> en_state e = EntActive) (tl_entitlements l)"

definition trial_of :: "string \<Rightarrow> token_ledger \<Rightarrow> entitlement option" where
  "trial_of tenant l = find (\<lambda>e. en_tenant e = tenant \<and> en_kind e = KindTrial) (tl_entitlements l)"

definition add_event :: "string \<Rightarrow> string \<Rightarrow> string option \<Rightarrow> string \<Rightarrow> string \<Rightarrow> pyval \<Rightarrow> int \<Rightarrow> token_ledger \<Rightarrow> token_ledger" where
  "add_event tenant eid rid kind actor payload now l =
     l\<lparr>tl_events := tl_events l @ [\<lparr>le_tenant = tenant, le_entitlement = eid, le_reservation = rid, le_type = kind,
         le_actor = actor, le_payload = payload, le_occurred_at = now\<rparr>]\<rparr>"

definition update_entitlement :: "string \<Rightarrow> (entitlement \<Rightarrow> entitlement) \<Rightarrow> token_ledger \<Rightarrow> token_ledger result" where
  \<comment> \<open>\<^verbatim>\<open>UPDATE ... WHERE entitlement_id = eid\<close> with the row constraints\<close>
  "update_entitlement eid f l =
     (if list_all (\<lambda>e. en_id e = eid \<longrightarrow> entitlement_row_ok (f e)) (tl_entitlements l)
      then Inr (l\<lparr>tl_entitlements := map (\<lambda>e. if en_id e = eid then f e else e) (tl_entitlements l)\<rparr>)
      else violation ''CheckViolation'' ''organisation_entitlements'')"

definition update_reservation :: "string \<Rightarrow> (reservation \<Rightarrow> reservation) \<Rightarrow> token_ledger \<Rightarrow> token_ledger" where
  "update_reservation rid f l =
     l\<lparr>tl_reservations := map (\<lambda>r. if rv_id r = rid then f r else r) (tl_reservations l)\<rparr>"

definition blank_actor :: "string \<Rightarrow> bool" where
  \<comment> \<open>\<^verbatim>\<open>btrim(s) = ''\<close>: only the space is trimmed\<close>
  "blank_actor s = list_all (\<lambda>c. c = CHR '' '') s"

section \<open>The stored functions\<close>

definition activate_controlled_trial ::
    "trigger_gates \<Rightarrow> string \<Rightarrow> int \<Rightarrow> string \<Rightarrow> string \<Rightarrow> int \<Rightarrow> token_ledger \<Rightarrow> (token_ledger \<times> entitlement) result" where
  "activate_controlled_trial gates eid clock tenant actor now l =
     (if blank_actor actor then raise ''actor_subject_required''
      else if trial_of tenant l \<noteq> None then raise ''trial_already_activated''
      else let row = \<lparr>en_id = eid, en_tenant = tenant, en_kind = KindTrial, en_plan_code = ''TRIAL_7D'',
               en_state = EntActive, en_starts_at = now, en_expires_at = Some (now + seconds 604800),
               en_unlimited = False, en_total = Some 1000000, en_reserved = 0, en_consumed = 0,
               en_activated_by = actor, en_created_at = clock, en_updated_at = clock\<rparr> in
        passing (tg_activate gates l row)
        (if list_ex (\<lambda>e. en_id e = eid) (tl_entitlements l)
         then violation ''UniqueViolation'' ''organisation_entitlements_pkey''
         else if active_entitlement tenant l \<noteq> None
         then violation ''UniqueViolation'' ''organisation_one_active_entitlement_idx''
         else Inr (add_event tenant eid None ''TRIAL_ACTIVATED'' actor
                     (PDict [(''duration_days'', PInt 7), (''token_budget_total'', PInt 1000000)]) now
                     (l\<lparr>tl_entitlements := tl_entitlements l @ [row]\<rparr>), row)))"

definition replayed :: "reservation \<Rightarrow> string \<Rightarrow> int \<Rightarrow> token_ledger \<Rightarrow> (token_ledger \<times> reservation) result" where
  "replayed r capability requested l =
     (if rv_capability r \<noteq> capability \<or> rv_requested r \<noteq> requested then raise ''operation_id_conflict'' else Inr (l, r))"

definition reserve_ai_tokens ::
    "trigger_gates \<Rightarrow> string \<Rightarrow> string \<Rightarrow> string \<Rightarrow> string \<Rightarrow> int \<Rightarrow> string \<Rightarrow> int \<Rightarrow> token_ledger \<Rightarrow> token_ledger
     \<Rightarrow> (token_ledger \<times> reservation) result" where
  \<comment> \<open>the version of 081: \<open>before\<close> is what the first query sees, \<open>l\<close> the ledger once the entitlement row is locked\<close>
  "reserve_ai_tokens gates rid tenant operation capability requested actor now before l =
     (if requested \<le> 0 then raise ''requested_tokens_must_be_positive'' else
      case find_operation tenant operation before of
        Some r \<Rightarrow> replayed r capability requested l
      | None \<Rightarrow>
      (case active_entitlement tenant l of
        None \<Rightarrow> raise ''active_entitlement_required''
      | Some e \<Rightarrow>
      (case find_operation tenant operation l of
        Some r \<Rightarrow> replayed r capability requested l
      | None \<Rightarrow>
        if en_kind e = KindTrial \<and> (case en_expires_at e of Some t \<Rightarrow> t \<le> now | None \<Rightarrow> False) then raise ''trial_expired''
        else if en_kind e = KindTrial
          \<and> (case en_total e of Some t \<Rightarrow> t - en_consumed e - en_reserved e < requested | None \<Rightarrow> False)
        then raise ''trial_token_budget_exhausted''
        else let row = \<lparr>rv_id = rid, rv_tenant = tenant, rv_entitlement = en_id e, rv_operation = operation,
               rv_capability = capability, rv_requested = requested, rv_actual = None, rv_state = Reserved,
               rv_reserved_at = now, rv_expires_at = now + seconds 300, rv_reconciled_at = None\<rparr> in
        if \<not> reservation_row_ok row then violation ''CheckViolation'' ''ai_token_reservations''
        else if list_ex (\<lambda>r. rv_id r = rid) (tl_reservations l)
        then violation ''UniqueViolation'' ''ai_token_reservations_pkey''
        else passing (tg_reserve gates l row)
          (bindE (update_entitlement (en_id e) (\<lambda>e. e\<lparr>en_reserved := en_reserved e + requested, en_updated_at := now\<rparr>)
                   (l\<lparr>tl_reservations := tl_reservations l @ [row]\<rparr>)) (\<lambda>l'.
           Inr (add_event tenant (en_id e) (Some rid) ''TOKENS_RESERVED'' actor
                  (PDict [(''operation_id'', PStr operation), (''capability'', PStr capability),
                          (''requested_tokens'', PInt requested)]) now l', row))))))"

definition settle ::
    "trigger_gates \<Rightarrow> reservation \<Rightarrow> reservation_state \<Rightarrow> int \<Rightarrow> int \<Rightarrow> (token_ledger \<Rightarrow> token_ledger)
     \<Rightarrow> token_ledger \<Rightarrow> (token_ledger \<times> reservation) result" where
  \<comment> \<open>the two updates that reconciling and releasing share\<close>
  "settle gates r state actual now event l =
     bindE (update_entitlement (rv_entitlement r) (\<lambda>e. e\<lparr>en_reserved := en_reserved e - rv_requested r,
              en_consumed := en_consumed e + actual, en_updated_at := now\<rparr>) l) (\<lambda>l1.
     let r' = r\<lparr>rv_state := state, rv_actual := Some actual, rv_reconciled_at := Some now\<rparr>;
         l2 = update_reservation (rv_id r) (\<lambda>_. r') l1 in
     passing (tg_settle gates l2 r') (Inr (event l2, r')))"

definition reconcile_ai_tokens ::
    "trigger_gates \<Rightarrow> string \<Rightarrow> string \<Rightarrow> int \<Rightarrow> string \<Rightarrow> int \<Rightarrow> token_ledger \<Rightarrow> (token_ledger \<times> reservation) result" where
  "reconcile_ai_tokens gates tenant rid actual actor now l =
     (case find_reservation tenant rid l of
        None \<Rightarrow> raise ''reservation_not_found''
      | Some r \<Rightarrow>
        if actual < 0 \<or> rv_requested r < actual then raise ''actual_tokens_outside_reservation''
        else if rv_state r = Reconciled
        then (if rv_actual r \<noteq> Some actual then raise ''reconciliation_conflict'' else Inr (l, r))
        else if rv_state r \<noteq> Reserved then raise ''reservation_not_active''
        else settle gates r Reconciled actual now
          (add_event tenant (rv_entitlement r) (Some (rv_id r)) ''TOKENS_RECONCILED'' actor
             (PDict [(''requested_tokens'', PInt (rv_requested r)), (''actual_tokens'', PInt actual)]) now) l)"

definition release_ai_token_reservation ::
    "trigger_gates \<Rightarrow> string \<Rightarrow> string \<Rightarrow> string \<Rightarrow> int \<Rightarrow> token_ledger \<Rightarrow> (token_ledger \<times> reservation) result" where
  "release_ai_token_reservation gates tenant rid actor now l =
     (case find_reservation tenant rid l of
        None \<Rightarrow> raise ''reservation_not_found''
      | Some r \<Rightarrow>
        if rv_state r = Released then Inr (l, r)
        else if rv_state r \<noteq> Reserved then raise ''reservation_not_active''
        else settle gates r Released 0 now
          (add_event tenant (rv_entitlement r) (Some (rv_id r)) ''TOKEN_RESERVATION_RELEASED'' actor (PDict []) now) l)"

definition read_only_at :: "int \<Rightarrow> entitlement \<Rightarrow> entitlement" where
  "read_only_at now e = e\<lparr>en_state := EntReadOnly, en_updated_at := now\<rparr>"

definition due :: "int \<Rightarrow> entitlement \<Rightarrow> bool" where
  "due now e = (en_state e = EntActive \<and> (case en_expires_at e of Some t \<Rightarrow> t \<le> now | None \<Rightarrow> False))"

definition expire_current_trial :: "string \<Rightarrow> string \<Rightarrow> int \<Rightarrow> token_ledger \<Rightarrow> (token_ledger \<times> entitlement) result" where
  "expire_current_trial tenant actor now l =
     (case trial_of tenant l of
        None \<Rightarrow> raise ''trial_not_found''
      | Some e \<Rightarrow>
        if due now e
        then bindE (update_entitlement (en_id e) (read_only_at now) l) (\<lambda>l'.
             Inr (add_event tenant (en_id e) None ''TRIAL_EXPIRED'' actor (PDict [(''transition'', PStr ''READ_ONLY'')]) now l',
                  read_only_at now e))
        else Inr (l, e))"

definition expire_due_trial :: "string \<Rightarrow> string \<Rightarrow> int \<Rightarrow> token_ledger \<Rightarrow> (token_ledger \<times> bool) result" where
  "expire_due_trial tenant actor now l =
     (if blank_actor actor then raise ''actor_subject_required'' else
      case find (\<lambda>e. en_tenant e = tenant \<and> en_kind e = KindTrial \<and> due now e) (tl_entitlements l) of
        None \<Rightarrow> Inr (l, False)
      | Some e \<Rightarrow> bindE (update_entitlement (en_id e) (read_only_at now) l) (\<lambda>l'.
          Inr (add_event tenant (en_id e) None ''TRIAL_EXPIRED'' actor
                 (PDict [(''transition'', PStr ''READ_ONLY''), (''trigger'', PStr ''PRE_AUTHORIZATION_SWEEP'')]) now l', True)))"

section \<open>The repository\<close>

definition run_in :: "(token_ledger \<times> 'a) result \<Rightarrow> token_ledger \<Rightarrow> 'a result \<times> token_ledger" where
  \<comment> \<open>one transaction: what it leaves, and nothing when it raises\<close>
  "run_in m l = (case m of Inl e \<Rightarrow> (Inl e, l) | Inr (l', x) \<Rightarrow> (Inr x, l'))"

definition repo_reserve ::
    "trigger_gates \<Rightarrow> string \<Rightarrow> string \<Rightarrow> string \<Rightarrow> string \<Rightarrow> int \<Rightarrow> string \<Rightarrow> int \<Rightarrow> token_ledger
     \<Rightarrow> reservation result \<times> token_ledger" where
  \<comment> \<open>the sweep commits in a transaction of its own\<close>
  "repo_reserve gates rid tenant operation capability requested actor now l =
     (case run_in (expire_due_trial tenant actor now l) l of
        (Inl e, l1) \<Rightarrow> (Inl e, l1)
      | (Inr expired, l1) \<Rightarrow>
          if expired then (Inl (RuntimeError ''trial_expired''), l1)
          else run_in (reserve_ai_tokens gates rid tenant operation capability requested actor now l1 l1) l1)"

definition latest_entitlement :: "string \<Rightarrow> token_ledger \<Rightarrow> entitlement option" where
  \<comment> \<open>\<^verbatim>\<open>ORDER BY (state = 'ACTIVE') DESC, created_at DESC LIMIT 1\<close>\<close>
  "latest_entitlement tenant l =
     (case sort_key (\<lambda>e. (en_state e \<noteq> EntActive, - en_created_at e)) (filter (\<lambda>e. en_tenant e = tenant) (tl_entitlements l)) of
        [] \<Rightarrow> None | e # _ \<Rightarrow> Some e)"

definition repo_usage :: "string \<Rightarrow> string \<Rightarrow> int \<Rightarrow> token_ledger \<Rightarrow> entitlement option result \<times> token_ledger" where
  \<comment> \<open>\<^verbatim>\<open>usage\<close> and \<^verbatim>\<open>current_entitlement\<close>: sweep, then read\<close>
  "repo_usage actor tenant now l =
     (case run_in (expire_due_trial tenant actor now l) l of
        (Inl e, l1) \<Rightarrow> (Inl e, l1)
      | (Inr _, l1) \<Rightarrow> (Inr (latest_entitlement tenant l1), l1))"

end
