(* ===== verification/TokenBudget.thy ===== *)
theory TokenBudget
  imports TokenLedger
begin

text \<open>
  The books of the token ledger balance: what an entitlement holds as reserved and consumed is the sum
  over its reservations, a trial never goes over its budget, and every reservation that is open can be
  settled. The invariant is kept by every stored function and so by any sequence of them.
\<close>

section \<open>The invariant\<close>

definition held :: "string \<Rightarrow> reservation \<Rightarrow> int" where
  "held eid r = (if rv_entitlement r = eid \<and> rv_state r = Reserved then rv_requested r else 0)"

definition spent :: "string \<Rightarrow> reservation \<Rightarrow> int" where
  "spent eid r = (if rv_entitlement r = eid \<and> rv_state r = Reconciled then the (rv_actual r) else 0)"

definition balanced :: "reservation list \<Rightarrow> entitlement \<Rightarrow> bool" where
  "balanced rs e \<longleftrightarrow> entitlement_row_ok e \<and> en_reserved e = sum_list (map (held (en_id e)) rs)
     \<and> en_consumed e = sum_list (map (spent (en_id e)) rs)"

definition settled_ok :: "reservation \<Rightarrow> bool" where
  "settled_ok r \<longleftrightarrow> reservation_row_ok r \<and> (rv_state r = Reserved \<longleftrightarrow> rv_actual r = None)
     \<and> (rv_state r = Released \<longrightarrow> rv_actual r = Some 0)"

definition owned :: "entitlement list \<Rightarrow> reservation \<Rightarrow> bool" where
  "owned es r \<longleftrightarrow> (\<exists>e\<in>set es. en_id e = rv_entitlement r \<and> en_tenant e = rv_tenant r)"

definition is_active :: "entitlement \<Rightarrow> bool" where
  "is_active e = (en_state e = EntActive)"

definition is_trial :: "entitlement \<Rightarrow> bool" where
  "is_trial e = (en_kind e = KindTrial)"

definition books_ok :: "entitlement list \<Rightarrow> reservation list \<Rightarrow> bool" where
  "books_ok es rs \<longleftrightarrow> distinct (map en_id es) \<and> distinct (map rv_id rs)
     \<and> distinct (map (\<lambda>r. (rv_tenant r, rv_operation r)) rs)
     \<and> distinct (map en_tenant (filter is_active es)) \<and> distinct (map en_tenant (filter is_trial es))
     \<and> (\<forall>e\<in>set es. balanced rs e) \<and> (\<forall>r\<in>set rs. settled_ok r \<and> owned es r)"

definition ledger_ok :: "token_ledger \<Rightarrow> bool" where
  "ledger_ok l \<longleftrightarrow> books_ok (tl_entitlements l) (tl_reservations l)"

lemma books_okD:
  assumes "books_ok es rs"
  shows "distinct (map en_id es)" "distinct (map rv_id rs)" "e \<in> set es \<Longrightarrow> balanced rs e"
    "r \<in> set rs \<Longrightarrow> settled_ok r" "r \<in> set rs \<Longrightarrow> owned es r"
  using assms unfolding books_ok_def by blast+

lemma sum_list_replace:
  fixes f :: "reservation \<Rightarrow> int"
  assumes "distinct (map rv_id rs)" "r \<in> set rs"
  shows "sum_list (map f (map (\<lambda>x. if rv_id x = rv_id r then r' else x) rs)) = sum_list (map f rs) - f r + f r'"
  using assms
proof (induction rs)
  case (Cons x xs)
  show ?case
  proof (cases "rv_id x = rv_id r")
    case True
    with Cons.prems have "x = r" "r \<notin> set xs" by (auto simp: image_iff)
    moreover have "map (\<lambda>x. if rv_id x = rv_id r then r' else x) xs = xs"
      using Cons.prems True by (intro map_idI) (auto simp: image_iff)
    ultimately show ?thesis by simp
  next
    case False
    with Cons show ?thesis by auto
  qed
qed simp

lemma same_entitlement: "distinct (map en_id es) \<Longrightarrow> e \<in> set es \<Longrightarrow> d \<in> set es \<Longrightarrow> en_id e = en_id d \<Longrightarrow> e = d"
  by (metis distinct_map inj_onD)

section \<open>What an update does to the books\<close>

lemma update_entitlementD:
  assumes "update_entitlement eid f l = Inr l'"
  shows "tl_entitlements l' = map (\<lambda>e. if en_id e = eid then f e else e) (tl_entitlements l)"
    "tl_reservations l' = tl_reservations l" "tl_events l' = tl_events l"
    "e \<in> set (tl_entitlements l) \<Longrightarrow> en_id e = eid \<Longrightarrow> entitlement_row_ok (f e)"
  using assms by (auto simp: update_entitlement_def violation_def list_all_iff split: if_split_asm)

lemma add_event_simps [simp]:
  "tl_entitlements (add_event t e r k a p n l) = tl_entitlements l"
  "tl_reservations (add_event t e r k a p n l) = tl_reservations l"
  by (simp_all add: add_event_def)

text \<open>Rows that keep their identity, tenant and kind and do not become active.\<close>

definition keeps_row :: "(entitlement \<Rightarrow> entitlement) \<Rightarrow> bool" where
  "keeps_row f \<longleftrightarrow> (\<forall>e. en_id (f e) = en_id e \<and> en_tenant (f e) = en_tenant e \<and> en_kind (f e) = en_kind e
     \<and> (is_active (f e) \<longrightarrow> is_active e))"

lemma distinct_filter_map_subset:
  assumes "distinct (map g (filter P xs))" "\<And>x. x \<in> set xs \<Longrightarrow> g (f x) = g x" "\<And>x. x \<in> set xs \<Longrightarrow> P (f x) \<Longrightarrow> P x"
  shows "distinct (map g (filter P (map f xs)))"
  using assms by (induction xs) (auto split: if_split_asm)

lemma rows_kept:
  fixes es eid
  defines "es' f \<equiv> map (\<lambda>e. if en_id e = eid then f e else e) es"
  assumes "keeps_row f"
  shows "map en_id (es' f) = map en_id es"
    "distinct (map en_tenant (filter is_active es)) \<Longrightarrow> distinct (map en_tenant (filter is_active (es' f)))"
    "distinct (map en_tenant (filter is_trial es)) \<Longrightarrow> distinct (map en_tenant (filter is_trial (es' f)))"
    "owned es r \<Longrightarrow> owned (es' f) r"
proof -
  have keep: "en_id (f e) = en_id e" "en_tenant (f e) = en_tenant e" "is_trial (f e) = is_trial e"
    "is_active (f e) \<Longrightarrow> is_active e" for e
    using assms(2) unfolding keeps_row_def is_trial_def by simp_all
  show "map en_id (es' f) = map en_id es" by (simp add: es'_def keep)
  show "distinct (map en_tenant (filter is_active es)) \<Longrightarrow> distinct (map en_tenant (filter is_active (es' f)))"
    unfolding es'_def by (rule distinct_filter_map_subset) (auto simp: keep split: if_split_asm dest: keep(4))
  show "distinct (map en_tenant (filter is_trial es)) \<Longrightarrow> distinct (map en_tenant (filter is_trial (es' f)))"
    unfolding es'_def by (rule distinct_filter_map_subset) (auto simp: keep split: if_split_asm)
  assume "owned es r"
  then obtain e where e: "e \<in> set es" "en_id e = rv_entitlement r" "en_tenant e = rv_tenant r"
    unfolding owned_def by blast
  show "owned (es' f) r"
    unfolding owned_def es'_def
    by (rule bexI [of _ "if en_id e = eid then f e else e"]) (use e in \<open>auto simp: keep\<close>)
qed

lemma replaced_ids: "rv_id r' = i \<Longrightarrow> map rv_id (map (\<lambda>x. if rv_id x = i then r' else x) rs) = map rv_id rs"
  by simp

section \<open>The books after each change\<close>

lemma books_read_only:
  assumes "books_ok es rs"
  shows "books_ok (map (\<lambda>e. if en_id e = eid then read_only_at now e else e) es) rs"
proof -
  have keeps: "keeps_row (read_only_at now)"
    by (simp add: keeps_row_def read_only_at_def is_active_def)
  have "balanced rs (read_only_at now e)" if "balanced rs e" for e
    using that by (auto simp: balanced_def read_only_at_def entitlement_row_ok_def split: entitlement_kind.splits)
  then show ?thesis
    using assms rows_kept [OF keeps, where eid = eid and es = es] unfolding books_ok_def by (auto simp del: map_map)
qed

lemma books_activate:
  assumes ok: "books_ok es rs" and fresh: "en_id e \<notin> en_id ` set es" and new: "entitlement_row_ok e" "is_trial e" "is_active e"
    and zero: "en_reserved e = 0" "en_consumed e = 0"
    and only: "\<And>d. d \<in> set es \<Longrightarrow> is_active d \<or> is_trial d \<Longrightarrow> en_tenant d \<noteq> en_tenant e"
  shows "books_ok (es @ [e]) rs"
proof -
  have "rv_entitlement r \<noteq> en_id e" if "r \<in> set rs" for r
    using books_okD(5) [OF ok that] fresh unfolding owned_def by (metis imageI)
  then have none: "map (held (en_id e)) rs = map (\<lambda>_. 0) rs" "map (spent (en_id e)) rs = map (\<lambda>_. 0) rs"
    by (auto simp: held_def spent_def)
  have "balanced rs e"
    using new(1) zero by (simp add: balanced_def none sum_list_0)
  moreover have "owned (es @ [e]) r" if "owned es r" for r
    using that by (auto simp: owned_def)
  moreover have "en_tenant e \<notin> en_tenant ` set (filter is_active es)" "en_tenant e \<notin> en_tenant ` set (filter is_trial es)"
    using only by fastforce+
  ultimately show ?thesis
    using ok fresh new unfolding books_ok_def by simp
qed

lemma books_reserve:
  assumes ok: "books_ok es rs" and e: "e \<in> set es" and r: "rv_entitlement r = en_id e" "rv_tenant r = en_tenant e"
    and new: "settled_ok r" "rv_state r = Reserved" "rv_id r \<notin> rv_id ` set rs"
      "(rv_tenant r, rv_operation r) \<notin> (\<lambda>r. (rv_tenant r, rv_operation r)) ` set rs"
    and row: "entitlement_row_ok (e\<lparr>en_reserved := en_reserved e + rv_requested r, en_updated_at := now\<rparr>)"
  shows "books_ok (map (\<lambda>d. if en_id d = en_id e then d\<lparr>en_reserved := en_reserved d + rv_requested r, en_updated_at := now\<rparr> else d) es)
     (rs @ [r])"
proof -
  let ?f = "\<lambda>d. d\<lparr>en_reserved := en_reserved d + rv_requested r, en_updated_at := now\<rparr>"
  let ?es = "map (\<lambda>d. if en_id d = en_id e then ?f d else d) es"
  have keeps: "keeps_row ?f" by (simp add: keeps_row_def is_active_def)
  have "balanced (rs @ [r]) d" if d: "d \<in> set ?es" for d
  proof -
    obtain c where c: "c \<in> set es" "d = (if en_id c = en_id e then ?f c else c)" using d by auto
    show ?thesis
    proof (cases "en_id c = en_id e")
      case True
      with same_entitlement [OF books_okD(1) [OF ok] c(1) e] have "c = e" by simp
      with c books_okD(3) [OF ok e] row r new(2) show ?thesis
        by (simp add: balanced_def held_def spent_def)
    next
      case False
      with c books_okD(3) [OF ok c(1)] r(1) show ?thesis
        by (simp add: balanced_def held_def spent_def)
    qed
  qed
  moreover have "owned es r" using e r by (auto simp: owned_def)
  ultimately show ?thesis
    using ok new rows_kept [OF keeps, where eid = "en_id e" and es = es] unfolding books_ok_def by (auto simp del: map_map)
qed

lemma books_settle:
  assumes ok: "books_ok es rs" and r: "r \<in> set rs" "rv_state r = Reserved"
    and r': "r' = r\<lparr>rv_state := state, rv_actual := Some actual, rv_reconciled_at := t\<rparr>"
    and actual: "0 \<le> actual" "actual \<le> rv_requested r" "state = Reconciled \<or> (state = Released \<and> actual = 0)"
    and rows: "\<And>e. e \<in> set es \<Longrightarrow> en_id e = rv_entitlement r \<Longrightarrow> entitlement_row_ok (e\<lparr>en_reserved := en_reserved e - rv_requested r,
        en_consumed := en_consumed e + actual, en_updated_at := now\<rparr>)"
  shows "books_ok (map (\<lambda>e. if en_id e = rv_entitlement r then e\<lparr>en_reserved := en_reserved e - rv_requested r,
        en_consumed := en_consumed e + actual, en_updated_at := now\<rparr> else e) es)
     (map (\<lambda>x. if rv_id x = rv_id r then r' else x) rs)"
proof -
  let ?f = "\<lambda>e. e\<lparr>en_reserved := en_reserved e - rv_requested r, en_consumed := en_consumed e + actual, en_updated_at := now\<rparr>"
  let ?es = "map (\<lambda>e. if en_id e = rv_entitlement r then ?f e else e) es"
  let ?rs = "map (\<lambda>x. if rv_id x = rv_id r then r' else x) rs"
  have keeps: "keeps_row ?f" by (simp add: keeps_row_def is_active_def)
  have sums: "sum_list (map (held i) ?rs) = sum_list (map (held i) rs) - held i r + held i r'"
    "sum_list (map (spent i) ?rs) = sum_list (map (spent i) rs) - spent i r + spent i r'" for i
    using sum_list_replace [OF books_okD(2) [OF ok] r(1)] by blast+
  have parts: "held i r = (if rv_entitlement r = i then rv_requested r else 0)" "held i r' = 0" "spent i r = 0"
    "spent i r' = (if rv_entitlement r = i then actual else 0)" for i
    using r(2) actual(3) by (auto simp: held_def spent_def r')
  have balance: "balanced ?rs d" if d: "d \<in> set ?es" for d
  proof -
    obtain c where c: "c \<in> set es" "d = (if en_id c = rv_entitlement r then ?f c else c)" using d by auto
    with books_okD(3) [OF ok c(1)] rows [OF c(1)] show ?thesis
      by (auto simp: balanced_def sums parts simp del: map_map)
  qed
  have settled: "settled_ok r'"
    using books_okD(4) [OF ok r(1)] actual r(2) by (auto simp: settled_ok_def reservation_row_ok_def r')
  have owner: "owned es r'"
    using books_okD(5) [OF ok r(1)] by (simp add: owned_def r')
  have ids: "map rv_id ?rs = map rv_id rs" by (simp add: r')
  have operations: "map (\<lambda>r. (rv_tenant r, rv_operation r)) ?rs = map (\<lambda>r. (rv_tenant r, rv_operation r)) rs"
  proof -
    have "x = r" if "x \<in> set rs" "rv_id x = rv_id r" for x
      using that r(1) books_okD(2) [OF ok] by (metis distinct_map inj_onD)
    then show ?thesis by (auto simp: r')
  qed
  have kept: "settled_ok x \<and> owned ?es x" if "x \<in> set ?rs" for x
  proof -
    from that have "x = r' \<or> x \<in> set rs" by auto
    with settled owner books_okD(4,5) [OF ok] rows_kept(4) [OF keeps] show ?thesis by blast
  qed
  note es = rows_kept(1-3) [OF keeps, where eid = "rv_entitlement r" and es = es]
  show ?thesis
    using ok balance kept es(2,3) unfolding books_ok_def es(1) ids operations by blast
qed

section \<open>Every stored function keeps the books\<close>

lemma raise_not_Inr [simp]: "raise m \<noteq> Inr x" "violation c m \<noteq> Inr x"
  by (simp_all add: raise_def violation_def)

lemma passing_Inr: "passing g k = Inr x \<longleftrightarrow> g = None \<and> k = Inr x"
  by (cases g) (simp_all add: passing_def)

lemma found: "find P xs = Some x \<Longrightarrow> x \<in> set xs \<and> P x"
  by (auto simp: find_Some_iff)

lemma not_found: "find P xs = None \<Longrightarrow> x \<in> set xs \<Longrightarrow> \<not> P x"
  by (auto simp: find_None_iff)

lemma activate_keeps:
  assumes "activate_controlled_trial gates eid clock tenant actor now l = Inr (l', e)" "ledger_ok l"
  shows "ledger_ok l'"
proof -
  have e: "tl_entitlements l' = tl_entitlements l @ [e]" "tl_reservations l' = tl_reservations l"
    "entitlement_row_ok e" "is_trial e" "is_active e" "en_reserved e = 0" "en_consumed e = 0" "en_tenant e = tenant" "en_id e = eid"
    and fresh: "\<not> list_ex (\<lambda>e. en_id e = eid) (tl_entitlements l)" "trial_of tenant l = None" "active_entitlement tenant l = None"
    using assms(1)
    by (auto simp: activate_controlled_trial_def Let_def passing_Inr entitlement_row_ok_def is_trial_def is_active_def
        bigint_def split: if_split_asm)
  have "books_ok (tl_entitlements l @ [e]) (tl_reservations l)"
  proof (rule books_activate)
    show "books_ok (tl_entitlements l) (tl_reservations l)" using assms(2) by (simp add: ledger_ok_def)
    show "en_id e \<notin> en_id ` set (tl_entitlements l)" using fresh(1) e(9) by (auto simp: list_ex_iff)
    show "en_tenant d \<noteq> en_tenant e" if "d \<in> set (tl_entitlements l)" "is_active d \<or> is_trial d" for d
      using that not_found [OF fresh(2) [unfolded trial_of_def] that(1)] not_found [OF fresh(3) [unfolded active_entitlement_def] that(1)] e(8)
      by (auto simp: is_active_def is_trial_def)
  qed (use e in simp_all)
  then show ?thesis by (simp add: ledger_ok_def e)
qed

lemma replayed_same: "replayed r c n l = Inr (l', r') \<longleftrightarrow> l' = l \<and> r' = r \<and> rv_capability r = c \<and> rv_requested r = n"
  by (auto simp: replayed_def)

text \<open>A reservation is either a replay, which leaves the ledger alone, or a new row held by the active entitlement.\<close>

lemma reserveD:
  assumes "reserve_ai_tokens gates rid tenant operation capability requested actor now before l = Inr (l', r)"
  obtains "l' = l" "find_operation tenant operation before = Some r \<or> find_operation tenant operation l = Some r"
  | e l1 where "active_entitlement tenant l = Some e" "find_operation tenant operation l = None"
    "r = \<lparr>rv_id = rid, rv_tenant = tenant, rv_entitlement = en_id e, rv_operation = operation,
       rv_capability = capability, rv_requested = requested, rv_actual = None, rv_state = Reserved,
       rv_reserved_at = now, rv_expires_at = now + seconds 300, rv_reconciled_at = None\<rparr>"
    "reservation_row_ok r" "\<not> list_ex (\<lambda>r. rv_id r = rid) (tl_reservations l)"
    "update_entitlement (en_id e) (\<lambda>e. e\<lparr>en_reserved := en_reserved e + requested, en_updated_at := now\<rparr>)
       (l\<lparr>tl_reservations := tl_reservations l @ [r]\<rparr>) = Inr l1"
    "tl_entitlements l' = tl_entitlements l1" "tl_reservations l' = tl_reservations l1"
proof (cases "find_operation tenant operation before")
  case (Some s)
  with assms that(1) show ?thesis by (auto simp: reserve_ai_tokens_def replayed_same split: if_split_asm)
next
  case None
  obtain e where e: "active_entitlement tenant l = Some e"
    using assms None by (auto simp: reserve_ai_tokens_def split: if_split_asm option.splits)
  show ?thesis
  proof (cases "find_operation tenant operation l")
    case (Some s)
    with assms None e that(1) show ?thesis by (auto simp: reserve_ai_tokens_def replayed_same split: if_split_asm)
  next
    case fresh: None
    let ?r = "\<lparr>rv_id = rid, rv_tenant = tenant, rv_entitlement = en_id e, rv_operation = operation,
       rv_capability = capability, rv_requested = requested, rv_actual = None, rv_state = Reserved,
       rv_reserved_at = now, rv_expires_at = now + seconds 300, rv_reconciled_at = None\<rparr>"
    let ?u = "update_entitlement (en_id e) (\<lambda>e. e\<lparr>en_reserved := en_reserved e + requested, en_updated_at := now\<rparr>)
       (l\<lparr>tl_reservations := tl_reservations l @ [?r]\<rparr>)"
    have m: "reservation_row_ok ?r" "\<not> list_ex (\<lambda>r. rv_id r = rid) (tl_reservations l)"
      "passing (tg_reserve gates l ?r) (bindE ?u (\<lambda>l'. Inr (add_event tenant (en_id e) (Some rid) ''TOKENS_RESERVED'' actor
                  (PDict [(''operation_id'', PStr operation), (''capability'', PStr capability),
                          (''requested_tokens'', PInt requested)]) now l', ?r))) = Inr (l', r)"
      using assms None e fresh by (simp_all add: reserve_ai_tokens_def Let_def split: if_split_asm)
    from m(3) obtain l1 where u: "?u = Inr l1" "r = ?r" "tl_entitlements l' = tl_entitlements l1" "tl_reservations l' = tl_reservations l1"
      by (auto simp: passing_Inr bindE_eq_Inr)
    show ?thesis
      by (rule that(2) [OF e fresh u(2) _ m(2) _ u(3,4)]) (use m(1) u(1) in \<open>simp_all only: u(2)\<close>)
  qed
qed

lemma reserve_keeps:
  assumes "reserve_ai_tokens gates rid tenant operation capability requested actor now before l = Inr (l', r)" "ledger_ok l"
  shows "ledger_ok l'"
  using assms(1)
proof (cases rule: reserveD)
  case 1
  with assms(2) show ?thesis by simp
next
  case (2 e l1)
  have e: "e \<in> set (tl_entitlements l)" "en_tenant e = tenant"
    using found [OF 2(1) [unfolded active_entitlement_def]] by simp_all
  note u = update_entitlementD [OF 2(6)]
  have "books_ok (map (\<lambda>d. if en_id d = en_id e then d\<lparr>en_reserved := en_reserved d + rv_requested r, en_updated_at := now\<rparr> else d)
      (tl_entitlements l)) (tl_reservations l @ [r])"
  proof (rule books_reserve)
    show "books_ok (tl_entitlements l) (tl_reservations l)" using assms(2) by (simp add: ledger_ok_def)
    show "(rv_tenant r, rv_operation r) \<notin> (\<lambda>r. (rv_tenant r, rv_operation r)) ` set (tl_reservations l)"
      using not_found [OF 2(2) [unfolded find_operation_def]] by (auto simp: 2(3))
    show "rv_id r \<notin> rv_id ` set (tl_reservations l)" using 2(5) by (auto simp: 2(3) list_ex_iff)
    show "entitlement_row_ok (e\<lparr>en_reserved := en_reserved e + rv_requested r, en_updated_at := now\<rparr>)"
      using u(4) [of e] e by (simp add: 2(3))
    show "settled_ok r" using 2(4) by (simp add: settled_ok_def 2(3))
  qed (use e in \<open>simp_all add: 2(3)\<close>)
  then have "books_ok (tl_entitlements l1) (tl_reservations l1)"
    unfolding u(1,2) by (simp add: 2(3) cong: if_cong)
  then show ?thesis using 2(7,8) by (simp add: ledger_ok_def)
qed

lemma settleD:
  assumes "settle gates r state actual now event l = Inr (l', r')"
    and "\<And>l. tl_entitlements (event l) = tl_entitlements l \<and> tl_reservations (event l) = tl_reservations l"
  shows "r' = r\<lparr>rv_state := state, rv_actual := Some actual, rv_reconciled_at := Some now\<rparr>"
    "tl_entitlements l' = map (\<lambda>e. if en_id e = rv_entitlement r then e\<lparr>en_reserved := en_reserved e - rv_requested r,
        en_consumed := en_consumed e + actual, en_updated_at := now\<rparr> else e) (tl_entitlements l)"
    "tl_reservations l' = map (\<lambda>x. if rv_id x = rv_id r then r' else x) (tl_reservations l)"
    "e \<in> set (tl_entitlements l) \<Longrightarrow> en_id e = rv_entitlement r \<Longrightarrow> entitlement_row_ok (e\<lparr>en_reserved := en_reserved e - rv_requested r,
        en_consumed := en_consumed e + actual, en_updated_at := now\<rparr>)"
proof -
  obtain l1 where u: "update_entitlement (rv_entitlement r) (\<lambda>e. e\<lparr>en_reserved := en_reserved e - rv_requested r,
              en_consumed := en_consumed e + actual, en_updated_at := now\<rparr>) l = Inr l1"
    and r': "r' = r\<lparr>rv_state := state, rv_actual := Some actual, rv_reconciled_at := Some now\<rparr>"
    and l': "l' = event (update_reservation (rv_id r) (\<lambda>_. r') l1)"
    using assms(1) by (auto simp: settle_def Let_def passing_Inr bindE_eq_Inr)
  note d = update_entitlementD [OF u]
  show "r' = r\<lparr>rv_state := state, rv_actual := Some actual, rv_reconciled_at := Some now\<rparr>" by (rule r')
  show "tl_entitlements l' = map (\<lambda>e. if en_id e = rv_entitlement r then e\<lparr>en_reserved := en_reserved e - rv_requested r,
        en_consumed := en_consumed e + actual, en_updated_at := now\<rparr> else e) (tl_entitlements l)"
    using assms(2) d(1) by (simp add: l' update_reservation_def)
  show "tl_reservations l' = map (\<lambda>x. if rv_id x = rv_id r then r' else x) (tl_reservations l)"
    using assms(2) d(2) by (simp add: l' update_reservation_def)
  show "e \<in> set (tl_entitlements l) \<Longrightarrow> en_id e = rv_entitlement r \<Longrightarrow> entitlement_row_ok (e\<lparr>en_reserved := en_reserved e - rv_requested r,
        en_consumed := en_consumed e + actual, en_updated_at := now\<rparr>)"
    by (rule d(4))
qed

lemma settle_keeps:
  assumes "settle gates r state actual now event l = Inr (l', r')" "ledger_ok l"
    and "\<And>l. tl_entitlements (event l) = tl_entitlements l \<and> tl_reservations (event l) = tl_reservations l"
    and "r \<in> set (tl_reservations l)" "rv_state r = Reserved"
    and "0 \<le> actual" "actual \<le> rv_requested r" "state = Reconciled \<or> (state = Released \<and> actual = 0)"
  shows "ledger_ok l'"
  unfolding ledger_ok_def settleD(2,3) [OF assms(1,3)]
  by (rule books_settle [OF _ assms(4,5) settleD(1) [OF assms(1,3)] assms(6-8)])
    (use assms(2) settleD(4) [OF assms(1,3)] in \<open>simp_all add: ledger_ok_def\<close>)

lemma reconcile_keeps:
  assumes "reconcile_ai_tokens gates tenant rid actual actor now l = Inr (l', r')" "ledger_ok l"
  shows "ledger_ok l'"
proof -
  obtain r where r: "find_reservation tenant rid l = Some r"
    using assms(1) by (auto simp: reconcile_ai_tokens_def split: option.splits)
  have mem: "r \<in> set (tl_reservations l)" using found [OF r [unfolded find_reservation_def]] by simp
  consider "l' = l" | "rv_state r = Reserved" "0 \<le> actual" "actual \<le> rv_requested r"
      "settle gates r Reconciled actual now (add_event tenant (rv_entitlement r) (Some (rv_id r)) ''TOKENS_RECONCILED'' actor
             (PDict [(''requested_tokens'', PInt (rv_requested r)), (''actual_tokens'', PInt actual)]) now) l = Inr (l', r')"
    using assms(1) r by (cases "rv_state r") (auto simp: reconcile_ai_tokens_def split: if_split_asm)
  then show ?thesis
  proof cases
    case 2
    show ?thesis by (rule settle_keeps [OF 2(4) assms(2) _ mem 2(1-3)]) simp_all
  qed (use assms(2) in simp)
qed

lemma release_keeps:
  assumes "release_ai_token_reservation gates tenant rid actor now l = Inr (l', r')" "ledger_ok l"
  shows "ledger_ok l'"
proof -
  obtain r where r: "find_reservation tenant rid l = Some r"
    using assms(1) by (auto simp: release_ai_token_reservation_def split: option.splits)
  have mem: "r \<in> set (tl_reservations l)" using found [OF r [unfolded find_reservation_def]] by simp
  consider "l' = l" | "rv_state r = Reserved"
      "settle gates r Released 0 now (add_event tenant (rv_entitlement r) (Some (rv_id r)) ''TOKEN_RESERVATION_RELEASED'' actor
         (PDict []) now) l = Inr (l', r')"
    using assms(1) r by (cases "rv_state r") (auto simp: release_ai_token_reservation_def split: if_split_asm)
  then show ?thesis
  proof cases
    case 2
    have "0 \<le> rv_requested r"
      using books_okD(4) [OF assms(2) [unfolded ledger_ok_def] mem] by (simp add: settled_ok_def reservation_row_ok_def)
    then show ?thesis by (intro settle_keeps [OF 2(2) assms(2) _ mem 2(1)]) simp_all
  qed (use assms(2) in simp)
qed

lemma read_only_keeps:
  assumes "update_entitlement eid (read_only_at now) l = Inr l'" "ledger_ok l"
  shows "ledger_ok l'"
  using books_read_only [of "tl_entitlements l" "tl_reservations l" eid now] assms(2) update_entitlementD(1,2) [OF assms(1)]
  by (simp add: ledger_ok_def)

lemma expire_current_keeps:
  "expire_current_trial tenant actor now l = Inr (l', e) \<Longrightarrow> ledger_ok l \<Longrightarrow> ledger_ok l'"
  using read_only_keeps [of _ now l]
  by (auto simp: expire_current_trial_def bindE_eq_Inr ledger_ok_def split: option.splits if_split_asm)

lemma expire_due_keeps: "expire_due_trial tenant actor now l = Inr (l', b) \<Longrightarrow> ledger_ok l \<Longrightarrow> ledger_ok l'"
  using read_only_keeps [of _ now l]
  by (auto simp: expire_due_trial_def bindE_eq_Inr ledger_ok_def split: option.splits if_split_asm)

section \<open>Any sequence of calls\<close>

datatype ledger_call =
    CallActivate string int string string int
  | CallReserve string string string string int string int token_ledger
  | CallReconcile string string int string int
  | CallRelease string string string int
  | CallExpireCurrent string string int
  | CallExpireDue string string int

definition ledger_step :: "trigger_gates \<Rightarrow> token_ledger \<Rightarrow> ledger_call \<Rightarrow> token_ledger" where
  "ledger_step gates l c = (case c of
     CallActivate eid clock tenant actor now \<Rightarrow> snd (run_in (activate_controlled_trial gates eid clock tenant actor now l) l)
   | CallReserve rid tenant operation capability requested actor now before \<Rightarrow>
       snd (run_in (reserve_ai_tokens gates rid tenant operation capability requested actor now before l) l)
   | CallReconcile tenant rid actual actor now \<Rightarrow> snd (run_in (reconcile_ai_tokens gates tenant rid actual actor now l) l)
   | CallRelease tenant rid actor now \<Rightarrow> snd (run_in (release_ai_token_reservation gates tenant rid actor now l) l)
   | CallExpireCurrent tenant actor now \<Rightarrow> snd (run_in (expire_current_trial tenant actor now l) l)
   | CallExpireDue tenant actor now \<Rightarrow> snd (run_in (expire_due_trial tenant actor now l) l))"

lemma run_in_keeps: "(\<And>l' x. m = Inr (l', x) \<Longrightarrow> P l') \<Longrightarrow> P l \<Longrightarrow> P (snd (run_in m l))"
  by (auto simp: run_in_def split: sum.split)

lemma ledger_step_keeps: "ledger_ok l \<Longrightarrow> ledger_ok (ledger_step gates l c)"
  by (cases c) (simp_all add: ledger_step_def run_in_keeps [of _ ledger_ok] activate_keeps reserve_keeps reconcile_keeps
      release_keeps expire_current_keeps expire_due_keeps)

lemma ledger_steps_keep: "ledger_ok l \<Longrightarrow> ledger_ok (foldl (ledger_step gates) l cs)"
  by (induction cs arbitrary: l) (simp_all add: ledger_step_keeps)

section \<open>What the ledger guarantees\<close>

definition open_gates :: trigger_gates where
  "open_gates = \<lparr>tg_activate = \<lambda>_ _. None, tg_reserve = \<lambda>_ _. None, tg_settle = \<lambda>_ _. None\<rparr>"

definition empty_ledger :: token_ledger where
  "empty_ledger = \<lparr>tl_entitlements = [], tl_reservations = [], tl_events = []\<rparr>"

lemma empty_ledger_ok: "ledger_ok empty_ledger"
  by (simp add: ledger_ok_def books_ok_def empty_ledger_def)

text \<open>C10: Whatever calls are made in whatever order, including calls that fail, calls refused by a trigger and
  reservations that raced with another transaction, what an entitlement holds as reserved and as consumed
  stays the sum over its reservations, and what a trial has consumed and still holds never exceeds its
  million tokens.\<close>
theorem token_books_balance:
  assumes "ledger_ok l" "e \<in> set (tl_entitlements (foldl (ledger_step gates) l cs))"
  shows "en_reserved e = (\<Sum>r\<leftarrow>tl_reservations (foldl (ledger_step gates) l cs). held (en_id e) r)
     \<and> en_consumed e = (\<Sum>r\<leftarrow>tl_reservations (foldl (ledger_step gates) l cs). spent (en_id e) r)
     \<and> 0 \<le> en_reserved e \<and> 0 \<le> en_consumed e
     \<and> (en_kind e = KindTrial \<longrightarrow> en_consumed e + en_reserved e \<le> 1000000)"
  using books_okD(3) [OF ledger_steps_keep [OF assms(1), unfolded ledger_ok_def] assms(2)]
  by (auto simp: balanced_def entitlement_row_ok_def)

definition sample_calls :: "ledger_call list" where
  "sample_calls = [CallActivate ''e1'' 5 ''t1'' ''owner'' 10,
     CallReserve ''r1'' ''t1'' ''op_12345678'' ''NAVIGATE_AXIGNAL'' 90000 ''owner'' 20 empty_ledger,
     CallReconcile ''t1'' ''r1'' 70000 ''owner'' 30]"

lemma sample_ledger:
  "tl_entitlements (foldl (ledger_step open_gates) empty_ledger sample_calls)
     = [\<lparr>en_id = ''e1'', en_tenant = ''t1'', en_kind = KindTrial, en_plan_code = ''TRIAL_7D'', en_state = EntActive,
         en_starts_at = 10, en_expires_at = Some 604800000010, en_unlimited = False, en_total = Some 1000000,
         en_reserved = 0, en_consumed = 70000, en_activated_by = ''owner'', en_created_at = 5, en_updated_at = 30\<rparr>]"
  by (simp add: sample_calls_def ledger_step_def run_in_def activate_controlled_trial_def blank_actor_def trial_of_def
      active_entitlement_def empty_ledger_def open_gates_def passing_def Let_def reserve_ai_tokens_def find_operation_def
      reservation_row_ok_def ledger_capabilities_def bigint_def seconds_def update_entitlement_def entitlement_row_ok_def
      add_event_def reconcile_ai_tokens_def find_reservation_def settle_def update_reservation_def)

theorem token_books_balance_witness:
  "\<exists>e\<in>set (tl_entitlements (foldl (ledger_step open_gates) empty_ledger sample_calls)).
     en_consumed e = 70000 \<and> en_consumed e + en_reserved e \<le> 1000000"
proof -
  obtain e where e: "e \<in> set (tl_entitlements (foldl (ledger_step open_gates) empty_ledger sample_calls))"
    "en_consumed e = 70000" "en_kind e = KindTrial"
    unfolding sample_ledger by simp
  with token_books_balance [OF empty_ledger_ok e(1)] show ?thesis by blast
qed

lemma held_nonneg: "settled_ok r \<Longrightarrow> 0 \<le> held i r"
  by (auto simp: held_def settled_ok_def reservation_row_ok_def)

lemma member_le_sum:
  fixes f :: "'a \<Rightarrow> int"
  shows "x \<in> set xs \<Longrightarrow> (\<And>y. y \<in> set xs \<Longrightarrow> 0 \<le> f y) \<Longrightarrow> f x \<le> sum_list (map f xs)"
proof (induction xs)
  case (Cons y ys)
  have "0 \<le> sum_list (map f ys)" using Cons.prems(2) by (intro sum_list_nonneg) auto
  with Cons show ?case by fastforce
qed simp

lemma settle_row_ok:
  assumes ok: "ledger_ok l" and r: "r \<in> set (tl_reservations l)" "rv_state r = Reserved"
    and small: "\<And>e. e \<in> set (tl_entitlements l) \<Longrightarrow> en_id e = rv_entitlement r \<Longrightarrow> en_consumed e + actual < 2 ^ 63"
    and actual: "0 \<le> actual" "actual \<le> rv_requested r"
  shows "\<exists>l1. update_entitlement (rv_entitlement r) (\<lambda>e. e\<lparr>en_reserved := en_reserved e - rv_requested r,
        en_consumed := en_consumed e + actual, en_updated_at := now\<rparr>) l = Inr l1"
proof -
  have "entitlement_row_ok (e\<lparr>en_reserved := en_reserved e - rv_requested r, en_consumed := en_consumed e + actual, en_updated_at := now\<rparr>)"
    if e: "e \<in> set (tl_entitlements l)" "en_id e = rv_entitlement r" for e
  proof -
    note bal = books_okD(3) [OF ok [unfolded ledger_ok_def] e(1)]
    have "held (en_id e) r \<le> en_reserved e"
      using bal member_le_sum [OF r(1), of "held (en_id e)"] held_nonneg books_okD(4) [OF ok [unfolded ledger_ok_def]]
      by (simp add: balanced_def)
    then have "rv_requested r \<le> en_reserved e" using e r(2) by (simp add: held_def)
    with bal small [OF e] actual show ?thesis
      by (auto simp: balanced_def entitlement_row_ok_def bigint_def split: entitlement_kind.splits option.splits)
  qed
  then show ?thesis by (auto simp: update_entitlement_def list_all_iff)
qed

text \<open>An open reservation is never stuck: as long as no trigger refuses and the counter stays in its 64 bits, it can
  be reconciled with any usage up to what was requested, and it can be released.\<close>

lemma reservation_settles:
  assumes "ledger_ok l" "find_reservation tenant rid l = Some r" "rv_state r = Reserved"
    and "\<And>e. e \<in> set (tl_entitlements l) \<Longrightarrow> en_id e = rv_entitlement r \<Longrightarrow> en_consumed e + actual < 2 ^ 63"
    and "0 \<le> actual" "actual \<le> rv_requested r" "tg_settle gates = (\<lambda>_ _. None)"
  shows "(\<exists>l' r'. reconcile_ai_tokens gates tenant rid actual actor now l = Inr (l', r')
        \<and> rv_state r' = Reconciled \<and> rv_actual r' = Some actual)
     \<and> (\<exists>l' r'. release_ai_token_reservation gates tenant rid actor now l = Inr (l', r') \<and> rv_state r' = Released)"
proof -
  have r: "r \<in> set (tl_reservations l)" using found [OF assms(2) [unfolded find_reservation_def]] by simp
  have small: "en_consumed e + 0 < 2 ^ 63" if "e \<in> set (tl_entitlements l)" "en_id e = rv_entitlement r" for e
    using assms(4) [OF that] assms(5) by linarith
  have "0 \<le> rv_requested r" using assms(5,6) by linarith
  then have "\<exists>l2. update_entitlement (rv_entitlement r) (\<lambda>e. e\<lparr>en_reserved := en_reserved e - rv_requested r,
        en_consumed := en_consumed e + 0, en_updated_at := now\<rparr>) l = Inr l2"
    by (intro settle_row_ok [OF assms(1) r assms(3)] small) simp_all
  moreover have "\<exists>l1. update_entitlement (rv_entitlement r) (\<lambda>e. e\<lparr>en_reserved := en_reserved e - rv_requested r,
        en_consumed := en_consumed e + actual, en_updated_at := now\<rparr>) l = Inr l1"
    by (intro settle_row_ok [OF assms(1) r assms(3)] assms(4-6))
  ultimately obtain l1 l2 where
    "update_entitlement (rv_entitlement r) (\<lambda>e. e\<lparr>en_reserved := en_reserved e - rv_requested r,
        en_consumed := en_consumed e + actual, en_updated_at := now\<rparr>) l = Inr l1"
    "update_entitlement (rv_entitlement r) (\<lambda>e. e\<lparr>en_reserved := en_reserved e - rv_requested r,
        en_consumed := en_consumed e + 0, en_updated_at := now\<rparr>) l = Inr l2"
    by blast
  then show ?thesis
    using assms(2,3,5,6,7)
    by (simp add: reconcile_ai_tokens_def release_ai_token_reservation_def settle_def Let_def passing_def)
qed

definition sample_open :: token_ledger where
  "sample_open = foldl (ledger_step open_gates) empty_ledger (take 2 sample_calls)"

lemma sample_open_ok: "ledger_ok sample_open"
  unfolding sample_open_def by (rule ledger_steps_keep) (rule empty_ledger_ok)

lemma find_replaced:
  assumes "find P xs = Some r" "P r'" "\<And>x. P x \<longleftrightarrow> key x = i \<and> Q x" "key r' = i"
  shows "find P (map (\<lambda>x. if key x = i then r' else x) xs) = Some r'"
  using assms(1,2,4) by (induction xs) (auto simp: assms(3) split: if_split_asm)

text \<open>A reservation that has been reconciled stays as it is: reconciling it again with the same usage changes
  nothing and returns the same row, another usage is a conflict, and it cannot be released.\<close>
theorem reconciled_is_final:
  assumes "reconcile_ai_tokens gates tenant rid actual actor now l = Inr (l', r')" "ledger_ok l"
  shows "reconcile_ai_tokens gates tenant rid actual actor' now' l' = Inr (l', r')
     \<and> (0 \<le> b \<longrightarrow> b \<le> rv_requested r' \<longrightarrow> b \<noteq> actual \<longrightarrow>
          reconcile_ai_tokens gates tenant rid b actor' now' l' = raise ''reconciliation_conflict'')
     \<and> release_ai_token_reservation gates tenant rid actor' now' l' = raise ''reservation_not_active''"
proof -
  obtain r where r: "find_reservation tenant rid l = Some r"
    using assms(1) by (auto simp: reconcile_ai_tokens_def split: option.splits)
  have range: "0 \<le> actual" "actual \<le> rv_requested r"
    using assms(1) r by (auto simp: reconcile_ai_tokens_def split: if_split_asm)
  have final: "find_reservation tenant rid l' = Some r' \<and> rv_state r' = Reconciled \<and> rv_actual r' = Some actual
      \<and> rv_requested r' = rv_requested r"
  proof (cases "rv_state r")
    case Reserved
    let ?event = "add_event tenant (rv_entitlement r) (Some (rv_id r)) ''TOKENS_RECONCILED'' actor
             (PDict [(''requested_tokens'', PInt (rv_requested r)), (''actual_tokens'', PInt actual)]) now"
    have "settle gates r Reconciled actual now ?event l = Inr (l', r')"
      using assms(1) r Reserved range by (simp add: reconcile_ai_tokens_def)
    note s = settleD(1,3) [OF this]
    have rows: "r' = r\<lparr>rv_state := Reconciled, rv_actual := Some actual, rv_reconciled_at := Some now\<rparr>"
      "tl_reservations l' = map (\<lambda>x. if rv_id x = rv_id r then r' else x) (tl_reservations l)"
      using s by simp_all
    have p: "rv_tenant r = tenant" "rv_id r = rid" using found [OF r [unfolded find_reservation_def]] by simp_all
    have "find_reservation tenant rid l' = Some r'"
      unfolding find_reservation_def rows(2) p(2)
      by (rule find_replaced [OF r [unfolded find_reservation_def], where Q = "\<lambda>x. rv_tenant x = tenant"])
        (use p in \<open>auto simp: rows(1)\<close>)
    then show ?thesis by (simp add: rows(1))
  next
    case Reconciled
    with assms(1) r range show ?thesis by (auto simp: reconcile_ai_tokens_def split: if_split_asm)
  next
    case Released
    with assms(1) r range show ?thesis by (simp add: reconcile_ai_tokens_def)
  qed
  then show ?thesis
    using range by (simp add: reconcile_ai_tokens_def release_ai_token_reservation_def)
qed

theorem reconciled_is_final_witness:
  "\<exists>l' r'. reconcile_ai_tokens open_gates ''t1'' ''r1'' 70000 ''owner'' 40 sample_open = Inr (l', r')
     \<and> release_ai_token_reservation open_gates ''t1'' ''r1'' ''owner'' 50 l' = raise ''reservation_not_active''"
proof -
  obtain l' r' where r: "reconcile_ai_tokens open_gates ''t1'' ''r1'' 70000 ''owner'' 40 sample_open = Inr (l', r')"
    by (simp add: sample_open_def sample_calls_def ledger_step_def run_in_def activate_controlled_trial_def blank_actor_def trial_of_def
      active_entitlement_def empty_ledger_def open_gates_def passing_def Let_def reserve_ai_tokens_def find_operation_def
      reservation_row_ok_def ledger_capabilities_def bigint_def seconds_def update_entitlement_def entitlement_row_ok_def
      add_event_def find_reservation_def reconcile_ai_tokens_def settle_def update_reservation_def)
  with reconciled_is_final [OF r sample_open_ok, where b = 0 and actor' = "''owner''" and now' = 50] show ?thesis by blast
qed

text \<open>A repeated operation is answered from its reservation whatever has become of it: when no trial is due, the
  repository returns the old row and leaves the ledger alone even if the reservation has been released or
  reconciled, its five minutes are over, or the tenant has no active entitlement any more.\<close>
theorem settled_operation_replayed:
  assumes "find_operation tenant operation l = Some r" "rv_capability r = capability" "rv_requested r = requested"
    and "0 < requested" "\<not> blank_actor actor"
    and "find (\<lambda>e. en_tenant e = tenant \<and> en_kind e = KindTrial \<and> due now e) (tl_entitlements l) = None"
  shows "repo_reserve gates rid tenant operation capability requested actor now l = (Inr r, l)"
  using assms by (simp add: repo_reserve_def expire_due_trial_def run_in_def reserve_ai_tokens_def replayed_def)

definition expired_ledger :: token_ledger where
  \<comment> \<open>the trial was swept after its reservation had been reconciled\<close>
  "expired_ledger = foldl (ledger_step open_gates) empty_ledger (sample_calls @ [CallExpireDue ''t1'' ''sweep'' 700000000000])"

theorem settled_operation_replayed_witness:
  "active_entitlement ''t1'' expired_ledger = None
   \<and> (\<exists>r. rv_state r = Reconciled \<and> repo_reserve open_gates ''r2'' ''t1'' ''op_12345678'' ''NAVIGATE_AXIGNAL'' 90000 ''owner'' 800000000000
          expired_ledger = (Inr r, expired_ledger))"
proof -
  have rows: "map en_state (tl_entitlements expired_ledger) = [EntReadOnly]"
    "map_option (\<lambda>r. (rv_state r, rv_capability r, rv_requested r)) (find_operation ''t1'' ''op_12345678'' expired_ledger)
       = Some (Reconciled, ''NAVIGATE_AXIGNAL'', 90000)"
    by (simp_all add: expired_ledger_def sample_calls_def ledger_step_def run_in_def activate_controlled_trial_def blank_actor_def trial_of_def
      active_entitlement_def empty_ledger_def open_gates_def passing_def Let_def reserve_ai_tokens_def find_operation_def
      reservation_row_ok_def ledger_capabilities_def bigint_def seconds_def update_entitlement_def entitlement_row_ok_def
      add_event_def reconcile_ai_tokens_def find_reservation_def settle_def update_reservation_def expire_due_trial_def
      due_def read_only_at_def)
  then have inactive: "active_entitlement ''t1'' expired_ledger = None"
    "find (\<lambda>e. en_tenant e = ''t1'' \<and> en_kind e = KindTrial \<and> due 800000000000 e) (tl_entitlements expired_ledger) = None"
    by (auto simp: active_entitlement_def find_None_iff due_def)
  obtain r where r: "find_operation ''t1'' ''op_12345678'' expired_ledger = Some r" "rv_state r = Reconciled"
    "rv_capability r = ''NAVIGATE_AXIGNAL''" "rv_requested r = 90000"
    using rows(2) by auto
  have actor: "\<not> blank_actor ''owner''" by (simp add: blank_actor_def)
  have "repo_reserve open_gates ''r2'' ''t1'' ''op_12345678'' ''NAVIGATE_AXIGNAL'' 90000 ''owner'' 800000000000 expired_ledger
      = (Inr r, expired_ledger)"
    by (rule settled_operation_replayed [OF r(1,3,4) _ actor inactive(2)]) simp
  with inactive(1) r(2) show ?thesis by blast
qed

end
