(* ===== verification/Entitlements.thy ===== *)
theory Entitlements
  imports Identity TokenBudget
begin

text \<open>
  \<^verbatim>\<open>ai_scope.py\<close>, \<^verbatim>\<open>entitlement_config.py\<close> and the routes of \<^verbatim>\<open>entitlements.py\<close>: a typed request is classified
  before anything else, tokens are reserved in the ledger, a capability token binds the reservation to
  its tenant, and usage is settled with that token only. A route takes the ledger and returns it with its
  answer or its exception; each reading of the clock is an argument.
\<close>

section \<open>Scope\<close>

datatype scope_decision = InScope | ClarificationRequired | OutOfScope | BlockedSafety

record scope_result =
  sc_decision :: scope_decision
  sc_reason :: string
  sc_capability :: string

definition scope_name :: "scope_decision \<Rightarrow> string" where
  "scope_name d = (case d of InScope \<Rightarrow> ''IN_SCOPE_AXIGNAL'' | ClarificationRequired \<Rightarrow> ''CLARIFICATION_REQUIRED''
     | OutOfScope \<Rightarrow> ''OUT_OF_SCOPE'' | BlockedSafety \<Rightarrow> ''BLOCKED_SAFETY_OR_AUTHORITY'')"

definition blocked_markers :: "string list" where
  "blocked_markers =
     [''ignore previous'', ''ignore system'', ''bypass'', ''system prompt'', ''developer message'', ''admit this claim'',
      ''admit this source'', ''submit the bid'', ''send the application'', ''make the payment'', ''issue a refund'',
      ''execute shell'', ''run command'', ''impersonate'']"

definition out_of_scope_markers :: "string list" where
  "out_of_scope_markers =
     [''therapy'', ''therapist'', ''psychologist'', ''medical diagnosis'', ''write code'', ''debug code'', ''weather forecast'',
      ''recipe'', ''horoscope'', ''general knowledge'']"

definition normalised_intent :: "string \<Rightarrow> string" where
  "normalised_intent s = collapse_ws (casefold s)"

definition classify_axignal_request :: "string \<Rightarrow> string \<Rightarrow> scope_result" where
  \<comment> \<open>\<^verbatim>\<open>ALLOWED_CAPABILITIES\<close> are the capabilities of the ledger's constraint\<close>
  "classify_axignal_request capability user_intent =
     (let t = normalised_intent user_intent in
      if capability \<notin> set ledger_capabilities
      then \<lparr>sc_decision = OutOfScope, sc_reason = ''capability_not_allowlisted'', sc_capability = capability\<rparr>
      else if length t < 3
      then \<lparr>sc_decision = ClarificationRequired, sc_reason = ''intent_is_not_specific_enough'', sc_capability = capability\<rparr>
      else if list_ex (\<lambda>m. contains m t) blocked_markers
      then \<lparr>sc_decision = BlockedSafety, sc_reason = ''prompt_injection_or_external_authority_request'', sc_capability = capability\<rparr>
      else if list_ex (\<lambda>m. contains m t) out_of_scope_markers
      then \<lparr>sc_decision = OutOfScope, sc_reason = ''request_is_not_an_axignal_task'', sc_capability = capability\<rparr>
      else \<lparr>sc_decision = InScope, sc_reason = ''typed_axignal_capability_allowed'', sc_capability = capability\<rparr>)"

section \<open>Settings\<close>

record entitlement_settings =
  es_database_url :: "string option"
  es_trial_enabled :: bool
  es_ai_enabled :: bool
  es_secret :: "string option"
  es_ttl_seconds :: int

definition missing :: "string option \<Rightarrow> bool" where
  "missing s \<longleftrightarrow> s = None \<or> s = Some []"

definition require_store :: "entitlement_settings \<Rightarrow> unit result" where
  "require_store s = (if missing (es_database_url s) then Inl (RuntimeError ''AXIGNAL_ENTITLEMENT_DATABASE_URL is required'') else Inr ())"

definition require_trial_activation :: "entitlement_settings \<Rightarrow> unit result" where
  "require_trial_activation s = bindE (require_store s) (\<lambda>_.
     if \<not> es_trial_enabled s then Inl (RuntimeError ''Controlled trial runtime is disabled'') else Inr ())"

definition require_ai_authorization :: "entitlement_settings \<Rightarrow> unit result" where
  "require_ai_authorization s = bindE (require_store s) (\<lambda>_.
     if \<not> es_ai_enabled s then Inl (RuntimeError ''End-user AXIGNAL AI is disabled'')
     else if missing (es_secret s) then Inl (RuntimeError ''AXIGNAL_CAPABILITY_TOKEN_SECRET is required'')
     else if length (utf8 (the (es_secret s))) < 32
     then Inl (RuntimeError ''AXIGNAL_CAPABILITY_TOKEN_SECRET must be at least 32 bytes'')
     else if \<not> (1 \<le> es_ttl_seconds s \<and> es_ttl_seconds s \<le> 300)
     then Inl (RuntimeError ''AXIGNAL_CAPABILITY_TOKEN_TTL_SECONDS must be between 1 and 300'')
     else Inr ())"

section \<open>Commands and views\<close>

record authorization_command =
  ac_operation_id :: string
  ac_capability :: string
  ac_intent :: string
  ac_max_tokens :: int

definition is_operation_char :: "char \<Rightarrow> bool" where
  "is_operation_char c = (is_ascii_upper c \<or> is_ascii_lower c \<or> is_digit c \<or> c = CHR ''_'' \<or> c = CHR ''-'')"

definition valid_authorization :: "authorization_command \<Rightarrow> bool" where
  \<comment> \<open>the field constraints of \<^verbatim>\<open>AIRequestAuthorizationCommand\<close>\<close>
  "valid_authorization c \<longleftrightarrow>
     starts_with ''op_'' (ac_operation_id c) \<and> 11 \<le> length (ac_operation_id c) \<and> length (ac_operation_id c) \<le> 200
     \<and> list_all is_operation_char (drop 3 (ac_operation_id c))
     \<and> ac_capability c \<in> set ledger_capabilities
     \<and> 3 \<le> length (ac_intent c) \<and> length (ac_intent c) \<le> 4000 \<and> 1 \<le> ac_max_tokens c \<and> ac_max_tokens c \<le> 100000"

record entitlement_view =
  ev_entitlement_id :: string
  ev_kind :: entitlement_kind
  ev_plan_code :: string
  ev_state :: entitlement_state
  ev_starts_at :: int
  ev_expires_at :: "int option"
  ev_unlimited :: bool
  ev_total :: "int option"
  ev_reserved :: int
  ev_consumed :: int
  ev_available :: "int option"

definition view_of :: "entitlement \<Rightarrow> entitlement_view" where
  "view_of e = \<lparr>ev_entitlement_id = en_id e, ev_kind = en_kind e, ev_plan_code = en_plan_code e, ev_state = en_state e,
     ev_starts_at = en_starts_at e, ev_expires_at = en_expires_at e, ev_unlimited = en_unlimited e, ev_total = en_total e,
     ev_reserved = en_reserved e, ev_consumed = en_consumed e,
     ev_available = map_option (\<lambda>t. t - en_reserved e - en_consumed e) (en_total e)\<rparr>"

record ai_authorization =
  aa_reason :: string
  aa_reservation_id :: string
  aa_capability :: string
  aa_token :: string
  aa_expires_at :: int
  aa_kind :: entitlement_kind
  aa_available :: "int option"

record usage_result =
  ur_reservation_id :: string
  ur_state :: reservation_state
  ur_requested :: int
  ur_actual :: int

section \<open>Errors of the store\<close>

definition error_message :: "py_error \<Rightarrow> string" where
  "error_message e = (case e of DatabaseError _ m \<Rightarrow> m | RuntimeError m \<Rightarrow> m | ValueError m \<Rightarrow> m | TypeError m \<Rightarrow> m
     | OverflowError m \<Rightarrow> m | AttributeError m \<Rightarrow> m | KeyError m \<Rightarrow> m | _ \<Rightarrow> [])"

definition exception_class :: "py_error \<Rightarrow> string" where
  "exception_class e = (case e of DatabaseError c _ \<Rightarrow> c | RuntimeError _ \<Rightarrow> ''RuntimeError'' | ValueError _ \<Rightarrow> ''ValueError''
     | TypeError _ \<Rightarrow> ''TypeError'' | OverflowError _ \<Rightarrow> ''OverflowError'' | AttributeError _ \<Rightarrow> ''AttributeError''
     | KeyError _ \<Rightarrow> ''KeyError'' | _ \<Rightarrow> ''Exception'')"

definition store_errors :: "(string \<times> nat \<times> string) list" where
  "store_errors =
     [(''trial_already_activated'', 409, ''Trial already activated''),
      (''trial_token_budget_exhausted'', 409, ''Trial token budget exhausted''),
      (''trial_expired'', 403, ''Trial has expired''),
      (''active_entitlement_required'', 403, ''Active entitlement required''),
      (''operation_id_conflict'', 409, ''Operation id conflicts with an existing reservation''),
      (''reconciliation_conflict'', 409, ''Reservation was already reconciled with different usage''),
      (''reservation_not_found'', 404, ''Reservation not found''),
      (''reservation_not_active'', 409, ''Reservation is not active''),
      (''actual_tokens_outside_reservation'', 422, ''Actual usage exceeds the authorised reservation''),
      (''trial_not_found'', 404, ''Trial not found'')]"

definition raise_store_error :: "py_error \<Rightarrow> 'a result" where
  "raise_store_error e =
     (case find (\<lambda>(marker, _). contains marker (error_message e)) store_errors of
        Some (_, status, detail) \<Rightarrow> Inl (HTTPException status detail)
      | None \<Rightarrow> Inl (HTTPException 503 (''Entitlement runtime unavailable: '' @ exception_class e)))"

definition store_call :: "'a result \<times> token_ledger \<Rightarrow> 'a result \<times> token_ledger" where
  "store_call r = (case r of (Inl e, l) \<Rightarrow> (raise_store_error e, l) | (Inr x, l) \<Rightarrow> (Inr x, l))"

section \<open>The routes\<close>

definition settings_and_repository :: "entitlement_settings \<Rightarrow> unit result" where
  "settings_and_repository s = (case require_store s of
     Inl (RuntimeError m) \<Rightarrow> Inl (HTTPException 503 m) | r \<Rightarrow> r)"

definition verify_grant ::
    "(string \<Rightarrow> pyval result) \<Rightarrow> (int \<Rightarrow> py_error) \<Rightarrow> entitlement_settings \<Rightarrow> int \<Rightarrow> string \<Rightarrow> string \<Rightarrow> identity \<Rightarrow> unit result" where
  "verify_grant other far s now token reservation_id i =
     (if missing (es_secret s) \<or> length (utf8 (the (es_secret s))) < 32
      then Inl (HTTPException 503 ''AXIGNAL_CAPABILITY_TOKEN_SECRET is required'')
      else case verify_capability_token other far (the (es_secret s)) now token of
        Inl (ValueError _) \<Rightarrow> Inl (HTTPException 401 ''Invalid or expired capability token'')
      | Inl e \<Rightarrow> Inl e
      | Inr grant \<Rightarrow>
          if cg_tenant_id grant \<noteq> id_tenant_id i \<or> cg_reservation_id grant \<noteq> reservation_id
          then Inl (HTTPException 403 ''Capability token does not authorise this reservation'') else Inr ())"

definition then_run :: "unit result \<Rightarrow> token_ledger \<Rightarrow> 'a result \<times> token_ledger \<Rightarrow> 'a result \<times> token_ledger" where
  "then_run m l k = (case m of Inl e \<Rightarrow> (Inl e, l) | Inr _ \<Rightarrow> k)"

definition map_result :: "('a \<Rightarrow> 'b) \<Rightarrow> 'a result \<times> token_ledger \<Rightarrow> 'b result \<times> token_ledger" where
  "map_result f r = (case r of (Inl e, l) \<Rightarrow> (Inl e, l) | (Inr x, l) \<Rightarrow> (Inr (f x), l))"

definition activate_trial ::
    "trigger_gates \<Rightarrow> entitlement_settings \<Rightarrow> string \<Rightarrow> int \<Rightarrow> int \<Rightarrow> identity \<Rightarrow> token_ledger \<Rightarrow> entitlement_view result \<times> token_ledger" where
  "activate_trial gates s eid clock now i l =
     then_run (settings_and_repository s) l
     (case require_trial_activation s of
        Inl e \<Rightarrow> (if contains ''disabled'' (error_message e) then Inl (HTTPException 503 (error_message e)) else raise_store_error e, l)
      | Inr _ \<Rightarrow> map_result view_of
          (store_call (run_in (activate_controlled_trial gates eid clock (id_tenant_id i) (id_subject i) now l) l)))"

definition current_entitlement ::
    "entitlement_settings \<Rightarrow> string \<Rightarrow> int \<Rightarrow> identity \<Rightarrow> token_ledger \<Rightarrow> entitlement_view result \<times> token_ledger" where
  \<comment> \<open>\<^verbatim>\<open>GET /entitlements/current\<close> and \<^verbatim>\<open>GET /trials/usage\<close> differ in the actor of the sweep\<close>
  "current_entitlement s sweeper now i l =
     then_run (settings_and_repository s) l
     (case repo_usage sweeper (id_tenant_id i) now l of
        (Inl e, l1) \<Rightarrow> (Inl e, l1)
      | (Inr None, l1) \<Rightarrow> (Inl (HTTPException 404 ''No entitlement found''), l1)
      | (Inr (Some e), l1) \<Rightarrow> (Inr (view_of e), l1))"

definition expire_trial :: "entitlement_settings \<Rightarrow> int \<Rightarrow> identity \<Rightarrow> token_ledger \<Rightarrow> entitlement_view result \<times> token_ledger" where
  "expire_trial s now i l =
     then_run (settings_and_repository s) l
     (map_result view_of (store_call (run_in (expire_current_trial (id_tenant_id i) (id_subject i) now l) l)))"

definition authorize_ai_request ::
    "(string \<Rightarrow> pyval result) \<Rightarrow> (int \<Rightarrow> py_error) \<Rightarrow> trigger_gates \<Rightarrow> entitlement_settings \<Rightarrow> string \<Rightarrow> int \<Rightarrow> int \<Rightarrow> int \<Rightarrow> int
     \<Rightarrow> authorization_command \<Rightarrow> identity \<Rightarrow> token_ledger \<Rightarrow> ai_authorization result \<times> token_ledger" where
  \<comment> \<open>the clock is read for the reservation, the usage, the token and its verification\<close>
  "authorize_ai_request other far gates s rid t1 t2 t3 t4 c i l =
     then_run (settings_and_repository s) l
     (case require_ai_authorization s of
        Inl e \<Rightarrow> (Inl (HTTPException 503 (error_message e)), l)
      | Inr _ \<Rightarrow>
      let scope = classify_axignal_request (ac_capability c) (ac_intent c) in
      if sc_decision scope \<noteq> InScope
      then (Inl (HTTPException 403 (repr (PDict [(''decision'', PStr (scope_name (sc_decision scope))),
              (''reason'', PStr (sc_reason scope))]))), l)
      else case store_call (repo_reserve gates rid (id_tenant_id i) (ac_operation_id c) (ac_capability c) (ac_max_tokens c)
                              (id_subject i) t1 l) of
        (Inl e, l1) \<Rightarrow> (Inl e, l1)
      | (Inr reservation, l1) \<Rightarrow>
      (case store_call (repo_usage ''system-entitlement-usage'' (id_tenant_id i) t2 l1) of
        (Inl e, l2) \<Rightarrow> (Inl e, l2)
      | (Inr None, l2) \<Rightarrow> (Inl (HTTPException 503 ''Entitlement disappeared after reservation''), l2)
      | (Inr (Some e), l2) \<Rightarrow>
          (bindE (build_capability_token (the (es_secret s)) (id_tenant_id i) (rv_id reservation) (ac_operation_id c)
                    (ac_capability c) (es_ttl_seconds s) t3) (\<lambda>token.
           bindE (verify_capability_token other far (the (es_secret s)) t4 token) (\<lambda>grant.
           Inr \<lparr>aa_reason = sc_reason scope, aa_reservation_id = rv_id reservation, aa_capability = ac_capability c,
                aa_token = token, aa_expires_at = cg_expires_at grant, aa_kind = ev_kind (view_of e),
                aa_available = ev_available (view_of e)\<rparr>)), l2)))"

definition reconcile_ai_usage ::
    "(string \<Rightarrow> pyval result) \<Rightarrow> (int \<Rightarrow> py_error) \<Rightarrow> trigger_gates \<Rightarrow> entitlement_settings \<Rightarrow> int \<Rightarrow> int \<Rightarrow> string \<Rightarrow> string \<Rightarrow> int
     \<Rightarrow> identity \<Rightarrow> token_ledger \<Rightarrow> usage_result result \<times> token_ledger" where
  "reconcile_ai_usage other far gates s t1 t2 reservation_id token actual i l =
     then_run (settings_and_repository s) l
     (then_run (verify_grant other far s t1 token reservation_id i) l
     (map_result (\<lambda>r. \<lparr>ur_reservation_id = rv_id r, ur_state = Reconciled, ur_requested = rv_requested r, ur_actual = the (rv_actual r)\<rparr>)
       (store_call (run_in (reconcile_ai_tokens gates (id_tenant_id i) reservation_id actual (id_subject i) t2 l) l))))"

definition release_ai_reservation ::
    "(string \<Rightarrow> pyval result) \<Rightarrow> (int \<Rightarrow> py_error) \<Rightarrow> trigger_gates \<Rightarrow> entitlement_settings \<Rightarrow> int \<Rightarrow> int \<Rightarrow> string \<Rightarrow> string
     \<Rightarrow> identity \<Rightarrow> token_ledger \<Rightarrow> usage_result result \<times> token_ledger" where
  "release_ai_reservation other far gates s t1 t2 reservation_id token i l =
     then_run (settings_and_repository s) l
     (then_run (verify_grant other far s t1 token reservation_id i) l
     (map_result (\<lambda>r. \<lparr>ur_reservation_id = rv_id r, ur_state = Released, ur_requested = rv_requested r, ur_actual = 0\<rparr>)
       (store_call (run_in (release_ai_token_reservation gates (id_tenant_id i) reservation_id (id_subject i) t2 l) l))))"

end
