(* ===== verification/UsageFlow.thy ===== *)
theory UsageFlow
  imports Entitlements
begin

text \<open>
  The life of an AI request across its components: authorisation reserves tokens and signs a capability
  token, the token settles its reservation and no other, and the ledger stays balanced.
\<close>

section \<open>What each step leaves\<close>

lemma store_call_Inr: "store_call r = (Inr x, l) \<longleftrightarrow> r = (Inr x, l)"
  by (auto simp: store_call_def raise_store_error_def split: prod.splits sum.splits option.splits)

lemma then_run_Inr: "then_run m l k = (Inr x, l') \<longleftrightarrow> m = Inr () \<and> k = (Inr x, l')"
  by (cases m) (auto simp: then_run_def)

lemma map_result_Inr: "map_result f r = (Inr y, l) \<longleftrightarrow> (\<exists>x. r = (Inr x, l) \<and> y = f x)"
  by (auto simp: map_result_def split: prod.splits sum.splits)

lemma run_in_Inr: "run_in m l = (Inr x, l') \<longleftrightarrow> m = Inr (l', x)"
  by (auto simp: run_in_def split: sum.splits)

lemma verify_grantD:
  assumes "verify_grant other far s now token reservation_id i = Inr ()"
  obtains secret grant where "es_secret s = Some secret" "32 \<le> length (utf8 secret)"
    "verify_capability_token other far secret now token = Inr grant"
    "cg_tenant_id grant = id_tenant_id i" "cg_reservation_id grant = reservation_id"
proof -
  obtain secret where secret: "es_secret s = Some secret" "32 \<le> length (utf8 secret)"
    using assms by (auto simp: verify_grant_def missing_def split: if_split_asm)
  then have present: "\<not> (missing (es_secret s) \<or> length (utf8 (the (es_secret s))) < 32)"
    by (auto simp: missing_def utf8_def)
  show thesis
  proof (cases "verify_capability_token other far secret now token")
    case (Inl e)
    with assms present secret show ?thesis by (cases e) (simp_all add: verify_grant_def)
  next
    case (Inr g)
    with assms present secret have "cg_tenant_id g = id_tenant_id i" "cg_reservation_id g = reservation_id"
      by (simp_all add: verify_grant_def split: if_split_asm)
    with Inr secret show ?thesis by (intro that [of secret g]) simp_all
  qed
qed

lemma find_by_key:
  assumes "distinct (map key xs)" "r \<in> set xs" "P r" "\<And>x. P x \<Longrightarrow> key x = key r"
  shows "find P xs = Some r"
  using assms(1,2)
proof (induction xs)
  case (Cons x xs)
  show ?case
  proof (cases "x = r")
    case True
    with assms(3) show ?thesis by simp
  next
    case False
    with Cons.prems have "r \<in> set xs" "key x \<noteq> key r" by (auto simp: image_iff)
    with Cons assms(4) show ?thesis by auto
  qed
qed simp

lemma find_reservation_mem:
  assumes "ledger_ok l" "r \<in> set (tl_reservations l)" "rv_tenant r = tenant"
  shows "find_reservation tenant (rv_id r) l = Some r"
  unfolding find_reservation_def
  by (rule find_by_key [OF books_okD(2) [OF assms(1) [unfolded ledger_ok_def]] assms(2)]) (simp_all add: assms(3))

lemma expire_due_reservations: "expire_due_trial tenant actor now l = Inr (l', b) \<Longrightarrow> tl_reservations l' = tl_reservations l"
  using update_entitlementD(2) [of _ "read_only_at now" l]
  by (auto simp: expire_due_trial_def bindE_eq_Inr split: option.splits if_split_asm)

lemma repo_usageD:
  assumes "repo_usage actor tenant now l = (Inr x, l')"
  shows "tl_reservations l' = tl_reservations l" "ledger_ok l \<Longrightarrow> ledger_ok l'"
proof -
  obtain b where "expire_due_trial tenant actor now l = Inr (l', b)"
    using assms by (auto simp: repo_usage_def run_in_def split: prod.splits sum.splits)
  then show "tl_reservations l' = tl_reservations l" "ledger_ok l \<Longrightarrow> ledger_ok l'"
    by (rule expire_due_reservations, rule expire_due_keeps)
qed

lemma repo_reserveD:
  assumes "repo_reserve gates rid tenant operation capability requested actor now l = (Inr r, l')"
  obtains l1 where "expire_due_trial tenant actor now l = Inr (l1, False)"
    "reserve_ai_tokens gates rid tenant operation capability requested actor now l1 l1 = Inr (l', r)"
  using assms
  by (auto simp: repo_reserve_def run_in_def split: prod.splits sum.splits if_split_asm)

lemma repo_reserve_row:
  assumes "repo_reserve gates rid tenant operation capability requested actor now l = (Inr r, l')" "ledger_ok l"
    and "find_operation tenant operation l = None"
  shows "ledger_ok l'" "find_reservation tenant rid l' = Some r" "rv_id r = rid" "rv_state r = Reserved" "rv_requested r = requested"
proof -
  obtain l1 where sweep: "expire_due_trial tenant actor now l = Inr (l1, False)"
    and reserve: "reserve_ai_tokens gates rid tenant operation capability requested actor now l1 l1 = Inr (l', r)"
    using assms(1) by (rule repo_reserveD)
  have l1: "ledger_ok l1" "find_operation tenant operation l1 = None"
    using expire_due_keeps [OF sweep assms(2)] expire_due_reservations [OF sweep] assms(3) by (simp_all add: find_operation_def)
  show ok: "ledger_ok l'" by (rule reserve_keeps [OF reserve l1(1)])
  have "rv_id r = rid \<and> rv_state r = Reserved \<and> rv_requested r = requested \<and> find_reservation tenant rid l' = Some r"
    using reserve
  proof (cases rule: reserveD)
    case (2 e l2)
    have "r \<in> set (tl_reservations l')" using 2(8) update_entitlementD(2) [OF 2(6)] by simp
    moreover have r: "rv_tenant r = tenant" "rv_id r = rid" "rv_state r = Reserved" "rv_requested r = requested"
      by (simp_all add: 2(3))
    ultimately show ?thesis
      using find_reservation_mem [OF ok, of r] by simp
  qed (use l1(2) in simp)
  then show "find_reservation tenant rid l' = Some r" "rv_id r = rid" "rv_state r = Reserved" "rv_requested r = requested"
    by blast+
qed

lemma authorizeD:
  assumes "authorize_ai_request other far gates s rid t1 t2 t3 t4 c i l = (Inr a, l')"
  obtains r l1 e secret where "require_ai_authorization s = Inr ()" "settings_and_repository s = Inr ()" "es_secret s = Some secret"
    "sc_decision (classify_axignal_request (ac_capability c) (ac_intent c)) = InScope"
    "repo_reserve gates rid (id_tenant_id i) (ac_operation_id c) (ac_capability c) (ac_max_tokens c) (id_subject i) t1 l = (Inr r, l1)"
    "repo_usage ''system-entitlement-usage'' (id_tenant_id i) t2 l1 = (Inr (Some e), l')"
    "build_capability_token secret (id_tenant_id i) (rv_id r) (ac_operation_id c) (ac_capability c) (es_ttl_seconds s) t3 = Inr (aa_token a)"
    "aa_reservation_id a = rv_id r"
proof -
  have settings: "settings_and_repository s = Inr ()"
    using assms by (simp add: authorize_ai_request_def then_run_Inr)
  have ready: "require_ai_authorization s = Inr ()"
    using assms settings by (cases "require_ai_authorization s") (simp_all add: authorize_ai_request_def then_run_Inr)
  then obtain secret where secret: "es_secret s = Some secret"
    by (auto simp: require_ai_authorization_def bindE_eq_Inr missing_def split: if_split_asm)
  have scope: "sc_decision (classify_axignal_request (ac_capability c) (ac_intent c)) = InScope"
    using assms settings ready by (simp add: authorize_ai_request_def then_run_Inr Let_def split: if_split_asm)
  let ?reserve = "repo_reserve gates rid (id_tenant_id i) (ac_operation_id c) (ac_capability c) (ac_max_tokens c) (id_subject i) t1 l"
  obtain r l1 where reserve: "store_call ?reserve = (Inr r, l1)"
    using assms settings ready scope
    by (cases "store_call ?reserve"; cases "fst (store_call ?reserve)") (simp_all add: authorize_ai_request_def then_run_Inr Let_def)
  let ?usage = "repo_usage ''system-entitlement-usage'' (id_tenant_id i) t2 l1"
  obtain x l2 where usage: "store_call ?usage = (Inr x, l2)"
    using assms settings ready scope reserve
    by (cases "store_call ?usage"; cases "fst (store_call ?usage)") (simp_all add: authorize_ai_request_def then_run_Inr Let_def)
  obtain e where e: "x = Some e"
    using assms settings ready scope reserve usage by (cases x) (simp_all add: authorize_ai_request_def then_run_Inr Let_def)
  show thesis
    using assms settings ready scope reserve usage e secret
    by (intro that [of secret r l1 e])
      (auto simp: authorize_ai_request_def then_run_Inr Let_def store_call_Inr bindE_eq_Inr)
qed

section \<open>Usage is settled by the token that was issued for it\<close>

text \<open>C19: Usage is only ever recorded against a reservation of the caller's own tenant, within what was requested, and
  with a capability token that verifies under the configured secret and names exactly that tenant and
  reservation; the same token is needed to release it.\<close>
theorem usage_needs_its_token:
  assumes "reconcile_ai_usage other far gates s t1 t2 reservation_id token actual i l = (Inr u, l')
     \<or> release_ai_reservation other far gates s t1 t2 reservation_id token i l = (Inr u, l')"
  shows "(\<exists>secret grant. es_secret s = Some secret \<and> 32 \<le> length (utf8 secret)
        \<and> verify_capability_token other far secret t1 token = Inr grant
        \<and> cg_tenant_id grant = id_tenant_id i \<and> cg_reservation_id grant = reservation_id)
     \<and> (\<exists>r. find_reservation (id_tenant_id i) reservation_id l = Some r
        \<and> (ur_state u = Reconciled \<longrightarrow> 0 \<le> actual \<and> actual \<le> rv_requested r))"
proof -
  have "verify_grant other far s t1 token reservation_id i = Inr ()"
    using assms by (auto simp: reconcile_ai_usage_def release_ai_reservation_def then_run_Inr)
  then obtain secret grant where token: "es_secret s = Some secret" "32 \<le> length (utf8 secret)"
    "verify_capability_token other far secret t1 token = Inr grant"
    "cg_tenant_id grant = id_tenant_id i" "cg_reservation_id grant = reservation_id"
    by (rule verify_grantD)
  obtain r where "find_reservation (id_tenant_id i) reservation_id l = Some r"
    using assms
    by (auto simp: reconcile_ai_usage_def release_ai_reservation_def then_run_Inr map_result_Inr store_call_Inr run_in_Inr
        reconcile_ai_tokens_def release_ai_token_reservation_def split: option.splits)
  moreover from this assms have "ur_state u = Reconciled \<longrightarrow> 0 \<le> actual \<and> actual \<le> rv_requested r"
    by (auto simp: reconcile_ai_usage_def release_ai_reservation_def then_run_Inr map_result_Inr store_call_Inr run_in_Inr
        reconcile_ai_tokens_def split: if_split_asm)
  ultimately show ?thesis using token by blast
qed

text \<open>C11: A freshly authorised request can be settled. When an authorisation with an operation identifier that the tenant has not
  used before succeeds on balanced books, its reservation can be reconciled on the ledger the authorisation left, with the
  token the authorisation gave, at any instant of the window of that token with its skew of 15 seconds, for any usage up to the
  authorised maximum that keeps the consumption of the entitlements below the bound of bigint, provided that no trigger of the
  database refuses the settlement, the identifiers of tenant and reservation are canonical UUIDs and the instants are in the
  range of datetime; the usage is recorded and the books stay balanced.\<close>
theorem authorised_request_settles:
  assumes authorized: "authorize_ai_request other far gates s rid t1 t2 t3 t4 c i l = (Inr a, l')"
    and books: "ledger_ok l" "find_operation (id_tenant_id i) (ac_operation_id c) l = None"
    and ids: "uuid_of_text (id_tenant_id i) = Inr (id_tenant_id i)" "uuid_of_text rid = Inr rid"
    and used: "instant_ok t3" "instant_ok (u + 15 * second)" "instant_ok (u - 15 * second)"
      "whole_second t3 \<le> u + 15 * second" "u - 15 * second < whole_second t3 + es_ttl_seconds s * second"
    and actual: "0 \<le> actual" "actual \<le> ac_max_tokens c"
      "\<And>e. e \<in> set (tl_entitlements l') \<Longrightarrow> en_consumed e + actual < 2 ^ 63" and gate: "tg_settle gates = (\<lambda>_ _. None)"
  shows "\<exists>r l''. reconcile_ai_usage other far gates s u t5 (aa_reservation_id a) (aa_token a) actual i l' = (Inr r, l'')
     \<and> ur_actual r = actual \<and> ledger_ok l''"
proof -
  obtain r l1 e secret where a: "require_ai_authorization s = Inr ()" "settings_and_repository s = Inr ()" "es_secret s = Some secret"
    "repo_reserve gates rid (id_tenant_id i) (ac_operation_id c) (ac_capability c) (ac_max_tokens c) (id_subject i) t1 l = (Inr r, l1)"
    "repo_usage ''system-entitlement-usage'' (id_tenant_id i) t2 l1 = (Inr (Some e), l')"
    "build_capability_token secret (id_tenant_id i) (rv_id r) (ac_operation_id c) (ac_capability c) (es_ttl_seconds s) t3 = Inr (aa_token a)"
    "aa_reservation_id a = rv_id r"
    using authorized by (rule authorizeD)
  note row = repo_reserve_row [OF a(4) books]
  have books': "ledger_ok l'" "find_reservation (id_tenant_id i) rid l' = Some r"
    using repo_usageD [OF a(5)] row(1,2) by (simp_all add: find_reservation_def)
  have secret: "\<not> (missing (es_secret s) \<or> length (utf8 (the (es_secret s))) < 32)"
    using a(1) by (auto simp: require_ai_authorization_def bindE_eq_Inr split: if_split_asm)
  have "verify_capability_token other far secret u (aa_token a)
      = Inr \<lparr>cg_tenant_id = id_tenant_id i, cg_reservation_id = rid, cg_operation_id = ac_operation_id c,
          cg_capability = ac_capability c, cg_issued_at = whole_second t3, cg_expires_at = whole_second t3 + es_ttl_seconds s * second\<rparr>"
    by (rule issued_token_verifies [OF a(6) [unfolded row(3)] ids used])
  then have grant: "verify_grant other far s u (aa_token a) rid i = Inr ()"
    using secret a(3) by (simp add: verify_grant_def)
  have le: "actual \<le> rv_requested r" using actual(2) row(5) by simp
  have small: "en_consumed e + actual < 2 ^ 63" if "e \<in> set (tl_entitlements l')" "en_id e = rv_entitlement r" for e
    using actual(3) [OF that(1)] .
  obtain l'' r' where settled: "reconcile_ai_tokens gates (id_tenant_id i) rid actual (id_subject i) t5 l' = Inr (l'', r')" "rv_actual r' = Some actual"
    using reservation_settles [OF books' row(4) small actual(1) le gate, of "id_subject i" t5] by blast
  then show ?thesis
    using a(2,7) grant row(3) settled reconcile_keeps [OF settled(1) books'(1)]
    by (simp add: reconcile_ai_usage_def then_run_def run_in_def store_call_def map_result_def)
qed

section \<open>A run\<close>

definition sample_identity :: identity where
  "sample_identity = asserted_identity sample_request 1750000000000000 1750000060000000"

definition sample_settings :: entitlement_settings where
  "sample_settings = \<lparr>es_database_url = Some ''db'', es_trial_enabled = True, es_ai_enabled = True,
     es_secret = Some ''0123456789abcdef0123456789abcdef'', es_ttl_seconds = 120\<rparr>"

definition sample_command :: authorization_command where
  "sample_command = \<lparr>ac_operation_id = ''op_12345678'', ac_capability = ''NAVIGATE_AXIGNAL'', ac_intent = ''compare the notices'',
     ac_max_tokens = 90000\<rparr>"

definition sample_trial :: token_ledger where
  "sample_trial = foldl (ledger_step open_gates) empty_ledger [CallActivate ''e1'' 0 (sample_uuid 7) ''owner'' 1749999000000000]"

lemma sample_scope: "sc_decision (classify_axignal_request ''NAVIGATE_AXIGNAL'' ''compare the notices'') = InScope"
  by code_simp

lemma sample_trial_rows:
  "sample_trial = \<lparr>tl_entitlements = [\<lparr>en_id = ''e1'', en_tenant = sample_uuid 7, en_kind = KindTrial, en_plan_code = ''TRIAL_7D'',
       en_state = EntActive, en_starts_at = 1749999000000000, en_expires_at = Some 1750603800000000, en_unlimited = False,
       en_total = Some 1000000, en_reserved = 0, en_consumed = 0, en_activated_by = ''owner'', en_created_at = 0, en_updated_at = 0\<rparr>],
     tl_reservations = [], tl_events = tl_events sample_trial\<rparr>"
  by (simp add: sample_trial_def ledger_step_def run_in_def activate_controlled_trial_def blank_actor_def trial_of_def
      active_entitlement_def empty_ledger_def open_gates_def passing_def Let_def seconds_def add_event_def)

lemma sample_trial_ok: "ledger_ok sample_trial"
  unfolding sample_trial_def by (rule ledger_steps_keep) (rule empty_ledger_ok)

lemma sample_subject: "id_tenant_id sample_identity = sample_uuid 7" "id_subject sample_identity = ''user-1''"
  by (simp_all add: sample_identity_def asserted_identity_def sample_request_def)

lemma sample_reserved:
  obtains r l1 e where "repo_reserve open_gates (sample_uuid 9) (sample_uuid 7) ''op_12345678'' ''NAVIGATE_AXIGNAL'' 90000 ''user-1''
      1750000000000000 sample_trial = (Inr r, l1)" "rv_id r = sample_uuid 9"
    "repo_usage ''system-entitlement-usage'' (sample_uuid 7) 1750000000000000 l1 = (Inr (Some e), l1)"
    "list_all (\<lambda>e. en_consumed e = 0) (tl_entitlements l1)"
  by (subst (asm) sample_trial_rows)
    (simp add: repo_reserve_def expire_due_trial_def blank_actor_def due_def run_in_def reserve_ai_tokens_def find_operation_def
      active_entitlement_def reservation_row_ok_def ledger_capabilities_def bigint_def seconds_def update_entitlement_def
      entitlement_row_ok_def add_event_def open_gates_def passing_def Let_def repo_usage_def latest_entitlement_def)

lemma sample_authorized:
  obtains a l' where "authorize_ai_request (\<lambda>_. Inl (ValueError [])) (\<lambda>_. OverflowError []) open_gates sample_settings (sample_uuid 9)
      1750000000000000 1750000000000000 1750000000000000 1750000000000000 sample_command sample_identity sample_trial = (Inr a, l')"
    "list_all (\<lambda>e. en_consumed e = 0) (tl_entitlements l')"
proof -
  obtain r l1 e where r: "repo_reserve open_gates (sample_uuid 9) (sample_uuid 7) ''op_12345678'' ''NAVIGATE_AXIGNAL'' 90000 ''user-1''
      1750000000000000 sample_trial = (Inr r, l1)" "rv_id r = sample_uuid 9"
    "repo_usage ''system-entitlement-usage'' (sample_uuid 7) 1750000000000000 l1 = (Inr (Some e), l1)"
    "list_all (\<lambda>e. en_consumed e = 0) (tl_entitlements l1)"
    by (rule sample_reserved)
  have ready: "require_ai_authorization sample_settings = Inr ()" "settings_and_repository sample_settings = Inr ()"
    using sample_secret by (simp_all add: require_ai_authorization_def settings_and_repository_def require_store_def missing_def
        sample_settings_def)
  obtain token where token: "build_capability_token ''0123456789abcdef0123456789abcdef'' (sample_uuid 7) (sample_uuid 9) ''op_12345678''
      ''NAVIGATE_AXIGNAL'' 120 1750000000000000 = Inr token"
    using sample_secret by (simp add: build_capability_token_def dt_shift_def Let_def sample_instants second_def instant_ok_def)
  have "verify_capability_token (\<lambda>_. Inl (ValueError [])) (\<lambda>_. OverflowError []) ''0123456789abcdef0123456789abcdef''
      1750000000000000 token = Inr \<lparr>cg_tenant_id = sample_uuid 7, cg_reservation_id = sample_uuid 9, cg_operation_id = ''op_12345678'',
          cg_capability = ''NAVIGATE_AXIGNAL'', cg_issued_at = whole_second 1750000000000000,
          cg_expires_at = whole_second 1750000000000000 + 120 * second\<rparr>"
    by (rule issued_token_verifies [OF token sample_uuid_canonical sample_uuid_canonical])
      (simp_all add: instant_ok_def whole_second_def second_def)
  then show thesis
    using r ready token sample_scope
    by (intro that [of _ l1])
      (simp_all add: authorize_ai_request_def then_run_def sample_command_def sample_subject store_call_def Let_def,
       simp add: sample_settings_def)
qed

theorem authorised_request_settles_witness:
  "\<exists>a l' r l''. authorize_ai_request (\<lambda>_. Inl (ValueError [])) (\<lambda>_. OverflowError []) open_gates sample_settings (sample_uuid 9)
      1750000000000000 1750000000000000 1750000000000000 1750000000000000 sample_command sample_identity sample_trial = (Inr a, l')
     \<and> reconcile_ai_usage (\<lambda>_. Inl (ValueError [])) (\<lambda>_. OverflowError []) open_gates sample_settings 1750000120000000 0
         (aa_reservation_id a) (aa_token a) 70000 sample_identity l' = (Inr r, l'') \<and> ur_actual r = 70000"
proof -
  obtain a l' where a: "authorize_ai_request (\<lambda>_. Inl (ValueError [])) (\<lambda>_. OverflowError []) open_gates sample_settings (sample_uuid 9)
      1750000000000000 1750000000000000 1750000000000000 1750000000000000 sample_command sample_identity sample_trial = (Inr a, l')"
    "list_all (\<lambda>e. en_consumed e = 0) (tl_entitlements l')"
    by (rule sample_authorized)
  have fresh: "find_operation (id_tenant_id sample_identity) (ac_operation_id sample_command) sample_trial = None"
    by (subst sample_trial_rows) (simp add: find_operation_def)
  have gate: "tg_settle open_gates = (\<lambda>_ _. None)" by (simp add: open_gates_def)
  have "\<exists>r l''. reconcile_ai_usage (\<lambda>_. Inl (ValueError [])) (\<lambda>_. OverflowError []) open_gates sample_settings 1750000120000000 0
         (aa_reservation_id a) (aa_token a) 70000 sample_identity l' = (Inr r, l'') \<and> ur_actual r = 70000 \<and> ledger_ok l''"
    by (rule authorised_request_settles [OF a(1) sample_trial_ok fresh _ _ _ _ _ _ _ _ _ _ gate])
      (use a(2) sample_uuid_canonical in \<open>auto simp: sample_subject instant_ok_def whole_second_def second_def sample_settings_def
         sample_command_def list_all_iff\<close>)
  with a(1) show ?thesis by blast
qed

theorem usage_needs_its_token_witness:
  "\<exists>token l u l'. reconcile_ai_usage (\<lambda>_. Inl (ValueError [])) (\<lambda>_. OverflowError []) open_gates sample_settings 1750000000000000 0
      (sample_uuid 9) token 70000 sample_identity l = (Inr u, l')
    \<and> (\<exists>secret grant. verify_capability_token (\<lambda>_. Inl (ValueError [])) (\<lambda>_. OverflowError []) secret 1750000000000000 token = Inr grant
         \<and> cg_reservation_id grant = sample_uuid 9)"
proof -
  define r where "r = \<lparr>rv_id = sample_uuid 9, rv_tenant = sample_uuid 7, rv_entitlement = ''e1'', rv_operation = ''op_12345678'',
    rv_capability = ''NAVIGATE_AXIGNAL'', rv_requested = 90000, rv_actual = Some 70000, rv_state = Reconciled, rv_reserved_at = 0,
    rv_expires_at = 0, rv_reconciled_at = None\<rparr>"
  define l where "l = \<lparr>tl_entitlements = [], tl_reservations = [r], tl_events = []\<rparr>"
  obtain token where token: "build_capability_token ''0123456789abcdef0123456789abcdef'' (sample_uuid 7) (sample_uuid 9) ''op_12345678''
      ''NAVIGATE_AXIGNAL'' 120 1750000000000000 = Inr token"
    using sample_secret by (simp add: build_capability_token_def dt_shift_def Let_def sample_instants second_def instant_ok_def)
  have "verify_capability_token (\<lambda>_. Inl (ValueError [])) (\<lambda>_. OverflowError []) ''0123456789abcdef0123456789abcdef''
      1750000000000000 token = Inr \<lparr>cg_tenant_id = sample_uuid 7, cg_reservation_id = sample_uuid 9, cg_operation_id = ''op_12345678'',
          cg_capability = ''NAVIGATE_AXIGNAL'', cg_issued_at = whole_second 1750000000000000,
          cg_expires_at = whole_second 1750000000000000 + 120 * second\<rparr>"
    by (rule issued_token_verifies [OF token sample_uuid_canonical sample_uuid_canonical])
      (simp_all add: instant_ok_def whole_second_def second_def)
  then have "verify_grant (\<lambda>_. Inl (ValueError [])) (\<lambda>_. OverflowError []) sample_settings 1750000000000000 token (sample_uuid 9) sample_identity = Inr ()"
    using sample_secret by (simp add: verify_grant_def missing_def sample_settings_def sample_subject)
  moreover have "settings_and_repository sample_settings = Inr ()"
    by (simp add: settings_and_repository_def require_store_def missing_def sample_settings_def)
  moreover have "reconcile_ai_tokens open_gates (sample_uuid 7) (sample_uuid 9) 70000 ''user-1'' 0 l = Inr (l, r)"
    by (simp add: reconcile_ai_tokens_def find_reservation_def l_def r_def)
  ultimately obtain u where u: "reconcile_ai_usage (\<lambda>_. Inl (ValueError [])) (\<lambda>_. OverflowError []) open_gates sample_settings 1750000000000000 0
      (sample_uuid 9) token 70000 sample_identity l = (Inr u, l)"
    by (simp add: reconcile_ai_usage_def then_run_def map_result_def store_call_def run_in_def sample_subject)
  from usage_needs_its_token [OF disjI1 [OF u]] u show ?thesis by blast
qed

end
