(* ===== verification/Scheduler.thy ===== *)
theory Scheduler
  imports AdmissionQueue TokenLedger
begin

text \<open>
  The maintenance scheduler: the tables and stored functions of \<^verbatim>\<open>infra/postgres/050\<close>, the repository, the
  Valkey queue with its deduplicated publication, the outbox publisher, the worker and the service loop of
  \<^verbatim>\<open>scheduler.py\<close> and \<^verbatim>\<open>scheduler_service.py\<close>. Each call of the database or of the queue is one step of the
  world and reads the clock at its own instant; a generated key is an argument. The queue carries the JSON
  values whose text the sources push, head first. Tracing is left out.
\<close>

section \<open>The tables\<close>

datatype job_state =
    JobScheduled | JobQueued | JobLeased | JobSucceeded | JobFailed | JobDeadLetter | JobCancelled

datatype job_event_kind =
    EvScheduled | EvQueued | EvLeased | EvSucceeded | EvFailed | EvDeadLettered | EvLeaseRecovered

record job_row =
  sj_id :: string
  sj_tenant :: "string option"
  sj_kind :: string
  sj_key :: string
  sj_payload :: pyval
  sj_trace :: pyval
  sj_state :: job_state
  sj_run_at :: int
  sj_attempts :: int
  sj_max :: int
  sj_owner :: "string option"
  sj_lease :: "int option"
  sj_result :: "pyval option"
  sj_error :: "string option"
  sj_created :: int
  sj_updated :: int

record outbox_row =
  so_id :: string
  so_job :: string
  so_payload :: pyval
  so_pending :: bool
  so_attempts :: int
  so_created :: int
  so_published :: "int option"

record job_event =
  sv_job :: string
  sv_kind :: job_event_kind
  sv_actor :: "string option" \<comment> \<open>\<^const>\<open>None\<close> for the \<^verbatim>\<open>current_user\<close> of the database\<close>
  sv_payload :: pyval
  sv_at :: int

record scheduler_db =
  sd_jobs :: "job_row list"
  sd_outbox :: "outbox_row list"
  sd_events :: "job_event list"

definition job_kinds :: "string list" where
  "job_kinds = [''VERIFY_RUNTIME_HEALTH'', ''RECOVER_EXPIRED_SCHEDULER_LEASES'', ''CHECK_SOURCE_FRESHNESS'',
     ''REBUILD_DOSSIER_IF_DIRTY'', ''RETRY_STALE_OUTBOX'']"

definition empty_object :: pyval where
  "empty_object = PDict []"

fun jsonb_eq :: "pyval \<Rightarrow> pyval \<Rightarrow> bool" where
  \<comment> \<open>\<^verbatim>\<open>jsonb\<close> equality: numbers by value, but a boolean is not a number\<close>
  "jsonb_eq PNone w = (w = PNone)"
| "jsonb_eq (PBool b) w = (w = PBool b)"
| "jsonb_eq (PStr s) w = (w = PStr s)"
| "jsonb_eq (PList xs) w = (case w of
     PList ys \<Rightarrow> list_all2 (\<lambda>e y. e y) (map jsonb_eq xs) ys
   | PTuple ys \<Rightarrow> list_all2 (\<lambda>e y. e y) (map jsonb_eq xs) ys | _ \<Rightarrow> False)"
| "jsonb_eq (PTuple xs) w = (case w of
     PList ys \<Rightarrow> list_all2 (\<lambda>e y. e y) (map jsonb_eq xs) ys
   | PTuple ys \<Rightarrow> list_all2 (\<lambda>e y. e y) (map jsonb_eq xs) ys | _ \<Rightarrow> False)"
| "jsonb_eq (PDict d) w = (case w of
     PDict d' \<Rightarrow> list_all (\<lambda>(k, e). case map_of d' k of Some y \<Rightarrow> e y | None \<Rightarrow> False) (map (\<lambda>(k, v). (k, jsonb_eq v)) d)
       \<and> list_all (\<lambda>k. k \<in> fst ` set d) (map fst d')
   | _ \<Rightarrow> False)"
| "jsonb_eq v w = (case w of PBool _ \<Rightarrow> False
   | _ \<Rightarrow> (case number_of w of Some y \<Rightarrow> number_of v = Some y | None \<Rightarrow> v = w))"

definition trimmed_length :: "string \<Rightarrow> nat" where
  \<comment> \<open>\<^verbatim>\<open>length(trim(s))\<close>: only the space is trimmed\<close>
  "trimmed_length s = length (dropWhile (\<lambda>c. c = CHR '' '') (rev (dropWhile (\<lambda>c. c = CHR '' '') s)))"

definition find_job :: "string \<Rightarrow> scheduler_db \<Rightarrow> job_row option" where
  "find_job i d = find (\<lambda>j. sj_id j = i) (sd_jobs d)"

definition update_job :: "string \<Rightarrow> (job_row \<Rightarrow> job_row) \<Rightarrow> scheduler_db \<Rightarrow> scheduler_db" where
  "update_job i f d = d\<lparr>sd_jobs := map (\<lambda>j. if sj_id j = i then f j else j) (sd_jobs d)\<rparr>"

definition log_job :: "string \<Rightarrow> job_event_kind \<Rightarrow> string option \<Rightarrow> pyval \<Rightarrow> int \<Rightarrow> scheduler_db \<Rightarrow> scheduler_db" where
  "log_job i kind actor payload now d =
     d\<lparr>sd_events := sd_events d @ [\<lparr>sv_job = i, sv_kind = kind, sv_actor = actor, sv_payload = payload, sv_at = now\<rparr>]\<rparr>"

section \<open>The stored functions\<close>

record schedule_request =
  sq_kind :: string
  sq_key :: string
  sq_payload :: "pyval option"
  sq_tenant :: "string option"
  sq_run_at :: "int option"
  sq_max :: int
  sq_trace :: pyval

definition same_request :: "job_row \<Rightarrow> schedule_request \<Rightarrow> pyval \<Rightarrow> bool" where
  "same_request j q payload \<longleftrightarrow> sj_kind j = sq_kind q \<and> sj_tenant j = sq_tenant q
     \<and> jsonb_eq (sj_payload j) payload \<and> sj_max j = sq_max q"

definition new_job :: "string \<Rightarrow> schedule_request \<Rightarrow> pyval \<Rightarrow> int \<Rightarrow> job_row" where
  "new_job i q payload now = \<lparr>sj_id = i, sj_tenant = sq_tenant q, sj_kind = sq_kind q, sj_key = sq_key q,
     sj_payload = payload, sj_trace = sq_trace q, sj_state = JobScheduled,
     sj_run_at = (case sq_run_at q of Some t \<Rightarrow> t | None \<Rightarrow> now), sj_attempts = 0, sj_max = sq_max q,
     sj_owner = None, sj_lease = None, sj_result = None, sj_error = None, sj_created = now, sj_updated = now\<rparr>"

definition new_outbox :: "string \<Rightarrow> job_row \<Rightarrow> int \<Rightarrow> outbox_row" where
  "new_outbox i j now = \<lparr>so_id = i, so_job = sj_id j,
     so_payload = PDict [(''scheduled_job_id'', PStr (sj_id j)), (''tenant_id'', opt_str (sj_tenant j)),
       (''job_kind'', PStr (sj_kind j)), (''trace_context'', sj_trace j)],
     so_pending = True, so_attempts = 0, so_created = now, so_published = None\<rparr>"

definition schedule_maintenance_job ::
    "string \<Rightarrow> string \<Rightarrow> schedule_request \<Rightarrow> int \<Rightarrow> scheduler_db \<Rightarrow> (scheduler_db \<times> string) result" where
  \<comment> \<open>the first two arguments are the generated keys of the job and of its outbox row\<close>
  "schedule_maintenance_job jid eid q now d =
     (if trimmed_length (sq_key q) < 8 then raise ''AXIGNAL_SCHEDULER_IDEMPOTENCY_KEY_REQUIRED'' else
      let payload = (case sq_payload q of Some p \<Rightarrow> p | None \<Rightarrow> empty_object) in
      case find (\<lambda>j. sj_key j = sq_key q) (sd_jobs d) of
        Some j \<Rightarrow> if same_request j q payload then Inr (d, sj_id j) else raise ''AXIGNAL_SCHEDULER_IDEMPOTENCY_CONFLICT''
      | None \<Rightarrow>
        let j = new_job jid q payload now in
        if sq_kind q \<notin> set job_kinds \<or> sq_max q < 1 \<or> 20 < sq_max q then violation ''CheckViolation'' ''scheduled_jobs''
        else if find_job jid d \<noteq> None then violation ''UniqueViolation'' ''scheduled_jobs_pkey''
        else if list_ex (\<lambda>e. so_id e = eid) (sd_outbox d) then violation ''UniqueViolation'' ''scheduler_outbox_events_pkey''
        else Inr (log_job jid EvScheduled None (PDict [(''idempotency_key'', PStr (sq_key q))]) now
                    (d\<lparr>sd_jobs := sd_jobs d @ [j], sd_outbox := sd_outbox d @ [new_outbox eid j now]\<rparr>), jid))"

definition ready_to_publish :: "int \<Rightarrow> scheduler_db \<Rightarrow> outbox_row \<Rightarrow> bool" where
  "ready_to_publish now d e \<longleftrightarrow> so_pending e
     \<and> list_ex (\<lambda>j. sj_id j = so_job e \<and> sj_state j = JobScheduled \<and> sj_run_at j \<le> now) (sd_jobs d)"

definition scheduler_pending_outbox :: "int \<Rightarrow> int \<Rightarrow> scheduler_db \<Rightarrow> outbox_row list" where
  "scheduler_pending_outbox limit now d =
     take (nat (max 1 (min limit 500))) (sort_key so_created (filter (ready_to_publish now d) (sd_outbox d)))"

definition published :: "int \<Rightarrow> outbox_row \<Rightarrow> outbox_row" where
  "published now e = e\<lparr>so_pending := False, so_attempts := so_attempts e + 1,
     so_published := Some (case so_published e of Some t \<Rightarrow> t | None \<Rightarrow> now)\<rparr>"

definition queued :: "int \<Rightarrow> job_row \<Rightarrow> job_row" where
  "queued now j = (if sj_state j = JobScheduled then j\<lparr>sj_state := JobQueued, sj_updated := now\<rparr> else j)"

definition mark_scheduler_outbox_published :: "string \<Rightarrow> int \<Rightarrow> scheduler_db \<Rightarrow> scheduler_db" where
  "mark_scheduler_outbox_published eid now d =
     (case find (\<lambda>e. so_id e = eid \<and> so_pending e) (sd_outbox d) of
        None \<Rightarrow> d
      | Some e \<Rightarrow> log_job (so_job e) EvQueued None empty_object now
          (update_job (so_job e) (queued now)
            (d\<lparr>sd_outbox := map (\<lambda>x. if so_id x = eid \<and> so_pending x then published now x else x) (sd_outbox d)\<rparr>)))"

definition lease_over :: "int \<Rightarrow> job_row \<Rightarrow> bool" where
  "lease_over now j \<longleftrightarrow> sj_state j = JobLeased \<and> (case sj_lease j of Some t \<Rightarrow> t \<le> now | None \<Rightarrow> False)"

definition released :: "int \<Rightarrow> job_row \<Rightarrow> job_row" where
  "released now j = j\<lparr>sj_state := JobQueued, sj_owner := None, sj_lease := None, sj_updated := now\<rparr>"

definition leased :: "string \<Rightarrow> int \<Rightarrow> int \<Rightarrow> job_row \<Rightarrow> job_row" where
  "leased worker secs now j = j\<lparr>sj_state := JobLeased, sj_attempts := sj_attempts j + 1, sj_owner := Some worker,
     sj_lease := Some (now + seconds (max 1 secs)), sj_updated := now\<rparr>"

definition dead_lettered :: "int \<Rightarrow> job_row \<Rightarrow> job_row" where
  "dead_lettered now j = j\<lparr>sj_state := JobDeadLetter, sj_updated := now\<rparr>"

definition claim_scheduled_job ::
    "string \<Rightarrow> string \<Rightarrow> int \<Rightarrow> int \<Rightarrow> scheduler_db \<Rightarrow> (scheduler_db \<times> job_row option) result" where
  "claim_scheduled_job i worker secs now d =
     (if trimmed_length worker < 3 then raise ''AXIGNAL_SCHEDULER_WORKER_ID_REQUIRED'' else
      case find_job i d of
        None \<Rightarrow> Inr (d, None)
      | Some j0 \<Rightarrow>
        let d1 = (if lease_over now j0 then update_job i (released now) d else d);
            j = (if lease_over now j0 then released now j0 else j0) in
        if sj_state j \<noteq> JobQueued then Inr (d1, None)
        else if sj_max j \<le> sj_attempts j
        then Inr (log_job i EvDeadLettered (Some worker) empty_object now
                    (update_job i (dead_lettered now) d1), None)
        else Inr (log_job i EvLeased (Some worker) (PDict [(''attempt_count'', PInt (sj_attempts j + 1))]) now
                    (update_job i (leased worker secs now) d1), Some (leased worker secs now j)))"

definition succeeded :: "pyval \<Rightarrow> int \<Rightarrow> job_row \<Rightarrow> job_row" where
  "succeeded v now j = j\<lparr>sj_state := JobSucceeded, sj_result := Some v, sj_owner := None, sj_lease := None,
     sj_error := None, sj_updated := now\<rparr>"

definition complete_scheduled_job :: "string \<Rightarrow> string \<Rightarrow> pyval \<Rightarrow> int \<Rightarrow> scheduler_db \<Rightarrow> scheduler_db result" where
  "complete_scheduled_job i worker v now d =
     (case find_job i d of
        Some j \<Rightarrow> if sj_state j = JobLeased \<and> sj_owner j = Some worker
                  then Inr (log_job i EvSucceeded (Some worker) v now (update_job i (succeeded v now) d))
                  else raise ''AXIGNAL_SCHEDULER_LEASE_MISMATCH''
      | None \<Rightarrow> raise ''AXIGNAL_SCHEDULER_LEASE_MISMATCH'')"

definition state_name :: "job_state \<Rightarrow> string" where
  "state_name s = (case s of JobScheduled \<Rightarrow> ''SCHEDULED'' | JobQueued \<Rightarrow> ''QUEUED'' | JobLeased \<Rightarrow> ''LEASED''
     | JobSucceeded \<Rightarrow> ''SUCCEEDED'' | JobFailed \<Rightarrow> ''FAILED'' | JobDeadLetter \<Rightarrow> ''DEAD_LETTER'' | JobCancelled \<Rightarrow> ''CANCELLED'')"

definition next_state :: "job_row \<Rightarrow> job_state" where
  "next_state j = (if sj_max j \<le> sj_attempts j then JobDeadLetter else JobScheduled)"

definition failed :: "string \<Rightarrow> int \<Rightarrow> int \<Rightarrow> job_row \<Rightarrow> job_row" where
  "failed error delay now j = j\<lparr>sj_state := next_state j,
     sj_run_at := (if next_state j = JobScheduled then now + seconds (max 0 delay) else sj_run_at j),
     sj_owner := None, sj_lease := None, sj_error := Some error, sj_updated := now\<rparr>"

definition repend :: "(string \<Rightarrow> bool) \<Rightarrow> scheduler_db \<Rightarrow> scheduler_db" where
  \<comment> \<open>the outbox rows of the jobs that satisfy the test wait again\<close>
  "repend p d = d\<lparr>sd_outbox := map (\<lambda>e. if p (so_job e) then e\<lparr>so_pending := True, so_published := None\<rparr> else e) (sd_outbox d)\<rparr>"

definition fail_scheduled_job ::
    "string \<Rightarrow> string \<Rightarrow> string \<Rightarrow> int \<Rightarrow> int \<Rightarrow> scheduler_db \<Rightarrow> (scheduler_db \<times> job_state) result" where
  "fail_scheduled_job i worker error delay now d =
     (case find_job i d of
        None \<Rightarrow> raise ''AXIGNAL_SCHEDULER_LEASE_MISMATCH''
      | Some j \<Rightarrow>
        if sj_state j \<noteq> JobLeased \<or> sj_owner j \<noteq> Some worker then raise ''AXIGNAL_SCHEDULER_LEASE_MISMATCH'' else
        let s = next_state j;
            d1 = update_job i (failed error delay now) d;
            d2 = (if s = JobScheduled then repend (\<lambda>k. k = i) d1 else d1) in
        Inr (log_job i (if s = JobDeadLetter then EvDeadLettered else EvFailed) (Some worker)
               (PDict [(''error_code'', PStr error), (''next_state'', PStr (state_name s))]) now d2, s))"

definition recovered :: "int \<Rightarrow> job_row \<Rightarrow> job_row" where
  "recovered now j = j\<lparr>sj_state := next_state j, sj_run_at := now, sj_owner := None, sj_lease := None,
     sj_error := Some ''LEASE_EXPIRED'', sj_updated := now\<rparr>"

definition just_expired :: "int \<Rightarrow> job_row \<Rightarrow> bool" where
  \<comment> \<open>\<^verbatim>\<open>last_error_code = 'LEASE_EXPIRED' AND updated_at >= transaction_timestamp()\<close>\<close>
  "just_expired now j \<longleftrightarrow> sj_error j = Some ''LEASE_EXPIRED'' \<and> now \<le> sj_updated j"

definition recovery_event :: "int \<Rightarrow> job_row \<Rightarrow> job_event" where
  "recovery_event now j = \<lparr>sv_job = sj_id j,
     sv_kind = (if sj_state j = JobDeadLetter then EvDeadLettered else EvLeaseRecovered), sv_actor = None,
     sv_payload = PDict [(''error_code'', PStr ''LEASE_EXPIRED'')], sv_at = now\<rparr>"

definition recover_expired_scheduler_leases :: "int \<Rightarrow> scheduler_db \<Rightarrow> scheduler_db \<times> nat" where
  "recover_expired_scheduler_leases now d =
     (let n = length (filter (lease_over now) (sd_jobs d));
          d1 = d\<lparr>sd_jobs := map (\<lambda>j. if lease_over now j then recovered now j else j) (sd_jobs d)\<rparr>;
          d2 = repend (\<lambda>i. list_ex (\<lambda>j. sj_id j = i \<and> sj_state j = JobScheduled \<and> just_expired now j) (sd_jobs d1)) d1
      in (d2\<lparr>sd_events := sd_events d2 @ map (recovery_event now) (filter (just_expired now) (sd_jobs d2))\<rparr>, n))"

section \<open>The queue\<close>

record valkey_queue =
  vq_items :: "pyval list"
  vq_seen :: "(string \<times> int) list" \<comment> \<open>the deduplication keys and when they expire\<close>

definition event_message :: "outbox_row \<Rightarrow> pyval" where
  "event_message e = PDict [(''scheduler_outbox_event_id'', PStr (so_id e)), (''scheduled_job_id'', PStr (so_job e)),
     (''publish_attempts'', PInt (so_attempts e)), (''payload'', so_payload e)]"

definition dedupe_key :: "string \<Rightarrow> outbox_row \<Rightarrow> string" where
  "dedupe_key queue_key e = queue_key @ '':published:'' @ so_id e @ '':'' @ str_int (so_attempts e)"

definition key_alive :: "int \<Rightarrow> string \<Rightarrow> valkey_queue \<Rightarrow> bool" where
  "key_alive now k q = list_ex (\<lambda>(k', t). k' = k \<and> now < t) (vq_seen q)"

definition queue_publish :: "string \<Rightarrow> int \<Rightarrow> outbox_row \<Rightarrow> valkey_queue \<Rightarrow> valkey_queue" where
  \<comment> \<open>the script: \<^verbatim>\<open>SETNX\<close>, \<^verbatim>\<open>EXPIRE\<close> and \<^verbatim>\<open>LPUSH\<close> in one step\<close>
  "queue_publish queue_key now e q =
     (if key_alive now (dedupe_key queue_key e) q then q
      else q\<lparr>vq_items := event_message e # vq_items q,
             vq_seen := (dedupe_key queue_key e, now + seconds 604800) # vq_seen q\<rparr>)"

definition queue_receive :: "valkey_queue \<Rightarrow> pyval option \<times> valkey_queue" where
  \<comment> \<open>\<^verbatim>\<open>brpop\<close>\<close>
  "queue_receive q = (if vq_items q = [] then (None, q)
     else (Some (last (vq_items q)), q\<lparr>vq_items := butlast (vq_items q)\<rparr>))"

section \<open>The world and its clock\<close>

record sched_world =
  sw_db :: scheduler_db
  sw_queue :: valkey_queue
  sw_tick :: nat

type_synonym clock = "nat \<Rightarrow> int"

definition at_now :: "clock \<Rightarrow> sched_world \<Rightarrow> int" where
  "at_now clk w = clk (sw_tick w)"

definition with_db :: "sched_world \<Rightarrow> scheduler_db \<Rightarrow> sched_world" where
  \<comment> \<open>the world after a transaction\<close>
  "with_db w d = w\<lparr>sw_db := d, sw_tick := Suc (sw_tick w)\<rparr>"

definition with_queue :: "sched_world \<Rightarrow> valkey_queue \<Rightarrow> sched_world" where
  "with_queue w q = w\<lparr>sw_queue := q, sw_tick := Suc (sw_tick w)\<rparr>"

section \<open>The repository\<close>

record scheduled_job =
  sc_id :: string
  sc_tenant :: "string option"
  sc_kind :: string
  sc_key :: string
  sc_payload :: pyval
  sc_trace :: pyval
  sc_state :: job_state
  sc_attempts :: int
  sc_max :: int

definition job_of_row :: "job_row \<Rightarrow> scheduled_job" where
  "job_of_row j = \<lparr>sc_id = sj_id j, sc_tenant = sj_tenant j, sc_kind = sj_kind j, sc_key = sj_key j,
     sc_payload = sj_payload j, sc_trace = (if py_truthy (sj_trace j) then sj_trace j else empty_object),
     sc_state = sj_state j, sc_attempts = sj_attempts j, sc_max = sj_max j\<rparr>"

definition repo_schedule ::
    "clock \<Rightarrow> string \<Rightarrow> string \<Rightarrow> schedule_request \<Rightarrow> sched_world \<Rightarrow> sched_world \<times> string result" where
  "repo_schedule clk jid eid q w =
     (case schedule_maintenance_job jid eid
             (q\<lparr>sq_payload := Some (case sq_payload q of Some p \<Rightarrow> if py_truthy p then p else empty_object | None \<Rightarrow> empty_object)\<rparr>)
             (at_now clk w) (sw_db w) of
        Inl e \<Rightarrow> (with_db w (sw_db w), Inl e)
      | Inr (d, i) \<Rightarrow> (with_db w d, Inr i))"

definition repo_pending_outbox :: "clock \<Rightarrow> int \<Rightarrow> sched_world \<Rightarrow> sched_world \<times> outbox_row list" where
  "repo_pending_outbox clk limit w =
     (with_db w (sw_db w), scheduler_pending_outbox limit (at_now clk w) (sw_db w))"

definition repo_mark_published :: "clock \<Rightarrow> string \<Rightarrow> sched_world \<Rightarrow> sched_world" where
  "repo_mark_published clk eid w = with_db w (mark_scheduler_outbox_published eid (at_now clk w) (sw_db w))"

definition repo_claim ::
    "clock \<Rightarrow> string \<Rightarrow> string \<Rightarrow> int \<Rightarrow> sched_world \<Rightarrow> sched_world \<times> scheduled_job option result" where
  "repo_claim clk i worker secs w =
     (case claim_scheduled_job i worker secs (at_now clk w) (sw_db w) of
        Inl e \<Rightarrow> (with_db w (sw_db w), Inl e)
      | Inr (d, r) \<Rightarrow> (with_db w d, Inr (map_option job_of_row r)))"

definition repo_complete :: "clock \<Rightarrow> string \<Rightarrow> string \<Rightarrow> pyval \<Rightarrow> sched_world \<Rightarrow> sched_world \<times> unit result" where
  "repo_complete clk i worker v w =
     (case complete_scheduled_job i worker v (at_now clk w) (sw_db w) of
        Inl e \<Rightarrow> (with_db w (sw_db w), Inl e)
      | Inr d \<Rightarrow> (with_db w d, Inr ()))"

definition repo_fail ::
    "clock \<Rightarrow> string \<Rightarrow> string \<Rightarrow> string \<Rightarrow> int \<Rightarrow> sched_world \<Rightarrow> sched_world \<times> job_state result" where
  "repo_fail clk i worker error delay w =
     (case fail_scheduled_job i worker error delay (at_now clk w) (sw_db w) of
        Inl e \<Rightarrow> (with_db w (sw_db w), Inl e)
      | Inr (d, s) \<Rightarrow> (with_db w d, Inr s))"

definition repo_recover :: "clock \<Rightarrow> sched_world \<Rightarrow> sched_world \<times> nat" where
  "repo_recover clk w = (let (d, n) = recover_expired_scheduler_leases (at_now clk w) (sw_db w) in (with_db w d, n))"

section \<open>The publisher\<close>

definition publish_one :: "clock \<Rightarrow> string \<Rightarrow> outbox_row \<Rightarrow> sched_world \<Rightarrow> sched_world" where
  "publish_one clk queue_key e w =
     repo_mark_published clk (so_id e) (with_queue w (queue_publish queue_key (at_now clk w) e (sw_queue w)))"

definition publish_all :: "clock \<Rightarrow> string \<Rightarrow> outbox_row list \<Rightarrow> sched_world \<Rightarrow> sched_world" where
  "publish_all clk queue_key es w = fold (publish_one clk queue_key) es w"

definition scheduler_publish_pending :: "clock \<Rightarrow> string \<Rightarrow> int \<Rightarrow> sched_world \<Rightarrow> sched_world \<times> nat" where
  "scheduler_publish_pending clk queue_key limit w =
     (let (w1, es) = repo_pending_outbox clk limit w in (publish_all clk queue_key es w1, length es))"

section \<open>The worker\<close>

type_synonym job_handler = "scheduled_job \<Rightarrow> sched_world \<Rightarrow> sched_world \<times> pyval result"

record worker_config =
  wc_worker :: string
  wc_lease_seconds :: int
  wc_handlers :: "string \<Rightarrow> job_handler option"

definition settle_job ::
    "clock \<Rightarrow> worker_config \<Rightarrow> scheduled_job \<Rightarrow> sched_world \<times> pyval result \<Rightarrow> sched_world \<times> bool result" where
  \<comment> \<open>\<^verbatim>\<open>except Exception\<close> around the handler, then \<^verbatim>\<open>complete\<close>\<close>
  "settle_job clk c job r =
     (case snd r of
        Inl e \<Rightarrow> (case repo_fail clk (sc_id job) (wc_worker c) (upper (error_class e)) 0 (fst r) of
                    (w, Inl e') \<Rightarrow> (w, Inl e') | (w, Inr _) \<Rightarrow> (w, Inr True))
      | Inr v \<Rightarrow> (case repo_complete clk (sc_id job) (wc_worker c) v (fst r) of
                    (w, Inl e') \<Rightarrow> (w, Inl e') | (w, Inr _) \<Rightarrow> (w, Inr True)))"

definition execute_job :: "clock \<Rightarrow> worker_config \<Rightarrow> scheduled_job \<Rightarrow> sched_world \<Rightarrow> sched_world \<times> bool result" where
  "execute_job clk c job w =
     (case wc_handlers c (sc_kind job) of
        None \<Rightarrow> (case repo_fail clk (sc_id job) (wc_worker c) ''UNSUPPORTED_JOB_KIND'' 0 w of
                   (w', Inl e) \<Rightarrow> (w', Inl e) | (w', Inr _) \<Rightarrow> (w', Inr True))
      | Some handler \<Rightarrow> settle_job clk c job (handler job w))"

definition message_job :: "pyval \<Rightarrow> string result" where
  \<comment> \<open>\<^verbatim>\<open>UUID(message["scheduled_job_id"])\<close>\<close>
  "message_job v = bindE (py_item v ''scheduled_job_id'') uuid_of"

definition worker_run_once :: "clock \<Rightarrow> worker_config \<Rightarrow> sched_world \<Rightarrow> sched_world \<times> bool result" where
  \<comment> \<open>the message is gone from the queue whatever follows\<close>
  "worker_run_once clk c w =
     (let (m, q) = queue_receive (sw_queue w); w1 = with_queue w q in
      case m of
        None \<Rightarrow> (w1, Inr False)
      | Some v \<Rightarrow>
        (case message_job v of
           Inl e \<Rightarrow> (w1, Inl e)
         | Inr i \<Rightarrow>
           (case repo_claim clk i (wc_worker c) (wc_lease_seconds c) w1 of
              (w2, Inl e) \<Rightarrow> (w2, Inl e)
            | (w2, Inr None) \<Rightarrow> (w2, Inr True)
            | (w2, Inr (Some job)) \<Rightarrow> execute_job clk c job w2)))"

section \<open>The handlers of the service\<close>

definition py_sorted :: "(pyval list \<Rightarrow> pyval list result) \<Rightarrow> pyval list \<Rightarrow> pyval list result" where
  \<comment> \<open>\<^verbatim>\<open>sorted(xs)\<close>: texts, or numbers, or at most one value; lists of lists are ordered by the argument\<close>
  "py_sorted order_lists xs =
     (if length xs \<le> 1 then Inr xs
      else if list_all (\<lambda>v. case v of PStr _ \<Rightarrow> True | _ \<Rightarrow> False) xs
      then Inr (map PStr (sort (map (\<lambda>v. case v of PStr s \<Rightarrow> s | _ \<Rightarrow> []) xs)))
      else if list_all (\<lambda>v. number_of v \<noteq> None) xs then Inr (sort_key (\<lambda>v. case number_of v of Some x \<Rightarrow> x | None \<Rightarrow> 0) xs)
      else if list_all (\<lambda>v. case v of PList _ \<Rightarrow> True | _ \<Rightarrow> False) xs then order_lists xs
      else Inl (TypeError ''not supported between instances''))"

definition verify_health :: "(pyval list \<Rightarrow> pyval list result) \<Rightarrow> pyval \<Rightarrow> pyval result" where
  "verify_health order_lists payload =
     bindE (get_default payload ''components'' (PList [])) (\<lambda>cs.
     bindE (py_iter cs) (\<lambda>xs.
     bindE (py_sorted order_lists xs) (\<lambda>ys.
     Inr (PDict [(''state'', PStr ''HEALTHY''), (''checked'', PList ys)]))))"

definition pure_handler :: "(pyval \<Rightarrow> pyval result) \<Rightarrow> job_handler" where
  "pure_handler f job w = (w, f (sc_payload job))"

definition default_handlers :: "clock \<Rightarrow> (pyval list \<Rightarrow> pyval list result) \<Rightarrow> string \<Rightarrow> job_handler option" where
  "default_handlers clk order_lists = map_of
     [(''VERIFY_RUNTIME_HEALTH'', pure_handler (verify_health order_lists)),
      (''RECOVER_EXPIRED_SCHEDULER_LEASES'', \<lambda>job w.
         (case repo_recover clk w of (w', n) \<Rightarrow> (w', Inr (PDict [(''recovered'', PInt (int n))])))),
      (''CHECK_SOURCE_FRESHNESS'', pure_handler (\<lambda>p. bindE (py_get p ''source_id'') (\<lambda>s.
         Inr (PDict [(''state'', PStr ''OBSERVATION_ONLY''), (''source_id'', s), (''network_calls'', PInt 0)])))),
      (''REBUILD_DOSSIER_IF_DIRTY'', pure_handler (\<lambda>p. bindE (py_get p ''research_run_id'') (\<lambda>r.
         Inr (PDict [(''state'', PStr ''NOOP_UNLESS_DIRTY''), (''research_run_id'', r)])))),
      (''RETRY_STALE_OUTBOX'', pure_handler (\<lambda>p.
         Inr (PDict [(''state'', PStr ''FAIL_CLOSED''), (''reason'', PStr ''TARGET_RUNTIME_MUST_OWN_ITS_OUTBOX_RETRY'')])))]"

section \<open>The service\<close>

definition service_worker :: "clock \<Rightarrow> (pyval list \<Rightarrow> pyval list result) \<Rightarrow> worker_config" where
  "service_worker clk order_lists = \<lparr>wc_worker = ''scheduler-service'', wc_lease_seconds = 30,
     wc_handlers = default_handlers clk order_lists\<rparr>"

definition service_pass :: "clock \<Rightarrow> string \<Rightarrow> worker_config \<Rightarrow> sched_world \<Rightarrow> sched_world \<times> bool result" where
  \<comment> \<open>one turn of \<^verbatim>\<open>while True\<close>; the value says whether anything was done, which is when it does not sleep\<close>
  "service_pass clk queue_key c w =
     (let (w2, n) = scheduler_publish_pending clk queue_key 100 (fst (repo_recover clk w)) in
      case worker_run_once clk c w2 of (w3, Inl e) \<Rightarrow> (w3, Inl e) | (w3, Inr worked) \<Rightarrow> (w3, Inr (n \<noteq> 0 \<or> worked)))"

fun service_passes :: "clock \<Rightarrow> string \<Rightarrow> worker_config \<Rightarrow> nat \<Rightarrow> sched_world \<Rightarrow> sched_world \<times> unit result" where
  \<comment> \<open>that many turns; an exception ends the service\<close>
  "service_passes clk queue_key c 0 w = (w, Inr ())"
| "service_passes clk queue_key c (Suc n) w =
     (case service_pass clk queue_key c w of
        (w', Inl e) \<Rightarrow> (w', Inl e) | (w', Inr _) \<Rightarrow> service_passes clk queue_key c n w')"

end
