(* ===== verification/SchedulerSafety.thy ===== *)
theory SchedulerSafety
  imports Scheduler
begin

text \<open>
  What every interleaving of the scheduler's transactions keeps: the state machine of one job as an
  inductive relation that the stored functions refine, the invariant of the tables, how often a job can be
  claimed or change its state, that a settled job stays settled, and what a worker identifier shared by two
  instances allows.
\<close>

section \<open>The life of one job\<close>

type_synonym progress = "job_state \<times> int"

inductive job_step :: "int \<Rightarrow> progress \<Rightarrow> progress \<Rightarrow> bool" for m where
  publish: "a < m \<Longrightarrow> job_step m (JobScheduled, a) (JobQueued, a)"
| claim: "a < m \<Longrightarrow> job_step m (JobQueued, a) (JobLeased, a + 1)"
| reclaim: "a < m \<Longrightarrow> job_step m (JobLeased, a) (JobLeased, a + 1)"
| succeed: "job_step m (JobLeased, a) (JobSucceeded, a)"
| retry: "a < m \<Longrightarrow> job_step m (JobLeased, a) (JobScheduled, a)"
| give_up: "m \<le> a \<Longrightarrow> job_step m (JobLeased, a) (JobDeadLetter, a)"

inductive_cases job_stepE: "job_step m (s, a) (s', a')"

definition progress :: "job_row \<Rightarrow> progress" where
  "progress j = (sj_state j, sj_attempts j)"

definition steps_left :: "int \<Rightarrow> progress \<Rightarrow> nat" where
  \<comment> \<open>a bound on the changes of state that remain\<close>
  "steps_left m p = (case fst p of
     JobScheduled \<Rightarrow> nat (3 * (m - snd p)) | JobQueued \<Rightarrow> nat (3 * (m - snd p) - 1)
   | JobLeased \<Rightarrow> nat (3 * (m - snd p) + 1) | _ \<Rightarrow> 0)"

lemma job_step_decreases:
  assumes "job_step m p q" and "snd p \<le> m"
  shows "steps_left m q < steps_left m p"
  using assms by (cases rule: job_step.cases) (auto simp: steps_left_def)

section \<open>The invariant of the tables\<close>

definition row_ok :: "job_row \<Rightarrow> bool" where
  "row_ok j \<longleftrightarrow> 0 \<le> sj_attempts j \<and> sj_attempts j \<le> sj_max j \<and> 1 \<le> sj_max j \<and> sj_max j \<le> 20
     \<and> (sj_state j = JobLeased \<longleftrightarrow> sj_owner j \<noteq> None) \<and> (sj_owner j = None \<longleftrightarrow> sj_lease j = None)
     \<and> (sj_state j = JobLeased \<longrightarrow> 1 \<le> sj_attempts j)
     \<and> (sj_state j = JobScheduled \<or> sj_state j = JobQueued \<longrightarrow> sj_attempts j < sj_max j)
     \<and> sj_state j \<noteq> JobFailed \<and> sj_state j \<noteq> JobCancelled"

definition paired :: "job_row \<Rightarrow> outbox_row \<Rightarrow> bool" where
  "paired j e \<longleftrightarrow> so_job e = sj_id j \<and> (so_pending e \<longleftrightarrow> sj_state j = JobScheduled)"

definition leases_in :: "string \<Rightarrow> job_event list \<Rightarrow> nat" where
  "leases_in i vs = length (filter (\<lambda>v. sv_job v = i \<and> sv_kind v = EvLeased) vs)"

definition sched_ok :: "scheduler_db \<Rightarrow> bool" where
  "sched_ok d \<longleftrightarrow> distinct (map sj_id (sd_jobs d)) \<and> distinct (map sj_key (sd_jobs d))
     \<and> distinct (map so_id (sd_outbox d)) \<and> list_all2 paired (sd_jobs d) (sd_outbox d)
     \<and> list_all row_ok (sd_jobs d)
     \<and> list_all (\<lambda>j. int (leases_in (sj_id j) (sd_events d)) = sj_attempts j) (sd_jobs d)
     \<and> list_all (\<lambda>v. sv_job v \<in> sj_id ` set (sd_jobs d)) (sd_events d)"

lemma leases_in_append [simp]: "leases_in i (vs @ us) = leases_in i vs + leases_in i us"
  by (simp add: leases_in_def)

lemma leases_in_simps [simp]:
  "leases_in i [] = 0"
  "leases_in i (v # vs) = (if sv_job v = i \<and> sv_kind v = EvLeased then 1 else 0) + leases_in i vs"
  by (simp_all add: leases_in_def)

lemma leases_in_none: "(\<And>v. v \<in> set vs \<Longrightarrow> sv_kind v \<noteq> EvLeased) \<Longrightarrow> leases_in i vs = 0"
  by (auto simp: leases_in_def filter_empty_conv)

lemma same_row:
  assumes "distinct (map f xs)" "x \<in> set xs" "y \<in> set xs" "f x = f y"
  shows "x = y"
  using assms by (auto simp: distinct_map inj_on_def)

lemma paired_jobs: "list_all2 paired js es \<Longrightarrow> map so_job es = map sj_id js"
  by (induction rule: list_all2_induct) (auto simp: paired_def)

lemma sched_ok_outbox:
  assumes "sched_ok d"
  shows "distinct (map so_job (sd_outbox d))"
proof -
  have "map so_job (sd_outbox d) = map sj_id (sd_jobs d)"
    using assms by (intro paired_jobs) (simp add: sched_ok_def)
  then show ?thesis using assms by (simp add: sched_ok_def)
qed

lemma find_job_iff:
  assumes "sched_ok d"
  shows "find_job i d = Some j \<longleftrightarrow> j \<in> set (sd_jobs d) \<and> sj_id j = i"
proof
  assume "find_job i d = Some j"
  then show "j \<in> set (sd_jobs d) \<and> sj_id j = i"
    by (auto simp: find_job_def find_Some_iff)
next
  assume j: "j \<in> set (sd_jobs d) \<and> sj_id j = i"
  then obtain k where k: "find_job i d = Some k"
    by (cases "find_job i d") (auto simp: find_job_def find_None_iff)
  then have "k \<in> set (sd_jobs d)" "sj_id k = i" by (auto simp: find_job_def find_Some_iff)
  with j assms have "k = j" by (auto simp: sched_ok_def intro: same_row [of sj_id])
  with k show "find_job i d = Some j" by simp
qed

lemma sched_ok_row: "sched_ok d \<Longrightarrow> j \<in> set (sd_jobs d) \<Longrightarrow> row_ok j"
  by (simp add: sched_ok_def list_all_iff)

text \<open>A transaction rewrites the rows and appends events; what it has to respect.\<close>

lemma sched_ok_map:
  assumes ok: "sched_ok d"
    and d': "sd_jobs d' = map F (sd_jobs d)" "sd_outbox d' = map G (sd_outbox d)" "sd_events d' = sd_events d @ vs"
    and F: "\<And>j. j \<in> set (sd_jobs d) \<Longrightarrow> row_ok j \<Longrightarrow> sj_id (F j) = sj_id j \<and> sj_key (F j) = sj_key j \<and> row_ok (F j)
              \<and> sj_attempts (F j) = sj_attempts j + int (leases_in (sj_id j) vs)"
    and G: "\<And>e. so_id (G e) = so_id e \<and> so_job (G e) = so_job e"
    and FG: "\<And>j e. j \<in> set (sd_jobs d) \<Longrightarrow> e \<in> set (sd_outbox d) \<Longrightarrow> paired j e \<Longrightarrow> paired (F j) (G e)"
    and vs: "\<And>v. v \<in> set vs \<Longrightarrow> sv_job v \<in> sj_id ` set (sd_jobs d)"
  shows "sched_ok d'"
proof -
  have F': "sj_id (F j) = sj_id j \<and> sj_key (F j) = sj_key j \<and> row_ok (F j)
      \<and> sj_attempts (F j) = sj_attempts j + int (leases_in (sj_id j) vs)" if "j \<in> set (sd_jobs d)" for j
    using F that sched_ok_row [OF ok that] by blast
  have ids: "map sj_id (map F (sd_jobs d)) = map sj_id (sd_jobs d)" and keys: "map sj_key (map F (sd_jobs d)) = map sj_key (sd_jobs d)"
    and oids: "map so_id (map G (sd_outbox d)) = map so_id (sd_outbox d)"
    using F' G by auto
  have imgs: "sj_id ` set (map F (sd_jobs d)) = sj_id ` set (sd_jobs d)"
    by (metis ids list.set_map)
  have "list_all2 paired (map F (sd_jobs d)) (map G (sd_outbox d))"
    using ok FG unfolding sched_ok_def
    by (simp add: list_all2_conv_all_nth)
  moreover have "list_all row_ok (map F (sd_jobs d))"
    "list_all (\<lambda>j. int (leases_in (sj_id j) (sd_events d @ vs)) = sj_attempts j) (map F (sd_jobs d))"
    using ok F' by (auto simp: sched_ok_def list_all_iff)
  moreover have "list_all (\<lambda>v. sv_job v \<in> sj_id ` set (sd_jobs d)) (sd_events d @ vs)"
    using ok vs by (auto simp: sched_ok_def list_all_iff)
  ultimately show ?thesis
    using ok unfolding sched_ok_def d' ids keys oids imgs by simp
qed

section \<open>The transactions\<close>

inductive sched_step :: "scheduler_db \<Rightarrow> scheduler_db \<Rightarrow> bool" where
  st_schedule: "schedule_maintenance_job jid eid q now d = Inr (d', i) \<Longrightarrow> sched_step d d'"
| st_publish: "sched_step d (mark_scheduler_outbox_published eid now d)"
| st_claim: "claim_scheduled_job i worker secs now d = Inr (d', r) \<Longrightarrow> sched_step d d'"
| st_complete: "complete_scheduled_job i worker v now d = Inr d' \<Longrightarrow> sched_step d d'"
| st_fail: "fail_scheduled_job i worker error delay now d = Inr (d', s) \<Longrightarrow> sched_step d d'"
| st_recover: "sched_step d (fst (recover_expired_scheduler_leases now d))"

definition advanced :: "job_row \<Rightarrow> job_row \<Rightarrow> bool" where
  "advanced j j' \<longleftrightarrow> j' = j \<or> (sj_id j' = sj_id j \<and> sj_max j' = sj_max j \<and> job_step (sj_max j) (progress j) (progress j'))"

definition advances :: "scheduler_db \<Rightarrow> scheduler_db \<Rightarrow> bool" where
  \<comment> \<open>rows are kept in place and each stays or takes one step; new rows come last\<close>
  "advances d d' \<longleftrightarrow> (\<exists>rows more. sd_jobs d' = rows @ more \<and> list_all2 advanced (sd_jobs d) rows)"

lemma advances_map:
  assumes "sd_jobs d' = map F (sd_jobs d)" and "\<And>j. j \<in> set (sd_jobs d) \<Longrightarrow> advanced j (F j)"
  shows "advances d d'"
  unfolding advances_def using assms by (intro exI [of _ "map F (sd_jobs d)"] exI [of _ "[]"]) (auto simp: list_all2_conv_all_nth)

lemmas sched_table_simps = update_job_def log_job_def repend_def

lemma schedule_step:
  assumes "schedule_maintenance_job jid eid q now d = Inr (d', i)" and ok: "sched_ok d"
  shows "sched_ok d' \<and> advances d d'"
proof (cases "find (\<lambda>j. sj_key j = sq_key q) (sd_jobs d)")
  case (Some j)
  with assms have "d' = d"
    by (auto simp: schedule_maintenance_job_def raise_def Let_def split: if_splits)
  then show ?thesis using ok by (auto intro: advances_map [where F = id] simp: advanced_def)
next
  case None
  define payload where "payload = (case sq_payload q of Some p \<Rightarrow> p | None \<Rightarrow> empty_object)"
  define j where "j = new_job jid q payload now"
  from None assms(1) have g: "1 \<le> sq_max q" "sq_max q \<le> 20" "find_job jid d = None" "\<not> list_ex (\<lambda>e. so_id e = eid) (sd_outbox d)"
    and d': "d' = log_job jid EvScheduled None (PDict [(''idempotency_key'', PStr (sq_key q))]) now
        (d\<lparr>sd_jobs := sd_jobs d @ [j], sd_outbox := sd_outbox d @ [new_outbox eid j now]\<rparr>)"
    by (auto simp: schedule_maintenance_job_def raise_def violation_def Let_def payload_def j_def split: if_splits)
  have row: "row_ok j" "paired j (new_outbox eid j now)" "sj_attempts j = 0" "sj_id j = jid" "sj_key j = sq_key q"
    using g by (simp_all add: j_def new_job_def row_ok_def paired_def new_outbox_def)
  have fresh: "jid \<notin> sj_id ` set (sd_jobs d)" "sq_key q \<notin> sj_key ` set (sd_jobs d)" "eid \<notin> so_id ` set (sd_outbox d)"
    using g None by (auto simp: find_job_def find_None_iff list_ex_iff)
  have none: "leases_in jid (sd_events d) = 0"
    using ok fresh(1) by (auto simp: sched_ok_def leases_in_def filter_empty_conv list_all_iff)
  have "list_all2 paired (sd_jobs d @ [j]) (sd_outbox d @ [new_outbox eid j now])"
    using ok row(2) by (intro list_all2_appendI) (simp_all add: sched_ok_def)
  moreover have "so_id (new_outbox eid j now) = eid" by (simp add: new_outbox_def)
  ultimately have "sched_ok d'"
    using ok row fresh none unfolding sched_ok_def d' log_job_def by (auto simp: list_all_iff)
  moreover have "advances d d'"
    unfolding advances_def d' by (intro exI [of _ "sd_jobs d"] exI [of _ "[j]"])
      (simp add: log_job_def list_all2_refl advanced_def)
  ultimately show ?thesis by blast
qed

lemma advanced_same: "advanced j j"
  by (simp add: advanced_def)

lemma pending_row:
  assumes ok: "sched_ok d" and "find (\<lambda>e. so_id e = eid \<and> so_pending e) (sd_outbox d) = Some e"
    and j: "j \<in> set (sd_jobs d)" and x: "x \<in> set (sd_outbox d)" and "so_job x = sj_id j"
  shows "so_id x = eid \<and> so_pending x \<longleftrightarrow> sj_id j = so_job e"
proof -
  from assms(2) have e: "e \<in> set (sd_outbox d)" "so_id e = eid" "so_pending e" by (auto simp: find_Some_iff)
  have "distinct (map so_id (sd_outbox d))" using ok by (simp add: sched_ok_def)
  then have 1: "so_id x = eid \<Longrightarrow> x = e" using same_row [of so_id _ x e] x e by simp
  have 2: "so_job x = so_job e \<Longrightarrow> x = e"
    using same_row [OF sched_ok_outbox [OF ok] x e(1)] by simp
  show ?thesis using 1 2 e assms(5) by auto
qed

lemma publish_step:
  assumes ok: "sched_ok d"
  shows "sched_ok (mark_scheduler_outbox_published eid now d) \<and> advances d (mark_scheduler_outbox_published eid now d)"
proof (cases "find (\<lambda>e. so_id e = eid \<and> so_pending e) (sd_outbox d)")
  case None
  then show ?thesis
    using ok advances_map [of d id d] by (simp add: mark_scheduler_outbox_published_def advanced_same)
next
  case (Some e)
  let ?d = "mark_scheduler_outbox_published eid now d"
  define F where "F = (\<lambda>j. if sj_id j = so_job e then queued now j else j)"
  define G where "G = (\<lambda>x. if so_id x = eid \<and> so_pending x then published now x else x)"
  define vs where "vs = [\<lparr>sv_job = so_job e, sv_kind = EvQueued, sv_actor = None, sv_payload = empty_object, sv_at = now\<rparr>]"
  have d': "sd_jobs ?d = map F (sd_jobs d)" "sd_outbox ?d = map G (sd_outbox d)" "sd_events ?d = sd_events d @ vs"
    using Some by (simp_all add: mark_scheduler_outbox_published_def sched_table_simps F_def G_def vs_def)
  have e: "e \<in> set (sd_outbox d)" using Some by (auto simp: find_Some_iff)
  have jobs: "so_job ` set (sd_outbox d) = sj_id ` set (sd_jobs d)"
    using ok paired_jobs [of "sd_jobs d" "sd_outbox d"] unfolding sched_ok_def by (metis list.set_map)
  have "sched_ok ?d"
  proof (rule sched_ok_map [OF ok d'])
    show "paired (F j) (G x)" if "j \<in> set (sd_jobs d)" "x \<in> set (sd_outbox d)" "paired j x" for j x
      using that pending_row [OF ok Some that(1,2)]
      by (auto simp: paired_def F_def G_def queued_def published_def)
  next
    show "sv_job v \<in> sj_id ` set (sd_jobs d)" if "v \<in> set vs" for v
      using that e jobs by (auto simp: vs_def)
  qed (auto simp: F_def G_def vs_def queued_def published_def row_ok_def)
  moreover have "advances d ?d"
    by (rule advances_map [OF d'(1)], use sched_ok_row [OF ok] in
        \<open>auto simp: F_def advanced_def queued_def progress_def row_ok_def intro!: job_step.intros\<close>)
  ultimately show ?thesis by blast
qed

text \<open>The transactions that rewrite one row and append one event of it.\<close>

lemma one_row_step:
  assumes ok: "sched_ok d" and j: "j \<in> set (sd_jobs d)"
    and d': "sd_jobs d' = map (\<lambda>x. if sj_id x = sj_id j then f x else x) (sd_jobs d)"
      "sd_outbox d' = (if again then map (\<lambda>e. if so_job e = sj_id j then e\<lparr>so_pending := True, so_published := None\<rparr> else e) (sd_outbox d)
         else sd_outbox d)"
      "sd_events d' = sd_events d @ [v]"
    and f: "sj_id (f j) = sj_id j" "sj_key (f j) = sj_key j" "row_ok (f j)" "advanced j (f j)"
      "sj_attempts (f j) = sj_attempts j + (if sv_kind v = EvLeased then 1 else 0)" "sj_state (f j) = JobScheduled \<longleftrightarrow> again"
      "sj_state j \<noteq> JobScheduled"
    and v: "sv_job v = sj_id j"
  shows "sched_ok d' \<and> advances d d'"
proof -
  define F where "F = (\<lambda>x. if sj_id x = sj_id j then f x else x)"
  define G :: "outbox_row \<Rightarrow> outbox_row" where "G = (\<lambda>e. if again \<and> so_job e = sj_id j then e\<lparr>so_pending := True, so_published := None\<rparr> else e)"
  have outbox: "sd_outbox d' = map G (sd_outbox d)"
    using d'(2) by (simp add: G_def)
  have only: "x = j" if "x \<in> set (sd_jobs d)" "sj_id x = sj_id j" for x
    using that j ok same_row [of sj_id "sd_jobs d"] by (simp add: sched_ok_def)
  have "sched_ok d'"
  proof (rule sched_ok_map [OF ok d'(1)[folded F_def] outbox d'(3)])
    show "sj_id (F x) = sj_id x \<and> sj_key (F x) = sj_key x \<and> row_ok (F x)
        \<and> sj_attempts (F x) = sj_attempts x + int (leases_in (sj_id x) [v])" if "x \<in> set (sd_jobs d)" "row_ok x" for x
      using that only [OF that(1)] f v by (cases "sj_id x = sj_id j") (auto simp: F_def)
  next
    show "paired (F x) (G e)" if "x \<in> set (sd_jobs d)" "e \<in> set (sd_outbox d)" "paired x e" for x e
      using that only [OF that(1)] f by (cases "sj_id x = sj_id j") (auto simp: F_def G_def paired_def)
  next
    show "sv_job u \<in> sj_id ` set (sd_jobs d)" if "u \<in> set [v]" for u using that v j by auto
  qed (simp add: G_def)
  moreover have "advances d d'"
    by (rule advances_map [OF d'(1)]) (use only f(4) in \<open>auto simp: advanced_same\<close>)
  ultimately show ?thesis by blast
qed

lemma released_fields [simp]:
  "sj_state (released now j) = JobQueued" "sj_attempts (released now j) = sj_attempts j" "sj_max (released now j) = sj_max j"
  by (simp_all add: released_def)

text \<open>The rows the transactions write are well formed.\<close>

lemma leased_row: "row_ok j \<Longrightarrow> sj_attempts j < sj_max j \<Longrightarrow> row_ok (leased worker secs now j)"
  by (simp add: row_ok_def leased_def)

lemma dead_row: "row_ok j \<Longrightarrow> sj_max j \<le> sj_attempts j \<Longrightarrow> row_ok (dead_lettered now (released now j))"
  by (simp add: row_ok_def dead_lettered_def released_def)

lemma succeeded_row: "row_ok j \<Longrightarrow> row_ok (succeeded v now j)"
  by (simp add: row_ok_def succeeded_def)

lemma failed_row_ok:
  assumes "row_ok j"
  shows "row_ok (failed error delay now j)"
proof (cases "sj_max j \<le> sj_attempts j")
  case True
  then show ?thesis using assms by (simp add: failed_def row_ok_def next_state_def)
next
  case False
  then show ?thesis using assms by (simp add: failed_def row_ok_def next_state_def)
qed

lemma recovered_row:
  assumes "row_ok j"
  shows "row_ok (recovered now j)"
proof (cases "sj_max j \<le> sj_attempts j")
  case True
  then show ?thesis using assms by (simp add: recovered_def row_ok_def next_state_def)
next
  case False
  then show ?thesis using assms by (simp add: recovered_def row_ok_def next_state_def)
qed

lemma claim_step:
  assumes "claim_scheduled_job i worker secs now d = Inr (d', r)" and ok: "sched_ok d"
  shows "sched_ok d' \<and> advances d d'"
proof (cases "find_job i d")
  case None
  with assms show ?thesis
    by (auto simp: claim_scheduled_job_def raise_def advanced_same intro: advances_map [where F = id] split: if_splits)
next
  case (Some j)
  then have j: "j \<in> set (sd_jobs d)" "sj_id j = i" using find_job_iff [OF ok] by auto
  note row = sched_ok_row [OF ok j(1)]
  have live: "trimmed_length worker \<ge> 3" using assms(1) by (auto simp: claim_scheduled_job_def raise_def split: if_splits)
  have same: "update_job i (leased worker secs now) (update_job i (released now) d) = update_job i (leased worker secs now) d"
    "update_job i (dead_lettered now) (update_job i (released now) d) = update_job i (\<lambda>x. dead_lettered now (released now x)) d"
    by (auto simp: update_job_def released_def leased_def)
  consider (idle) "\<not> lease_over now j" "sj_state j \<noteq> JobQueued" | (dead) "lease_over now j" "sj_max j \<le> sj_attempts j"
    | (again) "lease_over now j" "sj_attempts j < sj_max j" | (queue) "\<not> lease_over now j" "sj_state j = JobQueued"
    by force
  then show ?thesis
  proof cases
    case idle
    with assms Some live show ?thesis
      by (auto simp: claim_scheduled_job_def advanced_same intro: advances_map [where F = id])
  next
    case dead
    with assms(1) Some live have d': "d' = log_job i EvDeadLettered (Some worker) empty_object now
        (update_job i (\<lambda>x. dead_lettered now (released now x)) d)"
      by (simp add: claim_scheduled_job_def Let_def same)
    show ?thesis
      by (rule one_row_step [OF ok j(1), where again = False and f = "\<lambda>x. dead_lettered now (released now x)"])
        (use dead dead_row [OF row] j in \<open>auto simp: d' sched_table_simps released_def dead_lettered_def advanced_def progress_def lease_over_def
            intro: job_step.give_up\<close>)
  next
    case again
    from again assms(1) Some live have d': "d' = log_job i EvLeased (Some worker) (PDict [(''attempt_count'', PInt (sj_attempts j + 1))]) now
        (update_job i (leased worker secs now) d)"
      by (simp add: claim_scheduled_job_def Let_def same)
    show ?thesis
      by (rule one_row_step [OF ok j(1), where again = False and f = "leased worker secs now"])
        (use again leased_row [OF row] j in \<open>auto simp: d' sched_table_simps leased_def advanced_def progress_def lease_over_def
            intro: job_step.reclaim\<close>)
  next
    case queue
    with row have few: "sj_attempts j < sj_max j" by (auto simp: row_ok_def)
    from queue few assms(1) Some live have d': "d' = log_job i EvLeased (Some worker) (PDict [(''attempt_count'', PInt (sj_attempts j + 1))]) now
        (update_job i (leased worker secs now) d)"
      by (simp add: claim_scheduled_job_def Let_def)
    show ?thesis
      by (rule one_row_step [OF ok j(1), where again = False and f = "leased worker secs now"])
        (use queue few leased_row [OF row] j in \<open>auto simp: d' sched_table_simps leased_def advanced_def progress_def
            intro: job_step.claim\<close>)
  qed
qed

lemma complete_step:
  assumes "complete_scheduled_job i worker v now d = Inr d'" and ok: "sched_ok d"
  shows "sched_ok d' \<and> advances d d'"
proof -
  from assms(1) obtain j where "find_job i d = Some j" and s: "sj_state j = JobLeased"
    and d': "d' = log_job i EvSucceeded (Some worker) v now (update_job i (succeeded v now) d)"
    by (auto simp: complete_scheduled_job_def raise_def split: option.splits if_splits)
  then have j: "j \<in> set (sd_jobs d)" "sj_id j = i" using find_job_iff [OF ok] by auto
  note row = sched_ok_row [OF ok j(1)]
  show ?thesis
    by (rule one_row_step [OF ok j(1), where again = False and f = "succeeded v now"])
      (use succeeded_row [OF row] s j in \<open>auto simp: d' sched_table_simps succeeded_def advanced_def progress_def intro: job_step.succeed\<close>)
qed

lemma fail_step:
  assumes "fail_scheduled_job i worker error delay now d = Inr (d', s)" and ok: "sched_ok d"
  shows "sched_ok d' \<and> advances d d'"
proof -
  from assms(1) obtain j where "find_job i d = Some j" and st: "sj_state j = JobLeased" and s: "s = next_state j"
    and d': "d' = log_job i (if s = JobDeadLetter then EvDeadLettered else EvFailed) (Some worker)
               (PDict [(''error_code'', PStr error), (''next_state'', PStr (state_name s))]) now
               (if s = JobScheduled then repend (\<lambda>k. k = i) (update_job i (failed error delay now) d)
                else update_job i (failed error delay now) d)"
    by (auto simp: fail_scheduled_job_def raise_def Let_def split: option.splits if_splits)
  then have j: "j \<in> set (sd_jobs d)" "sj_id j = i" using find_job_iff [OF ok] by auto
  note row = sched_ok_row [OF ok j(1)]
  show ?thesis
  proof (cases "sj_max j \<le> sj_attempts j")
    case True
    then have "next_state j = JobDeadLetter" "s = JobDeadLetter" by (simp_all add: s next_state_def)
    then show ?thesis
      by (intro one_row_step [OF ok j(1), where again = False and f = "failed error delay now"])
        (use True failed_row_ok [OF row] st j in \<open>auto simp: d' sched_table_simps failed_def advanced_def progress_def
            intro: job_step.give_up\<close>)
  next
    case False
    then have "next_state j = JobScheduled" "s = JobScheduled" by (simp_all add: s next_state_def)
    then show ?thesis
      by (intro one_row_step [OF ok j(1), where again = True and f = "failed error delay now"])
        (use False failed_row_ok [OF row] st j in \<open>auto simp: d' sched_table_simps failed_def advanced_def progress_def
            intro: job_step.retry\<close>)
  qed
qed

lemma recovered_advanced: "lease_over now j \<Longrightarrow> row_ok j \<Longrightarrow> advanced j (recovered now j)"
  by (auto simp: lease_over_def advanced_def recovered_def next_state_def progress_def intro: job_step.retry job_step.give_up)

lemma recover_step:
  assumes ok: "sched_ok d"
  shows "sched_ok (fst (recover_expired_scheduler_leases now d))
    \<and> advances d (fst (recover_expired_scheduler_leases now d))"
proof -
  define d' where "d' = fst (recover_expired_scheduler_leases now d)"
  define F where "F = (\<lambda>j. if lease_over now j then recovered now j else j)"
  define p where "p = (\<lambda>i. list_ex (\<lambda>j. sj_id j = i \<and> sj_state j = JobScheduled \<and> just_expired now j) (map F (sd_jobs d)))"
  define G :: "outbox_row \<Rightarrow> outbox_row" where "G = (\<lambda>e. if p (so_job e) then e\<lparr>so_pending := True, so_published := None\<rparr> else e)"
  define vs where "vs = map (recovery_event now) (filter (just_expired now) (map F (sd_jobs d)))"
  have d': "sd_jobs d' = map F (sd_jobs d)" "sd_outbox d' = map G (sd_outbox d)" "sd_events d' = sd_events d @ vs"
    by (simp_all add: d'_def recover_expired_scheduler_leases_def Let_def repend_def F_def G_def p_def vs_def)
  have id: "sj_id (F j) = sj_id j" for j by (simp add: F_def recovered_def)
  have p: "p (sj_id j) \<longleftrightarrow> sj_state (F j) = JobScheduled \<and> just_expired now (F j)" if j: "j \<in> set (sd_jobs d)" for j
  proof -
    have "x = j" if "x \<in> set (sd_jobs d)" "sj_id x = sj_id j" for x
      using that j ok same_row [of sj_id "sd_jobs d"] by (simp add: sched_ok_def)
    then show ?thesis using j by (auto simp: p_def list_ex_iff id)
  qed
  have "sched_ok d'"
  proof (rule sched_ok_map [OF ok d'])
    show "sj_id (F j) = sj_id j \<and> sj_key (F j) = sj_key j \<and> row_ok (F j)
        \<and> sj_attempts (F j) = sj_attempts j + int (leases_in (sj_id j) vs)" if "row_ok j" for j
    proof -
      have "leases_in (sj_id j) vs = 0"
        by (rule leases_in_none) (auto simp: vs_def recovery_event_def split: if_splits)
      moreover have "row_ok (F j)"
        using that recovered_row [OF that] by (simp add: F_def)
      moreover have "sj_key (F j) = sj_key j" "sj_attempts (F j) = sj_attempts j" by (simp_all add: F_def recovered_def)
      ultimately show ?thesis by (simp add: id)
    qed
  next
    show "paired (F j) (G e)" if j: "j \<in> set (sd_jobs d)" and e: "paired j e" for j e
    proof (cases "lease_over now j")
      case True
      then have "F j = recovered now j" "sj_state j \<noteq> JobScheduled" by (auto simp: F_def lease_over_def)
      moreover have "just_expired now (recovered now j)" by (simp add: just_expired_def recovered_def)
      ultimately show ?thesis using e p [OF j] by (simp add: paired_def G_def recovered_def)
    next
      case False
      then have "F j = j" by (simp add: F_def)
      then show ?thesis using e p [OF j] by (simp add: paired_def G_def)
    qed
  next
    show "sv_job v \<in> sj_id ` set (sd_jobs d)" if "v \<in> set vs" for v
      using that id by (auto simp: vs_def recovery_event_def)
  qed (simp add: G_def)
  moreover have "advances d d'"
    by (rule advances_map [OF d'(1)]) (use recovered_advanced sched_ok_row [OF ok] in \<open>auto simp: F_def advanced_same\<close>)
  ultimately show ?thesis by (simp add: d'_def)
qed

theorem step_keeps: "sched_step d d' \<Longrightarrow> sched_ok d \<Longrightarrow> sched_ok d' \<and> advances d d'"
  by (induction rule: sched_step.induct)
    (simp_all add: schedule_step publish_step claim_step complete_step fail_step recover_step)

section \<open>Reachable tables\<close>

definition no_jobs :: scheduler_db where
  "no_jobs = \<lparr>sd_jobs = [], sd_outbox = [], sd_events = []\<rparr>"

abbreviation reachable :: "scheduler_db \<Rightarrow> bool" where
  "reachable d \<equiv> sched_step\<^sup>*\<^sup>* no_jobs d"

lemma steps_ok: "sched_step\<^sup>*\<^sup>* d d' \<Longrightarrow> sched_ok d \<Longrightarrow> sched_ok d'"
  by (induction rule: rtranclp_induct) (use step_keeps in blast)+

lemma reachable_ok: "reachable d \<Longrightarrow> sched_ok d"
  by (erule steps_ok) (simp add: no_jobs_def sched_ok_def)

lemma step_row:
  assumes "sched_step d d'" "sched_ok d" "find_job i d = Some j"
  obtains j' where "find_job i d' = Some j'" "advanced j j'"
proof -
  from step_keeps [OF assms(1,2)] obtain rows more
    where ok: "sched_ok d'" and rows: "sd_jobs d' = rows @ more" "list_all2 advanced (sd_jobs d) rows"
    by (auto simp: advances_def)
  have "j \<in> set (sd_jobs d)" "sj_id j = i" using assms(2,3) find_job_iff by auto
  then obtain j' where "j' \<in> set rows" "advanced j j'"
    using rows(2) by (metis in_set_conv_nth list_all2_conv_all_nth)
  moreover have "sj_id j' = i" using \<open>advanced j j'\<close> \<open>sj_id j = i\<close> by (auto simp: advanced_def)
  ultimately show ?thesis using that find_job_iff [OF ok] rows(1) by auto
qed

lemma settled_stays: "advanced j j' \<Longrightarrow> sj_state j = JobSucceeded \<or> sj_state j = JobDeadLetter \<Longrightarrow> j' = j"
  by (auto simp: advanced_def progress_def elim: job_step.cases)

fun row_changes :: "string \<Rightarrow> scheduler_db list \<Rightarrow> nat" where
  \<comment> \<open>how often the row of a job differs from one table to the next\<close>
  "row_changes i (d # d' # ds) = (if find_job i d' \<noteq> find_job i d then 1 else 0) + row_changes i (d' # ds)"
| "row_changes i _ = 0"

lemma changes_bounded:
  assumes "successively sched_step (d # ds)" "sched_ok d" "find_job i d = Some j"
  shows "row_changes i (d # ds) \<le> steps_left (sj_max j) (progress j)"
  using assms
proof (induction ds arbitrary: d j)
  case Nil
  then show ?case by simp
next
  case (Cons d' ds)
  then have step: "sched_step d d'" and rest: "successively sched_step (d' # ds)" by auto
  obtain j' where j': "find_job i d' = Some j'" "advanced j j'" using step_row [OF step Cons.prems(2,3)] by blast
  have ok: "sched_ok d'" using step_keeps [OF step Cons.prems(2)] by blast
  note IH = Cons.IH [OF rest ok j'(1)]
  have row: "row_ok j" using Cons.prems(2,3) find_job_iff sched_ok_row by blast
  show ?case
  proof (cases "j' = j")
    case True
    with IH j' Cons.prems(3) show ?thesis by simp
  next
    case False
    with j'(2) have "sj_max j' = sj_max j" "steps_left (sj_max j) (progress j') < steps_left (sj_max j) (progress j)"
      using row by (auto simp: advanced_def row_ok_def progress_def intro: job_step_decreases)
    with IH j' Cons.prems(3) False show ?thesis by simp
  qed
qed

lemma steps_left_le:
  assumes "row_ok j"
  shows "steps_left (sj_max j) (progress j) \<le> nat (3 * sj_max j)"
  using assms by (auto simp: steps_left_def progress_def row_ok_def split: job_state.split)

lemma find_updated:
  assumes "\<And>j. sj_id (f j) = sj_id j"
  shows "find_job i (log_job k kind actor payload now (update_job i f d)) = map_option f (find_job i d)"
proof -
  have "find (\<lambda>j. sj_id j = i) (map (\<lambda>j. if sj_id j = i then f j else j) js) = map_option f (find (\<lambda>j. sj_id j = i) js)" for js
    by (induction js) (simp_all add: assms)
  then show ?thesis by (simp add: find_job_def log_job_def update_job_def)
qed

lemma row_ids [simp]:
  "sj_id (leased w secs now j) = sj_id j" "sj_id (released now j) = sj_id j" "sj_id (succeeded v now j) = sj_id j"
  "sj_id (failed error delay now j) = sj_id j" "sj_id (queued now j) = sj_id j"
  by (simp_all add: leased_def released_def succeeded_def failed_def queued_def)

lemma claimed_row:
  assumes "claim_scheduled_job i worker secs now d = Inr (d', Some j)"
  obtains k where "find_job i d = Some k" "j = leased worker secs now k"
    "find_job i d' = Some (leased worker secs now k)"
proof -
  from assms obtain k where k: "find_job i d = Some k"
    by (auto simp: claim_scheduled_job_def raise_def split: option.splits if_splits)
  have over: "leased worker secs now (released now k) = leased worker secs now k" for k
    by (simp add: leased_def released_def)
  have twice: "update_job i (leased worker secs now) (update_job i (released now) d) = update_job i (leased worker secs now) d"
    by (auto simp: update_job_def released_def leased_def)
  from assms k have "j = leased worker secs now k
      \<and> d' = log_job i EvLeased (Some worker) (PDict [(''attempt_count'', PInt (sj_attempts k + 1))]) now
          (update_job i (leased worker secs now) d)"
    by (auto simp: claim_scheduled_job_def raise_def Let_def over twice split: if_splits)
  with k show ?thesis by (intro that) (simp_all add: find_updated)
qed

lemma outbox_of:
  assumes "sched_ok d" "j \<in> set (sd_jobs d)"
  obtains e where "e \<in> set (sd_outbox d)" "paired j e"
proof -
  from assms(2) obtain n where n: "n < length (sd_jobs d)" "sd_jobs d ! n = j" by (auto simp: in_set_conv_nth)
  have all: "list_all2 paired (sd_jobs d) (sd_outbox d)" using assms(1) by (simp add: sched_ok_def)
  have "n < length (sd_outbox d)" using n(1) list_all2_lengthD [OF all] by simp
  moreover have "paired j (sd_outbox d ! n)" using list_all2_nthD [OF all n(1)] n(2) by simp
  ultimately show ?thesis by (intro that) simp_all
qed

lemma pending_iff:
  assumes ok: "sched_ok d" and j: "j \<in> set (sd_jobs d)"
  shows "(\<exists>e. e \<in> set (sd_outbox d) \<and> so_job e = sj_id j \<and> so_pending e) \<longleftrightarrow> sj_state j = JobScheduled"
proof -
  obtain e where e: "e \<in> set (sd_outbox d)" "paired j e" using outbox_of [OF ok j] .
  have "e' = e" if "e' \<in> set (sd_outbox d)" "so_job e' = sj_id j" for e'
    using same_row [OF sched_ok_outbox [OF ok] that(1) e(1)] that(2) e(2) by (simp add: paired_def)
  then show ?thesis using e by (auto simp: paired_def)
qed

section \<open>A concrete run\<close>

definition sample_request :: schedule_request where
  "sample_request = \<lparr>sq_kind = ''CHECK_SOURCE_FRESHNESS'', sq_key = ''freshness-1'', sq_payload = None, sq_tenant = None,
     sq_run_at = None, sq_max = 2, sq_trace = empty_object\<rparr>"

fun sample_table :: "nat \<Rightarrow> scheduler_db" where
  \<comment> \<open>scheduled, published, claimed for one second, and claimed again an hour later\<close>
  "sample_table 0 = no_jobs"
| "sample_table (Suc n) = (let d = sample_table n in
     if n = 0 then (case schedule_maintenance_job ''job'' ''event'' sample_request 0 d of Inr (d', _) \<Rightarrow> d' | Inl _ \<Rightarrow> d)
     else if n = 1 then mark_scheduler_outbox_published ''event'' 1 d
     else (case claim_scheduled_job ''job'' ''scheduler-service'' 1 (if n = 2 then 2 else seconds 3600) d of
             Inr (d', _) \<Rightarrow> d' | Inl _ \<Rightarrow> d))"

definition sample_row :: "nat \<Rightarrow> job_row" where
  "sample_row n = the (find_job ''job'' (sample_table n))"

lemma sample_step: "sched_step (sample_table n) (sample_table (Suc n)) \<or> sample_table (Suc n) = sample_table n"
proof -
  define claimed where "claimed = claim_scheduled_job ''job'' ''scheduler-service'' 1 (if n = 2 then 2 else seconds 3600) (sample_table n)"
  define added where "added = schedule_maintenance_job ''job'' ''event'' sample_request 0 (sample_table n)"
  have eq: "sample_table (Suc n) =
      (if n = 0 then (case added of Inr (d', _) \<Rightarrow> d' | Inl _ \<Rightarrow> sample_table n)
       else if n = 1 then mark_scheduler_outbox_published ''event'' 1 (sample_table n)
       else (case claimed of Inr (d', _) \<Rightarrow> d' | Inl _ \<Rightarrow> sample_table n))"
    by (simp only: sample_table.simps Let_def claimed_def added_def)
  show ?thesis
  proof (cases "n = 0 \<or> n = 1")
    case True
    then show ?thesis
      unfolding eq by (cases added) (auto simp: added_def intro: st_schedule st_publish)
  next
    case False
    then show ?thesis unfolding eq by (cases claimed) (auto simp: claimed_def intro: st_claim)
  qed
qed

lemma sample_reachable: "reachable (sample_table n)"
proof (induction n)
  case (Suc n)
  then show ?case using sample_step [of n] by (metis rtranclp.rtrancl_into_rtrancl)
qed simp

lemmas sample_defs = schedule_maintenance_job_def mark_scheduler_outbox_published_def claim_scheduled_job_def
  no_jobs_def sample_request_def new_job_def new_outbox_def log_job_def update_job_def find_job_def trimmed_length_def
  job_kinds_def queued_def published_def leased_def released_def lease_over_def seconds_def

abbreviation sample_clock :: clock where
  "sample_clock \<equiv> (\<lambda>n. seconds (int n))"

lemma claim_row:
  assumes "find_job i d = Some j" "sj_state j = JobQueued \<or> lease_over now j" "sj_attempts j < sj_max j"
    "3 \<le> trimmed_length worker"
  shows "\<exists>d'. claim_scheduled_job i worker secs now d = Inr (d', Some (leased worker secs now j))
    \<and> find_job i d' = Some (leased worker secs now j)"
proof -
  have over: "leased worker secs now (released now j) = leased worker secs now j"
    by (simp add: leased_def released_def)
  have twice: "update_job i (leased worker secs now) (update_job i (released now) d) = update_job i (leased worker secs now) d"
    by (auto simp: update_job_def released_def leased_def)
  show ?thesis
    using assms by (cases "lease_over now j") (simp_all add: claim_scheduled_job_def Let_def over twice find_updated)
qed

lemma sample_queued: "find_job ''job'' (sample_table 2) = Some (sample_row 2)" "sj_id (sample_row 2) = ''job''"
  "sj_state (sample_row 2) = JobQueued" "sj_attempts (sample_row 2) = 0" "sj_max (sample_row 2) = 2"
  by (simp_all add: sample_defs sample_row_def eval_nat_numeral Let_def)

lemma sample_next:
  assumes "claim_scheduled_job ''job'' ''scheduler-service'' 1 (if n = 2 then 2 else seconds 3600) (sample_table n) = Inr (d', r)"
    and "2 \<le> n"
  shows "sample_table (Suc n) = d'"
  using assms by (simp add: Let_def)

lemma service_name: "3 \<le> trimmed_length ''scheduler-service''"
  by (simp add: trimmed_length_def)

lemma sample_claims:
  "claim_scheduled_job ''job'' ''scheduler-service'' 1 2 (sample_table 2) = Inr (sample_table 3, Some (sample_row 3))"
  "claim_scheduled_job ''job'' ''scheduler-service'' 1 (seconds 3600) (sample_table 3) = Inr (sample_table 4, Some (sample_row 4))"
  and sample_leased: "sample_row 3 = leased ''scheduler-service'' 1 2 (sample_row 2)" "find_job ''job'' (sample_table 3) = Some (sample_row 3)"
proof -
  obtain d3 where d3: "claim_scheduled_job ''job'' ''scheduler-service'' 1 2 (sample_table 2)
      = Inr (d3, Some (leased ''scheduler-service'' 1 2 (sample_row 2)))"
    "find_job ''job'' d3 = Some (leased ''scheduler-service'' 1 2 (sample_row 2))"
    using claim_row [OF sample_queued(1) _ _ service_name, of 2 1] sample_queued by auto
  have "sample_table 3 = d3" using sample_next [of 2 d3] d3(1) by (simp add: numeral_3_eq_3 numeral_2_eq_2)
  then show row3: "sample_row 3 = leased ''scheduler-service'' 1 2 (sample_row 2)"
    and found: "find_job ''job'' (sample_table 3) = Some (sample_row 3)"
    and "claim_scheduled_job ''job'' ''scheduler-service'' 1 2 (sample_table 2) = Inr (sample_table 3, Some (sample_row 3))"
    using d3 by (simp_all add: sample_row_def)
  have "lease_over (seconds 3600) (sample_row 3)" "sj_attempts (sample_row 3) < sj_max (sample_row 3)"
    using sample_queued by (simp_all add: row3 leased_def lease_over_def seconds_def)
  then obtain d4 where d4: "claim_scheduled_job ''job'' ''scheduler-service'' 1 (seconds 3600) (sample_table 3)
      = Inr (d4, Some (leased ''scheduler-service'' 1 (seconds 3600) (sample_row 3)))"
    "find_job ''job'' d4 = Some (leased ''scheduler-service'' 1 (seconds 3600) (sample_row 3))"
    using claim_row [OF found _ _ service_name, of "seconds 3600" 1] by auto
  have "sample_table 4 = d4" using sample_next [of 3 d4] d4(1) by (simp add: eval_nat_numeral)
  then show "claim_scheduled_job ''job'' ''scheduler-service'' 1 (seconds 3600) (sample_table 3) = Inr (sample_table 4, Some (sample_row 4))"
    using d4 by (simp add: sample_row_def)
qed

lemma sample_rows: "find_job ''job'' (sample_table 3) = Some (sample_row 3)" "sample_row 3 \<in> set (sd_jobs (sample_table 3))"
  "sj_id (sample_row 3) = ''job''" "sj_attempts (sample_row 3) = 1" "sj_max (sample_row 3) = 2"
  "sj_state (sample_row 3) = JobLeased" "sj_owner (sample_row 3) = Some ''scheduler-service''"
  using sample_queued sample_leased find_job_iff [OF reachable_ok [OF sample_reachable [of 3]], of "''job''"]
  by (simp_all add: leased_def)

definition sample_settled :: "nat \<Rightarrow> scheduler_db" where
  \<comment> \<open>completed, and then swept for expired leases\<close>
  "sample_settled n = (let d = log_job ''job'' EvSucceeded (Some ''scheduler-service'') (PInt 7) 3
       (update_job ''job'' (succeeded (PInt 7) 3) (sample_table 3))
     in if n = 0 then d else fst (recover_expired_scheduler_leases (seconds 7200) d))"

lemma sample_completed:
  "complete_scheduled_job ''job'' ''scheduler-service'' (PInt 7) 3 (sample_table 3) = Inr (sample_settled 0)"
  using sample_rows by (simp add: complete_scheduled_job_def sample_settled_def)

section \<open>Guarantees\<close>

text \<open>C8: However schedule, publish, claim, complete, fail and recovery transactions of any number of services
  interleave, each job has been claimed exactly as often as its attempt counter says and at most max_attempts
  times (at most 20), it has an owner exactly while it is leased, and its outbox row waits for publication
  exactly while the job is scheduled.
\<close>

theorem claims_stay_bounded:
  assumes "reachable d" and "j \<in> set (sd_jobs d)"
  shows "int (leases_in (sj_id j) (sd_events d)) = sj_attempts j \<and> sj_attempts j \<le> sj_max j \<and> sj_max j \<le> 20
    \<and> (sj_state j = JobLeased \<longleftrightarrow> sj_owner j \<noteq> None)
    \<and> ((\<exists>e. e \<in> set (sd_outbox d) \<and> so_job e = sj_id j \<and> so_pending e) \<longleftrightarrow> sj_state j = JobScheduled)"
proof (intro conjI)
  have ok: "sched_ok d" using assms(1) by (rule reachable_ok)
  show "int (leases_in (sj_id j) (sd_events d)) = sj_attempts j"
    using ok assms(2) by (simp add: sched_ok_def list_all_iff)
  have row: "row_ok j" using sched_ok_row [OF ok assms(2)] .
  show "sj_attempts j \<le> sj_max j" "sj_max j \<le> 20" "sj_state j = JobLeased \<longleftrightarrow> sj_owner j \<noteq> None"
    using row unfolding row_ok_def by blast+
  show "(\<exists>e. e \<in> set (sd_outbox d) \<and> so_job e = sj_id j \<and> so_pending e) \<longleftrightarrow> sj_state j = JobScheduled"
    using pending_iff [OF ok assms(2)] .
qed

lemma claims_stay_bounded_witness:
  "int (leases_in ''job'' (sd_events (sample_table 3))) = 1 \<and> sample_row 3 \<in> set (sd_jobs (sample_table 3))"
  using claims_stay_bounded [OF sample_reachable [of 3], of "sample_row 3"] sample_rows by simp

text \<open>C28: A job that succeeded or was dead-lettered is settled: no later sequence of transactions, by any worker
  and whatever the clocks say, changes its row.
\<close>

theorem settled_job_is_final:
  assumes "reachable d" and "find_job i d = Some j" and "sj_state j = JobSucceeded \<or> sj_state j = JobDeadLetter"
    and "sched_step\<^sup>*\<^sup>* d d'"
  shows "find_job i d' = Some j"
  using assms(4)
proof (induction rule: rtranclp_induct)
  case base
  show ?case by (rule assms(2))
next
  case (step d1 d2)
  have "sched_ok d1" using steps_ok [OF step.hyps(1)] reachable_ok [OF assms(1)] by blast
  then show ?case
    using step_row [OF step.hyps(2) _ step.IH] settled_stays assms(3) by metis
qed

lemma settled_job_is_final_witness:
  "find_job ''job'' (sample_settled 1) = Some (succeeded (PInt 7) 3 (sample_row 3))"
proof (rule settled_job_is_final [where d = "sample_settled 0" and d' = "sample_settled 1"])
  show "reachable (sample_settled 0)"
    by (rule rtranclp.rtrancl_into_rtrancl [OF sample_reachable [of 3] st_complete [OF sample_completed]])
  show "find_job ''job'' (sample_settled 0) = Some (succeeded (PInt 7) 3 (sample_row 3))"
    using sample_rows(1) by (simp add: sample_settled_def find_updated)
  show "sched_step\<^sup>*\<^sup>* (sample_settled 0) (sample_settled 1)"
    using st_recover [of "sample_settled 0"] by (auto simp: sample_settled_def)
qed (simp add: succeeded_def)

text \<open>C26: Every interleaving leaves a job in peace eventually: along any sequence of transactions its row changes at
  most 3 max_attempts times, so at most 60 times, however often workers fail, leases expire and services
  restart.
\<close>

theorem job_row_changes_bounded:
  assumes "reachable d" and "successively sched_step (d # ds)" and "find_job i d = Some j"
  shows "row_changes i (d # ds) \<le> nat (3 * sj_max j) \<and> row_changes i (d # ds) \<le> 60"
proof -
  have ok: "sched_ok d" using assms(1) by (rule reachable_ok)
  then have row: "row_ok j" using assms(3) find_job_iff sched_ok_row by blast
  then have "sj_max j \<le> 20" by (simp add: row_ok_def)
  with changes_bounded [OF assms(2) ok assms(3)] steps_left_le [OF row] show ?thesis by linarith
qed

lemma job_row_changes_bounded_witness:
  "row_changes ''job'' [sample_table 3, sample_table 4] \<le> 6"
proof -
  have "successively sched_step [sample_table 3, sample_table 4]"
    using sample_claims(2) by (auto intro: st_claim)
  from job_row_changes_bounded [OF sample_reachable this sample_rows(1)]
  have "row_changes ''job'' [sample_table 3, sample_table 4] \<le> nat (3 * sj_max (sample_row 3))" by blast
  then show ?thesis using sample_rows(5) by simp
qed

text \<open>C39: A lease does not exclude a second execution under the same worker identifier, and every instance of the
  service uses the same one: when a second claim takes over an expired lease, the first execution can still
  complete the job with its own result at any time, and the completion of the second then raises
  AXIGNAL_SCHEDULER_LEASE_MISMATCH.
\<close>

theorem stale_instance_completes:
  assumes "claim_scheduled_job i (wc_worker (service_worker clk1 ol1)) secs1 t1 d = Inr (d1, Some j1)"
    and "claim_scheduled_job i (wc_worker (service_worker clk2 ol2)) secs2 t2 d1 = Inr (d2, Some j2)"
  shows "sj_attempts j2 = sj_attempts j1 + 1
    \<and> (\<exists>d3. complete_scheduled_job i (wc_worker (service_worker clk1 ol1)) v t3 d2 = Inr d3
           \<and> (\<forall>v' t4. complete_scheduled_job i (wc_worker (service_worker clk2 ol2)) v' t4 d3
                        = raise ''AXIGNAL_SCHEDULER_LEASE_MISMATCH''))"
proof -
  let ?w = "''scheduler-service''"
  have w: "wc_worker (service_worker clk ol) = ?w" for clk ol by (simp add: service_worker_def)
  obtain k1 where k1: "find_job i d1 = Some (leased ?w secs1 t1 k1)" "j1 = leased ?w secs1 t1 k1"
    using claimed_row [OF assms(1)] unfolding w by blast
  obtain k2 where k2: "find_job i d2 = Some (leased ?w secs2 t2 k2)" "j2 = leased ?w secs2 t2 k2"
    and from1: "find_job i d1 = Some k2"
    using claimed_row [OF assms(2)] unfolding w by blast
  have attempts: "sj_attempts j2 = sj_attempts j1 + 1"
    using k1 k2 from1 by (auto simp: leased_def)
  define d3 where "d3 = log_job i EvSucceeded (Some ?w) v t3 (update_job i (succeeded v t3) d2)"
  have "complete_scheduled_job i ?w v t3 d2 = Inr d3"
    using k2 by (simp add: complete_scheduled_job_def leased_def d3_def)
  moreover have "find_job i d3 = Some (succeeded v t3 (leased ?w secs2 t2 k2))"
    unfolding d3_def using k2(1) by (simp add: find_updated)
  then have "complete_scheduled_job i ?w v' t4 d3 = raise ''AXIGNAL_SCHEDULER_LEASE_MISMATCH''" for v' t4
    by (simp add: complete_scheduled_job_def succeeded_def)
  ultimately show ?thesis using attempts unfolding w by blast
qed

lemma stale_instance_completes_witness:
  "\<exists>d3. complete_scheduled_job ''job'' ''scheduler-service'' (PInt 7) 9 (sample_table 4) = Inr d3
     \<and> complete_scheduled_job ''job'' ''scheduler-service'' (PInt 8) 9 d3 = raise ''AXIGNAL_SCHEDULER_LEASE_MISMATCH''"
proof -
  have w: "wc_worker (service_worker clk ol) = ''scheduler-service''" for clk ol by (simp add: service_worker_def)
  show ?thesis
    using stale_instance_completes [where d = "sample_table 2" and ?clk1.0 = sample_clock and ?clk2.0 = sample_clock
        and ?ol1.0 = Inr and ?ol2.0 = Inr, unfolded w, OF sample_claims, of "PInt 7" 9] by blast
qed

end
