(* ===== verification/SchedulerService.thy ===== *)
theory SchedulerService
  imports SchedulerSafety
begin

text \<open>
  The scheduler service over time: a single service whose clock does not outrun its leases settles every due
  job after a computable number of passes; and the interleaving of two instances in which a delivery is
  consumed before the publisher has marked it leaves a queued job that no later pass can run.
\<close>

section \<open>Deduplication keys\<close>

lemma str_int_inj:
  assumes "str_int m = str_int n" "0 \<le> m" "0 \<le> n"
  shows "m = n"
proof -
  have "digits (nat m) = digits (nat n)" using assms by (simp add: str_int_def)
  then have "nat m = nat n" by (metis dec_digits option.inject)
  then show ?thesis using assms by simp
qed

lemma before_colon: "c \<notin> set xs \<Longrightarrow> c \<notin> set ys \<Longrightarrow> xs @ c # us = ys @ c # vs \<Longrightarrow> xs = ys \<and> us = vs"
proof (induction xs arbitrary: ys)
  case Nil
  then show ?case by (cases ys) auto
next
  case (Cons x xs)
  then show ?case by (cases ys) auto
qed

lemma dedupe_key_inj:
  assumes "dedupe_key qk e = dedupe_key qk e'" "CHR '':'' \<notin> set (so_id e)" "CHR '':'' \<notin> set (so_id e')"
    "0 \<le> so_attempts e" "0 \<le> so_attempts e'"
  shows "so_id e = so_id e' \<and> so_attempts e = so_attempts e'"
proof -
  have "so_id e @ CHR '':'' # str_int (so_attempts e) = so_id e' @ CHR '':'' # str_int (so_attempts e')"
    using assms(1) by (simp add: dedupe_key_def)
  from before_colon [OF assms(2,3) this] str_int_inj assms(4,5) show ?thesis by blast
qed

section \<open>A calm service\<close>

definition canonical_id :: "string \<Rightarrow> bool" where
  "canonical_id i \<longleftrightarrow> uuid_of_text i = Inr i"

definition unspent :: "string \<Rightarrow> valkey_queue \<Rightarrow> outbox_row \<Rightarrow> bool" where
  \<comment> \<open>the key of the next publication has not been used\<close>
  "unspent qk q e \<longleftrightarrow> 0 \<le> so_attempts e \<and> CHR '':'' \<notin> set (so_id e)
     \<and> (\<forall>k n. k \<in> fst ` set (vq_seen q) \<longrightarrow> so_attempts e \<le> n \<longrightarrow> k \<noteq> dedupe_key qk (e\<lparr>so_attempts := n\<rparr>))"

definition delivered :: "valkey_queue \<Rightarrow> string \<Rightarrow> bool" where
  "delivered q i \<longleftrightarrow> list_ex (\<lambda>v. message_job v = Inr i) (vq_items q)"

definition calm :: "string \<Rightarrow> sched_world \<Rightarrow> bool" where
  \<comment> \<open>the state in which the only service starts a pass: no lease, and every queued job has its message\<close>
  "calm qk w \<longleftrightarrow> sched_ok (sw_db w)
     \<and> list_all (\<lambda>j. canonical_id (sj_id j) \<and> sj_state j \<noteq> JobLeased
         \<and> (sj_state j = JobQueued \<longrightarrow> delivered (sw_queue w) (sj_id j))) (sd_jobs (sw_db w))
     \<and> list_all (unspent qk (sw_queue w)) (sd_outbox (sw_db w))
     \<and> list_all (\<lambda>v. is_ok (message_job v)) (vq_items (sw_queue w))"

definition row_work :: "job_row \<Rightarrow> nat" where
  "row_work j = 2 * steps_left (sj_max j) (progress j)"

definition work :: "sched_world \<Rightarrow> nat" where
  "work w = sum_list (map row_work (sd_jobs (sw_db w))) + length (vq_items (sw_queue w))"

definition steady :: "clock \<Rightarrow> bool" where
  \<comment> \<open>the clock never runs back, and no step takes as long as a lease\<close>
  "steady clk \<longleftrightarrow> (\<forall>n. clk n \<le> clk (Suc n) \<and> clk (Suc n) < clk n + seconds 30)"

definition on_course :: "int \<Rightarrow> job_row \<Rightarrow> bool" where
  "on_course now j \<longleftrightarrow> sj_state j = JobSucceeded \<or> sj_state j = JobDeadLetter \<or> sj_state j = JobQueued
     \<or> (sj_state j = JobScheduled \<and> sj_run_at j \<le> now)"

text \<open>What a call may do to the world: rows by one function, outbox rows by another.\<close>

definition rewritten :: "sched_world \<Rightarrow> (job_row \<Rightarrow> job_row) \<Rightarrow> (outbox_row \<Rightarrow> outbox_row) \<Rightarrow> sched_world \<Rightarrow> bool" where
  "rewritten w F G w' \<longleftrightarrow> sched_ok (sw_db w') \<and> sd_jobs (sw_db w') = map F (sd_jobs (sw_db w))
     \<and> sd_outbox (sw_db w') = map G (sd_outbox (sw_db w))
     \<and> (\<forall>j. sj_id (F j) = sj_id j) \<and> (\<forall>e. so_id (G e) = so_id e \<and> so_job (G e) = so_job e)"

lemma rewritten_found:
  assumes "rewritten w F G w'"
  shows "find_job i (sw_db w') = map_option F (find_job i (sw_db w))"
proof -
  have "find (\<lambda>j. sj_id j = i) (map F js) = map_option F (find (\<lambda>j. sj_id j = i) js)" for js
    using assms by (induction js) (simp_all add: rewritten_def)
  then show ?thesis using assms by (simp add: rewritten_def find_job_def)
qed

lemma unspent_same: "unspent qk q e \<Longrightarrow> so_id e' = so_id e \<Longrightarrow> so_attempts e' = so_attempts e \<Longrightarrow> unspent qk q e'"
  by (simp add: unspent_def dedupe_key_def)

lemma calm_rewritten:
  assumes "calm qk w" "rewritten w F G w'" "sw_queue w' = q"
    and "\<And>j. j \<in> set (sd_jobs (sw_db w)) \<Longrightarrow> sj_state (F j) \<noteq> JobLeased \<and> (sj_state (F j) = JobQueued \<longrightarrow> delivered q (sj_id j))"
    and "\<And>e. e \<in> set (sd_outbox (sw_db w)) \<Longrightarrow> unspent qk q (G e)"
    and "list_all (\<lambda>v. is_ok (message_job v)) (vq_items q)"
  shows "calm qk w'"
  using assms by (auto simp: calm_def rewritten_def list_all_iff)

lemma sum_list_mono_all: "(\<And>x. x \<in> set xs \<Longrightarrow> f x \<le> (g x :: nat)) \<Longrightarrow> sum_list (map f xs) \<le> sum_list (map g xs)"
  by (induction xs) (auto intro: add_mono)

lemma sum_list_drop:
  assumes "x \<in> set xs" "f x + k \<le> (g x :: nat)" "\<And>y. y \<in> set xs \<Longrightarrow> f y \<le> g y"
  shows "sum_list (map f xs) + k \<le> sum_list (map g xs)"
  using assms
proof (induction xs)
  case (Cons y ys)
  show ?case
  proof (cases "x = y")
    case True
    then show ?thesis using Cons.prems sum_list_mono_all [of ys f g] by force
  next
    case False
    then have "sum_list (map f ys) + k \<le> sum_list (map g ys)" using Cons by auto
    moreover have "f y \<le> g y" using Cons.prems(3) by simp
    ultimately show ?thesis by simp
  qed
qed simp

section \<open>Recovery when nothing has expired\<close>

definition refreshed :: "int \<Rightarrow> scheduler_db \<Rightarrow> outbox_row \<Rightarrow> outbox_row" where
  "refreshed now d e = (if list_ex (\<lambda>j. sj_id j = so_job e \<and> sj_state j = JobScheduled \<and> just_expired now j) (sd_jobs d)
     then e\<lparr>so_pending := True, so_published := None\<rparr> else e)"

lemma recover_idle:
  assumes "sched_ok (sw_db w)" "\<And>j. j \<in> set (sd_jobs (sw_db w)) \<Longrightarrow> \<not> lease_over (at_now clk w) j"
  shows "rewritten w id (refreshed (at_now clk w) (sw_db w)) (fst (repo_recover clk w))"
    and "sw_queue (fst (repo_recover clk w)) = sw_queue w" and "sw_tick (fst (repo_recover clk w)) = Suc (sw_tick w)"
proof -
  have same: "map (\<lambda>j. if lease_over (at_now clk w) j then recovered (at_now clk w) j else j) (sd_jobs (sw_db w)) = sd_jobs (sw_db w)"
    using assms(2) by (simp add: map_idI)
  have ok: "sched_ok (sw_db (fst (repo_recover clk w)))"
    using recover_step [OF assms(1), of "at_now clk w"]
    by (simp add: repo_recover_def with_db_def case_prod_beta Let_def)
  then show "rewritten w id (refreshed (at_now clk w) (sw_db w)) (fst (repo_recover clk w))"
    by (simp add: rewritten_def repo_recover_def with_db_def recover_expired_scheduler_leases_def Let_def same repend_def
        refreshed_def)
qed (simp_all add: repo_recover_def with_db_def recover_expired_scheduler_leases_def Let_def)

lemma rewritten_trans:
  "rewritten w F G w' \<Longrightarrow> rewritten w' F' G' w'' \<Longrightarrow> rewritten w (F' \<circ> F) (G' \<circ> G) w''"
  by (simp add: rewritten_def)

section \<open>Publication\<close>

lemma message_of_event: "message_job (event_message e) = uuid_of_text (so_job e)"
  by (simp add: message_job_def event_message_def py_item_def uuid_of_def)

lemma dedupe_same_id:
  assumes "dedupe_key qk (x\<lparr>so_attempts := n\<rparr>) = dedupe_key qk e" "unspent qk q x" "unspent qk q' e" "so_attempts x \<le> n"
  shows "so_id x = so_id e \<and> n = so_attempts e"
  using dedupe_key_inj [OF assms(1)] assms(2-4) by (simp add: unspent_def)

lemma published_simps [simp]:
  "so_id (published t e) = so_id e" "so_job (published t e) = so_job e" "so_attempts (published t e) = so_attempts e + 1"
  by (simp_all add: published_def)

lemma unspent_publish:
  assumes x: "unspent qk q x" and e: "unspent qk q e" and q': "vq_seen q' = (dedupe_key qk e, t) # vq_seen q"
    and other: "so_id x \<noteq> so_id e"
  shows "unspent qk q' x"
  unfolding unspent_def
proof (intro conjI allI impI)
  show "0 \<le> so_attempts x" "CHR '':'' \<notin> set (so_id x)" using x by (simp_all add: unspent_def)
  show "k \<noteq> dedupe_key qk (x\<lparr>so_attempts := n\<rparr>)" if "k \<in> fst ` set (vq_seen q')" "so_attempts x \<le> n" for k n
    using that x other dedupe_same_id [OF _ x e that(2)] by (auto simp: q' unspent_def)
qed

lemma unspent_published:
  assumes e: "unspent qk q e" and q': "vq_seen q' = (dedupe_key qk e, t) # vq_seen q"
  shows "unspent qk q' (published t' e)"
  unfolding unspent_def
proof (intro conjI allI impI)
  show "0 \<le> so_attempts (published t' e)" "CHR '':'' \<notin> set (so_id (published t' e))" using e by (simp_all add: unspent_def)
  show "k \<noteq> dedupe_key qk ((published t' e)\<lparr>so_attempts := n\<rparr>)"
    if k: "k \<in> fst ` set (vq_seen q')" and n: "so_attempts (published t' e) \<le> n" for k n
  proof -
    have same: "dedupe_key qk ((published t' e)\<lparr>so_attempts := n\<rparr>) = dedupe_key qk (e\<lparr>so_attempts := n\<rparr>)"
      by (simp add: dedupe_key_def)
    have "so_attempts e \<le> n" "n \<noteq> so_attempts e" using n by simp_all
    then show ?thesis using k e dedupe_same_id [OF _ e e] unfolding same by (auto simp: q' unspent_def)
  qed
qed

lemma row_work_queued:
  assumes "row_ok j" "sj_state j = JobScheduled"
  shows "row_work (queued t j) + 2 \<le> row_work j"
proof -
  have "sj_attempts j < sj_max j" using assms by (simp add: row_ok_def)
  then have "nat (3 * sj_max j - 3 * sj_attempts j - 1) + 1 = nat (3 * sj_max j - 3 * sj_attempts j)" by linarith
  then show ?thesis
    using assms(2) by (simp add: row_work_def queued_def progress_def steps_left_def right_diff_distrib)
qed

lemma publish_one_calm:
  fixes clk :: clock
  assumes calm: "calm qk w" and e: "e \<in> set (sd_outbox (sw_db w))" "so_pending e"
  defines "t \<equiv> clk (Suc (sw_tick w))"
  shows "calm qk (publish_one clk qk e w)" and "work (publish_one clk qk e w) + 1 \<le> work w"
    and "rewritten w (\<lambda>j. if sj_id j = so_job e then queued t j else j)
      (\<lambda>x. if so_id x = so_id e \<and> so_pending x then published t x else x) (publish_one clk qk e w)"
    and "sw_tick (publish_one clk qk e w) = Suc (Suc (sw_tick w))"
proof -
  let ?d = "sw_db w" and ?w = "publish_one clk qk e w"
  define q where "q = (sw_queue w)\<lparr>vq_items := event_message e # vq_items (sw_queue w),
     vq_seen := (dedupe_key qk e, at_now clk w + seconds 604800) # vq_seen (sw_queue w)\<rparr>"
  define F where "F = (\<lambda>j. if sj_id j = so_job e then queued t j else j)"
  define G where "G = (\<lambda>x. if so_id x = so_id e \<and> so_pending x then published t x else x)"
  have ok: "sched_ok ?d" and un: "\<And>x. x \<in> set (sd_outbox ?d) \<Longrightarrow> unspent qk (sw_queue w) x"
    using calm by (auto simp: calm_def list_all_iff)
  have "dedupe_key qk e \<notin> fst ` set (vq_seen (sw_queue w))"
    using un [OF e(1)] by (auto simp: unspent_def dest!: spec [of _ "so_attempts e"])
  then have push: "queue_publish qk (at_now clk w) e (sw_queue w) = q"
    by (force simp: queue_publish_def key_alive_def list_ex_iff q_def)
  have only: "x = e" if "x \<in> set (sd_outbox ?d)" "so_id x = so_id e" for x
    using same_row [of so_id "sd_outbox ?d"] ok that e(1) by (simp add: sched_ok_def)
  have found: "find (\<lambda>x. so_id x = so_id e \<and> so_pending x) (sd_outbox ?d) = Some e"
  proof (cases "find (\<lambda>x. so_id x = so_id e \<and> so_pending x) (sd_outbox ?d)")
    case None
    then show ?thesis using e by (auto simp: find_None_iff)
  next
    case (Some x)
    then have "x \<in> set (sd_outbox ?d) \<and> so_id x = so_id e" by (auto simp: find_Some_iff)
    then show ?thesis using only Some by simp
  qed
  have w': "sw_queue ?w = q" "sd_jobs (sw_db ?w) = map F (sd_jobs ?d)" "sd_outbox (sw_db ?w) = map G (sd_outbox ?d)"
    using found by (simp_all add: publish_one_def repo_mark_published_def with_db_def with_queue_def push [unfolded at_now_def] at_now_def
        mark_scheduler_outbox_published_def sched_table_simps F_def G_def t_def)
  show tick: "sw_tick ?w = Suc (Suc (sw_tick w))"
    by (simp add: publish_one_def repo_mark_published_def with_db_def with_queue_def)
  have "sched_ok (sw_db ?w)"
    using publish_step [OF ok] by (simp add: publish_one_def repo_mark_published_def with_db_def with_queue_def)
  then have re: "rewritten w F G ?w"
    using w' by (auto simp: rewritten_def F_def G_def)
  then show "rewritten w (\<lambda>j. if sj_id j = so_job e then queued t j else j)
      (\<lambda>x. if so_id x = so_id e \<and> so_pending x then published t x else x) ?w"
    by (simp only: F_def G_def)
  obtain j where j: "j \<in> set (sd_jobs ?d)" "sj_id j = so_job e"
  proof -
    have "so_job ` set (sd_outbox ?d) = sj_id ` set (sd_jobs ?d)"
      using ok paired_jobs [of "sd_jobs ?d" "sd_outbox ?d"] unfolding sched_ok_def by (metis list.set_map)
    then show ?thesis using e(1) that by (metis imageE imageI)
  qed
  have waiting: "sj_state j = JobScheduled" using pending_iff [OF ok j(1)] e j(2) by auto
  have canon: "uuid_of_text (so_job e) = Inr (so_job e)"
    using calm j by (auto simp: calm_def list_all_iff canonical_id_def)
  have more: "delivered q i" if "delivered (sw_queue w) i" for i
    using that by (simp add: delivered_def q_def)
  show "calm qk ?w"
  proof (rule calm_rewritten [OF calm re w'(1)])
    show "sj_state (F x) \<noteq> JobLeased \<and> (sj_state (F x) = JobQueued \<longrightarrow> delivered q (sj_id x))"
      if "x \<in> set (sd_jobs ?d)" for x
      using that calm more canon
      by (auto simp: F_def queued_def calm_def list_all_iff delivered_def q_def message_of_event)
  next
    show "unspent qk q (G x)" if x: "x \<in> set (sd_outbox ?d)" for x
    proof (cases "so_id x = so_id e")
      case True
      then have "x = e" using only x by simp
      then show ?thesis using unspent_published [OF un [OF e(1)]] e(2) by (simp add: G_def q_def)
    next
      case False
      then show ?thesis using unspent_publish [OF un [OF x] un [OF e(1)]] by (simp add: G_def q_def)
    qed
  next
    show "list_all (\<lambda>v. is_ok (message_job v)) (vq_items q)"
      using calm by (simp add: q_def calm_def message_of_event canon)
  qed
  have row: "row_ok j" using sched_ok_row [OF ok j(1)] .
  have "sum_list (map (\<lambda>x. row_work (F x)) (sd_jobs ?d)) + 2 \<le> sum_list (map row_work (sd_jobs ?d))"
  proof (rule sum_list_drop [OF j(1)])
    show "row_work (F j) + 2 \<le> row_work j" using row_work_queued [OF row waiting] j(2) by (simp add: F_def)
    show "row_work (F x) \<le> row_work x" if "x \<in> set (sd_jobs ?d)" for x
    proof (cases "sj_state x = JobScheduled")
      case True
      with row_work_queued [OF sched_ok_row [OF ok that] True, of t] show ?thesis by (simp add: F_def)
    next
      case False
      then show ?thesis by (simp add: F_def queued_def)
    qed
  qed
  then show "work ?w + 1 \<le> work w"
    by (simp add: work_def w' comp_def q_def)
qed

lemma publish_all_calm:
  fixes clk :: clock
  assumes "calm qk w" "distinct (map so_id es)" "\<And>e. e \<in> set es \<Longrightarrow> e \<in> set (sd_outbox (sw_db w)) \<and> so_pending e"
  shows "calm qk (publish_all clk qk es w) \<and> work (publish_all clk qk es w) + length es \<le> work w
    \<and> sw_tick w \<le> sw_tick (publish_all clk qk es w)
    \<and> (\<forall>i j now. find_job i (sw_db w) = Some j \<longrightarrow> on_course now j \<longrightarrow>
         (\<exists>j'. find_job i (sw_db (publish_all clk qk es w)) = Some j' \<and> on_course now j'
            \<and> (sj_state j = JobSucceeded \<or> sj_state j = JobDeadLetter \<longrightarrow> sj_state j' = sj_state j)))"
  using assms
proof (induction es arbitrary: w)
  case Nil
  then show ?case by (simp add: publish_all_def)
next
  case (Cons e es)
  let ?t = "clk (Suc (sw_tick w))" and ?w = "publish_one clk qk e w"
  let ?F = "\<lambda>j. if sj_id j = so_job e then queued ?t j else j"
  let ?G = "\<lambda>x. if so_id x = so_id e \<and> so_pending x then published ?t x else x"
  have e: "e \<in> set (sd_outbox (sw_db w))" "so_pending e" using Cons.prems(3) [of e] by auto
  note one = publish_one_calm [OF Cons.prems(1) e, of clk]
  have rest: "x \<in> set (sd_outbox (sw_db ?w)) \<and> so_pending x" if x: "x \<in> set es" for x
  proof -
    have "so_id e \<notin> so_id ` set es" using Cons.prems(2) by simp
    then have "so_id x \<noteq> so_id e" using imageI [OF x, of so_id] by metis
    then have "?G x = x" by simp
    have old: "x \<in> set (sd_outbox (sw_db w))" "so_pending x" using Cons.prems(3) [of x] x by simp_all
    have "sd_outbox (sw_db ?w) = map ?G (sd_outbox (sw_db w))" using one(3) by (simp only: rewritten_def)
    then have "?G x \<in> set (sd_outbox (sw_db ?w))" using old(1) by (simp only: set_map image_eqI)
    then show ?thesis using old \<open>?G x = x\<close> by simp
  qed
  have "distinct (map so_id es)" using Cons.prems(2) by simp
  note IH = Cons.IH [OF one(1) this rest]
  have all: "publish_all clk qk (e # es) w = publish_all clk qk es ?w" by (simp add: publish_all_def)
  show ?case unfolding all
  proof (intro conjI allI impI)
    show "work (publish_all clk qk es ?w) + length (e # es) \<le> work w"
      using IH one(2) by simp
    show "calm qk (publish_all clk qk es ?w)" using IH by blast
    show "sw_tick w \<le> sw_tick (publish_all clk qk es ?w)" using IH one(4) by simp
    fix i j now assume j: "find_job i (sw_db w) = Some j" "on_course now j"
    have "find_job i (sw_db ?w) = Some (?F j)" using rewritten_found [OF one(3), of i] j(1) by simp
    moreover have "on_course now (?F j)" using j(2) by (auto simp: on_course_def queued_def)
    ultimately obtain j' where "find_job i (sw_db (publish_all clk qk es ?w)) = Some j'" "on_course now j'"
      "sj_state (?F j) = JobSucceeded \<or> sj_state (?F j) = JobDeadLetter \<longrightarrow> sj_state j' = sj_state (?F j)"
      using IH by blast
    then show "\<exists>j'. find_job i (sw_db (publish_all clk qk es ?w)) = Some j' \<and> on_course now j'
        \<and> (sj_state j = JobSucceeded \<or> sj_state j = JobDeadLetter \<longrightarrow> sj_state j' = sj_state j)"
      by (auto simp: queued_def split: if_splits)
  qed
qed

section \<open>Execution\<close>

lemma claim_world:
  fixes clk :: clock and secs :: int
  assumes ok: "sched_ok (sw_db w)" and j: "find_job i (sw_db w) = Some j" "sj_state j = JobQueued"
    and live: "3 \<le> trimmed_length worker"
  defines "l \<equiv> leased worker secs (clk (sw_tick w))"
  obtains w' where "repo_claim clk i worker secs w = (w', Inr (Some (job_of_row (l j))))"
    "rewritten w (\<lambda>x. if sj_id x = i then l x else x) id w'" "sw_queue w' = sw_queue w" "sw_tick w' = Suc (sw_tick w)"
proof -
  have row: "row_ok j" using ok j(1) find_job_iff sched_ok_row by blast
  then have few: "\<not> sj_max j \<le> sj_attempts j" using j(2) by (simp add: row_ok_def)
  define d' where "d' = log_job i EvLeased (Some worker) (PDict [(''attempt_count'', PInt (sj_attempts j + 1))])
     (clk (sw_tick w)) (update_job i l (sw_db w))"
  have idle: "\<not> lease_over now j" for now using j(2) by (simp add: lease_over_def)
  have claim: "claim_scheduled_job i worker secs (clk (sw_tick w)) (sw_db w) = Inr (d', Some (l j))"
    using j few live idle by (simp add: claim_scheduled_job_def Let_def d'_def l_def)
  have "sched_ok d'" using claim_step [OF claim ok] by blast
  then show ?thesis
    using claim by (intro that [of "with_db w d'"])
      (simp_all add: repo_claim_def at_now_def with_db_def rewritten_def d'_def sched_table_simps l_def)
qed

lemma complete_world:
  fixes clk :: clock and v :: pyval
  assumes ok: "sched_ok (sw_db w)" and j: "find_job i (sw_db w) = Some j" "sj_state j = JobLeased" "sj_owner j = Some worker"
  defines "f \<equiv> succeeded v (clk (sw_tick w))"
  obtains w' where "repo_complete clk i worker v w = (w', Inr ())"
    "rewritten w (\<lambda>x. if sj_id x = i then f x else x) id w'" "sw_queue w' = sw_queue w" "sw_tick w' = Suc (sw_tick w)"
proof -
  define d' where "d' = log_job i EvSucceeded (Some worker) v (clk (sw_tick w)) (update_job i f (sw_db w))"
  have eq: "complete_scheduled_job i worker v (clk (sw_tick w)) (sw_db w) = Inr d'"
    using j by (simp add: complete_scheduled_job_def d'_def f_def)
  have "sched_ok d'" using complete_step [OF eq ok] by blast
  then show ?thesis
    using eq by (intro that [of "with_db w d'"])
      (simp_all add: repo_complete_def at_now_def with_db_def rewritten_def d'_def sched_table_simps f_def)
qed

definition waiting_again :: "bool \<Rightarrow> string \<Rightarrow> outbox_row \<Rightarrow> outbox_row" where
  "waiting_again again i e = (if again \<and> so_job e = i then e\<lparr>so_pending := True, so_published := None\<rparr> else e)"

lemma fail_world:
  fixes clk :: clock and error :: string and delay :: int
  assumes ok: "sched_ok (sw_db w)" and j: "find_job i (sw_db w) = Some j" "sj_state j = JobLeased" "sj_owner j = Some worker"
  defines "f \<equiv> failed error delay (clk (sw_tick w))"
  obtains w' where "repo_fail clk i worker error delay w = (w', Inr (next_state j))"
    "rewritten w (\<lambda>x. if sj_id x = i then f x else x) (waiting_again (next_state j = JobScheduled) i) w'"
    "sw_queue w' = sw_queue w" "sw_tick w' = Suc (sw_tick w)"
proof -
  define d' where "d' = log_job i (if next_state j = JobDeadLetter then EvDeadLettered else EvFailed) (Some worker)
     (PDict [(''error_code'', PStr error), (''next_state'', PStr (state_name (next_state j)))]) (clk (sw_tick w))
     (if next_state j = JobScheduled then repend (\<lambda>k. k = i) (update_job i f (sw_db w)) else update_job i f (sw_db w))"
  have eq: "fail_scheduled_job i worker error delay (clk (sw_tick w)) (sw_db w) = Inr (d', next_state j)"
    using j by (simp add: fail_scheduled_job_def Let_def f_def d'_def)
  have d': "sd_jobs d' = map (\<lambda>x. if sj_id x = i then f x else x) (sd_jobs (sw_db w))"
    by (cases "next_state j = JobScheduled") (simp_all add: d'_def sched_table_simps)
  have out: "sd_outbox d' = map (waiting_again (next_state j = JobScheduled) i) (sd_outbox (sw_db w))"
  proof (cases "next_state j = JobScheduled")
    case True
    then show ?thesis unfolding d'_def by (simp add: sched_table_simps waiting_again_def [abs_def])
  next
    case False
    then show ?thesis unfolding d'_def by (simp add: sched_table_simps waiting_again_def [abs_def])
  qed
  have "sched_ok d'" using fail_step [OF eq ok] by blast
  then show ?thesis
    using eq d' out by (intro that [of "with_db w d'"])
      (simp_all add: repo_fail_def at_now_def with_db_def rewritten_def f_def waiting_again_def failed_def)
qed

lemma steady_mono: "steady clk \<Longrightarrow> m \<le> n \<Longrightarrow> clk m \<le> clk n"
  by (rule lift_Suc_mono_le [of clk]) (simp_all add: steady_def)

lemma on_course_later: "on_course now j \<Longrightarrow> now \<le> now' \<Longrightarrow> on_course now' j"
  by (auto simp: on_course_def)

lemma handler_world:
  assumes "default_handlers clk ol k = Some h"
  shows "fst (h job w) = w \<or> fst (h job w) = fst (repo_recover clk w)"
  using assms by (auto simp: default_handlers_def pure_handler_def split: if_splits prod.splits)

lemma refreshed_simps [simp]:
  "so_attempts (refreshed now d e) = so_attempts e" "so_id (refreshed now d e) = so_id e"
  "so_attempts (waiting_again b i e) = so_attempts e" "so_id (waiting_again b i e) = so_id e"
  by (simp_all add: refreshed_def waiting_again_def)

lemma execute_world:
  assumes ok: "sched_ok (sw_db w)" and j: "find_job i (sw_db w) = Some j" "sj_state j = JobLeased"
      "sj_owner j = Some ''scheduler-service''" and job: "sc_id job = i"
    and live: "\<And>x. x \<in> set (sd_jobs (sw_db w)) \<Longrightarrow> \<not> lease_over (at_now clk w) x"
  obtains w' f G n where "execute_job clk (service_worker clk ol) job w = (w', Inr True)"
    "rewritten w (\<lambda>x. if sj_id x = i then f x else x) G w'" "\<And>e. so_attempts (G e) = so_attempts e"
    "sw_queue w' = sw_queue w" "(\<exists>v. f = succeeded v (clk n)) \<or> (\<exists>er. f = failed er 0 (clk n))"
    "sw_tick w \<le> n" "n < sw_tick w'"
proof -
  note rec = recover_idle [OF ok live]
  have fails: "\<exists>w' G n. repo_fail clk i ''scheduler-service'' er 0 u = (w', Inr (next_state j))
      \<and> rewritten w (\<lambda>x. if sj_id x = i then failed er 0 (clk n) x else x) G w' \<and> (\<forall>e. so_attempts (G e) = so_attempts e)
      \<and> sw_queue w' = sw_queue w \<and> sw_tick w \<le> n \<and> n < sw_tick w'"
    if u: "rewritten w id H u" "sw_queue u = sw_queue w" "sw_tick w \<le> sw_tick u" "\<And>e. so_attempts (H e) = so_attempts e" for er u H
  proof -
    have at_u: "sched_ok (sw_db u)" "find_job i (sw_db u) = Some j"
      using u(1) rewritten_found [OF u(1), of i] j(1) by (simp_all add: rewritten_def)
    obtain w' where w': "repo_fail clk i ''scheduler-service'' er 0 u = (w', Inr (next_state j))"
      "rewritten u (\<lambda>x. if sj_id x = i then failed er 0 (clk (sw_tick u)) x else x) (waiting_again (next_state j = JobScheduled) i) w'"
      "sw_queue w' = sw_queue u" "sw_tick w' = Suc (sw_tick u)"
      by (rule fail_world [OF at_u j(2,3), of clk er 0]) (rule that)
    have "rewritten w (\<lambda>x. if sj_id x = i then failed er 0 (clk (sw_tick u)) x else x) (waiting_again (next_state j = JobScheduled) i \<circ> H) w'"
      using rewritten_trans [OF u(1) w'(2)] by simp
    then show ?thesis using w' u
      by (intro exI [of _ w'] exI [of _ "waiting_again (next_state j = JobScheduled) i \<circ> H"] exI [of _ "sw_tick u"]) simp
  qed
  have completes: "\<exists>w' G n. repo_complete clk i ''scheduler-service'' v u = (w', Inr ())
      \<and> rewritten w (\<lambda>x. if sj_id x = i then succeeded v (clk n) x else x) G w' \<and> (\<forall>e. so_attempts (G e) = so_attempts e)
      \<and> sw_queue w' = sw_queue w \<and> sw_tick w \<le> n \<and> n < sw_tick w'"
    if u: "rewritten w id H u" "sw_queue u = sw_queue w" "sw_tick w \<le> sw_tick u" "\<And>e. so_attempts (H e) = so_attempts e" for v u H
  proof -
    have at_u: "sched_ok (sw_db u)" "find_job i (sw_db u) = Some j"
      using u(1) rewritten_found [OF u(1), of i] j(1) by (simp_all add: rewritten_def)
    obtain w' where w': "repo_complete clk i ''scheduler-service'' v u = (w', Inr ())"
      "rewritten u (\<lambda>x. if sj_id x = i then succeeded v (clk (sw_tick u)) x else x) id w'"
      "sw_queue w' = sw_queue u" "sw_tick w' = Suc (sw_tick u)"
      by (rule complete_world [OF at_u j(2,3), of clk v]) (rule that)
    have "rewritten w (\<lambda>x. if sj_id x = i then succeeded v (clk (sw_tick u)) x else x) H w'"
      using rewritten_trans [OF u(1) w'(2)] by simp
    then show ?thesis using w' u by (intro exI [of _ w'] exI [of _ H] exI [of _ "sw_tick u"]) simp
  qed
  have same: "rewritten w id id w" using ok by (simp add: rewritten_def)
  have worker: "wc_worker (service_worker clk ol) = ''scheduler-service''"
    "wc_handlers (service_worker clk ol) = default_handlers clk ol" by (simp_all add: service_worker_def)
  show ?thesis
  proof (cases "default_handlers clk ol (sc_kind job)")
    case None
    from fails [OF same refl order_refl, of "''UNSUPPORTED_JOB_KIND''"] obtain w' G n where
      w': "repo_fail clk i ''scheduler-service'' ''UNSUPPORTED_JOB_KIND'' 0 w = (w', Inr (next_state j))"
      "rewritten w (\<lambda>x. if sj_id x = i then failed ''UNSUPPORTED_JOB_KIND'' 0 (clk n) x else x) G w'"
      "\<forall>e. so_attempts (G e) = so_attempts e" "sw_queue w' = sw_queue w" "sw_tick w \<le> n" "n < sw_tick w'" by auto
    show ?thesis
      by (rule that [OF _ w'(2)]) (use w' None worker job in \<open>auto simp: execute_job_def\<close>)
  next
    case (Some h)
    define u where "u = fst (h job w)"
    obtain H where u: "rewritten w id H u" "sw_queue u = sw_queue w" "sw_tick w \<le> sw_tick u" "\<And>e. so_attempts (H e) = so_attempts e"
    proof (cases "u = w")
      case True
      with same show ?thesis by (intro that [of id]) simp_all
    next
      case False
      then have "u = fst (repo_recover clk w)" using handler_world [OF Some, of job w] by (simp add: u_def)
      with rec show ?thesis by (intro that [of "refreshed (at_now clk w) (sw_db w)"]) simp_all
    qed
    show ?thesis
    proof (cases "snd (h job w)")
      case (Inl er)
      from fails [OF u, of "upper (error_class er)"] obtain w' G n where
        w': "repo_fail clk i ''scheduler-service'' (upper (error_class er)) 0 u = (w', Inr (next_state j))"
        "rewritten w (\<lambda>x. if sj_id x = i then failed (upper (error_class er)) 0 (clk n) x else x) G w'"
        "\<forall>e. so_attempts (G e) = so_attempts e" "sw_queue w' = sw_queue w" "sw_tick w \<le> n" "n < sw_tick w'" by auto
      show ?thesis
        by (rule that [OF _ w'(2)]) (use w' Some Inl worker job in \<open>auto simp: execute_job_def settle_job_def u_def\<close>)
    next
      case (Inr v)
      from completes [OF u, of v] obtain w' G n where
        w': "repo_complete clk i ''scheduler-service'' v u = (w', Inr ())"
        "rewritten w (\<lambda>x. if sj_id x = i then succeeded v (clk n) x else x) G w'"
        "\<forall>e. so_attempts (G e) = so_attempts e" "sw_queue w' = sw_queue w" "sw_tick w \<le> n" "n < sw_tick w'" by auto
      show ?thesis
        by (rule that [OF _ w'(2)]) (use w' Some Inr worker job in \<open>auto simp: execute_job_def settle_job_def u_def\<close>)
    qed
  qed
qed

lemma row_work_settled:
  fixes worker :: string and secs now :: int
  assumes row: "row_ok j" "sj_state j = JobQueued" and f: "(\<exists>v. f = succeeded v t) \<or> (\<exists>er. f = failed er 0 t)"
  defines "k \<equiv> f (leased worker secs now j)"
  shows "row_work k \<le> row_work j" and "sj_state k \<noteq> JobLeased" and "sj_state k \<noteq> JobQueued" and "on_course t k"
proof -
  have few: "sj_attempts j < sj_max j" using row by (simp add: row_ok_def)
  consider (finished) "sj_state k = JobSucceeded" | (dead) "sj_state k = JobDeadLetter"
    | (again) "sj_state k = JobScheduled" "sj_attempts k = sj_attempts j + 1" "sj_max k = sj_max j" "sj_run_at k = t"
    using f by (cases "sj_max j \<le> sj_attempts j + 1") (auto simp: k_def succeeded_def failed_def leased_def next_state_def seconds_def)
  then show "row_work k \<le> row_work j" "sj_state k \<noteq> JobLeased" "sj_state k \<noteq> JobQueued" "on_course t k"
    using few row(2) by (cases; simp add: row_work_def steps_left_def progress_def on_course_def)+
qed

definition kept_going :: "clock \<Rightarrow> sched_world \<Rightarrow> sched_world \<Rightarrow> bool" where
  \<comment> \<open>rows on course stay on course, and settled rows keep their state\<close>
  "kept_going clk w w' \<longleftrightarrow> sw_tick w \<le> sw_tick w' \<and>
     (\<forall>i j. find_job i (sw_db w) = Some j \<longrightarrow> on_course (clk (sw_tick w)) j \<longrightarrow>
        (\<exists>j'. find_job i (sw_db w') = Some j' \<and> on_course (clk (sw_tick w')) j'
           \<and> (sj_state j = JobSucceeded \<or> sj_state j = JobDeadLetter \<longrightarrow> sj_state j' = sj_state j)))"

lemma kept_going_same:
  assumes "steady clk" "sw_db w' = sw_db w" "sw_tick w \<le> sw_tick w'"
  shows "kept_going clk w w'"
  using assms on_course_later steady_mono [OF assms(1,3)] by (auto simp: kept_going_def)

lemma kept_going_trans:
  assumes "kept_going clk w w'" "kept_going clk w' w''"
  shows "kept_going clk w w''"
  unfolding kept_going_def
proof (intro conjI allI impI)
  show "sw_tick w \<le> sw_tick w''" using assms by (simp add: kept_going_def)
  fix i j assume "find_job i (sw_db w) = Some j" "on_course (clk (sw_tick w)) j"
  then obtain j' where j': "find_job i (sw_db w') = Some j'" "on_course (clk (sw_tick w')) j'"
    "sj_state j = JobSucceeded \<or> sj_state j = JobDeadLetter \<longrightarrow> sj_state j' = sj_state j"
    using assms(1) unfolding kept_going_def by blast
  then obtain j'' where "find_job i (sw_db w'') = Some j''" "on_course (clk (sw_tick w'')) j''"
    "sj_state j' = JobSucceeded \<or> sj_state j' = JobDeadLetter \<longrightarrow> sj_state j'' = sj_state j'"
    using assms(2) unfolding kept_going_def by blast
  with j'(3) show "\<exists>j''. find_job i (sw_db w'') = Some j'' \<and> on_course (clk (sw_tick w'')) j''
      \<and> (sj_state j = JobSucceeded \<or> sj_state j = JobDeadLetter \<longrightarrow> sj_state j'' = sj_state j)"
    by auto
qed

lemma delivered_butlast:
  assumes "delivered q i" "vq_items q \<noteq> []" "message_job (last (vq_items q)) \<noteq> Inr i"
  shows "delivered (q\<lparr>vq_items := butlast (vq_items q)\<rparr>) i"
proof -
  obtain xs x where q: "vq_items q = xs @ [x]" using assms(2) by (metis rev_exhaust)
  then show ?thesis using assms by (simp add: delivered_def)
qed

lemma receive_calm:
  assumes calm: "calm qk w" and items: "vq_items (sw_queue w) \<noteq> []"
    and i: "message_job (last (vq_items (sw_queue w))) = Inr i"
    and w': "sw_db w' = sw_db w" "sw_queue w' = (sw_queue w)\<lparr>vq_items := butlast (vq_items (sw_queue w))\<rparr>"
    and idle: "\<And>j. find_job i (sw_db w) = Some j \<Longrightarrow> sj_state j \<noteq> JobQueued"
  shows "calm qk w'" and "work w' < work w"
proof -
  have ok: "sched_ok (sw_db w)" using calm by (simp add: calm_def)
  have re: "rewritten w id id w'" using ok w' by (simp add: rewritten_def)
  show "calm qk w'"
  proof (rule calm_rewritten [OF calm re w'(2)])
    show "sj_state (id j) \<noteq> JobLeased \<and>
        (sj_state (id j) = JobQueued \<longrightarrow> delivered ((sw_queue w)\<lparr>vq_items := butlast (vq_items (sw_queue w))\<rparr>) (sj_id j))"
      if j: "j \<in> set (sd_jobs (sw_db w))" for j
    proof (cases "sj_state j = JobQueued")
      case True
      have "sj_id j \<noteq> i" using True idle find_job_iff [OF ok] j by blast
      then show ?thesis using calm j True delivered_butlast [OF _ items] i by (auto simp: calm_def list_all_iff)
    next
      case False
      then show ?thesis using calm j by (auto simp: calm_def list_all_iff)
    qed
    show "unspent qk ((sw_queue w)\<lparr>vq_items := butlast (vq_items (sw_queue w))\<rparr>) (id e)" if "e \<in> set (sd_outbox (sw_db w))" for e
      using calm that by (simp add: calm_def list_all_iff unspent_def)
    show "list_all (\<lambda>v. is_ok (message_job v)) (vq_items ((sw_queue w)\<lparr>vq_items := butlast (vq_items (sw_queue w))\<rparr>))"
      using calm by (auto simp: calm_def list_all_iff dest: in_set_butlastD)
  qed
  show "work w' < work w" using items by (simp add: work_def w')
qed

lemma worker_pass:
  assumes calm: "calm qk w" and steady: "steady clk" and items: "vq_items (sw_queue w) \<noteq> []"
  obtains w' where "worker_run_once clk (service_worker clk ol) w = (w', Inr True)" "calm qk w'" "work w' < work w"
    "kept_going clk w w'"
proof -
  define q where "q = (sw_queue w)\<lparr>vq_items := butlast (vq_items (sw_queue w))\<rparr>"
  define w1 where "w1 = with_queue w q"
  have w1: "sw_db w1 = sw_db w" "sw_queue w1 = q" "sw_tick w1 = Suc (sw_tick w)" by (simp_all add: w1_def with_queue_def)
  have ok: "sched_ok (sw_db w)" using calm by (simp add: calm_def)
  have "is_ok (message_job (last (vq_items (sw_queue w))))"
    using calm items by (simp add: calm_def list_all_iff)
  then obtain i where i: "message_job (last (vq_items (sw_queue w))) = Inr i" by (auto simp: is_ok_iff)
  have cfg: "wc_worker (service_worker clk ol) = ''scheduler-service''" "wc_lease_seconds (service_worker clk ol) = 30"
    by (simp_all add: service_worker_def)
  have run: "worker_run_once clk (service_worker clk ol) w =
      (case repo_claim clk i ''scheduler-service'' 30 w1 of
              (w2, Inl e) \<Rightarrow> (w2, Inl e) | (w2, Inr None) \<Rightarrow> (w2, Inr True)
            | (w2, Inr (Some job)) \<Rightarrow> execute_job clk (service_worker clk ol) job w2)"
    using items i by (simp add: worker_run_once_def queue_receive_def Let_def w1_def q_def cfg)
  show ?thesis
  proof (cases "\<exists>j. find_job i (sw_db w) = Some j \<and> sj_state j = JobQueued")
    case False
    let ?w = "with_db w1 (sw_db w1)"
    have none: "repo_claim clk i ''scheduler-service'' 30 w1 = (?w, Inr None)"
    proof (cases "find_job i (sw_db w)")
      case None
      then show ?thesis using service_name by (simp add: repo_claim_def claim_scheduled_job_def w1)
    next
      case (Some j)
      then have "j \<in> set (sd_jobs (sw_db w))" using find_job_iff [OF ok] by blast
      then have "sj_state j \<noteq> JobLeased" using calm by (simp add: calm_def list_all_iff)
      then show ?thesis using False Some service_name
        by (simp add: repo_claim_def claim_scheduled_job_def w1 lease_over_def)
    qed
    have w2: "sw_db ?w = sw_db w" "sw_queue ?w = q" "sw_tick w \<le> sw_tick ?w" by (simp_all add: with_db_def w1)
    show ?thesis
      using receive_calm [OF calm items i w2(1) w2(2)[unfolded q_def]] False none run kept_going_same [OF steady w2(1,3)]
      by (intro that [of ?w]) auto
  next
    case True
    then obtain j where j: "find_job i (sw_db w) = Some j" "sj_state j = JobQueued" by blast
    then have mem: "j \<in> set (sd_jobs (sw_db w))" "sj_id j = i" using find_job_iff [OF ok] by auto
    have ok1: "sched_ok (sw_db w1)" "find_job i (sw_db w1) = Some j" using ok j by (simp_all add: w1)
    let ?l = "leased ''scheduler-service'' 30 (clk (sw_tick w1))"
    obtain w2 where w2: "repo_claim clk i ''scheduler-service'' 30 w1 = (w2, Inr (Some (job_of_row (?l j))))"
      "rewritten w1 (\<lambda>x. if sj_id x = i then ?l x else x) id w2" "sw_queue w2 = sw_queue w1" "sw_tick w2 = Suc (sw_tick w1)"
      by (rule claim_world [OF ok1 j(2) service_name, of clk 30]) (rule that)
    have ok2: "sched_ok (sw_db w2)" and j2: "find_job i (sw_db w2) = Some (?l j)"
      using w2(2) rewritten_found [OF w2(2), of i] ok1(2) mem(2) by (simp_all add: rewritten_def)
    have soon: "clk (sw_tick w2) < clk (sw_tick w1) + seconds 30" using steady w2(4) by (simp add: steady_def)
    have live: "\<not> lease_over (at_now clk w2) x" if "x \<in> set (sd_jobs (sw_db w2))" for x
    proof -
      obtain y where y: "y \<in> set (sd_jobs (sw_db w))" "x = (if sj_id y = i then ?l y else y)"
        using \<open>x \<in> _\<close> w2(2) by (auto simp: rewritten_def w1)
      show ?thesis
      proof (cases "sj_id y = i")
        case True
        then show ?thesis using y(2) soon by (simp add: lease_over_def leased_def at_now_def seconds_def)
      next
        case False
        then show ?thesis using y calm by (simp add: lease_over_def calm_def list_all_iff)
      qed
    qed
    have fields: "sj_state (?l j) = JobLeased" "sj_owner (?l j) = Some ''scheduler-service''" "sc_id (job_of_row (?l j)) = i"
      using mem(2) by (simp_all add: leased_def job_of_row_def)
    obtain w3 f G n where w3: "execute_job clk (service_worker clk ol) (job_of_row (?l j)) w2 = (w3, Inr True)"
      "rewritten w2 (\<lambda>x. if sj_id x = i then f x else x) G w3" "\<And>e. so_attempts (G e) = so_attempts e"
      "sw_queue w3 = sw_queue w2" "(\<exists>v. f = succeeded v (clk n)) \<or> (\<exists>er. f = failed er 0 (clk n))"
      "sw_tick w2 \<le> n" "n < sw_tick w3"
      by (rule execute_world [OF ok2 j2 fields live, of ol]) (assumption+, rule that)
    note settled = row_work_settled [OF sched_ok_row [OF ok mem(1)] j(2) w3(5), of "''scheduler-service''" 30 "clk (sw_tick w1)"]
    let ?F = "\<lambda>x. if sj_id x = i then f (?l x) else x"
    have "rewritten w1 ((\<lambda>x. if sj_id x = i then f x else x) \<circ> (\<lambda>x. if sj_id x = i then ?l x else x)) (G \<circ> id) w3"
      by (rule rewritten_trans [OF w2(2) w3(2)])
    moreover have "((\<lambda>x. if sj_id x = i then f x else x) \<circ> (\<lambda>x. if sj_id x = i then ?l x else x)) = ?F"
      by (auto simp: fun_eq_iff)
    ultimately have re: "rewritten w ?F G w3" by (simp add: rewritten_def w1)
    have q3: "sw_queue w3 = q" using w3(4) w2(3) w1(2) by simp
    have only: "x = j" if "x \<in> set (sd_jobs (sw_db w))" "sj_id x = i" for x
      using that mem ok same_row [of sj_id "sd_jobs (sw_db w)"] by (simp add: sched_ok_def)
    have calm3: "calm qk w3"
    proof (rule calm_rewritten [OF calm re q3])
      show "sj_state (?F x) \<noteq> JobLeased \<and> (sj_state (?F x) = JobQueued \<longrightarrow> delivered q (sj_id x))"
        if x: "x \<in> set (sd_jobs (sw_db w))" for x
      proof (cases "sj_id x = i")
        case True
        with only [OF x] settled(2,3) show ?thesis by simp
      next
        case False
        then show ?thesis using calm x delivered_butlast [OF _ items] i by (auto simp: calm_def list_all_iff q_def)
      qed
      show "unspent qk q (G e)" if "e \<in> set (sd_outbox (sw_db w))" for e
      proof -
        have "unspent qk q e" using calm that by (simp add: calm_def list_all_iff unspent_def q_def)
        moreover have "so_id (G e) = so_id e" using re unfolding rewritten_def by blast
        ultimately show ?thesis using w3(3) by (rule unspent_same)
      qed
      show "list_all (\<lambda>v. is_ok (message_job v)) (vq_items q)"
        using calm by (auto simp: calm_def list_all_iff q_def dest: in_set_butlastD)
    qed
    have "sum_list (map (\<lambda>x. row_work (?F x)) (sd_jobs (sw_db w))) \<le> sum_list (map row_work (sd_jobs (sw_db w)))"
    proof (rule sum_list_mono_all)
      show "row_work (?F x) \<le> row_work x" if "x \<in> set (sd_jobs (sw_db w))" for x
        using only [OF that] settled(1) by (cases "sj_id x = i") simp_all
    qed
    moreover have "work w3 = sum_list (map (\<lambda>x. row_work (?F x)) (sd_jobs (sw_db w))) + (length (vq_items (sw_queue w)) - 1)"
      using re q3 by (simp add: work_def rewritten_def comp_def q_def)
    moreover have "length (vq_items (sw_queue w)) > 0" using items by simp
    ultimately have less: "work w3 < work w" unfolding work_def by linarith
    have "kept_going clk w w3"
      unfolding kept_going_def
    proof (intro conjI allI impI)
      show tick: "sw_tick w \<le> sw_tick w3" using w1(3) w2(4) w3(6,7) by simp
      fix k y assume y: "find_job k (sw_db w) = Some y" "on_course (clk (sw_tick w)) y"
      have found: "find_job k (sw_db w3) = Some (?F y)" using rewritten_found [OF re, of k] y(1) by simp
      show "\<exists>j'. find_job k (sw_db w3) = Some j' \<and> on_course (clk (sw_tick w3)) j'
          \<and> (sj_state y = JobSucceeded \<or> sj_state y = JobDeadLetter \<longrightarrow> sj_state j' = sj_state y)"
      proof (cases "sj_id y = i")
        case True
        have "y \<in> set (sd_jobs (sw_db w))" using y(1) find_job_iff [OF ok] by blast
        then have "y = j" using only True by simp
        moreover have "clk n \<le> clk (sw_tick w3)" using steady_mono [OF steady, of n "sw_tick w3"] w3(7) by simp
        ultimately show ?thesis using found True settled(4) on_course_later j(2) by auto
      next
        case False
        then show ?thesis using found y(2) on_course_later steady_mono [OF steady tick] by auto
      qed
    qed
    then show ?thesis using w3(1) calm3 less run w2(1) by (intro that [of w3]) simp_all
  qed
qed

section \<open>One pass\<close>

lemma recover_calm:
  fixes clk :: clock
  assumes calm: "calm qk w" and steady: "steady clk"
  defines "w' \<equiv> fst (repo_recover clk w)"
  shows "calm qk w'" and "work w' = work w" and "kept_going clk w w'" and "sd_jobs (sw_db w') = sd_jobs (sw_db w)"
    and "sw_queue w' = sw_queue w"
proof -
  have ok: "sched_ok (sw_db w)" using calm by (simp add: calm_def)
  have none: "\<not> lease_over (at_now clk w) j" if "j \<in> set (sd_jobs (sw_db w))" for j
    using calm that by (auto simp: calm_def list_all_iff lease_over_def)
  note rec = recover_idle [OF ok none, folded w'_def]
  show "sd_jobs (sw_db w') = sd_jobs (sw_db w)" "sw_queue w' = sw_queue w" using rec by (simp_all add: rewritten_def)
  then show "work w' = work w" by (simp add: work_def)
  show "calm qk w'"
    by (rule calm_rewritten [OF calm rec(1,2)])
      (use calm in \<open>auto simp: calm_def list_all_iff intro: unspent_same\<close>)
  show "kept_going clk w w'"
    using on_course_later steady_mono [OF steady, of "sw_tick w" "sw_tick w'"] rec(3) rewritten_found [OF rec(1)]
    by (auto simp: kept_going_def)
qed

lemma pending_rows:
  fixes now :: int
  assumes "sched_ok d"
  defines "es \<equiv> scheduler_pending_outbox 100 now d"
  shows "distinct (map so_id es)" and "e \<in> set es \<Longrightarrow> e \<in> set (sd_outbox d) \<and> so_pending e"
    and "j \<in> set (sd_jobs d) \<Longrightarrow> sj_state j = JobScheduled \<Longrightarrow> sj_run_at j \<le> now \<Longrightarrow> es \<noteq> []"
proof -
  let ?rows = "sort_key so_created (filter (ready_to_publish now d) (sd_outbox d))"
  have "inj_on so_id (set (sd_outbox d))" "distinct (sd_outbox d)"
    using assms(1) by (simp_all add: sched_ok_def distinct_map)
  then have "distinct (map so_id ?rows)"
    by (auto simp: distinct_map intro: inj_on_subset)
  moreover have es: "es = take 100 ?rows" by (simp add: es_def scheduler_pending_outbox_def)
  ultimately show "distinct (map so_id es)" by (simp add: take_map [symmetric])
  have sub: "set es \<subseteq> set ?rows" unfolding es by (rule set_take_subset)
  then show "e \<in> set es \<Longrightarrow> e \<in> set (sd_outbox d) \<and> so_pending e"
    by (auto simp: ready_to_publish_def)
  show "es \<noteq> []" if j: "j \<in> set (sd_jobs d)" "sj_state j = JobScheduled" "sj_run_at j \<le> now"
  proof -
    obtain e where e: "e \<in> set (sd_outbox d)" "paired j e" using outbox_of [OF assms(1) j(1)] .
    then have "ready_to_publish now d e" using j by (auto simp: ready_to_publish_def paired_def list_ex_iff)
    then have "e \<in> set ?rows" using e(1) by simp
    then have "?rows \<noteq> []" by (metis empty_iff empty_set)
    then show ?thesis by (simp add: es)
  qed
qed

definition busy :: "clock \<Rightarrow> sched_world \<Rightarrow> bool" where
  "busy clk w \<longleftrightarrow> vq_items (sw_queue w) \<noteq> []
     \<or> list_ex (\<lambda>j. sj_state j = JobScheduled \<and> sj_run_at j \<le> clk (sw_tick w)) (sd_jobs (sw_db w))"

lemma grown_queue:
  "vq_items (sw_queue w) \<noteq> [] \<Longrightarrow> vq_items (sw_queue (publish_all clk qk es w)) \<noteq> []"
proof (induction es arbitrary: w)
  case (Cons e es)
  have "vq_items (sw_queue (publish_one clk qk e w)) \<noteq> []"
    using Cons.prems by (simp add: publish_one_def repo_mark_published_def with_db_def with_queue_def queue_publish_def)
  then show ?case using Cons.IH by (simp add: publish_all_def)
qed (simp add: publish_all_def)

lemma pass_calm:
  fixes clk :: clock
  assumes calm: "calm qk w" and steady: "steady clk"
  obtains w' b where "service_pass clk qk (service_worker clk ol) w = (w', Inr b)" "calm qk w'" "work w' \<le> work w"
    "busy clk w \<Longrightarrow> work w' < work w" "kept_going clk w w'"
proof -
  define w1 where "w1 = fst (repo_recover clk w)"
  note rec = recover_calm [OF calm steady, folded w1_def]
  define w2 where "w2 = with_db w1 (sw_db w1)"
  have w2: "sw_db w2 = sw_db w1" "sw_queue w2 = sw_queue w1" "sw_tick w2 = Suc (sw_tick w1)" by (simp_all add: w2_def with_db_def)
  have calm2: "calm qk w2" using rec(1) by (simp add: calm_def w2)
  define es where "es = scheduler_pending_outbox 100 (at_now clk w1) (sw_db w1)"
  have ok1: "sched_ok (sw_db w1)" using rec(1) by (simp add: calm_def)
  note rows = pending_rows [OF ok1, where now = "at_now clk w1", folded es_def]
  define w3 where "w3 = publish_all clk qk es w2"
  note pub = publish_all_calm [OF calm2 rows(1), of clk, folded w3_def]
  have pub3: "calm qk w3" "work w3 + length es \<le> work w2" "sw_tick w2 \<le> sw_tick w3"
    and rows3: "\<forall>i j now. find_job i (sw_db w2) = Some j \<longrightarrow> on_course now j \<longrightarrow>
         (\<exists>j'. find_job i (sw_db w3) = Some j' \<and> on_course now j'
            \<and> (sj_state j = JobSucceeded \<or> sj_state j = JobDeadLetter \<longrightarrow> sj_state j' = sj_state j))"
    using pub rows(2) w2(1) by auto
  have published: "scheduler_publish_pending clk qk 100 w1 = (w3, length es)"
    by (simp add: scheduler_publish_pending_def repo_pending_outbox_def w3_def w2_def es_def)
  have work2: "work w2 = work w" using rec(2) by (simp add: work_def w2)
  have kept1: "kept_going clk w1 w2" by (rule kept_going_same [OF steady]) (simp_all add: w2)
  have kept2: "kept_going clk w2 w3"
    unfolding kept_going_def
  proof (intro conjI allI impI)
    show "sw_tick w2 \<le> sw_tick w3" by (rule pub3(3))
    fix i j assume "find_job i (sw_db w2) = Some j" "on_course (clk (sw_tick w2)) j"
    then show "\<exists>j'. find_job i (sw_db w3) = Some j' \<and> on_course (clk (sw_tick w3)) j'
        \<and> (sj_state j = JobSucceeded \<or> sj_state j = JobDeadLetter \<longrightarrow> sj_state j' = sj_state j)"
      using rows3 on_course_later steady_mono [OF steady pub3(3)] by blast
  qed
  have kept3: "kept_going clk w w3" by (rule kept_going_trans [OF rec(3) kept_going_trans [OF kept1 kept2]])
  have pass: "service_pass clk qk (service_worker clk ol) w =
      (case worker_run_once clk (service_worker clk ol) w3 of (w', Inl e) \<Rightarrow> (w', Inl e)
       | (w', Inr worked) \<Rightarrow> (w', Inr (es = [] \<longrightarrow> worked)))"
    by (simp add: service_pass_def w1_def [symmetric] published)
  show ?thesis
  proof (cases "vq_items (sw_queue w3) = []")
    case False
    obtain w' where w': "worker_run_once clk (service_worker clk ol) w3 = (w', Inr True)" "calm qk w'" "work w' < work w3"
      "kept_going clk w3 w'"
      by (rule worker_pass [OF pub3(1) steady False, of ol]) (rule that)
    then show ?thesis using pass pub3(2) work2 kept_going_trans [OF kept3 w'(4)] by (intro that [of w']) simp_all
  next
    case True
    let ?w = "with_queue w3 (sw_queue w3)"
    have run: "worker_run_once clk (service_worker clk ol) w3 = (?w, Inr False)"
      using True by (simp add: worker_run_once_def queue_receive_def)
    have w': "sw_db ?w = sw_db w3" "sw_queue ?w = sw_queue w3" "sw_tick w3 \<le> sw_tick ?w" by (simp_all add: with_queue_def)
    have less: "work w3 < work w" if "busy clk w"
    proof (cases "vq_items (sw_queue w) = []")
      case True
      then obtain j where j: "j \<in> set (sd_jobs (sw_db w))" "sj_state j = JobScheduled" "sj_run_at j \<le> clk (sw_tick w)"
        using \<open>busy clk w\<close> by (auto simp: busy_def list_ex_iff)
      have "clk (sw_tick w) \<le> at_now clk w1" using rec(3) steady_mono [OF steady] by (simp add: kept_going_def at_now_def)
      then have "es \<noteq> []" using rows(3) [where j = j] j rec(4) by simp
      then have "0 < length es" by simp
      then show ?thesis using pub3(2) work2 by linarith
    next
      case False
      then show ?thesis using grown_queue [of w2 clk qk es] \<open>vq_items (sw_queue w3) = []\<close> rec(5) w2(2) by (simp add: w3_def)
    qed
    show ?thesis
      by (rule that [of ?w "es \<noteq> []"])
        (use pass run w' pub3 work2 less kept_going_trans [OF kept3 kept_going_same [OF steady w'(1,3)]] in \<open>simp_all add: calm_def work_def\<close>)
  qed
qed

section \<open>Liveness\<close>

definition settled_job :: "string \<Rightarrow> sched_world \<Rightarrow> bool" where
  "settled_job i w \<longleftrightarrow> (case find_job i (sw_db w) of Some j \<Rightarrow> sj_state j = JobSucceeded \<or> sj_state j = JobDeadLetter | None \<Rightarrow> False)"

lemma unsettled_busy:
  assumes "calm qk w" "find_job i (sw_db w) = Some j" "on_course (clk (sw_tick w)) j" "\<not> settled_job i w"
  shows "busy clk w"
proof -
  have ok: "sched_ok (sw_db w)" using assms(1) by (simp add: calm_def)
  have j: "j \<in> set (sd_jobs (sw_db w))" "sj_id j = i" using find_job_iff [OF ok] assms(2) by auto
  show ?thesis
  proof (cases "sj_state j = JobQueued")
    case True
    then have "delivered (sw_queue w) i" using assms(1) j by (auto simp: calm_def list_all_iff)
    then show ?thesis by (auto simp: busy_def delivered_def)
  next
    case False
    then show ?thesis using assms(2-4) j by (auto simp: busy_def on_course_def settled_job_def list_ex_iff)
  qed
qed

lemma settled_passes:
  assumes "calm qk w" "steady clk" "settled_job i w"
  shows "\<exists>w'. service_passes clk qk (service_worker clk ol) n w = (w', Inr ()) \<and> settled_job i w'"
  using assms
proof (induction n arbitrary: w)
  case (Suc n)
  obtain w' b where w': "service_pass clk qk (service_worker clk ol) w = (w', Inr b)" "calm qk w'" "kept_going clk w w'"
    by (rule pass_calm [OF Suc.prems(1,2), of ol]) (rule that)
  from Suc.prems(3) obtain j where j: "find_job i (sw_db w) = Some j" "sj_state j = JobSucceeded \<or> sj_state j = JobDeadLetter"
    by (auto simp: settled_job_def split: option.splits)
  then have "on_course (clk (sw_tick w)) j" by (auto simp: on_course_def)
  then obtain j' where "find_job i (sw_db w') = Some j'" "sj_state j' = sj_state j"
    using w'(3) j unfolding kept_going_def by blast
  then have "settled_job i w'" using j(2) by (simp add: settled_job_def)
  then show ?case using Suc.IH [OF w'(2) Suc.prems(2)] by (simp add: w'(1))
qed simp

lemma passes_settle:
  assumes "calm qk w" "steady clk" "find_job i (sw_db w) = Some j" "on_course (clk (sw_tick w)) j" "work w \<le> n"
  shows "\<exists>w'. service_passes clk qk (service_worker clk ol) n w = (w', Inr ()) \<and> settled_job i w'"
  using assms
proof (induction n arbitrary: w j)
  case 0
  have "settled_job i w"
  proof (rule ccontr)
    assume "\<not> settled_job i w"
    then have "busy clk w" using unsettled_busy 0 by blast
    moreover obtain w' b where "busy clk w \<Longrightarrow> work w' < work w"
      by (rule pass_calm [OF 0(1,2), of undefined]) (rule that)
    ultimately show False using 0(5) by simp
  qed
  then show ?case by simp
next
  case (Suc n)
  obtain w' b where w': "service_pass clk qk (service_worker clk ol) w = (w', Inr b)" "calm qk w'" "work w' \<le> work w"
    "busy clk w \<Longrightarrow> work w' < work w" "kept_going clk w w'"
    by (rule pass_calm [OF Suc.prems(1,2), of ol]) (rule that)
  obtain j' where j': "find_job i (sw_db w') = Some j'" "on_course (clk (sw_tick w')) j'"
    "sj_state j = JobSucceeded \<or> sj_state j = JobDeadLetter \<longrightarrow> sj_state j' = sj_state j"
    using w'(5) Suc.prems(3,4) unfolding kept_going_def by blast
  have step: "service_passes clk qk (service_worker clk ol) (Suc n) w = service_passes clk qk (service_worker clk ol) n w'"
    by (simp add: w'(1))
  show ?case
  proof (cases "busy clk w")
    case True
    then show ?thesis unfolding step using Suc.IH [OF w'(2) Suc.prems(2) j'(1,2)] w'(4) Suc.prems(5) by simp
  next
    case False
    then have "settled_job i w" using unsettled_busy Suc.prems by blast
    then have "settled_job i w'" using j' Suc.prems(3) by (auto simp: settled_job_def)
    then show ?thesis unfolding step using settled_passes [OF w'(2) Suc.prems(2)] by blast
  qed
qed

section \<open>A job without its message\<close>

definition stranded :: "string \<Rightarrow> job_row \<Rightarrow> sched_world \<Rightarrow> bool" where
  "stranded i j w \<longleftrightarrow> sched_ok (sw_db w) \<and> list_all canonical_id (map sj_id (sd_jobs (sw_db w)))
     \<and> find_job i (sw_db w) = Some j \<and> sj_state j = JobQueued \<and> \<not> delivered (sw_queue w) i"

lemma find_other:
  assumes "i \<noteq> k" "\<And>x. sj_id (f x) = sj_id x"
  shows "find_job i (update_job k f d) = find_job i d"
proof -
  have "find (\<lambda>j. sj_id j = i) (map (\<lambda>j. if sj_id j = k then f j else j) js) = find (\<lambda>j. sj_id j = i) js" for js
    using assms by (induction js) auto
  then show ?thesis by (simp add: find_job_def update_job_def)
qed

lemma find_log [simp]: "find_job i (log_job k kind actor payload now d) = find_job i d"
  and find_repend [simp]: "find_job i (repend p d) = find_job i d"
  and jobs_log [simp]: "sd_jobs (log_job k kind actor payload now d) = sd_jobs d"
  and jobs_repend [simp]: "sd_jobs (repend p d) = sd_jobs d"
  by (simp_all add: find_job_def log_job_def repend_def)

lemma ids_update: "(\<And>x. sj_id (f x) = sj_id x) \<Longrightarrow> map sj_id (sd_jobs (update_job k f d)) = map sj_id (sd_jobs d)"
  by (simp add: update_job_def comp_def if_distrib cong: if_cong)

lemma stranded_db:
  assumes "stranded i j w" "sched_ok d" "map sj_id (sd_jobs d) = map sj_id (sd_jobs (sw_db w))" "find_job i d = find_job i (sw_db w)"
  shows "stranded i j (with_db w d)"
proof -
  have "list_all canonical_id (map sj_id (sd_jobs d))"
    unfolding assms(3) using assms(1) by (simp only: stranded_def)
  then show ?thesis using assms by (simp add: stranded_def with_db_def)
qed

lemma stranded_recover:
  assumes "stranded i j w"
  shows "stranded i j (fst (repo_recover clk w))"
proof -
  define d where "d = fst (recover_expired_scheduler_leases (at_now clk w) (sw_db w))"
  let ?F = "\<lambda>j. if lease_over (at_now clk w) j then recovered (at_now clk w) j else j"
  have jobs: "sd_jobs d = map ?F (sd_jobs (sw_db w))"
    by (simp add: d_def recover_expired_scheduler_leases_def Let_def)
  have "find (\<lambda>j. sj_id j = i) (map ?F js) = map_option ?F (find (\<lambda>j. sj_id j = i) js)" for js
    by (induction js) (simp_all add: recovered_def)
  then have "find_job i d = map_option ?F (find_job i (sw_db w))" by (simp add: find_job_def jobs)
  moreover have "\<not> lease_over (at_now clk w) j" using assms by (simp add: stranded_def lease_over_def)
  ultimately have "find_job i d = find_job i (sw_db w)" using assms by (simp add: stranded_def)
  moreover have "map sj_id (sd_jobs d) = map sj_id (sd_jobs (sw_db w))" by (simp add: jobs recovered_def)
  moreover have "sched_ok d" using recover_step assms by (simp add: d_def stranded_def)
  ultimately have "stranded i j (with_db w d)" using stranded_db [OF assms] by blast
  then show ?thesis by (simp add: repo_recover_def d_def case_prod_beta Let_def)
qed

lemma found_row: "find P xs = Some x \<Longrightarrow> x \<in> set xs \<and> P x"
  by (auto simp: find_Some_iff)

lemma stranded_mark:
  assumes "stranded i j w"
  shows "stranded i j (repo_mark_published clk eid w)"
proof -
  let ?d = "sw_db w"
  have ok: "sched_ok ?d" using assms by (simp add: stranded_def)
  have other: "so_job x \<noteq> i" if "x \<in> set (sd_outbox ?d)" "so_pending x" for x
  proof
    assume "so_job x = i"
    then have "\<exists>x. x \<in> set (sd_outbox ?d) \<and> so_job x = sj_id j \<and> so_pending x"
      using that assms find_job_iff [OF ok] by (auto simp: stranded_def)
    then show False using pending_iff [OF ok, of j] assms find_job_iff [OF ok] by (auto simp: stranded_def)
  qed
  define e where "e = find (\<lambda>e. so_id e = eid \<and> so_pending e) (sd_outbox ?d)"
  have "find_job i (mark_scheduler_outbox_published eid now ?d) = find_job i ?d
      \<and> map sj_id (sd_jobs (mark_scheduler_outbox_published eid now ?d)) = map sj_id (sd_jobs ?d)" for now
  proof (cases e)
    case None
    then show ?thesis by (simp add: mark_scheduler_outbox_published_def e_def [symmetric])
  next
    case (Some x)
    then have x: "so_job x \<noteq> i" using other found_row unfolding e_def by fast
    let ?d' = "?d\<lparr>sd_outbox := map (\<lambda>x. if so_id x = eid \<and> so_pending x then published now x else x) (sd_outbox ?d)\<rparr>"
    have "find_job i (update_job (so_job x) (queued now) ?d') = find_job i ?d'" using x by (intro find_other) simp_all
    then show ?thesis using Some ids_update [of "queued now" "so_job x" ?d']
      by (simp add: mark_scheduler_outbox_published_def e_def [symmetric] find_job_def)
  qed
  then show ?thesis using stranded_db [OF assms] publish_step [OF ok] by (simp add: repo_mark_published_def)
qed

lemma stranded_queue:
  assumes "stranded i j w" "\<And>v. v \<in> set (vq_items q) \<Longrightarrow> v \<in> set (vq_items (sw_queue w)) \<or> message_job v \<noteq> Inr i"
  shows "stranded i j (with_queue w q)"
  using assms by (auto simp: stranded_def with_queue_def delivered_def list_ex_iff)

lemma stranded_publish:
  assumes "stranded i j w" "so_job e \<noteq> i" "canonical_id (so_job e)"
  shows "stranded i j (publish_one clk qk e w)"
proof -
  have "stranded i j (with_queue w (queue_publish qk (at_now clk w) e (sw_queue w)))"
    using assms by (intro stranded_queue) (auto simp: queue_publish_def message_of_event canonical_id_def split: if_splits)
  then show ?thesis unfolding publish_one_def by (rule stranded_mark)
qed

lemma stranded_publish_all:
  assumes "stranded i j w" "\<And>e. e \<in> set es \<Longrightarrow> so_job e \<noteq> i \<and> canonical_id (so_job e)"
  shows "stranded i j (publish_all clk qk es w)"
  using assms by (induction es arbitrary: w) (simp_all add: publish_all_def stranded_publish)

lemma claim_spares:
  assumes "claim_scheduled_job k worker secs now d = Inr (d', r)" "k \<noteq> i"
  shows "find_job i d' = find_job i d \<and> map sj_id (sd_jobs d') = map sj_id (sd_jobs d) \<and> (\<forall>x. r = Some x \<longrightarrow> sj_id x = k)"
proof (cases "find_job k d")
  case None
  with assms show ?thesis by (auto simp: claim_scheduled_job_def raise_def split: if_splits)
next
  case (Some x)
  have id: "sj_id x = k" using Some by (auto simp: find_job_def find_Some_iff)
  have ids: "sj_id (dead_lettered now y) = sj_id y" for y by (simp add: dead_lettered_def)
  define d1 where "d1 = (if lease_over now x then update_job k (released now) d else d)"
  have d1: "find_job i d1 = find_job i d" "map sj_id (sd_jobs d1) = map sj_id (sd_jobs d)"
    using assms(2) find_other [of i k "released now" d] ids_update [of "released now" k d] by (simp_all add: d1_def)
  have more: "find_job i (update_job k f d1) = find_job i d" "map sj_id (sd_jobs (update_job k f d1)) = map sj_id (sd_jobs d)"
    if "\<And>y. sj_id (f y) = sj_id y" for f
    using that assms(2) d1 find_other [of i k f d1] ids_update [of f k d1] by simp_all
  show ?thesis
    using assms(1) Some id d1 more [of "leased worker secs now"] more [of "dead_lettered now"] ids
    by (auto simp: claim_scheduled_job_def raise_def Let_def d1_def [symmetric] split: if_splits)
qed

lemma settle_spares:
  assumes "k \<noteq> i" "stranded i j w"
  shows "stranded i j (fst (repo_fail clk k worker er delay w))" and "stranded i j (fst (repo_complete clk k worker v w))"
proof -
  let ?d = "sw_db w"
  have ok: "sched_ok ?d" using assms(2) by (simp add: stranded_def)
  have same: "stranded i j (with_db w ?d)" using stranded_db [OF assms(2) ok] by simp
  show "stranded i j (fst (repo_complete clk k worker v w))"
  proof (cases "complete_scheduled_job k worker v (at_now clk w) ?d")
    case (Inl e)
    then show ?thesis using same by (simp add: repo_complete_def)
  next
    case (Inr d')
    then have "d' = log_job k EvSucceeded (Some worker) v (at_now clk w) (update_job k (succeeded v (at_now clk w)) ?d)"
      by (auto simp: complete_scheduled_job_def raise_def split: option.splits if_splits)
    then have "find_job i d' = find_job i ?d" "map sj_id (sd_jobs d') = map sj_id (sd_jobs ?d)"
      using find_other [of i k] ids_update assms(1) by simp_all
    then show ?thesis using Inr stranded_db [OF assms(2)] complete_step [OF Inr ok] by (simp add: repo_complete_def)
  qed
  show "stranded i j (fst (repo_fail clk k worker er delay w))"
  proof (cases "fail_scheduled_job k worker er delay (at_now clk w) ?d")
    case (Inl e)
    then show ?thesis using same by (simp add: repo_fail_def)
  next
    case (Inr p)
    obtain d' s where p: "p = (d', s)" by (cases p)
    have "find_job i d' = find_job i ?d \<and> map sj_id (sd_jobs d') = map sj_id (sd_jobs ?d)"
    proof -
      from Inr p have "\<exists>again kind payload. d' = log_job k kind (Some worker) payload (at_now clk w)
          (if again then repend (\<lambda>x. x = k) (update_job k (failed er delay (at_now clk w)) ?d)
           else update_job k (failed er delay (at_now clk w)) ?d)"
        by (auto simp: fail_scheduled_job_def raise_def Let_def split: option.splits if_splits)
      then show ?thesis using find_other [of i k] ids_update assms(1) by auto
    qed
    then show ?thesis using Inr p stranded_db [OF assms(2)] fail_step [of k worker er delay "at_now clk w" ?d d' s] ok
      by (simp add: repo_fail_def)
  qed
qed

lemma service_cfg:
  "wc_worker (service_worker clk ol) = ''scheduler-service''" "wc_lease_seconds (service_worker clk ol) = 30"
  by (simp_all add: service_worker_def)

lemma stranded_handler:
  assumes "default_handlers clk ol k = Some h" "stranded i j w"
  shows "stranded i j (fst (h job w))"
  using handler_world [OF assms(1), of job w] assms(2) stranded_recover by metis

lemma stranded_execute:
  assumes "sc_id job \<noteq> i" "stranded i j w"
  shows "stranded i j (fst (execute_job clk (service_worker clk' ol) job w))"
proof (cases "default_handlers clk' ol (sc_kind job)")
  case None
  then show ?thesis using settle_spares(1) [OF assms]
    by (simp add: execute_job_def service_worker_def split: prod.splits sum.splits) (metis fst_conv)
next
  case (Some h)
  have u: "stranded i j (fst (h job w))" using stranded_handler [OF Some assms(2)] .
  show ?thesis
  proof (cases "snd (h job w)")
    case (Inl er)
    then show ?thesis using Some settle_spares(1) [OF assms(1) u]
      by (simp add: execute_job_def settle_job_def service_worker_def split: prod.splits sum.splits) (metis fst_conv)
  next
    case (Inr v)
    then show ?thesis using Some settle_spares(2) [OF assms(1) u]
      by (simp add: execute_job_def settle_job_def service_worker_def split: prod.splits sum.splits) (metis fst_conv)
  qed
qed

lemma stranded_run:
  assumes "stranded i j w"
  shows "stranded i j (fst (worker_run_once clk (service_worker clk' ol) w))"
proof (cases "vq_items (sw_queue w) = []")
  case True
  then show ?thesis using stranded_queue [OF assms, of "sw_queue w"] by (simp add: worker_run_once_def queue_receive_def)
next
  case False
  define v where "v = last (vq_items (sw_queue w))"
  define w1 where "w1 = with_queue w ((sw_queue w)\<lparr>vq_items := butlast (vq_items (sw_queue w))\<rparr>)"
  have st1: "stranded i j w1"
    unfolding w1_def by (rule stranded_queue [OF assms]) (auto dest: in_set_butlastD)
  have ok: "sched_ok (sw_db w1)" using st1 by (simp add: stranded_def)
  have v: "message_job v \<noteq> Inr i"
    using assms False last_in_set [of "vq_items (sw_queue w)"] by (auto simp: stranded_def delivered_def list_ex_iff v_def)
  have run: "worker_run_once clk (service_worker clk' ol) w = (case message_job v of Inl e \<Rightarrow> (w1, Inl e)
         | Inr k \<Rightarrow> (case repo_claim clk k ''scheduler-service'' 30 w1 of
              (w2, Inl e) \<Rightarrow> (w2, Inl e) | (w2, Inr None) \<Rightarrow> (w2, Inr True)
            | (w2, Inr (Some job)) \<Rightarrow> execute_job clk (service_worker clk' ol) job w2))"
    using False unfolding worker_run_once_def queue_receive_def Let_def v_def w1_def service_cfg by simp
  show ?thesis
  proof (cases "message_job v")
    case (Inl e)
    then show ?thesis using run st1 by simp
  next
    case (Inr k)
    then have k: "k \<noteq> i" using v by blast
    show ?thesis
    proof (cases "claim_scheduled_job k ''scheduler-service'' 30 (at_now clk w1) (sw_db w1)")
      case (Inl e)
      then show ?thesis using run Inr stranded_db [OF st1 ok] by (simp add: repo_claim_def)
    next
      case claimed: (Inr p)
      obtain d r where p: "p = (d, r)" by (cases p)
      note spares = claim_spares [OF claimed [unfolded p] k]
      have "sched_ok d" using claim_step [OF claimed [unfolded p] ok] by blast
      then have st2: "stranded i j (with_db w1 d)" using stranded_db [OF st1] spares by blast
      show ?thesis
      proof (cases r)
        case None
        then show ?thesis using run Inr claimed p st2 by (simp add: repo_claim_def)
      next
        case (Some x)
        then have "sc_id (job_of_row x) \<noteq> i" using spares k by (simp add: job_of_row_def)
        then show ?thesis using run Inr claimed p Some stranded_execute [OF _ st2] by (simp add: repo_claim_def)
      qed
    qed
  qed
qed

lemma stranded_pass:
  assumes st: "stranded i j w"
  shows "stranded i j (fst (service_pass clk qk (service_worker clk' ol) w))"
proof -
  define w1 where "w1 = fst (repo_recover clk w)"
  have st1: "stranded i j w1" using stranded_recover [OF st] by (simp add: w1_def)
  then have ok: "sched_ok (sw_db w1)" by (simp add: stranded_def)
  define es where "es = scheduler_pending_outbox 100 (at_now clk w1) (sw_db w1)"
  have rows: "so_job e \<noteq> i \<and> canonical_id (so_job e)" if "e \<in> set es" for e
  proof -
    have e: "e \<in> set (sd_outbox (sw_db w1))" "so_pending e"
      using pending_rows(2) [OF ok, where now = "at_now clk w1", folded es_def] that by auto
    have "so_job ` set (sd_outbox (sw_db w1)) = sj_id ` set (sd_jobs (sw_db w1))"
      using ok paired_jobs [of "sd_jobs (sw_db w1)" "sd_outbox (sw_db w1)"] unfolding sched_ok_def by (metis list.set_map)
    then have "so_job e \<in> sj_id ` set (sd_jobs (sw_db w1))" using e(1) by blast
    then obtain x where x: "x \<in> set (sd_jobs (sw_db w1))" "so_job e = sj_id x" by blast
    then have "sj_state x = JobScheduled" using pending_iff [OF ok x(1)] e by auto
    moreover have "find_job (so_job e) (sw_db w1) = Some x" using find_job_iff [OF ok] x by simp
    ultimately have "so_job e \<noteq> i" using st1 by (auto simp: stranded_def)
    moreover have "canonical_id (so_job e)" using st1 x by (auto simp: stranded_def list_all_iff)
    ultimately show ?thesis by blast
  qed
  have st2: "stranded i j (with_db w1 (sw_db w1))" using stranded_db [OF st1 ok] by simp
  have st3: "stranded i j (publish_all clk qk es (with_db w1 (sw_db w1)))"
    by (rule stranded_publish_all [OF st2]) (rule rows)
  have "service_pass clk qk (service_worker clk' ol) w =
      (case worker_run_once clk (service_worker clk' ol) (publish_all clk qk es (with_db w1 (sw_db w1))) of
         (w', Inl e) \<Rightarrow> (w', Inl e) | (w', Inr worked) \<Rightarrow> (w', Inr (es = [] \<longrightarrow> worked)))"
    unfolding es_def by (simp add: service_pass_def w1_def [symmetric] scheduler_publish_pending_def repo_pending_outbox_def)
  then show ?thesis using stranded_run [OF st3, of clk clk' ol] by (auto split: prod.splits sum.splits)
qed

lemma stranded_passes:
  "stranded i j w \<Longrightarrow> stranded i j (fst (service_passes clk qk (service_worker clk' ol) n w))"
proof (induction n arbitrary: w)
  case (Suc n)
  obtain w' r where p: "service_pass clk qk (service_worker clk' ol) w = (w', r)" by fastforce
  then have "stranded i j w'" using stranded_pass [OF Suc.prems, of clk qk clk' ol] by simp
  then show ?case using Suc.IH by (cases r) (simp_all add: p)
qed simp

section \<open>Guarantees of the service\<close>

text \<open>C5: A single scheduler service whose clock never runs back and whose steps are each shorter than a lease
  settles every due job: after as many passes of its loop as the work in the tables and the queue counts (each
  job six units for each attempt left, each message one), no exception has ended the loop and a job that was
  queued, or scheduled for a time that had come, has succeeded or is dead-lettered, whatever its payload is and
  whatever else is scheduled.
\<close>

theorem service_settles_due_jobs:
  assumes "calm queue_key w" and "steady clk" and "find_job i (sw_db w) = Some j"
    and "sj_state j = JobQueued \<or> sj_state j = JobScheduled \<and> sj_run_at j \<le> clk (sw_tick w)" and "work w \<le> n"
  shows "\<exists>w' j'. service_passes clk queue_key (service_worker clk order_lists) n w = (w', Inr ())
    \<and> find_job i (sw_db w') = Some j' \<and> (sj_state j' = JobSucceeded \<or> sj_state j' = JobDeadLetter)"
proof -
  have "on_course (clk (sw_tick w)) j" using assms(4) by (auto simp: on_course_def)
  from passes_settle [OF assms(1-3) this assms(5), of order_lists] show ?thesis
    by (auto simp: settled_job_def split: option.splits)
qed

definition due_row :: job_row where
  "due_row = new_job (uuid_text 1) sample_request empty_object 0"

definition due_world :: sched_world where
  "due_world = \<lparr>sw_db = \<lparr>sd_jobs = [due_row], sd_outbox = [new_outbox ''event'' due_row 0], sd_events = []\<rparr>,
     sw_queue = \<lparr>vq_items = [], vq_seen = []\<rparr>, sw_tick = 0\<rparr>"

lemma sample_canonical: "canonical_id (uuid_text 1)"
  unfolding canonical_id_def by (rule uuid_of_text_canonical) simp

lemma due_ok: "sched_ok (sw_db due_world)"
  by (simp add: due_world_def due_row_def sched_ok_def new_job_def new_outbox_def paired_def row_ok_def sample_request_def)

lemma service_settles_due_jobs_witness:
  "\<exists>w' j'. service_passes sample_clock ''q'' (service_worker sample_clock Inr) 12 due_world = (w', Inr ())
     \<and> find_job (uuid_text 1) (sw_db w') = Some j' \<and> (sj_state j' = JobSucceeded \<or> sj_state j' = JobDeadLetter)"
proof (rule service_settles_due_jobs [where j = due_row])
  show "calm ''q'' due_world"
    using due_ok sample_canonical
    by (simp add: calm_def) (simp add: due_world_def due_row_def new_job_def new_outbox_def unspent_def)
  show "steady sample_clock" by (simp add: steady_def seconds_def)
  show "find_job (uuid_text 1) (sw_db due_world) = Some due_row"
    by (simp add: due_world_def due_row_def find_job_def new_job_def)
qed (simp_all add: due_world_def due_row_def new_job_def sample_request_def work_def row_work_def steps_left_def
      progress_def seconds_def)

text \<open>C29: With two instances of the service a job can be lost: when the worker of one takes the message before the
  publisher of the other has marked the outbox row as published, the claim finds the job still scheduled and
  drops the message; the mark then makes the job queued, and no number of later passes, with whatever clock,
  ever touches it again.
\<close>

theorem early_delivery_strands_job:
  assumes "sched_ok (sw_db w)" and "list_all canonical_id (map sj_id (sd_jobs (sw_db w)))"
    and "e \<in> set (sd_outbox (sw_db w))" and "so_pending e" and "vq_items (sw_queue w) = []"
    and "\<not> key_alive (at_now clk w) (dedupe_key queue_key e) (sw_queue w)"
  shows "\<exists>w2 j. worker_run_once clk (service_worker clk order_lists)
        (with_queue w (queue_publish queue_key (at_now clk w) e (sw_queue w))) = (w2, Inr True)
    \<and> find_job (so_job e) (sw_db (repo_mark_published clk (so_id e) w2)) = Some j \<and> sj_state j = JobQueued
    \<and> (\<forall>n clk'. find_job (so_job e) (sw_db (fst (service_passes clk' queue_key (service_worker clk' order_lists) n
          (repo_mark_published clk (so_id e) w2)))) = Some j)"
proof -
  let ?d = "sw_db w" and ?i = "so_job e"
  have "so_job ` set (sd_outbox ?d) = sj_id ` set (sd_jobs ?d)"
    using assms(1) paired_jobs [of "sd_jobs ?d" "sd_outbox ?d"] unfolding sched_ok_def by (metis list.set_map)
  then have "?i \<in> sj_id ` set (sd_jobs ?d)" using assms(3) by blast
  then obtain k where k: "k \<in> set (sd_jobs ?d)" "?i = sj_id k" by blast
  have waiting: "sj_state k = JobScheduled" using pending_iff [OF assms(1) k(1)] assms(3,4) k(2) by auto
  have found: "find_job ?i ?d = Some k" using find_job_iff [OF assms(1)] k by simp
  have canon: "uuid_of_text ?i = Inr ?i" using assms(2) k by (auto simp: list_all_iff canonical_id_def)
  define w1 where "w1 = with_queue w (queue_publish queue_key (at_now clk w) e (sw_queue w))"
  have w1: "vq_items (sw_queue w1) = [event_message e]" "sw_db w1 = ?d"
    using assms(5,6) by (simp_all add: w1_def with_queue_def queue_publish_def)
  define w2 where "w2 = with_db (with_queue w1 ((sw_queue w1)\<lparr>vq_items := []\<rparr>)) ?d"
  have run: "worker_run_once clk (service_worker clk order_lists) w1 = (w2, Inr True)"
    using w1 canon found waiting service_name
    by (simp add: worker_run_once_def queue_receive_def message_of_event repo_claim_def claim_scheduled_job_def
        service_worker_def with_queue_def w2_def lease_over_def)
  define w3 where "w3 = repo_mark_published clk (so_id e) w2"
  have only: "x = e" if "x \<in> set (sd_outbox ?d)" "so_id x = so_id e" for x
    using same_row [of so_id "sd_outbox ?d"] assms(1,3) that by (simp add: sched_ok_def)
  have "find (\<lambda>x. so_id x = so_id e \<and> so_pending x) (sd_outbox ?d) = Some e"
  proof (cases "find (\<lambda>x. so_id x = so_id e \<and> so_pending x) (sd_outbox ?d)")
    case None
    then show ?thesis using assms(3,4) by (auto simp: find_None_iff)
  next
    case (Some x)
    then show ?thesis using only found_row [OF Some] by simp
  qed
  then have found3: "find_job ?i (sw_db w3) = Some (queued (at_now clk w2) k)"
    using found by (simp add: w3_def repo_mark_published_def with_db_def w2_def mark_scheduler_outbox_published_def
        find_updated del: find_log) (simp add: find_job_def)
  have ok3: "sched_ok (sw_db w3)"
    using publish_step [OF assms(1)] by (simp add: w3_def repo_mark_published_def with_db_def w2_def)
  have "map sj_id (sd_jobs (sw_db w3)) = map sj_id (sd_jobs ?d)"
    by (simp add: w3_def repo_mark_published_def with_db_def w2_def mark_scheduler_outbox_published_def ids_update
        split: option.splits)
  then have ids3: "list_all canonical_id (map sj_id (sd_jobs (sw_db w3)))" using assms(2) by (simp only:)
  have empty3: "\<not> delivered (sw_queue w3) ?i"
    by (simp add: delivered_def w3_def repo_mark_published_def with_db_def w2_def with_queue_def)
  have "sj_state (queued (at_now clk w2) k) = JobQueued" using waiting by (simp add: queued_def)
  with ok3 ids3 found3 empty3 have "stranded ?i (queued (at_now clk w2) k) w3" unfolding stranded_def by blast
  then have "find_job ?i (sw_db (fst (service_passes clk' queue_key (service_worker clk' order_lists) n w3)))
      = Some (queued (at_now clk w2) k)" for n clk'
    using stranded_passes unfolding stranded_def by blast
  then show ?thesis using run found3 waiting unfolding w1_def [symmetric] w3_def
    by (intro exI [of _ w2] exI [of _ "queued (at_now clk w2) k"]) (simp add: queued_def)
qed

lemma early_delivery_strands_job_witness:
  "\<exists>w2 j. worker_run_once sample_clock (service_worker sample_clock Inr)
        (with_queue due_world (queue_publish ''q'' 0 (new_outbox ''event'' due_row 0) (sw_queue due_world))) = (w2, Inr True)
    \<and> find_job (uuid_text 1) (sw_db (repo_mark_published sample_clock ''event'' w2)) = Some j \<and> sj_state j = JobQueued"
proof -
  let ?e = "new_outbox ''event'' due_row 0"
  have e: "so_job ?e = uuid_text 1" "so_id ?e = ''event''" by (simp_all add: new_outbox_def due_row_def new_job_def)
  have at: "at_now sample_clock due_world = 0" by (simp add: at_now_def due_world_def seconds_def)
  show ?thesis
    using early_delivery_strands_job [of due_world ?e sample_clock "''q''" Inr, unfolded e at] due_ok sample_canonical
    by (simp add: due_world_def new_outbox_def key_alive_def due_row_def new_job_def) blast
qed

end
