(* ===== verification/TedSearch.thy ===== *)
theory TedSearch
  imports PyJson Sha256
begin

text \<open>
  The bounded TED search: the connector that fetches one page of notices and checks it against the fixed
  profile (\<^verbatim>\<open>connectors/ted.py\<close>), and the artifacts and admission gates of its fields (\<^verbatim>\<open>ted_runtime.py\<close>).
  The HTTP client and the reader of the frozen fixture are arguments, given by what they return; the parts of
  the constant endpoint are written as \<^verbatim>\<open>urlparse\<close> splits it.
\<close>

section \<open>The request\<close>

definition fixed_fields :: "string list" where
  "fixed_fields = [''publication-number'', ''notice-title'', ''buyer-name'', ''notice-type'']"

definition prohibited_field_tokens :: "string list" where
  "prohibited_field_tokens = [''email'', ''phone'', ''contact'', ''person'']"

definition ted_error :: "string \<Rightarrow> 'a result" where
  "ted_error m = Inl (TEDSourceRetrievalError m)"

definition ted_source_id :: string where
  "ted_source_id = ''src_ted_search_api_v3''"

definition ted_endpoint :: string where
  "ted_endpoint = ''https://api.ted.europa.eu/v3/notices/search''"

definition fixed_query :: string where
  "fixed_query = ''place-of-performance IN (LUX)''"

definition build_request_body :: "pyval result" where
  "build_request_body =
     (if list_ex (\<lambda>f. list_ex (\<lambda>t. contains t (casefold f)) prohibited_field_tokens) fixed_fields
      then ted_error ''TED probe field list includes personal contact data''
      else Inr (PDict [(''query'', PStr fixed_query), (''fields'', PStrs fixed_fields), (''page'', PInt 1),
             (''limit'', PInt 3), (''scope'', PStr ''ACTIVE''), (''checkQuerySyntax'', PBool False),
             (''paginationMode'', PStr ''PAGE_NUMBER'')]))"

record parsed_url =
  pu_scheme :: string
  pu_hostname :: "string option"
  pu_username :: "string option"
  pu_password :: "string option"
  pu_port :: "nat option"
  pu_path :: string
  pu_query :: string
  pu_fragment :: string

definition present :: "string option \<Rightarrow> bool" where
  "present x = (case x of Some s \<Rightarrow> s \<noteq> [] | None \<Rightarrow> False)"

definition validate_url :: "parsed_url \<Rightarrow> unit result" where
  "validate_url u =
     (if pu_scheme u \<noteq> ''https'' then ted_error ''TED connector requires HTTPS''
      else if pu_hostname u \<noteq> Some ''api.ted.europa.eu'' then ted_error ''TED connector host is outside the allowlist''
      else if present (pu_username u) \<or> present (pu_password u) then ted_error ''TED connector URL must not contain credentials''
      else if pu_port u \<notin> {None, Some 443} then ted_error ''TED connector refuses non-standard ports''
      else if pu_path u \<noteq> ''/v3/notices/search'' \<or> pu_query u \<noteq> [] \<or> pu_fragment u \<noteq> []
      then ted_error ''TED connector URL is outside the admitted endpoint''
      else Inr ())"

definition endpoint_parts :: parsed_url where
  "endpoint_parts = \<lparr>pu_scheme = ''https'', pu_hostname = Some ''api.ted.europa.eu'', pu_username = None, pu_password = None,
     pu_port = None, pu_path = ''/v3/notices/search'', pu_query = [], pu_fragment = []\<rparr>"

section \<open>The response\<close>

record ted_notice =
  tn_number :: string
  tn_fields :: "(string \<times> pyval) list"
  tn_missing :: "string list"

record ted_page =
  tp_source_id :: string
  tp_query :: string
  tp_fields :: "string list"
  tp_total :: int
  tp_notices :: "ted_notice list"
  tp_has_next :: bool
  tp_url :: string
  tp_retrieved_at :: int
  tp_content_hash :: string
  tp_request_hash :: string
  tp_raw :: pyval
  tp_mode :: string

definition publication_number :: "string \<Rightarrow> bool" where
  \<comment> \<open>\<^verbatim>\<open>^[0-9]{1,8}-[0-9]{4}$\<close> with \<^verbatim>\<open>fullmatch\<close>\<close>
  "publication_number s =
     (let a = takeWhile is_digit s; r = dropWhile is_digit s in
      1 \<le> length a \<and> length a \<le> 8 \<and> (case r of c # d \<Rightarrow> c = CHR ''-'' \<and> length d = 4 \<and> list_all is_digit d | [] \<Rightarrow> False))"

definition lookup :: "(string \<times> pyval) list \<Rightarrow> string \<Rightarrow> pyval" where
  \<comment> \<open>\<^verbatim>\<open>d.get(k)\<close>\<close>
  "lookup d k = (case map_of d k of Some v \<Rightarrow> v | None \<Rightarrow> PNone)"

definition project_notice :: "string list \<Rightarrow> pyval \<Rightarrow> (string list \<times> ted_notice) result" where
  \<comment> \<open>one turn of the loop: the publication numbers seen so far, and with it\<close>
  "project_notice seen item = (case item of
     PDict d \<Rightarrow> (case lookup d ''publication-number'' of
        PStr n \<Rightarrow>
          if \<not> publication_number n then ted_error ''TED notice has an invalid publication number''
          else if n \<in> set seen then ted_error ''TED response contains duplicate publication numbers''
          else Inr (n # seen, \<lparr>tn_number = n, tn_fields = map (\<lambda>f. (f, lookup d f)) fixed_fields,
                  tn_missing = filter (\<lambda>f. lookup d f = PNone) fixed_fields\<rparr>)
      | _ \<Rightarrow> ted_error ''TED notice has an invalid publication number'')
   | _ \<Rightarrow> ted_error ''TED notice projection is not an object'')"

fun project_notices :: "string list \<Rightarrow> pyval list \<Rightarrow> ted_notice list result" where
  "project_notices seen [] = Inr []"
| "project_notices seen (x # xs) = bindE (project_notice seen x) (\<lambda>(seen', n).
     bindE (project_notices seen' xs) (\<lambda>ns. Inr (n # ns)))"

definition json_hash :: "pyval \<Rightarrow> string" where
  \<comment> \<open>sorted keys, no spaces, \<^verbatim>\<open>ensure_ascii=False\<close>\<close>
  "json_hash v = sha256_ref (utf8 (json_dumps False v))"

definition from_payload :: "pyval \<Rightarrow> pyval \<Rightarrow> string \<Rightarrow> int \<Rightarrow> string \<Rightarrow> ted_page result" where
  "from_payload payload body url now mode = (case payload of
     PDict d \<Rightarrow>
       (case lookup d ''totalNoticeCount'' of
          PInt total_count \<Rightarrow>
            if total_count < 0 then ted_error ''TED totalNoticeCount cannot be negative'' else
            (case lookup d ''notices'' of
               PList notices \<Rightarrow>
                 if notices = [] then ted_error ''TED technical probe returned no notices''
                 else if 3 < length notices then ted_error ''TED returned more notices than requested''
                 else bindE (project_notices [] notices) (\<lambda>ns.
                   Inr \<lparr>tp_source_id = ted_source_id, tp_query = fixed_query, tp_fields = fixed_fields, tp_total = total_count,
                        tp_notices = ns, tp_has_next = py_truthy (lookup d ''iterationNextToken''), tp_url = url,
                        tp_retrieved_at = now, tp_content_hash = json_hash payload, tp_request_hash = json_hash body,
                        tp_raw = payload, tp_mode = mode\<rparr>)
             | _ \<Rightarrow> ted_error ''TED notices list is missing or invalid'')
        | _ \<Rightarrow> ted_error ''TED totalNoticeCount is missing or invalid'')
   | _ \<Rightarrow> ted_error ''TED Search API response root is not an object'')"

section \<open>Fetching\<close>

record http_reply =
  hr_redirect :: bool
  hr_status :: nat
  hr_content :: string
  hr_content_type :: string
  hr_json :: "pyval option" \<comment> \<open>what \<^verbatim>\<open>response.json()\<close> gives, if it does not raise\<close>
  hr_url :: string

type_synonym http_post = "string \<Rightarrow> pyval \<Rightarrow> string + http_reply" \<comment> \<open>or the class of the \<^verbatim>\<open>HTTPError\<close>\<close>

definition fetch_live :: "http_post \<Rightarrow> int \<Rightarrow> pyval \<Rightarrow> ted_page result" where
  "fetch_live post now body =
     bindE (validate_url endpoint_parts) (\<lambda>_.
     (case post ted_endpoint body of
        Inl name \<Rightarrow> ted_error (''TED Search API request failed: '' @ name)
      | Inr r \<Rightarrow>
        if hr_redirect r then ted_error ''TED connector refuses redirects''
        else if hr_status r \<noteq> 200 then ted_error (''TED Search API returned unexpected status '' @ str_int (int (hr_status r)))
        else if 1048576 < length (hr_content r) then ted_error ''TED Search API response exceeded the probe size budget''
        else if \<not> contains ''json'' (casefold (hr_content_type r)) then ted_error ''TED Search API response was not JSON''
        else (case hr_json r of
                None \<Rightarrow> ted_error ''TED Search API returned invalid JSON''
              | Some payload \<Rightarrow> from_payload payload body (hr_url r) now ''LIVE_API_TECHNICAL_PROBE'')))"

record ted_connector =
  tc_live :: bool
  tc_fixture :: "pyval option option" \<comment> \<open>no path; or what the file parses to, if it can be read\<close>

definition fetch_probe_page :: "ted_connector \<Rightarrow> http_post \<Rightarrow> int \<Rightarrow> ted_page result" where
  "fetch_probe_page c post now =
     bindE build_request_body (\<lambda>body.
     if tc_live c then fetch_live post now body else
     (case tc_fixture c of
        None \<Rightarrow> ted_error ''Live TED retrieval is disabled and no frozen fixture was provided''
      | Some None \<Rightarrow> ted_error ''Frozen TED fixture is unreadable or invalid''
      | Some (Some payload) \<Rightarrow> from_payload payload body ted_endpoint now ''FROZEN_FIXTURE''))"

section \<open>What an accepted page holds\<close>

definition notice_ok :: "ted_notice \<Rightarrow> bool" where
  "notice_ok n \<longleftrightarrow> publication_number (tn_number n) \<and> map fst (tn_fields n) = fixed_fields
     \<and> lookup (tn_fields n) ''publication-number'' = PStr (tn_number n)
     \<and> tn_missing n = filter (\<lambda>f. lookup (tn_fields n) f = PNone) fixed_fields"

definition page_ok :: "ted_page \<Rightarrow> bool" where
  "page_ok p \<longleftrightarrow> tp_source_id p = ted_source_id \<and> tp_fields p = fixed_fields \<and> 0 \<le> tp_total p
     \<and> 1 \<le> length (tp_notices p) \<and> length (tp_notices p) \<le> 3 \<and> distinct (map tn_number (tp_notices p))
     \<and> list_all notice_ok (tp_notices p)"

lemma lookup_tabulated: "lookup (map (\<lambda>f. (f, g f)) fs) f = (if f \<in> set fs then g f else PNone)"
  by (induction fs) (auto simp: lookup_def)

lemma project_notice_ok:
  assumes "project_notice seen item = Inr (seen', n)"
  obtains d where "item = PDict d" "tn_fields n = map (\<lambda>f. (f, lookup d f)) fixed_fields"
    "notice_ok n" "tn_number n \<notin> set seen" "seen' = tn_number n # seen"
proof -
  from assms obtain d where d: "item = PDict d" by (cases item) (simp_all add: project_notice_def ted_error_def)
  from assms obtain s where s: "lookup d ''publication-number'' = PStr s"
    by (cases "lookup d ''publication-number''") (simp_all add: project_notice_def ted_error_def d)
  from assms have g: "publication_number s" "s \<notin> set seen" "seen' = s # seen"
    and n: "n = \<lparr>tn_number = s, tn_fields = map (\<lambda>f. (f, lookup d f)) fixed_fields,
        tn_missing = filter (\<lambda>f. lookup d f = PNone) fixed_fields\<rparr>"
    by (auto simp: project_notice_def ted_error_def d s split: if_splits)
  have "notice_ok n"
    using g(1) s by (simp add: notice_ok_def n lookup_tabulated comp_def) (simp add: fixed_fields_def)
  then show ?thesis using that d g by (simp add: n)
qed

lemma project_notices_ok:
  assumes "project_notices seen items = Inr ns"
  shows "length ns = length items \<and> list_all notice_ok ns \<and> distinct (map tn_number ns)
    \<and> set (map tn_number ns) \<inter> set seen = {}
    \<and> list_all2 (\<lambda>item n. \<exists>d. item = PDict d \<and> tn_fields n = map (\<lambda>f. (f, lookup d f)) fixed_fields) items ns"
  using assms
proof (induction items arbitrary: seen ns)
  case (Cons x xs)
  from Cons.prems obtain seen' n ms where x: "project_notice seen x = Inr (seen', n)"
    and ms: "project_notices seen' xs = Inr ms" "ns = n # ms"
    by (auto simp: bindE_eq_Inr)
  obtain d where d: "x = PDict d" "tn_fields n = map (\<lambda>f. (f, lookup d f)) fixed_fields"
    "notice_ok n" "tn_number n \<notin> set seen" "seen' = tn_number n # seen"
    by (rule project_notice_ok [OF x]) (rule that)
  show ?case using Cons.IH [OF ms(1)] d ms(2) by auto
qed simp

lemma from_payload_elim:
  assumes "from_payload payload body url now mode = Inr p"
  obtains d items where "payload = PDict d" "lookup d ''notices'' = PList items" "project_notices [] items = Inr (tp_notices p)"
    "page_ok p" "tp_content_hash p = json_hash payload" "tp_request_hash p = json_hash body" "tp_raw p = payload"
proof -
  from assms obtain d where d: "payload = PDict d" by (cases payload) (simp_all add: from_payload_def ted_error_def)
  from assms obtain n where n: "lookup d ''totalNoticeCount'' = PInt n"
    by (cases "lookup d ''totalNoticeCount''") (simp_all add: from_payload_def ted_error_def d)
  from assms obtain items where items: "lookup d ''notices'' = PList items" "0 \<le> n"
    by (cases "lookup d ''notices''") (simp_all add: from_payload_def ted_error_def d n split: if_splits)
  from assms obtain ns where ns: "project_notices [] items = Inr ns" "items \<noteq> []" "length items \<le> 3"
    and p: "p = \<lparr>tp_source_id = ted_source_id, tp_query = fixed_query, tp_fields = fixed_fields, tp_total = n,
        tp_notices = ns, tp_has_next = py_truthy (lookup d ''iterationNextToken''), tp_url = url,
        tp_retrieved_at = now, tp_content_hash = json_hash payload, tp_request_hash = json_hash body,
        tp_raw = payload, tp_mode = mode\<rparr>"
    by (auto simp: from_payload_def ted_error_def d n items bindE_eq_Inr split: if_splits)
  have "page_ok p"
    using project_notices_ok [OF ns(1)] ns items(2) by (cases items) (simp_all add: p page_ok_def)
  then show ?thesis using that d items(1) ns(1) by (simp add: p)
qed

lemma validate_url_iff:
  "validate_url u = Inr () \<longleftrightarrow> pu_scheme u = ''https'' \<and> pu_hostname u = Some ''api.ted.europa.eu''
     \<and> \<not> present (pu_username u) \<and> \<not> present (pu_password u) \<and> (pu_port u = None \<or> pu_port u = Some 443)
     \<and> pu_path u = ''/v3/notices/search'' \<and> pu_query u = [] \<and> pu_fragment u = []"
  unfolding validate_url_def ted_error_def by (auto split: if_splits)

lemma build_request_body_ok: "\<exists>body. build_request_body = Inr body"
  by (simp add: build_request_body_def) (simp add: prohibited_field_tokens_def fixed_fields_def casefold_def code_def
      lower_char_def is_ascii_upper_def is_latin_upper_def starts_with_def)

end
