(* ===== verification/TedArtifacts.thy ===== *)
theory TedArtifacts
  imports TedSearch
begin

text \<open>
  The evidence and the candidates made of a TED page, the sanitised projection and the admission gates
  (\<^verbatim>\<open>ted_runtime.py\<close>), and what holds of every page the connector accepts.
\<close>

section \<open>Artifacts\<close>

definition ted_policy :: string where
  "ted_policy = ''ted-search-observed-field@0.1.0''"

definition ted_profile :: string where
  "ted_profile = ''ted-search-non-personal-projection@0.1.0''"

definition ted_rights :: string where
  "ted_rights = ''COMMERCIAL_REUSE_WITH_ATTRIBUTION''"

definition prohibited_tokens :: "string list" where
  "prohibited_tokens = [''contact'', ''email'', ''person'', ''phone'', ''telephone'']"

definition field_predicates :: "(string \<times> string) list" where
  "field_predicates = [(''publication-number'', ''procurement_notice_publication_number''),
     (''notice-title'', ''procurement_notice_title''), (''buyer-name'', ''procurement_buyer_official_name''),
     (''notice-type'', ''procurement_notice_type'')]"

record ted_evidence =
  te_key :: string
  te_title :: string
  te_relationship :: string
  te_subject :: string
  te_predicate :: string
  te_observed_at :: int
  te_payload :: "(string \<times> pyval) list"
  te_content_hash :: string
  te_rights :: string

record ted_candidate =
  td_fingerprint :: string
  td_opportunity :: string
  td_subject :: string
  td_predicate :: string
  td_object :: "(string \<times> pyval) list"
  td_statement :: string
  td_kind :: string
  td_producer_type :: string
  td_producer_id :: string
  td_method :: string

record ted_decision =
  ta_admitted :: bool
  ta_policy :: string
  ta_reasons :: "string list"
  ta_class :: "string option"

fun json_spaced :: "bool \<Rightarrow> pyval \<Rightarrow> string" where
  \<comment> \<open>\<^verbatim>\<open>json.dumps(v, sort_keys=True)\<close> with the default separators\<close>
  "json_spaced a PNone = ''null''"
| "json_spaced a (PBool b) = (if b then ''true'' else ''false'')"
| "json_spaced a (PInt i) = str_int i"
| "json_spaced a (PFloat r) = r"
| "json_spaced a (PStr s) = json_str a s"
| "json_spaced a (PList vs) = ''['' @ join '', '' (map (json_spaced a) vs) @ '']''"
| "json_spaced a (PTuple vs) = ''['' @ join '', '' (map (json_spaced a) vs) @ '']''"
| "json_spaced a (PDict kvs) =
     ''{'' @ join '', '' (map (\<lambda>(k, s). json_str a k @ '': '' @ s)
               (sort_key fst (map (\<lambda>(k, v). (k, json_spaced a v)) kvs))) @ ''}''"

definition inked :: "pyval \<Rightarrow> bool" where
  "inked v = (case v of PStr s \<Rightarrow> strip s \<noteq> [] | _ \<Rightarrow> False)"

definition display_value :: "pyval \<Rightarrow> string" where
  "display_value v = (case v of
     PStr s \<Rightarrow> s
   | PDict d \<Rightarrow> (case find inked ([lookup d ''spa'', lookup d ''eng''] @ map snd d) of
        Some (PStr s) \<Rightarrow> strip s | _ \<Rightarrow> json_spaced False v)
   | _ \<Rightarrow> json_spaced False v)"

definition ted_statement :: "string \<Rightarrow> string \<Rightarrow> pyval \<Rightarrow> string result" where
  "ted_statement number field value =
     (let displayed = display_value value in
      if field = ''publication-number''
      then Inr (''TED identifica el anuncio publicado con el n'' @ [CHR 0xFA] @ ''mero '' @ number @ ''.'')
      else if field = ''notice-title''
      then Inr (''El anuncio TED '' @ number @ '' declara el t'' @ [CHR 0xED] @ ''tulo: '' @ displayed @ ''.'')
      else if field = ''buyer-name''
      then Inr (''El anuncio TED '' @ number @ '' identifica al comprador: '' @ displayed @ ''.'')
      else if field = ''notice-type''
      then Inr (''El anuncio TED '' @ number @ '' declara el tipo de aviso: '' @ displayed @ ''.'')
      else Inl (ValueError ''TED field is outside the admitted profile''))"

definition subject_id :: "string \<Rightarrow> string" where
  "subject_id number = ''ted_notice_'' @ map (\<lambda>c. if c = CHR ''-'' then CHR ''_'' else c) number"

definition ted_object :: "ted_page \<Rightarrow> ted_notice \<Rightarrow> string \<Rightarrow> pyval \<Rightarrow> (string \<times> pyval) list" where
  "ted_object page n field v = [(''publication_number'', PStr (tn_number n)), (''field'', PStr field), (''value'', v),
     (''source_request_hash'', PStr (tp_request_hash page))]"

definition evidence_key :: "ted_page \<Rightarrow> string \<Rightarrow> string \<Rightarrow> (string \<times> pyval) list \<Rightarrow> string" where
  "evidence_key page subject predicate obj = json_hash (PDict
     [(''source_id'', PStr ted_source_id), (''subject_id'', PStr subject), (''predicate'', PStr predicate),
      (''object_value'', PDict obj), (''source_content_hash'', PStr (tp_content_hash page)), (''profile_id'', PStr ted_profile)])"

definition make_evidence :: "ted_page \<Rightarrow> ted_notice \<Rightarrow> string \<Rightarrow> string \<Rightarrow> string \<Rightarrow> pyval \<Rightarrow> ted_evidence" where
  "make_evidence page n field predicate statement v =
     (let obj = ted_object page n field v; key = evidence_key page (subject_id (tn_number n)) predicate obj in
      \<lparr>te_key = key, te_title = ''TED '' @ tn_number n @ '' '' @ [CHR 0xB7] @ '' '' @ field, te_relationship = ''SUPPORT'',
       te_subject = subject_id (tn_number n), te_predicate = predicate, te_observed_at = tp_retrieved_at page, te_payload = obj,
       te_content_hash = json_hash (PDict [(''evidence_key'', PStr key), (''statement'', PStr statement),
          (''source_content_hash'', PStr (tp_content_hash page))]),
       te_rights = ted_rights\<rparr>)"

definition make_candidate ::
    "ted_page \<Rightarrow> string \<Rightarrow> ted_notice \<Rightarrow> string \<Rightarrow> string \<Rightarrow> string \<Rightarrow> pyval \<Rightarrow> ted_candidate" where
  "make_candidate page opportunity n field predicate statement v =
     (let obj = ted_object page n field v; subject = subject_id (tn_number n);
          key = evidence_key page subject predicate obj in
      \<lparr>td_fingerprint = json_hash (PDict [(''subject_id'', PStr subject), (''predicate'', PStr predicate),
          (''object_value'', PDict obj), (''evidence_key'', PStr key), (''method_version'', PStr ted_policy)]),
       td_opportunity = opportunity, td_subject = subject, td_predicate = predicate, td_object = obj,
       td_statement = statement, td_kind = ''FACT'', td_producer_type = ''DETERMINISTIC_PARSER'',
       td_producer_id = ''ted-search-projection-parser'', td_method = ted_policy\<rparr>)"

record artifacts =
  ar_seen :: "(string \<times> string) list"
  ar_evidence :: "ted_evidence list"
  ar_candidates :: "ted_candidate list"

definition artifact_step :: "ted_page \<Rightarrow> string \<Rightarrow> artifacts \<Rightarrow> ted_notice \<times> string \<Rightarrow> artifacts result" where
  "artifact_step page opportunity s nf =
     (let n = fst nf; field = snd nf; v = lookup (tn_fields n) field in
      if v = PNone then Inr s
      else if list_ex (\<lambda>t. contains t (casefold field)) prohibited_tokens
      then Inl (ValueError ''TED field includes prohibited personal-data semantics'')
      else (case map_of field_predicates field of
          None \<Rightarrow> Inl (KeyError (repr_str field))
        | Some predicate \<Rightarrow>
          if (subject_id (tn_number n), predicate) \<in> set (ar_seen s)
          then Inl (ValueError ''Duplicate TED subject and predicate binding'')
          else bindE (ted_statement (tn_number n) field v) (\<lambda>statement.
            Inr \<lparr>ar_seen = ar_seen s @ [(subject_id (tn_number n), predicate)],
                 ar_evidence = ar_evidence s @ [make_evidence page n field predicate statement v],
                 ar_candidates = ar_candidates s @ [make_candidate page opportunity n field predicate statement v]\<rparr>)))"

definition field_turns :: "ted_page \<Rightarrow> (ted_notice \<times> string) list" where
  \<comment> \<open>the turns of the two loops\<close>
  "field_turns page = concat (map (\<lambda>n. map (\<lambda>f. (n, f)) fixed_fields) (tp_notices page))"

definition build_ted_search_artifacts :: "ted_page \<Rightarrow> string \<Rightarrow> (ted_evidence list \<times> ted_candidate list) result" where
  "build_ted_search_artifacts page opportunity =
     (if tp_source_id page \<noteq> ted_source_id then Inl (ValueError ''TED page source identifier is outside the admitted profile'')
      else if tp_fields page \<noteq> fixed_fields then Inl (ValueError ''TED requested fields differ from the admitted allowlist'')
      else if 3 < length (tp_notices page) then Inl (ValueError ''TED page exceeds the admitted notice budget'')
      else bindE (foldE (artifact_step page opportunity) \<lparr>ar_seen = [], ar_evidence = [], ar_candidates = []\<rparr> (field_turns page)) (\<lambda>s.
        if ar_evidence s = [] then Inl (ValueError ''TED projection produced no admissible evidence'')
        else Inr (ar_evidence s, ar_candidates s)))"

definition sanitised_projection :: "ted_page \<Rightarrow> pyval" where
  "sanitised_projection page = PDict
     [(''source_id'', PStr (tp_source_id page)), (''query'', PStr (tp_query page)),
      (''requested_fields'', PStrs (tp_fields page)), (''total_notice_count'', PInt (tp_total page)),
      (''notices'', PList (map (\<lambda>n. PDict (filter (\<lambda>(f, v). v \<noteq> PNone)
          (map (\<lambda>f. (f, lookup (tn_fields n) f)) fixed_fields))) (tp_notices page))),
      (''retrieval_mode'', PStr (tp_mode page))]"

section \<open>Admission\<close>

definition reason_if :: "bool \<Rightarrow> string \<Rightarrow> string list" where
  "reason_if b r = (if b then [r] else [])"

definition source_reasons :: "(string \<times> pyval) list \<Rightarrow> string list" where
  \<comment> \<open>the gates on the source, in their order\<close>
  "source_reasons source =
     (let config = (case lookup source ''config'' of PDict d \<Rightarrow> d | _ \<Rightarrow> []) in
      reason_if (\<not> py_eq (lookup source ''source_id'') (PStr ted_source_id)) ''unexpected_source''
      @ reason_if (\<not> py_eq (lookup source ''admission_state'') (PStr ''ADMITTED'')) ''source_not_admitted''
      @ reason_if (py_truthy (lookup source ''kill_switch'')) ''source_kill_switch_enabled''
      @ reason_if (\<not> py_eq (lookup source ''rights_status'') (PStr ted_rights)) ''rights_not_commercially_reusable''
      @ reason_if (\<not> py_truthy (lookup source ''commercial_use'')) ''commercial_use_not_permitted''
      @ reason_if (\<not> py_eq (lookup config ''product_profile'') (PStr ted_profile)) ''product_profile_not_admitted''
      @ reason_if (lookup config ''api_redistribution_allowed'' \<noteq> PBool False) ''api_redistribution_guard_missing'')"

definition evaluate_ted_observed_field :: "(string \<times> pyval) list \<Rightarrow> ted_evidence \<Rightarrow> ted_candidate \<Rightarrow> ted_decision" where
  "evaluate_ted_observed_field source e c =
     (let reasons = source_reasons source
        @ reason_if (td_kind c \<noteq> ''FACT'') ''candidate_not_observed_fact''
        @ reason_if (td_producer_type c \<noteq> ''DETERMINISTIC_PARSER'') ''generative_producer_cannot_auto_admit''
        @ reason_if (td_predicate c \<notin> snd ` set field_predicates) ''predicate_outside_profile''
        @ reason_if (td_predicate c \<noteq> te_predicate e) ''candidate_evidence_predicate_mismatch''
        @ reason_if (td_subject c \<noteq> te_subject e) ''candidate_evidence_subject_mismatch''
        @ reason_if (\<not> py_eq (PDict (td_object c)) (PDict (te_payload e))) ''candidate_evidence_value_mismatch''
        @ reason_if (\<not> py_eq (PStr (te_rights e)) (lookup source ''rights_status'')) ''evidence_rights_snapshot_mismatch''
        @ reason_if (\<not> starts_with ''sha256:'' (te_content_hash e)) ''evidence_hash_missing''
        @ reason_if (\<not> list_ex (\<lambda>f. py_eq (lookup (te_payload e) ''field'') (PStr f)) fixed_fields) ''evidence_field_outside_allowlist''
      in \<lparr>ta_admitted = (reasons = []), ta_policy = ted_policy,
          ta_reasons = (if reasons = [] then [''all_ted_projection_gates_passed''] else reasons),
          ta_class = (if reasons = [] then Some ''OBSERVED_FACT'' else None)\<rparr>)"

definition decision_as_json :: "ted_decision \<Rightarrow> pyval" where
  "decision_as_json d = PDict [(''admitted'', PBool (ta_admitted d)), (''policy_version'', PStr (ta_policy d)),
     (''reasons'', PStrs (ta_reasons d)), (''epistemic_class'', opt_str (ta_class d))]"

section \<open>Every field of an accepted page becomes one artifact\<close>

definition valued :: "ted_notice \<times> string \<Rightarrow> bool" where
  "valued nf \<longleftrightarrow> lookup (tn_fields (fst nf)) (snd nf) \<noteq> PNone"

definition predicate_of :: "string \<Rightarrow> string" where
  "predicate_of f = the (map_of field_predicates f)"

definition binding :: "ted_notice \<times> string \<Rightarrow> string \<times> string" where
  "binding nf = (subject_id (tn_number (fst nf)), predicate_of (snd nf))"

definition statement_of :: "ted_notice \<times> string \<Rightarrow> string" where
  "statement_of nf = (case ted_statement (tn_number (fst nf)) (snd nf) (lookup (tn_fields (fst nf)) (snd nf)) of Inr s \<Rightarrow> s | Inl _ \<Rightarrow> [])"

definition field_evidence :: "ted_page \<Rightarrow> ted_notice \<times> string \<Rightarrow> ted_evidence" where
  "field_evidence page nf = make_evidence page (fst nf) (snd nf) (predicate_of (snd nf)) (statement_of nf)
     (lookup (tn_fields (fst nf)) (snd nf))"

definition field_candidate :: "ted_page \<Rightarrow> string \<Rightarrow> ted_notice \<times> string \<Rightarrow> ted_candidate" where
  "field_candidate page opportunity nf = make_candidate page opportunity (fst nf) (snd nf) (predicate_of (snd nf)) (statement_of nf)
     (lookup (tn_fields (fst nf)) (snd nf))"

lemma fixed_field_facts:
  assumes "f \<in> set fixed_fields"
  shows "\<not> list_ex (\<lambda>t. contains t (casefold f)) prohibited_tokens" "map_of field_predicates f = Some (predicate_of f)"
    "predicate_of f \<in> snd ` set field_predicates" "\<exists>s. ted_statement n f v = Inr s"
proof -
  from assms consider "f = ''publication-number''" | "f = ''notice-title''" | "f = ''buyer-name''" | "f = ''notice-type''"
    by (auto simp: fixed_fields_def)
  note cases = this
  show "\<not> list_ex (\<lambda>t. contains t (casefold f)) prohibited_tokens"
    by (rule cases; simp add: prohibited_tokens_def casefold_def code_def lower_char_def is_ascii_upper_def
        is_latin_upper_def starts_with_def)
  show "map_of field_predicates f = Some (predicate_of f)" "predicate_of f \<in> snd ` set field_predicates"
    by (rule cases; simp add: predicate_of_def field_predicates_def)+
  show "\<exists>s. ted_statement n f v = Inr s"
    by (rule cases; simp add: ted_statement_def Let_def)
qed

lemma artifact_loop:
  assumes "\<And>nf. nf \<in> set xs \<Longrightarrow> snd nf \<in> set fixed_fields"
    and "distinct (map binding (filter valued xs))" and "set (map binding (filter valued xs)) \<inter> set (ar_seen s) = {}"
  shows "foldE (artifact_step page opportunity) s xs = Inr \<lparr>ar_seen = ar_seen s @ map binding (filter valued xs),
    ar_evidence = ar_evidence s @ map (field_evidence page) (filter valued xs),
    ar_candidates = ar_candidates s @ map (field_candidate page opportunity) (filter valued xs)\<rparr>"
  using assms
proof (induction xs arbitrary: s)
  case Nil
  then show ?case by simp
next
  case (Cons nf xs)
  obtain n f where nf: "nf = (n, f)" by (cases nf)
  have f: "f \<in> set fixed_fields" using Cons.prems(1) [of nf] nf by simp
  show ?case
  proof (cases "valued nf")
    case False
    then have "artifact_step page opportunity s nf = Inr s"
      by (simp add: artifact_step_def valued_def)
    then show ?thesis using Cons False by simp
  next
    case True
    let ?s = "\<lparr>ar_seen = ar_seen s @ [binding nf], ar_evidence = ar_evidence s @ [field_evidence page nf],
        ar_candidates = ar_candidates s @ [field_candidate page opportunity nf]\<rparr>"
    obtain st where st: "ted_statement (tn_number n) f (lookup (tn_fields n) f) = Inr st" using fixed_field_facts(4) [OF f] by blast
    have "artifact_step page opportunity s nf = Inr ?s"
      using True Cons.prems(3) fixed_field_facts(1,2) [OF f] st
      by (simp add: artifact_step_def nf valued_def binding_def field_evidence_def field_candidate_def statement_of_def Let_def)
    moreover have "foldE (artifact_step page opportunity) ?s xs = Inr \<lparr>ar_seen = ar_seen ?s @ map binding (filter valued xs),
      ar_evidence = ar_evidence ?s @ map (field_evidence page) (filter valued xs),
      ar_candidates = ar_candidates ?s @ map (field_candidate page opportunity) (filter valued xs)\<rparr>"
      by (rule Cons.IH) (use Cons.prems True in auto)
    ultimately show ?thesis using True by simp
  qed
qed

lemma publication_number_chars: "publication_number s \<Longrightarrow> CHR ''_'' \<notin> set s"
proof
  assume s: "publication_number s" and m: "CHR ''_'' \<in> set s"
  have "\<not> is_digit (CHR ''_'')" by (simp add: is_digit_def code_def)
  moreover obtain d where "dropWhile is_digit s = CHR ''-'' # d" "list_all is_digit d"
    using s by (auto simp: publication_number_def Let_def split: list.splits)
  moreover have "set s = set (takeWhile is_digit s) \<union> set (dropWhile is_digit s)"
    by (metis set_append takeWhile_dropWhile_id)
  ultimately show False using m by (auto simp: list_all_iff dest: set_takeWhileD)
qed

lemma subject_id_inj:
  assumes "publication_number a" "publication_number b" "subject_id a = subject_id b"
  shows "a = b"
proof -
  let ?f = "\<lambda>c. if c = CHR ''-'' then CHR ''_'' else c"
  have "map ?f a = map ?f b" using assms(3) by (simp add: subject_id_def)
  moreover have "inj_on ?f (set a \<union> set b)"
    using publication_number_chars [OF assms(1)] publication_number_chars [OF assms(2)] by (auto simp: inj_on_def)
  ultimately show ?thesis by (rule map_inj_on)
qed

lemma turns_distinct:
  assumes "page_ok page"
  shows "distinct (map binding (field_turns page))"
proof -
  have preds: "distinct (map predicate_of fixed_fields)"
    by (simp add: predicate_of_def fixed_fields_def field_predicates_def)
  have "distinct (map binding (concat (map (\<lambda>n. map (\<lambda>f. (n, f)) fixed_fields) ns)))"
    if "distinct (map tn_number ns)" "list_all notice_ok ns" for ns
    using that
  proof (induction ns)
    case (Cons n ns)
    have apart: "subject_id (tn_number n) \<noteq> subject_id (tn_number m)" if "m \<in> set ns" for m
    proof -
      have "tn_number m \<noteq> tn_number n" using Cons.prems(1) imageI [OF that, of tn_number] by auto
      moreover have "publication_number (tn_number m)" "publication_number (tn_number n)"
        using Cons.prems(2) that by (auto simp: list_all_iff notice_ok_def)
      ultimately show ?thesis using subject_id_inj by metis
    qed
    have "set (map binding (map (\<lambda>f. (n, f)) fixed_fields))
        \<inter> set (map binding (concat (map (\<lambda>n. map (\<lambda>f. (n, f)) fixed_fields) ns))) = {}"
      using apart by (fastforce simp: binding_def)
    moreover have "distinct (map binding (map (\<lambda>f. (n, f)) fixed_fields))"
      using preds by (auto simp: binding_def comp_def distinct_map inj_on_def)
    ultimately show ?case using Cons by simp
  qed simp
  then show ?thesis using assms by (simp add: field_turns_def page_ok_def)
qed

lemma page_artifacts:
  assumes "page_ok page"
  shows "build_ted_search_artifacts page opportunity = Inr (map (field_evidence page) (filter valued (field_turns page)),
      map (field_candidate page opportunity) (filter valued (field_turns page)))"
    and "length (tp_notices page) \<le> length (filter valued (field_turns page))"
proof -
  have turns: "\<And>nf. nf \<in> set (field_turns page) \<Longrightarrow> snd nf \<in> set fixed_fields" by (auto simp: field_turns_def)
  have filtered: "distinct (map binding (filter valued (field_turns page)))"
    using turns_distinct [OF assms] by (simp add: distinct_map_filter)
  have first: "''publication-number'' \<in> set fixed_fields" by (simp add: fixed_fields_def)
  have "length ns \<le> length (filter valued (concat (map (\<lambda>n. map (\<lambda>f. (n, f)) fixed_fields) ns)))"
    if "list_all notice_ok ns" for ns
    using that
  proof (induction ns)
    case (Cons n ns)
    let ?here = "filter valued (map (\<lambda>f. (n, f)) fixed_fields)"
    let ?rest = "filter valued (concat (map (\<lambda>n. map (\<lambda>f. (n, f)) fixed_fields) ns))"
    have "(n, ''publication-number'') \<in> set ?here"
      using Cons.prems first by (auto simp: notice_ok_def valued_def)
    then have "0 < length ?here" by (metis length_pos_if_in_set)
    moreover have "length ns \<le> length ?rest" using Cons by simp
    ultimately have "length (n # ns) \<le> length (?here @ ?rest)" by (simp only: length_append length_Cons)
    then show ?case by (simp only: list.map concat.simps filter_append)
  qed simp
  then show more: "length (tp_notices page) \<le> length (filter valued (field_turns page))"
    using assms by (simp add: page_ok_def field_turns_def)
  then have "filter valued (field_turns page) \<noteq> []" using assms by (auto simp: page_ok_def)
  moreover have "foldE (artifact_step page opportunity) \<lparr>ar_seen = [], ar_evidence = [], ar_candidates = []\<rparr> (field_turns page) =
      Inr \<lparr>ar_seen = map binding (filter valued (field_turns page)),
        ar_evidence = map (field_evidence page) (filter valued (field_turns page)),
        ar_candidates = map (field_candidate page opportunity) (filter valued (field_turns page))\<rparr>"
    by (subst artifact_loop [OF turns filtered]) simp_all
  ultimately show "build_ted_search_artifacts page opportunity = Inr (map (field_evidence page) (filter valued (field_turns page)),
      map (field_candidate page opportunity) (filter valued (field_turns page)))"
    using assms by (simp add: build_ted_search_artifacts_def page_ok_def)
qed

lemma rights_match: "py_eq v (PStr s) \<Longrightarrow> py_eq (PStr s) v"
  by (cases v) (auto simp: number_of_def)

lemma artifact_decision:
  assumes nf: "snd nf \<in> set fixed_fields" and v: "keyed (lookup (tn_fields (fst nf)) (snd nf))"
  shows "ta_admitted (evaluate_ted_observed_field source (field_evidence page nf) (field_candidate page opportunity nf)) \<longleftrightarrow> source_reasons source = []"
proof -
  let ?e = "field_evidence page nf" and ?c = "field_candidate page opportunity nf"
  have obj: "td_object ?c = te_payload ?e" "te_payload ?e = ted_object page (fst nf) (snd nf) (lookup (tn_fields (fst nf)) (snd nf))"
    by (simp_all add: field_evidence_def field_candidate_def make_evidence_def make_candidate_def Let_def)
  have "keyed (PDict (te_payload ?e))" using v by (simp add: obj ted_object_def)
  then have same: "py_eq (PDict (td_object ?c)) (PDict (te_payload ?e))" unfolding obj(1) by (rule py_eq_refl)
  have field: "list_ex (\<lambda>f. py_eq (lookup (te_payload ?e) ''field'') (PStr f)) fixed_fields"
    using nf by (auto simp: obj ted_object_def lookup_def list_ex_iff)
  have rest: "td_kind ?c = ''FACT''" "td_producer_type ?c = ''DETERMINISTIC_PARSER''" "td_predicate ?c = te_predicate ?e"
    "td_subject ?c = te_subject ?e" "te_rights ?e = ted_rights" "td_predicate ?c \<in> snd ` set field_predicates"
    "starts_with ''sha256:'' (te_content_hash ?e)"
    using fixed_field_facts(3) [OF nf]
    by (simp_all add: field_evidence_def field_candidate_def make_evidence_def make_candidate_def Let_def json_hash_def
        sha256_ref_def starts_with_def)
  have rights: "py_eq (PStr ted_rights) (lookup source ''rights_status'')" if "source_reasons source = []"
    using that by (auto simp: source_reasons_def reason_if_def Let_def split: if_splits)
      (metis py_eq.simps(2) rights_match)
  show ?thesis
    using same field rest rights by (auto simp: evaluate_ted_observed_field_def Let_def reason_if_def)
qed

lemma list_all2_refl_on: "(\<And>x. x \<in> set xs \<Longrightarrow> P x x) \<Longrightarrow> list_all2 P xs xs"
  by (induction xs) auto

lemma keyed_lookup: "keyed (PDict d) \<Longrightarrow> keyed (lookup d k)"
proof (cases "map_of d k")
  case (Some v)
  assume "keyed (PDict d)"
  moreover have "(k, v) \<in> set d" using Some by (rule map_of_SomeD)
  ultimately show ?thesis using Some by (force simp: lookup_def list_all_iff)
qed (simp add: lookup_def)

lemma fetched_elim:
  assumes "fetch_probe_page c post now = Inr page"
  obtains body payload url mode where "from_payload payload body url now mode = Inr page"
proof -
  obtain body where body: "build_request_body = Inr body" using build_request_body_ok by blast
  show ?thesis
  proof (cases "tc_live c")
    case True
    then have live: "fetch_live post now body = Inr page" using assms unfolding fetch_probe_page_def body by simp
    then obtain r where r: "post ted_endpoint body = Inr r"
      by (cases "post ted_endpoint body") (auto simp: fetch_live_def ted_error_def bindE_eq_Inr)
    then show ?thesis using live that
      by (auto simp: fetch_live_def ted_error_def bindE_eq_Inr split: if_splits option.splits)
  next
    case False
    then show ?thesis using assms that unfolding fetch_probe_page_def body
      by (auto simp: ted_error_def split: option.splits)
  qed
qed

section \<open>Guarantees\<close>

text \<open>C31: Whatever the TED service or the fixture returns, a page the connector accepts stays inside its profile:
  one to three notices, each with a publication number of one to eight digits, a hyphen and four digits, no
  number twice, exactly the four requested fields with the missing ones listed, and the hash of the
  canonical text of the raw payload.\<close>

theorem fetched_page_within_profile:
  assumes "fetch_probe_page c post now = Inr page"
  shows "page_ok page \<and> tp_content_hash page = json_hash (tp_raw page)"
proof -
  from assms obtain body payload url mode where p: "from_payload payload body url now mode = Inr page" by (rule fetched_elim)
  from p show ?thesis by (rule from_payload_elim) simp
qed

text \<open>C34: Every accepted page of a parsed payload yields artifacts, never an error: as many candidates as evidence
  objects, at least one for each notice, all with different subjects and predicates; and the admission gate admits
  each pair exactly when no gate on the source closes, so nothing but the state of the source keeps a field out.\<close>

theorem fetched_page_yields_artifacts:
  assumes "fetch_probe_page c post now = Inr page" and "keyed (tp_raw page)"
  shows "\<exists>ev cs. build_ted_search_artifacts page opportunity = Inr (ev, cs) \<and> length (tp_notices page) \<le> length ev
    \<and> distinct (map (\<lambda>e. (te_subject e, te_predicate e)) ev)
    \<and> list_all2 (\<lambda>e c. ta_admitted (evaluate_ted_observed_field source e c) = (source_reasons source = [])) ev cs"
proof -
  from assms(1) obtain body payload url mode where "from_payload payload body url now mode = Inr page" by (rule fetched_elim)
  then obtain d items where d: "payload = PDict d" "lookup d ''notices'' = PList items"
    "project_notices [] items = Inr (tp_notices page)" "page_ok page" "tp_raw page = payload"
    by (rule from_payload_elim) (rule that)
  let ?turns = "filter valued (field_turns page)"
  have "keyed (PList items)" using keyed_lookup [of d "''notices''"] assms(2) d by simp
  then have keyed: "keyed (lookup (tn_fields n) f)" if "n \<in> set (tp_notices page)" for n f
  proof -
    have all: "list_all2 (\<lambda>item n. \<exists>d. item = PDict d \<and> tn_fields n = map (\<lambda>f. (f, lookup d f)) fixed_fields) items (tp_notices page)"
      using project_notices_ok [OF d(3)] by blast
    from that obtain k where k: "k < length (tp_notices page)" "tp_notices page ! k = n" by (auto simp: in_set_conv_nth)
    obtain e where e: "items ! k = PDict e" "tn_fields n = map (\<lambda>f. (f, lookup e f)) fixed_fields"
      using list_all2_nthD2 [OF all k(1)] k(2) by blast
    have "items ! k \<in> set items" using k(1) list_all2_lengthD [OF all] by simp
    then have "keyed (PDict e)" using \<open>keyed (PList items)\<close> e(1) by (metis keyed.simps(1) list_all_iff)
    then show ?thesis using keyed_lookup e(2) by (simp add: lookup_tabulated)
  qed
  have turn: "fst nf \<in> set (tp_notices page) \<and> snd nf \<in> set fixed_fields" if "nf \<in> set ?turns" for nf
    using that by (auto simp: field_turns_def)
  have "map (\<lambda>e. (te_subject e, te_predicate e)) (map (field_evidence page) ?turns) = map binding ?turns"
    by (simp add: field_evidence_def make_evidence_def binding_def Let_def)
  then have apart: "distinct (map (\<lambda>e. (te_subject e, te_predicate e)) (map (field_evidence page) ?turns))"
    using turns_distinct [OF d(4)] by (simp only: distinct_map_filter)
  have "list_all2 (\<lambda>e c. ta_admitted (evaluate_ted_observed_field source e c) = (source_reasons source = []))
      (map (field_evidence page) ?turns) (map (field_candidate page opportunity) ?turns)"
    unfolding list_all2_map1 list_all2_map2
    by (rule list_all2_refl_on) (use turn keyed artifact_decision in blast)
  then show ?thesis using page_artifacts(1) [OF d(4), where opportunity = opportunity] page_artifacts(2) [OF d(4)] apart
    by (intro exI [of _ "map (field_evidence page) ?turns"] exI [of _ "map (field_candidate page opportunity) ?turns"]) simp
qed

definition sample_payload :: pyval where
  "sample_payload = PDict [(''totalNoticeCount'', PInt 1), (''notices'', PList [PDict [(''publication-number'', PStr ''12-2026''),
     (''notice-type'', PStr ''cn-standard'')]])]"

definition sample_connector :: ted_connector where
  "sample_connector = \<lparr>tc_live = False, tc_fixture = Some (Some sample_payload)\<rparr>"

lemma sample_page: "\<exists>page. fetch_probe_page sample_connector post now = Inr page \<and> tp_raw page = sample_payload"
proof -
  obtain body where body: "build_request_body = Inr body" using build_request_body_ok by blast
  have number: "publication_number ''12-2026''"
    by (simp add: publication_number_def is_digit_def code_def)
  show ?thesis
    using number by (simp add: fetch_probe_page_def body sample_connector_def from_payload_def sample_payload_def lookup_def
        project_notice_def)
qed

lemma fetched_page_within_profile_witness:
  "\<exists>page. fetch_probe_page sample_connector (\<lambda>_ _. Inl []) 0 = Inr page \<and> page_ok page"
  using sample_page [of "\<lambda>_ _. Inl []" 0] fetched_page_within_profile by blast

lemma fetched_page_yields_artifacts_witness:
  "\<exists>page ev cs. fetch_probe_page sample_connector (\<lambda>_ _. Inl []) 0 = Inr page
     \<and> build_ted_search_artifacts page ''opp'' = Inr (ev, cs) \<and> length (tp_notices page) \<le> length ev"
proof -
  obtain page where page: "fetch_probe_page sample_connector (\<lambda>_ _. Inl []) 0 = Inr page" "tp_raw page = sample_payload"
    using sample_page by blast
  have "keyed (tp_raw page)" unfolding page(2) by (simp add: sample_payload_def)
  from fetched_page_yields_artifacts [OF page(1) this, of "''opp''" "[]"] page(1) show ?thesis by blast
qed

end
