(* ===== verification/WorldBank.thy ===== *)
theory WorldBank
  imports TedSearch PyDate
begin

text \<open>
  The World Bank observation: the connector that fetches one indicator and checks the answer
  (\<^verbatim>\<open>connectors/world_bank.py\<close>), and the evidence, the candidate and the gates made of it
  (\<^verbatim>\<open>admission.py\<close>). As for TED, the HTTP client and the fixture reader are given by what they return.
  Instants are seconds since the epoch; a \<^verbatim>\<open>Decimal\<close> is its text.
\<close>

section \<open>Floating point texts\<close>

text \<open>\<^verbatim>\<open>float(i)\<close> of an integer: rounding to 53 significant bits, ties to even.\<close>

fun bit_size :: "nat \<Rightarrow> nat" where
  "bit_size n = (if n = 0 then 0 else Suc (bit_size (n div 2)))"

declare bit_size.simps [simp del]

definition round53 :: "nat \<Rightarrow> nat" where
  "round53 n =
     (let k = bit_size n - 53; q = n div 2 ^ k; r = n mod 2 ^ k in
      if k = 0 then n
      else (if 2 ^ (k - 1) < r \<or> (r = 2 ^ (k - 1) \<and> odd q) then q + 1 else q) * 2 ^ k)"

text \<open>\<^verbatim>\<open>repr\<close> of the float: the shortest decimal that rounds to it, the nearest of those.\<close>

definition shortest_at :: "nat \<Rightarrow> nat \<Rightarrow> nat option" where
  "shortest_at v d =
     (let unit = 10 ^ (length (digits v) - d); lo = v div unit * unit; hi = lo + unit in
      if round53 lo = v \<and> (round53 hi \<noteq> v \<or> v - lo \<le> hi - v) then Some lo
      else if round53 hi = v then Some hi else None)"

definition shortest_decimal :: "nat \<Rightarrow> nat" where
  "shortest_decimal v = (case find (\<lambda>d. shortest_at v d \<noteq> None) [1..<18] of
     Some d \<Rightarrow> the (shortest_at v d) | None \<Rightarrow> v)"

definition pad2 :: "string \<Rightarrow> string" where
  "pad2 s = (if length s < 2 then ''0'' @ s else s)"

definition float_repr :: "nat \<Rightarrow> string" where
  \<comment> \<open>of an integral float\<close>
  "float_repr v =
     (let ds = digits (shortest_decimal v); e = length ds - 1;
          sig = rev (dropWhile (\<lambda>c. c = CHR ''0'') (rev ds)) in
      if length ds \<le> 16 then ds @ ''.0''
      else take 1 sig @ (if 1 < length sig then ''.'' @ drop 1 sig else []) @ ''e+'' @ pad2 (digits e))"

definition float_of_int :: "int \<Rightarrow> string result" where
  \<comment> \<open>\<^verbatim>\<open>str(float(i))\<close>\<close>
  "float_of_int i =
     (let v = round53 (nat (abs i)) in
      if 2 ^ 1024 \<le> v then Inl (OverflowError ''int too large to convert to float'')
      else Inr ((if i < 0 then ''-'' else []) @ float_repr v))"

text \<open>\<^verbatim>\<open>str(Decimal(text))\<close> of a float's text.\<close>

definition finite_decimal_str :: "string \<Rightarrow> string" where
  "finite_decimal_str s =
     (let (sign, u) = (case s of c # r \<Rightarrow> if c = CHR ''-'' then (''-'', r) else ([], s) | [] \<Rightarrow> ([], []));
          ip = takeWhile is_digit u; r = dropWhile is_digit u;
          (fp, t) = (case r of c # q \<Rightarrow> if c = CHR ''.'' then (takeWhile is_digit q, dropWhile is_digit q) else ([], r)
                     | [] \<Rightarrow> ([], []));
          e = (case t of _ # q \<Rightarrow> (case exponent_value q of Some x \<Rightarrow> x | None \<Rightarrow> 0) | [] \<Rightarrow> 0) - int (length fp);
          c = (case dropWhile (\<lambda>c. c = CHR ''0'') (ip @ fp) of [] \<Rightarrow> ''0'' | ds \<Rightarrow> ds);
          left = e + int (length c);
          dot = (if e \<le> 0 \<and> -6 < left then left else 1);
          body = (if dot \<le> 0 then ''0.'' @ replicate (nat (- dot)) (CHR ''0'') @ c
                  else if int (length c) \<le> dot then c @ replicate (nat dot - length c) (CHR ''0'')
                  else take (nat dot) c @ ''.'' @ drop (nat dot) c);
          x = left - dot
      in sign @ body @ (if x = 0 then [] else ''E'' @ (if 0 < x then ''+'' else []) @ str_int x))"

definition decimal_str :: "string \<Rightarrow> string" where
  "decimal_str s = (if s = ''nan'' then ''NaN'' else if s = ''inf'' then ''Infinity'' else if s = ''-inf'' then ''-Infinity''
     else finite_decimal_str s)"

section \<open>The connector\<close>

definition wb_error :: "string \<Rightarrow> 'a result" where
  "wb_error m = Inl (SourceRetrievalError m)"

definition wb_source_id :: string where
  "wb_source_id = ''world-bank-wdi''"

definition wb_country :: string where
  "wb_country = ''RUS''"

definition wb_indicator :: string where
  "wb_indicator = ''FP.CPI.TOTL.ZG''"

record wb_observation =
  wo_source_id :: string
  wo_country_code :: string
  wo_country_name :: string
  wo_indicator_code :: string
  wo_indicator_name :: string
  wo_period :: string
  wo_value :: string \<comment> \<open>the float, by its \<^verbatim>\<open>repr\<close>\<close>
  wo_unit :: string
  wo_url :: string
  wo_retrieved_at :: int
  wo_updated_at :: "string option"
  wo_content_hash :: string
  wo_raw :: pyval
  wo_mode :: string

definition retrieval_key :: "wb_observation \<Rightarrow> string" where
  "retrieval_key x = wo_source_id x @ '':'' @ wo_country_code x @ '':'' @ wo_indicator_code x @ '':'' @ wo_period x @ '':''
     @ wo_content_hash x"

definition wb_request_url :: string where
  "wb_request_url = ''https://api.worldbank.org/v2/country/'' @ wb_country @ ''/indicator/'' @ wb_indicator
     @ ''?format=json&mrnev=5&per_page=5&source=2''"

definition wb_url_parts :: parsed_url where
  "wb_url_parts = \<lparr>pu_scheme = ''https'', pu_hostname = Some ''api.worldbank.org'', pu_username = None, pu_password = None,
     pu_port = None, pu_path = ''/v2/country/'' @ wb_country @ ''/indicator/'' @ wb_indicator,
     pu_query = ''format=json&mrnev=5&per_page=5&source=2'', pu_fragment = []\<rparr>"

definition wb_validate_url :: "parsed_url \<Rightarrow> unit result" where
  "wb_validate_url u =
     (if pu_scheme u \<noteq> ''https'' then wb_error ''World Bank connector requires HTTPS''
      else if pu_hostname u \<noteq> Some ''api.worldbank.org'' then wb_error ''World Bank connector host is outside the allowlist''
      else if present (pu_username u) \<or> present (pu_password u) then wb_error ''World Bank connector URL must not contain credentials''
      else if pu_port u \<notin> {None, Some 443} then wb_error ''World Bank connector refuses non-standard ports''
      else if pu_path u \<noteq> ''/v2/country/'' @ wb_country @ ''/indicator/'' @ wb_indicator
      then wb_error ''World Bank connector path is outside the admitted dataset''
      else Inr ())"

definition is_number :: "pyval \<Rightarrow> bool" where
  \<comment> \<open>\<^verbatim>\<open>isinstance(v, int | float) and not isinstance(v, bool)\<close>\<close>
  "is_number v = (case v of PInt _ \<Rightarrow> True | PFloat _ \<Rightarrow> True | _ \<Rightarrow> False)"

definition admitted_row :: "pyval \<Rightarrow> bool" where
  \<comment> \<open>the row the loop stops at\<close>
  "admitted_row row = (case row of
     PDict r \<Rightarrow> lookup r ''countryiso3code'' = PStr wb_country
       \<and> (case lookup r ''indicator'' of PDict i \<Rightarrow> lookup i ''id'' = PStr wb_indicator | _ \<Rightarrow> False)
       \<and> is_number (lookup r ''value'')
   | _ \<Rightarrow> False)"

definition float_text :: "pyval \<Rightarrow> string result" where
  \<comment> \<open>\<^verbatim>\<open>float(v)\<close> of a number, by its text\<close>
  "float_text v = (case v of PInt i \<Rightarrow> float_of_int i | PFloat r \<Rightarrow> Inr r | _ \<Rightarrow> Inl (TypeError ''float''))"

definition text_or :: "pyval \<Rightarrow> string \<Rightarrow> string" where
  \<comment> \<open>\<^verbatim>\<open>str(v or default)\<close>\<close>
  "text_or v d = (if py_truthy v then py_str v else d)"

definition wb_observe :: "(string \<times> pyval) list \<Rightarrow> (string \<times> pyval) list \<Rightarrow> pyval \<Rightarrow> string \<Rightarrow> int \<Rightarrow> string \<Rightarrow> wb_observation result" where
  \<comment> \<open>the observation of the selected row\<close>
  "wb_observe metadata row payload url now mode =
     (case lookup row ''country'' of
        PDict country \<Rightarrow>
          (let indicator = (case lookup row ''indicator'' of PDict i \<Rightarrow> i | _ \<Rightarrow> []) in
           bindE (float_text (lookup row ''value'')) (\<lambda>value.
           Inr \<lparr>wo_source_id = wb_source_id, wo_country_code = wb_country,
                wo_country_name = text_or (lookup country ''value'') ''Russian Federation'',
                wo_indicator_code = wb_indicator,
                wo_indicator_name = text_or (lookup indicator ''value'') ''Inflation, consumer prices (annual %)'',
                wo_period = py_str (lookup row ''date''), wo_value = value, wo_unit = ''percent_annual'', wo_url = url,
                wo_retrieved_at = now,
                wo_updated_at = (if lookup metadata ''lastupdated'' = PNone then None else Some (py_str (lookup metadata ''lastupdated''))),
                wo_content_hash = json_hash payload, wo_raw = payload, wo_mode = mode\<rparr>))
      | _ \<Rightarrow> wb_error ''World Bank country metadata is missing'')"

definition wb_from_payload :: "pyval \<Rightarrow> string \<Rightarrow> int \<Rightarrow> string \<Rightarrow> wb_observation result" where
  "wb_from_payload payload url now mode = (case payload of
     PList [m, rs] \<Rightarrow>
       (case (m, rs) of
          (PDict metadata, PList rows) \<Rightarrow>
            (case find admitted_row rows of
               Some (PDict row) \<Rightarrow> wb_observe metadata row payload url now mode
             | _ \<Rightarrow> wb_error ''World Bank response has no non-empty admitted observation'')
        | _ \<Rightarrow> wb_error ''World Bank response metadata or rows are invalid'')
   | _ \<Rightarrow> wb_error ''World Bank response shape is invalid'')"

type_synonym http_get = "string \<Rightarrow> string + http_reply"

definition wb_fetch_live :: "http_get \<Rightarrow> int \<Rightarrow> wb_observation result" where
  "wb_fetch_live get now =
     bindE (wb_validate_url wb_url_parts) (\<lambda>_.
     (case get wb_request_url of
        Inl name \<Rightarrow> wb_error (''World Bank request failed: '' @ name)
      | Inr r \<Rightarrow>
        if hr_redirect r then wb_error ''World Bank connector refuses redirects''
        else if hr_status r \<noteq> 200 then wb_error (''World Bank returned unexpected status '' @ str_int (int (hr_status r)))
        else if 524288 < length (hr_content r) then wb_error ''World Bank response exceeded the admitted size budget''
        else if \<not> contains ''json'' (casefold (hr_content_type r)) then wb_error ''World Bank response was not JSON''
        else (case hr_json r of
                None \<Rightarrow> wb_error ''World Bank returned invalid JSON''
              | Some payload \<Rightarrow> wb_from_payload payload (hr_url r) now ''LIVE_API'')))"

record wb_connector =
  wc_live :: bool
  wc_fixture :: "pyval result option" \<comment> \<open>no path; or what reading and parsing the file gives\<close>

definition fetch_latest_inflation :: "wb_connector \<Rightarrow> http_get \<Rightarrow> int \<Rightarrow> wb_observation result" where
  "fetch_latest_inflation c get now =
     (if wc_live c then wb_fetch_live get now else
      (case wc_fixture c of
         None \<Rightarrow> wb_error ''Live retrieval is disabled and no frozen World Bank fixture was provided''
       | Some r \<Rightarrow> bindE r (\<lambda>payload. wb_from_payload payload wb_request_url now ''FROZEN_FIXTURE'')))"

section \<open>Artifacts and admission\<close>

record fact_evidence =
  fe_key :: string
  fe_title :: string
  fe_relationship :: string
  fe_subject :: string
  fe_predicate :: string
  fe_observed_at :: int
  fe_valid_from :: int
  fe_valid_to :: int
  fe_value :: string
  fe_unit :: string
  fe_payload :: "(string \<times> pyval) list"
  fe_content_hash :: string
  fe_rights :: string

record fact_candidate =
  fc_fingerprint :: string
  fc_opportunity :: string
  fc_subject :: string
  fc_predicate :: string
  fc_object :: "(string \<times> pyval) list"
  fc_statement :: string
  fc_kind :: string
  fc_producer_type :: string
  fc_producer_id :: string
  fc_method :: string

record observed_decision =
  fa_admitted :: bool
  fa_policy :: string
  fa_reasons :: "string list"
  fa_class :: "string option"

definition observed_decision_json :: "observed_decision \<Rightarrow> (string \<times> pyval) list" where
  "observed_decision_json d = [(''admitted'', PBool (fa_admitted d)), (''policy_version'', PStr (fa_policy d)),
     (''reasons'', PStrs (fa_reasons d)), (''epistemic_class'', opt_str (fa_class d))]"

definition seconds_of :: "int \<Rightarrow> nat \<Rightarrow> int \<Rightarrow> int \<Rightarrow> int" where
  \<comment> \<open>the instant of a day and a second of it\<close>
  "seconds_of y m d s = (ymd_ordinal y m d - 719163) * 86400 + s"

definition datetime_year :: "int \<Rightarrow> int result" where
  \<comment> \<open>the year argument of \<^verbatim>\<open>datetime\<close>: a C int first, then the range of the calendar\<close>
  "datetime_year y =
     (if y < - (2 ^ 31) \<or> 2 ^ 31 \<le> y then Inl (OverflowError ''Python int too large to convert to C int'')
      else if y < 1 \<or> 9999 < y then Inl (ValueError (''year '' @ str_int y @ '' is out of range''))
      else Inr y)"

definition inflation_object :: "string \<Rightarrow> string \<Rightarrow> (string \<times> pyval) list" where
  "inflation_object value period = [(''value'', PStr value), (''unit'', PStr ''percent_annual''), (''period'', PStr period),
     (''country_code'', PStr ''RUS''), (''indicator_code'', PStr ''FP.CPI.TOTL.ZG'')]"

definition inflation_key :: "string \<Rightarrow> string \<Rightarrow> string \<Rightarrow> string" where
  "inflation_key value period source_hash = json_hash (PDict [(''source'', PStr ''world-bank-wdi''),
     (''indicator'', PStr ''FP.CPI.TOTL.ZG''), (''country'', PStr ''RUS''), (''period'', PStr period), (''value'', PStr value),
     (''source_content_hash'', PStr source_hash)])"

definition inflation_statement :: "string \<Rightarrow> string \<Rightarrow> string" where
  "inflation_statement value period = ''La inflaci'' @ [CHR 0xF3] @ ''n anual de precios al consumidor en la Federaci''
     @ [CHR 0xF3] @ ''n Rusa fue del '' @ value @ ''% en '' @ period @ ''.''"

definition build_world_bank_inflation_artifacts ::
    "string \<Rightarrow> string \<Rightarrow> string \<Rightarrow> string \<Rightarrow> (fact_evidence \<times> fact_candidate) result" where
  "build_world_bank_inflation_artifacts opportunity period value source_hash =
     (case parse_int period of
        None \<Rightarrow> Inl (ValueError (''invalid literal for int() with base 10: '' @ repr_str period))
      | Some y \<Rightarrow> bindE (datetime_year y) (\<lambda>year.
          let v = decimal_str value; subject = ''geo_country_rus''; predicate = ''consumer_price_inflation_annual_pct'';
              key = inflation_key v period source_hash; statement = inflation_statement v period;
              obj = inflation_object v period
          in Inr (\<lparr>fe_key = key,
               fe_title = ''World Bank WDI '' @ [CHR 0xB7] @ '' Inflation, consumer prices (annual %) '' @ [CHR 0xB7] @ '' Russian Federation'',
               fe_relationship = ''CONTEXT'', fe_subject = subject, fe_predicate = predicate,
               fe_observed_at = seconds_of year 12 31 86399, fe_valid_from = seconds_of year 1 1 0,
               fe_valid_to = seconds_of year 12 31 86399, fe_value = v, fe_unit = ''percent_annual'', fe_payload = obj,
               fe_content_hash = json_hash (PDict [(''evidence_key'', PStr key), (''statement'', PStr statement),
                  (''source_content_hash'', PStr source_hash)]),
               fe_rights = ''COMMERCIAL_REUSE_WITH_ATTRIBUTION''\<rparr>,
              \<lparr>fc_fingerprint = json_hash (PDict [(''subject_id'', PStr subject), (''predicate'', PStr predicate),
                  (''object_value'', PDict obj), (''evidence_key'', PStr key), (''method_version'', PStr ''world-bank-wdi-parser@1.0.0'')]),
               fc_opportunity = opportunity, fc_subject = subject, fc_predicate = predicate, fc_object = obj,
               fc_statement = statement, fc_kind = ''FACT'', fc_producer_type = ''DETERMINISTIC_PARSER'',
               fc_producer_id = ''world-bank-wdi-parser'', fc_method = ''world-bank-wdi-parser@1.0.0''\<rparr>)))"

definition reason_when :: "bool \<Rightarrow> string \<Rightarrow> string list" where
  "reason_when b r = (if b then [r] else [])"

definition fact_reasons :: "(string \<times> pyval) list \<Rightarrow> fact_evidence \<Rightarrow> fact_candidate \<Rightarrow> int \<Rightarrow> string list" where
  "fact_reasons source e c now =
     reason_when (\<not> py_eq (lookup source ''admission_state'') (PStr ''ADMITTED'')) ''source_not_admitted''
     @ reason_when (py_truthy (lookup source ''kill_switch'')) ''source_kill_switch_enabled''
     @ reason_when (\<not> py_eq (lookup source ''rights_status'') (PStr ''COMMERCIAL_REUSE_WITH_ATTRIBUTION'')) ''rights_not_commercially_reusable''
     @ reason_when (\<not> py_truthy (lookup source ''commercial_use'')) ''commercial_use_not_permitted''
     @ reason_when (\<not> py_truthy (lookup source ''redistribution'')) ''redistribution_not_permitted''
     @ reason_when (\<not> py_eq (lookup source ''license_id'') (PStr ''CC-BY-4.0'')) ''unexpected_license''
     @ reason_when (fc_kind c \<noteq> ''FACT'') ''candidate_not_observed_fact''
     @ reason_when (fc_producer_type c \<noteq> ''DETERMINISTIC_PARSER'') ''generative_producer_cannot_auto_admit''
     @ reason_when (fc_predicate c \<noteq> fe_predicate e \<or> fc_subject c \<noteq> fe_subject e) ''candidate_evidence_semantic_mismatch''
     @ reason_when (\<not> py_eq (lookup (fc_object c) ''value'') (PStr (fe_value e))) ''candidate_evidence_value_mismatch''
     @ reason_when (\<not> py_eq (lookup (fc_object c) ''unit'') (PStr (fe_unit e))) ''candidate_evidence_unit_mismatch''
     @ reason_when (\<not> py_eq (PStr (fe_rights e)) (lookup source ''rights_status'')) ''evidence_rights_snapshot_mismatch''
     @ reason_when (\<not> starts_with ''sha256:'' (fe_content_hash e)) ''evidence_hash_missing''
     @ reason_when (now < fe_observed_at e) ''future_observation_not_admissible''"

definition evaluate_observed_fact :: "(string \<times> pyval) list \<Rightarrow> fact_evidence \<Rightarrow> fact_candidate \<Rightarrow> int \<Rightarrow> observed_decision" where
  "evaluate_observed_fact source e c now =
     (let reasons = fact_reasons source e c now in
      \<lparr>fa_admitted = (reasons = []), fa_policy = ''observed-institutional-fact@1.0.0'',
       fa_reasons = (if reasons = [] then [''all_deterministic_gates_passed''] else reasons),
       fa_class = (if reasons = [] then Some ''OBSERVED_FACT'' else None)\<rparr>)"

end
