(* ===== verification/ResearchStore.thy ===== *)
theory ResearchStore
  imports WorldBank TedArtifacts AdmissionQueue
begin

text \<open>
  The tables of the research spine (\<^verbatim>\<open>infra/postgres/020\<close>, \<^verbatim>\<open>030\<close>, \<^verbatim>\<open>070\<close>) and the transactions of
  \<^verbatim>\<open>repository.py\<close> and \<^verbatim>\<open>ted_repository.py\<close> over them. A table is the list of its rows in the order of
  insertion; a transaction maps the database to its result and the database after it, the same one when it raises. Row level
  security shows a transaction the runs of the tenant it is set to. New identifiers come from a supply that the
  database counts, the time of a transaction is an argument, and so are the guards of migration \<^verbatim>\<open>090\<close> that
  may refuse a new run, and the reader of a time stamp's text.
\<close>

section \<open>Tables\<close>

datatype research_state = RunQueued | RunRetrieving | RunParsing | RunScanning | RunProposing | RunBinding | RunAdmissionPending
  | RunHandoffPending | RunReviewing | RunCompleted | RunProvisional | RunHumanReview | RunContested | RunQuarantined | RunFailed

record research_run =
  rr_id :: string
  rr_tenant :: string
  rr_context :: string
  rr_opportunity :: string
  rr_question :: string
  rr_state :: research_state
  rr_private :: bool
  rr_plan :: pyval
  rr_budgets :: pyval
  rr_usage :: pyval
  rr_evidence :: "string list"
  rr_candidates :: "string list"
  rr_canonical :: "string list"
  rr_dossier :: "string option"
  rr_batch :: "string option"
  rr_job_kind :: string
  rr_error_code :: "string option"
  rr_error_detail :: "string option"
  rr_created :: int
  rr_updated :: int

record source_object =
  so_id :: string
  so_source :: string
  so_key :: string
  so_url :: string
  so_retrieved :: int
  so_updated :: "int option"
  so_hash :: string
  so_raw :: pyval
  so_rights :: pyval
  so_lineage :: pyval

record research_evidence =
  eo_id :: string
  eo_object :: string
  eo_source :: string
  eo_key :: string
  eo_title :: string
  eo_relationship :: string
  eo_subject :: string
  eo_predicate :: string
  eo_observed :: int
  eo_valid_from :: "int option"
  eo_valid_to :: "int option"
  eo_numeric :: "string option"
  eo_unit :: "string option"
  eo_payload :: pyval
  eo_hash :: string
  eo_rights :: string
  eo_provisional :: bool

datatype claim_state = ClaimProposed | ClaimQueued | ClaimAdmitted | ClaimRejected | ClaimContested | ClaimHumanReview

record research_candidate =
  cl_id :: string
  cl_fingerprint :: string
  cl_opportunity :: string
  cl_subject :: string
  cl_predicate :: string
  cl_object :: pyval
  cl_statement :: string
  cl_kind :: string
  cl_state :: claim_state
  cl_evidence :: "string list"
  cl_producer_type :: string
  cl_producer_id :: string
  cl_method :: string
  cl_canonical :: "string option"
  cl_reasons :: "string list"
  cl_updated :: int

record canonical_claim =
  cn_id :: string
  cn_fingerprint :: string
  cn_subject :: string
  cn_predicate :: string
  cn_object :: pyval
  cn_statement :: string
  cn_evidence :: "string list"
  cn_valid_from :: "int option"
  cn_valid_to :: "int option"
  cn_observed :: int
  cn_class :: string
  cn_batch :: string
  cn_admitted_at :: int

record claim_event =
  ce_claim :: string
  ce_from :: "string option"
  ce_to :: string
  ce_reason :: string
  ce_batch :: string

record admission_batch =
  ab_id :: string
  ab_policy :: string
  ab_decided :: bool
  ab_candidates :: "string list"
  ab_summary :: pyval

record research_dossier =
  ds_id :: string
  ds_tenant :: string
  ds_run :: string
  ds_status :: string
  ds_title :: string
  ds_summary :: string
  ds_sections :: pyval
  ds_attribution :: pyval

record evidence_link =
  el_tenant :: string
  el_run :: string
  el_evidence :: string

record trial_account =
  ta_tenant :: string
  ta_active :: int \<comment> \<open>runs of the trial under way\<close>
  ta_limit :: int

type_synonym source_registry = "(string \<times> pyval) list list" \<comment> \<open>rows of \<^verbatim>\<open>sources\<close> as \<^verbatim>\<open>dict_row\<close> gives them\<close>

record research_db =
  db_sources :: source_registry
  db_runs :: "research_run list"
  db_objects :: "source_object list"
  db_evidence :: "research_evidence list"
  db_candidates :: "research_candidate list"
  db_batches :: "admission_batch list"
  db_canonical :: "canonical_claim list"
  db_events :: "claim_event list"
  db_dossiers :: "research_dossier list"
  db_links :: "evidence_link list"
  db_outbox :: "outbox_event list"
  db_accounts :: "trial_account list" \<comment> \<open>one for each tenant on trial\<close>
  db_next :: nat \<comment> \<open>identifiers drawn so far\<close>

text \<open>What the database and the language provide.\<close>

record research_env =
  ren_id :: "nat \<Rightarrow> string" \<comment> \<open>\<^verbatim>\<open>uuid4()\<close>, \<^verbatim>\<open>gen_random_uuid()\<close>\<close>
  ren_now :: int
  ren_guard :: "string \<Rightarrow> string option" \<comment> \<open>the exception of the insert guard for a tenant\<close>
  ren_read_time :: "string \<Rightarrow> int option" \<comment> \<open>\<^verbatim>\<open>datetime.fromisoformat\<close>, in UTC\<close>

definition draw :: "research_env \<Rightarrow> research_db \<Rightarrow> string \<times> research_db" where
  "draw env db = (ren_id env (db_next db), db\<lparr>db_next := Suc (db_next db)\<rparr>)"

definition in_transaction :: "research_db \<Rightarrow> ('a \<times> research_db) result \<Rightarrow> 'a result \<times> research_db" where
  "in_transaction db r = (case r of Inl e \<Rightarrow> (Inl e, db) | Inr (x, db') \<Rightarrow> (Inr x, db'))"

definition visible :: "string \<Rightarrow> string \<Rightarrow> research_run \<Rightarrow> bool" where
  \<comment> \<open>the policy of the table and \<^verbatim>\<open>WHERE research_run_id = ...\<close>\<close>
  "visible tenant run_id r \<longleftrightarrow> rr_tenant r = tenant \<and> rr_id r = run_id"

definition find_run :: "string \<Rightarrow> string \<Rightarrow> research_db \<Rightarrow> research_run option" where
  "find_run tenant run_id db = find (visible tenant run_id) (db_runs db)"

definition update_run :: "string \<Rightarrow> string \<Rightarrow> (research_run \<Rightarrow> research_run) \<Rightarrow> research_db \<Rightarrow> research_db" where
  "update_run tenant run_id f db = db\<lparr>db_runs := map (\<lambda>r. if visible tenant run_id r then f r else r) (db_runs db)\<rparr>"

section \<open>The trigger on the state of a run\<close>

text \<open>\<^verbatim>\<open>trial_research_concurrency_guard\<close> (\<^verbatim>\<open>infra/postgres/123\<close>) runs before every insert and every update of the state:
  a run of a trial tenant that becomes active takes one of its slots or is refused, one that stops being active gives it back.\<close>

definition active_state :: "research_state \<Rightarrow> bool" where
  "active_state s \<longleftrightarrow> s \<in> {RunQueued, RunRetrieving, RunProposing, RunAdmissionPending}"

definition trial_account_of :: "string \<Rightarrow> research_db \<Rightarrow> trial_account option" where
  "trial_account_of tenant db = find (\<lambda>a. ta_tenant a = tenant) (db_accounts db)"

definition change_account :: "string \<Rightarrow> (int \<Rightarrow> int) \<Rightarrow> research_db \<Rightarrow> research_db" where
  "change_account tenant f db = db\<lparr>db_accounts :=
     map (\<lambda>a. if ta_tenant a = tenant then a\<lparr>ta_active := f (ta_active a)\<rparr> else a) (db_accounts db)\<rparr>"

definition trial_exhausted :: py_error where
  "trial_exhausted = DatabaseError ''RaiseException'' ''trial_concurrency_exhausted''"

definition trial_guard :: "string \<Rightarrow> bool \<Rightarrow> bool \<Rightarrow> research_db \<Rightarrow> research_db result" where
  "trial_guard tenant old_active new_active db =
     (case trial_account_of tenant db of
        None \<Rightarrow> Inr db
      | Some a \<Rightarrow>
          if \<not> old_active \<and> new_active
          then (if ta_limit a \<le> ta_active a then Inl trial_exhausted else Inr (change_account tenant (\<lambda>n. n + 1) db))
          else if old_active \<and> \<not> new_active then Inr (change_account tenant (\<lambda>n. max (n - 1) 0) db)
          else Inr db)"

definition set_state ::
    "string \<Rightarrow> string \<Rightarrow> research_state \<Rightarrow> (research_run \<Rightarrow> research_run) \<Rightarrow> research_db \<Rightarrow> research_db result" where
  \<comment> \<open>an update of the visible row that sets its state, with the trigger before it\<close>
  "set_state tenant run_id state f db =
     (case find_run tenant run_id db of
        None \<Rightarrow> Inr db
      | Some r \<Rightarrow>
          bindE (trial_guard (rr_tenant r) (active_state (rr_state r)) (active_state state) db) (\<lambda>db1.
          Inr (update_run tenant run_id (\<lambda>r. (f r)\<lparr>rr_state := state\<rparr>) db1)))"

section \<open>Creating and reading runs\<close>

definition new_run :: "string \<Rightarrow> string \<Rightarrow> string \<Rightarrow> string \<Rightarrow> string \<Rightarrow> bool \<Rightarrow> pyval \<Rightarrow> pyval \<Rightarrow> string \<Rightarrow> int \<Rightarrow> research_run" where
  "new_run run_id tenant context opportunity question private plan budgets kind now =
     \<lparr>rr_id = run_id, rr_tenant = tenant, rr_context = context, rr_opportunity = opportunity, rr_question = question,
      rr_state = RunQueued, rr_private = private, rr_plan = plan, rr_budgets = budgets, rr_usage = PDict [], rr_evidence = [],
      rr_candidates = [], rr_canonical = [], rr_dossier = None, rr_batch = None, rr_job_kind = kind, rr_error_code = None,
      rr_error_detail = None, rr_created = now, rr_updated = now\<rparr>"

definition event_row :: "string \<Rightarrow> string \<Rightarrow> string \<Rightarrow> pyval \<Rightarrow> int \<Rightarrow> outbox_event" where
  "event_row event_id run_id kind payload now =
     \<lparr>ob_event_id = event_id, ob_aggregate_id = run_id, ob_event_type = kind, ob_payload = payload, ob_status = OutboxPending,
      ob_attempts = 0, ob_available_at = now, ob_published_at = None, ob_last_error = None\<rparr>"

definition request_payload :: "string \<Rightarrow> string \<Rightarrow> string \<Rightarrow> pyval" where
  "request_payload tenant run_id source_id = PDict [(''schema_version'', PInt 1), (''tenant_id'', PStr tenant),
     (''research_run_id'', PStr run_id), (''source_id'', PStr source_id)]"

definition insert_run :: "research_env \<Rightarrow> research_run \<Rightarrow> string \<Rightarrow> research_db \<Rightarrow> (string \<times> research_db) result" where
  \<comment> \<open>the two inserts of a new run, its event naming the source\<close>
  "insert_run env r source_id db =
     (case ren_guard env (rr_tenant r) of
        Some m \<Rightarrow> Inl (DatabaseError ''RaiseException'' m)
      | None \<Rightarrow>
          bindE (trial_guard (rr_tenant r) False (active_state (rr_state r)) db) (\<lambda>db0.
          let (event_id, db1) = draw env db0 in
           Inr (rr_id r, db1\<lparr>db_runs := db_runs db1 @ [r],
             db_outbox := db_outbox db1 @ [event_row event_id (rr_id r) ''research.run.requested''
               (request_payload (rr_tenant r) (rr_id r) source_id) (ren_now env)]\<rparr>)))"

definition wb_source_plan :: pyval where
  "wb_source_plan = PList [PDict [(''source_id'', PStr ''world-bank-wdi''), (''indicator'', PStr ''FP.CPI.TOTL.ZG''),
     (''country'', PStr ''RUS''), (''priority'', PInt 1),
     (''purpose'', PStr ''Country-level inflation context for the selected opportunity'')]]"

definition wb_budgets :: pyval where
  "wb_budgets = PDict [(''max_api_requests'', PInt 1), (''max_documents'', PInt 1), (''max_response_bytes'', PInt 524288),
     (''max_duration_seconds'', PInt 30), (''max_model_calls'', PInt 0)]"

definition create_run ::
    "research_env \<Rightarrow> string \<Rightarrow> string \<Rightarrow> string \<Rightarrow> string \<Rightarrow> bool \<Rightarrow> research_db \<Rightarrow> string result \<times> research_db" where
  "create_run env tenant context opportunity question private db = in_transaction db
     (let (run_id, db1) = draw env db in
      insert_run env (new_run run_id tenant context opportunity question private wb_source_plan wb_budgets
        ''STRUCTURED_SOURCE_OBSERVATION'' (ren_now env)) ''world-bank-wdi'' db1)"

definition ted_source_plan :: pyval where
  "ted_source_plan = PList [PDict [(''source_id'', PStr ted_source_id), (''profile_id'', PStr ted_profile),
     (''query'', PStr ''place-of-performance IN (LUX)''), (''fields'', PStrs fixed_fields), (''limit'', PInt 3),
     (''priority'', PInt 1), (''purpose'', PStr ''Bounded European public procurement discovery'')]]"

definition ted_budgets :: pyval where
  "ted_budgets = PDict [(''max_api_requests'', PInt 1), (''max_notices'', PInt 3), (''max_response_bytes'', PInt 1048576),
     (''max_duration_seconds'', PInt 30), (''max_model_calls'', PInt 0)]"

definition create_ted_run ::
    "research_env \<Rightarrow> string \<Rightarrow> string \<Rightarrow> string \<Rightarrow> string \<Rightarrow> research_db \<Rightarrow> string result \<times> research_db" where
  "create_ted_run env tenant context opportunity question db = in_transaction db
     (let (run_id, db1) = draw env db in
      insert_run env (new_run run_id tenant context opportunity question False ted_source_plan ted_budgets
        ''TED_PROCUREMENT'' (ren_now env)) ted_source_id db1)"

definition get_source :: "string \<Rightarrow> research_db \<Rightarrow> (string \<times> pyval) list option" where
  "get_source source_id db = find (\<lambda>s. lookup s ''source_id'' = PStr source_id) (db_sources db)"

definition transition_run :: "research_env \<Rightarrow> string \<Rightarrow> string \<Rightarrow> research_state \<Rightarrow> research_db \<Rightarrow> unit result \<times> research_db" where
  "transition_run env tenant run_id state db = in_transaction db
     (bindE (set_state tenant run_id state (\<lambda>r. r\<lparr>rr_updated := ren_now env\<rparr>) db) (\<lambda>db1.
      if length (filter (visible tenant run_id) (db_runs db)) \<noteq> 1 then Inl (LookupError ''ResearchRun not found for tenant'')
      else Inr ((), db1)))"

definition fail_run :: "research_env \<Rightarrow> string \<Rightarrow> string \<Rightarrow> string \<Rightarrow> string \<Rightarrow> research_db \<Rightarrow> unit result \<times> research_db" where
  "fail_run env tenant run_id error_code detail db = in_transaction db
     (bindE (set_state tenant run_id RunFailed
        (\<lambda>r. r\<lparr>rr_error_code := Some (take 100 error_code), rr_error_detail := Some (take 1000 detail), rr_updated := ren_now env\<rparr>) db)
        (\<lambda>db1. Inr ((), db1)))"

section \<open>The outbox\<close>

definition pending_outbox :: "nat \<Rightarrow> int \<Rightarrow> research_db \<Rightarrow> outbox_event list" where
  "pending_outbox limit now db =
     take limit (filter (\<lambda>e. ob_status e = OutboxPending \<and> ob_available_at e \<le> now) (db_outbox db))"

definition mark_published :: "int \<Rightarrow> string \<Rightarrow> research_db \<Rightarrow> research_db" where
  "mark_published now event_id db = db\<lparr>db_outbox := update_pending event_id (published_row now) (db_outbox db)\<rparr>"

definition mark_failed :: "int \<Rightarrow> string \<Rightarrow> string \<Rightarrow> research_db \<Rightarrow> research_db" where
  "mark_failed now event_id error db = db\<lparr>db_outbox := update_pending event_id (failed_row now error) (db_outbox db)\<rparr>"

section \<open>Steps inside a transaction\<close>

type_synonym 'a step = "research_db \<Rightarrow> ('a \<times> research_db) result"

definition bindT :: "'a step \<Rightarrow> ('a \<Rightarrow> 'b step) \<Rightarrow> 'b step" where
  "bindT m k db = bindE (m db) (\<lambda>(x, db'). k x db')"

definition raiseT :: "py_error \<Rightarrow> 'a step" where
  "raiseT e db = Inl e"

definition returnT :: "'a \<Rightarrow> 'a step" where
  "returnT x db = Inr (x, db)"

definition insert_object :: "research_env \<Rightarrow> source_object \<Rightarrow> string step" where
  "insert_object env x db = (let (i, db1) = draw env db in Inr (i, db1\<lparr>db_objects := db_objects db1 @ [x\<lparr>so_id := i\<rparr>]\<rparr>))"

definition upsert_source_object :: "research_env \<Rightarrow> (string \<times> pyval) list \<Rightarrow> wb_observation \<Rightarrow> string step" where
  \<comment> \<open>\<^verbatim>\<open>ON CONFLICT (retrieval_key) DO NOTHING\<close>; the other unique constraint still raises\<close>
  "upsert_source_object env source x db =
     (case find (\<lambda>o'. so_key o' = retrieval_key x) (db_objects db) of
        Some o' \<Rightarrow> Inr (so_id o', db)
      | None \<Rightarrow>
          if list_ex (\<lambda>o'. so_source o' = wo_source_id x \<and> so_hash o' = wo_content_hash x) (db_objects db)
          then Inl (UniqueViolation ''source_objects'')
          else insert_object env
            \<lparr>so_id = [], so_source = wo_source_id x, so_key = retrieval_key x, so_url = wo_url x, so_retrieved = wo_retrieved_at x,
             so_updated = (case wo_updated_at x of Some t \<Rightarrow> if t = [] then None else ren_read_time env t | None \<Rightarrow> None),
             so_hash = wo_content_hash x, so_raw = wo_raw x,
             so_rights = PDict (map (\<lambda>k. (k, lookup source k))
               [''rights_status'', ''license_id'', ''attribution_text'', ''terms_url'', ''dataset_url'', ''last_reviewed_at'']),
             so_lineage = PDict [(''connector'', PStr ''world-bank-wdi@1.0.0''), (''retrieval_mode'', PStr (wo_mode x)),
               (''country_code'', PStr (wo_country_code x)), (''indicator_code'', PStr (wo_indicator_code x))]\<rparr> db)"

definition insert_evidence :: "research_env \<Rightarrow> research_evidence \<Rightarrow> string step" where
  \<comment> \<open>\<^verbatim>\<open>ON CONFLICT (evidence_key) DO NOTHING\<close> and the lookup after it\<close>
  "insert_evidence env x db =
     (case find (\<lambda>e. eo_key e = eo_key x) (db_evidence db) of
        Some e \<Rightarrow> Inr (eo_id e, db)
      | None \<Rightarrow> (let (i, db1) = draw env db in Inr (i, db1\<lparr>db_evidence := db_evidence db1 @ [x\<lparr>eo_id := i\<rparr>]\<rparr>)))"

definition upsert_evidence :: "research_env \<Rightarrow> string \<Rightarrow> string \<Rightarrow> fact_evidence \<Rightarrow> string step" where
  "upsert_evidence env object_id source_id e = insert_evidence env
     \<lparr>eo_id = [], eo_object = object_id, eo_source = source_id, eo_key = fe_key e, eo_title = fe_title e,
      eo_relationship = fe_relationship e, eo_subject = fe_subject e, eo_predicate = fe_predicate e, eo_observed = fe_observed_at e,
      eo_valid_from = Some (fe_valid_from e), eo_valid_to = Some (fe_valid_to e), eo_numeric = Some (fe_value e),
      eo_unit = Some (fe_unit e), eo_payload = PDict (fe_payload e), eo_hash = fe_content_hash e, eo_rights = fe_rights e,
      eo_provisional = True\<rparr>"

definition insert_candidate :: "research_env \<Rightarrow> (research_candidate \<Rightarrow> research_candidate) \<Rightarrow> research_candidate \<Rightarrow> string step" where
  \<comment> \<open>with what \<^verbatim>\<open>ON CONFLICT (fingerprint)\<close> does to the row that is there\<close>
  "insert_candidate env conflict x db =
     (case find (\<lambda>c. cl_fingerprint c = cl_fingerprint x) (db_candidates db) of
        Some c \<Rightarrow> Inr (cl_id c, db\<lparr>db_candidates :=
            map (\<lambda>c. if cl_fingerprint c = cl_fingerprint x then conflict c else c) (db_candidates db)\<rparr>)
      | None \<Rightarrow> (let (i, db1) = draw env db in Inr (i, db1\<lparr>db_candidates := db_candidates db1 @ [x\<lparr>cl_id := i\<rparr>]\<rparr>)))"

definition upsert_candidate :: "research_env \<Rightarrow> fact_candidate \<Rightarrow> string \<Rightarrow> string step" where
  "upsert_candidate env c evidence_id = insert_candidate env (\<lambda>r. r\<lparr>cl_updated := ren_now env\<rparr>)
     \<lparr>cl_id = [], cl_fingerprint = fc_fingerprint c, cl_opportunity = fc_opportunity c, cl_subject = fc_subject c,
      cl_predicate = fc_predicate c, cl_object = PDict (fc_object c), cl_statement = fc_statement c, cl_kind = fc_kind c,
      cl_state = ClaimQueued, cl_evidence = [evidence_id], cl_producer_type = fc_producer_type c,
      cl_producer_id = fc_producer_id c, cl_method = fc_method c, cl_canonical = None, cl_reasons = [], cl_updated = ren_now env\<rparr>"

definition create_admission_batch :: "research_env \<Rightarrow> string \<Rightarrow> string list \<Rightarrow> string step" where
  "create_admission_batch env policy ids db =
     (let (i, db1) = draw env db in Inr (i, db1\<lparr>db_batches := db_batches db1 @
        [\<lparr>ab_id = i, ab_policy = policy, ab_decided = False, ab_candidates = ids, ab_summary = PDict []\<rparr>]\<rparr>))"

definition decide_batch :: "string \<Rightarrow> pyval \<Rightarrow> unit step" where
  "decide_batch batch_id summary db = Inr ((), db\<lparr>db_batches :=
     map (\<lambda>b. if ab_id b = batch_id then b\<lparr>ab_decided := True, ab_summary := summary\<rparr> else b) (db_batches db)\<rparr>)"

definition change_candidate :: "string \<Rightarrow> (research_candidate \<Rightarrow> research_candidate) \<Rightarrow> research_db \<Rightarrow> research_db" where
  "change_candidate candidate_id f db = db\<lparr>db_candidates :=
     map (\<lambda>c. if cl_id c = candidate_id then f c else c) (db_candidates db)\<rparr>"

definition reject_candidate :: "research_env \<Rightarrow> string \<Rightarrow> string list \<Rightarrow> unit step" where
  "reject_candidate env candidate_id reasons db = Inr ((), change_candidate candidate_id
     (\<lambda>c. c\<lparr>cl_state := ClaimRejected, cl_reasons := reasons, cl_updated := ren_now env\<rparr>) db)"

definition insert_canonical :: "research_env \<Rightarrow> canonical_claim \<Rightarrow> (string \<times> bool) step" where
  \<comment> \<open>\<^verbatim>\<open>ON CONFLICT (fingerprint) DO NOTHING\<close>: the claim's identifier, and whether it is new\<close>
  "insert_canonical env x db =
     (case find (\<lambda>c. cn_fingerprint c = cn_fingerprint x) (db_canonical db) of
        Some c \<Rightarrow> Inr ((cn_id c, False), db)
      | None \<Rightarrow> (let (i, db1) = draw env db in Inr ((i, True), db1\<lparr>db_canonical := db_canonical db1 @ [x\<lparr>cn_id := i\<rparr>]\<rparr>)))"

definition admit :: "research_env \<Rightarrow> string \<Rightarrow> canonical_claim \<Rightarrow> string \<Rightarrow> (string \<times> bool) step" where
  \<comment> \<open>the claim, its candidate and the event of a new claim\<close>
  "admit env candidate_id x reason = bindT (insert_canonical env x) (\<lambda>(claim_id, created) db.
     (let db1 = change_candidate candidate_id (\<lambda>c. c\<lparr>cl_state := ClaimAdmitted, cl_canonical := Some claim_id, cl_reasons := [],
             cl_updated := ren_now env\<rparr>) db in
      Inr ((claim_id, created),
        if created then db1\<lparr>db_events := db_events db1 @ [\<lparr>ce_claim = claim_id, ce_from = None, ce_to = ''ADMITTED'',
             ce_reason = reason, ce_batch = cn_batch x\<rparr>]\<rparr> else db1)))"

definition admit_candidate ::
    "research_env \<Rightarrow> string \<Rightarrow> fact_candidate \<Rightarrow> fact_evidence \<Rightarrow> string \<Rightarrow> string \<Rightarrow> string \<Rightarrow> (string \<times> bool) step" where
  "admit_candidate env candidate_id c e evidence_id batch_id epistemic_class = admit env candidate_id
     \<lparr>cn_id = [], cn_fingerprint = fc_fingerprint c, cn_subject = fc_subject c, cn_predicate = fc_predicate c,
      cn_object = PDict (fc_object c), cn_statement = fc_statement c, cn_evidence = [evidence_id],
      cn_valid_from = Some (fe_valid_from e), cn_valid_to = Some (fe_valid_to e), cn_observed = fe_observed_at e,
      cn_class = epistemic_class, cn_batch = batch_id, cn_admitted_at = ren_now env\<rparr> ''all_deterministic_gates_passed''"

definition insert_dossier :: "research_env \<Rightarrow> research_dossier \<Rightarrow> string step" where
  \<comment> \<open>one dossier for each run: \<^verbatim>\<open>dossiers_one_per_research_run_idx\<close>\<close>
  "insert_dossier env x db =
     (if list_ex (\<lambda>d. ds_run d = ds_run x) (db_dossiers db)
      then Inl (UniqueViolation ''dossiers_one_per_research_run_idx'')
      else (let (i, db1) = draw env db in Inr (i, db1\<lparr>db_dossiers := db_dossiers db1 @ [x\<lparr>ds_id := i\<rparr>]\<rparr>)))"

definition link_evidence :: "string \<Rightarrow> string \<Rightarrow> string \<Rightarrow> unit step" where
  "link_evidence tenant run_id evidence_id db = Inr ((),
     if list_ex (\<lambda>l. el_run l = run_id \<and> el_evidence l = evidence_id) (db_links db) then db
     else db\<lparr>db_links := db_links db @ [\<lparr>el_tenant = tenant, el_run = run_id, el_evidence = evidence_id\<rparr>]\<rparr>)"

definition complete_run ::
    "research_env \<Rightarrow> string \<Rightarrow> string \<Rightarrow> pyval \<Rightarrow> string list \<Rightarrow> string list \<Rightarrow> string list \<Rightarrow> string \<Rightarrow> string \<Rightarrow> unit step" where
  "complete_run env tenant run_id usage evidence candidates canonical dossier batch db =
     bindE (set_state tenant run_id RunCompleted
       (\<lambda>r. r\<lparr>rr_usage := usage, rr_evidence := evidence, rr_candidates := candidates,
            rr_canonical := canonical, rr_dossier := Some dossier, rr_batch := Some batch, rr_updated := ren_now env\<rparr>) db)
       (\<lambda>db1. Inr ((), db1))"

definition completed_event :: "research_env \<Rightarrow> string \<Rightarrow> (string \<times> pyval) list \<Rightarrow> unit step" where
  "completed_event env run_id payload db =
     (let (i, db1) = draw env db in
      Inr ((), db1\<lparr>db_outbox := db_outbox db1 @ [event_row i run_id ''research.run.completed'' (PDict payload) (ren_now env)]\<rparr>))"

section \<open>Completing a World Bank run\<close>

definition wb_sections :: "fact_candidate \<Rightarrow> observed_decision \<Rightarrow> wb_observation \<Rightarrow> string \<Rightarrow> string \<Rightarrow> string option \<Rightarrow> pyval" where
  "wb_sections c d x evidence_id candidate_id canonical_id = PList
     [PDict [(''section_id'', PStr ''institutional_observation''),
        (''title'', PStr (''Contexto macroecon'' @ [CHR 0xF3] @ ''mico institucional'')), (''text'', PStr (fc_statement c)),
        (''evidence_ids'', PStrs [evidence_id]), (''candidate_claim_ids'', PStrs [candidate_id]),
        (''canonical_claim_ids'', PStrs (case canonical_id of Some i \<Rightarrow> [i] | None \<Rightarrow> []))],
      PDict [(''section_id'', PStr ''methodology''), (''title'', PStr (''Metodolog'' @ [CHR 0xED] @ ''a y autoridad'')),
        (''text'', PStr (''El dato fue extra'' @ [CHR 0xED] @ ''do de forma determinista del World Bank Indicators API. ''
           @ ''No se utiliz'' @ [CHR 0xF3] @ '' un modelo generativo para producir ni admitir el hecho.'')),
        (''policy_version'', PStr (fa_policy d)), (''retrieval_mode'', PStr (wo_mode x))],
      PDict [(''section_id'', PStr ''limitations''), (''title'', PStr ''Limitaciones''),
        (''text'', PStr (''El indicador es anual y nacional. Aporta contexto para la oportunidad de Mosc'' @ [CHR 0xFA]
           @ '', pero no demuestra causalidad ni condiciones inmobiliarias locales.''))]]"

definition wb_attribution :: "(string \<times> pyval) list \<Rightarrow> pyval" where
  "wb_attribution source = PDict [(''source_id'', lookup source ''source_id''), (''source_name'', lookup source ''name''),
     (''license_id'', lookup source ''license_id''), (''attribution_text'', lookup source ''attribution_text''),
     (''dataset_url'', lookup source ''dataset_url''),
     (''changes'', PStr ''AXIGNAL selected, normalised and contextualised the observation.'')]"

definition wb_usage :: "wb_observation \<Rightarrow> pyval" where
  "wb_usage x = PDict [(''api_requests'', PInt (if wo_mode x = ''LIVE_API'' then 1 else 0)),
     (''fixture_reads'', PInt (if wo_mode x = ''FROZEN_FIXTURE'' then 1 else 0)), (''documents'', PInt 1), (''model_calls'', PInt 0),
     (''source_content_hash'', PStr (wo_content_hash x))]"

definition wb_dossier ::
    "string \<Rightarrow> string \<Rightarrow> (string \<times> pyval) list \<Rightarrow> pyval \<Rightarrow> string option \<Rightarrow> research_dossier" where
  "wb_dossier tenant run_id source sections canonical_id =
     \<lparr>ds_id = [], ds_tenant = tenant, ds_run = run_id,
      ds_status = (if canonical_id = None then ''TRACEABLE_PROVISIONAL'' else ''TRACEABLE_WITH_ADMITTED_FACTS''),
      ds_title = ''Contexto de inflaci'' @ [CHR 0xF3] @ ''n '' @ [CHR 0xB7] @ '' Federaci'' @ [CHR 0xF3] @ ''n Rusa'',
      ds_summary = (if canonical_id = None
         then ''La observaci'' @ [CHR 0xF3] @ ''n fue conservada, pero no super'' @ [CHR 0xF3] @ '' los gates de admisi'' @ [CHR 0xF3] @ ''n.''
         else ''AXIGNAL recuper'' @ [CHR 0xF3] @ '' un indicador institucional con derechos admitidos y ejecut'' @ [CHR 0xF3]
           @ '' la admisi'' @ [CHR 0xF3] @ ''n determinista del hecho observado.''),
      ds_sections = sections, ds_attribution = wb_attribution source\<rparr>"

definition decide_fact ::
    "research_env \<Rightarrow> string \<Rightarrow> fact_candidate \<Rightarrow> fact_evidence \<Rightarrow> string \<Rightarrow> string \<Rightarrow> observed_decision \<Rightarrow> (string option \<times> bool) step" where
  \<comment> \<open>the branch on the decision: the claim, and whether it is new\<close>
  "decide_fact env candidate_id c e evidence_id batch_id d =
     (if fa_admitted d
      then bindT (admit_candidate env candidate_id c e evidence_id batch_id
              (case fa_class d of Some k \<Rightarrow> if k = [] then ''OBSERVED_FACT'' else k | None \<Rightarrow> ''OBSERVED_FACT''))
           (\<lambda>(i, created). returnT (Some i, created))
      else bindT (reject_candidate env candidate_id (fa_reasons d)) (\<lambda>_. returnT (None, False)))"

definition wb_completion ::
    "research_env \<Rightarrow> string \<Rightarrow> string \<Rightarrow> (string \<times> pyval) list \<Rightarrow> wb_observation \<Rightarrow> fact_evidence \<Rightarrow> fact_candidate \<Rightarrow> observed_decision
       \<Rightarrow> string option step" where
  "wb_completion env tenant run_id source x e c d =
     bindT (upsert_source_object env source x) (\<lambda>object_id.
     bindT (upsert_evidence env object_id (wo_source_id x) e) (\<lambda>evidence_id.
     bindT (upsert_candidate env c evidence_id) (\<lambda>candidate_id.
     bindT (create_admission_batch env (fa_policy d) [candidate_id]) (\<lambda>batch_id.
     bindT (decide_fact env candidate_id c e evidence_id batch_id d) (\<lambda>(claim, created).
     bindT (decide_batch batch_id (PDict (observed_decision_json d @
              [(''canonical_claim_id'', opt_str claim), (''canonical_claim_created'', PBool created)]))) (\<lambda>_.
     bindT (insert_dossier env (wb_dossier tenant run_id source (wb_sections c d x evidence_id candidate_id claim) claim)) (\<lambda>dossier_id.
     bindT (link_evidence tenant run_id evidence_id) (\<lambda>_.
     bindT (complete_run env tenant run_id (wb_usage x) [evidence_id] [candidate_id] (case claim of Some i \<Rightarrow> [i] | None \<Rightarrow> [])
              dossier_id batch_id) (\<lambda>_.
     bindT (completed_event env run_id [(''schema_version'', PInt 1), (''tenant_id'', PStr tenant), (''research_run_id'', PStr run_id),
              (''evidence_ids'', PStrs [evidence_id]), (''candidate_claim_ids'', PStrs [candidate_id]),
              (''canonical_claim_ids'', PStrs (case claim of Some i \<Rightarrow> [i] | None \<Rightarrow> [])), (''dossier_id'', PStr dossier_id),
              (''admission_batch_id'', PStr batch_id)]) (\<lambda>_. returnT claim))))))))))"

definition complete_world_bank_run ::
    "research_env \<Rightarrow> string \<Rightarrow> string \<Rightarrow> (string \<times> pyval) list \<Rightarrow> wb_observation \<Rightarrow> fact_evidence \<Rightarrow> fact_candidate \<Rightarrow> observed_decision
       \<Rightarrow> research_db \<Rightarrow> string option result \<times> research_db" where
  "complete_world_bank_run env tenant run_id source x e c d db = in_transaction db
     (case find_run tenant run_id db of
        None \<Rightarrow> Inl (LookupError ''ResearchRun not found for worker'')
      | Some _ \<Rightarrow> wb_completion env tenant run_id source x e c d db)"

section \<open>Private notes and intent events\<close>

record knowledge_item =
  kn_id :: string
  kn_tenant :: string
  kn_type :: string
  kn_title :: string
  kn_body :: string
  kn_hash :: string

record intent_event =
  ie_id :: string
  ie_tenant :: string
  ie_type :: string
  ie_subject :: string
  ie_payload :: pyval
  ie_occurred :: int
  ie_expires :: int

definition add_private_knowledge_fixture ::
    "string \<Rightarrow> string \<Rightarrow> string \<Rightarrow> string \<Rightarrow> string \<Rightarrow> knowledge_item list \<Rightarrow> (string \<times> knowledge_item list) result" where
  \<comment> \<open>into the table of items, under a new identifier\<close>
  "add_private_knowledge_fixture item_id tenant title body content_hash items =
     (if \<not> is_content_digest content_hash then Inl (DatabaseError ''CheckViolation'' ''knowledge_items_content_hash_check'')
      else if list_ex (\<lambda>k. kn_tenant k = tenant \<and> kn_hash k = content_hash) items
      then Inl (UniqueViolation ''knowledge_items_tenant_id_content_hash_key'')
      else Inr (item_id, items @ [\<lparr>kn_id = item_id, kn_tenant = tenant, kn_type = ''NOTE'', kn_title = title, kn_body = body,
             kn_hash = content_hash\<rparr>]))"

definition record_intent_event ::
    "string \<Rightarrow> string \<Rightarrow> string \<Rightarrow> string \<Rightarrow> pyval \<Rightarrow> int \<Rightarrow> int \<Rightarrow> intent_event list \<Rightarrow> string \<times> intent_event list" where
  "record_intent_event event_id tenant kind subject payload occurred expires events =
     (event_id, events @ [\<lparr>ie_id = event_id, ie_tenant = tenant, ie_type = kind, ie_subject = subject, ie_payload = payload,
        ie_occurred = occurred, ie_expires = expires\<rparr>])"

definition debug_count_for_tenant :: "('r \<Rightarrow> string) \<Rightarrow> string \<Rightarrow> 'r list \<Rightarrow> nat" where
  \<comment> \<open>the rows of a table that the policy shows the tenant\<close>
  "debug_count_for_tenant tenant_of tenant rows = length (filter (\<lambda>r. tenant_of r = tenant) rows)"

lemma private_items_isolated:
  "add_private_knowledge_fixture i t title body h items = Inr (j, items') \<Longrightarrow> u \<noteq> t \<Longrightarrow>
    debug_count_for_tenant kn_tenant u items' = debug_count_for_tenant kn_tenant u items"
  by (auto simp: add_private_knowledge_fixture_def debug_count_for_tenant_def split: if_splits)

end
