(* ===== verification/TedStore.thy ===== *)
theory TedStore
  imports ResearchStore
begin

text \<open>
  Completing a TED run (\<^verbatim>\<open>ted_repository.py\<close>): every field of the page becomes evidence, a candidate and a
  decision, in one transaction.
\<close>

definition upsert_ted_source_object :: "research_env \<Rightarrow> (string \<times> pyval) list \<Rightarrow> ted_page \<Rightarrow> string step" where
  \<comment> \<open>\<^verbatim>\<open>ON CONFLICT (source_id, content_hash) DO NOTHING\<close>; the retrieval key is unique too\<close>
  "upsert_ted_source_object env source page db =
     (let projection = sanitised_projection page; projection_hash = json_hash projection;
          key = json_hash (PDict [(''source_id'', PStr ted_source_id), (''request_hash'', PStr (tp_request_hash page)),
            (''projection_content_hash'', PStr projection_hash)]) in
      case find (\<lambda>o'. so_source o' = ted_source_id \<and> so_hash o' = projection_hash) (db_objects db) of
        Some o' \<Rightarrow> Inr (so_id o', db)
      | None \<Rightarrow>
          if list_ex (\<lambda>o'. so_key o' = key) (db_objects db) then Inl (UniqueViolation ''source_objects'')
          else insert_object env
            \<lparr>so_id = [], so_source = ted_source_id, so_key = key, so_url = tp_url page, so_retrieved = tp_retrieved_at page,
             so_updated = None, so_hash = projection_hash, so_raw = projection,
             so_rights = PDict (map (\<lambda>k. (k, lookup source k))
                 [''rights_status'', ''license_id'', ''attribution_text'', ''terms_url'', ''dataset_url'']
               @ [(''profile_id'', PStr ted_profile), (''api_redistribution'', PBool False)]),
             so_lineage = PDict [(''source_envelope_content_hash'', PStr (tp_content_hash page)),
               (''request_hash'', PStr (tp_request_hash page)), (''retrieval_mode'', PStr (tp_mode page)),
               (''sanitised_projection'', PBool True)]\<rparr> db)"

definition upsert_ted_evidence :: "research_env \<Rightarrow> string \<Rightarrow> ted_evidence \<Rightarrow> string step" where
  "upsert_ted_evidence env object_id e = insert_evidence env
     \<lparr>eo_id = [], eo_object = object_id, eo_source = ted_source_id, eo_key = te_key e, eo_title = te_title e,
      eo_relationship = te_relationship e, eo_subject = te_subject e, eo_predicate = te_predicate e, eo_observed = te_observed_at e,
      eo_valid_from = None, eo_valid_to = None, eo_numeric = None, eo_unit = None, eo_payload = PDict (te_payload e),
      eo_hash = te_content_hash e, eo_rights = te_rights e, eo_provisional = True\<rparr>"

definition upsert_ted_candidate :: "research_env \<Rightarrow> ted_candidate \<Rightarrow> string \<Rightarrow> string step" where
  "upsert_ted_candidate env c evidence_id = insert_candidate env (\<lambda>r. r)
     \<lparr>cl_id = [], cl_fingerprint = td_fingerprint c, cl_opportunity = td_opportunity c, cl_subject = td_subject c,
      cl_predicate = td_predicate c, cl_object = PDict (td_object c), cl_statement = td_statement c, cl_kind = td_kind c,
      cl_state = ClaimQueued, cl_evidence = [evidence_id], cl_producer_type = td_producer_type c,
      cl_producer_id = td_producer_id c, cl_method = td_method c, cl_canonical = None, cl_reasons = [], cl_updated = ren_now env\<rparr>"

definition admit_ted_candidate ::
    "research_env \<Rightarrow> string \<Rightarrow> string \<Rightarrow> ted_candidate \<Rightarrow> string \<Rightarrow> int \<Rightarrow> (string \<times> bool) step" where
  "admit_ted_candidate env candidate_id evidence_id c batch_id observed_at = admit env candidate_id
     \<lparr>cn_id = [], cn_fingerprint = td_fingerprint c, cn_subject = td_subject c, cn_predicate = td_predicate c,
      cn_object = PDict (td_object c), cn_statement = td_statement c, cn_evidence = [evidence_id], cn_valid_from = None,
      cn_valid_to = None, cn_observed = observed_at, cn_class = ''OBSERVED_FACT'', cn_batch = batch_id,
      cn_admitted_at = ren_now env\<rparr> ''all_ted_projection_gates_passed''"

section \<open>The loops\<close>

record ted_item =
  ti_candidate :: ted_candidate
  ti_decision :: ted_decision
  ti_evidence_id :: string
  ti_candidate_id :: string
  ti_claim :: "string option"
  ti_created :: bool

fun register_items ::
    "research_env \<Rightarrow> string \<Rightarrow> (ted_evidence \<times> ted_candidate \<times> ted_decision) list \<Rightarrow> ted_item list step" where
  \<comment> \<open>the loop over evidence and candidates\<close>
  "register_items env object_id [] = returnT []"
| "register_items env object_id ((e, c, d) # xs) =
     bindT (upsert_ted_evidence env object_id e) (\<lambda>evidence_id.
     bindT (upsert_ted_candidate env c evidence_id) (\<lambda>candidate_id.
     bindT (register_items env object_id xs) (\<lambda>items.
     returnT (\<lparr>ti_candidate = c, ti_decision = d, ti_evidence_id = evidence_id, ti_candidate_id = candidate_id, ti_claim = None,
               ti_created = False\<rparr> # items))))"

definition decide_item :: "research_env \<Rightarrow> ted_page \<Rightarrow> string \<Rightarrow> ted_item \<Rightarrow> ted_item step" where
  "decide_item env page batch_id i =
     (if ta_admitted (ti_decision i)
      then bindT (admit_ted_candidate env (ti_candidate_id i) (ti_evidence_id i) (ti_candidate i) batch_id (tp_retrieved_at page))
             (\<lambda>(claim, created). returnT (i\<lparr>ti_claim := Some claim, ti_created := created\<rparr>))
      else bindT (reject_candidate env (ti_candidate_id i) (ta_reasons (ti_decision i))) (\<lambda>_. returnT i))"

fun decide_items :: "research_env \<Rightarrow> ted_page \<Rightarrow> string \<Rightarrow> ted_item list \<Rightarrow> ted_item list step" where
  "decide_items env page batch_id [] = returnT []"
| "decide_items env page batch_id (i # is) =
     bindT (decide_item env page batch_id i) (\<lambda>j. bindT (decide_items env page batch_id is) (\<lambda>js. returnT (j # js)))"

definition ted_decision_row :: "ted_item \<Rightarrow> pyval" where
  "ted_decision_row i = (case decision_as_json (ti_decision i) of
     PDict d \<Rightarrow> PDict (d @ [(''candidate_claim_id'', PStr (ti_candidate_id i)), (''canonical_claim_id'', opt_str (ti_claim i)),
        (''canonical_claim_created'', PBool (ti_created i))])
   | v \<Rightarrow> v)"

fun link_all :: "string \<Rightarrow> string \<Rightarrow> string list \<Rightarrow> unit step" where
  "link_all tenant run_id [] = returnT ()"
| "link_all tenant run_id (e # es) = bindT (link_evidence tenant run_id e) (\<lambda>_. link_all tenant run_id es)"

section \<open>The dossier\<close>

definition ted_fact :: "(string \<times> string) list \<Rightarrow> ted_item \<Rightarrow> (string \<times> pyval) result" where
  \<comment> \<open>the publication number, and the entry of its group\<close>
  "ted_fact claims i =
     bindE (py_item (PDict (td_object (ti_candidate i))) ''publication_number'') (\<lambda>number.
     bindE (py_item (PDict (td_object (ti_candidate i))) ''value'') (\<lambda>v.
     Inr (py_str number, PDict [(''predicate'', PStr (td_predicate (ti_candidate i))), (''statement'', PStr (td_statement (ti_candidate i))),
        (''value'', v), (''evidence_id'', PStr (ti_evidence_id i)), (''candidate_claim_id'', PStr (ti_candidate_id i)),
        (''canonical_claim_id'', opt_str (map_of claims (ti_candidate_id i)))])))"

definition canonical_by_candidate :: "ted_item list \<Rightarrow> (string \<times> string) list" where
  \<comment> \<open>the last assignment to a key first\<close>
  "canonical_by_candidate is = rev (concat (map (\<lambda>i. case ti_claim i of Some c \<Rightarrow> [(ti_candidate_id i, c)] | None \<Rightarrow> []) is))"

definition ted_sections :: "ted_item list \<Rightarrow> pyval result" where
  "ted_sections is =
     bindE (mapE (ted_fact (canonical_by_candidate is)) is) (\<lambda>facts.
     Inr (PList (map (\<lambda>number. PDict
          [(''section_id'', PStr (subject_id number)), (''title'', PStr (''TED notice '' @ number)), (''status'', PStr ''TRACEABLE''),
           (''facts'', PList (map snd (filter (\<lambda>f. fst f = number) facts)))]) (sort (unique_first (map fst facts)))
       @ [PDict [(''section_id'', PStr ''methodology''), (''title'', PStr ''Methodology and authority''), (''status'', PStr ''TRACEABLE''),
           (''text'', PStr (''The official TED Search API was queried through a fixed non-personal ''
              @ ''profile. AXIGNAL persisted only allowlisted fields. A deterministic ''
              @ ''parser created Candidate Claims and only the deterministic admission ''
              @ ''runtime could write canonical Claims. No model call was made.'')),
           (''profile_id'', PStr ted_profile)]])))"

definition ted_attribution_text :: string where
  "ted_attribution_text = ''Source: TED (Tenders Electronic Daily), Supplement to the Official Journal ''
     @ ''of the European Union. AXIGNAL selected and normalised the allowlisted fields; ''
     @ ''changes are indicated in the dossier methodology.''"

definition ted_dossier :: "string \<Rightarrow> string \<Rightarrow> ted_page \<Rightarrow> nat \<Rightarrow> pyval \<Rightarrow> research_dossier" where
  "ted_dossier tenant run_id page admitted sections =
     \<lparr>ds_id = [], ds_tenant = tenant, ds_run = run_id,
      ds_status = (if admitted = 0 then ''TRACEABLE_PROVISIONAL'' else ''TRACEABLE_WITH_ADMITTED_FACTS''),
      ds_title = ''TED '' @ [CHR 0xB7] @ '' European public procurement discovery'',
      ds_summary = ''AXIGNAL processed '' @ str_int (int (length (tp_notices page))) @ '' bounded TED notices and admitted ''
        @ str_int (int admitted) @ '' exact observed fields.'',
      ds_sections = sections,
      ds_attribution = PDict [(''source_id'', PStr ted_source_id), (''profile_id'', PStr ted_profile),
        (''attribution_text'', PStr ted_attribution_text), (''source_url'', PStr (tp_url page)),
        (''changes'', PStr (''AXIGNAL retained only allowlisted fields and generated '' @ ''deterministic evidence bindings.'')),
        (''api_redistribution'', PBool False)]\<rparr>"

definition ted_usage :: "ted_page \<Rightarrow> pyval" where
  "ted_usage page = PDict [(''api_requests'', PInt (if starts_with ''LIVE_API'' (tp_mode page) then 1 else 0)),
     (''fixture_reads'', PInt (if tp_mode page = ''FROZEN_FIXTURE'' then 1 else 0)),
     (''notices'', PInt (int (length (tp_notices page)))), (''documents'', PInt (int (length (tp_notices page)))),
     (''model_calls'', PInt 0), (''source_envelope_content_hash'', PStr (tp_content_hash page)),
     (''projection_content_hash'', PStr (json_hash (sanitised_projection page)))]"

section \<open>The transaction\<close>

definition claims_of :: "ted_item list \<Rightarrow> string list" where
  "claims_of is = concat (map (\<lambda>i. case ti_claim i of Some c \<Rightarrow> [c] | None \<Rightarrow> []) is)"

definition liftT :: "'a result \<Rightarrow> 'a step" where
  "liftT r db = bindE r (\<lambda>x. Inr (x, db))"

definition ted_completion ::
    "research_env \<Rightarrow> string \<Rightarrow> string \<Rightarrow> (string \<times> pyval) list \<Rightarrow> ted_page \<Rightarrow> (ted_evidence \<times> ted_candidate \<times> ted_decision) list
       \<Rightarrow> string list step" where
  "ted_completion env tenant run_id source page xs =
     bindT (upsert_ted_source_object env source page) (\<lambda>object_id.
     bindT (register_items env object_id xs) (\<lambda>registered.
     bindT (create_admission_batch env (case xs of (_, _, d) # _ \<Rightarrow> ta_policy d | [] \<Rightarrow> []) (map ti_candidate_id registered)) (\<lambda>batch_id.
     bindT (decide_items env page batch_id registered) (\<lambda>items.
     bindT (decide_batch batch_id (PDict [(''profile_id'', PStr ted_profile), (''source_id'', PStr ted_source_id),
              (''decisions'', PList (map ted_decision_row items))])) (\<lambda>_.
     bindT (liftT (ted_sections items)) (\<lambda>sections.
     bindT (insert_dossier env (ted_dossier tenant run_id page (length (claims_of items)) sections)) (\<lambda>dossier_id.
     bindT (link_all tenant run_id (map ti_evidence_id items)) (\<lambda>_.
     bindT (complete_run env tenant run_id (ted_usage page) (map ti_evidence_id items) (map ti_candidate_id items) (claims_of items)
              dossier_id batch_id) (\<lambda>_.
     bindT (completed_event env run_id [(''schema_version'', PInt 1), (''tenant_id'', PStr tenant), (''research_run_id'', PStr run_id),
              (''source_id'', PStr ted_source_id), (''profile_id'', PStr ted_profile), (''evidence_ids'', PStrs (map ti_evidence_id items)),
              (''candidate_claim_ids'', PStrs (map ti_candidate_id items)), (''canonical_claim_ids'', PStrs (claims_of items)),
              (''dossier_id'', PStr dossier_id), (''admission_batch_id'', PStr batch_id)]) (\<lambda>_. returnT (claims_of items)))))))))))"

definition complete_ted_run ::
    "research_env \<Rightarrow> string \<Rightarrow> string \<Rightarrow> (string \<times> pyval) list \<Rightarrow> ted_page \<Rightarrow> ted_evidence list \<Rightarrow> ted_candidate list \<Rightarrow> ted_decision list
       \<Rightarrow> research_db \<Rightarrow> string list option result \<times> research_db" where
  \<comment> \<open>the claims, or \<^const>\<open>None\<close> for a replay\<close>
  "complete_ted_run env tenant run_id source page es cs ds db = in_transaction db
     (if es = [] then Inl (ValueError ''TED run produced no evidence'')
      else if length es \<noteq> length cs \<or> length cs \<noteq> length ds then Inl (ValueError ''TED artifact and decision cardinality differs'')
      else (case find_run tenant run_id db of
          None \<Rightarrow> Inl (LookupError ''ResearchRun not found for TED worker'')
        | Some r \<Rightarrow>
            if rr_job_kind r \<noteq> ''TED_PROCUREMENT'' then Inl (ValueError ''ResearchRun is not a TED procurement run'')
            else if rr_state r = RunCompleted then Inr (None, db)
            else bindT (ted_completion env tenant run_id source page (zip es (zip cs ds))) (\<lambda>claims. returnT (Some claims)) db))"

end
