(* ===== verification/ResearchWorker.thy ===== *)
theory ResearchWorker
  imports TedStore
begin

text \<open>
  The queue, the outbox publisher (\<^verbatim>\<open>queue.py\<close>), the worker that runs a job (\<^verbatim>\<open>worker.py\<close>), the views of a run
  and the routes that create and read runs (\<^verbatim>\<open>persistent_research.py\<close>, \<^verbatim>\<open>persistent_ted_research.py\<close>,
  \<^verbatim>\<open>persistent_models.py\<close>). Each call of the repository is one transaction. A call of the message broker may raise: the
  argument \<^verbatim>\<open>broker\<close> says which calls do, by their number. The broker may drop the oldest entries of its event stream
  beyond ten thousand; the model keeps them.
\<close>

section \<open>Jobs and the queue\<close>

record research_job =
  rj_tenant :: string
  rj_run :: string
  rj_source :: string

definition research_job_from_payload :: "pyval \<Rightarrow> research_job result" where
  "research_job_from_payload v =
     bindE (py_get v ''schema_version'') (\<lambda>sv.
     if \<not> py_eq sv (PInt 1) then Inl (ValueError ''Unsupported research job schema version'') else
     bindE (py_item v ''tenant_id'') (\<lambda>t. bindE (uuid_of_text (py_str t)) (\<lambda>tenant.
     bindE (py_item v ''research_run_id'') (\<lambda>r. bindE (uuid_of_text (py_str r)) (\<lambda>run.
     bindE (py_item v ''source_id'') (\<lambda>s. Inr \<lparr>rj_tenant = tenant, rj_run = run, rj_source = py_str s\<rparr>))))))"

definition research_job_as_payload :: "research_job \<Rightarrow> pyval" where
  "research_job_as_payload j = request_payload (rj_tenant j) (rj_run j) (rj_source j)"

record research_world =
  rw_db :: research_db
  rw_queue :: "pyval list" \<comment> \<open>the JSON values whose text is pushed\<close>
  rw_stream :: "outbox_event list"
  rw_calls :: nat

type_synonym broker = "nat \<Rightarrow> string option"

definition broker_call :: "broker \<Rightarrow> (research_world \<Rightarrow> research_world) \<Rightarrow> research_world \<Rightarrow> unit result \<times> research_world" where
  "broker_call broker f w =
     (let w1 = w\<lparr>rw_calls := Suc (rw_calls w)\<rparr> in
      case broker (rw_calls w) of Some m \<Rightarrow> (Inl (RedisError m), w1) | None \<Rightarrow> (Inr (), f w1))"

definition enqueue_research :: "broker \<Rightarrow> research_job \<Rightarrow> research_world \<Rightarrow> unit result \<times> research_world" where
  "enqueue_research broker j = broker_call broker (\<lambda>w. w\<lparr>rw_queue := rw_queue w @ [research_job_as_payload j]\<rparr>)"

definition publish_to_stream :: "broker \<Rightarrow> outbox_event \<Rightarrow> research_world \<Rightarrow> unit result \<times> research_world" where
  "publish_to_stream broker e = broker_call broker (\<lambda>w. w\<lparr>rw_stream := rw_stream w @ [e]\<rparr>)"

definition dequeue_research :: "research_world \<Rightarrow> research_job option result \<times> research_world" where
  "dequeue_research w = (case rw_queue w of
     [] \<Rightarrow> (Inr None, w)
   | v # vs \<Rightarrow> (case v of
        PDict _ \<Rightarrow> (bindE (research_job_from_payload v) (\<lambda>j. Inr (Some j)), w\<lparr>rw_queue := vs\<rparr>)
      | _ \<Rightarrow> (Inl (ValueError ''Research queue payload must be an object''), w\<lparr>rw_queue := vs\<rparr>)))"

definition deliver_event :: "broker \<Rightarrow> outbox_event \<Rightarrow> research_world \<Rightarrow> unit result \<times> research_world" where
  \<comment> \<open>the body of the \<^verbatim>\<open>try\<close>\<close>
  "deliver_event broker e w =
     (if ob_event_type e = ''research.run.requested''
      then (case research_job_from_payload (ob_payload e) of Inl err \<Rightarrow> (Inl err, w) | Inr j \<Rightarrow> enqueue_research broker j w)
      else publish_to_stream broker e w)"

fun publish_events :: "broker \<Rightarrow> int \<Rightarrow> outbox_event list \<Rightarrow> nat \<Rightarrow> research_world \<Rightarrow> nat result \<times> research_world" where
  \<comment> \<open>the loop, with the number published so far\<close>
  "publish_events broker now [] n w = (Inr n, w)"
| "publish_events broker now (e # es) n w =
     (case deliver_event broker e w of
        (Inr _, w1) \<Rightarrow> publish_events broker now es (Suc n) (w1\<lparr>rw_db := mark_published now (ob_event_id e) (rw_db w1)\<rparr>)
      | (Inl err, w1) \<Rightarrow>
          if publish_handles err
          then publish_events broker now es n
                 (w1\<lparr>rw_db := mark_failed now (ob_event_id e) (error_class err @ '': '' @ error_text err) (rw_db w1)\<rparr>)
          else (Inl err, w1))"

definition publish_research :: "broker \<Rightarrow> int \<Rightarrow> nat \<Rightarrow> research_world \<Rightarrow> nat result \<times> research_world" where
  "publish_research broker now limit w = publish_events broker now (pending_outbox limit now (rw_db w)) 0 w"

section \<open>The worker\<close>

text \<open>What the worker is built with; \<^verbatim>\<open>clock\<close> gives the times a run reads, in their order.\<close>

record research_io =
  io_wb :: wb_connector
  io_get :: http_get
  io_ted :: "ted_connector option"
  io_post :: http_post
  io_clock :: "nat \<Rightarrow> int"

definition at_time :: "research_env \<Rightarrow> research_io \<Rightarrow> nat \<Rightarrow> research_env" where
  "at_time env io k = env\<lparr>ren_now := io_clock io k\<rparr>"

definition thenD :: "'a result \<times> research_db \<Rightarrow> ('a \<Rightarrow> research_db \<Rightarrow> 'b result \<times> research_db) \<Rightarrow> 'b result \<times> research_db" where
  "thenD m k = (case m of (Inl e, db) \<Rightarrow> (Inl e, db) | (Inr x, db) \<Rightarrow> k x db)"

definition block_reason :: "(string \<times> pyval) list \<Rightarrow> string \<Rightarrow> string option" where
  "block_reason source source_id =
     (if \<not> py_eq (lookup source ''admission_state'') (PStr ''ADMITTED'') then Some ''Source admission state is not ADMITTED''
      else if py_truthy (lookup source ''kill_switch'') then Some ''Source kill switch is enabled''
      else if \<not> py_eq (lookup source ''rights_status'') (PStr ''COMMERCIAL_REUSE_WITH_ATTRIBUTION'')
      then Some ''Source rights do not permit commercial reuse with attribution''
      else if \<not> py_truthy (lookup source ''commercial_use'') then Some ''Source commercial-use permission is absent''
      else if source_id = wb_source_id \<and> \<not> py_truthy (lookup source ''redistribution'')
      then Some ''World Bank redistribution permission is absent''
      else if source_id = ted_source_id
      then (case lookup source ''config'' of
              PDict config \<Rightarrow>
                if \<not> py_eq (lookup config ''product_profile'') (PStr ted_profile) then Some ''TED bounded product profile is absent''
                else if lookup config ''api_redistribution_allowed'' \<noteq> PBool False then Some ''TED API redistribution guard is absent''
                else None
            | _ \<Rightarrow> Some ''TED bounded product profile is absent'')
      else None)"

definition process_world_bank ::
    "research_env \<Rightarrow> research_io \<Rightarrow> research_job \<Rightarrow> research_run \<Rightarrow> (string \<times> pyval) list \<Rightarrow> research_db \<Rightarrow> unit result \<times> research_db" where
  "process_world_bank env io j run source db =
     thenD (transition_run (at_time env io 0) (rj_tenant j) (rj_run j) RunRetrieving db) (\<lambda>_ db.
     thenD (fetch_latest_inflation (io_wb io) (io_get io) (io_clock io 1), db) (\<lambda>x db.
     thenD (transition_run (at_time env io 2) (rj_tenant j) (rj_run j) RunProposing db) (\<lambda>_ db.
     thenD (build_world_bank_inflation_artifacts (rr_opportunity run) (wo_period x) (wo_value x) (wo_content_hash x), db) (\<lambda>(e, c) db.
     thenD (transition_run (at_time env io 3) (rj_tenant j) (rj_run j) RunAdmissionPending db) (\<lambda>_ db.
     thenD (complete_world_bank_run (at_time env io 5) (rj_tenant j) (rj_run j) source x e c
              (evaluate_observed_fact source e c (io_clock io 4)) db) (\<lambda>_ db. (Inr (), db)))))))"

definition process_ted ::
    "research_env \<Rightarrow> research_io \<Rightarrow> research_job \<Rightarrow> research_run \<Rightarrow> (string \<times> pyval) list \<Rightarrow> research_db \<Rightarrow> unit result \<times> research_db" where
  "process_ted env io j run source db =
     (if rr_job_kind run \<noteq> ''TED_PROCUREMENT'' then (Inl (ValueError ''TED source was requested by a non-TED ResearchRun''), db)
      else (case io_ted io of
        None \<Rightarrow> (Inl (RuntimeError ''TED connector is not configured''), db)
      | Some connector \<Rightarrow>
          thenD (transition_run (at_time env io 0) (rj_tenant j) (rj_run j) RunRetrieving db) (\<lambda>_ db.
          thenD (fetch_probe_page connector (io_post io) (io_clock io 1), db) (\<lambda>page db.
          thenD (transition_run (at_time env io 2) (rj_tenant j) (rj_run j) RunProposing db) (\<lambda>_ db.
          thenD (build_ted_search_artifacts page (rr_opportunity run), db) (\<lambda>(es, cs) db.
          thenD (transition_run (at_time env io 3) (rj_tenant j) (rj_run j) RunAdmissionPending db) (\<lambda>_ db.
          thenD (complete_ted_run (at_time env io 5) (rj_tenant j) (rj_run j) source page es cs
                   (map2 (evaluate_ted_observed_field source) es cs) db) (\<lambda>_ db. (Inr (), db)))))))))"

definition research_handles :: "py_error \<Rightarrow> bool" where
  \<comment> \<open>\<^verbatim>\<open>except (SourceRetrievalError, TEDSourceRetrievalError, LookupError, RuntimeError, ValueError)\<close> and their subclasses\<close>
  "research_handles e = (case e of
     TypeError _ \<Rightarrow> False | AttributeError _ \<Rightarrow> False | RedisError _ \<Rightarrow> False | UniqueViolation _ \<Rightarrow> False | AssertionError _ \<Rightarrow> False
   | OverflowError _ \<Rightarrow> False | OSError _ \<Rightarrow> False | DatabaseError _ _ \<Rightarrow> False | HTTPException _ _ \<Rightarrow> False | _ \<Rightarrow> True)"

definition process_research :: "research_env \<Rightarrow> research_io \<Rightarrow> research_job \<Rightarrow> research_db \<Rightarrow> unit result \<times> research_db" where
  "process_research env io j db =
     (let refuse = (\<lambda>c d. fail_run (at_time env io 6) (rj_tenant j) (rj_run j) c d db) in
      case find_run (rj_tenant j) (rj_run j) db of
        None \<Rightarrow> (Inr (), db)
      | Some run \<Rightarrow>
        if rr_state run = RunCompleted then (Inr (), db)
        else if rj_source j \<notin> {wb_source_id, ted_source_id}
        then refuse ''SOURCE_NOT_ROUTED'' (''No admitted worker route exists for source '' @ rj_source j)
        else (case get_source (rj_source j) db of
          None \<Rightarrow> refuse ''SOURCE_NOT_REGISTERED'' ''The source registry contains no matching source''
        | Some source \<Rightarrow>
          (case block_reason source (rj_source j) of
             Some reason \<Rightarrow> refuse ''SOURCE_NOT_ADMITTED'' reason
           | None \<Rightarrow>
             (case (if rj_source j = ted_source_id then process_ted env io j run source db
                    else process_world_bank env io j run source db) of
                (Inr _, db1) \<Rightarrow> (Inr (), db1)
              | (Inl e, db1) \<Rightarrow>
                  if research_handles e
                  then fail_run (at_time env io 6) (rj_tenant j) (rj_run j) (upper (error_class e)) (error_text e) db1
                  else (Inl e, db1)))))"

definition research_run_once :: "research_env \<Rightarrow> research_io \<Rightarrow> research_world \<Rightarrow> bool result \<times> research_world" where
  "research_run_once env io w =
     (case dequeue_research w of
        (Inl e, w1) \<Rightarrow> (Inl e, w1)
      | (Inr None, w1) \<Rightarrow> (Inr False, w1)
      | (Inr (Some j), w1) \<Rightarrow>
          (case process_research env io j (rw_db w1) of
             (Inl e, db) \<Rightarrow> (Inl e, w1\<lparr>rw_db := db\<rparr>)
           | (Inr _, db) \<Rightarrow> (Inr True, w1\<lparr>rw_db := db\<rparr>)))"

definition research_main_once :: "broker \<Rightarrow> research_env \<Rightarrow> research_io \<Rightarrow> research_world \<Rightarrow> unit result \<times> research_world" where
  \<comment> \<open>\<^verbatim>\<open>main\<close> with \<^verbatim>\<open>--once\<close>; each round of the endless loop is the first two calls\<close>
  "research_main_once broker env io w =
     (case publish_research broker (ren_now env) 20 w of
        (Inl e, w1) \<Rightarrow> (Inl e, w1)
      | (Inr _, w1) \<Rightarrow>
          (case research_run_once env io w1 of
             (Inl e, w2) \<Rightarrow> (Inl e, w2)
           | (Inr _, w2) \<Rightarrow>
               (case publish_research broker (ren_now env) 20 w2 of (Inl e, w3) \<Rightarrow> (Inl e, w3) | (Inr _, w3) \<Rightarrow> (Inr (), w3))))"

section \<open>Views\<close>

definition fetch_many :: "('r \<Rightarrow> string) \<Rightarrow> 'r list \<Rightarrow> string list \<Rightarrow> 'r list" where
  \<comment> \<open>the rows among the identifiers, in the order of the last occurrence of each\<close>
  "fetch_many ident rows ids =
     (let order = map_of (rev (zip ids [0..<length ids])) in
      sort_key (\<lambda>r. case order (ident r) of Some k \<Rightarrow> k | None \<Rightarrow> length ids) (filter (\<lambda>r. ident r \<in> set ids) rows))"

definition opt_int :: "int option \<Rightarrow> pyval" where
  "opt_int x = (case x of Some i \<Rightarrow> PInt i | None \<Rightarrow> PNone)"

definition evidence_view :: "research_evidence \<Rightarrow> pyval" where
  "evidence_view r = PDict [(''evidence_id'', PStr (eo_id r)), (''source_id'', PStr (eo_source r)), (''title'', PStr (eo_title r)),
     (''relationship'', PStr (eo_relationship r)), (''subject_id'', PStr (eo_subject r)), (''predicate'', PStr (eo_predicate r)),
     (''observed_at'', PInt (eo_observed r)), (''numeric_value'', opt_str (eo_numeric r)), (''unit'', opt_str (eo_unit r)),
     (''rights_status'', PStr (eo_rights r)), (''provisional'', PBool (eo_provisional r)), (''payload'', eo_payload r)]"

definition claim_state_text :: "claim_state \<Rightarrow> string" where
  "claim_state_text s = (case s of ClaimProposed \<Rightarrow> ''PROPOSED'' | ClaimQueued \<Rightarrow> ''ADMISSION_QUEUED'' | ClaimAdmitted \<Rightarrow> ''ADMITTED''
     | ClaimRejected \<Rightarrow> ''REJECTED'' | ClaimContested \<Rightarrow> ''CONTESTED'' | ClaimHumanReview \<Rightarrow> ''HUMAN_REVIEW_REQUIRED'')"

definition candidate_view :: "research_candidate \<Rightarrow> pyval" where
  "candidate_view r = PDict [(''candidate_claim_id'', PStr (cl_id r)), (''fingerprint'', PStr (cl_fingerprint r)),
     (''statement'', PStr (cl_statement r)), (''kind'', PStr (cl_kind r)), (''state'', PStr (claim_state_text (cl_state r))),
     (''producer_type'', PStr (cl_producer_type r)), (''method_version'', PStr (cl_method r)),
     (''canonical_claim_id'', opt_str (cl_canonical r)), (''rejection_reasons'', PStrs (cl_reasons r))]"

definition canonical_view :: "canonical_claim \<Rightarrow> pyval" where
  "canonical_view r = PDict [(''canonical_claim_id'', PStr (cn_id r)), (''fingerprint'', PStr (cn_fingerprint r)),
     (''statement'', PStr (cn_statement r)), (''subject_id'', PStr (cn_subject r)), (''predicate'', PStr (cn_predicate r)),
     (''object_value'', cn_object r), (''observed_at'', PInt (cn_observed r)), (''epistemic_class'', PStr (cn_class r)),
     (''state'', PStr ''ADMITTED''), (''admitted_by'', PStr ''DETERMINISTIC_RUNTIME''), (''admitted_at'', PInt (cn_admitted_at r))]"

definition dossier_view :: "research_dossier \<Rightarrow> pyval" where
  "dossier_view r = PDict [(''dossier_id'', PStr (ds_id r)), (''status'', PStr (ds_status r)), (''title'', PStr (ds_title r)),
     (''summary'', PStr (ds_summary r)), (''sections'', ds_sections r), (''attribution'', ds_attribution r)]"

record run_view =
  rv_run :: research_run
  rv_evidence :: "research_evidence list"
  rv_candidates :: "research_candidate list"
  rv_canonical :: "canonical_claim list"
  rv_dossier :: "research_dossier option"

definition get_run_view :: "string \<Rightarrow> string \<Rightarrow> research_db \<Rightarrow> run_view option" where
  "get_run_view tenant run_id db = map_option (\<lambda>r.
     \<lparr>rv_run = r, rv_evidence = fetch_many eo_id (db_evidence db) (rr_evidence r),
      rv_candidates = fetch_many cl_id (db_candidates db) (rr_candidates r),
      rv_canonical = fetch_many cn_id (db_canonical db) (rr_canonical r),
      rv_dossier = (case rr_dossier r of None \<Rightarrow> None
        | Some d \<Rightarrow> find (\<lambda>x. ds_tenant x = tenant \<and> ds_id x = d) (db_dossiers db))\<rparr>) (find_run tenant run_id db)"

definition run_state_text :: "research_state \<Rightarrow> string" where
  "run_state_text s = (case s of RunQueued \<Rightarrow> ''QUEUED'' | RunRetrieving \<Rightarrow> ''RETRIEVING'' | RunParsing \<Rightarrow> ''DOCUMENT_PARSING''
     | RunScanning \<Rightarrow> ''SECURITY_SCANNING'' | RunProposing \<Rightarrow> ''PROPOSING'' | RunBinding \<Rightarrow> ''EVIDENCE_BINDING''
     | RunAdmissionPending \<Rightarrow> ''ADMISSION_PENDING'' | RunHandoffPending \<Rightarrow> ''HANDOFF_PENDING'' | RunReviewing \<Rightarrow> ''ADMISSION_REVIEWING''
     | RunCompleted \<Rightarrow> ''COMPLETED'' | RunProvisional \<Rightarrow> ''COMPLETED_PROVISIONAL'' | RunHumanReview \<Rightarrow> ''HUMAN_REVIEW_REQUIRED''
     | RunContested \<Rightarrow> ''CONTESTED'' | RunQuarantined \<Rightarrow> ''QUARANTINED'' | RunFailed \<Rightarrow> ''FAILED'')"

definition run_view_json :: "run_view \<Rightarrow> pyval" where
  "run_view_json v = (let r = rv_run v in PDict
     [(''research_run_id'', PStr (rr_id r)), (''context_id'', PStr (rr_context r)), (''opportunity_id'', PStr (rr_opportunity r)),
      (''question'', PStr (rr_question r)), (''state'', PStr (run_state_text (rr_state r))),
      (''private_knowledge_authorised'', PBool (rr_private r)), (''source_plan'', rr_plan r), (''budgets'', rr_budgets r),
      (''actual_usage'', rr_usage r), (''evidence'', PList (map evidence_view (rv_evidence v))),
      (''candidate_claims'', PList (map candidate_view (rv_candidates v))),
      (''canonical_claims'', PList (map canonical_view (rv_canonical v))),
      (''dossier'', case rv_dossier v of Some d \<Rightarrow> dossier_view d | None \<Rightarrow> PNone), (''admission_batch_id'', opt_str (rr_batch r)),
      (''error_code'', opt_str (rr_error_code r)), (''error_detail'', opt_str (rr_error_detail r)),
      (''created_at'', PInt (rr_created r)), (''updated_at'', PInt (rr_updated r)), (''synthetic'', PBool False)])"

section \<open>Routes\<close>

record research_command =
  rc_context :: string
  rc_opportunity :: string
  rc_question :: string
  rc_private :: bool

definition context_pattern :: "string \<Rightarrow> bool" where
  \<comment> \<open>\<^verbatim>\<open>^ctx_[A-Za-z0-9_-]{8,}$\<close>\<close>
  "context_pattern s \<longleftrightarrow> starts_with ''ctx_'' s \<and> 8 \<le> length (drop 4 s)
     \<and> list_all (\<lambda>c. is_ascii_upper c \<or> is_ascii_lower c \<or> is_digit c \<or> c = CHR ''_'' \<or> c = CHR ''-'') (drop 4 s)"

definition validate_command :: "research_command \<Rightarrow> research_command result" where
  "validate_command c =
     (if \<not> context_pattern (rc_context c) then Inl (ValidationError ''context_id'')
      else if length (rc_opportunity c) < 3 \<or> 200 < length (rc_opportunity c) then Inl (ValidationError ''opportunity_id'')
      else if length (rc_question c) < 3 \<or> 8000 < length (rc_question c) then Inl (ValidationError ''question'')
      else Inr c)"

definition validate_ted_command :: "research_command \<Rightarrow> research_command result" where
  "validate_ted_command c = bindE (validate_command c) (\<lambda>c.
     if rc_private c then Inl (ValidationError ''include_private_knowledge'') else Inr c)"

record run_accepted =
  ra_run :: string
  ra_published :: bool \<comment> \<open>\<^verbatim>\<open>queue_delivery\<close>: PUBLISHED, else OUTBOX_PENDING\<close>
  ra_sources :: "string list"

definition accept_run ::
    "broker \<Rightarrow> research_env \<Rightarrow> string \<Rightarrow> (research_db \<Rightarrow> string result \<times> research_db) \<Rightarrow> string \<Rightarrow> research_world
       \<Rightarrow> run_accepted result \<times> research_world" where
  \<comment> \<open>create, publish, and every exception is a 503\<close>
  "accept_run broker env spine create source_id w =
     (let down = (\<lambda>e. Inl (HTTPException 503 (spine @ '' unavailable: '' @ error_class e))) in
      case create (rw_db w) of
        (Inl e, db) \<Rightarrow> (down e, w\<lparr>rw_db := db\<rparr>)
      | (Inr run_id, db) \<Rightarrow>
          (case publish_research broker (ren_now env) 100 (w\<lparr>rw_db := db\<rparr>) of
             (Inl e, w1) \<Rightarrow> (down e, w1)
           | (Inr n, w1) \<Rightarrow> (Inr \<lparr>ra_run = run_id, ra_published = (n \<noteq> 0), ra_sources = [source_id]\<rparr>, w1)))"

definition create_persistent_research_run ::
    "broker \<Rightarrow> research_env \<Rightarrow> string \<Rightarrow> research_command \<Rightarrow> research_world \<Rightarrow> run_accepted result \<times> research_world" where
  "create_persistent_research_run broker env tenant c w =
     (case validate_command c of
        Inl e \<Rightarrow> (Inl e, w)
      | Inr c \<Rightarrow> accept_run broker env ''Persistent research spine''
          (create_run env tenant (rc_context c) (rc_opportunity c) (rc_question c) (rc_private c)) wb_source_id w)"

definition create_persistent_ted_research_run ::
    "broker \<Rightarrow> research_env \<Rightarrow> string \<Rightarrow> research_command \<Rightarrow> research_world \<Rightarrow> run_accepted result \<times> research_world" where
  "create_persistent_ted_research_run broker env tenant c w =
     (case validate_ted_command c of
        Inl e \<Rightarrow> (Inl e, w)
      | Inr c \<Rightarrow> accept_run broker env ''Persistent TED research spine''
          (create_ted_run env tenant (rc_context c) (rc_opportunity c) (rc_question c)) ted_source_id w)"

definition get_persistent_research_run :: "string \<Rightarrow> string \<Rightarrow> research_db \<Rightarrow> run_view result" where
  "get_persistent_research_run tenant run_id db = (case get_run_view tenant run_id db of
     None \<Rightarrow> Inl (HTTPException 404 ''ResearchRun not found'') | Some v \<Rightarrow> Inr v)"

end
