(* ===== verification/ResearchLedger.thy ===== *)
theory ResearchLedger
  imports ResearchWorker "HOL-Library.Sublist"
begin

text \<open>
  What the tables of the research spine keep: unique keys, lineage from a claim to a licensed source object, one event
  for each claim, one dossier for each run; and that every transaction of the repository, in any
  interleaving of workers, keeps it.
\<close>

section \<open>The keyed tables\<close>

lemma find_fresh: "k x \<notin> k ` set rs \<Longrightarrow> find (\<lambda>r. k r = k x) rs = None"
  by (induction rs) auto

lemma find_SomeD: "find p xs = Some x \<Longrightarrow> x \<in> set xs \<and> p x"
  by (induction xs) (auto split: if_splits)

lemma find_NoneD: "find p xs = None \<Longrightarrow> x \<in> set xs \<Longrightarrow> \<not> p x"
  by (induction xs) (auto split: if_splits)

lemma find_known:
  assumes "k x \<in> k ` set rs"
  obtains r where "find (\<lambda>r. k r = k x) rs = Some r" "r \<in> set rs" "k r = k x"
proof (cases "find (\<lambda>r. k r = k x) rs")
  case None
  then show ?thesis using assms by (auto dest: find_NoneD)
next
  case (Some r)
  then show ?thesis using that find_SomeD [OF Some] by blast
qed

interpretation evidence_table: keyed_table db_evidence eo_key eo_id "\<lambda>db. ren_id env (db_next db)" "insert_evidence env" for env
proof
  fix x :: research_evidence and db i t
  assume put: "insert_evidence env x db = Inr (i, t)"
  show "(\<exists>r\<in>set (db_evidence db). eo_key r = eo_key x \<and> eo_id r = i) \<and>
      map (\<lambda>r. (eo_key r, eo_id r)) (db_evidence t) = map (\<lambda>r. (eo_key r, eo_id r)) (db_evidence db)"
    if "eo_key x \<in> eo_key ` set (db_evidence db)"
  proof -
    from that obtain r where "find (\<lambda>e. eo_key e = eo_key x) (db_evidence db) = Some r" "r \<in> set (db_evidence db)"
      "eo_key r = eo_key x" by (rule find_known)
    with put show ?thesis by (auto simp: insert_evidence_def)
  qed
  show "i = ren_id env (db_next db) \<and> (\<exists>r. db_evidence t = db_evidence db @ [r] \<and> eo_key r = eo_key x \<and> eo_id r = i)"
    if "eo_key x \<notin> eo_key ` set (db_evidence db)"
    using put find_fresh [OF that] by (auto simp: insert_evidence_def draw_def)
qed

definition keeps_claim :: "(research_candidate \<Rightarrow> research_candidate) \<Rightarrow> bool" where
  \<comment> \<open>what a conflict may change in the row that is there\<close>
  "keeps_claim f \<longleftrightarrow> (\<forall>c. f c = c\<lparr>cl_updated := cl_updated (f c)\<rparr>)"

lemma keeps_claimD:
  assumes "keeps_claim f"
  shows "cl_id (f c) = cl_id c" "cl_fingerprint (f c) = cl_fingerprint c" "cl_evidence (f c) = cl_evidence c"
    "cl_kind (f c) = cl_kind c" "cl_producer_type (f c) = cl_producer_type c" "cl_canonical (f c) = cl_canonical c"
    "cl_state (f c) = cl_state c"
proof -
  have c: "f c = c\<lparr>cl_updated := cl_updated (f c)\<rparr>" using assms by (simp add: keeps_claim_def)
  show "cl_id (f c) = cl_id c" "cl_fingerprint (f c) = cl_fingerprint c" "cl_evidence (f c) = cl_evidence c"
    "cl_kind (f c) = cl_kind c" "cl_producer_type (f c) = cl_producer_type c" "cl_canonical (f c) = cl_canonical c"
    "cl_state (f c) = cl_state c"
    by (subst c, simp)+
qed

lemma insert_candidate_pairs:
  assumes put: "insert_candidate env f x db = Inr (i, t)" and f: "keeps_claim f"
  shows "cl_fingerprint x \<in> cl_fingerprint ` set (db_candidates db) \<Longrightarrow>
      (\<exists>r\<in>set (db_candidates db). cl_fingerprint r = cl_fingerprint x \<and> cl_id r = i) \<and>
      map (\<lambda>r. (cl_fingerprint r, cl_id r)) (db_candidates t) = map (\<lambda>r. (cl_fingerprint r, cl_id r)) (db_candidates db)"
    "cl_fingerprint x \<notin> cl_fingerprint ` set (db_candidates db) \<Longrightarrow> i = ren_id env (db_next db) \<and>
      (\<exists>r. db_candidates t = db_candidates db @ [r] \<and> cl_fingerprint r = cl_fingerprint x \<and> cl_id r = i)"
proof -
  assume "cl_fingerprint x \<in> cl_fingerprint ` set (db_candidates db)"
  then obtain r where "find (\<lambda>c. cl_fingerprint c = cl_fingerprint x) (db_candidates db) = Some r" "r \<in> set (db_candidates db)"
    "cl_fingerprint r = cl_fingerprint x" by (rule find_known)
  then show "(\<exists>r\<in>set (db_candidates db). cl_fingerprint r = cl_fingerprint x \<and> cl_id r = i) \<and>
      map (\<lambda>r. (cl_fingerprint r, cl_id r)) (db_candidates t) = map (\<lambda>r. (cl_fingerprint r, cl_id r)) (db_candidates db)"
    using put by (auto simp: insert_candidate_def keeps_claimD [OF f])
next
  assume "cl_fingerprint x \<notin> cl_fingerprint ` set (db_candidates db)"
  from find_fresh [OF this] put show "i = ren_id env (db_next db) \<and>
      (\<exists>r. db_candidates t = db_candidates db @ [r] \<and> cl_fingerprint r = cl_fingerprint x \<and> cl_id r = i)"
    by (auto simp: insert_candidate_def draw_def)
qed

lemma touched_keeps [simp]: "keeps_claim (\<lambda>r. r\<lparr>cl_updated := n\<rparr>)" "keeps_claim (\<lambda>r. r)"
  by (simp_all add: keeps_claim_def)

interpretation fact_candidates: keyed_table db_candidates cl_fingerprint cl_id "\<lambda>db. ren_id env (db_next db)"
  "insert_candidate env (\<lambda>r. r\<lparr>cl_updated := ren_now env\<rparr>)" for env
  by unfold_locales (rule insert_candidate_pairs [OF _ touched_keeps(1)], assumption+, rule insert_candidate_pairs [OF _ touched_keeps(1)], assumption+)

interpretation ted_candidates: keyed_table db_candidates cl_fingerprint cl_id "\<lambda>db. ren_id env (db_next db)"
  "insert_candidate env (\<lambda>r. r)" for env
  by unfold_locales (rule insert_candidate_pairs [OF _ touched_keeps(2)], assumption+, rule insert_candidate_pairs [OF _ touched_keeps(2)], assumption+)

definition put_canonical :: "research_env \<Rightarrow> canonical_claim \<Rightarrow> string step" where
  "put_canonical env x = bindT (insert_canonical env x) (\<lambda>(i, created). returnT i)"

interpretation canonical_table: keyed_table db_canonical cn_fingerprint cn_id "\<lambda>db. ren_id env (db_next db)"
  "put_canonical env" for env
proof
  fix x :: canonical_claim and db i t
  assume put: "put_canonical env x db = Inr (i, t)"
  show "(\<exists>r\<in>set (db_canonical db). cn_fingerprint r = cn_fingerprint x \<and> cn_id r = i) \<and>
      map (\<lambda>r. (cn_fingerprint r, cn_id r)) (db_canonical t) = map (\<lambda>r. (cn_fingerprint r, cn_id r)) (db_canonical db)"
    if "cn_fingerprint x \<in> cn_fingerprint ` set (db_canonical db)"
  proof -
    from that obtain r where "find (\<lambda>c. cn_fingerprint c = cn_fingerprint x) (db_canonical db) = Some r"
      "r \<in> set (db_canonical db)" "cn_fingerprint r = cn_fingerprint x" by (rule find_known)
    with put show ?thesis by (auto simp: put_canonical_def bindT_def returnT_def insert_canonical_def)
  qed
  show "i = ren_id env (db_next db) \<and>
      (\<exists>r. db_canonical t = db_canonical db @ [r] \<and> cn_fingerprint r = cn_fingerprint x \<and> cn_id r = i)"
    if "cn_fingerprint x \<notin> cn_fingerprint ` set (db_canonical db)"
    using put find_fresh [OF that] by (auto simp: put_canonical_def bindT_def returnT_def insert_canonical_def draw_def)
qed

section \<open>The invariant\<close>

definition licensed :: "source_object \<Rightarrow> bool" where
  "licensed x = (case so_rights x of
     PDict d \<Rightarrow> lookup d ''rights_status'' = PStr ''COMMERCIAL_REUSE_WITH_ATTRIBUTION'' | _ \<Rightarrow> False)"

definition evidence_ids :: "research_db \<Rightarrow> string set" where
  "evidence_ids db = eo_id ` set (db_evidence db)"

definition objects_ok :: "research_db \<Rightarrow> bool" where
  "objects_ok db \<longleftrightarrow> (\<forall>x\<in>set (db_objects db). licensed x)"

definition evidence_kept :: "research_db \<Rightarrow> bool" where
  "evidence_kept db \<longleftrightarrow> distinct (map eo_key (db_evidence db))
     \<and> (\<forall>e\<in>set (db_evidence db). eo_object e \<in> so_id ` set (db_objects db))"

definition claim_ok :: "research_db \<Rightarrow> canonical_claim \<Rightarrow> bool" where
  "claim_ok db k \<longleftrightarrow> cn_evidence k \<noteq> [] \<and> set (cn_evidence k) \<subseteq> evidence_ids db
     \<and> cn_batch k \<in> ab_id ` set (db_batches db) \<and> cn_class k = ''OBSERVED_FACT''"

definition claims_ok :: "research_db \<Rightarrow> bool" where
  "claims_ok db \<longleftrightarrow> distinct (map cn_fingerprint (db_canonical db))
     \<and> map ce_claim (db_events db) = map cn_id (db_canonical db)
     \<and> (\<forall>k\<in>set (db_canonical db). claim_ok db k)"

definition claim_link :: "research_db \<Rightarrow> research_candidate \<Rightarrow> bool" where
  "claim_link db c \<longleftrightarrow> (cl_state c = ClaimAdmitted \<longrightarrow> cl_canonical c \<noteq> None)
     \<and> (\<forall>i. cl_canonical c = Some i \<longrightarrow> (\<exists>k\<in>set (db_canonical db). cn_id k = i \<and> cn_fingerprint k = cl_fingerprint c))"

definition candidate_kept :: "research_db \<Rightarrow> research_candidate \<Rightarrow> bool" where
  "candidate_kept db c \<longleftrightarrow> set (cl_evidence c) \<subseteq> evidence_ids db \<and> cl_kind c = ''FACT''
     \<and> cl_producer_type c = ''DETERMINISTIC_PARSER'' \<and> claim_link db c"

definition candidates_ok :: "(nat \<Rightarrow> string) \<Rightarrow> research_db \<Rightarrow> bool" where
  "candidates_ok ids db \<longleftrightarrow> distinct (map cl_fingerprint (db_candidates db)) \<and> distinct (map cl_id (db_candidates db))
     \<and> cl_id ` set (db_candidates db) \<subseteq> ids ` {..<db_next db} \<and> (\<forall>c\<in>set (db_candidates db). candidate_kept db c)"

definition dossier_ok :: "research_db \<Rightarrow> research_dossier \<Rightarrow> bool" where
  "dossier_ok db d \<longleftrightarrow> (\<exists>r\<in>set (db_runs db). rr_id r = ds_run d \<and> rr_tenant r = ds_tenant d)"

definition dossiers_ok :: "research_db \<Rightarrow> bool" where
  "dossiers_ok db \<longleftrightarrow> distinct (map ds_run (db_dossiers db))
     \<and> (\<forall>d\<in>set (db_dossiers db). dossier_ok db d)"

definition run_ok :: "research_db \<Rightarrow> research_run \<Rightarrow> bool" where
  "run_ok db r \<longleftrightarrow> (rr_state r = RunCompleted \<longrightarrow> rr_dossier r \<noteq> None)
     \<and> (\<forall>d. rr_dossier r = Some d \<longrightarrow> (\<exists>x\<in>set (db_dossiers db). ds_id x = d \<and> ds_run x = rr_id r \<and> ds_tenant x = rr_tenant r))
     \<and> set (rr_evidence r) \<subseteq> evidence_ids db \<and> set (rr_candidates r) \<subseteq> cl_id ` set (db_candidates db)
     \<and> set (rr_canonical r) \<subseteq> cn_id ` set (db_canonical db)"

definition runs_ok :: "(nat \<Rightarrow> string) \<Rightarrow> research_db \<Rightarrow> bool" where
  "runs_ok ids db \<longleftrightarrow> distinct (map rr_id (db_runs db)) \<and> rr_id ` set (db_runs db) \<subseteq> ids ` {..<db_next db}
     \<and> (\<forall>r\<in>set (db_runs db). run_ok db r)"

definition research_ok :: "(nat \<Rightarrow> string) \<Rightarrow> research_db \<Rightarrow> bool" where
  "research_ok ids db \<longleftrightarrow> objects_ok db \<and> evidence_kept db \<and> claims_ok db \<and> candidates_ok ids db \<and> dossiers_ok db \<and> runs_ok ids db"

text \<open>What later steps can rely on: rows stay, the ledgers only grow.\<close>

definition claim_key :: "research_candidate \<Rightarrow> string \<times> string" where
  "claim_key c = (cl_id c, cl_fingerprint c)"

definition grows :: "research_db \<Rightarrow> research_db \<Rightarrow> bool" where
  "grows db db' \<longleftrightarrow> prefix (db_canonical db) (db_canonical db') \<and> prefix (db_events db) (db_events db')
     \<and> prefix (db_dossiers db) (db_dossiers db') \<and> prefix (db_objects db) (db_objects db')
     \<and> prefix (db_evidence db) (db_evidence db') \<and> prefix (map claim_key (db_candidates db)) (map claim_key (db_candidates db'))
     \<and> prefix (map ab_id (db_batches db)) (map ab_id (db_batches db'))
     \<and> prefix (map (\<lambda>r. (rr_id r, rr_tenant r)) (db_runs db)) (map (\<lambda>r. (rr_id r, rr_tenant r)) (db_runs db'))
     \<and> db_next db \<le> db_next db'"

lemma grows_refl [simp]: "grows db db"
  by (simp add: grows_def)

lemma grows_trans: "grows a b \<Longrightarrow> grows b c \<Longrightarrow> grows a c"
  unfolding grows_def by (meson prefix_order.trans le_trans)

lemma prefix_subset: "prefix xs ys \<Longrightarrow> x \<in> set xs \<Longrightarrow> x \<in> set ys"
  using set_mono_prefix by blast

lemma grows_rows:
  assumes "grows db db'"
  shows "x \<in> set (db_canonical db) \<Longrightarrow> x \<in> set (db_canonical db')" "d \<in> set (db_dossiers db) \<Longrightarrow> d \<in> set (db_dossiers db')"
    "evidence_ids db \<subseteq> evidence_ids db'" "so_id ` set (db_objects db) \<subseteq> so_id ` set (db_objects db')"
    "cl_id ` set (db_candidates db) \<subseteq> cl_id ` set (db_candidates db')" "ab_id ` set (db_batches db) \<subseteq> ab_id ` set (db_batches db')"
    "cn_id ` set (db_canonical db) \<subseteq> cn_id ` set (db_canonical db')" "db_next db \<le> db_next db'"
proof -
  have sets: "set (db_canonical db) \<subseteq> set (db_canonical db')" "set (db_dossiers db) \<subseteq> set (db_dossiers db')"
    "set (db_evidence db) \<subseteq> set (db_evidence db')" "set (db_objects db) \<subseteq> set (db_objects db')"
    using assms by (simp_all add: grows_def set_mono_prefix)
  have "claim_key ` set (db_candidates db) \<subseteq> claim_key ` set (db_candidates db')"
    using assms set_mono_prefix [of "map claim_key (db_candidates db)" "map claim_key (db_candidates db')"] by (simp add: grows_def)
  then have "fst ` claim_key ` set (db_candidates db) \<subseteq> fst ` claim_key ` set (db_candidates db')" by (rule image_mono)
  then show "cl_id ` set (db_candidates db) \<subseteq> cl_id ` set (db_candidates db')" by (simp add: image_image claim_key_def)
  show "ab_id ` set (db_batches db) \<subseteq> ab_id ` set (db_batches db')"
    using assms set_mono_prefix [of "map ab_id (db_batches db)" "map ab_id (db_batches db')"] by (simp add: grows_def)
  show "x \<in> set (db_canonical db) \<Longrightarrow> x \<in> set (db_canonical db')" "d \<in> set (db_dossiers db) \<Longrightarrow> d \<in> set (db_dossiers db')"
    "evidence_ids db \<subseteq> evidence_ids db'" "so_id ` set (db_objects db) \<subseteq> so_id ` set (db_objects db')"
    "cn_id ` set (db_canonical db) \<subseteq> cn_id ` set (db_canonical db')" "db_next db \<le> db_next db'"
    using sets assms by (auto simp: evidence_ids_def grows_def)
qed

lemma grows_candidate:
  assumes "grows db db'" and "\<exists>c\<in>set (db_candidates db). cl_id c = i \<and> cl_fingerprint c = f"
  shows "\<exists>c\<in>set (db_candidates db'). cl_id c = i \<and> cl_fingerprint c = f"
proof -
  have "(i, f) \<in> set (map claim_key (db_candidates db))" using assms(2) by (auto simp: claim_key_def)
  moreover have "set (map claim_key (db_candidates db)) \<subseteq> set (map claim_key (db_candidates db'))"
    using assms(1) by (intro set_mono_prefix) (simp add: grows_def)
  ultimately have "(i, f) \<in> set (map claim_key (db_candidates db'))" by blast
  then show ?thesis by (auto simp: claim_key_def)
qed

lemma grows_runs: "grows db db' \<Longrightarrow> r \<in> set (db_runs db) \<Longrightarrow> \<exists>r'\<in>set (db_runs db'). rr_id r' = rr_id r \<and> rr_tenant r' = rr_tenant r"
proof -
  assume g: "grows db db'" and r: "r \<in> set (db_runs db)"
  from g have "prefix (map (\<lambda>r. (rr_id r, rr_tenant r)) (db_runs db)) (map (\<lambda>r. (rr_id r, rr_tenant r)) (db_runs db'))"
    by (simp add: grows_def)
  then have "set (map (\<lambda>r. (rr_id r, rr_tenant r)) (db_runs db)) \<subseteq> set (map (\<lambda>r. (rr_id r, rr_tenant r)) (db_runs db'))"
    by (rule set_mono_prefix)
  moreover have "(rr_id r, rr_tenant r) \<in> set (map (\<lambda>r. (rr_id r, rr_tenant r)) (db_runs db))" using r by (simp add: rev_image_eqI)
  ultimately have "(rr_id r, rr_tenant r) \<in> set (map (\<lambda>r. (rr_id r, rr_tenant r)) (db_runs db'))" by blast
  then show ?thesis by (simp add: image_iff) metis
qed

lemma run_ok_grows: "run_ok db r \<Longrightarrow> grows db db' \<Longrightarrow> run_ok db' r"
  unfolding run_ok_def using grows_rows(2) [of db db'] grows_rows(3,5,7) [of db db'] by (meson subset_trans)

lemma claim_link_grows: "claim_link db c \<Longrightarrow> grows db db' \<Longrightarrow> claim_link db' c"
  unfolding claim_link_def using grows_rows(1) [of db db'] by blast

lemma candidate_kept_grows: "candidate_kept db c \<Longrightarrow> grows db db' \<Longrightarrow> candidate_kept db' c"
  unfolding candidate_kept_def using grows_rows(3) [of db db'] claim_link_grows by blast

lemma supply_grows: "grows db db' \<Longrightarrow> X \<subseteq> ids ` {..<db_next db} \<Longrightarrow> X \<subseteq> ids ` {..<db_next db'}"
proof -
  assume g: "grows db db'" and x: "X \<subseteq> ids ` {..<db_next db}"
  have "db_next db \<le> db_next db'" using g by (rule grows_rows(8))
  then have "ids ` {..<db_next db} \<subseteq> ids ` {..<db_next db'}" by (intro image_mono) auto
  then show ?thesis using x by blast
qed

section \<open>Each table by itself\<close>

lemma claim_ok_grows: "claim_ok db k \<Longrightarrow> grows db db' \<Longrightarrow> claim_ok db' k"
  unfolding claim_ok_def using grows_rows(3,6) [of db db'] by blast

lemma dossier_ok_grows:
  assumes "dossier_ok db d" and "grows db db'"
  shows "dossier_ok db' d"
proof -
  from assms(1) obtain r where r: "r \<in> set (db_runs db)" "rr_id r = ds_run d" "rr_tenant r = ds_tenant d"
    by (auto simp: dossier_ok_def)
  from grows_runs [OF assms(2) r(1)] r(2,3) show ?thesis by (auto simp: dossier_ok_def)
qed

lemma evidence_kept_grows: "evidence_kept db \<Longrightarrow> grows db db' \<Longrightarrow> db_evidence db' = db_evidence db \<Longrightarrow> evidence_kept db'"
  unfolding evidence_kept_def using grows_rows(4) [of db db'] by auto

lemma claims_ok_grows:
  "claims_ok db \<Longrightarrow> grows db db' \<Longrightarrow> db_canonical db' = db_canonical db \<Longrightarrow> db_events db' = db_events db \<Longrightarrow> claims_ok db'"
  unfolding claims_ok_def by (auto intro: claim_ok_grows)

lemma candidates_ok_grows: "candidates_ok ids db \<Longrightarrow> grows db db' \<Longrightarrow> db_candidates db' = db_candidates db \<Longrightarrow> candidates_ok ids db'"
  unfolding candidates_ok_def by (auto intro: candidate_kept_grows dest: supply_grows)

lemma dossiers_ok_grows: "dossiers_ok db \<Longrightarrow> grows db db' \<Longrightarrow> db_dossiers db' = db_dossiers db \<Longrightarrow> dossiers_ok db'"
  unfolding dossiers_ok_def by (auto intro: dossier_ok_grows)

lemma runs_ok_grows: "runs_ok ids db \<Longrightarrow> grows db db' \<Longrightarrow> db_runs db' = db_runs db \<Longrightarrow> runs_ok ids db'"
  unfolding runs_ok_def by (auto intro: run_ok_grows dest: supply_grows)

lemma objects_ok_same: "objects_ok db \<Longrightarrow> db_objects db' = db_objects db \<Longrightarrow> objects_ok db'"
  by (simp add: objects_ok_def)

lemmas tables_grow = evidence_kept_grows claims_ok_grows candidates_ok_grows dossiers_ok_grows runs_ok_grows

lemma research_okD:
  assumes "research_ok ids db"
  shows "objects_ok db" "evidence_kept db" "claims_ok db" "candidates_ok ids db" "dossiers_ok db" "runs_ok ids db"
  using assms by (simp_all add: research_ok_def)

text \<open>The shape of every step's lemma.\<close>

definition kept_step :: "(nat \<Rightarrow> string) \<Rightarrow> research_db \<Rightarrow> research_db \<Rightarrow> bool" where
  "kept_step ids db db' \<longleftrightarrow> research_ok ids db' \<and> grows db db'"

lemma kept_stepI:
  assumes ok: "research_ok ids db" and g: "grows db db'"
    and "db_objects db' = db_objects db \<or> objects_ok db'" "db_evidence db' = db_evidence db \<or> evidence_kept db'"
    and "db_canonical db' = db_canonical db \<and> db_events db' = db_events db \<or> claims_ok db'"
    and "db_candidates db' = db_candidates db \<or> candidates_ok ids db'" "db_dossiers db' = db_dossiers db \<or> dossiers_ok db'"
    and "db_runs db' = db_runs db \<or> runs_ok ids db'"
  shows "kept_step ids db db'"
  unfolding kept_step_def research_ok_def
  using research_okD [OF ok] assms(3-) g tables_grow [OF _ g] objects_ok_same [of db db'] by blast

lemma kept_step_refl: "research_ok ids db \<Longrightarrow> kept_step ids db db"
  by (simp add: kept_step_def)

lemma kept_step_trans: "kept_step ids a b \<Longrightarrow> kept_step ids b c \<Longrightarrow> kept_step ids a c"
  unfolding kept_step_def using grows_trans by blast

lemma insert_object_ok:
  assumes ok: "research_ok ids db" and x: "licensed x" and run: "insert_object env x db = Inr (i, db')"
  shows "kept_step ids db db' \<and> i \<in> so_id ` set (db_objects db')"
proof -
  have db': "db' = db\<lparr>db_next := Suc (db_next db), db_objects := db_objects db @ [x\<lparr>so_id := i\<rparr>]\<rparr>"
    using run by (auto simp: insert_object_def draw_def)
  have g: "grows db db'" by (simp add: db' grows_def)
  have "licensed (x\<lparr>so_id := i\<rparr>)" using x by (simp add: licensed_def)
  then have "objects_ok db'" using research_okD(1) [OF ok] by (simp add: objects_ok_def db')
  then have "kept_step ids db db'"
    by (intro kept_stepI [OF ok g]) (simp_all add: db')
  then show ?thesis by (simp add: db')
qed

lemma insert_evidence_ok:
  assumes ok: "research_ok ids db" and x: "eo_object x \<in> so_id ` set (db_objects db)" and run: "insert_evidence env x db = Inr (i, db')"
  shows "kept_step ids db db' \<and> i \<in> evidence_ids db'"
proof (cases "find (\<lambda>e. eo_key e = eo_key x) (db_evidence db)")
  case (Some e)
  then have "db' = db" using run by (simp add: insert_evidence_def)
  then show ?thesis using kept_step_refl [OF ok] evidence_table.put_present [OF run] by (auto simp: evidence_ids_def)
next
  case None
  then have db': "db' = db\<lparr>db_next := Suc (db_next db), db_evidence := db_evidence db @ [x\<lparr>eo_id := i\<rparr>]\<rparr>"
    using run by (auto simp: insert_evidence_def draw_def)
  have g: "grows db db'" by (simp add: db' grows_def)
  have "distinct (map eo_key (db_evidence db'))"
    using research_okD(2) [OF ok] by (intro evidence_table.put_distinct [OF run]) (simp add: evidence_kept_def)
  then have "evidence_kept db'" using research_okD(2) [OF ok] x by (auto simp: evidence_kept_def db')
  then have "kept_step ids db db'"
    by (intro kept_stepI [OF ok g]) (simp_all add: db')
  then show ?thesis by (simp add: db' evidence_ids_def)
qed

lemma candidate_kept_touched: "candidate_kept db c \<Longrightarrow> keeps_claim f \<Longrightarrow> candidate_kept db (f c)"
  by (simp add: candidate_kept_def claim_link_def keeps_claimD)

lemma new_ident:
  fixes ids :: "nat \<Rightarrow> string"
  assumes "inj ids" and "X \<subseteq> ids ` {..<n}"
  shows "ids n \<notin> X"
proof
  assume "ids n \<in> X"
  then obtain m where m: "m < n" "ids n = ids m" using assms(2) by blast
  have "n = m" using assms(1) m(2) by (rule injD)
  with m(1) show False by simp
qed

lemma supply_Suc: "X \<subseteq> ids ` {..<n} \<Longrightarrow> X \<subseteq> ids ` {..<Suc n}" for ids :: "nat \<Rightarrow> string"
  by (simp add: lessThan_Suc subset_insertI2)

lemma insert_candidate_ok:
  assumes ok: "research_ok ids db" and env: "ren_id env = ids" "inj ids" and f: "keeps_claim f" and x: "candidate_kept db x"
    and run: "insert_candidate env f x db = Inr (i, db')"
  shows "kept_step ids db db' \<and> (\<exists>c\<in>set (db_candidates db'). cl_id c = i \<and> cl_fingerprint c = cl_fingerprint x)"
proof (cases "cl_fingerprint x \<in> cl_fingerprint ` set (db_candidates db)")
  case True
  then obtain c where c: "find (\<lambda>c. cl_fingerprint c = cl_fingerprint x) (db_candidates db) = Some c" "c \<in> set (db_candidates db)"
    "cl_fingerprint c = cl_fingerprint x" by (rule find_known)
  let ?g = "\<lambda>c. if cl_fingerprint c = cl_fingerprint x then f c else c"
  have db': "i = cl_id c" "db' = db\<lparr>db_candidates := map ?g (db_candidates db)\<rparr>" using run c(1) by (auto simp: insert_candidate_def)
  have same: "map cl_id (map ?g (db_candidates db)) = map cl_id (db_candidates db)"
    "map cl_fingerprint (map ?g (db_candidates db)) = map cl_fingerprint (db_candidates db)"
    "map claim_key (map ?g (db_candidates db)) = map claim_key (db_candidates db)"
    using keeps_claimD [OF f] by (simp_all add: claim_key_def)
  have g: "grows db db'" using same(3) by (simp add: db' grows_def del: map_map)
  have "candidates_ok ids db'"
    unfolding candidates_ok_def
  proof (intro conjI ballI)
    show "distinct (map cl_fingerprint (db_candidates db'))" "distinct (map cl_id (db_candidates db'))"
      using research_okD(4) [OF ok] same by (simp_all add: candidates_ok_def db' del: map_map)
    have "cl_id ` set (db_candidates db') = cl_id ` set (db_candidates db)"
      using arg_cong [OF same(1), of set] by (simp add: db' del: map_map)
    then show "cl_id ` set (db_candidates db') \<subseteq> ids ` {..<db_next db'}"
      using research_okD(4) [OF ok] by (simp add: candidates_ok_def db')
    fix d assume "d \<in> set (db_candidates db')"
    then obtain e where e: "e \<in> set (db_candidates db)" "d = ?g e" by (auto simp: db')
    then have "candidate_kept db d" using research_okD(4) [OF ok] candidate_kept_touched [OF _ f] by (simp add: candidates_ok_def)
    then show "candidate_kept db' d" using g by (rule candidate_kept_grows)
  qed
  then have "kept_step ids db db'" by (intro kept_stepI [OF ok g]) (simp_all add: db')
  moreover have "f c \<in> set (db_candidates db')" using c(2,3) by (force simp: db')
  ultimately show ?thesis using keeps_claimD [OF f, of c] c(3) db'(1) by metis
next
  case False
  from find_fresh [OF this] run have db': "i = ids (db_next db)"
    "db' = db\<lparr>db_next := Suc (db_next db), db_candidates := db_candidates db @ [x\<lparr>cl_id := i\<rparr>]\<rparr>"
    by (auto simp: insert_candidate_def draw_def env)
  have g: "grows db db'" by (simp add: db' grows_def)
  have new: "candidate_kept db' (x\<lparr>cl_id := i\<rparr>)"
    using candidate_kept_grows [OF x g] by (simp add: candidate_kept_def claim_link_def)
  have old: "candidate_kept db' c" if "c \<in> set (db_candidates db)" for c
    using research_okD(4) [OF ok] that by (intro candidate_kept_grows [OF _ g]) (simp add: candidates_ok_def)
  have "i \<notin> cl_id ` set (db_candidates db)"
    unfolding db'(1) using research_okD(4) [OF ok] by (intro new_ident [OF env(2)]) (simp add: candidates_ok_def)
  moreover have "cl_id ` set (db_candidates db) \<subseteq> ids ` {..<Suc (db_next db)}"
    using research_okD(4) [OF ok] by (intro supply_Suc) (simp add: candidates_ok_def)
  moreover have "i \<in> ids ` {..<Suc (db_next db)}" by (simp add: db'(1))
  ultimately have "candidates_ok ids db'"
    using research_okD(4) [OF ok] False new old by (auto simp: candidates_ok_def db'(2))
  then have "kept_step ids db db'" by (intro kept_stepI [OF ok g]) (simp_all add: db')
  then show ?thesis by (simp add: db')
qed

lemma create_admission_batch_ok:
  assumes ok: "research_ok ids db" and run: "create_admission_batch env policy cs db = Inr (i, db')"
  shows "kept_step ids db db' \<and> i \<in> ab_id ` set (db_batches db')"
proof -
  have db': "db' = db\<lparr>db_next := Suc (db_next db), db_batches := db_batches db @
      [\<lparr>ab_id = i, ab_policy = policy, ab_decided = False, ab_candidates = cs, ab_summary = PDict []\<rparr>]\<rparr>"
    using run by (auto simp: create_admission_batch_def draw_def)
  have "grows db db'" by (simp add: db' grows_def)
  then have "kept_step ids db db'" by (intro kept_stepI [OF ok]) (simp_all add: db')
  then show ?thesis by (simp add: db')
qed

lemma decide_batch_ok:
  assumes ok: "research_ok ids db" and run: "decide_batch b v db = Inr (u, db')"
  shows "kept_step ids db db'"
proof -
  let ?g = "\<lambda>x. if ab_id x = b then x\<lparr>ab_decided := True, ab_summary := v\<rparr> else x"
  have db': "db' = db\<lparr>db_batches := map ?g (db_batches db)\<rparr>" using run by (simp add: decide_batch_def)
  have "map ab_id (map ?g (db_batches db)) = map ab_id (db_batches db)" by simp
  then have "grows db db'" by (simp add: db' grows_def del: map_map)
  then show ?thesis by (intro kept_stepI [OF ok]) (simp_all add: db')
qed

lemma change_candidate_ok:
  assumes ok: "research_ok ids db"
    and f: "\<And>c. cl_id (f c) = cl_id c \<and> cl_fingerprint (f c) = cl_fingerprint c"
    and good: "\<And>c. c \<in> set (db_candidates db) \<Longrightarrow> cl_id c = i \<Longrightarrow> candidate_kept db c \<Longrightarrow> candidate_kept db (f c)"
  shows "kept_step ids db (change_candidate i f db)"
proof -
  let ?g = "\<lambda>c. if cl_id c = i then f c else c" and ?db = "change_candidate i f db"
  have same: "map cl_id (map ?g (db_candidates db)) = map cl_id (db_candidates db)"
    "map cl_fingerprint (map ?g (db_candidates db)) = map cl_fingerprint (db_candidates db)"
    "map claim_key (map ?g (db_candidates db)) = map claim_key (db_candidates db)" using f by (simp_all add: claim_key_def)
  have g: "grows db ?db" using same(3) by (simp add: change_candidate_def grows_def del: map_map)
  have "candidates_ok ids ?db"
    unfolding candidates_ok_def
  proof (intro conjI ballI)
    show "distinct (map cl_fingerprint (db_candidates ?db))" "distinct (map cl_id (db_candidates ?db))"
      using research_okD(4) [OF ok] same by (simp_all add: candidates_ok_def change_candidate_def del: map_map)
    have "cl_id ` set (db_candidates ?db) = cl_id ` set (db_candidates db)"
      using arg_cong [OF same(1), of set] by (simp add: change_candidate_def del: map_map)
    then show "cl_id ` set (db_candidates ?db) \<subseteq> ids ` {..<db_next ?db}"
      using research_okD(4) [OF ok] by (simp add: candidates_ok_def change_candidate_def)
    fix d assume "d \<in> set (db_candidates ?db)"
    then obtain e where e: "e \<in> set (db_candidates db)" "d = ?g e" by (auto simp: change_candidate_def)
    have "candidate_kept db e" using research_okD(4) [OF ok] e(1) by (simp add: candidates_ok_def)
    then have "candidate_kept db d" using good [OF e(1)] e(2) by simp
    then show "candidate_kept ?db d" using g by (rule candidate_kept_grows)
  qed
  then show ?thesis by (intro kept_stepI [OF ok g]) (simp_all add: change_candidate_def)
qed

lemma reject_candidate_ok:
  assumes "research_ok ids db" and "reject_candidate env i rs db = Inr (u, db')"
  shows "kept_step ids db db'"
proof -
  have "db' = change_candidate i (\<lambda>c. c\<lparr>cl_state := ClaimRejected, cl_reasons := rs, cl_updated := ren_now env\<rparr>) db"
    using assms(2) by (simp add: reject_candidate_def)
  then show ?thesis
    by (simp only:, intro change_candidate_ok [OF assms(1)]) (simp_all add: candidate_kept_def claim_link_def)
qed

lemma insert_canonical_ok:
  assumes ok: "research_ok ids db" and x: "set (cn_evidence x) \<subseteq> evidence_ids db" "cn_evidence x \<noteq> []"
      "cn_batch x \<in> ab_id ` set (db_batches db)" "cn_class x = ''OBSERVED_FACT''"
    and run: "admit env cid x reason db = Inr ((i, created), db')"
    and c: "\<exists>c\<in>set (db_candidates db). cl_id c = cid \<and> cl_fingerprint c = cn_fingerprint x"
  shows "kept_step ids db db' \<and> i \<in> cn_id ` set (db_canonical db')"
proof -
  let ?f = "\<lambda>c. c\<lparr>cl_state := ClaimAdmitted, cl_canonical := Some i, cl_reasons := [], cl_updated := ren_now env\<rparr>"
  obtain db1 where ins: "insert_canonical env x db = Inr ((i, created), db1)"
    using run by (auto simp: admit_def bindT_def bindE_eq_Inr Let_def)
  define db2 where "db2 = (if created then db1\<lparr>db_events := db_events db1 @ [\<lparr>ce_claim = i, ce_from = None, ce_to = ''ADMITTED'',
      ce_reason = reason, ce_batch = cn_batch x\<rparr>]\<rparr> else db1)"
  have db': "db' = change_candidate cid ?f db2"
    using run ins by (auto simp: admit_def bindT_def Let_def db2_def change_candidate_def)
  have one: "kept_step ids db db2 \<and> (\<exists>k\<in>set (db_canonical db2). cn_id k = i \<and> cn_fingerprint k = cn_fingerprint x)
      \<and> db_candidates db2 = db_candidates db"
  proof (cases "cn_fingerprint x \<in> cn_fingerprint ` set (db_canonical db)")
    case True
    then obtain k where k: "find (\<lambda>c. cn_fingerprint c = cn_fingerprint x) (db_canonical db) = Some k" "k \<in> set (db_canonical db)"
      "cn_fingerprint k = cn_fingerprint x" by (rule find_known)
    then have "db2 = db" "i = cn_id k" using ins by (auto simp: insert_canonical_def db2_def)
    then show ?thesis using kept_step_refl [OF ok] k by auto
  next
    case False
    from find_fresh [OF this] ins have new: created
      "db1 = db\<lparr>db_next := Suc (db_next db), db_canonical := db_canonical db @ [x\<lparr>cn_id := i\<rparr>]\<rparr>"
      by (auto simp: insert_canonical_def draw_def)
    have g: "grows db db2" by (simp add: db2_def new grows_def)
    have "claim_ok db2 (x\<lparr>cn_id := i\<rparr>)" using x by (simp add: claim_ok_def db2_def new evidence_ids_def)
    moreover have "claim_ok db2 k" if "k \<in> set (db_canonical db)" for k
      using research_okD(3) [OF ok] that by (intro claim_ok_grows [OF _ g]) (simp add: claims_ok_def)
    ultimately have "claims_ok db2" using research_okD(3) [OF ok] False by (auto simp: claims_ok_def db2_def new)
    then have "kept_step ids db db2" by (intro kept_stepI [OF ok g]) (simp_all add: db2_def new)
    then show ?thesis by (simp add: db2_def new)
  qed
  then have ok2: "research_ok ids db2" by (simp add: kept_step_def)
  have "kept_step ids db2 db'"
    unfolding db'
  proof (rule change_candidate_ok [OF ok2])
    fix d assume d: "d \<in> set (db_candidates db2)" "cl_id d = cid" "candidate_kept db2 d"
    obtain e where "e \<in> set (db_candidates db2)" "cl_id e = cid" "cl_fingerprint e = cn_fingerprint x" using c one by auto
    then have "d = e" using d(1,2) research_okD(4) [OF ok2] by (auto simp: candidates_ok_def distinct_map inj_on_def)
    then have "cl_fingerprint d = cn_fingerprint x" using \<open>cl_fingerprint e = cn_fingerprint x\<close> by simp
    then show "candidate_kept db2 (?f d)" using one d(3) by (simp add: candidate_kept_def claim_link_def)
  qed simp
  moreover have "i \<in> cn_id ` set (db_canonical db')" using one by (auto simp: db' change_candidate_def)
  ultimately show ?thesis using one kept_step_trans by blast
qed

lemma insert_dossier_ok:
  assumes ok: "research_ok ids db" and x: "\<exists>r\<in>set (db_runs db). rr_id r = ds_run x \<and> rr_tenant r = ds_tenant x"
    and run: "insert_dossier env x db = Inr (i, db')"
  shows "kept_step ids db db' \<and> (\<exists>d\<in>set (db_dossiers db'). ds_id d = i \<and> ds_run d = ds_run x \<and> ds_tenant d = ds_tenant x)"
proof -
  have fresh: "ds_run x \<notin> ds_run ` set (db_dossiers db)"
    and db': "db' = db\<lparr>db_next := Suc (db_next db), db_dossiers := db_dossiers db @ [x\<lparr>ds_id := i\<rparr>]\<rparr>"
    using run by (auto simp: insert_dossier_def draw_def list_ex_iff split: if_splits)
  have g: "grows db db'" by (simp add: db' grows_def)
  have "dossier_ok db' (x\<lparr>ds_id := i\<rparr>)" using x by (simp add: dossier_ok_def db')
  moreover have "dossier_ok db' d" if "d \<in> set (db_dossiers db)" for d
    using research_okD(5) [OF ok] that by (intro dossier_ok_grows [OF _ g]) (simp add: dossiers_ok_def)
  ultimately have "dossiers_ok db'" using research_okD(5) [OF ok] fresh by (auto simp: dossiers_ok_def db')
  then have "kept_step ids db db'" by (intro kept_stepI [OF ok g]) (simp_all add: db')
  then show ?thesis by (simp add: db')
qed

lemma update_run_ok:
  assumes ok: "research_ok ids db" and f: "\<And>r. rr_id (f r) = rr_id r \<and> rr_tenant (f r) = rr_tenant r"
    and good: "\<And>r. r \<in> set (db_runs db) \<Longrightarrow> visible tenant run_id r \<Longrightarrow> run_ok db r \<Longrightarrow> run_ok db (f r)"
  shows "kept_step ids db (update_run tenant run_id f db)"
proof -
  let ?g = "\<lambda>r. if visible tenant run_id r then f r else r" and ?db = "update_run tenant run_id f db"
  have same: "map (\<lambda>r. (rr_id r, rr_tenant r)) (map ?g (db_runs db)) = map (\<lambda>r. (rr_id r, rr_tenant r)) (db_runs db)"
    "map rr_id (map ?g (db_runs db)) = map rr_id (db_runs db)" using f by simp_all
  have g: "grows db ?db" using same(1) by (simp add: update_run_def grows_def del: map_map)
  have "runs_ok ids ?db"
    unfolding runs_ok_def
  proof (intro conjI ballI)
    show "distinct (map rr_id (db_runs ?db))"
      using research_okD(6) [OF ok] same by (simp add: runs_ok_def update_run_def del: map_map)
    have "rr_id ` set (db_runs ?db) = rr_id ` set (db_runs db)"
      using arg_cong [OF same(2), of set] by (simp add: update_run_def del: map_map)
    then show "rr_id ` set (db_runs ?db) \<subseteq> ids ` {..<db_next ?db}"
      using research_okD(6) [OF ok] by (simp add: runs_ok_def update_run_def)
    fix d assume "d \<in> set (db_runs ?db)"
    then obtain e where e: "e \<in> set (db_runs db)" "d = ?g e" by (auto simp: update_run_def)
    have "run_ok db e" using research_okD(6) [OF ok] e(1) by (simp add: runs_ok_def)
    then have "run_ok db d" using good [OF e(1)] e(2) by simp
    then show "run_ok ?db d" using g by (rule run_ok_grows)
  qed
  then show ?thesis by (intro kept_stepI [OF ok g]) (simp_all add: update_run_def)
qed

lemma link_evidence_ok: "research_ok ids db \<Longrightarrow> link_evidence t r e db = Inr (u, db') \<Longrightarrow> kept_step ids db db'"
  by (rule kept_stepI) (auto simp: link_evidence_def grows_def)

lemma completed_event_ok: "research_ok ids db \<Longrightarrow> completed_event env r p db = Inr (u, db') \<Longrightarrow> kept_step ids db db'"
  by (rule kept_stepI) (auto simp: completed_event_def draw_def grows_def)

section \<open>Whole transactions\<close>

lemma bindT_Inr: "bindT m k db = Inr (y, db') \<longleftrightarrow> (\<exists>x db1. m db = Inr (x, db1) \<and> k x db1 = Inr (y, db'))"
  by (cases "m db") (auto simp: bindT_def)

lemma bindTE:
  assumes "bindT m k db = Inr (y, db')"
  obtains x db1 where "m db = Inr (x, db1)" "k x db1 = Inr (y, db')"
  using assms by (auto simp: bindT_Inr)

lemma bindT_pairE:
  assumes "bindT m (\<lambda>(a, b). k a b) db = Inr (y, db')"
  obtains a b db1 where "m db = Inr ((a, b), db1)" "k a b db1 = Inr (y, db')"
  using assms by (auto simp: bindT_Inr)

lemma find_run_visible:
  assumes "find_run tenant run_id db = Some r"
  shows "r \<in> set (db_runs db)" "rr_id r = run_id" "rr_tenant r = tenant"
  using find_SomeD [of "visible tenant run_id" "db_runs db" r] assms by (auto simp: find_run_def visible_def)

lemma run_present:
  assumes "find_run tenant run_id db = Some r" and "grows db db'"
  shows "\<exists>r\<in>set (db_runs db'). rr_id r = run_id \<and> rr_tenant r = tenant"
  using grows_runs [OF assms(2) find_run_visible(1) [OF assms(1)]] find_run_visible(2,3) [OF assms(1)] by auto

text \<open>What the trigger of the trial accounts adds to an update: the accounts, which the invariant does not look at.\<close>

lemma trial_guard_accounts: "trial_guard t b b' db = Inr db' \<Longrightarrow> \<exists>accounts. db' = db\<lparr>db_accounts := accounts\<rparr>"
proof -
  have keep: "db = db\<lparr>db_accounts := db_accounts db\<rparr>" by simp
  assume "trial_guard t b b' db = Inr db'"
  then show ?thesis
    unfolding trial_guard_def change_account_def by (auto split: option.splits if_splits intro: exI [of _ "db_accounts db"])
qed

lemma update_run_absent: "find_run t r db = None \<Longrightarrow> update_run t r f db = db"
proof -
  assume "find_run t r db = None"
  then have "\<And>x. x \<in> set (db_runs db) \<Longrightarrow> \<not> visible t r x" by (simp add: find_run_def find_None_iff)
  then have "map (\<lambda>x. if visible t r x then f x else x) (db_runs db) = map id (db_runs db)" by (intro map_cong) auto
  then show ?thesis by (simp add: update_run_def)
qed

lemma set_stateD:
  assumes "set_state t r st f db = Inr db'"
  shows "\<exists>accounts. db' = update_run t r (\<lambda>x. (f x)\<lparr>rr_state := st\<rparr>) (db\<lparr>db_accounts := accounts\<rparr>)"
proof (cases "find_run t r db")
  case None
  have "update_run t r (\<lambda>x. (f x)\<lparr>rr_state := st\<rparr>) (db\<lparr>db_accounts := db_accounts db\<rparr>) = db"
    using update_run_absent [OF None] by simp
  then show ?thesis using assms None by (intro exI [of _ "db_accounts db"]) (simp add: set_state_def)
next
  case (Some x)
  then show ?thesis using assms trial_guard_accounts by (fastforce simp: set_state_def bindE_eq_Inr)
qed

lemma accounts_ok: "research_ok ids db \<Longrightarrow> kept_step ids db (db\<lparr>db_accounts := accounts\<rparr>)"
  by (rule kept_stepI) (auto simp: grows_def)

lemma run_ok_accounts [simp]: "run_ok (db\<lparr>db_accounts := accounts\<rparr>) r = run_ok db r"
  by (simp add: run_ok_def evidence_ids_def)

lemma set_state_ok:
  assumes ok: "research_ok ids db" and run: "set_state t r st f db = Inr db'"
    and f: "\<And>x. rr_id (f x) = rr_id x \<and> rr_tenant (f x) = rr_tenant x"
    and good: "\<And>x. x \<in> set (db_runs db) \<Longrightarrow> visible t r x \<Longrightarrow> run_ok db x \<Longrightarrow> run_ok db ((f x)\<lparr>rr_state := st\<rparr>)"
  shows "kept_step ids db db'"
proof -
  obtain accounts where db': "db' = update_run t r (\<lambda>x. (f x)\<lparr>rr_state := st\<rparr>) (db\<lparr>db_accounts := accounts\<rparr>)"
    using set_stateD [OF run] by blast
  have first: "kept_step ids db (db\<lparr>db_accounts := accounts\<rparr>)" by (rule accounts_ok [OF ok])
  then have "kept_step ids (db\<lparr>db_accounts := accounts\<rparr>) db'"
    unfolding db' by (intro update_run_ok) (use f good in \<open>simp_all add: kept_step_def\<close>)
  with first show ?thesis by (rule kept_step_trans)
qed

lemma complete_run_ok:
  assumes ok: "research_ok ids db" and run: "complete_run env t r usage es cs ks d b db = Inr (u, db')"
    and es: "set es \<subseteq> evidence_ids db" "set cs \<subseteq> cl_id ` set (db_candidates db)" "set ks \<subseteq> cn_id ` set (db_canonical db)"
    and d: "\<exists>x\<in>set (db_dossiers db). ds_id x = d \<and> ds_run x = r \<and> ds_tenant x = t"
  shows "kept_step ids db db'"
proof -
  let ?f = "\<lambda>x. x\<lparr>rr_usage := usage, rr_evidence := es, rr_candidates := cs, rr_canonical := ks, rr_dossier := Some d,
      rr_batch := Some b, rr_updated := ren_now env\<rparr>"
  have "set_state t r RunCompleted ?f db = Inr db'"
    using run by (simp add: complete_run_def bindE_eq_Inr)
  from set_state_ok [OF ok this] show ?thesis using es d by (auto simp: run_ok_def visible_def)
qed

definition fact_artifacts_ok :: "fact_evidence \<Rightarrow> fact_candidate \<Rightarrow> bool" where
  "fact_artifacts_ok e c \<longleftrightarrow> fc_kind c = ''FACT'' \<and> fc_producer_type c = ''DETERMINISTIC_PARSER''"

lemma upsert_source_object_ok:
  assumes ok: "research_ok ids db" and source: "lookup source ''rights_status'' = PStr ''COMMERCIAL_REUSE_WITH_ATTRIBUTION''"
    and run: "upsert_source_object env source x db = Inr (i, db')"
  shows "kept_step ids db db' \<and> i \<in> so_id ` set (db_objects db')"
proof (cases "find (\<lambda>o'. so_key o' = retrieval_key x) (db_objects db)")
  case (Some o')
  then have "i = so_id o'" "db' = db" using run by (simp_all add: upsert_source_object_def)
  then show ?thesis using find_SomeD [OF Some] kept_step_refl [OF ok] by simp
next
  case None
  then obtain y where y: "so_rights y = PDict (map (\<lambda>k. (k, lookup source k))
        [''rights_status'', ''license_id'', ''attribution_text'', ''terms_url'', ''dataset_url'', ''last_reviewed_at''])"
    "insert_object env y db = Inr (i, db')"
    using run by (auto simp: upsert_source_object_def split: if_splits intro!: that)
  have "licensed y" using source by (simp add: licensed_def y(1)) (simp add: lookup_def)
  then show ?thesis by (rule insert_object_ok [OF ok _ y(2)])
qed

lemma upsert_evidence_ok:
  assumes "research_ok ids db" and "oid \<in> so_id ` set (db_objects db)" and "upsert_evidence env oid sid e db = Inr (i, db')"
  shows "kept_step ids db db' \<and> i \<in> evidence_ids db'"
  using assms(2) by (intro insert_evidence_ok [OF assms(1) _ assms(3) [unfolded upsert_evidence_def]]) simp

lemma upsert_candidate_ok:
  assumes ok: "research_ok ids db" and env: "ren_id env = ids" "inj ids" and art: "fact_artifacts_ok e c"
    and eid: "eid \<in> evidence_ids db" and run: "upsert_candidate env c eid db = Inr (i, db')"
  shows "kept_step ids db db' \<and> (\<exists>k\<in>set (db_candidates db'). cl_id k = i \<and> cl_fingerprint k = fc_fingerprint c)"
  using insert_candidate_ok [OF ok env touched_keeps(1) _ run [unfolded upsert_candidate_def]] art eid
  by (simp add: candidate_kept_def claim_link_def fact_artifacts_ok_def)

lemma decide_fact_ok:
  assumes ok: "research_ok ids db" and dec: "fa_class d \<in> {None, Some ''OBSERVED_FACT''}"
    and at: "eid \<in> evidence_ids db" "bid \<in> ab_id ` set (db_batches db)"
      "\<exists>k\<in>set (db_candidates db). cl_id k = cid \<and> cl_fingerprint k = fc_fingerprint c"
    and run: "decide_fact env cid c e eid bid d db = Inr ((claim, created), db')"
  shows "kept_step ids db db' \<and> set (case claim of Some i \<Rightarrow> [i] | None \<Rightarrow> []) \<subseteq> cn_id ` set (db_canonical db')"
proof (cases "fa_admitted d")
  case True
  then obtain i where i: "claim = Some i" "admit_candidate env cid c e eid bid ''OBSERVED_FACT'' db = Inr ((i, created), db')"
    using run dec by (auto simp: decide_fact_def bindT_Inr returnT_def)
  have "kept_step ids db db' \<and> i \<in> cn_id ` set (db_canonical db')"
    by (rule insert_canonical_ok [OF ok _ _ _ _ i(2) [unfolded admit_candidate_def]]) (use at in simp_all)
  then show ?thesis by (simp add: i(1))
next
  case False
  then show ?thesis using run reject_candidate_ok [OF ok] by (auto simp: decide_fact_def bindT_Inr returnT_def)
qed

text \<open>The end of both transactions: the dossier, the links, the run and the event.\<close>

lemma closing_ok:
  assumes ok: "research_ok ids db" and present: "find_run t r db0 = Some run" "grows db0 db"
    and ids: "set es \<subseteq> evidence_ids db" "set cs \<subseteq> cl_id ` set (db_candidates db)" "set ks \<subseteq> cn_id ` set (db_canonical db)"
    and x: "ds_run x = r" "ds_tenant x = t"
    and s1: "insert_dossier env x db = Inr (did, d1)" and s2: "kept_step ids d1 d2"
    and s3: "complete_run env t r usage es cs ks did bid d2 = Inr (u3, d3)" and s4: "completed_event env r p d3 = Inr (u4, d4)"
  shows "kept_step ids db d4"
proof -
  have "\<exists>r'\<in>set (db_runs db). rr_id r' = ds_run x \<and> rr_tenant r' = ds_tenant x" using run_present [OF present] x by simp
  from insert_dossier_ok [OF ok this s1]
  have o1: "kept_step ids db d1" and d: "\<exists>y\<in>set (db_dossiers d1). ds_id y = did \<and> ds_run y = r \<and> ds_tenant y = t"
    using x by simp_all
  have g: "grows db d2" "grows d1 d2" "research_ok ids d2"
    using o1 s2 grows_trans unfolding kept_step_def by blast+
  have o3: "kept_step ids d2 d3"
  proof (rule complete_run_ok [OF g(3) s3])
    show "set es \<subseteq> evidence_ids d2" "set cs \<subseteq> cl_id ` set (db_candidates d2)" "set ks \<subseteq> cn_id ` set (db_canonical d2)"
      using ids grows_rows(3,5,7) [OF g(1)] by blast+
    show "\<exists>y\<in>set (db_dossiers d2). ds_id y = did \<and> ds_run y = r \<and> ds_tenant y = t"
      using d grows_rows(2) [OF g(2)] by blast
  qed
  have "research_ok ids d3" using o3 by (simp add: kept_step_def)
  then have "kept_step ids d3 d4" using s4 by (rule completed_event_ok)
  then show ?thesis using o1 s2 o3 kept_step_trans by blast
qed

lemma wb_completion_ok:
  assumes ok: "research_ok ids db" and env: "ren_id env = ids" "inj ids"
    and source: "lookup source ''rights_status'' = PStr ''COMMERCIAL_REUSE_WITH_ATTRIBUTION''"
    and art: "fact_artifacts_ok e c" and dec: "fa_class d \<in> {None, Some ''OBSERVED_FACT''}"
    and present: "find_run t r db = Some run"
    and fin: "wb_completion env t r source x e c d db = Inr (result_claim, db')"
  shows "kept_step ids db db'"
  using fin unfolding wb_completion_def
  apply (elim bindT_pairE bindTE)
  subgoal premises s for oid d1 eid d2 cid d3 bid d4 claim created d5 u1 d6 did d7 u2 d8 u3 d9 u4 d10
  proof -
    note ok_of = kept_step_def [THEN iffD1, THEN conjunct1] and grows_of = kept_step_def [THEN iffD1, THEN conjunct2]
    note o1 = upsert_source_object_ok [OF ok source s(1)]
    note o2 = upsert_evidence_ok [OF ok_of [OF o1 [THEN conjunct1]] o1 [THEN conjunct2] s(2)]
    note o3 = upsert_candidate_ok [OF ok_of [OF o2 [THEN conjunct1]] env art o2 [THEN conjunct2] s(3)]
    note o4 = create_admission_batch_ok [OF ok_of [OF o3 [THEN conjunct1]] s(4)]
    have e4: "eid \<in> evidence_ids d4" using o2 o3 o4 grows_rows(3) grows_of by (meson subsetD)
    have c4: "\<exists>k\<in>set (db_candidates d4). cl_id k = cid \<and> cl_fingerprint k = fc_fingerprint c"
      using o3 s(4) by (auto simp: create_admission_batch_def draw_def)
    note o5 = decide_fact_ok [OF ok_of [OF o4 [THEN conjunct1]] dec e4 o4 [THEN conjunct2] c4 s(5)]
    note o6 = decide_batch_ok [OF ok_of [OF o5 [THEN conjunct1]] s(6)]
    have to6: "kept_step ids db d6" and g46: "grows d4 d6" "grows d5 d6"
      using o1 o2 o3 o4 o5 o6 kept_step_trans grows_trans grows_of by meson+
    have "kept_step ids d6 d10"
    proof (rule closing_ok [OF ok_of [OF to6] present grows_of [OF to6] _ _ _ _ _ s(7) _ s(9) s(10)])
      show "set [eid] \<subseteq> evidence_ids d6" using e4 grows_rows(3) [OF g46(1)] by auto
      show "set [cid] \<subseteq> cl_id ` set (db_candidates d6)" using c4 grows_rows(5) [OF g46(1)] by auto
      show "set (case claim of Some i \<Rightarrow> [i] | None \<Rightarrow> []) \<subseteq> cn_id ` set (db_canonical d6)"
        using o5 grows_rows(7) [OF g46(2)] by blast
      have "research_ok ids d7"
        using insert_dossier_ok [OF ok_of [OF to6] _ s(7)] run_present [OF present grows_of [OF to6]]
        by (simp add: wb_dossier_def kept_step_def)
      then show "kept_step ids d7 d8" by (rule link_evidence_ok [OF _ s(8)])
    qed (simp_all add: wb_dossier_def)
    moreover have "d10 = db'" using s(11) by (simp add: returnT_def)
    ultimately show ?thesis using to6 kept_step_trans by blast
  qed
  done

end
