(* ===== verification/ResearchSteps.thy ===== *)
theory ResearchSteps
  imports ResearchLedger
begin

text \<open>
  The TED transaction keeps the tables too; the transactions of the research spine as one step relation over the
  database; and the worker and the routes as sequences of its steps.
\<close>

section \<open>The TED transaction\<close>

definition ted_artifacts_ok :: "ted_evidence \<times> ted_candidate \<times> ted_decision \<Rightarrow> bool" where
  "ted_artifacts_ok x \<longleftrightarrow> (case x of (e, c, d) \<Rightarrow> td_kind c = ''FACT'' \<and> td_producer_type c = ''DETERMINISTIC_PARSER'')"

definition item_ok :: "research_db \<Rightarrow> ted_item \<Rightarrow> bool" where
  "item_ok db i \<longleftrightarrow> ti_evidence_id i \<in> evidence_ids db
     \<and> (\<exists>c\<in>set (db_candidates db). cl_id c = ti_candidate_id i \<and> cl_fingerprint c = td_fingerprint (ti_candidate i))
     \<and> (\<forall>k. ti_claim i = Some k \<longrightarrow> k \<in> cn_id ` set (db_canonical db))"

lemma item_ok_grows:
  assumes i: "item_ok db i" and g: "grows db db'"
  shows "item_ok db' i"
  unfolding item_ok_def
proof (intro conjI)
  show "ti_evidence_id i \<in> evidence_ids db'" using i grows_rows(3) [OF g] by (auto simp: item_ok_def)
  show "\<exists>c\<in>set (db_candidates db'). cl_id c = ti_candidate_id i \<and> cl_fingerprint c = td_fingerprint (ti_candidate i)"
    using i by (intro grows_candidate [OF g]) (simp add: item_ok_def)
  show "\<forall>k. ti_claim i = Some k \<longrightarrow> k \<in> cn_id ` set (db_canonical db')" using i grows_rows(7) [OF g] by (auto simp: item_ok_def)
qed

lemma item_ids:
  assumes "item_ok db i"
  shows "ti_evidence_id i \<in> evidence_ids db" "ti_candidate_id i \<in> cl_id ` set (db_candidates db)"
    "ti_claim i = Some k \<Longrightarrow> k \<in> cn_id ` set (db_canonical db)"
  using assms by (auto simp: item_ok_def intro: rev_image_eqI)

lemma kept_stepD: "kept_step ids db db' \<Longrightarrow> research_ok ids db'" "kept_step ids db db' \<Longrightarrow> grows db db'"
  by (simp_all add: kept_step_def)

lemma upsert_ted_source_object_ok:
  assumes ok: "research_ok ids db" and source: "lookup source ''rights_status'' = PStr ''COMMERCIAL_REUSE_WITH_ATTRIBUTION''"
    and run: "upsert_ted_source_object env source page db = Inr (i, db')"
  shows "kept_step ids db db' \<and> i \<in> so_id ` set (db_objects db')"
proof (cases "find (\<lambda>o'. so_source o' = ted_source_id \<and> so_hash o' = json_hash (sanitised_projection page)) (db_objects db)")
  case (Some o')
  then have "i = so_id o'" "db' = db" using run by (simp_all add: upsert_ted_source_object_def Let_def)
  then show ?thesis using find_SomeD [OF Some] kept_step_refl [OF ok] by simp
next
  case None
  then obtain y where y: "so_rights y = PDict (map (\<lambda>k. (k, lookup source k))
        [''rights_status'', ''license_id'', ''attribution_text'', ''terms_url'', ''dataset_url'']
        @ [(''profile_id'', PStr ted_profile), (''api_redistribution'', PBool False)])"
    "insert_object env y db = Inr (i, db')"
    using run by (auto simp: upsert_ted_source_object_def Let_def split: if_splits intro!: that)
  have "licensed y" using source by (simp add: licensed_def y(1)) (simp add: lookup_def)
  then show ?thesis by (rule insert_object_ok [OF ok _ y(2)])
qed

lemma register_items_ok:
  assumes "research_ok ids db" and "ren_id env = ids" "inj ids" and "oid \<in> so_id ` set (db_objects db)"
    and "list_all ted_artifacts_ok xs" and "register_items env oid xs db = Inr (is, db')"
  shows "kept_step ids db db' \<and> list_all (item_ok db') is"
  using assms
proof (induction xs arbitrary: db "is")
  case Nil
  then show ?case by (simp add: returnT_def kept_step_refl)
next
  case (Cons x xs)
  obtain e c d where x: "x = (e, c, d)" by (cases x)
  from Cons.prems(6) obtain eid d1 cid d2 js where s: "upsert_ted_evidence env oid e db = Inr (eid, d1)"
    "upsert_ted_candidate env c eid d1 = Inr (cid, d2)" "register_items env oid xs d2 = Inr (js, db')"
    and i: "is = \<lparr>ti_candidate = c, ti_decision = d, ti_evidence_id = eid, ti_candidate_id = cid, ti_claim = None,
               ti_created = False\<rparr> # js"
    unfolding x register_items.simps by (elim bindTE) (auto simp: returnT_def intro!: that)
  have o1: "kept_step ids db d1 \<and> eid \<in> evidence_ids d1"
    using Cons.prems(4) by (intro insert_evidence_ok [OF Cons.prems(1) _ s(1) [unfolded upsert_ted_evidence_def]]) simp
  note r1 = kept_stepD(1) [OF o1 [THEN conjunct1]]
  have o2: "kept_step ids d1 d2 \<and> (\<exists>k\<in>set (db_candidates d2). cl_id k = cid \<and> cl_fingerprint k = td_fingerprint c)"
    using insert_candidate_ok [OF r1 Cons.prems(2,3) touched_keeps(2) _ s(2) [unfolded upsert_ted_candidate_def]] Cons.prems(5) o1
    by (simp add: candidate_kept_def claim_link_def ted_artifacts_ok_def x)
  note r2 = kept_stepD(1) [OF o2 [THEN conjunct1]]
  have to2: "kept_step ids db d2" using o1 o2 kept_step_trans by blast
  have "oid \<in> so_id ` set (db_objects d2)" using Cons.prems(4) grows_rows(4) [OF kept_stepD(2) [OF to2]] by blast
  then have o3: "kept_step ids d2 db' \<and> list_all (item_ok db') js"
    using Cons.IH [OF r2 Cons.prems(2,3) _ _ s(3)] Cons.prems(5) by simp
  have "item_ok d2 \<lparr>ti_candidate = c, ti_decision = d, ti_evidence_id = eid, ti_candidate_id = cid, ti_claim = None, ti_created = False\<rparr>"
    using o1 o2 grows_rows(3) [OF kept_stepD(2) [OF o2 [THEN conjunct1]]] by (auto simp: item_ok_def)
  then show ?case using o3 to2 kept_step_trans item_ok_grows [OF _ kept_stepD(2)] by (simp add: i) blast
qed

lemma decide_item_ok:
  assumes ok: "research_ok ids db" and bid: "bid \<in> ab_id ` set (db_batches db)" and i: "item_ok db i" "ti_claim i = None"
    and run: "decide_item env page bid i db = Inr (j, db')"
  shows "kept_step ids db db' \<and> item_ok db' j"
proof (cases "ta_admitted (ti_decision i)")
  case True
  then obtain k created where k: "admit_ted_candidate env (ti_candidate_id i) (ti_evidence_id i) (ti_candidate i) bid
      (tp_retrieved_at page) db = Inr ((k, created), db')" "j = i\<lparr>ti_claim := Some k, ti_created := created\<rparr>"
    using run by (auto simp: decide_item_def bindT_Inr returnT_def)
  have "kept_step ids db db' \<and> k \<in> cn_id ` set (db_canonical db')"
    by (rule insert_canonical_ok [OF ok _ _ _ _ k(1) [unfolded admit_ted_candidate_def]]) (use i(1) bid in \<open>simp_all add: item_ok_def\<close>)
  moreover from this have "item_ok db' i" using item_ok_grows [OF i(1) kept_stepD(2)] by blast
  ultimately show ?thesis by (simp add: k(2) item_ok_def)
next
  case False
  then have "j = i" "\<exists>u. reject_candidate env (ti_candidate_id i) (ta_reasons (ti_decision i)) db = Inr (u, db')"
    using run by (auto simp: decide_item_def bindT_Inr returnT_def)
  then show ?thesis using reject_candidate_ok [OF ok] item_ok_grows [OF i(1) kept_stepD(2)] by metis
qed

lemma decide_items_ok:
  assumes "research_ok ids db" and "bid \<in> ab_id ` set (db_batches db)" and "list_all (item_ok db) is" "list_all (\<lambda>i. ti_claim i = None) is"
    and "decide_items env page bid is db = Inr (js, db')"
  shows "kept_step ids db db' \<and> list_all (item_ok db') js"
  using assms
proof (induction "is" arbitrary: db js)
  case Nil
  then show ?case by (simp add: returnT_def kept_step_refl)
next
  case (Cons i "is")
  from Cons.prems(5) obtain j d1 ks where s: "decide_item env page bid i db = Inr (j, d1)" "decide_items env page bid is d1 = Inr (ks, db')"
    "js = j # ks" unfolding decide_items.simps by (elim bindTE) (auto simp: returnT_def intro!: that)
  have o1: "kept_step ids db d1 \<and> item_ok d1 j" using Cons.prems by (intro decide_item_ok [OF _ _ _ _ s(1)]) simp_all
  note g = kept_stepD(2) [OF o1 [THEN conjunct1]]
  have "list_all (item_ok d1) is" using Cons.prems(3) item_ok_grows [OF _ g] by (simp add: list_all_iff)
  moreover have "bid \<in> ab_id ` set (db_batches d1)" using Cons.prems(2) grows_rows(6) [OF g] by blast
  ultimately have "kept_step ids d1 db' \<and> list_all (item_ok db') ks"
    using Cons.IH [OF kept_stepD(1) [OF o1 [THEN conjunct1]] _ _ _ s(2)] Cons.prems(4) by simp
  then show ?case using o1 kept_step_trans item_ok_grows [OF _ kept_stepD(2)] by (simp add: s(3)) blast
qed

lemma registered_unclaimed: "register_items env oid xs db = Inr (is, db') \<Longrightarrow> list_all (\<lambda>i. ti_claim i = None) is"
proof (induction xs arbitrary: db "is")
  case (Cons x xs)
  obtain e c d where x: "x = (e, c, d)" by (cases x)
  show ?case using Cons.prems Cons.IH unfolding x register_items.simps by (elim bindTE) (auto simp: returnT_def)
qed (simp add: returnT_def)

lemma link_all_ok: "research_ok ids db \<Longrightarrow> link_all t r es db = Inr (u, db') \<Longrightarrow> kept_step ids db db'"
proof (induction es arbitrary: db)
  case (Cons e es)
  from Cons.prems(2) obtain u1 d1 where s: "link_evidence t r e db = Inr (u1, d1)" "link_all t r es d1 = Inr (u, db')"
    unfolding link_all.simps by (elim bindTE) (rule that)
  have "kept_step ids db d1" by (rule link_evidence_ok [OF Cons.prems(1) s(1)])
  then show ?case using Cons.IH [OF kept_stepD(1) s(2)] kept_step_trans by blast
qed (simp add: returnT_def kept_step_refl)

lemma ted_completion_ok:
  assumes ok: "research_ok ids db" and env: "ren_id env = ids" "inj ids"
    and source: "lookup source ''rights_status'' = PStr ''COMMERCIAL_REUSE_WITH_ATTRIBUTION''"
    and art: "list_all ted_artifacts_ok xs" and present: "find_run t r db = Some run"
    and fin: "ted_completion env t r source page xs db = Inr (claims, db')"
  shows "kept_step ids db db'"
  using fin unfolding ted_completion_def
  apply (elim bindTE)
  subgoal premises s for oid d1 registered d2 bid d3 items d4 u1 d5 sections d6 did d7 u2 d8 u3 d9 u4 d10
  proof -
    note o1 = upsert_ted_source_object_ok [OF ok source s(1)]
    note o2 = register_items_ok [OF kept_stepD(1) [OF o1 [THEN conjunct1]] env o1 [THEN conjunct2] art s(2)]
    note o3 = create_admission_batch_ok [OF kept_stepD(1) [OF o2 [THEN conjunct1]] s(3)]
    have "list_all (item_ok d3) registered"
      using o2 item_ok_grows [OF _ kept_stepD(2) [OF o3 [THEN conjunct1]]] by (simp add: list_all_iff)
    note o4 = decide_items_ok [OF kept_stepD(1) [OF o3 [THEN conjunct1]] o3 [THEN conjunct2] this registered_unclaimed [OF s(2)] s(4)]
    note o5 = decide_batch_ok [OF kept_stepD(1) [OF o4 [THEN conjunct1]] s(5)]
    have same: "d6 = d5" using s(6) by (auto simp: liftT_def bindE_eq_Inr)
    have to6: "kept_step ids db d6" using o1 o2 o3 o4 o5 kept_step_trans unfolding same by blast
    have "list_all (item_ok d6) items" using o4 item_ok_grows [OF _ kept_stepD(2) [OF o5]] by (simp add: list_all_iff same)
    then have ids: "set (map ti_evidence_id items) \<subseteq> evidence_ids d6" "set (map ti_candidate_id items) \<subseteq> cl_id ` set (db_candidates d6)"
      "set (claims_of items) \<subseteq> cn_id ` set (db_canonical d6)"
      by (auto simp: list_all_iff claims_of_def item_ids split: option.splits)
    have "kept_step ids d6 d10"
    proof (rule closing_ok [OF kept_stepD(1) [OF to6] present kept_stepD(2) [OF to6] ids _ _ s(7) _ s(9) s(10)])
      have "research_ok ids d7"
        using insert_dossier_ok [OF kept_stepD(1) [OF to6] _ s(7)] run_present [OF present kept_stepD(2) [OF to6]]
        by (simp add: ted_dossier_def kept_step_def)
      then show "kept_step ids d7 d8" by (rule link_all_ok [OF _ s(8)])
    qed (simp_all add: ted_dossier_def)
    moreover have "d10 = db'" using s(11) by (simp add: returnT_def)
    ultimately show ?thesis using to6 kept_step_trans by blast
  qed
  done

section \<open>The steps\<close>

text \<open>One transaction of a tenant, an operator's change of the source registry, or a change of the tenant's
  trial account by something else of the same tenant.\<close>

inductive research_step :: "(nat \<Rightarrow> string) \<Rightarrow> string \<Rightarrow> research_db \<Rightarrow> research_db \<Rightarrow> bool" for ids where
  created: "ren_id env = ids \<Longrightarrow> research_step ids t db (snd (create_run env t context opportunity question private db))"
| created_ted: "ren_id env = ids \<Longrightarrow> research_step ids t db (snd (create_ted_run env t context opportunity question db))"
| moved: "ren_id env = ids \<Longrightarrow> state \<in> {RunRetrieving, RunProposing, RunAdmissionPending} \<Longrightarrow>
    research_step ids t db (snd (transition_run env t r state db))"
| failed: "ren_id env = ids \<Longrightarrow> research_step ids t db (snd (fail_run env t r error_code detail db))"
| finished_wb: "ren_id env = ids \<Longrightarrow> block_reason source wb_source_id = None \<Longrightarrow>
    build_world_bank_inflation_artifacts opportunity period value hash = Inr (e, c) \<Longrightarrow>
    research_step ids t db (snd (complete_world_bank_run env t r source x e c (evaluate_observed_fact source e c now) db))"
| finished_ted: "ren_id env = ids \<Longrightarrow> block_reason source ted_source_id = None \<Longrightarrow>
    build_ted_search_artifacts page opportunity = Inr (es, cs) \<Longrightarrow>
    research_step ids t db (snd (complete_ted_run env t r source page es cs (map2 (evaluate_ted_observed_field source) es cs) db))"
| marked_published: "research_step ids t db (mark_published now event_id db)"
| marked_failed: "research_step ids t db (mark_failed now event_id error db)"
| registry_changed: "research_step ids t db (db\<lparr>db_sources := sources\<rparr>)"
| account_changed: "filter (\<lambda>a. ta_tenant a \<noteq> t) accounts = filter (\<lambda>a. ta_tenant a \<noteq> t) (db_accounts db) \<Longrightarrow>
    research_step ids t db (db\<lparr>db_accounts := accounts\<rparr>)"

abbreviation research_steps :: "(nat \<Rightarrow> string) \<Rightarrow> string \<Rightarrow> research_db \<Rightarrow> research_db \<Rightarrow> bool" where
  "research_steps ids t \<equiv> (research_step ids t)\<^sup>*\<^sup>*"

lemma in_transaction_ok:
  assumes "research_ok ids db" and "\<And>x db'. m = Inr (x, db') \<Longrightarrow> kept_step ids db db'"
  shows "kept_step ids db (snd (in_transaction db m))"
  using assms by (cases m) (auto simp: in_transaction_def kept_step_refl)

lemma insert_run_ok:
  assumes ok: "research_ok ids db" and env: "ren_id env = ids" "inj ids"
    and r: "rr_id r = ids (db_next db)" "rr_state r = RunQueued" "rr_dossier r = None" "rr_evidence r = []" "rr_candidates r = []"
      "rr_canonical r = []"
    and run: "insert_run env r sid (db\<lparr>db_next := Suc (db_next db)\<rparr>) = Inr (x, db')"
  shows "kept_step ids db db'"
proof -
  obtain db0 where db0: "trial_guard (rr_tenant r) False (active_state (rr_state r)) (db\<lparr>db_next := Suc (db_next db)\<rparr>) = Inr db0"
    "db' = snd (draw env db0)\<lparr>db_runs := db_runs db0 @ [r], db_outbox := db_outbox db0
       @ [event_row (fst (draw env db0)) (rr_id r) ''research.run.requested'' (request_payload (rr_tenant r) (rr_id r) sid) (ren_now env)]\<rparr>"
    using run by (auto simp: insert_run_def draw_def bindE_eq_Inr Let_def split: option.splits)
  then obtain accounts ev where db': "db' = db\<lparr>db_accounts := accounts, db_next := Suc (Suc (db_next db)), db_runs := db_runs db @ [r],
      db_outbox := db_outbox db @ [ev]\<rparr>"
    using trial_guard_accounts [OF db0(1)] by (fastforce simp: draw_def)
  have g: "grows db db'" by (simp add: db' grows_def)
  have "run_ok db' r" using r by (simp add: run_ok_def)
  moreover have "run_ok db' q" if "q \<in> set (db_runs db)" for q
    using research_okD(6) [OF ok] that by (intro run_ok_grows [OF _ g]) (simp add: runs_ok_def)
  moreover have "rr_id r \<notin> rr_id ` set (db_runs db)"
    unfolding r(1) using research_okD(6) [OF ok] by (intro new_ident [OF env(2)]) (simp add: runs_ok_def)
  moreover have "rr_id r \<in> ids ` {..<Suc (Suc (db_next db))}" by (simp add: r(1))
  moreover have "rr_id ` set (db_runs db) \<subseteq> ids ` {..<Suc (Suc (db_next db))}"
    using research_okD(6) [OF ok] by (intro supply_Suc) (simp add: runs_ok_def)
  ultimately have "runs_ok ids db'" using research_okD(6) [OF ok] by (auto simp: runs_ok_def db')
  then show ?thesis by (intro kept_stepI [OF ok g]) (simp_all add: db')
qed

lemma create_runs_ok:
  assumes "research_ok ids db" and "ren_id env = ids" "inj ids"
  shows "kept_step ids db (snd (create_run env t context opportunity question private db))"
    "kept_step ids db (snd (create_ted_run env t context opportunity question db))"
  unfolding create_run_def create_ted_run_def draw_def Let_def prod.case
  by (rule in_transaction_ok [OF assms(1)], rule insert_run_ok [OF assms], auto simp: new_run_def assms(2))+

lemma move_ok:
  assumes "research_ok ids db" and "state \<in> {RunRetrieving, RunProposing, RunAdmissionPending}"
  shows "kept_step ids db (snd (transition_run env t r state db))"
  unfolding transition_run_def
proof (rule in_transaction_ok [OF assms(1)])
  fix u db'
  assume m: "bindE (set_state t r state (\<lambda>r. r\<lparr>rr_updated := ren_now env\<rparr>) db) (\<lambda>db1.
      if length (filter (visible t r) (db_runs db)) \<noteq> 1 then Inl (LookupError ''ResearchRun not found for tenant'') else Inr ((), db1)) = Inr (u, db')"
  then have "set_state t r state (\<lambda>r. r\<lparr>rr_updated := ren_now env\<rparr>) db = Inr db'"
    by (auto simp: bindE_eq_Inr split: if_splits)
  then show "kept_step ids db db'"
    by (rule set_state_ok [OF assms(1)]) (use assms(2) in \<open>auto simp: run_ok_def\<close>)
qed

lemma fail_ok: "research_ok ids db \<Longrightarrow> kept_step ids db (snd (fail_run env t r error_code detail db))"
  unfolding fail_run_def
  by (rule in_transaction_ok, assumption) (auto simp: bindE_eq_Inr run_ok_def intro: set_state_ok)

lemma py_eq_str: "py_eq v (PStr s) \<longleftrightarrow> v = PStr s"
  by (cases v) (auto simp: number_of_def)

lemma unblocked_rights: "block_reason source sid = None \<Longrightarrow> lookup source ''rights_status'' = PStr ''COMMERCIAL_REUSE_WITH_ATTRIBUTION''"
  unfolding block_reason_def py_eq_str by (auto split: if_splits)

lemma built_fact: "build_world_bank_inflation_artifacts opportunity period value hash = Inr (e, c) \<Longrightarrow> fact_artifacts_ok e c"
  by (auto simp: build_world_bank_inflation_artifacts_def bindE_eq_Inr Let_def fact_artifacts_ok_def split: option.splits)

lemma finish_wb_ok:
  assumes ok: "research_ok ids db" and env: "ren_id env = ids" "inj ids" and b: "block_reason source wb_source_id = None"
    and art: "build_world_bank_inflation_artifacts opportunity period value hash = Inr (e, c)"
  shows "kept_step ids db (snd (complete_world_bank_run env t r source x e c (evaluate_observed_fact source e c now) db))"
  unfolding complete_world_bank_run_def
proof (rule in_transaction_ok [OF ok])
  fix y db'
  assume "(case find_run t r db of None \<Rightarrow> Inl (LookupError ''ResearchRun not found for worker'')
      | Some _ \<Rightarrow> wb_completion env t r source x e c (evaluate_observed_fact source e c now) db) = Inr (y, db')"
  then obtain run where run: "find_run t r db = Some run"
    "wb_completion env t r source x e c (evaluate_observed_fact source e c now) db = Inr (y, db')" by (auto split: option.splits)
  have "fa_class (evaluate_observed_fact source e c now) \<in> {None, Some ''OBSERVED_FACT''}"
    by (simp add: evaluate_observed_fact_def Let_def)
  from wb_completion_ok [OF ok env unblocked_rights [OF b] built_fact [OF art] this run] show "kept_step ids db db'" .
qed

lemma built_ted:
  assumes "foldE (artifact_step page opportunity) s nfs = Inr s'"
    and "list_all (\<lambda>c. td_kind c = ''FACT'' \<and> td_producer_type c = ''DETERMINISTIC_PARSER'') (ar_candidates s)"
  shows "list_all (\<lambda>c. td_kind c = ''FACT'' \<and> td_producer_type c = ''DETERMINISTIC_PARSER'') (ar_candidates s')"
  using assms(1)
proof (rule foldE_invariant)
  fix s x u assume "list_all (\<lambda>c. td_kind c = ''FACT'' \<and> td_producer_type c = ''DETERMINISTIC_PARSER'') (ar_candidates s)"
    "artifact_step page opportunity s x = Inr u"
  then show "list_all (\<lambda>c. td_kind c = ''FACT'' \<and> td_producer_type c = ''DETERMINISTIC_PARSER'') (ar_candidates u)"
    by (auto simp: artifact_step_def Let_def bindE_eq_Inr make_candidate_def split: if_splits option.splits)
qed (rule assms(2))

lemma zip3_ok:
  assumes "list_all (\<lambda>c. td_kind c = ''FACT'' \<and> td_producer_type c = ''DETERMINISTIC_PARSER'') cs"
  shows "list_all ted_artifacts_ok (zip es (zip cs ds))"
proof -
  have "c \<in> set cs" if "(e, c, d) \<in> set (zip es (zip cs ds))" for e c d
    using set_zip_leftD [OF set_zip_rightD [OF that]] .
  then show ?thesis using assms by (auto simp: list_all_iff ted_artifacts_ok_def)
qed

lemma finish_ted_ok:
  assumes ok: "research_ok ids db" and env: "ren_id env = ids" "inj ids" and b: "block_reason source ted_source_id = None"
    and art: "build_ted_search_artifacts page opportunity = Inr (es, cs)"
  shows "kept_step ids db (snd (complete_ted_run env t r source page es cs ds db))"
  unfolding complete_ted_run_def
proof (rule in_transaction_ok [OF ok], goal_cases)
  case (1 y db')
  from art obtain s where s: "foldE (artifact_step page opportunity) \<lparr>ar_seen = [], ar_evidence = [], ar_candidates = []\<rparr> (field_turns page) = Inr s"
    "cs = ar_candidates s" by (auto simp: build_ted_search_artifacts_def bindE_eq_Inr split: if_splits)
  have art: "list_all ted_artifacts_ok (zip es (zip cs ds))"
    unfolding s(2) by (rule zip3_ok) (rule built_ted [OF s(1)], simp)
  from 1 obtain run where run: "find_run t r db = Some run"
    "db' = db \<or> (\<exists>z. ted_completion env t r source page (zip es (zip cs ds)) db = Inr (z, db'))"
    by (auto simp: bindT_Inr returnT_def split: if_splits option.splits)
  then show ?case
    using ted_completion_ok [OF ok env unblocked_rights [OF b] art run(1)] kept_step_refl [OF ok] by blast
qed

lemma research_step_ok: "research_step ids t db db' \<Longrightarrow> research_ok ids db \<Longrightarrow> inj ids \<Longrightarrow> kept_step ids db db'"
proof (induction rule: research_step.induct)
  case (marked_published t db now event_id)
  then show ?case by (intro kept_stepI) (auto simp: mark_published_def grows_def)
next
  case (marked_failed t db now event_id error)
  then show ?case by (intro kept_stepI) (auto simp: mark_failed_def grows_def)
next
  case (registry_changed t db sources)
  then show ?case by (intro kept_stepI) (auto simp: grows_def)
next
  case (account_changed t accounts db)
  then show ?case by (intro accounts_ok)
qed (blast intro: create_runs_ok move_ok fail_ok finish_wb_ok finish_ted_ok)+

section \<open>The worker and the routes as steps\<close>

lemma thenD_steps:
  assumes "research_steps ids t db (snd m)" and "\<And>x. fst m = Inr x \<Longrightarrow> research_steps ids t (snd m) (snd (k x (snd m)))"
  shows "research_steps ids t db (snd (thenD m k))"
proof (cases m)
  case (Pair r db1)
  show ?thesis
  proof (cases r)
    case (Inr x)
    then show ?thesis using assms Pair by (auto simp: thenD_def intro: rtranclp_trans)
  qed (use assms(1) Pair in \<open>simp add: thenD_def\<close>)
qed

lemma one_step: "research_step ids t db db' \<Longrightarrow> research_steps ids t db db'"
  by blast

lemma at_time_ids [simp]: "ren_id (at_time env io k) = ren_id env"
  by (simp add: at_time_def)

lemma world_bank_steps:
  assumes "block_reason source wb_source_id = None"
  shows "research_steps (ren_id env) (rj_tenant j) db (snd (process_world_bank env io j run source db))"
  unfolding process_world_bank_def
  apply (rule thenD_steps, rule one_step, rule moved, simp, simp)
  apply (rule thenD_steps, simp)
  apply (rule thenD_steps, rule one_step, rule moved, simp, simp)
  apply (rule thenD_steps, simp)
  subgoal for _ x _ p
    apply (cases p)
      apply simp
      apply (rule thenD_steps, rule one_step, rule moved, simp, simp)
      apply (rule thenD_steps, rule one_step, rule finished_wb [OF _ assms], simp, simp, simp)
      done
  done

lemma ted_steps:
  assumes "block_reason source ted_source_id = None"
  shows "research_steps (ren_id env) (rj_tenant j) db (snd (process_ted env io j run source db))"
proof (cases "rr_job_kind run = ''TED_PROCUREMENT'' \<and> io_ted io \<noteq> None")
  case True
  then obtain connector where c: "io_ted io = Some connector" by blast
  show ?thesis
    using True unfolding process_ted_def c
    apply simp
    apply (rule thenD_steps, rule one_step, rule moved, simp, simp)
    apply (rule thenD_steps, simp)
    apply (rule thenD_steps, rule one_step, rule moved, simp, simp)
    apply (rule thenD_steps, simp)
    subgoal for _ x _ p
      apply (cases p)
      apply simp
      apply (rule thenD_steps, rule one_step, rule moved, simp, simp)
      apply (rule thenD_steps, rule one_step, rule finished_ted [OF _ assms], simp, simp, simp)
      done
    done
qed (auto simp: process_ted_def)

lemma process_steps: "research_steps (ren_id env) (rj_tenant j) db (snd (process_research env io j db))"
proof -
  let ?body = "\<lambda>run source. if rj_source j = ted_source_id then process_ted env io j run source db else process_world_bank env io j run source db"
  have refuse: "research_steps (ren_id env) (rj_tenant j) d (snd (fail_run (at_time env io 6) (rj_tenant j) (rj_run j) a b d))" for a b d
    by (rule one_step) (rule failed, simp)
  have body: "research_steps (ren_id env) (rj_tenant j) db (snd (?body run source))"
    if "block_reason source (rj_source j) = None" "rj_source j \<in> {wb_source_id, ted_source_id}" for run source
    using that world_bank_steps ted_steps by auto
  show ?thesis
  proof (cases "find_run (rj_tenant j) (rj_run j) db")
    case (Some run)
    show ?thesis
    proof (cases "rr_state run = RunCompleted \<or> rj_source j \<notin> {wb_source_id, ted_source_id}
        \<or> get_source (rj_source j) db = None \<or> block_reason (the (get_source (rj_source j) db)) (rj_source j) \<noteq> None")
      case True
      then show ?thesis using Some refuse by (auto simp: process_research_def split: option.splits)
    next
      case False
      then obtain source where s: "get_source (rj_source j) db = Some source" "block_reason source (rj_source j) = None" by auto
      obtain r d where rd: "?body run source = (r, d)" by fastforce
      have "research_steps (ren_id env) (rj_tenant j) db d" using body [OF s(2), of run] False rd by auto
      then have "research_steps (ren_id env) (rj_tenant j) db (case r of Inr _ \<Rightarrow> d
          | Inl e \<Rightarrow> if research_handles e then snd (fail_run (at_time env io 6) (rj_tenant j) (rj_run j) (upper (error_class e)) (error_text e) d) else d)"
        using refuse [of d] by (auto split: sum.splits intro: rtranclp_trans)
      then show ?thesis using False Some s rd by (cases r) (auto simp: process_research_def)
    qed
  qed (simp add: process_research_def)
qed

lemma deliver_db: "rw_db (snd (deliver_event broker e w)) = rw_db w"
  by (auto simp: deliver_event_def enqueue_research_def publish_to_stream_def broker_call_def Let_def split: sum.splits option.splits)

lemma publish_steps: "research_steps ids t (rw_db w) (rw_db (snd (publish_events broker now es n w)))"
proof (induction es arbitrary: n w)
  case (Cons e es)
  obtain r w1 where d: "deliver_event broker e w = (r, w1)" by fastforce
  have db: "rw_db w1 = rw_db w" using deliver_db [of broker e w] d by simp
  have m: "research_steps ids t (rw_db w) (mark_published now i (rw_db w1))" "research_steps ids t (rw_db w) (mark_failed now i err (rw_db w1))" for i err
    unfolding db by (rule one_step, rule marked_published) (rule one_step, rule marked_failed)
  show ?case
  proof (cases r)
    case (Inl err)
    then show ?thesis using d m(2) Cons.IH [where n = n and w = "w1\<lparr>rw_db := mark_failed now (ob_event_id e) (error_class err @ '': '' @ error_text err) (rw_db w1)\<rparr>"]
      by (auto simp: db intro: rtranclp_trans)
  next
    case (Inr u)
    then show ?thesis using d m(1) Cons.IH [where n = "Suc n" and w = "w1\<lparr>rw_db := mark_published now (ob_event_id e) (rw_db w1)\<rparr>"]
      by (auto intro: rtranclp_trans)
  qed
qed simp

end
