(* ===== verification/ResearchSafety.thy ===== *)
theory ResearchSafety
  imports ResearchSteps
begin

text \<open>
  What the research spine guarantees under any interleaving of its transactions, how a delivered job ends, and the
  behaviours that differ from what the states of a run announce.
\<close>

section \<open>What a step leaves alone\<close>

definition preserves :: "(research_db \<Rightarrow> 'b) \<Rightarrow> 'a step \<Rightarrow> bool" where
  "preserves g m \<longleftrightarrow> (\<forall>db x db'. m db = Inr (x, db') \<longrightarrow> g db' = g db)"

lemma preservesI: "(\<And>db x db'. m db = Inr (x, db') \<Longrightarrow> g db' = g db) \<Longrightarrow> preserves g m"
  by (simp add: preserves_def)

lemma preservesD: "preserves g m \<Longrightarrow> m db = Inr (x, db') \<Longrightarrow> g db' = g db"
  by (simp add: preserves_def)

lemma preserves_bind: "preserves g m \<Longrightarrow> (\<And>x. preserves g (k x)) \<Longrightarrow> preserves g (bindT m k)"
  by (rule preservesI) (auto simp: bindT_Inr preserves_def)

lemma preserves_return: "preserves g (returnT x)"
  by (simp add: preserves_def returnT_def)

lemma preserves_lift: "preserves g (liftT r)"
  by (auto simp: preserves_def liftT_def bindE_eq_Inr)

lemma preserves_if: "preserves g m \<Longrightarrow> preserves g m' \<Longrightarrow> preserves g (if b then m else m')"
  by simp

lemma preserves_prod: "(\<And>a b. preserves g (k a b)) \<Longrightarrow> preserves g (case p of (a, b) \<Rightarrow> k a b)"
  by (cases p) simp

definition others ::
    "string \<Rightarrow> research_db \<Rightarrow> research_run list \<times> research_dossier list \<times> evidence_link list \<times> trial_account list" where
  \<comment> \<open>the private rows of the other tenants\<close>
  "others t db = (filter (\<lambda>r. rr_tenant r \<noteq> t) (db_runs db), filter (\<lambda>d. ds_tenant d \<noteq> t) (db_dossiers db),
     filter (\<lambda>l. el_tenant l \<noteq> t) (db_links db), filter (\<lambda>a. ta_tenant a \<noteq> t) (db_accounts db))"

named_theorems kept_rows "steps that leave the private rows of other tenants, or all runs, alone"

lemma global_steps [kept_rows]:
  "preserves (others t) (insert_object env so)" "preserves (others t) (insert_evidence env ev)" "preserves (others t) (insert_candidate env f cc)"
  "preserves (others t) (create_admission_batch env p cs)" "preserves (others t) (decide_batch b v)"
  "preserves (others t) (reject_candidate env i rs)" "preserves (others t) (admit env i k reason)" "preserves (others t) (completed_event env r pl)"
  "preserves db_runs (insert_object env so)" "preserves db_runs (insert_evidence env ev)" "preserves db_runs (insert_candidate env f cc)"
  "preserves db_runs (create_admission_batch env p cs)" "preserves db_runs (decide_batch b v)"
  "preserves db_runs (reject_candidate env i rs)" "preserves db_runs (admit env i k reason)" "preserves db_runs (completed_event env r pl)"
  by (auto simp: preserves_def others_def insert_object_def insert_evidence_def insert_candidate_def create_admission_batch_def
      decide_batch_def reject_candidate_def change_candidate_def admit_def insert_canonical_def completed_event_def draw_def bindT_Inr Let_def
      split: option.splits if_splits)

lemma update_run_others:
  assumes "\<And>x. rr_tenant (f x) = rr_tenant x"
  shows "others t (update_run t r f db) = others t db"
proof -
  have "filter (\<lambda>x. rr_tenant x \<noteq> t) (map (\<lambda>x. if visible t r x then f x else x) xs) = filter (\<lambda>x. rr_tenant x \<noteq> t) xs" for xs
    by (induction xs) (auto simp: visible_def assms)
  then show ?thesis by (simp add: others_def update_run_def)
qed

lemma change_account_others: "others t (change_account t f db) = others t db"
proof -
  have "filter (\<lambda>a. ta_tenant a \<noteq> t) (map (\<lambda>a. if ta_tenant a = t then g a else a) xs) = filter (\<lambda>a. ta_tenant a \<noteq> t) xs"
    if "\<And>a. ta_tenant (g a) = ta_tenant a" for g :: "trial_account \<Rightarrow> trial_account" and xs
    by (induction xs) (auto simp: that)
  from this [of "\<lambda>a. a\<lparr>ta_active := f (ta_active a)\<rparr>"] show ?thesis by (simp add: others_def change_account_def)
qed

lemma trial_guard_others: "trial_guard t o' n db = Inr db' \<Longrightarrow> others t db' = others t db"
  by (auto simp: trial_guard_def change_account_others split: option.splits if_splits)

lemma set_state_others:
  assumes "set_state t r st f db = Inr db'" and f: "\<And>x. rr_tenant (f x) = rr_tenant x"
  shows "others t db' = others t db"
proof (cases "find_run t r db")
  case (Some x)
  then have "rr_tenant x = t" by (rule find_run_visible)
  with assms(1) Some obtain db1 where d: "trial_guard t (active_state (rr_state x)) (active_state st) db = Inr db1"
    "db' = update_run t r (\<lambda>x. (f x)\<lparr>rr_state := st\<rparr>) db1" by (auto simp: set_state_def bindE_eq_Inr)
  have "others t db' = others t db1" unfolding d(2) by (rule update_run_others) (simp add: f)
  then show ?thesis using trial_guard_others [OF d(1)] by simp
qed (use assms(1) in \<open>simp add: set_state_def\<close>)

lemma private_steps [kept_rows]:
  "ds_tenant d = t \<Longrightarrow> preserves (others t) (insert_dossier env d)" "preserves (others t) (link_evidence t r e)"
  "preserves (others t) (complete_run env t r u es cs ks dd b)" "preserves db_runs (insert_dossier env d)" "preserves db_runs (link_evidence t r e)"
proof -
  show "preserves (others t) (complete_run env t r u es cs ks dd b)"
    by (auto simp: preserves_def complete_run_def bindE_eq_Inr intro!: set_state_others)
qed (auto simp: preserves_def insert_dossier_def link_evidence_def draw_def others_def split: if_splits)

lemma source_steps [kept_rows]:
  "preserves (others t) (upsert_source_object env source x)" "preserves db_runs (upsert_source_object env source x)"
  "preserves (others t) (upsert_ted_source_object env source page)" "preserves db_runs (upsert_ted_source_object env source page)"
  by (auto simp: preserves_def upsert_source_object_def upsert_ted_source_object_def Let_def
      dest: kept_rows(1) [unfolded preserves_def, rule_format] kept_rows(9) [unfolded preserves_def, rule_format]
      split: option.splits if_splits)

lemma item_steps [kept_rows]:
  "preserves (others t) (register_items env oid xs)" "preserves db_runs (register_items env oid xs)"
  "preserves (others t) (decide_items env page bid is)" "preserves db_runs (decide_items env page bid is)"
  "preserves (others t) (link_all t r es)" "preserves db_runs (link_all t r es)"
proof -
  have one: "preserves (others t) (decide_item env page bid i)" "preserves db_runs (decide_item env page bid i)" for i
    unfolding decide_item_def admit_ted_candidate_def by (intro preserves_if preserves_bind preserves_prod preserves_return kept_rows)+
  show "preserves (others t) (register_items env oid xs)"
    by (induction xs rule: register_items.induct)
      (auto simp: upsert_ted_evidence_def upsert_ted_candidate_def intro!: preserves_bind preserves_return kept_rows)
  show "preserves db_runs (register_items env oid xs)"
    by (induction xs rule: register_items.induct)
      (auto simp: upsert_ted_evidence_def upsert_ted_candidate_def intro!: preserves_bind preserves_return kept_rows)
  show "preserves (others t) (decide_items env page bid is)" "preserves db_runs (decide_items env page bid is)"
    by (induction "is") (auto intro!: preserves_bind preserves_return one)
  show "preserves (others t) (link_all t r es)" "preserves db_runs (link_all t r es)"
    by (induction es) (auto intro!: preserves_bind preserves_return kept_rows)
qed

lemma decide_fact_steps [kept_rows]:
  "preserves (others t) (decide_fact env cid c e eid bid d)" "preserves db_runs (decide_fact env cid c e eid bid d)"
  unfolding decide_fact_def admit_candidate_def by (intro preserves_if preserves_bind preserves_prod preserves_return kept_rows)+

lemma completion_others:
  "preserves (others t) (wb_completion env t r source x e c d)" "preserves (others t) (ted_completion env t r source page xs)"
  unfolding wb_completion_def ted_completion_def upsert_evidence_def upsert_candidate_def
  by (intro preserves_bind preserves_prod preserves_return preserves_lift kept_rows; simp add: wb_dossier_def ted_dossier_def)+

lemma in_transaction_keeps:
  assumes "\<And>x db'. m = Inr (x, db') \<Longrightarrow> g db' = g db"
  shows "g (snd (in_transaction db m)) = g db"
  using assms by (cases m) (auto simp: in_transaction_def)

lemma insert_run_others:
  assumes "insert_run env x sid db = Inr (i, db')"
  shows "others (rr_tenant x) db' = others (rr_tenant x) db"
proof -
  obtain db0 where "trial_guard (rr_tenant x) False (active_state (rr_state x)) db = Inr db0"
    "db' = snd (draw env db0)\<lparr>db_runs := db_runs db0 @ [x], db_outbox := db_outbox db0
       @ [event_row (fst (draw env db0)) (rr_id x) ''research.run.requested'' (request_payload (rr_tenant x) (rr_id x) sid) (ren_now env)]\<rparr>"
    using assms by (auto simp: insert_run_def draw_def bindE_eq_Inr Let_def split: option.splits)
  then show ?thesis using trial_guard_others [of "rr_tenant x" False "active_state (rr_state x)" db db0] by (simp add: draw_def others_def)
qed

lemma create_others:
  "others t (snd (create_run env t ctx opportunity question secret db)) = others t db"
  "others t (snd (create_ted_run env t ctx opportunity question db)) = others t db"
  unfolding create_run_def create_ted_run_def
  by (rule in_transaction_keeps; fastforce simp: draw_def new_run_def others_def dest: insert_run_others)+

lemma step_others: "research_step ids t db db' \<Longrightarrow> others t db' = others t db"
proof (induction rule: research_step.induct)
  case (moved env state t db r)
  show ?case unfolding transition_run_def
    by (rule in_transaction_keeps) (auto simp: bindE_eq_Inr intro!: set_state_others split: if_splits)
next
  case (finished_wb env source opp period val hash e c t db r x now)
  show ?case unfolding complete_world_bank_run_def
    by (rule in_transaction_keeps) (use completion_others(1) in \<open>fastforce simp: preserves_def split: option.splits\<close>)
next
  case (finished_ted env source page opportunity es cs t db r)
  show ?case unfolding complete_ted_run_def
    by (rule in_transaction_keeps)
      (use completion_others(2) in \<open>fastforce simp: preserves_def bindT_Inr returnT_def split: option.splits if_splits\<close>)
next
  case (failed env t db r error_code detail)
  show ?case unfolding fail_run_def
    by (rule in_transaction_keeps) (auto simp: bindE_eq_Inr intro!: set_state_others)
qed (simp_all add: create_others mark_published_def mark_failed_def, simp_all add: others_def)

lemma steps_others: "research_steps ids t db db' \<Longrightarrow> others t db' = others t db"
  by (induction rule: rtranclp_induct) (auto dest: step_others)

lemma research_steps_ok: "(\<lambda>a b. \<exists>t. research_step ids t a b)\<^sup>*\<^sup>* db db' \<Longrightarrow> research_ok ids db \<Longrightarrow> inj ids \<Longrightarrow> kept_step ids db db'"
proof (induction rule: rtranclp_induct)
  case (step y z)
  then show ?case using research_step_ok kept_step_trans kept_stepD(1) by blast
qed (rule kept_step_refl)

lemma tenant_steps: "research_steps ids t db db' \<Longrightarrow> (\<lambda>a b. \<exists>t. research_step ids t a b)\<^sup>*\<^sup>* db db'"
  by (erule rtranclp_mono [THEN predicate2D, rotated]) blast

section \<open>The state of a run\<close>

definition one_run :: "string \<Rightarrow> string \<Rightarrow> research_db \<Rightarrow> bool" where
  "one_run t r db \<longleftrightarrow> length (filter (visible t r) (db_runs db)) = 1"

definition run_state :: "string \<Rightarrow> string \<Rightarrow> research_db \<Rightarrow> research_state option" where
  "run_state t r db = map_option rr_state (find_run t r db)"

lemma find_filter: "find p xs = (case filter p xs of [] \<Rightarrow> None | x # _ \<Rightarrow> Some x)"
  by (induction xs) auto

lemma filter_visible_update:
  assumes "\<And>x. rr_id (f x) = rr_id x \<and> rr_tenant (f x) = rr_tenant x"
  shows "filter (visible t r) (db_runs (update_run t r f db)) = map f (filter (visible t r) (db_runs db))"
proof -
  have "filter (visible t r) (map (\<lambda>x. if visible t r x then f x else x) xs) = map f (filter (visible t r) xs)" for xs
    by (induction xs) (use assms in \<open>auto simp: visible_def\<close>)
  then show ?thesis by (simp add: update_run_def)
qed

lemma update_run_find:
  assumes "\<And>x. rr_id (f x) = rr_id x \<and> rr_tenant (f x) = rr_tenant x"
  shows "find_run t r (update_run t r f db) = map_option f (find_run t r db)"
  unfolding find_run_def find_filter filter_visible_update [OF assms] by (simp split: list.split)

lemma update_run_one:
  "(\<And>x. rr_id (f x) = rr_id x \<and> rr_tenant (f x) = rr_tenant x) \<Longrightarrow> one_run t r (update_run t r f db) = one_run t r db"
  by (simp add: one_run_def filter_visible_update)

lemma one_run_found: "one_run t r db \<Longrightarrow> \<exists>x. find_run t r db = Some x"
  unfolding one_run_def find_run_def find_filter by (cases "filter (visible t r) (db_runs db)") auto

lemma research_ok_one:
  assumes ok: "research_ok ids db" and found: "find_run t r db = Some x"
  shows "one_run t r db"
proof -
  have "distinct (filter (visible t r) (db_runs db))"
    using research_okD(6) [OF ok] by (auto simp: runs_ok_def distinct_map)
  moreover have "set (filter (visible t r) (db_runs db)) = {x}"
    using find_run_visible [OF found] research_okD(6) [OF ok] by (auto simp: visible_def runs_ok_def distinct_map dest: inj_onD)
  ultimately show ?thesis unfolding one_run_def using distinct_card by (metis card.empty card_insert_disjoint empty_iff finite.emptyI One_nat_def)
qed

definition has_room :: "string \<Rightarrow> research_db \<Rightarrow> bool" where
  \<comment> \<open>the tenant is not on trial, or a slot of its trial is free\<close>
  "has_room t db \<longleftrightarrow> (case trial_account_of t db of None \<Rightarrow> True | Some a \<Rightarrow> ta_active a < ta_limit a)"

definition may_enter :: "string \<Rightarrow> research_run \<Rightarrow> research_db \<Rightarrow> bool" where
  \<comment> \<open>the trigger lets the run become active\<close>
  "may_enter t x db \<longleftrightarrow> active_state (rr_state x) \<or> has_room t db"

lemma trial_guard_enters:
  "o' \<or> \<not> n \<or> has_room t db \<Longrightarrow> \<exists>accounts. trial_guard t o' n db = Inr (db\<lparr>db_accounts := accounts\<rparr>)"
proof -
  assume "o' \<or> \<not> n \<or> has_room t db"
  then obtain db' where "trial_guard t o' n db = Inr db'"
    by (cases "trial_account_of t db"; cases o'; cases n) (auto simp: trial_guard_def has_room_def)
  then show ?thesis using trial_guard_accounts by blast
qed

lemma accounts_runs [simp]: "find_run t r (db\<lparr>db_accounts := accounts\<rparr>) = find_run t r db"
    "one_run t r (db\<lparr>db_accounts := accounts\<rparr>) = one_run t r db"
  by (simp_all add: find_run_def one_run_def)

lemma set_state_runs:
  assumes found: "find_run t r db = Some x" and go: "\<not> active_state st \<or> may_enter t x db"
  shows "\<exists>accounts. set_state t r st f db = Inr (update_run t r (\<lambda>x. (f x)\<lparr>rr_state := st\<rparr>) (db\<lparr>db_accounts := accounts\<rparr>))"
proof -
  have t: "rr_tenant x = t" using found by (rule find_run_visible)
  obtain accounts where "trial_guard t (active_state (rr_state x)) (active_state st) db = Inr (db\<lparr>db_accounts := accounts\<rparr>)"
    using go trial_guard_enters unfolding may_enter_def by blast
  then show ?thesis using found t by (auto simp: set_state_def)
qed

lemma transition_once:
  assumes one: "one_run t r db" and found: "find_run t r db = Some x" and go: "\<not> active_state s \<or> may_enter t x db"
  shows "\<exists>db'. transition_run env t r s db = (Inr (), db') \<and> one_run t r db' \<and> run_state t r db' = Some s
    \<and> db_dossiers db' = db_dossiers db \<and> db_objects db' = db_objects db"
proof -
  let ?f = "\<lambda>x. x\<lparr>rr_updated := ren_now env, rr_state := s\<rparr>"
  obtain accounts where a: "set_state t r s (\<lambda>x. x\<lparr>rr_updated := ren_now env\<rparr>) db = Inr (update_run t r ?f (db\<lparr>db_accounts := accounts\<rparr>))"
    using set_state_runs [OF found go, of "\<lambda>x. x\<lparr>rr_updated := ren_now env\<rparr>"] by blast
  let ?db = "update_run t r ?f (db\<lparr>db_accounts := accounts\<rparr>)"
  have "transition_run env t r s db = (Inr (), ?db)"
    using one a by (simp add: transition_run_def in_transaction_def one_run_def)
  moreover have "one_run t r ?db" using one by (simp add: update_run_one)
  moreover have "run_state t r ?db = Some s" using found by (simp add: run_state_def update_run_find)
  moreover have "db_dossiers ?db = db_dossiers db" "db_objects ?db = db_objects db" by (simp_all add: update_run_def)
  ultimately show ?thesis by blast
qed

lemma transition_refused:
  assumes found: "find_run t r db = Some x" and no: "active_state s" "\<not> may_enter t x db"
  shows "transition_run env t r s db = (Inl trial_exhausted, db)"
proof -
  have "rr_tenant x = t" using found by (rule find_run_visible)
  then have "trial_guard (rr_tenant x) (active_state (rr_state x)) (active_state s) db = Inl trial_exhausted"
    using no by (auto simp: trial_guard_def may_enter_def has_room_def split: option.splits)
  then show ?thesis using found by (simp add: transition_run_def set_state_def in_transaction_def)
qed

lemma fail_run_once:
  assumes "one_run t r db"
  shows "\<exists>db'. fail_run env t r c d db = (Inr (), db') \<and> run_state t r db' = Some RunFailed"
proof -
  let ?f = "\<lambda>x. x\<lparr>rr_error_code := Some (take 100 c), rr_error_detail := Some (take 1000 d), rr_updated := ren_now env\<rparr>"
  obtain x where x: "find_run t r db = Some x" using one_run_found [OF assms] by blast
  have "\<not> active_state RunFailed" by (simp add: active_state_def)
  then obtain accounts where "set_state t r RunFailed ?f db = Inr (update_run t r (\<lambda>x. (?f x)\<lparr>rr_state := RunFailed\<rparr>) (db\<lparr>db_accounts := accounts\<rparr>))"
    using set_state_runs [OF x, of RunFailed ?f] by blast
  then show ?thesis using x by (simp add: fail_run_def in_transaction_def run_state_def update_run_find)
qed

lemma find_run_same: "db_runs db' = db_runs db \<Longrightarrow> find_run t r db' = find_run t r db"
  by (simp add: find_run_def)

lemmas runs_kept = global_steps(9-16) [THEN preservesD] private_steps(4,5) [THEN preservesD] source_steps(2,4) [THEN preservesD]
  item_steps(2,4,6) [THEN preservesD] decide_fact_steps(2) [THEN preservesD] preserves_lift [where g = db_runs, THEN preservesD]

definition completed_from :: "research_run \<Rightarrow> research_run \<Rightarrow> bool" where
  \<comment> \<open>what completing a run makes of its row\<close>
  "completed_from x y \<longleftrightarrow> rr_state y = RunCompleted \<and> rr_dossier y \<noteq> None \<and> rr_error_code y = rr_error_code x
     \<and> rr_error_detail y = rr_error_detail x"

lemma complete_run_row:
  assumes "find_run t r db = Some x" and "complete_run env t r u es cs ks did b db = Inr (w, db')"
  shows "\<exists>y. find_run t r db' = Some y \<and> completed_from x y \<and> rr_evidence y = es \<and> rr_canonical y = ks \<and> rr_dossier y = Some did"
proof -
  let ?f = "\<lambda>x. x\<lparr>rr_usage := u, rr_evidence := es, rr_candidates := cs, rr_canonical := ks, rr_dossier := Some did,
      rr_batch := Some b, rr_updated := ren_now env\<rparr>"
  have "\<not> active_state RunCompleted" by (simp add: active_state_def)
  then obtain accounts where "set_state t r RunCompleted ?f db
      = Inr (update_run t r (\<lambda>x. (?f x)\<lparr>rr_state := RunCompleted\<rparr>) (db\<lparr>db_accounts := accounts\<rparr>))"
    using set_state_runs [OF assms(1), of RunCompleted ?f] by blast
  then show ?thesis using assms by (auto simp: complete_run_def update_run_find completed_from_def)
qed

lemma decide_fact_claim:
  assumes "decide_fact env cid c e eid bid d db = Inr ((claim, created), db')"
  shows "claim \<noteq> None \<longleftrightarrow> fa_admitted d"
  using assms by (auto simp: decide_fact_def bindT_Inr returnT_def split: if_splits)

lemma wb_completion_row:
  assumes found: "find_run t r db = Some x" and fin: "wb_completion env t r source ob e c d db = Inr (claim, db')"
  shows "\<exists>y. find_run t r db' = Some y \<and> completed_from x y \<and> (rr_canonical y \<noteq> [] \<longleftrightarrow> fa_admitted d)"
  using fin unfolding wb_completion_def
  apply (elim bindT_pairE bindTE)
  subgoal premises s for oid d1 eid d2 cid d3 bid d4 claim created d5 u1 d6 did d7 u2 d8 u3 d9 u4 d10
  proof -
    have "db_runs d1 = db_runs db" using s(1) by (rule runs_kept)
    moreover have "db_runs d2 = db_runs d1" using s(2) [unfolded upsert_evidence_def] by (rule runs_kept)
    moreover have "db_runs d3 = db_runs d2" using s(3) [unfolded upsert_candidate_def] by (rule runs_kept)
    moreover have "db_runs d4 = db_runs d3" using s(4) by (rule runs_kept)
    moreover have "db_runs d5 = db_runs d4" using s(5) by (rule runs_kept)
    moreover have "db_runs d6 = db_runs d5" using s(6) by (rule runs_kept)
    moreover have "db_runs d7 = db_runs d6" using s(7) by (rule runs_kept)
    moreover have "db_runs d8 = db_runs d7" using s(8) by (rule runs_kept)
    moreover have "db_runs d10 = db_runs d9" using s(10) by (rule runs_kept)
    ultimately have "find_run t r d8 = Some x" "find_run t r d10 = find_run t r d9" using found by (simp_all add: find_run_def)
    then show ?thesis using complete_run_row [OF _ s(9)] s(11) decide_fact_claim [OF s(5)]
      by (fastforce simp: returnT_def split: option.splits)
  qed
  done

lemma ted_completion_row:
  assumes found: "find_run t r db = Some x" and fin: "ted_completion env t r source page xs db = Inr (claims, db')"
  shows "\<exists>y. find_run t r db' = Some y \<and> completed_from x y"
  using fin unfolding ted_completion_def
  apply (elim bindTE)
  subgoal premises s for oid d1 registered d2 bid d3 items d4 u1 d5 sections d6 did d7 u2 d8 u3 d9 u4 d10
  proof -
    have "db_runs d1 = db_runs db" using s(1) by (rule runs_kept)
    moreover have "db_runs d2 = db_runs d1" using s(2) by (rule runs_kept)
    moreover have "db_runs d3 = db_runs d2" using s(3) by (rule runs_kept)
    moreover have "db_runs d4 = db_runs d3" using s(4) by (rule runs_kept)
    moreover have "db_runs d5 = db_runs d4" using s(5) by (rule runs_kept)
    moreover have "db_runs d6 = db_runs d5" using s(6) by (rule runs_kept)
    moreover have "db_runs d7 = db_runs d6" using s(7) by (rule runs_kept)
    moreover have "db_runs d8 = db_runs d7" using s(8) by (rule runs_kept)
    moreover have "db_runs d10 = db_runs d9" using s(10) by (rule runs_kept)
    ultimately have "find_run t r d8 = Some x" "find_run t r d10 = find_run t r d9" using found by (simp_all add: find_run_def)
    then show ?thesis using complete_run_row [OF _ s(9)] s(11) by (auto simp: returnT_def)
  qed
  done

lemma complete_world_bank_row:
  assumes "find_run t r db = Some x"
  shows "(\<exists>e'. complete_world_bank_run env t r source ob e c d db = (Inl e', db))
    \<or> (\<exists>z db'. complete_world_bank_run env t r source ob e c d db = (Inr z, db') \<and> (\<exists>y. find_run t r db' = Some y \<and> completed_from x y))"
  using wb_completion_row [OF assms, of env source ob e c d] assms
  by (cases "wb_completion env t r source ob e c d db") (auto simp: complete_world_bank_run_def in_transaction_def)

lemma complete_ted_row:
  assumes "find_run t r db = Some x"
  shows "(\<exists>e'. complete_ted_run env t r source page es cs ds db = (Inl e', db))
    \<or> (\<exists>z db'. complete_ted_run env t r source page es cs ds db = (Inr z, db')
        \<and> run_state t r db' = Some RunCompleted)"
proof (cases "ted_completion env t r source page (zip es (zip cs ds)) db")
  case (Inl e')
  then show ?thesis using assms
    by (auto simp: complete_ted_run_def in_transaction_def bindT_def run_state_def split: sum.splits)
next
  case (Inr p)
  then obtain claims db' where p: "ted_completion env t r source page (zip es (zip cs ds)) db = Inr (claims, db')" by (cases p) auto
  from ted_completion_row [OF assms this] p assms show ?thesis
    by (auto simp: complete_ted_run_def in_transaction_def bindT_def returnT_def run_state_def completed_from_def)
qed

section \<open>How a job ends\<close>

definition under_way :: "research_state option set" where
  "under_way = {Some RunRetrieving, Some RunProposing, Some RunAdmissionPending}"

definition ended :: "string \<Rightarrow> string \<Rightarrow> 'a result \<times> research_db \<Rightarrow> bool" where
  \<comment> \<open>the two ways the body of the worker can end\<close>
  "ended t r m \<longleftrightarrow> (case fst m of Inr _ \<Rightarrow> run_state t r (snd m) = Some RunCompleted
     | Inl e \<Rightarrow> one_run t r (snd m) \<and> (research_handles e \<or> run_state t r (snd m) \<in> under_way))"

lemma thenD_pure_ended:
  assumes "one_run t r db" "run_state t r db \<in> under_way" and "\<And>x. res = Inr x \<Longrightarrow> ended t r (k x db)"
  shows "ended t r (thenD (res, db) k)"
  using assms by (cases res) (simp_all add: thenD_def ended_def)

lemma under_way_active: "Some s \<in> under_way \<Longrightarrow> active_state s"
  by (auto simp: under_way_def active_state_def)

lemma under_way_may_enter: "run_state t r db \<in> under_way \<Longrightarrow> find_run t r db = Some x \<Longrightarrow> may_enter t x db"
  by (auto simp: run_state_def may_enter_def dest: under_way_active)

lemma thenD_enters_ended:
  assumes one: "one_run t r db" and x: "find_run t r db = Some x" and go: "may_enter t x db" and s: "Some s \<in> under_way"
    and k: "\<And>db'. one_run t r db' \<Longrightarrow> run_state t r db' = Some s \<Longrightarrow> ended t r (k () db')"
  shows "ended t r (thenD (transition_run env t r s db) k)"
proof -
  obtain db' where "transition_run env t r s db = (Inr (), db')" "one_run t r db'" "run_state t r db' = Some s"
    using transition_once [OF one x] go by blast
  then show ?thesis using k by (simp add: thenD_def)
qed

lemma thenD_moved_ended:
  assumes one: "one_run t r db" "run_state t r db \<in> under_way" and s: "Some s \<in> under_way"
    and k: "\<And>db'. one_run t r db' \<Longrightarrow> run_state t r db' = Some s \<Longrightarrow> ended t r (k () db')"
  shows "ended t r (thenD (transition_run env t r s db) k)"
proof -
  obtain x where x: "find_run t r db = Some x" using one_run_found [OF one(1)] by blast
  show ?thesis by (rule thenD_enters_ended [OF one(1) x under_way_may_enter [OF one(2) x] s]) (rule k)
qed

lemma completion_ended:
  assumes one: "one_run t r db" "run_state t r db \<in> under_way"
    and m: "(\<exists>e'. m = (Inl e', db)) \<or> (\<exists>z db'. m = (Inr z, db') \<and> run_state t r db' = Some RunCompleted)"
  shows "ended t r (thenD m (\<lambda>_ db. (Inr (), db)))"
  using assms by (auto simp: thenD_def ended_def)

lemma run_state_found: "run_state t r db = Some s \<Longrightarrow> \<exists>x. find_run t r db = Some x"
  by (auto simp: run_state_def)

lemma completed_state: "find_run t r db = Some y \<Longrightarrow> completed_from x y \<Longrightarrow> run_state t r db = Some RunCompleted"
  by (simp add: run_state_def completed_from_def)

lemma complete_wb_ended:
  assumes "one_run t r db" and s: "run_state t r db = Some RunAdmissionPending"
  shows "ended t r (thenD (complete_world_bank_run env t r source x e c d db) (\<lambda>_ db. (Inr (), db)))"
proof -
  obtain y where y: "find_run t r db = Some y" using run_state_found [OF s] by blast
  show ?thesis
    using complete_world_bank_row [OF y, of env source x e c d]
    by (intro completion_ended [OF assms(1)]) (auto simp: s under_way_def dest: completed_state)
qed

lemma complete_ted_ended:
  assumes "one_run t r db" and s: "run_state t r db = Some RunAdmissionPending"
  shows "ended t r (thenD (complete_ted_run env t r source page es cs ds db) (\<lambda>_ db. (Inr (), db)))"
proof -
  obtain y where y: "find_run t r db = Some y" using run_state_found [OF s] by blast
  show ?thesis
    using complete_ted_row [OF y, of env source page es cs ds]
    by (intro completion_ended [OF assms(1)]) (auto simp: s under_way_def)
qed

lemma world_bank_ended:
  assumes "one_run (rj_tenant j) (rj_run j) db" "find_run (rj_tenant j) (rj_run j) db = Some x" "may_enter (rj_tenant j) x db"
  shows "ended (rj_tenant j) (rj_run j) (process_world_bank env io j run source db)"
  unfolding process_world_bank_def
  apply (rule thenD_enters_ended [OF assms], simp add: under_way_def)
  apply (rule thenD_pure_ended, assumption, simp add: under_way_def)
  apply (rule thenD_moved_ended, assumption, simp add: under_way_def, simp add: under_way_def)
  apply (rule thenD_pure_ended, assumption, simp add: under_way_def)
  apply (clarsimp split: prod.split)
  apply (rule thenD_moved_ended, assumption, simp add: under_way_def, simp add: under_way_def)
  by (rule complete_wb_ended)

definition ted_ready :: "research_io \<Rightarrow> research_run \<Rightarrow> bool" where
  "ted_ready io run \<longleftrightarrow> rr_job_kind run = ''TED_PROCUREMENT'' \<and> io_ted io \<noteq> None"

lemma ted_ended:
  assumes "one_run (rj_tenant j) (rj_run j) db" "find_run (rj_tenant j) (rj_run j) db = Some x" "may_enter (rj_tenant j) x db"
  shows "ended (rj_tenant j) (rj_run j) (process_ted env io j run source db)"
proof (cases "ted_ready io run")
  case True
  then obtain connector where c: "io_ted io = Some connector" by (auto simp: ted_ready_def)
  show ?thesis
    using True unfolding process_ted_def c ted_ready_def
    apply simp
    apply (rule thenD_enters_ended [OF assms], simp add: under_way_def)
    apply (rule thenD_pure_ended, assumption, simp add: under_way_def)
    apply (rule thenD_moved_ended, assumption, simp add: under_way_def, simp add: under_way_def)
    apply (rule thenD_pure_ended, assumption, simp add: under_way_def)
    apply (clarsimp split: prod.split)
    apply (rule thenD_moved_ended, assumption, simp add: under_way_def, simp add: under_way_def)
    by (rule complete_ted_ended)
qed (use assms(1) in \<open>auto simp: process_ted_def ended_def research_handles_def ted_ready_def\<close>)

text \<open>A run that the trigger keeps out: the exception of the first transition leaves everything as it was.\<close>

lemma refused_body:
  assumes "find_run (rj_tenant j) (rj_run j) db = Some x" "\<not> may_enter (rj_tenant j) x db"
  shows "process_world_bank env io j run source db = (Inl trial_exhausted, db)"
    "ted_ready io run \<Longrightarrow> process_ted env io j run source db = (Inl trial_exhausted, db)"
proof -
  have "active_state RunRetrieving" by (simp add: active_state_def)
  from transition_refused [OF assms(1) this assms(2)]
  show "process_world_bank env io j run source db = (Inl trial_exhausted, db)"
    "ted_ready io run \<Longrightarrow> process_ted env io j run source db = (Inl trial_exhausted, db)"
    by (auto simp: process_world_bank_def process_ted_def ted_ready_def thenD_def)
qed

section \<open>A run that already has its dossier\<close>

definition has_dossier :: "string \<Rightarrow> research_db \<Rightarrow> bool" where
  "has_dossier r db \<longleftrightarrow> r \<in> ds_run ` set (db_dossiers db)"

lemma dossier_steps:
  "preserves db_dossiers (insert_object env so)" "preserves db_dossiers (insert_evidence env ev)" "preserves db_dossiers (insert_candidate env f cc)"
  "preserves db_dossiers (create_admission_batch env p cs)" "preserves db_dossiers (decide_batch b v)"
  "preserves db_dossiers (reject_candidate env i rs)" "preserves db_dossiers (admit env i k reason)"
  by (auto simp: preserves_def insert_object_def insert_evidence_def insert_candidate_def create_admission_batch_def
      decide_batch_def reject_candidate_def change_candidate_def admit_def insert_canonical_def draw_def bindT_Inr Let_def
      split: option.splits if_splits)

lemma more_dossier_steps:
  "preserves db_dossiers (upsert_source_object env source x)" "preserves db_dossiers (decide_fact env cid c e eid bid d)"
proof -
  show "preserves db_dossiers (upsert_source_object env source x)"
    by (auto simp: preserves_def upsert_source_object_def Let_def dest: dossier_steps(1) [THEN preservesD] split: option.splits if_splits)
  show "preserves db_dossiers (decide_fact env cid c e eid bid d)"
    unfolding decide_fact_def admit_candidate_def
    by (intro preserves_if preserves_bind preserves_prod preserves_return dossier_steps)
qed

lemmas dossiers_kept = dossier_steps [THEN preservesD] more_dossier_steps [THEN preservesD]

lemma second_dossier: "has_dossier (ds_run d) db \<Longrightarrow> insert_dossier env d db = Inl (UniqueViolation ''dossiers_one_per_research_run_idx'')"
  by (auto simp: insert_dossier_def has_dossier_def list_ex_iff)

lemma second_completion:
  assumes "has_dossier r db"
  shows "\<exists>e'. complete_world_bank_run env t r source x e c d db = (Inl e', db)"
proof -
  have "wb_completion env t r source x e c d db \<noteq> Inr (claim, db')" for claim db'
  proof
    assume "wb_completion env t r source x e c d db = Inr (claim, db')"
    then show False
      unfolding wb_completion_def
      apply (elim bindT_pairE bindTE)
      subgoal premises s for oid d1 eid d2 cid d3 bid d4 claim created d5 u1 d6
      proof -
        have "db_dossiers d1 = db_dossiers db" using s(1) by (rule dossiers_kept)
        moreover have "db_dossiers d2 = db_dossiers d1" using s(2) [unfolded upsert_evidence_def] by (rule dossiers_kept)
        moreover have "db_dossiers d3 = db_dossiers d2" using s(3) [unfolded upsert_candidate_def] by (rule dossiers_kept)
        moreover have "db_dossiers d4 = db_dossiers d3" using s(4) by (rule dossiers_kept)
        moreover have "db_dossiers d5 = db_dossiers d4" using s(5) by (rule dossiers_kept)
        moreover have "db_dossiers d6 = db_dossiers d5" using s(6) by (rule dossiers_kept)
        ultimately have "has_dossier r d6" using assms by (simp add: has_dossier_def)
        then show ?thesis using s(7) second_dossier by (fastforce simp: wb_dossier_def)
      qed
      done
  qed
  then show ?thesis
    by (cases "wb_completion env t r source x e c d db")
      (auto simp: complete_world_bank_run_def in_transaction_def split: option.splits)
qed

lemma item_dossier_steps:
  "preserves db_dossiers (upsert_ted_source_object env source page)" "preserves db_dossiers (register_items env oid xs)"
  "preserves db_dossiers (decide_items env page bid is)"
proof -
  show "preserves db_dossiers (upsert_ted_source_object env source page)"
    by (auto simp: preserves_def upsert_ted_source_object_def Let_def dest: dossier_steps(1) [THEN preservesD] split: option.splits if_splits)
  show "preserves db_dossiers (register_items env oid xs)"
    by (induction xs rule: register_items.induct)
      (auto simp: upsert_ted_evidence_def upsert_ted_candidate_def intro!: preserves_bind preserves_return dossier_steps)
  have "preserves db_dossiers (decide_item env page bid i)" for i
    unfolding decide_item_def admit_ted_candidate_def by (intro preserves_if preserves_bind preserves_prod preserves_return dossier_steps)
  then show "preserves db_dossiers (decide_items env page bid is)"
    by (induction "is") (auto intro!: preserves_bind preserves_return)
qed

lemma second_ted_completion:
  assumes "has_dossier r db"
  shows "ted_completion env t r source page xs db \<noteq> Inr (claims, db')"
proof
  note kept = item_dossier_steps [THEN preservesD]
  assume "ted_completion env t r source page xs db = Inr (claims, db')"
  then show False
    unfolding ted_completion_def
    apply (elim bindTE)
    subgoal premises s for oid d1 registered d2 bid d3 items d4 u1 d5 sections d6 did d7
    proof -
      have "db_dossiers d1 = db_dossiers db" using s(1) by (rule kept)
      moreover have "db_dossiers d2 = db_dossiers d1" using s(2) by (rule kept)
      moreover have "db_dossiers d3 = db_dossiers d2" using s(3) by (rule dossiers_kept)
      moreover have "db_dossiers d4 = db_dossiers d3" using s(4) by (rule kept)
      moreover have "db_dossiers d5 = db_dossiers d4" using s(5) by (rule dossiers_kept)
      moreover have "d6 = d5" using s(6) by (auto simp: liftT_def bindE_eq_Inr)
      ultimately have "has_dossier r d6" using assms by (simp add: has_dossier_def)
      then show ?thesis using s(7) second_dossier by (fastforce simp: ted_dossier_def)
    qed
    done
qed

text \<open>The other runs of a tenant see nothing of a completion.\<close>

lemma preserves_find: "preserves db_runs m \<Longrightarrow> preserves (find_run t r) m"
  by (auto simp: preserves_def find_run_def)

lemma find_run_other: "(u, q) \<noteq> (t, r) \<Longrightarrow> (\<And>x. rr_id (f x) = rr_id x \<and> rr_tenant (f x) = rr_tenant x) \<Longrightarrow>
    find_run t r (update_run u q f db) = find_run t r db"
proof -
  assume n: "(u, q) \<noteq> (t, r)" and f: "\<And>x. rr_id (f x) = rr_id x \<and> rr_tenant (f x) = rr_tenant x"
  have "filter (visible t r) (map (\<lambda>x. if visible u q x then f x else x) xs) = filter (visible t r) xs" for xs
    by (induction xs) (use n f in \<open>auto simp: visible_def\<close>)
  then show ?thesis by (simp add: find_run_def find_filter update_run_def)
qed

lemma set_state_other:
  assumes "set_state u q st f db = Inr db'" "(u, q) \<noteq> (t, r)" "\<And>x. rr_id (f x) = rr_id x \<and> rr_tenant (f x) = rr_tenant x"
  shows "find_run t r db' = find_run t r db"
  using set_stateD [OF assms(1)] assms(2,3) by (auto simp: find_run_other)

lemma complete_run_other: "q \<noteq> r \<Longrightarrow> preserves (find_run t r) (complete_run env u q us es cs ks dd b)"
  by (auto simp: preserves_def complete_run_def bindE_eq_Inr intro!: set_state_other)

lemma completion_other_runs:
  assumes "q \<noteq> r"
  shows "preserves (find_run t r) (wb_completion env u q source x e c d)" "preserves (find_run t r) (ted_completion env u q source page xs)"
  unfolding wb_completion_def ted_completion_def upsert_evidence_def upsert_candidate_def
  by (intro preserves_bind preserves_prod preserves_return preserves_lift complete_run_other [OF assms] kept_rows(9-16) [THEN preserves_find]
      private_steps(4,5) [THEN preserves_find] source_steps(2,4) [THEN preserves_find] item_steps(2,4,6) [THEN preserves_find]
      decide_fact_steps(2) [THEN preserves_find])+

section \<open>A run that was completed and reopened\<close>

definition reopened :: "string \<Rightarrow> string \<Rightarrow> research_db \<Rightarrow> bool" where
  "reopened t r db \<longleftrightarrow> has_dossier r db \<and> run_state t r db \<in> insert (Some RunFailed) under_way"

lemma run_state_find: "find_run t r db' = find_run t r db \<Longrightarrow> run_state t r db' = run_state t r db"
  by (simp add: run_state_def)

lemma set_state_reopened:
  assumes "set_state u q st f db = Inr db'" "Some st \<in> insert (Some RunFailed) under_way"
    and "\<And>x. rr_id (f x) = rr_id x \<and> rr_tenant (f x) = rr_tenant x" and "run_state t r db \<in> insert (Some RunFailed) under_way"
  shows "run_state t r db' \<in> insert (Some RunFailed) under_way"
proof (cases "(u, q) = (t, r)")
  case True
  with assms(4) obtain x where "find_run t r db = Some x" by (auto simp: run_state_def under_way_def)
  then show ?thesis using set_stateD [OF assms(1)] True assms(2,3) by (auto simp: run_state_def update_run_find)
next
  case False
  from run_state_find [OF set_state_other [OF assms(1) this assms(3)]] assms(4) show ?thesis by simp
qed

lemma insert_run_found:
  assumes "insert_run env x sid db = Inr (i, db')" "find_run t r db = Some y"
  shows "find_run t r db' = Some y"
proof -
  obtain db0 where g: "trial_guard (rr_tenant x) False (active_state (rr_state x)) db = Inr db0"
    "db' = snd (draw env db0)\<lparr>db_runs := db_runs db0 @ [x], db_outbox := db_outbox db0
       @ [event_row (fst (draw env db0)) (rr_id x) ''research.run.requested'' (request_payload (rr_tenant x) (rr_id x) sid) (ren_now env)]\<rparr>"
    using assms(1) by (auto simp: insert_run_def draw_def bindE_eq_Inr Let_def split: option.splits)
  have "db_runs db' = db_runs db @ [x]" using trial_guard_accounts [OF g(1)] g(2) by (auto simp: draw_def)
  then show ?thesis using assms(2) by (auto simp: find_run_def find_filter split: list.splits)
qed

lemma created_found:
  assumes "run_state t r db \<in> insert (Some RunFailed) under_way"
  shows "run_state t r (snd (create_run env u ctx opportunity question secret db)) \<in> insert (Some RunFailed) under_way"
    "run_state t r (snd (create_ted_run env u ctx opportunity question db)) \<in> insert (Some RunFailed) under_way"
proof -
  obtain y where y: "find_run t r db = Some y" using assms by (auto simp: run_state_def under_way_def)
  then have d: "find_run t r (db\<lparr>db_next := n\<rparr>) = Some y" for n by (simp add: find_run_def)
  have "find_run t r (snd (create_run env u ctx opportunity question secret db)) = find_run t r db"
    "find_run t r (snd (create_ted_run env u ctx opportunity question db)) = find_run t r db"
    unfolding create_run_def create_ted_run_def draw_def Let_def prod.case
    by (rule in_transaction_keeps; use insert_run_found [OF _ d] y in fastforce)+
  then show "run_state t r (snd (create_run env u ctx opportunity question secret db)) \<in> insert (Some RunFailed) under_way"
    "run_state t r (snd (create_ted_run env u ctx opportunity question db)) \<in> insert (Some RunFailed) under_way"
    using assms run_state_find by metis+
qed

lemma in_transaction_state:
  assumes "run_state t r db \<in> S" and "\<And>x db'. m = Inr (x, db') \<Longrightarrow> run_state t r db' \<in> S"
  shows "run_state t r (snd (in_transaction db m)) \<in> S"
  using assms by (cases m) (auto simp: in_transaction_def)

lemma reopened_state_step:
  "research_step ids u db db' \<Longrightarrow> reopened t r db \<Longrightarrow> run_state t r db' \<in> insert (Some RunFailed) under_way"
proof (induction rule: research_step.induct)
  case (created env u db ctx opportunity question secret)
  then show ?case using created_found(1) by (metis reopened_def)
next
  case (created_ted env u db ctx opportunity question)
  then show ?case using created_found(2) by (metis reopened_def)
next
  case (moved env state u db q)
  have st: "Some state \<in> insert (Some RunFailed) under_way" using moved(2) by (auto simp: under_way_def)
  show ?case unfolding transition_run_def
  proof (rule in_transaction_state)
    show "run_state t r db \<in> insert (Some RunFailed) under_way" using moved(3) by (simp add: reopened_def)
    show "run_state t r db' \<in> insert (Some RunFailed) under_way"
      if "bindE (set_state u q state (\<lambda>r. r\<lparr>rr_updated := ren_now env\<rparr>) db) (\<lambda>db1.
        if length (filter (visible u q) (db_runs db)) \<noteq> 1 then Inl (LookupError ''ResearchRun not found for tenant'')
        else Inr ((), db1)) = Inr (x, db')" for x db'
    proof -
      have "set_state u q state (\<lambda>r. r\<lparr>rr_updated := ren_now env\<rparr>) db = Inr db'"
        using that by (auto simp: bindE_eq_Inr split: if_splits)
      then show ?thesis by (rule set_state_reopened [OF _ st]) (use moved(3) in \<open>simp_all add: reopened_def\<close>)
    qed
  qed
next
  case (failed env u db q error_code detail)
  show ?case unfolding fail_run_def
  proof (rule in_transaction_state)
    show "run_state t r db \<in> insert (Some RunFailed) under_way" using failed(2) by (simp add: reopened_def)
    show "run_state t r db' \<in> insert (Some RunFailed) under_way"
      if "bindE (set_state u q RunFailed (\<lambda>r. r\<lparr>rr_error_code := Some (take 100 error_code), rr_error_detail := Some (take 1000 detail),
        rr_updated := ren_now env\<rparr>) db) (\<lambda>db1. Inr ((), db1)) = Inr (x, db')" for x db'
    proof -
      have "set_state u q RunFailed (\<lambda>r. r\<lparr>rr_error_code := Some (take 100 error_code), rr_error_detail := Some (take 1000 detail),
          rr_updated := ren_now env\<rparr>) db = Inr db'"
        using that by (auto simp: bindE_eq_Inr)
      then show ?thesis by (rule set_state_reopened) (use failed(2) in \<open>simp_all add: reopened_def\<close>)
    qed
  qed
next
  case (finished_wb env source opp period val hash e c u db q x now)
  let ?m = "complete_world_bank_run env u q source x e c (evaluate_observed_fact source e c now) db"
  show ?case
  proof (cases "q = r")
    case True
    then obtain e' where "?m = (Inl e', db)"
      using second_completion finished_wb by (metis reopened_def)
    then show ?thesis using finished_wb by (simp add: reopened_def)
  next
    case False
    have "find_run t r (snd ?m) = find_run t r db"
      unfolding complete_world_bank_run_def
      by (rule in_transaction_keeps) (use completion_other_runs(1) [OF False] in \<open>fastforce simp: preserves_def split: option.splits\<close>)
    then show ?thesis using run_state_find finished_wb by (metis reopened_def)
  qed
next
  case (finished_ted env source page opportunity es cs u db q)
  let ?m = "complete_ted_run env u q source page es cs (map2 (evaluate_ted_observed_field source) es cs) db"
  have "find_run t r (snd ?m) = find_run t r db"
    unfolding complete_ted_run_def
  proof (rule in_transaction_keeps, goal_cases)
    case (1 y db')
    then have "db' = db \<or> (\<exists>claims. ted_completion env u q source page (zip es (zip cs (map2 (evaluate_ted_observed_field source) es cs))) db = Inr (claims, db'))"
      by (auto simp: bindT_Inr returnT_def split: if_splits option.splits)
    then show ?case
      using second_ted_completion [of q db] finished_ted(4) completion_other_runs(2) [of q r, THEN preservesD]
      by (cases "q = r") (auto simp: reopened_def)
  qed
  then show ?case using run_state_find finished_ted by (metis reopened_def)
qed (auto simp: reopened_def mark_published_def mark_failed_def run_state_def find_run_def)

lemma reopened_steps:
  assumes "(\<lambda>a b. \<exists>t. research_step ids t a b)\<^sup>*\<^sup>* db db'" and "research_ok ids db" "inj ids" "reopened t r db"
  shows "reopened t r db'"
  using assms
proof (induction rule: rtranclp_induct)
  case (step y z)
  then obtain u where u: "research_step ids u y z" by blast
  have y: "research_ok ids y" using research_steps_ok [OF step(1)] step(4,5) by (simp add: kept_step_def)
  have r: "reopened t r y" using step by blast
  have "prefix (db_dossiers y) (db_dossiers z)"
    using research_step_ok [OF u y step(5)] by (simp add: kept_step_def grows_def)
  then have "has_dossier r z" using r set_mono_prefix by (fastforce simp: has_dossier_def reopened_def)
  then show ?case using reopened_state_step [OF u r] by (simp add: reopened_def)
qed

end
