(* ===== verification/ResearchGuarantees.thy ===== *)
theory ResearchGuarantees
  imports ResearchSafety
begin

text \<open>
  The properties of the research spine: what any interleaving keeps, what a worker can reach, how a job ends, when it
  succeeds, and what a worker that comes late does to a completed run.
\<close>

section \<open>Guarantees\<close>

text \<open>C2: Whatever the API, the publishers and the workers of all tenants do, in any order and with any part of it rolled back, the
  tables stay consistent: each canonical claim has a fingerprint of its own, cites recorded evidence, belongs to an admission batch
  and has exactly one ledger event; each claim's candidate is a deterministic fact; a completed run has the dossier of its tenant;
  and the canonical claims and their ledger are never rewritten, only extended.\<close>

theorem research_tables_kept:
  assumes "(\<lambda>a b. \<exists>t. research_step ids t a b)\<^sup>*\<^sup>* db db'" and "research_ok ids db" and "inj ids"
  shows "research_ok ids db' \<and> prefix (db_canonical db) (db_canonical db') \<and> prefix (db_events db) (db_events db')
    \<and> prefix (db_dossiers db) (db_dossiers db')"
  using research_steps_ok [OF assms] by (simp add: kept_step_def grows_def)

definition empty_research :: "source_registry \<Rightarrow> research_db" where
  "empty_research sources = \<lparr>db_sources = sources, db_runs = [], db_objects = [], db_evidence = [], db_candidates = [], db_batches = [],
     db_canonical = [], db_events = [], db_dossiers = [], db_links = [], db_outbox = [], db_accounts = [], db_next = 0\<rparr>"

lemma empty_research_ok: "research_ok ids (empty_research sources)"
  by (simp add: empty_research_def research_ok_def objects_ok_def evidence_kept_def claims_ok_def candidates_ok_def dossiers_ok_def runs_ok_def)

definition unary_id :: "nat \<Rightarrow> string" where
  "unary_id n = replicate n (CHR ''i'')"

lemma unary_id_inj: "inj unary_id"
  by (rule injI) (metis unary_id_def length_replicate)

definition sample_env :: research_env where
  "sample_env = \<lparr>ren_id = unary_id, ren_now = 0, ren_guard = (\<lambda>_. None), ren_read_time = (\<lambda>_. None)\<rparr>"

lemma sample_env_ids [simp]: "ren_id sample_env = unary_id"
  by (simp add: sample_env_def)

definition sample_source :: "(string \<times> pyval) list" where
  "sample_source = [(''source_id'', PStr wb_source_id), (''name'', PStr ''World Bank''), (''admission_state'', PStr ''ADMITTED''),
     (''kill_switch'', PBool False), (''rights_status'', PStr ''COMMERCIAL_REUSE_WITH_ATTRIBUTION''), (''commercial_use'', PBool True),
     (''redistribution'', PBool True), (''license_id'', PStr ''CC-BY-4.0'')]"

definition sample_db :: "string \<Rightarrow> research_db" where
  \<comment> \<open>a run of the tenant waits for the worker\<close>
  "sample_db t = snd (create_run sample_env t ''ctx_12345678'' ''opportunity'' ''question'' False (empty_research [sample_source]))"

definition sample_job :: "string \<Rightarrow> research_job" where
  "sample_job t = \<lparr>rj_tenant = t, rj_run = unary_id 0, rj_source = wb_source_id\<rparr>"

lemma sample_db_step: "research_step unary_id t (empty_research [sample_source]) (sample_db t)"
  unfolding sample_db_def by (rule created) simp

lemma sample_db_ok: "research_ok unary_id (sample_db t)"
  using research_step_ok [OF sample_db_step empty_research_ok unary_id_inj] by (simp add: kept_step_def)

theorem research_tables_kept_witness:
  "(let db = empty_research [sample_source]; db' = sample_db ''t'' in
    length (db_runs db') = 1 \<and> research_ok unary_id db' \<and> prefix (db_canonical db) (db_canonical db')
      \<and> prefix (db_events db) (db_events db') \<and> prefix (db_dossiers db) (db_dossiers db'))"
proof -
  have "(\<lambda>a b. \<exists>t. research_step unary_id t a b)\<^sup>*\<^sup>* (empty_research [sample_source]) (sample_db ''t'')"
    using sample_db_step [of "''t''"] by blast
  from research_tables_kept [OF this empty_research_ok unary_id_inj] show ?thesis
    by (simp add: Let_def sample_db_def create_run_def in_transaction_def insert_run_def draw_def sample_env_def empty_research_def
        trial_guard_def trial_account_of_def)
qed

text \<open>C7: A worker that runs a delivered job, however the source answers and wherever it fails, leaves the tables consistent, and
  touches no run, no dossier, no evidence link and no trial account of any tenant but the one the job names.\<close>

theorem research_worker_isolated:
  assumes "research_ok (ren_id env) db" and "inj (ren_id env)"
  shows "others (rj_tenant j) (snd (process_research env io j db)) = others (rj_tenant j) db
    \<and> research_ok (ren_id env) (snd (process_research env io j db))"
  using steps_others [OF process_steps] research_steps_ok [OF tenant_steps [OF process_steps] assms] by (auto simp: kept_step_def)

definition sample_io :: "pyval result option \<Rightarrow> research_io" where
  "sample_io fixture = \<lparr>io_wb = \<lparr>wc_live = False, wc_fixture = fixture\<rparr>, io_get = (\<lambda>_. Inl ''''), io_ted = None,
     io_post = (\<lambda>_ _. Inl ''''), io_clock = int\<rparr>"

theorem research_worker_isolated_witness:
  "(let db' = snd (process_research sample_env (sample_io None) (sample_job ''t'') (sample_db ''t'')) in
    others ''t'' db' = others ''t'' (sample_db ''t'') \<and> research_ok unary_id db')"
  using research_worker_isolated [of sample_env "sample_db ''t''" "sample_job ''t''" "sample_io None"] sample_db_ok unary_id_inj
  by (simp add: Let_def sample_job_def)

text \<open>C13: On consistent tables, a delivered job whose run exists and is not completed ends in one of three ways: the worker returns and the run is COMPLETED or
  FAILED; an exception that the worker does not handle escapes and the run is left RETRIEVING, PROPOSING or ADMISSION_PENDING; or the run was
  not under way, the trial of its tenant has no free slot, and the exception of the database escapes from the first transition with
  nothing changed.\<close>

theorem research_job_outcome:
  assumes ok: "research_ok ids db" and found: "find_run (rj_tenant j) (rj_run j) db = Some run" and s: "rr_state run \<noteq> RunCompleted"
  shows "case process_research env io j db of
      (Inr _, db') \<Rightarrow> run_state (rj_tenant j) (rj_run j) db' \<in> {Some RunCompleted, Some RunFailed}
    | (Inl e, db') \<Rightarrow> \<not> research_handles e
        \<and> (run_state (rj_tenant j) (rj_run j) db' \<in> under_way
           \<or> e = trial_exhausted \<and> db' = db \<and> active_state (rr_state run) = False \<and> has_room (rj_tenant j) db = False)"
proof -
  let ?t = "rj_tenant j" and ?r = "rj_run j"
  let ?body = "\<lambda>source. if rj_source j = ted_source_id then process_ted env io j run source db else process_world_bank env io j run source db"
  have one: "one_run ?t ?r db" using research_ok_one [OF ok found] .
  have body: "ended ?t ?r (?body source) \<or> ?body source = (Inl trial_exhausted, db) \<and> \<not> may_enter ?t run db" for source
  proof (cases "may_enter ?t run db")
    case True
    then show ?thesis using ted_ended [OF one found] world_bank_ended [OF one found] by simp
  next
    case False
    then show ?thesis
      using refused_body [OF found False] one by (cases "ted_ready io run") (auto simp: ended_def process_ted_def ted_ready_def research_handles_def)
  qed
  obtain failed where refuse: "fail_run (at_time env io 6) ?t ?r c d db = (Inr (), failed c d)"
    "run_state ?t ?r (failed c d) = Some RunFailed" for c d
    using fail_run_once [OF one, of "at_time env io 6"] by metis
  show ?thesis
  proof (cases "rj_source j \<notin> {wb_source_id, ted_source_id}
        \<or> get_source (rj_source j) db = None \<or> block_reason (the (get_source (rj_source j) db)) (rj_source j) \<noteq> None")
    case True
    then show ?thesis using found s refuse
      by (auto simp: process_research_def split: option.splits)
  next
    case False
    then obtain source where src: "get_source (rj_source j) db = Some source" "block_reason source (rj_source j) = None" by auto
    obtain res d where rd: "?body source = (res, d)" by fastforce
    have run: "process_research env io j db = (case res of Inr _ \<Rightarrow> (Inr (), d)
        | Inl e \<Rightarrow> if research_handles e then fail_run (at_time env io 6) ?t ?r (upper (error_class e)) (error_text e) d else (Inl e, d))"
      using False found s src rd by (auto simp: process_research_def split: sum.splits)
    show ?thesis
    proof (cases "ended ?t ?r (res, d)")
      case True
      show ?thesis
      proof (cases res)
        case (Inl e)
        then show ?thesis using True run fail_run_once [of ?t ?r d "at_time env io 6" "upper (error_class e)" "error_text e"]
          by (auto simp: ended_def)
      qed (use True run in \<open>simp add: ended_def\<close>)
    next
      case False
      then have "res = Inl trial_exhausted" "d = db" "\<not> may_enter ?t run db" using body [of source] rd by auto
      then show ?thesis using run by (simp add: trial_exhausted_def research_handles_def may_enter_def)
    qed
  qed
qed

lemmas sample_simps = sample_db_def create_run_def in_transaction_def insert_run_def draw_def sample_env_def empty_research_def Let_def
  new_run_def unary_id_def sample_job_def sample_source_def trial_guard_def trial_account_of_def

lemma sample_registry: "get_source wb_source_id (sample_db t) = Some sample_source" "block_reason sample_source wb_source_id = None"
  by (simp_all add: sample_simps get_source_def lookup_def block_reason_def wb_source_id_def ted_source_id_def py_eq_str py_truthy_def)

lemma sample_job_fields: "rj_tenant (sample_job t) = t" "rj_run (sample_job t) = unary_id 0" "rj_source (sample_job t) = wb_source_id"
  by (simp_all add: sample_job_def)

lemma sample_run: "map_option rr_state (find_run t (unary_id 0) (sample_db t)) = Some RunQueued"
  by (simp add: sample_simps find_run_def visible_def)

text \<open>The fixture of the World Bank connector is missing: its error is not translated, and the run stays RETRIEVING.\<close>

lemma sample_stuck:
  assumes "\<not> research_handles e"
  shows "fst (process_research sample_env (sample_io (Some (Inl e))) (sample_job t) (sample_db t)) = Inl e"
proof -
  have one: "one_run t (unary_id 0) (sample_db t)"
    using sample_run [of t] research_ok_one [OF sample_db_ok] by auto
  obtain run where run: "find_run t (unary_id 0) (sample_db t) = Some run" "rr_state run = RunQueued" using sample_run [of t] by auto
  have "may_enter t run (sample_db t)" using run(2) by (simp add: may_enter_def active_state_def)
  then obtain d where "transition_run (at_time sample_env (sample_io (Some (Inl e))) 0) t (unary_id 0) RunRetrieving (sample_db t) = (Inr (), d)"
    using transition_once [OF one run(1)] by blast
  then have "process_world_bank sample_env (sample_io (Some (Inl e))) (sample_job t) run sample_source (sample_db t) = (Inl e, d)"
    by (simp add: process_world_bank_def thenD_def sample_job_def sample_io_def fetch_latest_inflation_def)
  then show ?thesis
    using run assms sample_registry(1) [of t] sample_registry(2)
    by (simp add: process_research_def sample_job_def wb_source_id_def ted_source_id_def)
qed

theorem research_job_outcome_witness:
  "(let m = process_research sample_env (sample_io (Some (Inl (OSError ''FileNotFoundError'')))) (sample_job ''t'') (sample_db ''t'') in
    fst m = Inl (OSError ''FileNotFoundError'') \<and> run_state ''t'' (unary_id 0) (snd m) \<in> under_way)"
proof -
  let ?io = "sample_io (Some (Inl (OSError ''FileNotFoundError'')))"
  obtain run where "find_run ''t'' (unary_id 0) (sample_db ''t'') = Some run" "rr_state run = RunQueued" using sample_run [of "''t''"] by auto
  moreover obtain db' where "process_research sample_env ?io (sample_job ''t'') (sample_db ''t'') = (Inl (OSError ''FileNotFoundError''), db')"
    using sample_stuck [of "OSError ''FileNotFoundError''" "''t''"]
    by (cases "process_research sample_env ?io (sample_job ''t'') (sample_db ''t'')") (simp add: research_handles_def)
  ultimately show ?thesis
    using research_job_outcome [OF sample_db_ok [of "''t''"], where j = "sample_job ''t''" and run = run and env = sample_env and io = ?io]
    by (simp add: sample_job_fields trial_exhausted_def Let_def)
qed

lemma fail_run_ledger: "db_canonical (snd (fail_run env t r c d db)) = db_canonical db" "db_events (snd (fail_run env t r c d db)) = db_events db"
  unfolding fail_run_def
  by (rule in_transaction_keeps; auto simp: bindE_eq_Inr update_run_def dest!: set_stateD)+

text \<open>C16: A worker writes a canonical claim or a ledger event only for a source that is registered as admitted, whose kill switch is off
  and whose recorded rights permit commercial reuse with attribution; for any other source nothing of the ledger changes.\<close>

theorem research_claims_from_admitted_source:
  "(let db' = snd (process_research env io j db) in db_canonical db' = db_canonical db \<and> db_events db' = db_events db)
    \<or> (\<exists>source. get_source (rj_source j) db = Some source \<and> lookup source ''admission_state'' = PStr ''ADMITTED''
        \<and> py_truthy (lookup source ''kill_switch'') = False
        \<and> lookup source ''rights_status'' = PStr ''COMMERCIAL_REUSE_WITH_ATTRIBUTION'' \<and> py_truthy (lookup source ''commercial_use'')
        \<and> (rj_source j = wb_source_id \<and> py_truthy (lookup source ''redistribution'') \<or> rj_source j = ted_source_id))"
proof (cases "\<exists>source. get_source (rj_source j) db = Some source \<and> block_reason source (rj_source j) = None
    \<and> rj_source j \<in> {wb_source_id, ted_source_id}")
  case True
  then obtain source where "get_source (rj_source j) db = Some source" "block_reason source (rj_source j) = None"
    "rj_source j \<in> {wb_source_id, ted_source_id}" by blast
  then have "get_source (rj_source j) db = Some source \<and> lookup source ''admission_state'' = PStr ''ADMITTED''
        \<and> py_truthy (lookup source ''kill_switch'') = False
        \<and> lookup source ''rights_status'' = PStr ''COMMERCIAL_REUSE_WITH_ATTRIBUTION'' \<and> py_truthy (lookup source ''commercial_use'')
        \<and> (rj_source j = wb_source_id \<and> py_truthy (lookup source ''redistribution'') \<or> rj_source j = ted_source_id)"
    unfolding block_reason_def py_eq_str by (auto split: if_splits)
  then show ?thesis by blast
next
  case False
  then show ?thesis
    by (auto simp: process_research_def fail_run_ledger Let_def split: option.splits)
qed

section \<open>A job that nothing disturbs\<close>

text \<open>Steps that never raise, and steps that succeed as long as the run has no dossier.\<close>

definition never_raises :: "'a step \<Rightarrow> bool" where
  "never_raises m \<longleftrightarrow> (\<forall>db. \<exists>x db'. m db = Inr (x, db'))"

definition finishes :: "string \<Rightarrow> 'a step \<Rightarrow> bool" where
  "finishes r m \<longleftrightarrow> (\<forall>db. \<not> has_dossier r db \<longrightarrow> (\<exists>x db'. m db = Inr (x, db')))"

lemma never_raises_bind: "never_raises m \<Longrightarrow> (\<And>x. never_raises (k x)) \<Longrightarrow> never_raises (bindT m k)"
  unfolding never_raises_def bindT_def by (metis bindE_Inr old.prod.case)

lemma never_raises_return: "never_raises (returnT x)"
  by (simp add: never_raises_def returnT_def)

lemma never_raises_prod: "(\<And>a b. never_raises (k a b)) \<Longrightarrow> never_raises (case p of (a, b) \<Rightarrow> k a b)"
  by (cases p) simp

lemma finishes_bind:
  assumes "never_raises m" "preserves db_dossiers m" "\<And>x. finishes r (k x)"
  shows "finishes r (bindT m k)"
  unfolding finishes_def
proof (intro allI impI)
  fix db assume n: "\<not> has_dossier r db"
  obtain x db1 where m: "m db = Inr (x, db1)" using assms(1) unfolding never_raises_def by blast
  have "\<not> has_dossier r db1" using n preservesD [OF assms(2) m] by (simp add: has_dossier_def)
  then obtain y db' where "k x db1 = Inr (y, db')" using assms(3) unfolding finishes_def by blast
  then show "\<exists>y db'. bindT m k db = Inr (y, db')" using m by (auto simp: bindT_Inr)
qed

lemma finishes_prod: "(\<And>a b. finishes r (k a b)) \<Longrightarrow> finishes r (case p of (a, b) \<Rightarrow> k a b)"
  by (cases p) simp

lemma finishes_dossier: "ds_run d = r \<Longrightarrow> (\<And>x. never_raises (k x)) \<Longrightarrow> finishes r (bindT (insert_dossier env d) k)"
  unfolding finishes_def
proof (intro allI impI)
  fix db assume d: "ds_run d = r" and k: "\<And>x. never_raises (k x)" and n: "\<not> has_dossier r db"
  have "insert_dossier env d db = Inr (ren_id env (db_next db), db\<lparr>db_next := Suc (db_next db), db_dossiers := db_dossiers db @ [d\<lparr>ds_id := ren_id env (db_next db)\<rparr>]\<rparr>)"
    using n d by (auto simp: insert_dossier_def has_dossier_def list_ex_iff draw_def Let_def image_iff)
  then show "\<exists>y db'. bindT (insert_dossier env d) k db = Inr (y, db')"
    using k [of "ren_id env (db_next db)"] by (auto simp: bindT_Inr never_raises_def)
qed

lemma complete_run_plain: "never_raises (complete_run env t r u es cs ks dd b)"
  unfolding never_raises_def
proof
  fix db
  have n: "\<not> active_state RunCompleted" by (simp add: active_state_def)
  show "\<exists>x db'. complete_run env t r u es cs ks dd b db = Inr (x, db')"
  proof (cases "find_run t r db")
    case (Some x)
    let ?f = "\<lambda>x. x\<lparr>rr_usage := u, rr_evidence := es, rr_candidates := cs, rr_canonical := ks, rr_dossier := Some dd,
      rr_batch := Some b, rr_updated := ren_now env\<rparr>"
    show ?thesis using set_state_runs [OF Some, of RunCompleted ?f] n by (auto simp: complete_run_def)
  qed (simp add: complete_run_def set_state_def)
qed

lemma row_steps_plain:
  "never_raises (insert_evidence env ev)" "never_raises (insert_candidate env f cc)"
  "never_raises (create_admission_batch env p cs)" "never_raises (decide_batch b v)" "never_raises (link_evidence t r ee)"
  "never_raises (completed_event env r pl)" "never_raises (reject_candidate env i rs)" "never_raises (insert_canonical env kk)"
  by (auto simp: never_raises_def insert_evidence_def insert_candidate_def create_admission_batch_def decide_batch_def link_evidence_def
      completed_event_def reject_candidate_def insert_canonical_def Let_def split: option.splits prod.splits)

lemmas plain_steps = row_steps_plain complete_run_plain

lemma decide_fact_plain: "never_raises (decide_fact env cid c e eid bid d)"
proof -
  have "never_raises (admit env i k reason)" for i k reason
    unfolding admit_def by (intro never_raises_bind plain_steps never_raises_prod) (simp add: never_raises_def Let_def)
  then have "never_raises (admit_candidate env cid c e eid bid k)" for k by (simp add: admit_candidate_def)
  then show ?thesis unfolding decide_fact_def
    by (simp add: never_raises_bind never_raises_prod never_raises_return plain_steps)
qed

definition object_fits :: "wb_observation \<Rightarrow> research_db \<Rightarrow> bool" where
  \<comment> \<open>no object of the source with this content was stored under another key\<close>
  "object_fits x db \<longleftrightarrow> (\<forall>o'\<in>set (db_objects db). so_source o' = wo_source_id x \<and> so_hash o' = wo_content_hash x \<longrightarrow> so_key o' = retrieval_key x)"

lemma object_stored: "object_fits x db \<Longrightarrow> \<exists>i db1. upsert_source_object env source x db = Inr (i, db1)"
  by (auto simp: object_fits_def upsert_source_object_def insert_object_def list_ex_iff find_None_iff Let_def split: option.splits prod.splits)

lemma finishes_after:
  "m db = Inr (i, db1) \<Longrightarrow> \<not> has_dossier r db1 \<Longrightarrow> finishes r (k i) \<Longrightarrow> \<exists>y db'. bindT m k db = Inr (y, db')"
  by (auto simp: finishes_def bindT_Inr)

lemma wb_completion_succeeds:
  assumes "object_fits x db" "\<not> has_dossier r db"
  shows "\<exists>claim db'. wb_completion env t r source x e c d db = Inr (claim, db')"
proof -
  obtain i db1 where s: "upsert_source_object env source x db = Inr (i, db1)" using object_stored [OF assms(1)] by blast
  have n: "\<not> has_dossier r db1" using assms(2) dossiers_kept(8) [OF s] by (simp add: has_dossier_def)
  show ?thesis
    unfolding wb_completion_def upsert_evidence_def upsert_candidate_def
    by (rule finishes_after [where m = "upsert_source_object env source x", OF _ n], rule s)
      (intro finishes_bind finishes_prod finishes_dossier never_raises_bind never_raises_return plain_steps decide_fact_plain
        dossier_steps more_dossier_steps; simp add: wb_dossier_def)
qed

lemma worker_moves:
  assumes "one_run t r db" "find_run t r db = Some x" "may_enter t x db" "Some s \<in> under_way"
  obtains db' y where "transition_run env t r s db = (Inr (), db')" "one_run t r db'" "find_run t r db' = Some y" "may_enter t y db'"
    "db_dossiers db' = db_dossiers db" "db_objects db' = db_objects db"
proof -
  obtain db' where m: "transition_run env t r s db = (Inr (), db')" "one_run t r db'" "run_state t r db' = Some s"
    "db_dossiers db' = db_dossiers db" "db_objects db' = db_objects db"
    using transition_once [OF assms(1,2), of s env] assms(3) by blast
  obtain y where y: "find_run t r db' = Some y" using run_state_found [OF m(3)] by blast
  have "may_enter t y db'" using under_way_may_enter [OF _ y] m(3) assms(4) by simp
  with m y show ?thesis by (intro that)
qed

definition calendar_year :: "string \<Rightarrow> bool" where
  \<comment> \<open>\<^verbatim>\<open>int(period)\<close> is a year of \<^verbatim>\<open>datetime\<close>\<close>
  "calendar_year period \<longleftrightarrow> (case parse_int period of Some y \<Rightarrow> 1 \<le> y \<and> y \<le> 9999 | None \<Rightarrow> False)"

lemma calendar_year_builds:
  assumes "calendar_year period"
  shows "\<exists>e c. build_world_bank_inflation_artifacts opportunity period value hash = Inr (e, c)"
proof -
  obtain y where "parse_int period = Some y" "1 \<le> y" "y \<le> 9999" using assms by (auto simp: calendar_year_def split: option.splits)
  then show ?thesis by (simp add: build_world_bank_inflation_artifacts_def datetime_year_def Let_def)
qed

lemma healthy_job:
  assumes ok: "research_ok ids db" and found: "find_run (rj_tenant j) (rj_run j) db = Some run"
    and s: "rr_state run \<noteq> RunCompleted" "\<not> has_dossier (rj_run j) db" "may_enter (rj_tenant j) run db"
    and src: "rj_source j = wb_source_id" "get_source wb_source_id db = Some source" "block_reason source wb_source_id = None"
    and x: "fetch_latest_inflation (io_wb io) (io_get io) (io_clock io 1) = Inr x" "object_fits x db" "calendar_year (wo_period x)"
  shows "fst (process_research env io j db) = Inr ()
    \<and> (\<exists>y e c. find_run (rj_tenant j) (rj_run j) (snd (process_research env io j db)) = Some y \<and> rr_state y = RunCompleted
        \<and> build_world_bank_inflation_artifacts (rr_opportunity run) (wo_period x) (wo_value x) (wo_content_hash x) = Inr (e, c)
        \<and> (rr_canonical y \<noteq> [] \<longleftrightarrow> fact_reasons source e c (io_clock io 4) = []))"
proof -
  obtain e c where art: "build_world_bank_inflation_artifacts (rr_opportunity run) (wo_period x) (wo_value x) (wo_content_hash x) = Inr (e, c)"
    using calendar_year_builds [OF x(3)] by blast
  let ?t = "rj_tenant j" and ?r = "rj_run j" and ?d = "evaluate_observed_fact source e c (io_clock io 4)"
  have s': "Some RunRetrieving \<in> under_way" "Some RunProposing \<in> under_way" "Some RunAdmissionPending \<in> under_way"
    by (simp_all add: under_way_def)
  obtain db1 x1 where d1: "transition_run (at_time env io 0) ?t ?r RunRetrieving db = (Inr (), db1)" "one_run ?t ?r db1"
    "find_run ?t ?r db1 = Some x1" "may_enter ?t x1 db1" "db_dossiers db1 = db_dossiers db" "db_objects db1 = db_objects db"
    by (rule worker_moves [OF research_ok_one [OF ok found] found s(3) s'(1)])
  obtain db2 x2 where d2: "transition_run (at_time env io 2) ?t ?r RunProposing db1 = (Inr (), db2)" "one_run ?t ?r db2"
    "find_run ?t ?r db2 = Some x2" "may_enter ?t x2 db2" "db_dossiers db2 = db_dossiers db1" "db_objects db2 = db_objects db1"
    by (rule worker_moves [OF d1(2-4) s'(2)])
  obtain db3 z where d3: "transition_run (at_time env io 3) ?t ?r RunAdmissionPending db2 = (Inr (), db3)"
    "find_run ?t ?r db3 = Some z" "db_dossiers db3 = db_dossiers db2" "db_objects db3 = db_objects db2"
    by (rule worker_moves [OF d2(2-4) s'(3)])
  have "object_fits x db3" "\<not> has_dossier ?r db3"
    using s(2) x(2) d1(5,6) d2(5,6) d3(3,4) by (simp_all add: object_fits_def has_dossier_def)
  then obtain claim db' where fin: "wb_completion (at_time env io 5) ?t ?r source x e c ?d db3 = Inr (claim, db')"
    using wb_completion_succeeds by blast
  have "complete_world_bank_run (at_time env io 5) ?t ?r source x e c ?d db3 = (Inr claim, db')"
    using d3(2) fin by (simp add: complete_world_bank_run_def in_transaction_def)
  then have "process_world_bank env io j run source db = (Inr (), db')"
    using d1(1) d2(1) d3(1) x(1) art by (simp add: process_world_bank_def thenD_def)
  then have "process_research env io j db = (Inr (), db')"
    using found s(1) src by (simp add: process_research_def wb_source_id_def ted_source_id_def)
  moreover obtain y where "find_run ?t ?r db' = Some y" "completed_from z y" "rr_canonical y \<noteq> [] \<longleftrightarrow> fa_admitted ?d"
    using wb_completion_row [OF d3(2) fin] by blast
  ultimately show ?thesis using art by (auto simp: completed_from_def evaluate_observed_fact_def Let_def)
qed

text \<open>C4: On consistent tables, the World Bank job of a run that is not completed and has no dossier succeeds when: the run is
  active or its tenant is not on trial or has a free slot; the source is registered and no block reason applies to it; the connector returns
  an observation; the period of that observation is a year from 1 to 9999; and no object of the source with the same content is stored under
  another key. The worker returns, the run ends COMPLETED, the artifacts of the observation are built, and the run has a canonical claim
  exactly when the admission policy has no reason against them.\<close>

theorem world_bank_job_completes:
  assumes ok: "research_ok ids db" and found: "find_run (rj_tenant j) (rj_run j) db = Some run"
    and s: "rr_state run \<noteq> RunCompleted" "\<not> has_dossier (rj_run j) db" "may_enter (rj_tenant j) run db"
    and src: "rj_source j = wb_source_id" "get_source wb_source_id db = Some source" "block_reason source wb_source_id = None"
    and x: "fetch_latest_inflation (io_wb io) (io_get io) (io_clock io 1) = Inr x" "object_fits x db" "calendar_year (wo_period x)"
  shows "fst (process_research env io j db) = Inr ()
    \<and> (\<exists>y e c. find_run (rj_tenant j) (rj_run j) (snd (process_research env io j db)) = Some y \<and> rr_state y = RunCompleted
        \<and> build_world_bank_inflation_artifacts (rr_opportunity run) (wo_period x) (wo_value x) (wo_content_hash x) = Inr (e, c)
        \<and> (rr_canonical y \<noteq> [] \<longleftrightarrow> fact_reasons source e c (io_clock io 4) = []))"
  by (rule healthy_job [OF assms])

definition sample_payload :: pyval where
  "sample_payload = PList [PDict [(''lastupdated'', PStr ''2026-01-01'')],
     PList [PDict [(''countryiso3code'', PStr wb_country), (''indicator'', PDict [(''id'', PStr wb_indicator), (''value'', PStr ''Inflation'')]),
       (''country'', PDict [(''value'', PStr ''Russian Federation'')]), (''date'', PStr ''2023''), (''value'', PFloat ''7.4'')]]]"

lemma sample_fetch:
  "\<exists>x. fetch_latest_inflation (io_wb (sample_io (Some (Inr sample_payload)))) (io_get (sample_io (Some (Inr sample_payload)))) n = Inr x
     \<and> wo_period x = ''2023''"
  by (simp add: fetch_latest_inflation_def sample_io_def sample_payload_def wb_from_payload_def wb_observe_def admitted_row_def lookup_def
      float_text_def is_number_def py_str_def)

lemma sample_period_year: "calendar_year ''2023''"
proof -
  have "parse_int ''2023'' = Some 2023" by code_simp
  then show ?thesis by (simp add: calendar_year_def)
qed

lemma sample_empty: "db_objects (sample_db t) = []" "\<not> has_dossier r (sample_db t)"
  by (simp_all add: sample_simps has_dossier_def)

lemma sample_ready:
  assumes "io = sample_io (Some (Inr sample_payload))"
  obtains run x where "find_run t (unary_id 0) (sample_db t) = Some run" "rr_state run \<noteq> RunCompleted" "may_enter t run (sample_db t)"
    "fetch_latest_inflation (io_wb io) (io_get io) (io_clock io 1) = Inr x" "object_fits x (sample_db t)" "calendar_year (wo_period x)"
proof -
  obtain run where run: "find_run t (unary_id 0) (sample_db t) = Some run" "rr_state run = RunQueued" using sample_run [of t] by auto
  obtain x where x: "fetch_latest_inflation (io_wb io) (io_get io) (io_clock io 1) = Inr x" "wo_period x = ''2023''"
    unfolding assms using sample_fetch by blast
  show ?thesis
    by (rule that [OF run(1) _ _ x(1)])
      (use run(2) x(2) sample_period_year sample_empty in \<open>simp_all add: may_enter_def active_state_def object_fits_def\<close>)
qed

theorem world_bank_job_completes_witness:
  "(let m = process_research sample_env (sample_io (Some (Inr sample_payload))) (sample_job ''t'') (sample_db ''t'') in
    fst m = Inr () \<and> run_state ''t'' (unary_id 0) (snd m) = Some RunCompleted)"
proof -
  let ?io = "sample_io (Some (Inr sample_payload))"
  obtain run x where r: "find_run ''t'' (unary_id 0) (sample_db ''t'') = Some run" "rr_state run \<noteq> RunCompleted"
    "may_enter ''t'' run (sample_db ''t'')" "fetch_latest_inflation (io_wb ?io) (io_get ?io) (io_clock ?io 1) = Inr x"
    "object_fits x (sample_db ''t'')" "calendar_year (wo_period x)" by (rule sample_ready [OF refl])
  show ?thesis
    using world_bank_job_completes [OF sample_db_ok [of "''t''"], where j = "sample_job ''t''" and run = run and env = sample_env and io = ?io
        and x = x and source = sample_source] r sample_empty sample_registry(2) sample_registry(1) [of "''t''"]
    by (auto simp: sample_job_fields Let_def run_state_def)
qed

section \<open>A second worker\<close>

lemma completed_dossier:
  assumes ok: "research_ok ids db" and found: "find_run t r db = Some x" and s: "rr_state x = RunCompleted"
  shows "has_dossier r db"
proof -
  have "run_ok db x" using research_okD(6) [OF ok] find_run_visible [OF found] by (auto simp: runs_ok_def)
  then show ?thesis
    using s find_run_visible [OF found] by (auto simp: run_ok_def has_dossier_def visible_def image_iff)
      metis
qed

text \<open>C38: Delivery is at least once and a worker checks the state of a run only before it starts. A worker of any source that had read the run
  before another one completed it makes its next transition on the completed run (of consistent tables, with identifiers never drawn twice). The transition is refused, with nothing changed,
  exactly when the run's tenant is on trial without a free slot. Otherwise it succeeds and takes the completed run back to a state under
  way; and from there no sequence of transactions of the research API, its publishers and the research workers of any tenant completes the run again: it
  stays RETRIEVING, PROPOSING, ADMISSION_PENDING or FAILED, although its dossier is in the table.\<close>

theorem late_worker_reopens_run:
  assumes ok: "research_ok (ren_id env) db" and ids: "inj (ren_id env)"
    and found: "find_run t r db = Some x" and s: "rr_state x = RunCompleted" and late: "Some state \<in> under_way"
  shows "case transition_run env t r state db of
      (Inl e, d) \<Rightarrow> e = trial_exhausted \<and> d = db \<and> has_room t db = False
    | (Inr _, d) \<Rightarrow> has_room t db \<and> run_state t r d = Some state
        \<and> {q. (\<lambda>a b. \<exists>t. research_step (ren_id env) t a b)\<^sup>*\<^sup>* d q} \<subseteq> {q. has_dossier r q \<and> run_state t r q \<in> insert (Some RunFailed) under_way}"
proof -
  have room: "may_enter t x db \<longleftrightarrow> has_room t db" using s by (simp add: may_enter_def active_state_def)
  show ?thesis
  proof (cases "has_room t db")
    case False
    then show ?thesis using transition_refused [OF found under_way_active [OF late]] room by simp
  next
    case True
    then obtain d where d: "transition_run env t r state db = (Inr (), d)" "run_state t r d = Some state" "db_dossiers d = db_dossiers db"
      using transition_once [OF research_ok_one [OF ok found] found, of state env] room by blast
    have "state \<in> {RunRetrieving, RunProposing, RunAdmissionPending}" using late by (auto simp: under_way_def)
    from research_step_ok [OF research_step.moved [OF refl this, of env t db r] ok ids] d(1)
    have "research_ok (ren_id env) d" by (simp add: kept_step_def)
    moreover have "reopened t r d"
      using d(2,3) late completed_dossier [OF ok found s] by (simp add: reopened_def has_dossier_def)
    ultimately have "reopened t r q" if "(\<lambda>a b. \<exists>t. research_step (ren_id env) t a b)\<^sup>*\<^sup>* d q" for q
      using reopened_steps [OF that _ ids] by blast
    then show ?thesis using d True by (auto simp: reopened_def)
  qed
qed

lemma sample_completed_run:
  obtains db x where "research_ok unary_id db" "find_run ''t'' (unary_id 0) db = Some x" "rr_state x = RunCompleted" "has_room ''t'' db"
proof -
  let ?io = "sample_io (Some (Inr sample_payload))"
  let ?db = "snd (process_research sample_env ?io (sample_job ''t'') (sample_db ''t''))"
  obtain run x where r: "find_run ''t'' (unary_id 0) (sample_db ''t'') = Some run" "rr_state run \<noteq> RunCompleted"
    "may_enter ''t'' run (sample_db ''t'')" "fetch_latest_inflation (io_wb ?io) (io_get ?io) (io_clock ?io 1) = Inr x"
    "object_fits x (sample_db ''t'')" "calendar_year (wo_period x)" by (rule sample_ready [OF refl])
  obtain y where y: "find_run ''t'' (unary_id 0) ?db = Some y" "rr_state y = RunCompleted"
    using healthy_job [OF sample_db_ok [of "''t''"], where j = "sample_job ''t''" and run = run and env = sample_env and io = ?io
        and x = x and source = sample_source] r sample_empty sample_registry(2) sample_registry(1) [of "''t''"]
    by (auto simp: sample_job_fields)
  let ?q = "?db\<lparr>db_accounts := []\<rparr>"
  have "research_ok unary_id ?db"
    using research_steps_ok [OF tenant_steps [OF process_steps [of sample_env "sample_job ''t''" "sample_db ''t''" ?io]]] sample_db_ok unary_id_inj
    by (simp add: kept_step_def)
  then have "research_ok unary_id ?q" using accounts_ok by (simp add: kept_step_def)
  moreover have "has_room ''t'' ?q" by (simp add: has_room_def trial_account_of_def)
  ultimately show ?thesis using y that [of ?q] by simp
qed

theorem late_worker_reopens_run_witness:
  "\<exists>db x d. find_run ''t'' (unary_id 0) db = Some x \<and> rr_state x = RunCompleted
    \<and> transition_run sample_env ''t'' (unary_id 0) RunProposing db = (Inr (), d) \<and> run_state ''t'' (unary_id 0) d = Some RunProposing"
proof -
  obtain db x where d: "research_ok unary_id db" "find_run ''t'' (unary_id 0) db = Some x" "rr_state x = RunCompleted" "has_room ''t'' db"
    by (rule sample_completed_run)
  have "Some RunProposing \<in> under_way" by (simp add: under_way_def)
  from late_worker_reopens_run [of sample_env db "''t''" "unary_id 0" x RunProposing, OF _ _ d(2,3) this] d(1,4) unary_id_inj
  show ?thesis using d(2,3)
    by (cases "transition_run sample_env ''t'' (unary_id 0) RunProposing db") (auto split: sum.splits)
qed

end
