(* ===== verification/Spec2Isabelle.thy ===== *)
theory Spec2Isabelle
  imports Prelude Interfaces PyText PyData PyDate Sha256 ProcurementDomain ContactPolicy XmlTree
    TedEforms AdmissionRehearsal LifecycleNotices LifecycleSamples Lifecycle PyRegex DocumentProposals
    PyJson AdmissionQueue AdmissionPolicy AdmissionFacts NumberSentence AdmissionLedger AdmissionRuntime
    AdmissionSamples AdmissionGuarantees ApprovalRenewal ObjectStore Base64Text JsonText
    SignedTokens Identity TokenLedger TokenBudget Entitlements UsageFlow Scheduler SchedulerSafety SchedulerService
    TedSearch TedArtifacts WorldBank ResearchStore TedStore ResearchWorker ResearchLedger ResearchSteps ResearchSafety
    ResearchGuarantees
begin

text \<open>
  The evidence core of AXIGNAL: what the Python API under \<^verbatim>\<open>apps/api/src/axignal_api\<close> accepts, proposes,
  admits and records, who may use it, what that use costs and what runs in the background, as definitions
  that compute and theorems about them.

  \<^bold>\<open>The parts and how they meet.\<close> Public notices and institutional documents enter as bytes or as the answer of
  a search service. The eForms parsers turn notices into records and candidate claims; a rehearsal decides the
  claims and commits them to an idempotent store; a procedure is assembled from several notices with its
  lineage, evidence, events and dossier. Institutional documents are cut into fragments, scanned for injected
  instructions and handed to a model that may only propose; a handoff package travels through an outbox and a
  queue to the admission runtime, which reads everything again, rederives the proposed figure from the quoted
  text and alone may write a canonical claim. A request carries an identity assertion and a capability token;
  the seat decision, the entitlement and the token budget gate it, and a ledger books what it reserves and
  uses. A research run is a question of a tenant that an admitted source may answer: the API writes it with an outbox
  event, a publisher queues the job, a worker fetches the source and completes the run with evidence, canonical
  claims and a dossier in one transaction. A scheduler keeps maintenance jobs in tables, publishes them to a queue and runs them under leases.

  \<^bold>\<open>Python.\<close> \<^verbatim>\<open>Prelude\<close> has the result type (a value or one of the exceptions the code raises), its
  sequencing and the lemma collections; \<^verbatim>\<open>Interfaces\<close> the contracts that several components rely on as
  locales: an idempotent store, a queue, a content store and a table with a unique key. \<^verbatim>\<open>PyText\<close> models the string methods the code
  calls on Latin-1 text, \<^verbatim>\<open>PyData\<close> dictionaries and JSON text with its canonical form, \<^verbatim>\<open>PyJson\<close> reading of
  untyped JSON values (subscripts, get, iteration, equality, UUID) with the TypeError and AttributeError
  each can raise, \<^verbatim>\<open>PyDate\<close> calendar dates, \<^verbatim>\<open>PyRegex\<close> the regular expressions of the scanner, \<^verbatim>\<open>Sha256\<close>
  the digest over 32 bit words. \<^verbatim>\<open>XmlTree\<close> has element trees and the path steps the parsers use.
  \<^verbatim>\<open>Base64Text\<close> has the URL-safe encoding with its round trip and \<^verbatim>\<open>JsonText\<close> a JSON reader with the proof that
  it reads back what the writer produced.

  \<^bold>\<open>Procurement.\<close> \<^verbatim>\<open>ProcurementDomain\<close> models \<^verbatim>\<open>procurement_domain.py\<close>: one record and one validator per
  pydantic model; its lemmas say exactly which channels, clarifications and audit events are accepted.
  \<^verbatim>\<open>ContactPolicy\<close> models \<^verbatim>\<open>o01_contact_policy.py\<close> and \<^verbatim>\<open>ApprovalRenewal\<close> \<^verbatim>\<open>o01_approval_renewal.py\<close>: when a
  recorded authority is in force, and which differences of a deployment count as material. \<^verbatim>\<open>TedEforms\<close> models
  \<^verbatim>\<open>connectors/ted_eforms.py\<close> with what a parsed notice satisfies. \<^verbatim>\<open>AdmissionRehearsal\<close> models
  \<^verbatim>\<open>procurement_admission_rehearsal.py\<close>: its store interprets the idempotent store contract and refines an
  abstract log. \<^verbatim>\<open>LifecycleNotices\<close>, \<^verbatim>\<open>LifecycleSamples\<close> and \<^verbatim>\<open>Lifecycle\<close> model
  \<^verbatim>\<open>procurement_lifecycle_rehearsal.py\<close>: parsing of change and result notices, lineage (an equivalence
  with a declarative order, independence of the input order), evidence, events, dossier and the run.
  \<^verbatim>\<open>TedSearch\<close> models \<^verbatim>\<open>connectors/ted.py\<close> (request, response checks, projection) and \<^verbatim>\<open>TedArtifacts\<close>
  \<^verbatim>\<open>ted_runtime.py\<close> (evidence and candidates per field, admission gates); the HTTP client and the fixture reader
  are given by what they return.

  \<^bold>\<open>Documents and admission.\<close> \<^verbatim>\<open>DocumentProposals\<close> models \<^verbatim>\<open>document_proposals.py\<close>: whatever the gateway
  answers, the pipeline only proposes. \<^verbatim>\<open>AdmissionQueue\<close> models \<^verbatim>\<open>admission_queue.py\<close> and
  \<^verbatim>\<open>admission_outbox_store.py\<close>; the queue interprets the queue contract. \<^verbatim>\<open>AdmissionPolicy\<close> (handoff and
  source gates), \<^verbatim>\<open>AdmissionFacts\<close> (candidate and evidence binding, the rederivation) and
  \<^verbatim>\<open>AdmissionLedger\<close> (tables, the decision transaction, failures, the worker step) model the files
  \<^verbatim>\<open>admission_*.py\<close>; \<^verbatim>\<open>NumberSentence\<close> says what the number pattern matches, \<^verbatim>\<open>AdmissionRuntime\<close> proves what
  the gates leave and what a job keeps, \<^verbatim>\<open>AdmissionSamples\<close> evaluates one admission from package to ledger,
  and \<^verbatim>\<open>AdmissionGuarantees\<close> states the properties: justified admission, the ledger invariant over any
  sequence of jobs, replay, settled handoffs, and the behaviours that differ from what the gates announce.
  \<^verbatim>\<open>ObjectStore\<close> models \<^verbatim>\<open>object_store.py\<close>: the memory store and the file store interpret the content store
  contract, the S3 adapter is a function of its client.

  \<^bold>\<open>Research.\<close> \<^verbatim>\<open>WorldBank\<close> models \<^verbatim>\<open>connectors/world_bank.py\<close> and \<^verbatim>\<open>admission.py\<close>, down to the text of
  the float and of the decimal. \<^verbatim>\<open>ResearchStore\<close> has the tables of \<^verbatim>\<open>infra/postgres/020\<close>, \<^verbatim>\<open>030\<close>, \<^verbatim>\<open>035\<close> and
  \<^verbatim>\<open>070\<close> and the transactions of \<^verbatim>\<open>repository.py\<close> as steps that either give a value and the next database or an
  exception. Every insert and every update of the state of a run goes through the trigger of \<^verbatim>\<open>infra/postgres/123\<close>
  (\<^verbatim>\<open>set_state\<close>, \<^verbatim>\<open>trial_guard\<close>), which counts the active runs of a tenant on trial in its account and refuses one beyond its
  limit; changes of those accounts by other transactions are a step of their own. \<^verbatim>\<open>TedStore\<close> has the transactions of \<^verbatim>\<open>ted_repository.py\<close>; \<^verbatim>\<open>ResearchWorker\<close> models \<^verbatim>\<open>queue.py\<close>, \<^verbatim>\<open>worker.py\<close>, the
  views and the routes. \<^verbatim>\<open>ResearchLedger\<close> interprets the contract of a table with a unique key for evidence,
  candidates and canonical claims and proves what each step keeps of the invariant, \<^verbatim>\<open>ResearchSteps\<close> has the step
  relation of the API, the publisher and the workers, \<^verbatim>\<open>ResearchSafety\<close> what steps leave alone and how a job can end,
  and \<^verbatim>\<open>ResearchGuarantees\<close> the properties. The connector's client, the fixture reader, the message broker's failures
  and the insert guard of migration \<^verbatim>\<open>090\<close> are parameters; values a column type would refuse are not modelled, nor are
  the admission runtime's writing to the same tables and the purge of a tenant's rows by the retention worker.

  \<^bold>\<open>Access and use.\<close> \<^verbatim>\<open>SignedTokens\<close> models \<^verbatim>\<open>capability_tokens.py\<close> and the signed assertions of \<^verbatim>\<open>identity.py\<close>
  over a keyed digest that is computed, not assumed; \<^verbatim>\<open>Identity\<close> the identity a request yields, the seat decision
  of \<^verbatim>\<open>infra/postgres/110\<close> and the step-up check. \<^verbatim>\<open>TokenLedger\<close> models the tables and stored functions of
  \<^verbatim>\<open>infra/postgres/080\<close> to \<^verbatim>\<open>082\<close>: a reservation, its reconciliation, release and expiry book rows in an
  append-only ledger. The argument \<^verbatim>\<open>gates\<close> stands for the triggers of later migrations, which may refuse a row, and
  \<^verbatim>\<open>before\<close> for the order in which a query returns equal rows. \<^verbatim>\<open>TokenBudget\<close> proves that the books balance and what is
  final, \<^verbatim>\<open>Entitlements\<close> models \<^verbatim>\<open>entitlements.py\<close>, \<^verbatim>\<open>ai_scope.py\<close> and the repository, and \<^verbatim>\<open>UsageFlow\<close> proves that
  usage is recorded only with the token of its reservation and that a fresh authorisation can be settled on the ledger it leaves.

  \<^bold>\<open>Scheduler.\<close> \<^verbatim>\<open>Scheduler\<close> models \<^verbatim>\<open>infra/postgres/050\<close>, \<^verbatim>\<open>scheduler.py\<close> and \<^verbatim>\<open>scheduler_service.py\<close>: tables,
  stored functions, a queue that drops duplicates, publisher, worker and service loop over a world whose clock
  advances between transactions; \<^verbatim>\<open>order_lists\<close> is the order a query without a full ORDER BY chooses.
  \<^verbatim>\<open>SchedulerSafety\<close> proves the table invariant over arbitrary interleavings, a bound on the changes of a job and
  that a settled job is final; \<^verbatim>\<open>SchedulerService\<close> that a single service settles every due job, with a measure of the
  remaining work as the number of passes, and how an early delivery strands one.

  \<^bold>\<open>Reading of the code.\<close> Exceptions are values, a transaction that raises returns the tables it was given,
  identifiers from \<^verbatim>\<open>uuid4\<close> and the time are arguments. Tables are lists of rows in insertion order, a
  table key that the schema declares unique is a hypothesis where a property needs it. No definition uses
  fuel: loops are structural recursion or folds over finite lists; five publisher passes are enough because
  the fifth failed attempt closes an event. Code outside the repository is a parameter: the XML reader, the
  model gateway, the HTTP and S3 clients, the queue push of the publisher, the reading of time stamps.

  \<^bold>\<open>Not modelled.\<close> HTTP routes, settings, telemetry and e-mail are glue over other services. The SQL of the
  remaining repositories (proposals, seats, billing, retention, organic discovery), the in-memory research slice,
  the proposal worker, risk scoring and the reference scripts of the programme are not modelled. The verification
  scripts check documents and drive services; the web applications are TypeScript.
\<close>

end
